(* ===== verification/Prelude.thy ===== *)
theory Prelude
  imports Main "HOL-Library.Word" "HOL-Library.Sublist" "HOL-Library.Multiset"
begin

text \<open>
  Shared vocabulary of the development: the machine types, the parts of Rust's
  \<open>str\<close> and \<open>Option\<close> API the proxy uses, and generic list lemmas.

  A Rust \<open>String\<close> is a UTF-8 byte sequence and an Isabelle \<open>char\<close> is one byte, so a
  \<open>string\<close> holds the bytes of the Rust string and \<open>length\<close> is \<open>str::len\<close>.
  Operations that work on Unicode scalar values go through \<open>utf8_chars\<close>, which groups
  the bytes of each scalar value. A \<open>Bytes\<close> buffer is a list of \<open>8 word\<close>.
  A \<open>usize\<close> counter of bytes held in memory is a \<open>nat\<close>; \<open>saturating_sub\<close> is the
  subtraction of \<open>nat\<close>.
\<close>

named_theorems invariant_intro \<open>preservation lemmas of the component invariants\<close>
named_theorems string_simps \<open>evaluation of the string operations\<close>

type_synonym byte = "8 word"
type_synonym u16 = "16 word"
type_synonym u32 = "32 word"
type_synonym u64 = "64 word"
type_synonym bytes = "byte list"

definition usize_max :: nat where
  "usize_max = 2 ^ 64 - 1"

abbreviation char_code :: "char \<Rightarrow> nat" where
  "char_code c \<equiv> of_char c"

text \<open>A call that may panic.\<close>

datatype 'a or_panic = Returns 'a | Panic

fun bind_panic :: "'a or_panic \<Rightarrow> ('a \<Rightarrow> 'b or_panic) \<Rightarrow> 'b or_panic" where
  "bind_panic (Returns x) f = f x"
| "bind_panic Panic f = Panic"

fun collect_panic :: "'a or_panic list \<Rightarrow> 'a list or_panic" where
  "collect_panic [] = Returns []"
| "collect_panic (x # xs) = bind_panic x (\<lambda>y. bind_panic (collect_panic xs) (\<lambda>ys. Returns (y # ys)))"

section \<open>Bytes and strings\<close>

definition byte_of_char :: "char \<Rightarrow> byte" where
  "byte_of_char c = word_of_nat (of_char c)"

definition char_of_byte :: "byte \<Rightarrow> char" where
  "char_of_byte b = char_of (unat b)"

definition bytes_of_string :: "string \<Rightarrow> bytes" where
  "bytes_of_string s = map byte_of_char s"

definition string_of_bytes :: "bytes \<Rightarrow> string" where
  "string_of_bytes bs = map char_of_byte bs"

lemma char_of_byte_of_char [simp]: "char_of_byte (byte_of_char c) = c"
  by (simp add: char_of_byte_def byte_of_char_def unat_of_nat of_char_mod_256)

lemma byte_of_char_of_byte [simp]: "byte_of_char (char_of_byte b) = b"
proof -
  have "unat b < 2 ^ LENGTH(8)" by (rule unsigned_less)
  then show ?thesis by (simp add: char_of_byte_def byte_of_char_def)
qed

lemma string_of_bytes_of_string [simp]: "string_of_bytes (bytes_of_string s) = s"
  by (simp add: string_of_bytes_def bytes_of_string_def comp_def)

lemma bytes_of_string_of_bytes [simp]: "bytes_of_string (string_of_bytes b) = b"
  by (simp add: string_of_bytes_def bytes_of_string_def comp_def)

lemma length_bytes_of_string [simp]: "length (bytes_of_string s) = length s"
  by (simp add: bytes_of_string_def)

lemma length_string_of_bytes [simp]: "length (string_of_bytes b) = length b"
  by (simp add: string_of_bytes_def)

section \<open>ASCII case\<close>

definition ascii_lower :: "char \<Rightarrow> char" where
  "ascii_lower c = (let n = char_code c in
     if 65 \<le> n \<and> n \<le> 90 then char_of (n + 32) else c)"

definition to_ascii_lowercase :: "string \<Rightarrow> string" where
  "to_ascii_lowercase s = map ascii_lower s"

definition eq_ignore_ascii_case :: "string \<Rightarrow> string \<Rightarrow> bool" where
  "eq_ignore_ascii_case a b \<longleftrightarrow> to_ascii_lowercase a = to_ascii_lowercase b"

lemma ascii_lower_idem [simp]: "ascii_lower (ascii_lower c) = ascii_lower c"
  by (auto simp: ascii_lower_def Let_def)

lemma to_ascii_lowercase_idem [simp]:
  "to_ascii_lowercase (to_ascii_lowercase s) = to_ascii_lowercase s"
  by (simp add: to_ascii_lowercase_def comp_def)

lemma length_to_ascii_lowercase [simp]: "length (to_ascii_lowercase s) = length s"
  by (simp add: to_ascii_lowercase_def)

lemma eq_ignore_ascii_case_refl [simp]: "eq_ignore_ascii_case s s"
  by (simp add: eq_ignore_ascii_case_def)

lemma eq_ignore_ascii_case_sym: "eq_ignore_ascii_case a b \<longleftrightarrow> eq_ignore_ascii_case b a"
  by (auto simp: eq_ignore_ascii_case_def)

lemma eq_ignore_ascii_case_lower [simp]:
  "eq_ignore_ascii_case a (to_ascii_lowercase b) = eq_ignore_ascii_case a b"
  "eq_ignore_ascii_case (to_ascii_lowercase a) b = eq_ignore_ascii_case a b"
  by (simp_all add: eq_ignore_ascii_case_def)

section \<open>Searching and splitting\<close>

fun find_str :: "string \<Rightarrow> string \<Rightarrow> nat option" where
  "find_str pat [] = (if pat = [] then Some 0 else None)"
| "find_str pat (c # cs) =
     (if prefix pat (c # cs) then Some 0 else map_option Suc (find_str pat cs))"

definition contains_str :: "string \<Rightarrow> string \<Rightarrow> bool" where
  "contains_str s pat \<longleftrightarrow> find_str pat s \<noteq> None"

lemma contains_str_sublist: "contains_str s p \<longleftrightarrow> sublist p s"
proof -
  have "find_str p s \<noteq> None \<longleftrightarrow> sublist p s"
    by (induction s) (auto simp: sublist_Cons_right)
  then show ?thesis by (simp add: contains_str_def)
qed

abbreviation starts_with :: "string \<Rightarrow> string \<Rightarrow> bool" where
  "starts_with s p \<equiv> prefix p s"

definition strip_prefix :: "string \<Rightarrow> string \<Rightarrow> string option" where
  "strip_prefix s p = (if prefix p s then Some (drop (length p) s) else None)"

fun split_once :: "char \<Rightarrow> string \<Rightarrow> (string \<times> string) option" where
  "split_once d [] = None"
| "split_once d (c # cs) =
     (if c = d then Some ([], cs)
      else map_option (\<lambda>(a, b). (c # a, b)) (split_once d cs))"

definition rsplit_once :: "char \<Rightarrow> string \<Rightarrow> (string \<times> string) option" where
  "rsplit_once d s = map_option (\<lambda>(a, b). (rev b, rev a)) (split_once d (rev s))"

fun split_char :: "char \<Rightarrow> string \<Rightarrow> string list" where
  "split_char d [] = [[]]"
| "split_char d (c # cs) =
     (if c = d then [] # split_char d cs
      else case split_char d cs of [] \<Rightarrow> [[c]] | p # ps \<Rightarrow> (c # p) # ps)"

fun join_str :: "string \<Rightarrow> string list \<Rightarrow> string" where
  "join_str sep [] = []"
| "join_str sep [x] = x"
| "join_str sep (x # y # ys) = x @ sep @ join_str sep (y # ys)"

definition trim_end_char :: "char \<Rightarrow> string \<Rightarrow> string" where
  "trim_end_char d s = rev (dropWhile (\<lambda>c. c = d) (rev s))"

definition trim_start_char :: "char \<Rightarrow> string \<Rightarrow> string" where
  "trim_start_char d s = dropWhile (\<lambda>c. c = d) s"

lemma find_str_Some:
  "find_str pat s = Some i \<Longrightarrow> i \<le> length s \<and> s = take i s @ pat @ drop (i + length pat) s"
proof (induction pat s arbitrary: i rule: find_str.induct)
  case (2 pat c cs)
  show ?case
  proof (cases "prefix pat (c # cs)")
    case True
    with "2.prems" show ?thesis by (auto simp: prefix_def)
  next
    case False
    with "2.prems" obtain j where "find_str pat cs = Some j" "i = Suc j" by auto
    with "2.IH" [OF False] show ?thesis by auto
  qed
qed (auto split: if_splits)

lemma split_once_Some: "split_once d s = Some (a, b) \<Longrightarrow> s = a @ d # b \<and> d \<notin> set a"
  by (induction s arbitrary: a) (auto split: if_splits)

lemma split_once_None [simp]: "split_once d s = None \<longleftrightarrow> d \<notin> set s"
  by (induction s) auto

lemma split_once_absent [simp]: "d \<notin> set s \<Longrightarrow> split_once d s = None"
  by simp

lemma split_once_append: "d \<notin> set a \<Longrightarrow> split_once d (a @ d # b) = Some (a, b)"
  by (induction a) auto

lemma rsplit_once_Some: "rsplit_once d s = Some (a, b) \<Longrightarrow> s = a @ d # b \<and> d \<notin> set b"
proof -
  assume "rsplit_once d s = Some (a, b)"
  then have "split_once d (rev s) = Some (rev b, rev a)"
    by (auto simp: rsplit_once_def)
  from split_once_Some [OF this] have "rev s = rev b @ d # rev a" "d \<notin> set b" by auto
  then show ?thesis by (metis append_Cons append_Nil append_assoc rev_append rev_rev_ident rev_singleton_conv rev.simps(2))
qed

lemma rsplit_once_None [simp]: "rsplit_once d s = None \<longleftrightarrow> d \<notin> set s"
  by (simp add: rsplit_once_def)

lemma rsplit_once_absent [simp]: "d \<notin> set s \<Longrightarrow> rsplit_once d s = None"
  by simp

lemma rsplit_once_append: "d \<notin> set b \<Longrightarrow> rsplit_once d (a @ d # b) = Some (a, b)"
  by (simp add: rsplit_once_def split_once_append)

lemma split_char_not_Nil [simp]: "split_char d s \<noteq> []"
  by (cases s) (auto split: list.splits)

lemma split_char_no_sep: "\<forall>p \<in> set (split_char d s). d \<notin> set p"
  by (induction s) (auto split: list.splits)

lemma join_split_char: "join_str [d] (split_char d s) = s"
proof (induction s)
  case (Cons c cs)
  obtain p ps where "split_char d cs = p # ps" by (cases "split_char d cs") auto
  with Cons show ?case by (cases ps) auto
qed simp

lemma split_char_append_sep:
  "d \<notin> set p \<Longrightarrow> split_char d (p @ d # s) = p # split_char d s"
  by (induction p) auto

lemma split_char_single: "d \<notin> set p \<Longrightarrow> split_char d p = [p]"
  by (induction p) auto

lemma split_join_char:
  "ps \<noteq> [] \<Longrightarrow> \<forall>p \<in> set ps. d \<notin> set p \<Longrightarrow> split_char d (join_str [d] ps) = ps"
  by (induction ps rule: induct_list012) (auto simp: split_char_append_sep split_char_single)

section \<open>Numbers\<close>

definition is_ascii_digit :: "char \<Rightarrow> bool" where
  "is_ascii_digit c \<longleftrightarrow> 48 \<le> char_code c \<and> char_code c \<le> 57"

definition digits_value :: "string \<Rightarrow> nat" where
  "digits_value ds = foldl (\<lambda>n c. 10 * n + (char_code c - 48)) 0 ds"

text \<open>\<open>str::parse\<close> at an unsigned type of \<open>w\<close> bits: an optional plus sign, then one or
  more ASCII digits whose value fits.\<close>

definition parse_unsigned :: "nat \<Rightarrow> string \<Rightarrow> nat option" where
  "parse_unsigned w s =
     (let ds = (case s of c # cs \<Rightarrow> if c = CHR ''+'' then cs else s | [] \<Rightarrow> s)
      in if ds \<noteq> [] \<and> list_all is_ascii_digit ds \<and> digits_value ds < 2 ^ w
         then Some (digits_value ds) else None)"

definition parse_u16 :: "string \<Rightarrow> u16 option" where
  "parse_u16 s = map_option word_of_nat (parse_unsigned 16 s)"

definition parse_u64 :: "string \<Rightarrow> u64 option" where
  "parse_u64 s = map_option word_of_nat (parse_unsigned 64 s)"

fun decimal :: "nat \<Rightarrow> string" where
  "decimal n = (if n < 10 then [char_of (48 + n)]
                else decimal (n div 10) @ [char_of (48 + n mod 10)])"

declare decimal.simps [simp del]

lemma digits_value_append:
  "digits_value (ds @ [c]) = 10 * digits_value ds + (char_code c - 48)"
  by (simp add: digits_value_def)

lemma decimal_not_Nil [simp]: "decimal n \<noteq> []"
  by (subst decimal.simps) simp

lemma char_code_small [simp]: "n < 256 \<Longrightarrow> char_code (char_of n) = n"
  by simp

lemma decimal_digits: "list_all is_ascii_digit (decimal n)"
proof (induction n rule: decimal.induct)
  case (1 n)
  have "is_ascii_digit (char_of (48 + n mod 10))" and "n < 10 \<Longrightarrow> is_ascii_digit (char_of (48 + n))"
    by (simp_all add: is_ascii_digit_def)
  with 1 show ?case
    by (subst decimal.simps) simp
qed

lemma digits_value_decimal [simp]: "digits_value (decimal n) = n"
proof (induction n rule: decimal.induct)
  case (1 n)
  show ?case
  proof (cases "n < 10")
    case True
    then show ?thesis by (subst decimal.simps) (simp add: digits_value_def)
  next
    case False
    with "1.IH" show ?thesis
      by (subst decimal.simps) (simp add: digits_value_append)
  qed
qed

lemma decimal_no_plus: "decimal n = c # cs \<Longrightarrow> c \<noteq> CHR ''+''"
  using decimal_digits [of n] by (auto simp: is_ascii_digit_def)

lemma parse_unsigned_decimal: "n < 2 ^ w \<Longrightarrow> parse_unsigned w (decimal n) = Some n"
proof -
  assume n: "n < 2 ^ w"
  have "(case decimal n of [] \<Rightarrow> decimal n | c # cs \<Rightarrow> if c = CHR ''+'' then cs else decimal n)
        = decimal n"
    using decimal_no_plus [of n] by (auto split: list.splits)
  with n show ?thesis
    by (simp add: parse_unsigned_def decimal_digits)
qed

lemma parse_u16_decimal [simp]: "parse_u16 (decimal (unat (p :: u16))) = Some p"
proof -
  have "unat p < 2 ^ LENGTH(16)" by (rule unsigned_less)
  then show ?thesis by (simp add: parse_u16_def parse_unsigned_decimal)
qed

lemma parse_u64_decimal [simp]: "parse_u64 (decimal (unat (p :: u64))) = Some p"
proof -
  have "unat p < 2 ^ LENGTH(64)" by (rule unsigned_less)
  then show ?thesis by (simp add: parse_u64_def parse_unsigned_decimal)
qed

section \<open>Lists\<close>

lemma find_filter: "find P (filter Q xs) = find (\<lambda>x. Q x \<and> P x) xs"
  by (induction xs) auto

lemma find_None_filter: "find P xs = None \<Longrightarrow> filter P xs = []"
  by (auto simp: find_None_iff)

lemma find_append: "find P (xs @ ys) = (case find P xs of None \<Rightarrow> find P ys | Some x \<Rightarrow> Some x)"
  by (induction xs) auto

lemma find_SomeD: "find P xs = Some x \<Longrightarrow> P x \<and> x \<in> set xs"
  by (induction xs) (auto split: if_splits)

lemma map_of_distinct_cong:
  "distinct (map fst xs) \<Longrightarrow> mset xs = mset ys \<Longrightarrow> map_of ys = map_of xs"
proof -
  assume d: "distinct (map fst xs)" and m: "mset xs = mset ys"
  then have "mset (map fst xs) = mset (map fst ys)" by simp
  with d have dy: "distinct (map fst ys)" using mset_eq_imp_distinct_iff by blast
  have "set xs = set ys" using m by (rule mset_eq_setD)
  with d dy show ?thesis by (intro map_of_inject_set [THEN iffD2]) auto
qed

lemma takeWhile_append_stop:
  "\<forall>x \<in> set xs. P x \<Longrightarrow> (case ys of [] \<Rightarrow> True | y # _ \<Rightarrow> \<not> P y) \<Longrightarrow>
   takeWhile P (xs @ ys) = xs \<and> dropWhile P (xs @ ys) = ys"
  by (induction xs) (auto split: list.splits)

lemma map_of_rev_single:
  "length (filter (\<lambda>(k', _). k' = k) xs) \<le> 1 \<Longrightarrow> map_of (rev xs) k = map_of xs k"
proof (induction xs)
  case (Cons x xs)
  show ?case
  proof (cases "fst x = k")
    case True
    with Cons.prems have "filter (\<lambda>(k', _). k' = k) xs = []" by (cases x) auto
    then have "k \<notin> fst ` set xs" by (auto simp: filter_empty_conv)
    then have "map_of (rev xs) k = None" by (simp add: map_of_eq_None_iff)
    with True show ?thesis by (cases x) (simp add: map_add_def)
  next
    case False
    with Cons.prems have "length (filter (\<lambda>(k', _). k' = k) xs) \<le> 1" by (cases x) auto
    with Cons.IH False show ?thesis by (cases x) (auto simp: map_add_def split: option.splits)
  qed
qed simp

lemma if_None_Some: "(if P then None else a) = None \<Longrightarrow> a = Some x \<Longrightarrow> P"
  by (auto split: if_splits)

lemma if_Some_Some: "(if P then None else a) = Some z \<Longrightarrow> a = Some x \<Longrightarrow> z = x"
  by (auto split: if_splits)

lemma ex_le_Suc: "(\<exists>k \<le> Suc n. P k) \<longleftrightarrow> P 0 \<or> (\<exists>k \<le> n. P (Suc k))"
proof
  assume "\<exists>k \<le> Suc n. P k"
  then obtain k where "k \<le> Suc n" "P k" by blast
  then show "P 0 \<or> (\<exists>k \<le> n. P (Suc k))" by (cases k) auto
qed auto

lemma sum_list_take_le: "sum_list (take n xs) \<le> (sum_list xs :: nat)"
proof -
  have "sum_list xs = sum_list (take n xs) + sum_list (drop n xs)"
    by (metis append_take_drop_id sum_list_append)
  then show ?thesis by simp
qed

end
