(* ===== verification/Utf8.thy ===== *)
theory Utf8
  imports Prelude
begin

text \<open>
  UTF-8 as the standard library treats it: the scalar values of a valid string
  (\<open>str::chars\<close>), validation (\<open>str::from_utf8\<close>) and lossy decoding
  (\<open>String::from_utf8_lossy\<close>), which replaces every maximal ill-formed prefix by the
  three bytes of U+FFFD. Request and response bodies are read through the lossy view.
\<close>

section \<open>Scalar values of a string\<close>

definition is_continuation :: "char \<Rightarrow> bool" where
  "is_continuation c \<longleftrightarrow> 128 \<le> char_code c \<and> char_code c < 192"

function utf8_chars :: "string \<Rightarrow> string list" where
  "utf8_chars [] = []"
| "utf8_chars (c # cs) =
     (c # takeWhile is_continuation cs) # utf8_chars (dropWhile is_continuation cs)"
  by pat_completeness auto
termination
  by (relation "measure length") (auto simp: length_dropWhile_le le_imp_less_Suc)

definition chars_count :: "string \<Rightarrow> nat" where
  "chars_count s = length (utf8_chars s)"

definition chars_take :: "nat \<Rightarrow> string \<Rightarrow> string" where
  "chars_take n s = concat (take n (utf8_chars s))"

text \<open>\<open>String::truncate\<close> panics inside a character.\<close>

definition truncate_str :: "nat \<Rightarrow> string \<Rightarrow> string or_panic" where
  "truncate_str n s =
     (if length s \<le> n then Returns s
      else if is_continuation (s ! n) then Panic else Returns (take n s))"

lemma concat_utf8_chars [simp]: "concat (utf8_chars s) = s"
  by (induction s rule: utf8_chars.induct) simp_all

lemma chars_count_le: "chars_count s \<le> length s"
proof (induction s rule: utf8_chars.induct)
  case (2 c cs)
  then show ?case
    using length_dropWhile_le [of is_continuation cs] by (simp add: chars_count_def)
qed (simp add: chars_count_def)

lemma chars_take_all: "chars_count s \<le> n \<Longrightarrow> chars_take n s = s"
  by (simp add: chars_take_def chars_count_def)

lemma dropWhile_cont_append:
  "\<forall>c \<in> set t. \<not> is_continuation c \<Longrightarrow>
   dropWhile is_continuation (s @ t) = dropWhile is_continuation s @ t"
  by (induction s) (auto simp: dropWhile_eq_self_iff)

lemma takeWhile_cont_append:
  "\<forall>c \<in> set t. \<not> is_continuation c \<Longrightarrow>
   takeWhile is_continuation (s @ t) = takeWhile is_continuation s"
  by (induction s) (auto simp: takeWhile_eq_Nil_iff)

lemma utf8_chars_append:
  "\<forall>c \<in> set t. \<not> is_continuation c \<Longrightarrow> utf8_chars (s @ t) = utf8_chars s @ utf8_chars t"
  by (induction s rule: utf8_chars.induct)
     (simp_all add: dropWhile_cont_append takeWhile_cont_append)

text \<open>A plain ASCII string is one scalar value per byte.\<close>

lemma utf8_chars_no_cont:
  "\<forall>c \<in> set s. \<not> is_continuation c \<Longrightarrow> utf8_chars s = map (\<lambda>c. [c]) s"
proof (induction s rule: utf8_chars.induct)
  case (2 c cs)
  then have "takeWhile is_continuation cs = []" "dropWhile is_continuation cs = cs"
    by (auto simp: takeWhile_eq_Nil_iff dropWhile_eq_self_iff)
  with 2 show ?case by simp
qed simp

text \<open>Every group is one lead byte followed by continuation bytes.\<close>

lemma utf8_chars_group:
  "g \<in> set (utf8_chars s) \<Longrightarrow> \<exists>c ks. g = c # ks \<and> (\<forall>k \<in> set ks. is_continuation k)"
  by (induction s rule: utf8_chars.induct) (auto dest: set_takeWhileD)

definition well_grouped :: "string list \<Rightarrow> bool" where
  "well_grouped gs \<longleftrightarrow> (\<forall>g \<in> set gs. \<exists>c ks. g = c # ks \<and> \<not> is_continuation c
      \<and> (\<forall>k \<in> set ks. is_continuation k))"

lemma utf8_chars_concat: "well_grouped gs \<Longrightarrow> utf8_chars (concat gs) = gs"
proof (induction gs)
  case (Cons g gs)
  from Cons.prems obtain c ks where g: "g = c # ks" "\<forall>k \<in> set ks. is_continuation k"
    by (auto simp: well_grouped_def)
  have rest: "concat gs = [] \<or> (\<exists>d ds. concat gs = d # ds \<and> \<not> is_continuation d)"
    using Cons.prems by (cases gs) (auto simp: well_grouped_def)
  then have "takeWhile is_continuation (ks @ concat gs) = ks
    \<and> dropWhile is_continuation (ks @ concat gs) = concat gs"
    using g(2) by (elim disjE exE) (simp_all del: concat_eq_Nil_conv)
  with Cons g show ?case by (simp add: well_grouped_def)
qed simp

lemma utf8_chars_well_grouped:
  "(case s of [] \<Rightarrow> True | c # _ \<Rightarrow> \<not> is_continuation c) \<Longrightarrow> well_grouped (utf8_chars s)"
proof (induction s rule: utf8_chars.induct)
  case (2 c cs)
  have "case dropWhile is_continuation cs of [] \<Rightarrow> True | c # _ \<Rightarrow> \<not> is_continuation c"
    using hd_dropWhile [of is_continuation cs]
    by (cases "dropWhile is_continuation cs") (auto simp del: dropWhile_eq_Nil_conv)
  from "2.IH" [OF this] "2.prems" show ?case
    by (auto simp: well_grouped_def dest: set_takeWhileD)
qed (simp add: well_grouped_def)

section \<open>Unicode white space\<close>

text \<open>The scalar values with the \<open>White_Space\<close> property, as UTF-8.\<close>

definition utf8_of_codes :: "nat list \<Rightarrow> string" where
  "utf8_of_codes ns = map char_of ns"

definition white_space :: "string set" where
  "white_space = set (map utf8_of_codes
     ([[9], [10], [11], [12], [13], [32], [194, 133], [194, 160], [225, 154, 128]]
      @ map (\<lambda>k. [226, 128, k]) [128..<139]
      @ [[226, 128, 168], [226, 128, 169], [226, 128, 175], [226, 129, 159], [227, 128, 128]]))"

definition trim_str :: "string \<Rightarrow> string" where
  "trim_str s = concat (rev (dropWhile (\<lambda>g. g \<in> white_space)
      (rev (dropWhile (\<lambda>g. g \<in> white_space) (utf8_chars s)))))"

lemma set_trim_str: "set (trim_str s) \<subseteq> set s"
proof -
  have "set (trim_str s) \<subseteq> set (concat (utf8_chars s))"
    unfolding trim_str_def set_concat set_rev
    by (intro Union_mono image_mono subsetI) (metis set_dropWhileD set_rev)
  then show ?thesis by (simp only: concat_utf8_chars)
qed

lemma ascii_white_space: "char_code c < 128 \<Longrightarrow> [c] \<in> white_space \<longleftrightarrow> char_code c \<in> {9, 10, 11, 12, 13, 32}"
proof -
  have "[char_of n] \<noteq> utf8_of_codes [a, b]" "[char_of n] \<noteq> utf8_of_codes [a, b, d]" for n a b d :: nat
    by (simp_all add: utf8_of_codes_def)
  moreover have "[c] = utf8_of_codes [n] \<longleftrightarrow> char_code c = n" if "n < 256" for n
    using that by (auto simp: utf8_of_codes_def)
  ultimately show ?thesis
    by (auto simp: white_space_def utf8_of_codes_def)
qed

definition printable :: "char \<Rightarrow> bool" where
  "printable c \<longleftrightarrow> 32 < char_code c \<and> char_code c < 127"

lemma trim_str_printable:
  assumes "s = [] \<or> printable (hd s) \<and> printable (last s)" and "list_all (\<lambda>c. char_code c < 128) s"
  shows "trim_str s = s"
proof (cases s)
  case (Cons c cs)
  have "\<forall>c \<in> set s. \<not> is_continuation c" using assms(2) by (auto simp: is_continuation_def list_all_iff)
  then have "utf8_chars s = map (\<lambda>c. [c]) s" by (rule utf8_chars_no_cont)
  moreover have "[hd s] \<notin> white_space" "[last s] \<notin> white_space"
    using assms Cons by (auto simp: ascii_white_space printable_def)
  moreover have "dropWhile (\<lambda>g. g \<in> white_space) (map (\<lambda>c. [c]) s) = map (\<lambda>c. [c]) s"
    and "dropWhile (\<lambda>g. g \<in> white_space) (rev (map (\<lambda>c. [c]) s)) = rev (map (\<lambda>c. [c]) s)"
    using calculation(2,3) Cons by (simp_all add: dropWhile_eq_self_iff hd_append hd_rev hd_map rev_map split: if_splits)
  moreover have "concat (map (\<lambda>c. [c]) s) = s" by (induction s) auto
  ultimately show ?thesis by (simp add: trim_str_def)
qed (simp add: trim_str_def)

fun split_groups :: "string list \<Rightarrow> string list list" where
  "split_groups [] = [[]]"
| "split_groups (g # gs) =
     (if g \<in> white_space then [] # split_groups gs
      else case split_groups gs of [] \<Rightarrow> [[g]] | p # ps \<Rightarrow> (g # p) # ps)"

definition split_whitespace :: "string \<Rightarrow> string list" where
  "split_whitespace s = filter (\<lambda>t. t \<noteq> []) (map concat (split_groups (utf8_chars s)))"

lemma split_whitespace_nonempty: "t \<in> set (split_whitespace s) \<Longrightarrow> t \<noteq> []"
  by (simp add: split_whitespace_def)

section \<open>Validation and lossy decoding\<close>

definition cont_byte :: "byte \<Rightarrow> bool" where
  "cont_byte b \<longleftrightarrow> 128 \<le> unat b \<and> unat b < 192"

definition second_ok :: "nat \<Rightarrow> byte \<Rightarrow> bool" where
  "second_ok lead b = (let n = unat b in
     if lead = 224 then 160 \<le> n \<and> n < 192
     else if lead = 237 then 128 \<le> n \<and> n < 160
     else if lead = 240 then 144 \<le> n \<and> n < 192
     else if lead = 244 then 128 \<le> n \<and> n < 144
     else 128 \<le> n \<and> n < 192)"

definition utf8_width :: "nat \<Rightarrow> nat" where
  "utf8_width lead =
     (if lead < 128 then 1 else if lead < 194 then 0 else if lead < 224 then 2
      else if lead < 240 then 3 else if lead < 245 then 4 else 0)"

text \<open>The next item of a byte sequence: whether it is a well-formed scalar value, and how
  many bytes belong to it (for an ill-formed item, the length of its maximal prefix).\<close>

fun utf8_item :: "bytes \<Rightarrow> bool \<times> nat" where
  "utf8_item [] = (False, 0)"
| "utf8_item (b # bs) =
     (case utf8_width (unat b) of
        0 \<Rightarrow> (False, 1)
      | Suc 0 \<Rightarrow> (True, 1)
      | Suc (Suc w) \<Rightarrow>
          (case bs of
             [] \<Rightarrow> (False, 1)
           | b2 # bs2 \<Rightarrow>
               if \<not> second_ok (unat b) b2 then (False, 1)
               else let ks = takeWhile cont_byte (take w bs2)
                    in (length ks = w, 2 + length ks)))"

lemma utf8_item_pos: "bs \<noteq> [] \<Longrightarrow> 0 < snd (utf8_item bs)"
  by (cases bs) (auto split: nat.splits list.splits simp: Let_def)

function valid_utf8 :: "bytes \<Rightarrow> bool" where
  "valid_utf8 bs =
     (if bs = [] then True
      else fst (utf8_item bs) \<and> valid_utf8 (drop (snd (utf8_item bs)) bs))"
  by pat_completeness auto
termination
  by (relation "measure length") (simp_all add: utf8_item_pos)

definition replacement_character :: bytes where
  "replacement_character = [239, 191, 189]"

function lossy_bytes :: "bytes \<Rightarrow> bytes" where
  "lossy_bytes bs =
     (if bs = [] then []
      else (if fst (utf8_item bs) then take (snd (utf8_item bs)) bs else replacement_character)
           @ lossy_bytes (drop (snd (utf8_item bs)) bs))"
  by pat_completeness auto
termination
  by (relation "measure length") (simp_all add: utf8_item_pos)

declare valid_utf8.simps [simp del] lossy_bytes.simps [simp del]

definition from_utf8 :: "bytes \<Rightarrow> string option" where
  "from_utf8 bs = (if valid_utf8 bs then Some (string_of_bytes bs) else None)"

definition from_utf8_lossy :: "bytes \<Rightarrow> string" where
  "from_utf8_lossy bs = string_of_bytes (lossy_bytes bs)"

lemma valid_utf8_Nil [simp]: "valid_utf8 []" and lossy_bytes_Nil [simp]: "lossy_bytes [] = []"
  by (simp_all add: valid_utf8.simps lossy_bytes.simps)

lemma takeWhile_take_full:
  "length (takeWhile P (take u xs)) = u \<Longrightarrow> takeWhile P (take u xs) = take u xs \<and> u \<le> length xs"
  by (metis length_take length_takeWhile_le min.cobounded2 min.absorb_iff2 min_def
      takeWhile_eq_take take_all_iff le_antisym)

lemma utf8_item_append:
  "fst (utf8_item bs) \<Longrightarrow> utf8_item (take (snd (utf8_item bs)) bs @ cs) = utf8_item bs"
proof (cases bs)
  case (Cons b r)
  assume ok: "fst (utf8_item bs)"
  show ?thesis
  proof (cases "utf8_width (unat b)")
    case 0
    with ok Cons show ?thesis by simp
  next
    case (Suc v)
    note w = Suc
    show ?thesis
    proof (cases v)
      case 0
      with w Cons show ?thesis by simp
    next
      case (Suc u)
      with ok Cons w obtain b2 r2 where r: "r = b2 # r2" "second_ok (unat b) b2"
        and len: "length (takeWhile cont_byte (take u r2)) = u"
        by (auto split: list.splits if_splits simp: Let_def)
      have full: "takeWhile cont_byte (take u r2) = take u r2" and le: "u \<le> length r2"
        using takeWhile_take_full [OF len] by auto
      have item: "utf8_item bs = (True, Suc (Suc u))"
        using Cons w Suc r len by (simp add: Let_def)
      have "take (Suc (Suc u)) bs @ cs = b # b2 # take u r2 @ cs"
        using Cons r by simp
      moreover have "take u (take u r2 @ cs) = take u r2" using le by simp
      ultimately show ?thesis
        using w Suc r len by (simp add: item Let_def del: take_append)
    qed
  qed
qed simp

lemma utf8_item_le: "fst (utf8_item bs) \<Longrightarrow> snd (utf8_item bs) \<le> length bs"
  by (cases bs)
     (auto split: nat.splits list.splits if_splits simp: Let_def dest: takeWhile_take_full)

lemma valid_item_append:
  assumes "fst (utf8_item bs)" and "bs \<noteq> []"
  shows "valid_utf8 (take (snd (utf8_item bs)) bs @ cs) \<longleftrightarrow> valid_utf8 cs"
proof -
  let ?n = "snd (utf8_item bs)"
  have ne: "take ?n bs @ cs \<noteq> []" using assms(2) utf8_item_pos [of bs] by auto
  have "drop ?n (take ?n bs @ cs) = cs" using utf8_item_le [OF assms(1)] by simp
  with ne show ?thesis
    by (subst valid_utf8.simps) (simp add: utf8_item_append [OF assms(1)] assms(1))
qed

lemma valid_replacement_append: "valid_utf8 (replacement_character @ cs) \<longleftrightarrow> valid_utf8 cs"
proof -
  have "utf8_item replacement_character = (True, 3)"
    by (simp add: replacement_character_def utf8_width_def second_ok_def cont_byte_def)
  with valid_item_append [of replacement_character cs] show ?thesis
    by (simp add: replacement_character_def)
qed

lemma valid_lossy: "valid_utf8 (lossy_bytes bs)"
proof (induction bs rule: lossy_bytes.induct)
  case (1 bs)
  show ?case
  proof (cases "bs = []")
    case False
    with 1 show ?thesis
      by (subst lossy_bytes.simps) (auto simp: valid_item_append valid_replacement_append)
  qed simp
qed

lemma lossy_valid: "valid_utf8 bs \<Longrightarrow> lossy_bytes bs = bs"
proof (induction bs rule: lossy_bytes.induct)
  case (1 bs)
  show ?case
  proof (cases "bs = []")
    case False
    with "1.prems" have "fst (utf8_item bs)" "valid_utf8 (drop (snd (utf8_item bs)) bs)"
      by (auto simp: valid_utf8.simps [of bs])
    with 1 False show ?thesis by (subst lossy_bytes.simps) simp
  qed simp
qed

lemma lossy_idem [simp]: "lossy_bytes (lossy_bytes bs) = lossy_bytes bs"
  by (rule lossy_valid) (rule valid_lossy)

lemma valid_utf8_ascii: "\<forall>b \<in> set bs. unat b < 128 \<Longrightarrow> valid_utf8 bs"
  by (induction bs) (auto simp: valid_utf8.simps utf8_width_def)

end
