(* ===== verification/Headers.thy ===== *)
theory Headers
  imports Utf8
begin

text \<open>
  \<open>middleware::HeaderMap\<close>: an ordered, duplicate-preserving, case-insensitive
  collection of HTTP headers, backed by a vector of (name, value) pairs whose names are
  lower case. The field \<open>entries\<close> is private, so every header map is built by the
  operations below.
\<close>

section \<open>The collection and its operations\<close>

record header_map =
  entries :: "(string \<times> string) list"

definition hm_new :: header_map where
  "hm_new = \<lparr>entries = []\<rparr>"

definition hm_get :: "header_map \<Rightarrow> string \<Rightarrow> string option" where
  "hm_get h key = map_option snd (find (\<lambda>(n, _). eq_ignore_ascii_case n key) (entries h))"

definition hm_get_all :: "header_map \<Rightarrow> string \<Rightarrow> string list" where
  "hm_get_all h key =
     (let k = to_ascii_lowercase key in map snd (filter (\<lambda>(n, _). n = k) (entries h)))"

definition hm_remove :: "header_map \<Rightarrow> string \<Rightarrow> string option \<times> header_map" where
  "hm_remove h key =
     (map_option snd (find (\<lambda>(n, _). eq_ignore_ascii_case n key) (entries h)),
      h\<lparr>entries := filter (\<lambda>(n, _). \<not> eq_ignore_ascii_case n key) (entries h)\<rparr>)"

definition hm_insert :: "header_map \<Rightarrow> string \<Rightarrow> string \<Rightarrow> string option \<times> header_map" where
  "hm_insert h key value =
     (let k = to_ascii_lowercase key; (prev, h') = hm_remove h k
      in (prev, h'\<lparr>entries := entries h' @ [(k, value)]\<rparr>))"

definition hm_append :: "header_map \<Rightarrow> string \<Rightarrow> string \<Rightarrow> header_map" where
  "hm_append h key value = h\<lparr>entries := entries h @ [(to_ascii_lowercase key, value)]\<rparr>"

definition hm_contains_key :: "header_map \<Rightarrow> string \<Rightarrow> bool" where
  "hm_contains_key h key \<longleftrightarrow> list_ex (\<lambda>(n, _). eq_ignore_ascii_case n key) (entries h)"

definition hm_len :: "header_map \<Rightarrow> nat" where
  "hm_len h = length (entries h)"

definition hm_is_empty :: "header_map \<Rightarrow> bool" where
  "hm_is_empty h \<longleftrightarrow> entries h = []"

definition hm_retain :: "(string \<Rightarrow> string \<Rightarrow> bool) \<Rightarrow> header_map \<Rightarrow> header_map" where
  "hm_retain f h = h\<lparr>entries := filter (\<lambda>(n, v). f n v) (entries h)\<rparr>"

definition hm_extend :: "header_map \<Rightarrow> (string \<times> string) list \<Rightarrow> header_map" where
  "hm_extend h kvs = foldl (\<lambda>m (k, v). hm_append m k v) h kvs"

definition hm_from_iter :: "(string \<times> string) list \<Rightarrow> header_map" where
  "hm_from_iter kvs = foldl (\<lambda>m (k, v). hm_append m k v) hm_new kvs"

text \<open>Conversion to and from a \<open>HashMap<String, String>\<close>. A hash map iterates in an
  order the library does not specify, so the order is the argument \<open>iter\<close>.\<close>

definition hm_to_hash :: "header_map \<Rightarrow> (string \<rightharpoonup> string)" where
  "hm_to_hash h = foldl (\<lambda>m (k, v). m(k \<mapsto> v)) Map.empty (entries h)"

definition hm_of_hash ::
    "((string \<rightharpoonup> string) \<Rightarrow> (string \<times> string) list) \<Rightarrow> (string \<rightharpoonup> string) \<Rightarrow> header_map" where
  "hm_of_hash iter m = hm_from_iter (iter m)"

text \<open>The free functions of the module.\<close>

definition header_value :: "header_map \<Rightarrow> string \<Rightarrow> string option" where
  "header_value h name = hm_get h name"

definition set_header :: "header_map \<Rightarrow> string \<Rightarrow> string \<Rightarrow> header_map" where
  "set_header h name value = snd (hm_insert h name value)"

definition append_header :: "header_map \<Rightarrow> string \<Rightarrow> string \<Rightarrow> header_map" where
  "append_header h name value =
     (let joined = (case hm_get h name of
                      Some existing \<Rightarrow> if existing \<noteq> [] then existing @ '', '' @ value else value
                    | None \<Rightarrow> value)
      in snd (hm_insert h name joined))"

definition remove_header :: "header_map \<Rightarrow> string \<Rightarrow> header_map" where
  "remove_header h name = snd (hm_remove h name)"

definition content_type_of :: "header_map \<Rightarrow> string" where
  "content_type_of h = (case hm_get h ''content-type'' of Some v \<Rightarrow> v | None \<Rightarrow> [])"

section \<open>The invariant: names are lower case\<close>

definition hm_wf :: "header_map \<Rightarrow> bool" where
  "hm_wf h \<longleftrightarrow> list_all (\<lambda>(n, _). to_ascii_lowercase n = n) (entries h)"

lemma hm_wf_new [simp, invariant_intro]: "hm_wf hm_new"
  by (simp add: hm_wf_def hm_new_def)

lemma hm_wf_filter: "hm_wf h \<Longrightarrow> hm_wf (h\<lparr>entries := filter P (entries h)\<rparr>)"
  by (auto simp: hm_wf_def list_all_iff)

lemma hm_wf_remove [simp, invariant_intro]: "hm_wf h \<Longrightarrow> hm_wf (snd (hm_remove h k))"
  by (simp add: hm_remove_def hm_wf_filter)

lemma hm_wf_append [simp, invariant_intro]: "hm_wf h \<Longrightarrow> hm_wf (hm_append h k v)"
  by (simp add: hm_append_def hm_wf_def)

lemma hm_insert_eq:
  "hm_insert h k v = (fst (hm_remove h k), hm_append (snd (hm_remove h k)) k v)"
  by (simp add: hm_insert_def hm_append_def hm_remove_def Let_def)

lemma hm_wf_insert [simp, invariant_intro]: "hm_wf h \<Longrightarrow> hm_wf (snd (hm_insert h k v))"
  by (simp add: hm_insert_eq)

lemma hm_wf_retain [simp, invariant_intro]: "hm_wf h \<Longrightarrow> hm_wf (hm_retain f h)"
  by (simp add: hm_retain_def hm_wf_filter)

lemma hm_wf_extend [simp, invariant_intro]: "hm_wf h \<Longrightarrow> hm_wf (hm_extend h kvs)"
  unfolding hm_extend_def by (induction kvs arbitrary: h) (auto simp: split_beta)

lemma hm_wf_from_iter [simp, invariant_intro]: "hm_wf (hm_from_iter kvs)"
  using hm_wf_extend [OF hm_wf_new, of kvs] by (simp add: hm_from_iter_def hm_extend_def)

lemma hm_wf_free [simp, invariant_intro]:
  "hm_wf h \<Longrightarrow> hm_wf (set_header h k v)"
  "hm_wf h \<Longrightarrow> hm_wf (append_header h k v)"
  "hm_wf h \<Longrightarrow> hm_wf (remove_header h k)"
  by (simp_all add: set_header_def append_header_def remove_header_def Let_def)

section \<open>Lookup laws\<close>

lemma hm_get_new [simp]: "hm_get hm_new k = None"
  by (simp add: hm_get_def hm_new_def)

lemma find_filter_neg:
  "(\<And>x. Q x \<Longrightarrow> \<not> P x) \<Longrightarrow> find Q (filter (\<lambda>x. \<not> P x) xs) = find Q xs"
  by (induction xs) auto

lemma find_filter_same: "find P (filter (\<lambda>x. \<not> P x) xs) = None"
  by (induction xs) auto

lemma eq_ignore_case_trans:
  "eq_ignore_ascii_case n a \<Longrightarrow> eq_ignore_ascii_case n b = eq_ignore_ascii_case a b"
  by (simp add: eq_ignore_ascii_case_def)

lemma hm_get_remove:
  "hm_get (snd (hm_remove h a)) b = (if eq_ignore_ascii_case a b then None else hm_get h b)"
proof -
  let ?P = "\<lambda>k (n, _ :: string). eq_ignore_ascii_case n k"
  have "eq_ignore_ascii_case a b \<Longrightarrow> ?P a = ?P b"
    by (auto simp: fun_eq_iff eq_ignore_ascii_case_def)
  moreover have "find (?P b) (filter (\<lambda>x. \<not> ?P a x) (entries h)) = find (?P b) (entries h)"
    if "\<not> eq_ignore_ascii_case a b"
    by (rule find_filter_neg) (use that in \<open>auto simp: eq_ignore_ascii_case_def\<close>)
  moreover have "(\<lambda>(n, _ :: string). \<not> eq_ignore_ascii_case n a) = (\<lambda>x. \<not> ?P a x)"
    by auto
  ultimately show ?thesis
    by (simp add: hm_get_def hm_remove_def find_filter_same)
qed

lemma hm_get_append:
  "hm_get (hm_append h a v) b =
     (case hm_get h b of Some w \<Rightarrow> Some w
      | None \<Rightarrow> if eq_ignore_ascii_case a b then Some v else None)"
  by (simp add: hm_get_def hm_append_def find_append split: option.splits)

lemma hm_get_insert:
  "hm_get (snd (hm_insert h a v)) b = (if eq_ignore_ascii_case a b then Some v else hm_get h b)"
  by (simp add: hm_insert_eq hm_get_append hm_get_remove split: option.splits)

lemma hm_contains_key_get: "hm_contains_key h k \<longleftrightarrow> hm_get h k \<noteq> None"
  by (auto simp: hm_contains_key_def hm_get_def find_None_iff list_ex_iff)

lemma hm_get_case: "eq_ignore_ascii_case a b \<Longrightarrow> hm_get h a = hm_get h b"
  by (simp add: hm_get_def eq_ignore_ascii_case_def)

lemma hm_get_all_hd:
  "hm_wf h \<Longrightarrow> hm_get h k = (case hm_get_all h k of [] \<Rightarrow> None | v # _ \<Rightarrow> Some v)"
proof -
  assume wf: "hm_wf h"
  have "find (\<lambda>(n, _). eq_ignore_ascii_case n k) es =
        (case filter (\<lambda>(n, _). n = to_ascii_lowercase k) es of [] \<Rightarrow> None | e # _ \<Rightarrow> Some e)"
    if "list_all (\<lambda>(n, _). to_ascii_lowercase n = n) es" for es :: "(string \<times> string) list"
    using that by (induction es) (auto simp: eq_ignore_ascii_case_def)
  from this [of "entries h"] wf show ?thesis
    by (auto simp: hm_get_def hm_get_all_def hm_wf_def Let_def split: list.splits)
qed

lemma hm_get_all_append:
  "hm_get_all (hm_append h a v) b =
     hm_get_all h b @ (if eq_ignore_ascii_case a b then [v] else [])"
  by (simp add: hm_get_all_def hm_append_def eq_ignore_ascii_case_def Let_def)

lemma hm_get_all_remove:
  "hm_wf h \<Longrightarrow> hm_get_all (snd (hm_remove h a)) b =
     (if eq_ignore_ascii_case a b then [] else hm_get_all h b)"
  by (auto simp: hm_get_all_def hm_remove_def Let_def hm_wf_def list_all_iff filter_empty_conv
      eq_ignore_ascii_case_def intro!: arg_cong [where f = "map snd"] filter_cong)

lemma hm_get_all_insert:
  "hm_wf h \<Longrightarrow> hm_get_all (snd (hm_insert h a v)) b =
     (if eq_ignore_ascii_case a b then [v] else hm_get_all h b)"
  by (simp add: hm_insert_eq hm_get_all_append hm_get_all_remove)

lemma hm_get_retain_other:
  "(\<And>n v. eq_ignore_ascii_case n k \<Longrightarrow> f n v) \<Longrightarrow> hm_get (hm_retain f h) k = hm_get h k"
proof -
  assume keep: "\<And>n v. eq_ignore_ascii_case n k \<Longrightarrow> f n v"
  have "find (\<lambda>(n, _). eq_ignore_ascii_case n k) (filter (\<lambda>(n, v). f n v) es)
        = find (\<lambda>(n, _). eq_ignore_ascii_case n k) es" for es
    by (induction es) (auto simp: keep)
  then show ?thesis by (simp add: hm_get_def hm_retain_def)
qed

lemma hm_get_entries: "hm_get h k = Some v \<Longrightarrow> \<exists>n. (n, v) \<in> set (entries h) \<and> eq_ignore_ascii_case n k"
  by (auto simp: hm_get_def dest!: find_SomeD)

lemma hm_free_get:
  "hm_get (set_header h a v) b = (if eq_ignore_ascii_case a b then Some v else hm_get h b)"
  "hm_get (remove_header h a) b = (if eq_ignore_ascii_case a b then None else hm_get h b)"
  by (simp_all add: set_header_def remove_header_def hm_get_insert hm_get_remove)

section \<open>The contract of a case-insensitive store\<close>

text \<open>What the rest of the proxy relies on when it reads and writes headers. \<open>entries\<close> is
  private to the module, so clients see \<open>get\<close>, \<open>put\<close> and \<open>del\<close> only.\<close>

locale header_store =
  fixes get :: "'m \<Rightarrow> string \<Rightarrow> string option"
    and put :: "'m \<Rightarrow> string \<Rightarrow> string \<Rightarrow> 'm"
    and del :: "'m \<Rightarrow> string \<Rightarrow> 'm"
    and ok :: "'m \<Rightarrow> bool"
  assumes get_put: "get (put m a v) b = (if eq_ignore_ascii_case a b then Some v else get m b)"
    and get_del: "get (del m a) b = (if eq_ignore_ascii_case a b then None else get m b)"
    and ok_put: "ok m \<Longrightarrow> ok (put m a v)"
    and ok_del: "ok m \<Longrightarrow> ok (del m a)"
begin

lemma store_get_put_same: "get (put m a v) a = Some v"
  by (simp add: get_put)

lemma store_put_put: "get (put (put m a v) a w) = get (put m a w)"
  by (auto simp: get_put fun_eq_iff)

lemma store_del_all:
  "get (foldl del m ks) b = (if \<exists>k \<in> set ks. eq_ignore_ascii_case k b then None else get m b)"
  by (induction ks arbitrary: m) (auto simp: get_del)

lemma store_ok_del_all: "ok m \<Longrightarrow> ok (foldl del m ks)"
  by (induction ks arbitrary: m) (auto simp: ok_del)

lemma store_put_all:
  "get (foldl (\<lambda>m (k, v). put m k v) m kvs) b =
     (case find (\<lambda>(k, _). eq_ignore_ascii_case k b) (rev kvs) of
        Some (_, v) \<Rightarrow> Some v | None \<Rightarrow> get m b)"
proof (induction kvs arbitrary: m)
  case (Cons kv kvs)
  obtain k v where kv: "kv = (k, v)" by (cases kv)
  show ?case unfolding kv
    by (simp add: Cons.IH find_append get_put split: option.splits)
qed simp

lemma store_ok_put_all: "ok m \<Longrightarrow> ok (foldl (\<lambda>m (k, v). put m k v) m kvs)"
  by (induction kvs arbitrary: m) (auto simp: ok_put split_beta)

end

interpretation hstore: header_store hm_get set_header remove_header hm_wf
  by unfold_locales (simp_all add: hm_free_get)

section \<open>Conversions\<close>

lemma hm_entries_extend:
  "entries (hm_extend h kvs) = entries h @ map (\<lambda>(k, v). (to_ascii_lowercase k, v)) kvs"
  unfolding hm_extend_def
  by (induction kvs arbitrary: h) (auto simp: hm_append_def split_beta)

lemma hm_entries_from_iter:
  "entries (hm_from_iter kvs) = map (\<lambda>(k, v). (to_ascii_lowercase k, v)) kvs"
  using hm_entries_extend [of hm_new kvs]
  by (simp add: hm_from_iter_def hm_extend_def hm_new_def)

lemma foldl_map_upd:
  "foldl (\<lambda>m (k, v). m(k \<mapsto> v)) m kvs = m ++ map_of (rev kvs)"
  by (induction kvs arbitrary: m) (auto simp: map_add_def fun_eq_iff split: option.splits)

lemma hm_to_hash_map_of: "hm_to_hash h = map_of (rev (entries h))"
  by (simp add: hm_to_hash_def foldl_map_upd)

lemma map_lower_wf:
  "list_all (\<lambda>(n, _). to_ascii_lowercase n = n) es \<Longrightarrow> map (\<lambda>(k, v). (to_ascii_lowercase k, v)) es = es"
  by (induction es) auto

lemma hm_get_map_of: "hm_wf h \<Longrightarrow> hm_get h k = map_of (entries h) (to_ascii_lowercase k)"
proof -
  assume wf: "hm_wf h"
  have "map_option snd (find (\<lambda>(n, _). eq_ignore_ascii_case n k) es)
        = map_of es (to_ascii_lowercase k)"
    if "list_all (\<lambda>(n, _). to_ascii_lowercase n = n) es" for es :: "(string \<times> string) list"
    using that by (induction es) (auto simp: eq_ignore_ascii_case_def)
  from this [of "entries h"] wf show ?thesis by (simp add: hm_get_def hm_wf_def)
qed

text \<open>What iterating a hash map promises: every binding once, in some order.\<close>

definition hash_order ::
    "((string \<rightharpoonup> string) \<Rightarrow> (string \<times> string) list) \<Rightarrow> (string \<rightharpoonup> string) \<Rightarrow> bool" where
  "hash_order iter m \<longleftrightarrow> map_of (iter m) = m \<and> distinct (map fst (iter m))"

lemma hm_of_hash_entries:
  assumes "hm_wf h" and "hash_order iter (hm_to_hash h)"
  shows "entries (hm_of_hash iter (hm_to_hash h)) = iter (hm_to_hash h)"
proof -
  let ?es = "iter (hm_to_hash h)"
  have "to_ascii_lowercase k = k" if "(k, v) \<in> set ?es" for k v
  proof -
    from that have "map_of ?es k \<noteq> None" by (auto simp: map_of_eq_None_iff image_iff Bex_def)
    then obtain w where "(k, w) \<in> set (entries h)"
      using assms(2) map_of_SomeD by (fastforce simp: hm_to_hash_map_of hash_order_def)
    with assms(1) show ?thesis by (auto simp: hm_wf_def list_all_iff)
  qed
  then have "map (\<lambda>(k, v). (to_ascii_lowercase k, v)) ?es = ?es"
    by (intro map_lower_wf) (auto simp: list_all_iff)
  then show ?thesis by (simp add: hm_of_hash_def hm_entries_from_iter)
qed

lemma hm_hash_roundtrip:
  assumes "hm_wf h" and "hash_order iter (hm_to_hash h)"
  shows "hm_to_hash (hm_of_hash iter (hm_to_hash h)) = hm_to_hash h"
proof -
  let ?es = "iter (hm_to_hash h)"
  have "map_of (rev ?es) = map_of ?es"
    using assms(2) by (intro map_of_distinct_cong) (auto simp: hash_order_def)
  then show ?thesis
    using assms(2) by (simp add: hm_to_hash_map_of [of "hm_of_hash iter _"]
        hm_of_hash_entries [OF assms] hash_order_def)
qed

lemma hm_get_of_hash:
  assumes "hm_wf h" and "hash_order iter (hm_to_hash h)"
  shows "hm_get (hm_of_hash iter (hm_to_hash h)) k = hm_to_hash h (to_ascii_lowercase k)"
proof -
  have "hm_wf (hm_of_hash iter (hm_to_hash h))" by (simp add: hm_of_hash_def)
  from hm_get_map_of [OF this] show ?thesis
    using assms(2) by (simp add: hm_of_hash_entries [OF assms] hash_order_def)
qed

lemma hm_to_hash_single:
  assumes "hm_wf h" and "length (hm_get_all h k) \<le> 1"
  shows "hm_to_hash h (to_ascii_lowercase k) = hm_get h k"
  using assms map_of_rev_single [of "to_ascii_lowercase k" "entries h"]
  by (simp add: hm_to_hash_map_of hm_get_map_of hm_get_all_def Let_def)

section \<open>Properties\<close>

text \<open>The header map is a case-insensitive multimap: after an insert the name has exactly
  the new value, after an append it has one value more, at the end, after a removal it has
  none, and every other name keeps its values in order; \<open>get\<close> is the first of
  \<open>get_all\<close>, and \<open>insert\<close> and \<open>remove\<close> return the previous first value.\<close>

theorem header_map_laws:
  assumes "hm_wf h"
  shows "hm_get_all (snd (hm_insert h a v)) b = (if eq_ignore_ascii_case a b then [v] else hm_get_all h b)
    \<and> hm_get_all (hm_append h a v) b = hm_get_all h b @ (if eq_ignore_ascii_case a b then [v] else [])
    \<and> hm_get_all (snd (hm_remove h a)) b = (if eq_ignore_ascii_case a b then [] else hm_get_all h b)
    \<and> hm_get h b = (case hm_get_all h b of [] \<Rightarrow> None | w # _ \<Rightarrow> Some w)
    \<and> fst (hm_insert h a v) = hm_get h a \<and> fst (hm_remove h a) = hm_get h a
    \<and> (hm_contains_key h b \<longleftrightarrow> hm_get_all h b \<noteq> [])"
proof -
  have "hm_get h b = (case hm_get_all h b of [] \<Rightarrow> None | w # _ \<Rightarrow> Some w)"
    using assms by (rule hm_get_all_hd)
  moreover have "fst (hm_remove h a) = hm_get h a" by (simp add: hm_remove_def hm_get_def)
  ultimately show ?thesis using assms
    by (simp add: hm_get_all_insert hm_get_all_append hm_get_all_remove hm_insert_eq
        hm_contains_key_get split: list.splits)
qed

theorem header_map_laws_witness:
  "hm_get_all (hm_append (hm_from_iter [(''Set-Cookie'', ''a=1'')]) ''SET-COOKIE'' ''b=2'') ''set-cookie''
     = [''a=1'', ''b=2'']"
proof -
  let ?h = "hm_from_iter [(''Set-Cookie'', ''a=1'')]"
  have "hm_get_all (hm_append ?h ''SET-COOKIE'' ''b=2'') ''set-cookie'' =
      hm_get_all ?h ''set-cookie'' @
        (if eq_ignore_ascii_case ''SET-COOKIE'' ''set-cookie'' then [''b=2''] else [])"
    using header_map_laws [OF hm_wf_from_iter] by blast
  moreover have "hm_get_all ?h ''set-cookie'' = [''a=1'']" by code_simp
  moreover have "eq_ignore_ascii_case ''SET-COOKIE'' ''set-cookie''" by code_simp
  ultimately show ?thesis by simp
qed

end
