(* ===== verification/Forward.thy ===== *)
theory Forward
  imports Headers
begin

text \<open>
  \<open>core/forward.rs\<close>: the protocol identity of an exchange, the body access a plugin
  declares, and the planner that picks the forwarding class from the request head and the
  plugin declarations alone. Also the length-prefixed gRPC frame encoder that the
  inspector, the mock scripts and Compose share. \<open>http_version\<close> mirrors the version
  constants of the http crate; \<open>HTTP_OTHER\<close> stands for any version the code's
  wildcard arms cover.
\<close>

section \<open>Protocol identity\<close>

datatype http_version = HTTP_09 | HTTP_10 | HTTP_11 | HTTP_2 | HTTP_3 | HTTP_OTHER

datatype wire_protocol = Http1 | Http2 | Http3 | Socks5 | WebSocket

fun wp_label :: "wire_protocol \<Rightarrow> string" where
  "wp_label Http1 = ''HTTP/1.1''"
| "wp_label Http2 = ''HTTP/2''"
| "wp_label Http3 = ''HTTP/3''"
| "wp_label Socks5 = ''SOCKS5''"
| "wp_label WebSocket = ''WebSocket''"

fun wp_match_value :: "wire_protocol \<Rightarrow> string" where
  "wp_match_value Http1 = ''http1''"
| "wp_match_value Http2 = ''http2''"
| "wp_match_value Http3 = ''http3''"
| "wp_match_value Socks5 = ''socks5''"
| "wp_match_value WebSocket = ''websocket''"

fun from_http_version :: "http_version \<Rightarrow> wire_protocol" where
  "from_http_version HTTP_2 = Http2"
| "from_http_version HTTP_3 = Http3"
| "from_http_version _ = Http1"

datatype application_protocol = App_Http | App_Grpc | App_Sse | App_Graphql | App_Json | App_Binary

fun app_match_value :: "application_protocol \<Rightarrow> string" where
  "app_match_value App_Http = ''http''"
| "app_match_value App_Grpc = ''grpc''"
| "app_match_value App_Sse = ''sse''"
| "app_match_value App_Graphql = ''graphql''"
| "app_match_value App_Json = ''json''"
| "app_match_value App_Binary = ''binary''"

datatype body_mode =
  Body_Empty | Body_Full | Body_StreamBytes | Body_StreamMessages | Body_Frames | Body_Tunnel

fun body_match_value :: "body_mode \<Rightarrow> string" where
  "body_match_value Body_Empty = ''empty''"
| "body_match_value Body_Full = ''full''"
| "body_match_value Body_StreamBytes = ''stream_bytes''"
| "body_match_value Body_StreamMessages = ''stream_messages''"
| "body_match_value Body_Frames = ''frames''"
| "body_match_value Body_Tunnel = ''tunnel''"

record protocol_context =
  pc_downstream :: wire_protocol
  pc_upstream :: "wire_protocol option"
  pc_application :: application_protocol
  pc_body_mode :: body_mode
  pc_scheme :: string
  pc_connection_id :: "string option"
  pc_stream_id :: "u64 option"

definition pc_default :: protocol_context where
  "pc_default = \<lparr>pc_downstream = Http1, pc_upstream = None, pc_application = App_Http,
     pc_body_mode = Body_Full, pc_scheme = '''', pc_connection_id = None, pc_stream_id = None\<rparr>"

definition pc_http ::
    "http_version \<Rightarrow> string \<Rightarrow> application_protocol \<Rightarrow> body_mode \<Rightarrow> protocol_context" where
  "pc_http version scheme application mode =
     \<lparr>pc_downstream = from_http_version version, pc_upstream = None,
      pc_application = application, pc_body_mode = mode, pc_scheme = scheme,
      pc_connection_id = None, pc_stream_id = None\<rparr>"

definition pc_with_identity ::
    "protocol_context \<Rightarrow> string option \<Rightarrow> u64 option \<Rightarrow> protocol_context" where
  "pc_with_identity p connection_id stream_id =
     p\<lparr>pc_connection_id := connection_id, pc_stream_id := stream_id\<rparr>"

definition pc_websocket :: "string \<Rightarrow> protocol_context" where
  "pc_websocket scheme =
     \<lparr>pc_downstream = WebSocket, pc_upstream = None, pc_application = App_Http,
      pc_body_mode = Body_Frames, pc_scheme = scheme, pc_connection_id = None,
      pc_stream_id = None\<rparr>"

definition pc_socks5_tunnel :: protocol_context where
  "pc_socks5_tunnel =
     \<lparr>pc_downstream = Socks5, pc_upstream = None, pc_application = App_Binary,
      pc_body_mode = Body_Tunnel, pc_scheme = ''socks5'', pc_connection_id = None,
      pc_stream_id = None\<rparr>"

text \<open>The tokens that rules match on identify the enumeration values.\<close>

lemma wp_match_value_inj: "wp_match_value a = wp_match_value b \<longleftrightarrow> a = b"
  by (cases a; cases b) simp_all

lemma app_match_value_inj: "app_match_value a = app_match_value b \<longleftrightarrow> a = b"
  by (cases a; cases b) simp_all

lemma body_match_value_inj: "body_match_value a = body_match_value b \<longleftrightarrow> a = b"
  by (cases a; cases b) simp_all

section \<open>gRPC frames\<close>

definition be32 :: "u32 \<Rightarrow> bytes" where
  "be32 w = [word_of_nat (unat w div 16777216), word_of_nat (unat w div 65536),
             word_of_nat (unat w div 256), word_of_nat (unat w)]"

definition of_be32 :: "byte \<Rightarrow> byte \<Rightarrow> byte \<Rightarrow> byte \<Rightarrow> u32" where
  "of_be32 a b c d =
     word_of_nat (16777216 * unat a + 65536 * unat b + 256 * unat c + unat d)"

definition encode_grpc_frame :: "bool \<Rightarrow> bytes \<Rightarrow> bytes" where
  "encode_grpc_frame compressed payload =
     (if compressed then 1 else 0) # be32 (word_of_nat (length payload)) @ payload"

lemma length_be32 [simp]: "length (be32 w) = 4"
  by (simp add: be32_def)

lemma be32_parts:
  fixes n :: nat
  assumes "n < 4294967296"
  shows "16777216 * (n div 16777216 mod 256) + 65536 * (n div 65536 mod 256)
     + 256 * (n div 256 mod 256) + n mod 256 = n"
proof -
  define m where "m = n div 256"
  define k where "k = m div 256"
  have n: "n = 256 * m + n mod 256" and m: "m = 256 * k + m mod 256"
    and k: "k = 256 * (k div 256) + k mod 256"
    by (simp_all add: m_def k_def)
  have eqs: "n div 65536 = k" "n div 16777216 = k div 256"
    by (simp_all add: m_def k_def div_mult2_eq [symmetric])
  have "n div 16777216 < 256" using assms by (simp add: less_mult_imp_div_less)
  then have "n div 16777216 mod 256 = k div 256" by (simp add: eqs)
  then show ?thesis unfolding eqs m_def [symmetric] using n m k by linarith
qed

lemma unat_word_byte: "unat (word_of_nat n :: byte) = n mod 256"
  by (simp add: unat_of_nat)

lemma of_be32_be32: "be32 w = [a, b, c, d] \<Longrightarrow> of_be32 a b c d = w"
proof -
  assume abcd: "be32 w = [a, b, c, d]"
  have "unat w < 2 ^ LENGTH(32)" by (rule unsigned_less)
  then have lt: "unat w < 4294967296" by simp
  have "16777216 * unat a + 65536 * unat b + 256 * unat c + unat d = unat w"
    using abcd be32_parts [OF lt] unfolding be32_def list.inject
    by (elim conjE) (simp only: unat_word_byte [symmetric])
  then show ?thesis by (simp only: of_be32_def) simp
qed

lemma encode_grpc_frame_shape:
  "\<exists>a b c d. encode_grpc_frame z p = (if z then 1 else 0) # a # b # c # d # p
     \<and> of_be32 a b c d = word_of_nat (length p)"
  using of_be32_be32 [of "word_of_nat (length p)"]
  by (auto simp: encode_grpc_frame_def be32_def)

lemma length_encode_grpc_frame [simp]: "length (encode_grpc_frame z p) = 5 + length p"
  by (simp add: encode_grpc_frame_def)

section \<open>Execution planning\<close>

datatype granularity = Gran_Bytes | Gran_Messages

datatype body_hint = FullBody | StreamingInspect granularity

datatype forward_class = Buffered | Streaming

datatype execution_class = Exec_Buffered | Exec_StreamingInspect | Exec_FrameInspect | Exec_TunnelMetadata

record capability_plan =
  cp_execution :: execution_class
  cp_forward_class :: forward_class
  cp_diagnostic :: "string option"

definition body_hint_default :: body_hint where
  "body_hint_default = FullBody"

definition full_body_diagnostic :: "body_mode \<Rightarrow> string option" where
  "full_body_diagnostic m = (case m of
     Body_Tunnel \<Rightarrow> Some ''full-body middleware cannot run on a raw tunnel; only metadata-safe actions are supported''
   | Body_Frames \<Rightarrow> Some ''full-body middleware forces buffered HTTP handling; frame streams need a frame-aware action''
   | _ \<Rightarrow> None)"

definition plan_for_mode :: "body_mode \<Rightarrow> bool \<Rightarrow> capability_plan" where
  "plan_for_mode m saw_streaming = (case m of
     Body_Tunnel \<Rightarrow> \<lparr>cp_execution = Exec_TunnelMetadata, cp_forward_class = Buffered, cp_diagnostic = None\<rparr>
   | Body_Frames \<Rightarrow> \<lparr>cp_execution = Exec_FrameInspect, cp_forward_class = Streaming, cp_diagnostic = None\<rparr>
   | _ \<Rightarrow> if saw_streaming
          then \<lparr>cp_execution = Exec_StreamingInspect, cp_forward_class = Streaming, cp_diagnostic = None\<rparr>
          else \<lparr>cp_execution = Exec_Buffered, cp_forward_class = Buffered, cp_diagnostic = None\<rparr>)"

text \<open>The loop over the hints: the first full-body hint decides at once.\<close>

fun plan_loop :: "body_mode \<Rightarrow> bool \<Rightarrow> body_hint list \<Rightarrow> capability_plan" where
  "plan_loop m saw [] = plan_for_mode m saw"
| "plan_loop m saw (FullBody # hs) =
     \<lparr>cp_execution = Exec_Buffered, cp_forward_class = Buffered,
      cp_diagnostic = full_body_diagnostic m\<rparr>"
| "plan_loop m saw (StreamingInspect g # hs) = plan_loop m True hs"

definition plan_execution :: "protocol_context \<Rightarrow> body_hint list \<Rightarrow> capability_plan" where
  "plan_execution p hints = plan_loop (pc_body_mode p) False hints"

lemma plan_loop_eq:
  "plan_loop m saw hs =
     (if FullBody \<in> set hs
      then \<lparr>cp_execution = Exec_Buffered, cp_forward_class = Buffered,
            cp_diagnostic = full_body_diagnostic m\<rparr>
      else plan_for_mode m (saw \<or> hs \<noteq> []))"
proof (induction m saw hs rule: plan_loop.induct)
  case (3 m saw g hs)
  then show ?case by auto
qed auto

lemma plan_execution_eq:
  "plan_execution p hs =
     (if FullBody \<in> set hs
      then \<lparr>cp_execution = Exec_Buffered, cp_forward_class = Buffered,
            cp_diagnostic = full_body_diagnostic (pc_body_mode p)\<rparr>
      else plan_for_mode (pc_body_mode p) (hs \<noteq> []))"
  by (simp add: plan_execution_def plan_loop_eq)

end
