(* ===== verification/SessionTypes.thy ===== *)
theory SessionTypes
  imports Forward
begin

text \<open>
  The data model of recorded traffic (\<open>session/mod.rs\<close>): WebSocket frames, inspector
  data, the protocol event stream and the decision trace of a request. A timestamp
  (\<open>chrono::DateTime<Utc>\<close>) is a number of milliseconds; the clock is an argument of
  the operations that read it. \<open>json\<close> has the documented constructors of
  \<open>serde_json::Value\<close>; a floating point number is kept as its text.
\<close>

type_synonym timestamp = int

datatype json_number = PosInt u64 | NegInt int | Float string

datatype json =
  JNull | JBool bool | JNumber json_number | JString string
| JArray "json list" | JObject "(string \<times> json) list"

datatype ws_direction = ClientToServer | ServerToClient

record ws_frame =
  wf_timestamp :: timestamp
  wf_direction :: ws_direction
  wf_opcode :: byte
  wf_payload_len :: nat
  wf_payload_text :: "string option"
  wf_payload_hex :: "string option"

record inspection_metrics =
  im_latency_ms :: u64
  im_request_size_bytes :: nat
  im_response_size_bytes :: nat
  im_status_code :: u16
  im_ttfb_ms :: u64
  im_body_ms :: u64
  im_dns_ms :: "u64 option"
  im_tcp_connect_ms :: "u64 option"
  im_tls_ms :: "u64 option"
  im_protocol :: "string option"

definition im_default :: inspection_metrics where
  "im_default = \<lparr>im_latency_ms = 0, im_request_size_bytes = 0, im_response_size_bytes = 0,
     im_status_code = 0, im_ttfb_ms = 0, im_body_ms = 0, im_dns_ms = None,
     im_tcp_connect_ms = None, im_tls_ms = None, im_protocol = None\<rparr>"

datatype session_source = Proxy | AdminForward | Playback | Imported

record graphql_info =
  gq_operation_type :: string
  gq_operation_name :: "string option"
  gq_variables :: "json option"

record jwt_info =
  jw_header :: json
  jw_claims :: json
  jw_expired :: bool
  jw_alg_none_warning :: bool

record grpc_field =
  gf_field_number :: u32
  gf_wire_type :: byte
  gf_value :: json

record grpc_message =
  gm_direction :: string
  gm_compressed :: bool
  gm_length :: u32
  gm_fields :: "grpc_field list"

record grpc_info =
  gi_service :: "string option"
  gi_method :: "string option"
  gi_messages :: "grpc_message list"
  gi_grpc_status :: "string option"
  gi_grpc_status_message :: "string option"

record inspector_data =
  id_graphql :: "graphql_info option"
  id_jwt :: "jwt_info option"
  id_grpc :: "grpc_info option"

definition id_default :: inspector_data where
  "id_default = \<lparr>id_graphql = None, id_jwt = None, id_grpc = None\<rparr>"

datatype session_event =
  Ev_RequestBodyChunk nat u64
| Ev_ResponseBodyChunk nat u64
| Ev_GrpcMessage string grpc_message
| Ev_WsFrame ws_frame
| Ev_Trailers header_map
| Ev_BreakpointPaused string
| Ev_MockServed string string
| Ev_TunnelOpened
| Ev_TunnelClosed u64 u64

datatype flow_rule_kind =
  FR_MapRemote | FR_MapLocal | FR_Rewrite | FR_Mock | FR_Breakpoint | FR_AccessControl
| FR_DnsOverride | FR_Lua | FR_CaptureFilter | FR_Throttle

datatype flow_target_source =
  FT_OriginalHost | FT_MapRemote | FT_DnsOverride | FT_UpstreamProxy | FT_MitmConnect

datatype flow_short_circuit_reason =
  SC_MockResponse | SC_MapLocalFile | SC_MapLocalError | SC_RewriteRedirect | SC_RewriteBlock
| SC_AccessDenied | SC_BreakpointTimeout | SC_LuaAbort | SC_MiddlewareStop

datatype flow_stage =
  FS_RequestMiddleware | FS_TargetResolution | FS_Forwarding | FS_ResponseMiddleware | FS_Recording

text \<open>Arguments in the order of the source's fields: \<open>RequestReceived\<close> method, host, path;
  \<open>RuleMatched\<close> kind, id, name; \<open>RuleApplied\<close> kind, id, name, summary;
  \<open>TargetSelected\<close> source, target, id, name; \<open>ShortCircuited\<close> reason, status, id, name.\<close>

datatype flow_event =
  RequestReceived string string string
| RuleMatched flow_rule_kind string string
| RuleApplied flow_rule_kind string string string
| TargetSelected flow_target_source string "string option" "string option"
| ShortCircuited flow_short_circuit_reason u16 "string option" "string option"
| Forwarded string
| ResponseReceived u16 u64
| ResponseModified flow_rule_kind string string string
| Completed u16 u64
| Failed flow_stage string

section \<open>Retained bytes of events\<close>

definition opt_len :: "string option \<Rightarrow> nat" where
  "opt_len s = (case s of None \<Rightarrow> 0 | Some t \<Rightarrow> length t)"

definition frame_retained_size :: "ws_frame \<Rightarrow> nat" where
  "frame_retained_size f = opt_len (wf_payload_text f) + opt_len (wf_payload_hex f)"

definition clear_frame :: "ws_frame \<Rightarrow> ws_frame" where
  "clear_frame f = f\<lparr>wf_payload_text := None, wf_payload_hex := None\<rparr>"

fun retained_body_size :: "session_event \<Rightarrow> nat" where
  "retained_body_size (Ev_WsFrame f) = frame_retained_size f"
| "retained_body_size _ = 0"

fun clear_retained_body :: "session_event \<Rightarrow> session_event" where
  "clear_retained_body (Ev_WsFrame f) = Ev_WsFrame (clear_frame f)"
| "clear_retained_body e = e"

lemma frame_retained_clear [simp]: "frame_retained_size (clear_frame f) = 0"
  by (simp add: frame_retained_size_def clear_frame_def opt_len_def)

lemma retained_clear [simp]: "retained_body_size (clear_retained_body e) = 0"
  by (cases e) simp_all

end
