(* ===== verification/EngineWire.thy ===== *)
theory EngineWire
  imports SessionTypes
begin

text \<open>
  \<open>core/engine/wire.rs\<close>: protocol inference from the request head, header
  sanitisation, and the construction of the upstream URL.

  The \<open>http\<close> crate parses a request target before this code sees it, so a
  \<open>Uri\<close> is the record of what its accessors return. \<open>reqwest::Url::parse\<close> and the
  header name and value constructors are arguments of the functions that call them. The
  list that \<open>upstream_headers\<close> returns holds the appended fields in order.
\<close>

record uri =
  uri_scheme :: "string option"
  uri_authority :: "string option"
  uri_path_and_query :: "string option"
  uri_text :: string

record url =
  url_scheme :: string
  url_host_str :: "string option"
  url_port :: "u16 option"

section \<open>Protocol inference\<close>

definition binary_prefixes :: "string list" where
  "binary_prefixes = [''image/'', ''audio/'', ''video/'', ''font/'']"

definition binary_types :: "string list" where
  "binary_types = [''application/octet-stream'', ''application/pdf'', ''application/wasm'',
     ''application/zip'', ''application/gzip'', ''application/x-tar'', ''application/x-gzip'',
     ''application/msgpack'', ''application/x-msgpack'', ''application/cbor'',
     ''application/protobuf'', ''application/x-protobuf'', ''application/vnd.google.protobuf'']"

definition is_binary_content_type :: "string \<Rightarrow> bool" where
  "is_binary_content_type ct0 =
     (let ct = trim_str (hd (split_char (CHR '';'') ct0))
      in list_ex (\<lambda>p. starts_with ct p) binary_prefixes \<or> ct \<in> set binary_types)"

fun protocol_label :: "http_version \<Rightarrow> string" where
  "protocol_label HTTP_09 = ''HTTP/0.9''"
| "protocol_label HTTP_10 = ''HTTP/1.0''"
| "protocol_label HTTP_11 = ''HTTP/1.1''"
| "protocol_label HTTP_2 = ''HTTP/2''"
| "protocol_label HTTP_3 = ''HTTP/3''"
| "protocol_label HTTP_OTHER = ''HTTP/?''"

definition infer_application_protocol :: "header_map \<Rightarrow> application_protocol" where
  "infer_application_protocol headers =
     (let content_type = to_ascii_lowercase
            (case header_value headers ''content-type'' of Some v \<Rightarrow> v | None \<Rightarrow> [])
      in if starts_with content_type ''application/grpc'' then App_Grpc
         else if starts_with content_type ''text/event-stream'' then App_Sse
         else if contains_str content_type ''graphql'' then App_Graphql
         else if contains_str content_type ''json'' then App_Json
         else if is_binary_content_type content_type then App_Binary
         else App_Http)"

definition infer_body_mode :: "string \<Rightarrow> header_map \<Rightarrow> u64 \<Rightarrow> body_mode" where
  "infer_body_mode verb headers stream_threshold_bytes =
     (if (case header_value headers ''upgrade'' of
            Some v \<Rightarrow> eq_ignore_ascii_case v ''websocket'' | None \<Rightarrow> False)
      then Body_Frames
      else if infer_application_protocol headers = App_Grpc then Body_StreamMessages
      else if (verb = ''GET'' \<or> verb = ''HEAD'' \<or> verb = ''OPTIONS'')
              \<and> \<not> hm_contains_key headers ''content-length''
              \<and> \<not> hm_contains_key headers ''transfer-encoding''
      then Body_Empty
      else let chunked = (case header_value headers ''transfer-encoding'' of
                 Some v \<Rightarrow> contains_str (to_ascii_lowercase v) ''chunked'' | None \<Rightarrow> False);
               large = (case Option.bind (header_value headers ''content-length'') parse_u64 of
                 Some len \<Rightarrow> len > stream_threshold_bytes | None \<Rightarrow> False)
           in if chunked \<or> large then Body_StreamBytes else Body_Full)"

section \<open>Header sanitisation\<close>

definition hop_by_hop_request :: "string list" where
  "hop_by_hop_request = [''connection'', ''keep-alive'', ''proxy-connection'',
     ''transfer-encoding'', ''trailer'', ''trailers'', ''upgrade'']"

definition hop_by_hop_response :: "string list" where
  "hop_by_hop_response = [''connection'', ''keep-alive'', ''proxy-connection'',
     ''transfer-encoding'', ''te'', ''trailer'', ''trailers'', ''upgrade'']"

definition sanitize_forwarded_request_headers :: "header_map \<Rightarrow> header_map" where
  "sanitize_forwarded_request_headers headers =
     (let h1 = hm_retain (\<lambda>name _. \<not> starts_with (to_ascii_lowercase (trim_str name)) ''x-oproxy-'')
                 headers;
          h2 = foldl (\<lambda>h hdr. snd (hm_remove h hdr)) h1 hop_by_hop_request
      in hm_retain (\<lambda>name value. name \<noteq> ''te''
                      \<or> eq_ignore_ascii_case (trim_str value) ''trailers'') h2)"

definition strip_hop_by_hop_response_headers :: "header_map \<Rightarrow> header_map" where
  "strip_hop_by_hop_response_headers headers = foldl remove_header headers hop_by_hop_response"

section \<open>Upstream URL and headers\<close>

fun split_scheme :: "string \<Rightarrow> (string \<times> string) option" where
  "split_scheme s = (case find_str ''://'' s of
     Some i \<Rightarrow> Some (take i s, drop (i + 3) s) | None \<Rightarrow> None)"

definition request_scheme :: "uri \<Rightarrow> string option \<Rightarrow> string" where
  "request_scheme u mitm_destination =
     (case Option.bind mitm_destination split_scheme of
        Some (scheme, _) \<Rightarrow> scheme
      | None \<Rightarrow> (case uri_scheme u of Some s \<Rightarrow> s | None \<Rightarrow> ''http''))"

definition display_request_uri :: "uri \<Rightarrow> string option \<Rightarrow> string \<Rightarrow> string" where
  "display_request_uri u mitm_destination host =
     (let path_and_query = (case uri_path_and_query u of Some pq \<Rightarrow> pq | None \<Rightarrow> ''/'')
      in case mitm_destination of
           Some destination \<Rightarrow> trim_end_char (CHR ''/'') destination @ path_and_query
         | None \<Rightarrow>
             if uri_scheme u \<noteq> None \<and> uri_authority u \<noteq> None then uri_text u
             else ''http://'' @ host @ path_and_query)"

definition upstream_path :: "uri \<Rightarrow> string \<Rightarrow> string" where
  "upstream_path u fallback =
     (case uri_path_and_query u of
        Some v \<Rightarrow> v
      | None \<Rightarrow> if starts_with fallback ''/'' then fallback else ''/'')"

definition target_url ::
    "(string \<Rightarrow> url option) \<Rightarrow> string option \<Rightarrow> string \<Rightarrow> string \<Rightarrow> header_map \<Rightarrow> string \<times> header_map" where
  "target_url url_parse destination request_host path headers =
     (case destination of
        None \<Rightarrow> (''http://'' @ request_host @ path, headers)
      | Some destination0 \<Rightarrow>
          let dest = trim_end_char (CHR ''/'') destination0;
              base = (if starts_with dest ''http://'' \<or> starts_with dest ''https://''
                      then dest else ''http://'' @ dest);
              headers' = (case Option.bind (url_parse base)
                              (\<lambda>u. map_option (\<lambda>h. (u, h)) (url_host_str u)) of
                  Some (u, host) \<Rightarrow>
                    snd (hm_insert headers ''host''
                      (case url_port u of
                         Some port \<Rightarrow> host @ '':'' @ decimal (unat port) | None \<Rightarrow> host))
                | None \<Rightarrow> headers)
          in (base @ path, headers'))"

definition upstream_headers ::
    "(string \<Rightarrow> 'n option) \<Rightarrow> (string \<Rightarrow> 'v option) \<Rightarrow> header_map \<Rightarrow> ('n \<times> 'v) list" where
  "upstream_headers name_from_bytes value_from_bytes headers =
     foldl (\<lambda>upstream (name, value).
              if name = ''host'' \<or> name = ''content-length'' then upstream
              else case (name_from_bytes name, value_from_bytes value) of
                     (Some n, Some v) \<Rightarrow> upstream @ [(n, v)] | _ \<Rightarrow> upstream)
       [] (entries headers)"

section \<open>Lemmas\<close>

lemma infer_body_mode_websocket:
  "hm_get h ''upgrade'' = Some v \<Longrightarrow> eq_ignore_ascii_case v ''websocket'' \<Longrightarrow>
   infer_body_mode m h t = Body_Frames"
  by (simp add: infer_body_mode_def header_value_def)

lemma remove_fold_eq:
  "foldl (\<lambda>h hdr. snd (hm_remove h hdr)) h ks = foldl remove_header h ks"
  by (induction ks arbitrary: h) (simp_all add: remove_header_def)

lemma remove_fold_get:
  "hm_get (foldl (\<lambda>h hdr. snd (hm_remove h hdr)) h ks) b =
     (if \<exists>k \<in> set ks. eq_ignore_ascii_case k b then None else hm_get h b)"
  by (simp add: remove_fold_eq hstore.store_del_all)

lemma remove_fold_wf [simp, invariant_intro]:
  "hm_wf h \<Longrightarrow> hm_wf (foldl (\<lambda>h hdr. snd (hm_remove h hdr)) h ks)"
  by (simp add: remove_fold_eq hstore.store_ok_del_all)

lemma sanitize_wf [simp, invariant_intro]:
  "hm_wf h \<Longrightarrow> hm_wf (sanitize_forwarded_request_headers h)"
  by (simp add: sanitize_forwarded_request_headers_def Let_def)

lemma strip_wf [simp, invariant_intro]: "hm_wf h \<Longrightarrow> hm_wf (strip_hop_by_hop_response_headers h)"
  by (simp add: strip_hop_by_hop_response_headers_def hstore.store_ok_del_all)

lemma hm_remove_entries:
  "entries (snd (hm_remove h k)) = filter (\<lambda>(n, _). \<not> eq_ignore_ascii_case n k) (entries h)"
  by (simp add: hm_remove_def)

lemma remove_fold_entries:
  "entries (foldl (\<lambda>h hdr. snd (hm_remove h hdr)) h ks) =
     filter (\<lambda>(n, _). \<forall>k \<in> set ks. \<not> eq_ignore_ascii_case n k) (entries h)"
  by (induction ks arbitrary: h) (auto simp: hm_remove_entries intro!: filter_cong)

lemma sanitize_entries:
  "entries (sanitize_forwarded_request_headers h) =
     filter (\<lambda>(n, v). \<not> starts_with (to_ascii_lowercase (trim_str n)) ''x-oproxy-''
        \<and> (\<forall>k \<in> set hop_by_hop_request. \<not> eq_ignore_ascii_case n k)
        \<and> (n = ''te'' \<longrightarrow> eq_ignore_ascii_case (trim_str v) ''trailers'')) (entries h)"
  by (auto simp: sanitize_forwarded_request_headers_def Let_def hm_retain_def
      remove_fold_entries intro!: filter_cong)

lemma strip_response_entries:
  "entries (strip_hop_by_hop_response_headers h) =
     filter (\<lambda>(n, _). \<forall>k \<in> set hop_by_hop_response. \<not> eq_ignore_ascii_case n k) (entries h)"
  using remove_fold_entries [of h hop_by_hop_response]
  by (simp add: strip_hop_by_hop_response_headers_def remove_fold_eq)

lemma upstream_headers_eq:
  "upstream_headers nf vf h =
     map (\<lambda>(n, v). (the (nf n), the (vf v)))
       (filter (\<lambda>(n, v). n \<noteq> ''host'' \<and> n \<noteq> ''content-length'' \<and> nf n \<noteq> None \<and> vf v \<noteq> None)
         (entries h))"
proof -
  have "foldl (\<lambda>upstream (name, value).
              if name = ''host'' \<or> name = ''content-length'' then upstream
              else case (nf name, vf value) of
                     (Some n, Some v) \<Rightarrow> upstream @ [(n, v)] | _ \<Rightarrow> upstream) acc es
      = acc @ map (\<lambda>(n, v). (the (nf n), the (vf v)))
       (filter (\<lambda>(n, v). n \<noteq> ''host'' \<and> n \<noteq> ''content-length'' \<and> nf n \<noteq> None \<and> vf v \<noteq> None) es)"
    for acc es
    by (induction es arbitrary: acc) (auto split: option.splits)
  from this [of "[]" "entries h"] show ?thesis by (simp add: upstream_headers_def)
qed

lemma find_str_first:
  "find_str pat s = Some i \<Longrightarrow> j < i \<Longrightarrow> \<not> prefix pat (drop j s)"
proof (induction pat s arbitrary: i j rule: find_str.induct)
  case (2 pat c cs)
  then show ?case by (cases j) (auto split: if_splits)
qed (auto split: if_splits)

lemma find_str_prefix_char:
  "CHR '':'' \<notin> set a \<Longrightarrow> find_str ''://'' (a @ ''://'' @ r) = Some (length a)"
  by (induction a) (auto simp: prefix_def)

lemma split_scheme_append:
  "CHR '':'' \<notin> set a \<Longrightarrow> split_scheme (a @ ''://'' @ r) = Some (a, r)"
  using find_str_prefix_char [of a r] by simp

section \<open>Properties\<close>

text \<open>C13 The header fields sent upstream are, in order, those of the request except the
  ones whose name starts with \<open>x-oproxy-\<close>, the hop-by-hop names, a \<open>te\<close> field with a
  value other than \<open>trailers\<close>, \<open>host\<close>, \<open>content-length\<close>, and the fields the
  http library refuses.\<close>

theorem forwarded_request_headers:
  "upstream_headers nf vf (sanitize_forwarded_request_headers h) =
     map (\<lambda>(n, v). (the (nf n), the (vf v)))
       (filter (\<lambda>(n, v). \<not> starts_with (to_ascii_lowercase (trim_str n)) ''x-oproxy-''
          \<and> \<not> (\<exists>k \<in> set [''connection'', ''keep-alive'', ''proxy-connection'', ''transfer-encoding'',
                       ''trailer'', ''trailers'', ''upgrade'']. eq_ignore_ascii_case n k)
          \<and> \<not> (n = ''te'' \<and> \<not> eq_ignore_ascii_case (trim_str v) ''trailers'')
          \<and> n \<noteq> ''host'' \<and> n \<noteq> ''content-length'' \<and> nf n \<noteq> None \<and> vf v \<noteq> None)
         (entries h))"
  unfolding upstream_headers_eq sanitize_entries filter_filter
  by (rule arg_cong [where f = "map _"], rule filter_cong) (auto simp: hop_by_hop_request_def)

text \<open>A response relayed to the client has no hop-by-hop field left, however it is
  spelled, and every other field keeps all its values.\<close>

theorem relayed_response_headers:
  "hm_get (strip_hop_by_hop_response_headers h) k =
     (if list_ex (eq_ignore_ascii_case k) [''connection'', ''keep-alive'', ''proxy-connection'',
         ''transfer-encoding'', ''te'', ''trailer'', ''trailers'', ''upgrade'']
      then None else hm_get h k)
   \<and> entries (strip_hop_by_hop_response_headers h) =
       filter (\<lambda>(n, _). \<not> list_ex (eq_ignore_ascii_case n) hop_by_hop_response) (entries h)"
proof
  have "hm_get (strip_hop_by_hop_response_headers h) k =
     (if \<exists>n \<in> set hop_by_hop_response. eq_ignore_ascii_case n k then None else hm_get h k)"
    by (simp add: strip_hop_by_hop_response_headers_def hstore.store_del_all)
  then show "hm_get (strip_hop_by_hop_response_headers h) k =
     (if list_ex (eq_ignore_ascii_case k) [''connection'', ''keep-alive'', ''proxy-connection'',
         ''transfer-encoding'', ''te'', ''trailer'', ''trailers'', ''upgrade'']
      then None else hm_get h k)"
    by (simp add: hop_by_hop_response_def eq_ignore_ascii_case_sym)
  show "entries (strip_hop_by_hop_response_headers h) =
       filter (\<lambda>(n, _). \<not> list_ex (eq_ignore_ascii_case n) hop_by_hop_response) (entries h)"
    unfolding strip_response_entries by (rule filter_cong) (auto simp: list_ex_iff)
qed

end
