(* ===== verification/Context.thy ===== *)
theory Context
  imports EngineWire
begin

text \<open>
  The request and response contexts that flow through the middleware
  (\<open>middleware/mod.rs\<close>): the side-channel fields, the bounded decision trace, the wire
  representations written to saved sessions and exports, and the path and query helpers.

  \<open>base64\<close> is the argument pair \<open>b64_encode\<close>, \<open>b64_decode\<close> of the functions
  that use it, and \<open>iter\<close> is the iteration order of a hash map.
\<close>

datatype middleware_action = Continue | StopAndReturn

record served_mock =
  sm_rule_id :: string
  sm_behavior :: string

record intercepted_response =
  ir_status :: u16
  ir_headers :: header_map
  ir_body :: bytes
  ir_tags :: "string list"
  ir_served_mock :: "served_mock option"

record request_context =
  rq_method :: string
  rq_uri :: string
  rq_headers :: header_map
  rq_body :: bytes
  rq_host :: string
  rq_destination :: "string option"
  rq_session_id :: "string option"
  rq_skip_recording :: bool
  rq_mock_response :: "intercepted_response option"
  rq_inspector :: inspector_data
  rq_connection_id :: "string option"
  rq_stream_id :: "u64 option"
  rq_downstream_protocol :: "string option"
  rq_remote_addr :: "string option"
  rq_protocol_context :: "protocol_context option"
  rq_rewritten :: bool
  rq_flow :: "flow_event list"

definition rq_default :: request_context where
  "rq_default = \<lparr>rq_method = [], rq_uri = [], rq_headers = hm_new, rq_body = [], rq_host = [],
     rq_destination = None, rq_session_id = None, rq_skip_recording = False,
     rq_mock_response = None, rq_inspector = id_default, rq_connection_id = None,
     rq_stream_id = None, rq_downstream_protocol = None, rq_remote_addr = None,
     rq_protocol_context = None, rq_rewritten = False, rq_flow = []\<rparr>"

record response_context =
  rs_status :: u16
  rs_headers :: header_map
  rs_body :: bytes
  rs_request_uri :: string
  rs_session_id :: "string option"
  rs_ttfb_ms :: u64
  rs_body_ms :: u64
  rs_tags :: "string list"
  rs_request_host :: string
  rs_request_method :: string
  rs_protocol :: "string option"
  rs_response_body_observer_pending :: bool
  rs_terminal_recording_pending :: bool
  rs_protocol_context :: "protocol_context option"
  rs_flow :: "flow_event list"

definition rs_default :: response_context where
  "rs_default = \<lparr>rs_status = 0, rs_headers = hm_new, rs_body = [], rs_request_uri = [],
     rs_session_id = None, rs_ttfb_ms = 0, rs_body_ms = 0, rs_tags = [], rs_request_host = [],
     rs_request_method = [], rs_protocol = None, rs_response_body_observer_pending = False,
     rs_terminal_recording_pending = False, rs_protocol_context = None, rs_flow = []\<rparr>"

section \<open>The decision trace\<close>

definition MAX_FLOW_EVENTS :: nat where
  "MAX_FLOW_EVENTS = 64"

definition MAX_FLOW_SUMMARY_CHARS :: nat where
  "MAX_FLOW_SUMMARY_CHARS = 200"

definition truncate_summary :: "string \<Rightarrow> string" where
  "truncate_summary summary =
     (if chars_count summary \<le> MAX_FLOW_SUMMARY_CHARS then summary
      else chars_take (MAX_FLOW_SUMMARY_CHARS - 3) summary @ ''...'')"

fun truncate_flow_event :: "flow_event \<Rightarrow> flow_event" where
  "truncate_flow_event (RuleApplied k i n summary) = RuleApplied k i n (truncate_summary summary)"
| "truncate_flow_event (ResponseModified k i n summary) =
     ResponseModified k i n (truncate_summary summary)"
| "truncate_flow_event (Failed stage message) = Failed stage (truncate_summary message)"
| "truncate_flow_event other = other"

definition push_flow_event :: "flow_event list \<Rightarrow> flow_event \<Rightarrow> flow_event list" where
  "push_flow_event events event =
     (if length events \<ge> MAX_FLOW_EVENTS then events else events @ [truncate_flow_event event])"

definition rq_body_text :: "request_context \<Rightarrow> string" where
  "rq_body_text ctx = from_utf8_lossy (rq_body ctx)"

definition rq_set_body_text :: "request_context \<Rightarrow> string \<Rightarrow> request_context" where
  "rq_set_body_text ctx text = ctx\<lparr>rq_body := bytes_of_string text\<rparr>"

definition rq_push_flow :: "request_context \<Rightarrow> flow_event \<Rightarrow> request_context" where
  "rq_push_flow ctx event = ctx\<lparr>rq_flow := push_flow_event (rq_flow ctx) event\<rparr>"

definition rq_take_flow :: "request_context \<Rightarrow> flow_event list \<times> request_context" where
  "rq_take_flow ctx = (rq_flow ctx, ctx\<lparr>rq_flow := []\<rparr>)"

definition rs_body_text :: "response_context \<Rightarrow> string" where
  "rs_body_text ctx = from_utf8_lossy (rs_body ctx)"

definition rs_set_body_text :: "response_context \<Rightarrow> string \<Rightarrow> response_context" where
  "rs_set_body_text ctx text = ctx\<lparr>rs_body := bytes_of_string text\<rparr>"

definition rs_push_flow :: "response_context \<Rightarrow> flow_event \<Rightarrow> response_context" where
  "rs_push_flow ctx event = ctx\<lparr>rs_flow := push_flow_event (rs_flow ctx) event\<rparr>"

definition rs_extend_flow :: "response_context \<Rightarrow> flow_event list \<Rightarrow> response_context" where
  "rs_extend_flow ctx events = foldl rs_push_flow ctx events"

section \<open>Wire representations\<close>

record request_context_wire =
  rqw_method :: string
  rqw_uri :: string
  rqw_headers :: "string \<rightharpoonup> string"
  rqw_body :: string
  rqw_host :: string
  rqw_remote_addr :: "string option"

definition rq_to_wire :: "request_context \<Rightarrow> request_context_wire" where
  "rq_to_wire ctx = \<lparr>rqw_method = rq_method ctx, rqw_uri = rq_uri ctx,
     rqw_headers = hm_to_hash (rq_headers ctx), rqw_body = from_utf8_lossy (rq_body ctx),
     rqw_host = rq_host ctx, rqw_remote_addr = rq_remote_addr ctx\<rparr>"

definition rq_of_wire ::
    "((string \<rightharpoonup> string) \<Rightarrow> (string \<times> string) list) \<Rightarrow> request_context_wire \<Rightarrow> request_context" where
  "rq_of_wire iter wire = rq_default\<lparr>rq_method := rqw_method wire, rq_uri := rqw_uri wire,
     rq_headers := hm_of_hash iter (rqw_headers wire), rq_body := bytes_of_string (rqw_body wire),
     rq_host := rqw_host wire, rq_remote_addr := rqw_remote_addr wire\<rparr>"

record response_context_wire =
  rsw_status :: u16
  rsw_headers :: "string \<rightharpoonup> string"
  rsw_body :: string
  rsw_request_uri :: string
  rsw_session_id :: "string option"
  rsw_ttfb_ms :: u64
  rsw_body_ms :: u64

definition rs_to_wire :: "(bytes \<Rightarrow> string) \<Rightarrow> response_context \<Rightarrow> response_context_wire" where
  "rs_to_wire b64_encode ctx =
     (let body = (if is_binary_content_type (content_type_of (rs_headers ctx))
                  then b64_encode (rs_body ctx) else from_utf8_lossy (rs_body ctx))
      in \<lparr>rsw_status = rs_status ctx, rsw_headers = hm_to_hash (rs_headers ctx),
          rsw_body = body, rsw_request_uri = rs_request_uri ctx,
          rsw_session_id = rs_session_id ctx, rsw_ttfb_ms = rs_ttfb_ms ctx,
          rsw_body_ms = rs_body_ms ctx\<rparr>)"

definition rs_of_wire ::
    "((string \<rightharpoonup> string) \<Rightarrow> (string \<times> string) list) \<Rightarrow> (bytes \<Rightarrow> bytes option) \<Rightarrow>
     response_context_wire \<Rightarrow> response_context" where
  "rs_of_wire iter b64_decode wire =
     (let headers = hm_of_hash iter (rsw_headers wire);
          raw = bytes_of_string (rsw_body wire);
          body = (if is_binary_content_type (content_type_of headers)
                  then (case b64_decode raw of Some b \<Rightarrow> b | None \<Rightarrow> raw)
                  else raw)
      in rs_default\<lparr>rs_status := rsw_status wire, rs_headers := headers, rs_body := body,
           rs_request_uri := rsw_request_uri wire, rs_session_id := rsw_session_id wire,
           rs_ttfb_ms := rsw_ttfb_ms wire, rs_body_ms := rsw_body_ms wire\<rparr>)"

section \<open>Paths and queries\<close>

definition path_of :: "string \<Rightarrow> string" where
  "path_of u =
     (let s = hd (split_char (CHR ''?'') u)
      in case find_str ''://'' s of
           Some idx \<Rightarrow>
             let after_scheme = drop (idx + 3) s
             in (case find_str ''/'' after_scheme of
                   Some i \<Rightarrow> drop i after_scheme | None \<Rightarrow> ''/'')
         | None \<Rightarrow> s)"

definition split_path_query :: "string \<Rightarrow> string \<times> string" where
  "split_path_query u = (case split_once (CHR ''?'') u of Some (p, q) \<Rightarrow> (p, q) | None \<Rightarrow> (u, []))"

definition parse_query :: "string \<Rightarrow> (string \<times> string) list" where
  "parse_query query =
     (if query = [] then []
      else map (\<lambda>p. case split_once (CHR ''='') p of Some (k, v) \<Rightarrow> (k, v) | None \<Rightarrow> (p, []))
             (filter (\<lambda>p. p \<noteq> []) (split_char (CHR ''&'') query)))"

definition render_pair :: "string \<times> string \<Rightarrow> string" where
  "render_pair kv = (case kv of (k, v) \<Rightarrow> if v = [] then k else k @ ''='' @ v)"

definition build_query :: "(string \<times> string) list \<Rightarrow> string" where
  "build_query pairs = join_str ''&'' (map render_pair pairs)"

definition with_query :: "string \<Rightarrow> string \<Rightarrow> string" where
  "with_query path new_q = (if new_q = [] then path else path @ ''?'' @ new_q)"

fun set_pair :: "(string \<times> string) list \<Rightarrow> string \<Rightarrow> string \<Rightarrow> (string \<times> string) list" where
  "set_pair [] name value = [(name, value)]"
| "set_pair ((k, v) # kvs) name value =
     (if k = name then (k, value) # kvs else (k, v) # set_pair kvs name value)"

definition set_query_param :: "string \<Rightarrow> string \<Rightarrow> string \<Rightarrow> string" where
  "set_query_param u name value =
     (let (path, query) = split_path_query u
      in with_query path (build_query (set_pair (parse_query query) name value)))"

definition remove_query_param :: "string \<Rightarrow> string \<Rightarrow> string" where
  "remove_query_param u name =
     (let (path, query) = split_path_query u
      in with_query path (build_query (filter (\<lambda>(k, _). k \<noteq> name) (parse_query query))))"

section \<open>Lemmas on the decision trace\<close>

definition event_summary :: "flow_event \<Rightarrow> string option" where
  "event_summary e = (case e of RuleApplied _ _ _ s \<Rightarrow> Some s | ResponseModified _ _ _ s \<Rightarrow> Some s
     | Failed _ s \<Rightarrow> Some s | _ \<Rightarrow> None)"

definition flow_bounded :: "flow_event list \<Rightarrow> bool" where
  "flow_bounded es \<longleftrightarrow> length es \<le> MAX_FLOW_EVENTS \<and>
     (\<forall>e \<in> set es. \<forall>s. event_summary e = Some s \<longrightarrow> chars_count s \<le> MAX_FLOW_SUMMARY_CHARS)"

lemma flow_bounded_Nil [simp, invariant_intro]: "flow_bounded []"
  by (simp add: flow_bounded_def)

lemma dots_no_cont: "\<forall>c \<in> set ''...''. \<not> is_continuation c"
  by (simp add: is_continuation_def)

lemma utf8_chars_take:
  "utf8_chars (concat (take n (utf8_chars s))) = take n (utf8_chars s)"
proof (induction s arbitrary: n rule: utf8_chars.induct)
  case (2 c cs)
  show ?case
  proof (cases n)
    case (Suc m)
    let ?r = "dropWhile is_continuation cs"
    let ?rest = "concat (take m (utf8_chars ?r))"
    have "case ?rest of [] \<Rightarrow> True | d # _ \<Rightarrow> \<not> is_continuation d"
    proof (cases ?r)
      case (Cons d ds)
      then have "\<not> is_continuation d"
        using hd_dropWhile [of is_continuation cs] by auto
      with Cons show ?thesis by (cases m) simp_all
    qed (simp del: dropWhile_eq_Nil_conv)
    then have "takeWhile is_continuation (takeWhile is_continuation cs @ ?rest)
          = takeWhile is_continuation cs
        \<and> dropWhile is_continuation (takeWhile is_continuation cs @ ?rest) = ?rest"
      by (intro takeWhile_append_stop) (auto dest: set_takeWhileD)
    with Suc "2.IH" show ?thesis by simp
  qed simp
qed simp

lemma chars_count_take: "chars_count (chars_take n s) = min n (chars_count s)"
  by (simp add: chars_count_def chars_take_def utf8_chars_take min.commute)

lemma chars_count_truncate: "chars_count (truncate_summary s) \<le> MAX_FLOW_SUMMARY_CHARS"
proof (cases "chars_count s \<le> MAX_FLOW_SUMMARY_CHARS")
  case False
  have "chars_count (t @ ''...'') = chars_count t + 3" for t
    using utf8_chars_append [OF dots_no_cont, of t]
    by (simp add: chars_count_def utf8_chars_no_cont dots_no_cont)
  with False show ?thesis
    by (simp add: truncate_summary_def chars_count_take MAX_FLOW_SUMMARY_CHARS_def)
qed (simp add: truncate_summary_def)

lemma truncate_summary_short:
  "chars_count s \<le> MAX_FLOW_SUMMARY_CHARS \<Longrightarrow> truncate_summary s = s"
  by (simp add: truncate_summary_def)

lemma event_summary_truncate:
  "event_summary (truncate_flow_event e) = map_option truncate_summary (event_summary e)"
  by (cases e) (simp_all add: event_summary_def)

lemma flow_bounded_push [simp, invariant_intro]:
  "flow_bounded es \<Longrightarrow> flow_bounded (push_flow_event es e)"
  by (auto simp: flow_bounded_def push_flow_event_def event_summary_truncate chars_count_truncate)

lemma rq_push_flow_fields [simp]:
  "rq_flow (rq_push_flow c e) = push_flow_event (rq_flow c) e"
  "rq_headers (rq_push_flow c e) = rq_headers c"
  "rq_uri (rq_push_flow c e) = rq_uri c"
  "rq_host (rq_push_flow c e) = rq_host c"
  "rq_method (rq_push_flow c e) = rq_method c"
  "rq_body (rq_push_flow c e) = rq_body c"
  "rq_destination (rq_push_flow c e) = rq_destination c"
  "rq_session_id (rq_push_flow c e) = rq_session_id c"
  "rq_mock_response (rq_push_flow c e) = rq_mock_response c"
  "rq_protocol_context (rq_push_flow c e) = rq_protocol_context c"
  "rq_rewritten (rq_push_flow c e) = rq_rewritten c"
  "rq_skip_recording (rq_push_flow c e) = rq_skip_recording c"
  by (simp_all add: rq_push_flow_def)

lemma rs_push_flow_fields [simp]:
  "rs_flow (rs_push_flow c e) = push_flow_event (rs_flow c) e"
  "rs_headers (rs_push_flow c e) = rs_headers c"
  "rs_status (rs_push_flow c e) = rs_status c"
  "rs_body (rs_push_flow c e) = rs_body c"
  "rs_tags (rs_push_flow c e) = rs_tags c"
  "rs_session_id (rs_push_flow c e) = rs_session_id c"
  "rs_request_uri (rs_push_flow c e) = rs_request_uri c"
  "rs_request_host (rs_push_flow c e) = rs_request_host c"
  "rs_request_method (rs_push_flow c e) = rs_request_method c"
  by (simp_all add: rs_push_flow_def)

lemma rs_extend_flow_bounded [simp, invariant_intro]:
  "flow_bounded (rs_flow c) \<Longrightarrow> flow_bounded (rs_flow (rs_extend_flow c es))"
  unfolding rs_extend_flow_def by (induction es arbitrary: c) simp_all

section \<open>Lemmas on the wire representations\<close>

lemma content_type_of_hash:
  assumes "hm_wf h" and "hash_order iter (hm_to_hash h)"
    and "length (hm_get_all h ''content-type'') \<le> 1"
  shows "content_type_of (hm_of_hash iter (hm_to_hash h)) = content_type_of h"
  by (simp add: content_type_of_def hm_get_of_hash [OF assms(1,2)] hm_to_hash_single [OF assms(1,3)])

lemma rq_wire_fields:
  "rq_method (rq_of_wire iter (rq_to_wire c)) = rq_method c"
  "rq_uri (rq_of_wire iter (rq_to_wire c)) = rq_uri c"
  "rq_host (rq_of_wire iter (rq_to_wire c)) = rq_host c"
  "rq_remote_addr (rq_of_wire iter (rq_to_wire c)) = rq_remote_addr c"
  "rq_body (rq_of_wire iter (rq_to_wire c)) = lossy_bytes (rq_body c)"
  "rq_headers (rq_of_wire iter (rq_to_wire c)) = hm_of_hash iter (hm_to_hash (rq_headers c))"
  by (simp_all add: rq_of_wire_def rq_to_wire_def from_utf8_lossy_def)

lemma rq_wire_side_channel:
  "rq_destination (rq_of_wire iter w) = None"
  "rq_session_id (rq_of_wire iter w) = None"
  "rq_mock_response (rq_of_wire iter w) = None"
  "rq_flow (rq_of_wire iter w) = []"
  "rq_skip_recording (rq_of_wire iter w) = False"
  "rq_rewritten (rq_of_wire iter w) = False"
  by (simp_all add: rq_of_wire_def rq_default_def)

section \<open>Lemmas on queries\<close>

lemma parse_rendered_pair:
  "CHR ''='' \<notin> set k \<Longrightarrow>
   (case split_once (CHR ''='') (render_pair (k, v)) of Some (a, b) \<Rightarrow> (a, b)
      | None \<Rightarrow> (render_pair (k, v), [])) = (k, v)"
  using split_once_append [of "CHR ''=''" k v] by (simp add: render_pair_def)

lemma parse_build_query:
  assumes "\<forall>(k, v) \<in> set kvs. k \<noteq> [] \<and> CHR ''='' \<notin> set k \<and> CHR ''&'' \<notin> set k \<and> CHR ''&'' \<notin> set v"
    and "kvs \<noteq> []"
  shows "parse_query (build_query kvs) = kvs"
proof -
  let ?ps = "map render_pair kvs"
  have nonempty: "\<forall>p \<in> set ?ps. p \<noteq> []" and nosep: "\<forall>p \<in> set ?ps. CHR ''&'' \<notin> set p"
    using assms(1) by (auto simp: render_pair_def split: if_splits)
  have split: "split_char (CHR ''&'') (build_query kvs) = ?ps"
    unfolding build_query_def using assms(2) nosep by (intro split_join_char) auto
  have ne: "build_query kvs \<noteq> []"
    using split nonempty assms(2) by (cases kvs) auto
  have "filter (\<lambda>p. p \<noteq> []) ?ps = ?ps" using nonempty by (simp add: filter_id_conv)
  moreover have "map (\<lambda>p. case split_once (CHR ''='') p of Some (k, v) \<Rightarrow> (k, v) | None \<Rightarrow> (p, [])) ?ps = kvs"
    unfolding map_map comp_def
  proof (rule map_idI)
    fix kv assume "kv \<in> set kvs"
    moreover obtain k v where kv: "kv = (k, v)" by (cases kv)
    ultimately have "CHR ''='' \<notin> set k" using assms(1) by auto
    from parse_rendered_pair [OF this, of v]
    show "(case split_once (CHR ''='') (render_pair kv) of Some (k, v) \<Rightarrow> (k, v)
       | None \<Rightarrow> (render_pair kv, [])) = kv" by (simp only: kv)
  qed
  ultimately show ?thesis by (simp add: parse_query_def ne split)
qed

lemma parse_query_clean:
  "(k, v) \<in> set (parse_query q) \<Longrightarrow>
   CHR ''='' \<notin> set k \<and> CHR ''&'' \<notin> set k \<and> CHR ''&'' \<notin> set v"
  using split_char_no_sep [of "CHR ''&''" q]
  by (fastforce simp: parse_query_def split: option.splits if_splits dest: split_once_Some)

lemma set_pair_lookup:
  "map_of (set_pair kvs n v) k = (if k = n then Some v else map_of kvs k)"
  by (induction kvs n v rule: set_pair.induct) auto

lemma set_pair_keys: "set_pair kvs name value \<noteq> []"
  by (cases kvs) (auto split: if_splits)

lemma split_with_query:
  "CHR ''?'' \<notin> set path \<Longrightarrow> split_path_query (with_query path q) = (path, q)"
  using split_once_append [of "CHR ''?''" path q]
  by (auto simp: split_path_query_def with_query_def split: option.splits)

lemma split_path_query_path: "CHR ''?'' \<notin> set (fst (split_path_query u))"
  by (auto simp: split_path_query_def split: option.splits dest: split_once_Some)

section \<open>Properties\<close>

text \<open>A request written to a saved session and read back keeps its method, URI, host and
  client address, its body when that is valid UTF-8 (else the lossy decoding of it), and the
  value of every header that occurs once; the engine's side channel is reset.\<close>

theorem request_wire_roundtrip:
  assumes "hm_wf (rq_headers c)" and "hash_order iter (hm_to_hash (rq_headers c))"
  defines "c' \<equiv> rq_of_wire iter (rq_to_wire c)"
  shows "rq_method c' = rq_method c \<and> rq_uri c' = rq_uri c \<and> rq_host c' = rq_host c
    \<and> rq_remote_addr c' = rq_remote_addr c
    \<and> rq_body c' = (if valid_utf8 (rq_body c) then rq_body c else lossy_bytes (rq_body c))
    \<and> (length (hm_get_all (rq_headers c) k) \<le> 1 \<longrightarrow> hm_get (rq_headers c') k = hm_get (rq_headers c) k)
    \<and> rq_destination c' = None \<and> rq_mock_response c' = None \<and> rq_flow c' = [] \<and> rq_session_id c' = None"
proof -
  have "length (hm_get_all (rq_headers c) k) \<le> 1 \<Longrightarrow> hm_get (rq_headers c') k = hm_get (rq_headers c) k"
    using hm_to_hash_single [OF assms(1)] hm_get_of_hash [OF assms(1,2)]
    by (simp add: c'_def rq_wire_fields)
  then show ?thesis
    by (simp add: c'_def rq_wire_fields rq_wire_side_channel lossy_valid)
qed

definition sample_request :: request_context where
  "sample_request = rq_default\<lparr>rq_method := ''GET'', rq_headers := hm_from_iter [(''Accept'', ''x'')],
     rq_body := [104, 105]\<rparr>"

definition sample_order :: "(string \<rightharpoonup> string) \<Rightarrow> (string \<times> string) list" where
  "sample_order m = (case m ''accept'' of Some v \<Rightarrow> [(''accept'', v)] | None \<Rightarrow> [])"

lemma sample_hash: "hm_to_hash (rq_headers sample_request) = [''accept'' \<mapsto> ''x'']"
proof -
  have "entries (rq_headers sample_request) = [(''accept'', ''x'')]" by code_simp
  then show ?thesis by (simp add: hm_to_hash_def)
qed

theorem request_wire_roundtrip_witness:
  "rq_body (rq_of_wire sample_order (rq_to_wire sample_request)) = [104, 105]
   \<and> rq_method (rq_of_wire sample_order (rq_to_wire sample_request)) = ''GET''"
proof -
  have "hash_order sample_order (hm_to_hash (rq_headers sample_request))"
    by (simp add: sample_hash hash_order_def sample_order_def)
  moreover have "hm_wf (rq_headers sample_request)" by (simp add: sample_request_def)
  moreover have "valid_utf8 (rq_body sample_request)"
    by (rule valid_utf8_ascii) (simp add: sample_request_def)
  ultimately show ?thesis
    using request_wire_roundtrip [of sample_request sample_order] by (simp add: sample_request_def)
qed

text \<open>A response survives the wire representation byte for byte when its content type is
  binary (through base64) or its body is valid UTF-8, provided it has at most one content
  type field.\<close>

theorem response_wire_roundtrip:
  assumes "hm_wf (rs_headers c)" and "hash_order iter (hm_to_hash (rs_headers c))"
    and "length (hm_get_all (rs_headers c) ''content-type'') \<le> 1"
    and "\<And>b. dec (bytes_of_string (enc b)) = Some b"
    and "is_binary_content_type (content_type_of (rs_headers c)) \<or> valid_utf8 (rs_body c)"
  shows "rs_body (rs_of_wire iter dec (rs_to_wire enc c)) = rs_body c
    \<and> rs_status (rs_of_wire iter dec (rs_to_wire enc c)) = rs_status c
    \<and> content_type_of (rs_headers (rs_of_wire iter dec (rs_to_wire enc c))) = content_type_of (rs_headers c)"
  using assms(4,5) content_type_of_hash [OF assms(1-3)]
  by (auto simp: rs_of_wire_def rs_to_wire_def Let_def from_utf8_lossy_def lossy_valid)

theorem response_wire_roundtrip_witness:
  "rs_body (rs_of_wire (\<lambda>_. []) (\<lambda>b. Some b) (rs_to_wire string_of_bytes (rs_default\<lparr>rs_body := [111, 107]\<rparr>)))
     = [111, 107]"
proof -
  let ?c = "rs_default\<lparr>rs_body := [111, 107]\<rparr>"
  have "valid_utf8 (rs_body ?c)" by (rule valid_utf8_ascii) simp
  then show ?thesis
    using response_wire_roundtrip [of ?c "\<lambda>_. []" "\<lambda>b. Some b" string_of_bytes]
    by (simp add: rs_default_def hm_to_hash_def hm_new_def hash_order_def hm_get_all_def hm_wf_def)
qed

text \<open>With two content type fields the encoder looks at the first and the decoder at the one
  that survives in the hash map, so a plain text body is decoded as base64.\<close>

lemma response_wire_two_content_types:
  "rs_body (rs_of_wire (\<lambda>m. [(''content-type'', the (m ''content-type''))]) (\<lambda>_. Some [9])
      (rs_to_wire enc (rs_default\<lparr>rs_headers := hm_from_iter
         [(''content-type'', ''text/plain''), (''content-type'', ''image/png'')],
         rs_body := [104, 105]\<rparr>))) = [9]"
proof -
  let ?h = "hm_from_iter [(''content-type'', ''text/plain''), (''content-type'', ''image/png'')]"
  have "hm_to_hash ?h ''content-type'' = Some ''image/png''" by code_simp
  moreover have "content_type_of (hm_from_iter [(''content-type'', ''image/png'')]) = ''image/png''"
    by code_simp
  moreover have "is_binary_content_type ''image/png''" by code_simp
  ultimately show ?thesis
    by (simp add: rs_of_wire_def rs_to_wire_def Let_def hm_of_hash_def)
qed

lemma parse_build_query_filter:
  assumes "\<forall>(k, v) \<in> set kvs. CHR ''='' \<notin> set k \<and> CHR ''&'' \<notin> set k \<and> CHR ''&'' \<notin> set v"
  shows "parse_query (build_query kvs) = filter (\<lambda>kv. kv \<noteq> ([], [])) kvs"
proof (cases "kvs = []")
  case True
  then show ?thesis by (simp add: build_query_def parse_query_def)
next
  case False
  let ?ps = "map render_pair kvs"
  have nosep: "\<forall>p \<in> set ?ps. CHR ''&'' \<notin> set p"
    using assms by (auto simp: render_pair_def split: if_splits)
  have split: "split_char (CHR ''&'') (build_query kvs) = ?ps"
    unfolding build_query_def using False nosep by (intro split_join_char) auto
  have "parse_query (build_query kvs) =
    map (\<lambda>p. case split_once (CHR ''='') p of Some (k, v) \<Rightarrow> (k, v) | None \<Rightarrow> (p, []))
      (filter (\<lambda>p. p \<noteq> []) ?ps)"
  proof (cases "build_query kvs = []")
    case True
    then have "?ps = [[]]" using split by simp
    then show ?thesis using True by (simp add: parse_query_def)
  qed (simp add: parse_query_def split)
  also have "filter (\<lambda>p. p \<noteq> []) ?ps = map render_pair (filter (\<lambda>kv. kv \<noteq> ([], [])) kvs)"
    by (induction kvs) (auto simp: render_pair_def split: if_splits)
  also have "map (\<lambda>p. case split_once (CHR ''='') p of Some (k, v) \<Rightarrow> (k, v) | None \<Rightarrow> (p, [])) \<dots>
      = filter (\<lambda>kv. kv \<noteq> ([], [])) kvs"
    unfolding map_map comp_def
  proof (rule map_idI)
    fix kv assume "kv \<in> set (filter (\<lambda>kv. kv \<noteq> ([], [])) kvs)"
    moreover obtain k v where kv: "kv = (k, v)" by (cases kv)
    ultimately have "CHR ''='' \<notin> set k" using assms by auto
    from parse_rendered_pair [OF this, of v]
    show "(case split_once (CHR ''='') (render_pair kv) of Some (k, v) \<Rightarrow> (k, v)
       | None \<Rightarrow> (render_pair kv, [])) = kv" by (simp only: kv)
  qed
  finally show ?thesis .
qed

lemma map_of_filter_empty: "k \<noteq> [] \<Longrightarrow> map_of (filter (\<lambda>kv. kv \<noteq> ([], [])) kvs) k = map_of kvs k"
  by (induction kvs) auto

lemma map_of_filter_key:
  "map_of (filter (\<lambda>(k, _). k \<noteq> n) kvs) k = (if k = n then None else map_of kvs k)"
  by (induction kvs) auto

lemma set_pair_clean:
  "(a, b) \<in> set (set_pair kvs n v) \<Longrightarrow> (a, b) \<in> set kvs \<or> (a = n \<and> b = v)"
  by (induction kvs n v rule: set_pair.induct) (auto split: if_splits)

abbreviation query_of :: "string \<Rightarrow> (string \<times> string) list" where
  "query_of u \<equiv> parse_query (snd (split_path_query u))"

text \<open>Setting a query parameter with a name free of separators and a value without an
  ampersand makes the parameter read back as that value, removing one makes it absent, and
  in both cases the path and every other parameter stay what they were.\<close>

theorem query_param_laws:
  assumes "n \<noteq> []" and "CHR ''='' \<notin> set n" and "CHR ''&'' \<notin> set n" and "CHR ''&'' \<notin> set v"
    and "k \<noteq> []"
  shows "map_of (query_of (set_query_param u n v)) k = (if k = n then Some v else map_of (query_of u) k)
    \<and> map_of (query_of (remove_query_param u n)) k = (if k = n then None else map_of (query_of u) k)
    \<and> fst (split_path_query (set_query_param u n v)) = fst (split_path_query u)
    \<and> fst (split_path_query (remove_query_param u n)) = fst (split_path_query u)"
proof -
  obtain path q where pq: "split_path_query u = (path, q)" by (cases "split_path_query u")
  then have path: "CHR ''?'' \<notin> set path" using split_path_query_path [of u] by simp
  have set: "split_path_query (set_query_param u n v) = (path, build_query (set_pair (parse_query q) n v))"
    and remove: "split_path_query (remove_query_param u n)
       = (path, build_query (filter (\<lambda>(k, _). k \<noteq> n) (parse_query q)))"
    by (simp_all add: set_query_param_def remove_query_param_def pq split_with_query [OF path])
  have c1: "\<forall>(a, b) \<in> set (set_pair (parse_query q) n v).
      CHR ''='' \<notin> set a \<and> CHR ''&'' \<notin> set a \<and> CHR ''&'' \<notin> set b"
    using assms(2-4) by (auto dest!: set_pair_clean dest: parse_query_clean)
  have c2: "\<forall>(a, b) \<in> set (filter (\<lambda>(k, _). k \<noteq> n) (parse_query q)).
      CHR ''='' \<notin> set a \<and> CHR ''&'' \<notin> set a \<and> CHR ''&'' \<notin> set b"
    by (auto dest: parse_query_clean)
  show ?thesis
    by (simp only: set remove pq snd_conv fst_conv parse_build_query_filter [OF c1]
        parse_build_query_filter [OF c2] map_of_filter_empty [OF assms(5)] set_pair_lookup
        map_of_filter_key simp_thms)
qed

theorem query_param_laws_witness:
  "map_of (query_of (set_query_param ''/a?x=1&y=2'' ''x'' ''7'')) ''x'' = Some ''7''
   \<and> map_of (query_of (set_query_param ''/a?x=1&y=2'' ''x'' ''7'')) ''y'' = Some ''2''"
proof -
  have "map_of (query_of ''/a?x=1&y=2'') ''y'' = Some ''2''" by code_simp
  then show ?thesis
    using query_param_laws [of "''x''" "''7''" "''x''" "''/a?x=1&y=2''"]
      query_param_laws [of "''x''" "''7''" "''y''" "''/a?x=1&y=2''"] by simp
qed

end
