(* ===== verification/Matcher.thy ===== *)
theory Matcher
  imports Context
begin

text \<open>
  \<open>middleware/matcher.rs\<close>: the location matcher that every rule type uses. A
  \<open>location\<close> is a set of optional conditions over the parts of a request, ANDed
  together; a \<open>match_target\<close> is the parsed view it is matched against. String
  conditions are globs by default.

  The \<open>regex\<close> crate is the record \<open>regex_lib\<close> of what the code calls: whether a
  pattern compiles, \<open>is_match\<close>, \<open>replace_all\<close>, and the capture groups of a first
  match. The thread-local cache of compiled patterns only avoids recompilation: a
  pattern compiles to the same matcher or to no matcher each time.
\<close>

record regex_lib =
  rx_compiles :: "string \<Rightarrow> bool"
  rx_is_match :: "string \<Rightarrow> string \<Rightarrow> bool"
  rx_replace_all :: "string \<Rightarrow> string \<Rightarrow> string \<Rightarrow> string"
  rx_captures :: "string \<Rightarrow> string \<Rightarrow> string option list option"

text \<open>An instance of the library for concrete runs: patterns without special characters that
  match where they occur; a replacement leaves the text alone.\<close>

definition literal_regex :: regex_lib where
  "literal_regex = \<lparr>rx_compiles = (\<lambda>_. True), rx_is_match = (\<lambda>p s. contains_str s p),
     rx_replace_all = (\<lambda>_ s _. s), rx_captures = (\<lambda>p s. if contains_str s p then Some [Some p] else None)\<rparr>"

datatype match_mode = Glob | Regex

record location =
  loc_protocol :: "string option"
  loc_host :: "string option"
  loc_port :: "u16 option"
  loc_path :: "string option"
  loc_query :: "string option"
  loc_methods :: "string list"
  loc_wire_protocol :: "string option"
  loc_application_protocol :: "string option"
  loc_body_mode :: "string option"
  loc_mode :: match_mode

definition loc_default :: location where
  "loc_default = \<lparr>loc_protocol = None, loc_host = None, loc_port = None, loc_path = None,
     loc_query = None, loc_methods = [], loc_wire_protocol = None,
     loc_application_protocol = None, loc_body_mode = None, loc_mode = Glob\<rparr>"

record match_target =
  mt_protocol :: "string option"
  mt_method :: string
  mt_host :: string
  mt_port :: "u16 option"
  mt_path :: string
  mt_query :: string
  mt_wire_protocol :: "string option"
  mt_application_protocol :: "string option"
  mt_body_mode :: "string option"

section \<open>Wildcard matching\<close>

text \<open>The iterative backtracking matcher over the scalar values \<open>p\<close> of the pattern and
  \<open>v\<close> of the value: \<open>pi\<close> and \<open>vi\<close> are the positions, \<open>star\<close> the position of the
  last star and \<open>mark\<close> the value position it was tried at. \<open>glob_stars\<close> is the loop
  that skips trailing stars.\<close>

abbreviation Q :: string where "Q \<equiv> ''?''"
abbreviation S :: string where "S \<equiv> ''*''"

function glob_stars :: "string list \<Rightarrow> nat \<Rightarrow> nat" where
  "glob_stars p pi = (if pi < length p \<and> p ! pi = S then glob_stars p (Suc pi) else pi)"
  by pat_completeness auto
termination
  by (relation "measure (\<lambda>(p, pi). length p - pi)") auto

function glob_loop ::
    "string list \<Rightarrow> string list \<Rightarrow> nat \<Rightarrow> nat \<Rightarrow> nat option \<Rightarrow> nat \<Rightarrow> bool" where
  "glob_loop p v pi vi star mark =
     (if vi < length v then
        if pi < length p \<and> (p ! pi = Q \<or> p ! pi = v ! vi)
        then glob_loop p v (Suc pi) (Suc vi) star mark
        else if pi < length p \<and> p ! pi = S
        then glob_loop p v (Suc pi) vi (Some pi) vi
        else (case star of
                Some s \<Rightarrow> glob_loop p v (Suc s) (Suc mark) (Some s) (Suc mark)
              | None \<Rightarrow> False)
      else glob_stars p pi = length p)"
  by pat_completeness auto
termination
  by (relation "measures [\<lambda>(p, v, pi, vi, star, mark). if mark \<le> vi then 0 else 1,
        \<lambda>(p, v, pi, vi, star, mark). length v - mark,
        \<lambda>(p, v, pi, vi, star, mark). length v - vi,
        \<lambda>(p, v, pi, vi, star, mark). length p - pi]") auto

declare glob_stars.simps [simp del] glob_loop.simps [simp del]

definition glob_match :: "string \<Rightarrow> string \<Rightarrow> bool" where
  "glob_match pattern s = glob_loop (utf8_chars pattern) (utf8_chars s) 0 0 None 0"

text \<open>What the documentation of the matcher promises: a star matches any run, a question
  mark one scalar value, anything else itself, and the pattern covers the whole value.\<close>

fun glob_spec :: "string list \<Rightarrow> string list \<Rightarrow> bool" where
  "glob_spec [] v = (v = [])"
| "glob_spec (c # ps) [] = (c = S \<and> glob_spec ps [])"
| "glob_spec (c # ps) (x # xs) =
     (if c = S then glob_spec ps (x # xs) \<or> glob_spec (c # ps) xs
      else (c = Q \<or> c = x) \<and> glob_spec ps xs)"

lemma glob_spec_star: "glob_spec (S # ps) v \<longleftrightarrow> (\<exists>k \<le> length v. glob_spec ps (drop k v))"
proof (induction v)
  case (Cons x xs)
  have "(\<exists>k \<le> length (x # xs). glob_spec ps (drop k (x # xs))) \<longleftrightarrow>
        glob_spec ps (x # xs) \<or> (\<exists>k \<le> length xs. glob_spec ps (drop k xs))"
    by (simp add: ex_le_Suc)
  with Cons.IH show ?case by simp
qed simp

lemma glob_spec_segment:
  "S \<notin> set seg \<Longrightarrow> glob_spec (seg @ r) w \<Longrightarrow>
   length seg \<le> length w \<and> glob_spec r (drop (length seg) w)"
proof (induction seg arbitrary: w)
  case (Cons c seg)
  then show ?case by (cases w) auto
qed simp

lemma glob_stars_spec: "pi \<le> length p \<Longrightarrow> glob_stars p pi = length p \<longleftrightarrow> glob_spec (drop pi p) []"
proof (induction p pi rule: glob_stars.induct)
  case (1 p pi)
  show ?case
  proof (cases "pi < length p")
    case True
    then have "drop pi p = p ! pi # drop (Suc pi) p" by (simp add: Cons_nth_drop_Suc)
    with 1 True show ?thesis by (simp add: glob_stars.simps [of p pi])
  next
    case False
    with "1.prems" have "pi = length p" by simp
    then show ?thesis by (subst glob_stars.simps) simp
  qed
qed

lemma glob_spec_star_later:
  assumes "glob_spec (drop pi p) (drop m v)" and "vi \<le> m" and "m \<le> length v"
    and "pi < length p" and "p ! pi = S"
  shows "glob_spec (drop pi p) (drop vi v)"
proof -
  have p: "drop pi p = S # drop (Suc pi) p" using assms(4,5) by (simp add: Cons_nth_drop_Suc [symmetric])
  from assms(1) obtain k where k: "k \<le> length v - m" "glob_spec (drop (Suc pi) p) (drop k (drop m v))"
    by (auto simp: p glob_spec_star)
  have "drop k (drop m v) = drop (m - vi + k) (drop vi v)"
    using assms(2) by (simp add: add.commute add.left_commute)
  moreover have "m - vi + k \<le> length (drop vi v)" using k(1) assms(2,3) by simp
  ultimately show ?thesis using k(2) by (auto simp: p glob_spec_star)
qed

definition glob_alternatives :: "string list \<Rightarrow> string list \<Rightarrow> nat option \<Rightarrow> nat \<Rightarrow> bool" where
  "glob_alternatives p v star mark \<longleftrightarrow>
     (case star of None \<Rightarrow> False
      | Some s \<Rightarrow> \<exists>k. mark < k \<and> k \<le> length v \<and> glob_spec (drop (Suc s) p) (drop k v))"

lemma glob_alternatives_None [simp]: "\<not> glob_alternatives p v None mark"
  by (simp add: glob_alternatives_def)

lemma glob_alternatives_step:
  "mark < length v \<Longrightarrow> glob_alternatives p v (Some s) mark \<longleftrightarrow>
     glob_spec (drop (Suc s) p) (drop (Suc mark) v) \<or> glob_alternatives p v (Some s) (Suc mark)"
  unfolding glob_alternatives_def option.case by (metis Suc_leI Suc_lessD Suc_lessI lessI)

lemma glob_star_alternatives:
  "vi < length v \<Longrightarrow> pi < length p \<Longrightarrow> p ! pi = S \<Longrightarrow>
   glob_spec (drop pi p) (drop vi v) \<longleftrightarrow>
     glob_spec (drop (Suc pi) p) (drop vi v) \<or> glob_alternatives p v (Some pi) vi"
proof -
  assume vi: "vi < length v" and pi: "pi < length p" "p ! pi = S"
  then have "drop pi p = S # drop (Suc pi) p" by (simp add: Cons_nth_drop_Suc [symmetric])
  then have "glob_spec (drop pi p) (drop vi v) \<longleftrightarrow>
      (\<exists>k \<le> length v - vi. glob_spec (drop (Suc pi) p) (drop (vi + k) v))"
    by (simp add: glob_spec_star add.commute)
  also have "\<dots> \<longleftrightarrow> (\<exists>k. vi \<le> k \<and> k \<le> length v \<and> glob_spec (drop (Suc pi) p) (drop k v))"
    using vi by (metis (no_types) add_diff_cancel_left' diff_le_mono le_add1 le_add_diff_inverse
        add_le_cancel_left less_or_eq_imp_le)
  also have "\<dots> \<longleftrightarrow> glob_spec (drop (Suc pi) p) (drop vi v) \<or> glob_alternatives p v (Some pi) vi"
    unfolding glob_alternatives_def option.case
    using vi by (metis le_neq_implies_less less_or_eq_imp_le)
  finally show ?thesis .
qed

lemma glob_match_step:
  "vi < length v \<Longrightarrow> pi < length p \<Longrightarrow> p ! pi = Q \<or> p ! pi = v ! vi \<Longrightarrow>
   glob_spec (drop (Suc pi) p) (drop (Suc vi) v) \<Longrightarrow> glob_spec (drop pi p) (drop vi v)"
proof -
  assume vi: "vi < length v" and pi: "pi < length p" and m: "p ! pi = Q \<or> p ! pi = v ! vi"
    and r: "glob_spec (drop (Suc pi) p) (drop (Suc vi) v)"
  have p: "drop pi p = p ! pi # drop (Suc pi) p" and v: "drop vi v = v ! vi # drop (Suc vi) v"
    using vi pi by (simp_all add: Cons_nth_drop_Suc)
  show ?thesis
  proof (cases "p ! pi = S")
    case True
    with r show ?thesis
      unfolding p v True glob_spec_star by (intro exI [of _ 1]) simp
  next
    case False
    with m r show ?thesis unfolding p v by auto
  qed
qed

lemma glob_loop_sound:
  "pi \<le> length p \<Longrightarrow> (\<And>s. star = Some s \<Longrightarrow> s < length p) \<Longrightarrow> vi \<le> length v \<Longrightarrow> mark \<le> vi \<Longrightarrow>
   glob_loop p v pi vi star mark \<Longrightarrow>
   glob_spec (drop pi p) (drop vi v) \<or> glob_alternatives p v star mark"
proof (induction p v pi vi star mark rule: glob_loop.induct)
  case (1 p v pi vi star mark)
  show ?case
  proof (cases "vi < length v")
    case vi: True
    show ?thesis
    proof (cases "pi < length p \<and> (p ! pi = Q \<or> p ! pi = v ! vi)")
      case True
      with "1.IH"(1) [OF vi True] "1.prems" vi show ?thesis
        by (auto simp: glob_loop.simps [of p v pi vi] intro: glob_match_step)
    next
      case no: False
      show ?thesis
      proof (cases "pi < length p \<and> p ! pi = S")
        case True
        with "1.IH"(2) [OF vi no True] "1.prems" vi no show ?thesis
          by (auto simp: glob_loop.simps [of p v pi vi] glob_star_alternatives)
      next
        case False
        with "1.prems"(5) vi no obtain s where s: "star = Some s"
          and run: "glob_loop p v (Suc s) (Suc mark) (Some s) (Suc mark)"
          by (auto simp: glob_loop.simps [of p v pi vi] split: option.splits)
        have "mark < length v" using "1.prems"(4) vi by simp
        with "1.IH"(3) [OF vi no False s] "1.prems"(2) run s show ?thesis
          by (auto simp: glob_alternatives_step)
      qed
    qed
  next
    case False
    with "1.prems"(3) have vi: "vi = length v" by simp
    from "1.prems"(5) have "glob_stars p pi = length p"
      by (subst (asm) glob_loop.simps) (simp add: vi)
    with "1.prems"(1) show ?thesis by (simp add: glob_stars_spec vi)
  qed
qed

text \<open>The segment between the last star and the current position is free of stars, and as
  long as the stretch of the value it was matched against.\<close>

definition glob_inv :: "string list \<Rightarrow> string list \<Rightarrow> nat \<Rightarrow> nat \<Rightarrow> nat option \<Rightarrow> nat \<Rightarrow> bool" where
  "glob_inv p v pi vi star mark \<longleftrightarrow> pi \<le> length p \<and> vi \<le> length v \<and>
     (case star of None \<Rightarrow> True
      | Some s \<Rightarrow> mark \<le> vi \<and> pi = Suc s + (vi - mark)
          \<and> (\<forall>j. Suc s \<le> j \<and> j < pi \<longrightarrow> p ! j \<noteq> S))"

lemma glob_inv_segment:
  assumes "glob_inv p v pi vi (Some s) mark" and "glob_spec (drop (Suc s) p) (drop k v)"
    and "k \<le> length v"
  shows "k + (vi - mark) \<le> length v \<and> glob_spec (drop pi p) (drop (k + (vi - mark)) v)"
proof -
  let ?seg = "take (vi - mark) (drop (Suc s) p)"
  have inv: "pi = Suc s + (vi - mark)" "pi \<le> length p" "\<forall>j. Suc s \<le> j \<and> j < pi \<longrightarrow> p ! j \<noteq> S"
    using assms(1) by (auto simp: glob_inv_def)
  have len: "length ?seg = vi - mark" using inv(1,2) by simp
  have "S \<notin> set ?seg"
  proof
    assume "S \<in> set ?seg"
    then obtain j where "j < vi - mark" "?seg ! j = S" using len by (metis in_set_conv_nth)
    with inv show False by (auto simp: dest: spec [of _ "Suc s + j"])
  qed
  moreover have "drop (Suc s) p = ?seg @ drop pi p"
    using inv(1) by (metis append_take_drop_id drop_drop add.commute)
  ultimately show ?thesis
    using glob_spec_segment [of ?seg "drop pi p" "drop k v"] assms(2,3) len
    by (auto simp: add.commute)
qed

lemma glob_loop_complete:
  "glob_inv p v pi vi star mark \<Longrightarrow> S \<notin> set v \<Longrightarrow>
   glob_spec (drop pi p) (drop vi v) \<or> glob_alternatives p v star mark \<Longrightarrow>
   glob_loop p v pi vi star mark"
proof (induction p v pi vi star mark rule: glob_loop.induct)
  case (1 p v pi vi star mark)
  note inv = "1.prems"(1) and goal = "1.prems"(3)
  have v_no_star: "v ! i \<noteq> S" if "i < length v" for i
    using "1.prems"(2) that by (metis nth_mem)
  show ?case
  proof (cases "vi < length v")
    case vi: True
    show ?thesis
    proof (cases "pi < length p \<and> (p ! pi = Q \<or> p ! pi = v ! vi)")
      case True
      have ns: "p ! pi \<noteq> S" using True v_no_star [OF vi] by auto
      have "glob_spec (drop pi p) (drop vi v) \<longleftrightarrow> glob_spec (drop (Suc pi) p) (drop (Suc vi) v)"
        using True vi ns by (auto simp: Cons_nth_drop_Suc [symmetric])
      moreover have "glob_inv p v (Suc pi) (Suc vi) star mark"
        using inv True vi ns by (auto simp: glob_inv_def less_Suc_eq Suc_diff_le split: option.splits)
      ultimately show ?thesis
        using "1.IH"(1) [OF vi True] "1.prems"(2) goal True vi
        by (simp add: glob_loop.simps [of p v pi vi])
    next
      case no: False
      show ?thesis
      proof (cases "pi < length p \<and> p ! pi = S")
        case True
        have "glob_spec (drop pi p) (drop vi v)"
        proof (cases "glob_spec (drop pi p) (drop vi v)")
          case False
          with goal obtain s k where s: "star = Some s" and k: "mark < k" "k \<le> length v"
            "glob_spec (drop (Suc s) p) (drop k v)"
            by (auto simp: glob_alternatives_def split: option.splits)
          from glob_inv_segment [OF inv [unfolded s] k(3,2)]
          have seg: "k + (vi - mark) \<le> length v" "glob_spec (drop pi p) (drop (k + (vi - mark)) v)"
            by auto
          have "vi \<le> k + (vi - mark)" using k(1) by simp
          from glob_spec_star_later [OF seg(2) this seg(1)] True show ?thesis by auto
        qed
        moreover have "glob_inv p v (Suc pi) vi (Some pi) vi"
          using inv True by (auto simp: glob_inv_def)
        ultimately show ?thesis
          using "1.IH"(2) [OF vi no True] "1.prems"(2) True vi no
          by (simp add: glob_loop.simps [of p v pi vi] glob_star_alternatives)
      next
        case False
        have "\<not> glob_spec (drop pi p) (drop vi v)"
        proof (cases "pi < length p")
          case True
          with False no vi show ?thesis by (simp add: Cons_nth_drop_Suc [symmetric])
        next
          case pi: False
          with vi show ?thesis by simp
        qed
        with goal obtain s where s: "star = Some s" and alt: "glob_alternatives p v (Some s) mark"
          by (cases star) auto
        have mark: "mark < length v" using inv s vi by (auto simp: glob_inv_def)
        have "glob_inv p v (Suc s) (Suc mark) (Some s) (Suc mark)"
          using inv s mark by (auto simp: glob_inv_def)
        with "1.IH"(3) [OF vi no False s] "1.prems"(2) alt vi no False s mark show ?thesis
          by (auto simp: glob_loop.simps [of p v pi vi] glob_alternatives_step)
      qed
    qed
  next
    case False
    with inv have vi: "vi = length v" by (auto simp: glob_inv_def)
    have "\<not> glob_alternatives p v star mark"
    proof
      assume "glob_alternatives p v star mark"
      then obtain s k where s: "star = Some s" and k: "mark < k" "k \<le> length v"
        "glob_spec (drop (Suc s) p) (drop k v)"
        by (auto simp: glob_alternatives_def split: option.splits)
      from glob_inv_segment [OF inv [unfolded s] k(3,2)] k(1) vi inv s show False
        by (auto simp: glob_inv_def)
    qed
    with goal vi have "glob_spec (drop pi p) []" by simp
    with inv have "glob_stars p pi = length p" by (simp add: glob_stars_spec glob_inv_def)
    then show ?thesis by (subst glob_loop.simps) (simp add: vi)
  qed
qed

lemma glob_match_sound: "glob_match p v \<Longrightarrow> glob_spec (utf8_chars p) (utf8_chars v)"
  using glob_loop_sound [of 0 "utf8_chars p" None 0 "utf8_chars v" 0]
  by (simp add: glob_match_def)

lemma glob_match_complete:
  "S \<notin> set (utf8_chars v) \<Longrightarrow> glob_spec (utf8_chars p) (utf8_chars v) \<Longrightarrow> glob_match p v"
  using glob_loop_complete [of "utf8_chars p" "utf8_chars v" 0 0 None 0]
  by (simp add: glob_match_def glob_inv_def)

section \<open>Locations\<close>

definition nonempty :: "string option \<Rightarrow> string option" where
  "nonempty s = (case s of Some t \<Rightarrow> if t = [] then None else Some t | None \<Rightarrow> None)"

definition matches_token :: "string option \<Rightarrow> string \<Rightarrow> bool" where
  "matches_token actual expected =
     (case actual of Some v \<Rightarrow> eq_ignore_ascii_case v expected | None \<Rightarrow> False)"

definition match_str :: "regex_lib \<Rightarrow> location \<Rightarrow> string \<Rightarrow> string \<Rightarrow> bool" where
  "match_str rx loc pattern v =
     (case loc_mode loc of
        Glob \<Rightarrow> glob_match pattern v
      | Regex \<Rightarrow> if rx_compiles rx pattern then rx_is_match rx pattern v else False)"

definition loc_matches :: "regex_lib \<Rightarrow> location \<Rightarrow> match_target \<Rightarrow> bool" where
  "loc_matches rx loc target =
     (if (case nonempty (loc_protocol loc) of
            Some proto \<Rightarrow> (case mt_protocol target of
               Some actual \<Rightarrow> \<not> eq_ignore_ascii_case actual proto | None \<Rightarrow> True)
          | None \<Rightarrow> False) then False
      else if (case loc_port loc of Some port \<Rightarrow> Some port \<noteq> mt_port target | None \<Rightarrow> False)
      then False
      else if loc_methods loc \<noteq> []
              \<and> \<not> list_ex (\<lambda>m. eq_ignore_ascii_case m (mt_method target)) (loc_methods loc)
      then False
      else if (case nonempty (loc_wire_protocol loc) of
                 Some expected \<Rightarrow> \<not> matches_token (mt_wire_protocol target) expected
               | None \<Rightarrow> False) then False
      else if (case nonempty (loc_application_protocol loc) of
                 Some expected \<Rightarrow> \<not> matches_token (mt_application_protocol target) expected
               | None \<Rightarrow> False) then False
      else if (case nonempty (loc_body_mode loc) of
                 Some expected \<Rightarrow> \<not> matches_token (mt_body_mode target) expected
               | None \<Rightarrow> False) then False
      else if (case nonempty (loc_host loc) of
                 Some host \<Rightarrow> \<not> match_str rx loc host (mt_host target) | None \<Rightarrow> False) then False
      else if (case nonempty (loc_path loc) of
                 Some path \<Rightarrow> \<not> match_str rx loc path (mt_path target) | None \<Rightarrow> False) then False
      else if (case nonempty (loc_query loc) of
                 Some query \<Rightarrow> \<not> match_str rx loc query (mt_query target) | None \<Rightarrow> False) then False
      else True)"

text \<open>The pattern whose capture groups the mock templates use: the path of a location in
  regular-expression mode, when it compiles.\<close>

definition compiled_path_regex :: "regex_lib \<Rightarrow> location \<Rightarrow> string option" where
  "compiled_path_regex rx loc =
     (if loc_mode loc \<noteq> Regex then None
      else case nonempty (loc_path loc) of
             Some path \<Rightarrow> if rx_compiles rx path then Some path else None
           | None \<Rightarrow> None)"

section \<open>Targets\<close>

definition split_host_port :: "string \<Rightarrow> string \<times> u16 option" where
  "split_host_port authority =
     (case strip_prefix authority ''['' of
        Some rest \<Rightarrow>
          (case split_once (CHR '']'') rest of
             Some (addr, after) \<Rightarrow>
               (''['' @ addr @ '']'', Option.bind (strip_prefix after '':'') parse_u16)
           | None \<Rightarrow> (authority, None))
      | None \<Rightarrow>
          (case rsplit_once (CHR '':'') authority of
             Some (host, port) \<Rightarrow>
               if list_all is_ascii_digit port \<and> port \<noteq> []
               then (host, parse_u16 port) else (authority, None)
           | None \<Rightarrow> (authority, None)))"

definition parse_uri :: "string \<Rightarrow> string option \<times> string option \<times> string \<times> string" where
  "parse_uri u =
     (case find_str ''://'' u of
        Some scheme_end \<Rightarrow>
          let scheme = take scheme_end u; rest = drop (scheme_end + 3) u;
              (authority, path_query) = (case find_str ''/'' rest of
                 Some i \<Rightarrow> (take i rest, drop i rest) | None \<Rightarrow> (rest, ''/''));
              (path, query) = split_path_query path_query
          in (Some scheme, Some authority, path, query)
      | None \<Rightarrow> let (path, query) = split_path_query u in (None, None, path, query))"

definition protocol_tokens ::
    "protocol_context option \<Rightarrow> string option \<times> string option \<times> string option" where
  "protocol_tokens protocol =
     (case protocol of
        Some p \<Rightarrow> (Some (wp_match_value (pc_downstream p)), Some (app_match_value (pc_application p)),
                    Some (body_match_value (pc_body_mode p)))
      | None \<Rightarrow> (None, None, None))"

definition from_request :: "request_context \<Rightarrow> match_target" where
  "from_request ctx =
     (let (protocol0, uri_host, path, query) = parse_uri (rq_uri ctx);
          host_authority = (case uri_host of Some h \<Rightarrow> h | None \<Rightarrow> rq_host ctx);
          (host, port) = split_host_port host_authority;
          protocol = (case protocol0 of Some p \<Rightarrow> Some p
                      | None \<Rightarrow> Option.bind (rq_destination ctx) (\<lambda>d. fst (parse_uri d)));
          (wire, app, mode) = protocol_tokens (rq_protocol_context ctx)
      in \<lparr>mt_protocol = protocol, mt_method = rq_method ctx, mt_host = host, mt_port = port,
          mt_path = path, mt_query = query, mt_wire_protocol = wire,
          mt_application_protocol = app, mt_body_mode = mode\<rparr>)"

definition from_response :: "response_context \<Rightarrow> match_target" where
  "from_response ctx =
     (let (_, _, path, query) = parse_uri (rs_request_uri ctx);
          (host, port) = split_host_port (rs_request_host ctx)
      in \<lparr>mt_protocol = None, mt_method = rs_request_method ctx, mt_host = host, mt_port = port,
          mt_path = path, mt_query = query,
          mt_wire_protocol =
            map_option (\<lambda>p. wp_match_value (pc_downstream p)) (rs_protocol_context ctx),
          mt_application_protocol =
            map_option (\<lambda>p. app_match_value (pc_application p)) (rs_protocol_context ctx),
          mt_body_mode =
            map_option (\<lambda>p. body_match_value (pc_body_mode p)) (rs_protocol_context ctx)\<rparr>)"

section \<open>Lemmas\<close>

text \<open>The cascade of early returns is the conjunction of the set conditions.\<close>

definition cond :: "('a \<Rightarrow> bool) \<Rightarrow> 'a option \<Rightarrow> bool" where
  "cond P c = (case c of Some x \<Rightarrow> P x | None \<Rightarrow> True)"

lemma cond_simps [simp]: "cond P None" "cond P (Some x) = P x"
  by (simp_all add: cond_def)

lemma loc_matches_conj:
  "loc_matches rx loc t \<longleftrightarrow>
     cond (matches_token (mt_protocol t)) (nonempty (loc_protocol loc))
     \<and> cond (\<lambda>p. mt_port t = Some p) (loc_port loc)
     \<and> (loc_methods loc = [] \<or> (\<exists>m \<in> set (loc_methods loc). eq_ignore_ascii_case m (mt_method t)))
     \<and> cond (matches_token (mt_wire_protocol t)) (nonempty (loc_wire_protocol loc))
     \<and> cond (matches_token (mt_application_protocol t)) (nonempty (loc_application_protocol loc))
     \<and> cond (matches_token (mt_body_mode t)) (nonempty (loc_body_mode loc))
     \<and> cond (\<lambda>h. match_str rx loc h (mt_host t)) (nonempty (loc_host loc))
     \<and> cond (\<lambda>p. match_str rx loc p (mt_path t)) (nonempty (loc_path loc))
     \<and> cond (\<lambda>q. match_str rx loc q (mt_query t)) (nonempty (loc_query loc))"
  by (auto simp: loc_matches_def cond_def matches_token_def list_ex_iff split: option.splits)

lemma nonempty_simps [simp]: "nonempty None = None" "nonempty (Some []) = None"
  "s \<noteq> [] \<Longrightarrow> nonempty (Some s) = Some s"
  by (simp_all add: nonempty_def)

lemma loc_default_matches [simp]: "loc_matches rx loc_default t"
  by (simp add: loc_matches_conj loc_default_def)

lemma split_host_port_round:
  assumes "CHR '':'' \<notin> set host" and "\<not> prefix ''['' host"
  shows "split_host_port (host @ '':'' @ decimal (unat port)) = (host, Some port)"
proof -
  have digits: "CHR '':'' \<notin> set (decimal n)" for n
    using decimal_digits [of n] by (auto simp: list_all_iff is_ascii_digit_def)
  have "rsplit_once (CHR '':'') (host @ CHR '':'' # decimal (unat port)) = Some (host, decimal (unat port))"
    by (rule rsplit_once_append [OF digits])
  moreover have "strip_prefix (host @ CHR '':'' # decimal (unat port)) ''['' = None"
    using assms(2) by (cases host) (auto simp: strip_prefix_def)
  ultimately show ?thesis by (simp add: split_host_port_def decimal_digits)
qed

lemma split_host_port_plain:
  "CHR '':'' \<notin> set host \<Longrightarrow> \<not> prefix ''['' host \<Longrightarrow> split_host_port host = (host, None)"
  by (simp add: split_host_port_def strip_prefix_def)

lemma split_host_port_ipv6:
  assumes "CHR '']'' \<notin> set addr"
  shows "split_host_port (''['' @ addr @ '']:'' @ decimal (unat port)) = (''['' @ addr @ '']'', Some port)"
proof -
  have "split_once (CHR '']'') (addr @ CHR '']'' # '':'' @ decimal (unat port))
        = Some (addr, '':'' @ decimal (unat port))"
    by (rule split_once_append [OF assms])
  then show ?thesis by (simp add: split_host_port_def strip_prefix_def)
qed

lemma from_request_fields [simp]:
  "mt_method (from_request ctx) = rq_method ctx"
  "mt_wire_protocol (from_request ctx) =
     map_option (\<lambda>p. wp_match_value (pc_downstream p)) (rq_protocol_context ctx)"
  "mt_application_protocol (from_request ctx) =
     map_option (\<lambda>p. app_match_value (pc_application p)) (rq_protocol_context ctx)"
  "mt_body_mode (from_request ctx) =
     map_option (\<lambda>p. body_match_value (pc_body_mode p)) (rq_protocol_context ctx)"
  by (auto simp: from_request_def protocol_tokens_def Let_def split: option.splits prod.splits)

lemma from_response_fields [simp]:
  "mt_protocol (from_response ctx) = None"
  "mt_method (from_response ctx) = rs_request_method ctx"
  "mt_body_mode (from_response ctx) =
     map_option (\<lambda>p. body_match_value (pc_body_mode p)) (rs_protocol_context ctx)"
  by (auto simp: from_response_def Let_def split: prod.splits)

lemma loc_protocol_never_matches_response:
  "nonempty (loc_protocol loc) \<noteq> None \<Longrightarrow> \<not> loc_matches rx loc (from_response ctx)"
  by (auto simp: loc_matches_conj cond_def matches_token_def)

lemma find_str_append_scheme:
  "CHR '':'' \<notin> set scheme \<Longrightarrow> CHR ''/'' \<notin> set auth \<Longrightarrow> path = CHR ''/'' # r \<Longrightarrow>
   find_str ''/'' (auth @ path) = Some (length auth)"
  by (induction auth) auto

lemma parse_uri_absolute:
  assumes "CHR '':'' \<notin> set scheme" and "CHR ''/'' \<notin> set auth"
  shows "parse_uri (scheme @ ''://'' @ auth @ ''/'' @ r) =
     (Some scheme, Some auth, fst (split_path_query (''/'' @ r)), snd (split_path_query (''/'' @ r)))"
  using find_str_prefix_char [OF assms(1), of "auth @ ''/'' @ r"]
    find_str_append_scheme [OF assms, of "CHR ''/'' # r" r]
  by (simp add: parse_uri_def Let_def split_beta)

section \<open>Properties\<close>

text \<open>C15 The wildcard matcher decides the reference semantics of globs (\<open>?\<close> one character,
  \<open>*\<close> any run): what it accepts the reference accepts, and it accepts everything the
  reference accepts when the value has no literal star.\<close>

theorem glob_match_reference:
  "(glob_match p v \<longrightarrow> glob_spec (utf8_chars p) (utf8_chars v))
   \<and> (S \<notin> set (utf8_chars v) \<longrightarrow> glob_match p v = glob_spec (utf8_chars p) (utf8_chars v))"
  using glob_match_sound glob_match_complete by blast

theorem glob_match_reference_witness:
  "glob_match ''/api/*/x?'' ''/api/v1/users/x7'' \<and> \<not> glob_match ''/api/*/x?'' ''/api/v1/users/x''"
proof -
  have "S \<notin> set (utf8_chars ''/api/v1/users/x7'')" and "S \<notin> set (utf8_chars ''/api/v1/users/x'')"
    and "glob_spec (utf8_chars ''/api/*/x?'') (utf8_chars ''/api/v1/users/x7'')"
    and "\<not> glob_spec (utf8_chars ''/api/*/x?'') (utf8_chars ''/api/v1/users/x'')"
    by code_simp+
  then show ?thesis
    using glob_match_reference [of "''/api/*/x?''" "''/api/v1/users/x7''"]
      glob_match_reference [of "''/api/*/x?''" "''/api/v1/users/x''"] by blast
qed

text \<open>A star in the value is taken for a literal match before the wildcard is tried, so the
  pattern \<open>*\<close> rejects a value that starts with one.\<close>

lemma glob_star_in_value:
  "glob_spec (utf8_chars ''*'') (utf8_chars ''*a'') \<and> \<not> glob_match ''*'' ''*a''"
  by code_simp

text \<open>A location matches a target exactly when every condition that is set holds of it:
  the protocol, port, method and protocol tokens by equality, the host, path and query by the
  pattern matcher; an empty condition is no condition.\<close>

theorem location_conjunction:
  "loc_matches rx loc t \<longleftrightarrow>
     (\<forall>p. nonempty (loc_protocol loc) = Some p \<longrightarrow> matches_token (mt_protocol t) p)
     \<and> (\<forall>p. loc_port loc = Some p \<longrightarrow> mt_port t = Some p)
     \<and> (loc_methods loc \<noteq> [] \<longrightarrow> (\<exists>m \<in> set (loc_methods loc). eq_ignore_ascii_case m (mt_method t)))
     \<and> (\<forall>w. nonempty (loc_wire_protocol loc) = Some w \<longrightarrow> matches_token (mt_wire_protocol t) w)
     \<and> (\<forall>a. nonempty (loc_application_protocol loc) = Some a \<longrightarrow> matches_token (mt_application_protocol t) a)
     \<and> (\<forall>b. nonempty (loc_body_mode loc) = Some b \<longrightarrow> matches_token (mt_body_mode t) b)
     \<and> (\<forall>h. nonempty (loc_host loc) = Some h \<longrightarrow> match_str rx loc h (mt_host t))
     \<and> (\<forall>p. nonempty (loc_path loc) = Some p \<longrightarrow> match_str rx loc p (mt_path t))
     \<and> (\<forall>q. nonempty (loc_query loc) = Some q \<longrightarrow> match_str rx loc q (mt_query t))"
  unfolding loc_matches_conj cond_def by (auto split: option.splits)

theorem location_conjunction_witness:
  "loc_matches literal_regex (loc_default\<lparr>loc_port := Some 80, loc_methods := [''get'']\<rparr>)
     \<lparr>mt_protocol = None, mt_method = ''GET'', mt_host = ''h'', mt_port = Some 80, mt_path = ''/'',
      mt_query = [], mt_wire_protocol = None, mt_application_protocol = None, mt_body_mode = None\<rparr>"
proof -
  have "eq_ignore_ascii_case ''get'' ''GET''" by code_simp
  then show ?thesis by (subst location_conjunction) (simp add: loc_default_def)
qed

text \<open>An authority built from a host and a port splits back into them: for a name or an
  IPv4 address, with or without a port, and for a bracketed IPv6 address.\<close>

theorem authority_roundtrip:
  "(CHR '':'' \<notin> set host \<and> \<not> prefix ''['' host \<longrightarrow>
      split_host_port (host @ '':'' @ decimal (unat port)) = (host, Some port)
      \<and> split_host_port host = (host, None))
   \<and> (CHR '']'' \<notin> set addr \<longrightarrow>
      split_host_port (''['' @ addr @ '']:'' @ decimal (unat port)) = (''['' @ addr @ '']'', Some port))"
  using split_host_port_round split_host_port_plain split_host_port_ipv6 by blast

theorem authority_roundtrip_witness:
  "split_host_port (''a.test:'' @ decimal 8080) = (''a.test'', Some 8080)
   \<and> split_host_port (''[::1]:'' @ decimal 443) = (''[::1]'', Some 443)"
  using authority_roundtrip [of "''a.test''" 8080 "''::1''"] authority_roundtrip [of "''a.test''" 443 "''::1''"]
  by simp

end
