(* ===== verification/Chain.thy ===== *)
theory Chain
  imports Matcher
begin

text \<open>
  \<open>middleware/chain.rs\<close> and the \<open>Middleware\<close> trait: the plugins in registration order,
  requests running forwards and responses in reverse, the first non-\<open>Continue\<close> action
  stopping the chain, and the execution plan built from the plugins' body hints.

  A plugin reads and writes shared state (rule stores, counters, the session store): the
  type \<open>'w\<close> is that state, threaded through the steps in the order the code awaits them.
  \<open>'o\<close> is the type of a plugin's stream observers.
\<close>

record ('w, 'o) middleware =
  mwr_name :: string
  mwr_on_request :: "'w \<Rightarrow> request_context \<Rightarrow> middleware_action \<times> 'w \<times> request_context"
  mwr_on_response :: "'w \<Rightarrow> response_context \<Rightarrow> middleware_action \<times> 'w \<times> response_context"
  mwr_body_hint :: "request_context \<Rightarrow> body_hint"
  mwr_stream_observer :: "request_context \<Rightarrow> 'o option"

text \<open>The default methods of the trait.\<close>

definition default_middleware :: "string \<Rightarrow> ('w, 'o) middleware" where
  "default_middleware name =
     \<lparr>mwr_name = name, mwr_on_request = (\<lambda>w c. (Continue, w, c)),
      mwr_on_response = (\<lambda>w c. (Continue, w, c)), mwr_body_hint = (\<lambda>_. FullBody),
      mwr_stream_observer = (\<lambda>_. None)\<rparr>"

type_synonym ('w, 'o) chain = "('w, 'o) middleware list"

definition chain_new :: "('w, 'o) chain" where
  "chain_new = []"

definition add_middleware :: "('w, 'o) chain \<Rightarrow> ('w, 'o) middleware \<Rightarrow> ('w, 'o) chain" where
  "add_middleware ms m = ms @ [m]"

definition list_plugins :: "('w, 'o) chain \<Rightarrow> string list" where
  "list_plugins ms = map mwr_name ms"

definition chain_capability_plan ::
    "('w, 'o) chain \<Rightarrow> request_context \<Rightarrow> protocol_context \<Rightarrow> capability_plan" where
  "chain_capability_plan ms head protocol =
     plan_execution protocol (map (\<lambda>m. mwr_body_hint m head) ms)"

fun execute_request ::
    "('w, 'o) chain \<Rightarrow> 'w \<Rightarrow> request_context \<Rightarrow> middleware_action \<times> 'w \<times> request_context" where
  "execute_request [] w ctx = (Continue, w, ctx)"
| "execute_request (m # ms) w ctx =
     (case mwr_on_request m w ctx of
        (action, w', ctx') \<Rightarrow>
          if action \<noteq> Continue then (action, w', ctx') else execute_request ms w' ctx')"

fun response_loop ::
    "('w, 'o) chain \<Rightarrow> 'w \<Rightarrow> response_context \<Rightarrow> middleware_action \<times> 'w \<times> response_context" where
  "response_loop [] w ctx = (Continue, w, ctx)"
| "response_loop (m # ms) w ctx =
     (case mwr_on_response m w ctx of
        (action, w', ctx') \<Rightarrow>
          if action \<noteq> Continue then (action, w', ctx') else response_loop ms w' ctx')"

definition execute_response ::
    "('w, 'o) chain \<Rightarrow> 'w \<Rightarrow> response_context \<Rightarrow> middleware_action \<times> 'w \<times> response_context" where
  "execute_response ms w ctx = response_loop (rev ms) w ctx"

definition stream_observers :: "('w, 'o) chain \<Rightarrow> request_context \<Rightarrow> 'o list" where
  "stream_observers ms req = List.map_filter (\<lambda>m. mwr_stream_observer m req) ms"

section \<open>Composition\<close>

lemma execute_request_append:
  "execute_request (ms @ ns) w c =
     (case execute_request ms w c of
        (a, w', c') \<Rightarrow> if a \<noteq> Continue then (a, w', c') else execute_request ns w' c')"
  by (induction ms w c rule: execute_request.induct) (auto split: prod.split)

lemma response_loop_append:
  "response_loop (ms @ ns) w c =
     (case response_loop ms w c of
        (a, w', c') \<Rightarrow> if a \<noteq> Continue then (a, w', c') else response_loop ns w' c')"
  by (induction ms w c rule: response_loop.induct) (auto split: prod.split)

lemma execute_response_append:
  "execute_response (ms @ ns) w c =
     (case execute_response ns w c of
        (a, w', c') \<Rightarrow> if a \<noteq> Continue then (a, w', c') else execute_response ms w' c')"
  unfolding execute_response_def rev_append response_loop_append ..

section \<open>Contracts of plugins\<close>

text \<open>A property of the state and the context that every plugin's request step preserves is
  preserved by the whole request chain, however it ends; the same for responses.\<close>

locale request_invariant =
  fixes plugin :: "('w, 'o) middleware \<Rightarrow> bool"
    and I :: "'w \<Rightarrow> request_context \<Rightarrow> bool"
  assumes request_step: "plugin m \<Longrightarrow> I w c \<Longrightarrow> mwr_on_request m w c = (a, w', c') \<Longrightarrow> I w' c'"
begin

lemma request_chain:
  "\<forall>m \<in> set ms. plugin m \<Longrightarrow> I w c \<Longrightarrow> execute_request ms w c = (a, w', c') \<Longrightarrow> I w' c'"
proof (induction ms w c rule: execute_request.induct)
  case (2 m ms w c)
  obtain a1 w1 c1 where step: "mwr_on_request m w c = (a1, w1, c1)"
    by (cases "mwr_on_request m w c")
  have I1: "I w1 c1" using request_step [OF _ _ step] "2.prems"(1,2) by simp
  show ?case
  proof (cases a1)
    case Continue
    then show ?thesis using 2 step I1 by simp
  next
    case StopAndReturn
    then show ?thesis using "2.prems"(3) step I1 by simp
  qed
qed simp

end

locale response_invariant =
  fixes plugin :: "('w, 'o) middleware \<Rightarrow> bool"
    and I :: "'w \<Rightarrow> response_context \<Rightarrow> bool"
  assumes response_step: "plugin m \<Longrightarrow> I w c \<Longrightarrow> mwr_on_response m w c = (a, w', c') \<Longrightarrow> I w' c'"
begin

lemma response_chain_loop:
  "\<forall>m \<in> set ms. plugin m \<Longrightarrow> I w c \<Longrightarrow> response_loop ms w c = (a, w', c') \<Longrightarrow> I w' c'"
proof (induction ms w c rule: response_loop.induct)
  case (2 m ms w c)
  obtain a1 w1 c1 where step: "mwr_on_response m w c = (a1, w1, c1)"
    by (cases "mwr_on_response m w c")
  have I1: "I w1 c1" using response_step [OF _ _ step] "2.prems"(1,2) by simp
  show ?case
  proof (cases a1)
    case Continue
    then show ?thesis using 2 step I1 by simp
  next
    case StopAndReturn
    then show ?thesis using "2.prems"(3) step I1 by simp
  qed
qed simp

lemma response_chain:
  "\<forall>m \<in> set ms. plugin m \<Longrightarrow> I w c \<Longrightarrow> execute_response ms w c = (a, w', c') \<Longrightarrow> I w' c'"
  unfolding execute_response_def by (rule response_chain_loop [of "rev ms"]) simp_all

end

text \<open>The two contracts of one plugin.\<close>

locale pipeline_invariant =
  request_invariant plugin I + response_invariant plugin J
  for plugin :: "('w, 'o) middleware \<Rightarrow> bool" and I J
begin

lemma round_trip:
  "\<forall>m \<in> set ms. plugin m \<Longrightarrow> I w c \<Longrightarrow> execute_request ms w c = (a, w1, c1) \<Longrightarrow>
   J w1 r \<Longrightarrow> execute_response ms w1 r = (b, w2, r2) \<Longrightarrow> I w1 c1 \<and> J w2 r2"
  by (blast dest: request_chain response_chain)

end

text \<open>What every plugin of the proxy promises: it writes the decision trace only through
  \<open>push_flow\<close> and headers only through the header map's operations.\<close>

definition request_clean :: "request_context \<Rightarrow> bool" where
  "request_clean c \<longleftrightarrow> flow_bounded (rq_flow c) \<and> hm_wf (rq_headers c)"

definition response_clean :: "response_context \<Rightarrow> bool" where
  "response_clean c \<longleftrightarrow> flow_bounded (rs_flow c) \<and> hm_wf (rs_headers c)"

definition clean_plugin :: "('w, 'o) middleware \<Rightarrow> bool" where
  "clean_plugin m \<longleftrightarrow>
     (\<forall>w c a w' c'. request_clean c \<longrightarrow> mwr_on_request m w c = (a, w', c') \<longrightarrow> request_clean c') \<and>
     (\<forall>w c a w' c'. response_clean c \<longrightarrow> mwr_on_response m w c = (a, w', c') \<longrightarrow> response_clean c')"

interpretation pipe: pipeline_invariant clean_plugin "\<lambda>_. request_clean" "\<lambda>_. response_clean"
  by unfold_locales (auto simp: clean_plugin_def)

lemma clean_pluginI:
  "(\<And>w c. request_clean c \<Longrightarrow> request_clean (snd (snd (mwr_on_request m w c)))) \<Longrightarrow>
   (\<And>w c. response_clean c \<Longrightarrow> response_clean (snd (snd (mwr_on_response m w c)))) \<Longrightarrow>
   clean_plugin m"
  by (auto simp: clean_plugin_def) (metis snd_conv)+

lemma request_clean_push [simp, invariant_intro]: "request_clean c \<Longrightarrow> request_clean (rq_push_flow c e)"
  by (simp add: request_clean_def)

lemma response_clean_push [simp, invariant_intro]:
  "response_clean c \<Longrightarrow> response_clean (rs_push_flow c e)"
  by (simp add: response_clean_def)

lemma default_middleware_simps [simp]:
  "mwr_name (default_middleware n) = n"
  "mwr_on_request (default_middleware n) w c = (Continue, w, c)"
  "mwr_on_response (default_middleware n) w r = (Continue, w, r)"
  "mwr_body_hint (default_middleware n) c = FullBody"
  "mwr_stream_observer (default_middleware n) c = None"
  by (simp_all add: default_middleware_def)

section \<open>Order of execution\<close>

text \<open>The plugins that ran: every one up to and including the first that stops.\<close>

fun request_trace :: "('w, 'o) chain \<Rightarrow> 'w \<Rightarrow> request_context \<Rightarrow> string list" where
  "request_trace [] w c = []"
| "request_trace (m # ms) w c =
     (case mwr_on_request m w c of
        (a, w', c') \<Rightarrow> mwr_name m # (if a \<noteq> Continue then [] else request_trace ms w' c'))"

text \<open>\<open>recording m\<close> is the plugin \<open>m\<close> that also logs its name in the shared state.\<close>

definition recording :: "('w, 'o) middleware \<Rightarrow> ('w \<times> string list, 'o) middleware" where
  "recording m = \<lparr>mwr_name = mwr_name m,
     mwr_on_request = (\<lambda>(w, ns) c. case mwr_on_request m w c of
        (a, w', c') \<Rightarrow> (a, (w', ns @ [mwr_name m]), c')),
     mwr_on_response = (\<lambda>(w, ns) c. case mwr_on_response m w c of
        (a, w', c') \<Rightarrow> (a, (w', ns @ [mwr_name m]), c')),
     mwr_body_hint = mwr_body_hint m, mwr_stream_observer = mwr_stream_observer m\<rparr>"

lemma recording_simps [simp]:
  "mwr_name (recording m) = mwr_name m"
  "mwr_on_request (recording m) (w, ns) c =
     (case mwr_on_request m w c of (a, w', c') \<Rightarrow> (a, (w', ns @ [mwr_name m]), c'))"
  "mwr_on_response (recording m) (w, ns) r =
     (case mwr_on_response m w r of (a, w', r') \<Rightarrow> (a, (w', ns @ [mwr_name m]), r'))"
  by (simp_all add: recording_def)

lemma recorded_request:
  "execute_request (map recording ms) (w, ns) c =
     (case execute_request ms w c of (a, w', c') \<Rightarrow> (a, (w', ns @ request_trace ms w c), c'))"
  by (induction ms arbitrary: w c ns) (auto split: prod.split)

lemma trace_prefix: "prefix (request_trace ms w c) (list_plugins ms)"
  by (induction ms w c rule: request_trace.induct) (auto simp: list_plugins_def split: prod.split)

lemma trace_continue:
  "fst (execute_request ms w c) = Continue \<Longrightarrow> request_trace ms w c = list_plugins ms"
  by (induction ms w c rule: request_trace.induct)
    (auto simp: list_plugins_def split: prod.splits if_splits)

fun response_trace :: "('w, 'o) chain \<Rightarrow> 'w \<Rightarrow> response_context \<Rightarrow> string list" where
  "response_trace [] w r = []"
| "response_trace (m # ms) w r =
     (case mwr_on_response m w r of
        (a, w', r') \<Rightarrow> mwr_name m # (if a \<noteq> Continue then [] else response_trace ms w' r'))"

lemma recorded_response:
  "response_loop (map recording ms) (w, ns) r =
     (case response_loop ms w r of (a, w', r') \<Rightarrow> (a, (w', ns @ response_trace ms w r), r'))"
  by (induction ms arbitrary: w r ns) (auto split: prod.split)

lemma request_trace_ends:
  "if fst (execute_request ms w c) = Continue then request_trace ms w c = list_plugins ms
   else request_trace ms w c \<noteq> [] \<and> prefix (request_trace ms w c) (list_plugins ms)"
  using trace_prefix [of ms w c] trace_continue [of ms w c] by (cases ms) (auto split: prod.split)

lemma response_trace_ends:
  "if fst (response_loop ms w r) = Continue then response_trace ms w r = list_plugins ms
   else response_trace ms w r \<noteq> [] \<and> prefix (response_trace ms w r) (list_plugins ms)"
  by (induction ms w r rule: response_trace.induct)
    (auto simp: list_plugins_def split: prod.splits if_splits)

section \<open>Properties\<close>


text \<open>The execution plan: one plugin that needs the full body forces buffering, and the plan
  explains when that clashes with a frame stream or a tunnel; otherwise the body mode decides,
  and a body is streamed when some plugin inspects it as a stream.\<close>

theorem capability_plan_decision:
  "chain_capability_plan ms head p =
     (if \<exists>m \<in> set ms. mwr_body_hint m head = FullBody
      then \<lparr>cp_execution = Exec_Buffered, cp_forward_class = Buffered,
            cp_diagnostic = full_body_diagnostic (pc_body_mode p)\<rparr>
      else case pc_body_mode p of
        Body_Tunnel \<Rightarrow> \<lparr>cp_execution = Exec_TunnelMetadata, cp_forward_class = Buffered, cp_diagnostic = None\<rparr>
      | Body_Frames \<Rightarrow> \<lparr>cp_execution = Exec_FrameInspect, cp_forward_class = Streaming, cp_diagnostic = None\<rparr>
      | _ \<Rightarrow> if ms = []
             then \<lparr>cp_execution = Exec_Buffered, cp_forward_class = Buffered, cp_diagnostic = None\<rparr>
             else \<lparr>cp_execution = Exec_StreamingInspect, cp_forward_class = Streaming, cp_diagnostic = None\<rparr>)"
proof -
  have "FullBody \<in> set (map (\<lambda>m. mwr_body_hint m head) ms) \<longleftrightarrow> (\<exists>m \<in> set ms. mwr_body_hint m head = FullBody)"
    by force
  then show ?thesis
    by (simp add: chain_capability_plan_def plan_execution_eq plan_for_mode_def split: body_mode.split)
qed

end
