(* ===== verification/RoutingPlugins.thy ===== *)
theory RoutingPlugins
  imports Chain
begin

text \<open>
  The plugins that decide where a request goes and whether it is recorded:
  \<open>access_control.rs\<close>, \<open>dns_override.rs\<close>, \<open>map_remote.rs\<close>, \<open>capture_filter.rs\<close> and the
  throttle of \<open>routing.rs\<close>.

  Each handler takes the rules it read under the lock. The middleware values take a
  reader of the shared state \<open>'w\<close>; \<open>lc\<close> is Unicode lower-casing and
  \<open>sleep ms\<close> the effect of a timer on the shared state.
\<close>

section \<open>Access control\<close>

datatype access_action = Block | Allow

record access_rule =
  ar_id :: string
  ar_name :: string
  ar_enabled :: bool
  ar_location :: location
  ar_action :: access_action

definition block_response :: "u16 \<Rightarrow> intercepted_response" where
  "block_response status =
     \<lparr>ir_status = status, ir_headers = hm_from_iter [(''Content-Type'', ''text/plain'')],
      ir_body = bytes_of_string ''Blocked by access control rule'',
      ir_tags = [''access-blocked''], ir_served_mock = None\<rparr>"

definition access_on_request ::
    "regex_lib \<Rightarrow> access_rule list \<Rightarrow> request_context \<Rightarrow> middleware_action \<times> request_context" where
  "access_on_request rx rules ctx =
     (let enabled = filter ar_enabled rules
      in if enabled = [] then (Continue, ctx)
         else let target = from_request ctx;
                  denied = (StopAndReturn, ctx\<lparr>rq_mock_response := Some (block_response 403)\<rparr>)
              in if list_ex (\<lambda>r. loc_matches rx (ar_location r) target)
                      (filter (\<lambda>r. ar_action r = Block) enabled)
                 then denied
                 else let allow_rules = filter (\<lambda>r. ar_action r = Allow) enabled
                      in if allow_rules \<noteq> []
                            \<and> \<not> list_ex (\<lambda>r. loc_matches rx (ar_location r) target) allow_rules
                         then denied else (Continue, ctx))"

section \<open>DNS overrides\<close>

record dns_entry =
  de_ip :: string
  de_enabled :: bool

datatype dns_value = Legacy string | Entry dns_entry

fun into_entry :: "dns_value \<Rightarrow> dns_entry" where
  "into_entry (Legacy ip) = \<lparr>de_ip = ip, de_enabled = True\<rparr>"
| "into_entry (Entry e) = e"

definition dns_on_request ::
    "(string \<rightharpoonup> dns_entry) \<Rightarrow> request_context \<Rightarrow> middleware_action \<times> request_context" where
  "dns_on_request overrides ctx =
     (let (hostname, port) = (case rsplit_once (CHR '':'') (rq_host ctx) of
            Some (h, p) \<Rightarrow> (h, p) | None \<Rightarrow> (rq_host ctx, []))
      in case overrides hostname of
           Some entry \<Rightarrow>
             if de_enabled entry then
               let new_host = (if port = [] then de_ip entry else de_ip entry @ '':'' @ port);
                   scheme = (if port = ''443'' then ''https'' else ''http'')
               in (Continue, ctx\<lparr>rq_host := new_host,
                                 rq_destination := Some (scheme @ ''://'' @ new_host)\<rparr>)
             else (Continue, ctx)
         | None \<Rightarrow> (Continue, ctx))"

section \<open>Map remote\<close>

record map_remote_rule =
  mr_id :: string
  mr_name :: string
  mr_enabled :: bool
  mr_location :: location
  mr_destination :: string

fun map_remote_loop ::
    "regex_lib \<Rightarrow> match_target \<Rightarrow> map_remote_rule list \<Rightarrow> request_context \<Rightarrow> request_context" where
  "map_remote_loop rx target [] ctx = ctx"
| "map_remote_loop rx target (r # rules) ctx =
     (if loc_matches rx (mr_location r) target then
        let c1 = ctx\<lparr>rq_destination := Some (mr_destination r)\<rparr>;
            c2 = rq_push_flow c1 (RuleMatched FR_MapRemote (mr_id r) (mr_name r))
        in rq_push_flow c2 (TargetSelected FT_MapRemote (mr_destination r)
             (Some (mr_id r)) (Some (mr_name r)))
      else map_remote_loop rx target rules ctx)"

definition map_remote_on_request ::
    "regex_lib \<Rightarrow> map_remote_rule list \<Rightarrow> request_context \<Rightarrow> middleware_action \<times> request_context" where
  "map_remote_on_request rx rules ctx =
     (Continue, map_remote_loop rx (from_request ctx) (filter mr_enabled rules) ctx)"

section \<open>Capture filter\<close>

datatype filter_mode = Disabled | Allowlist | Denylist

record capture_filter_config =
  cf_mode :: filter_mode
  cf_hosts :: "string list"

definition should_skip :: "(string \<Rightarrow> string) \<Rightarrow> capture_filter_config \<Rightarrow> string \<Rightarrow> bool" where
  "should_skip lc cfg host =
     (let host_lc = lc host;
          listed = list_ex (\<lambda>h. contains_str host_lc (lc h)) (cf_hosts cfg)
      in case cf_mode cfg of Disabled \<Rightarrow> False | Allowlist \<Rightarrow> \<not> listed | Denylist \<Rightarrow> listed)"

definition capture_on_request ::
    "(string \<Rightarrow> string) \<Rightarrow> capture_filter_config \<Rightarrow> request_context \<Rightarrow>
     middleware_action \<times> request_context" where
  "capture_on_request lc cfg ctx =
     (Continue, if should_skip lc cfg (rq_host ctx) then ctx\<lparr>rq_skip_recording := True\<rparr> else ctx)"

section \<open>Throttling\<close>

record throttling_config =
  tc_latency_ms :: u64
  tc_bandwidth_limit_kbps :: u64
  tc_enabled :: bool

text \<open>The delay of the request and response steps in milliseconds, zero for none; the
  arithmetic is that of \<open>u64\<close> in a release build.\<close>

definition request_delay :: "throttling_config \<Rightarrow> u64" where
  "request_delay config =
     (if tc_enabled config \<and> tc_latency_ms config > 0 then tc_latency_ms config else 0)"

definition response_delay :: "throttling_config \<Rightarrow> response_context \<Rightarrow> u64" where
  "response_delay config ctx =
     (if tc_enabled config \<and> tc_bandwidth_limit_kbps config > 0 \<and> rs_body ctx \<noteq> [] then
        let body_bytes = (word_of_nat (length (rs_body ctx)) :: u64);
            bytes_per_sec = tc_bandwidth_limit_kbps config * 1024 div 8
        in if bytes_per_sec = 0 then 0 else (body_bytes * 1000) div bytes_per_sec
      else 0)"

section \<open>The plugins\<close>

definition streaming_plugin :: "string \<Rightarrow> ('w, 'o) middleware" where
  "streaming_plugin name =
     (default_middleware name)\<lparr>mwr_body_hint := \<lambda>_. StreamingInspect Gran_Bytes\<rparr>"

definition access_middleware :: "regex_lib \<Rightarrow> ('w \<Rightarrow> access_rule list) \<Rightarrow> ('w, 'o) middleware" where
  "access_middleware rx rules = (streaming_plugin ''AccessControlMiddleware'')\<lparr>mwr_on_request :=
     \<lambda>w c. case access_on_request rx (rules w) c of (a, c') \<Rightarrow> (a, w, c')\<rparr>"

definition dns_middleware :: "('w \<Rightarrow> (string \<rightharpoonup> dns_entry)) \<Rightarrow> ('w, 'o) middleware" where
  "dns_middleware overrides = (streaming_plugin ''dns_override'')\<lparr>mwr_on_request :=
     \<lambda>w c. case dns_on_request (overrides w) c of (a, c') \<Rightarrow> (a, w, c')\<rparr>"

definition map_remote_middleware ::
    "regex_lib \<Rightarrow> ('w \<Rightarrow> map_remote_rule list) \<Rightarrow> ('w, 'o) middleware" where
  "map_remote_middleware rx rules = (streaming_plugin ''MapRemoteMiddleware'')\<lparr>mwr_on_request :=
     \<lambda>w c. case map_remote_on_request rx (rules w) c of (a, c') \<Rightarrow> (a, w, c')\<rparr>"

definition capture_middleware ::
    "(string \<Rightarrow> string) \<Rightarrow> ('w \<Rightarrow> capture_filter_config) \<Rightarrow> ('w, 'o) middleware" where
  "capture_middleware lc config = (streaming_plugin ''CaptureFilterMiddleware'')\<lparr>mwr_on_request :=
     \<lambda>w c. case capture_on_request lc (config w) c of (a, c') \<Rightarrow> (a, w, c')\<rparr>"

definition throttling_middleware ::
    "(u64 \<Rightarrow> 'w \<Rightarrow> 'w) \<Rightarrow> ('w \<Rightarrow> throttling_config) \<Rightarrow> ('w, 'o) middleware" where
  "throttling_middleware sleep config = (streaming_plugin ''ThrottlingMiddleware'')\<lparr>
     mwr_on_request := \<lambda>w c. let d = request_delay (config w)
        in (Continue, if d > 0 then sleep d w else w, c),
     mwr_on_response := \<lambda>w c. let d = response_delay (config w) c
        in (Continue, if d > 0 then sleep d w else w, c)\<rparr>"

section \<open>Lemmas\<close>

lemma streaming_plugin_simps [simp]:
  "mwr_on_request (streaming_plugin n) w c = (Continue, w, c)"
  "mwr_on_response (streaming_plugin n) w r = (Continue, w, r)"
  "mwr_body_hint (streaming_plugin n) c = StreamingInspect Gran_Bytes"
  by (simp_all add: streaming_plugin_def)

lemma access_on_request_cases:
  "access_on_request rx rules ctx = (Continue, ctx) \<or>
   access_on_request rx rules ctx =
     (StopAndReturn, ctx\<lparr>rq_mock_response := Some (block_response 403)\<rparr>)"
  by (simp add: access_on_request_def Let_def)

lemma access_clean [invariant_intro]: "clean_plugin (access_middleware rx rules)"
proof (rule clean_pluginI)
  fix w c assume "request_clean c"
  then show "request_clean (snd (snd (mwr_on_request (access_middleware rx rules) w c)))"
    using access_on_request_cases [of rx "rules w" c]
    by (auto simp: access_middleware_def request_clean_def)
qed (simp add: access_middleware_def)

lemma dns_on_request_clean: "request_clean c \<Longrightarrow> request_clean (snd (dns_on_request ovr c))"
  by (auto simp: dns_on_request_def request_clean_def Let_def split: option.split prod.split)

lemma dns_clean [invariant_intro]: "clean_plugin (dns_middleware ovr)"
  by (rule clean_pluginI) (simp_all add: dns_middleware_def dns_on_request_clean split_beta)

lemma map_remote_loop_clean: "request_clean c \<Longrightarrow> request_clean (map_remote_loop rx t rules c)"
  by (induction rx t rules c rule: map_remote_loop.induct) (auto simp: Let_def request_clean_def)

lemma map_remote_clean [invariant_intro]: "clean_plugin (map_remote_middleware rx rules)"
  by (rule clean_pluginI)
    (simp_all add: map_remote_middleware_def map_remote_on_request_def map_remote_loop_clean)

lemma capture_clean [invariant_intro]: "clean_plugin (capture_middleware lc cfg)"
  by (rule clean_pluginI)
    (simp_all add: capture_middleware_def capture_on_request_def request_clean_def)

lemma throttling_clean [invariant_intro]: "clean_plugin (throttling_middleware sleep cfg)"
  by (rule clean_pluginI) (simp_all add: throttling_middleware_def Let_def)

lemma map_remote_loop_find:
  "map_remote_loop rx t rules c =
     (case find (\<lambda>r. loc_matches rx (mr_location r) t) rules of
        None \<Rightarrow> c
      | Some r \<Rightarrow> rq_push_flow (rq_push_flow (c\<lparr>rq_destination := Some (mr_destination r)\<rparr>)
            (RuleMatched FR_MapRemote (mr_id r) (mr_name r)))
          (TargetSelected FT_MapRemote (mr_destination r) (Some (mr_id r)) (Some (mr_name r))))"
  by (induction rx t rules c rule: map_remote_loop.induct) (auto simp: Let_def)

section \<open>Properties\<close>

text \<open>Access control is deny-first: a request is stopped with a 403 exactly when an
  enabled block rule matches it, or some allow rule is enabled and no enabled allow rule
  matches; otherwise the request passes unchanged.\<close>

theorem access_control_decision:
  "access_on_request rx rules ctx =
     (if (\<exists>r \<in> set rules. ar_enabled r \<and> ar_action r = Block \<and> loc_matches rx (ar_location r) (from_request ctx))
         \<or> ((\<exists>r \<in> set rules. ar_enabled r \<and> ar_action r = Allow)
            \<and> \<not> (\<exists>r \<in> set rules. ar_enabled r \<and> ar_action r = Allow
                   \<and> loc_matches rx (ar_location r) (from_request ctx)))
      then (StopAndReturn, ctx\<lparr>rq_mock_response := Some (block_response 403)\<rparr>)
      else (Continue, ctx))"
  by (auto simp: access_on_request_def Let_def list_ex_iff filter_empty_conv)

text \<open>Map remote redirects to the destination of the first enabled rule that matches and
  reports it in the trace; without one the request is unchanged, and the chain always goes on.\<close>

theorem map_remote_first_match:
  "map_remote_on_request rx rules ctx =
     (Continue, case find (\<lambda>r. mr_enabled r \<and> loc_matches rx (mr_location r) (from_request ctx)) rules of
        None \<Rightarrow> ctx
      | Some r \<Rightarrow> rq_push_flow (rq_push_flow (ctx\<lparr>rq_destination := Some (mr_destination r)\<rparr>)
            (RuleMatched FR_MapRemote (mr_id r) (mr_name r)))
          (TargetSelected FT_MapRemote (mr_destination r) (Some (mr_id r)) (Some (mr_name r))))"
  by (simp add: map_remote_on_request_def map_remote_loop_find find_filter)

lemma decimal_443: "decimal 443 = ''443''"
  by code_simp

text \<open>An enabled override of a host name without a colon keeps the port, sends the request
  to the override address with the scheme of the port, and changes nothing else.\<close>

theorem dns_override_effect:
  assumes "CHR '':'' \<notin> set name" and "overrides name = Some e" and "de_enabled e"
    and "rq_host ctx = name @ '':'' @ decimal (unat (p :: u16))"
  shows "dns_on_request overrides ctx =
     (Continue, ctx\<lparr>rq_host := de_ip e @ '':'' @ decimal (unat p),
        rq_destination := Some ((if p = 443 then ''https'' else ''http'') @ ''://''
           @ de_ip e @ '':'' @ decimal (unat p))\<rparr>)"
proof -
  let ?d = "decimal (unat p)"
  have colon: "CHR '':'' \<notin> set ?d"
    using decimal_digits [of "unat p"] by (auto simp: list_all_iff is_ascii_digit_def)
  have "rsplit_once (CHR '':'') (rq_host ctx) = Some (name, ?d)"
    using rsplit_once_append [OF colon, of name] assms(4) by simp
  moreover have "?d = ''443'' \<longleftrightarrow> p = 443"
  proof
    assume "?d = ''443''"
    then have "parse_u16 ?d = parse_u16 ''443''" by simp
    then show "p = 443"
      unfolding parse_u16_decimal by (simp add: parse_u16_def parse_unsigned_def is_ascii_digit_def digits_value_def)
  qed (simp add: decimal_443)
  ultimately show ?thesis
    using assms(2,3) by (simp add: dns_on_request_def Let_def)
qed

theorem dns_override_effect_witness:
  "dns_on_request [''a.test'' \<mapsto> \<lparr>de_ip = ''10.0.0.1'', de_enabled = True\<rparr>]
     (rq_default\<lparr>rq_host := ''a.test:443''\<rparr>)
   = (Continue, (rq_default\<lparr>rq_host := ''a.test:443''\<rparr>)\<lparr>rq_host := ''10.0.0.1:443'',
        rq_destination := Some ''https://10.0.0.1:443''\<rparr>)"
  using dns_override_effect [of "''a.test''" "[''a.test'' \<mapsto> \<lparr>de_ip = ''10.0.0.1'', de_enabled = True\<rparr>]"
      "\<lparr>de_ip = ''10.0.0.1'', de_enabled = True\<rparr>" "rq_default\<lparr>rq_host := ''a.test:443''\<rparr>" 443]
  by (simp add: decimal_443)

text \<open>The allow list and the deny list with the same hosts take opposite decisions on
  every host, the disabled filter records everything, and the filter only ever sets the
  skip flag.\<close>

theorem capture_filter_duality:
  "(should_skip lc \<lparr>cf_mode = Allowlist, cf_hosts = hs\<rparr> h
      \<longleftrightarrow> \<not> should_skip lc \<lparr>cf_mode = Denylist, cf_hosts = hs\<rparr> h)
   \<and> \<not> should_skip lc \<lparr>cf_mode = Disabled, cf_hosts = hs\<rparr> h
   \<and> capture_on_request lc cfg c =
       (Continue, c\<lparr>rq_skip_recording := rq_skip_recording c \<or> should_skip lc cfg (rq_host c)\<rparr>)"
  by (auto simp: should_skip_def capture_on_request_def Let_def)

text \<open>While the products fit in 64 bits, the response delay is the number of whole
  milliseconds the body takes at the configured rate of \<open>kbps * 128\<close> bytes a second.\<close>

theorem throttle_delay:
  assumes "tc_enabled config" and "unat (tc_bandwidth_limit_kbps config) > 0"
    and "unat (tc_bandwidth_limit_kbps config) * 1024 < 2 ^ 64"
    and "length (rs_body ctx) * 1000 < 2 ^ 64"
  shows "unat (response_delay config ctx) =
     length (rs_body ctx) * 1000 div (unat (tc_bandwidth_limit_kbps config) * 128)"
proof (cases "rs_body ctx = []")
  case True
  then show ?thesis by (simp add: response_delay_def)
next
  case False
  let ?k = "tc_bandwidth_limit_kbps config"
  let ?n = "word_of_nat (length (rs_body ctx)) :: u64"
  have pos: "?k > 0" using assms(2) by (simp add: word_less_nat_alt)
  have rate: "unat (?k * 1024 div 8) = unat ?k * 128"
    using assms(3) by (simp add: unat_div unat_mult_lem [THEN iffD1])
  have size: "unat (?n * 1000) = length (rs_body ctx) * 1000"
    using assms(4) by (simp add: unat_word_ariths unat_of_nat)
  have "?k * 1024 div 8 \<noteq> 0" using rate assms(2) by (metis mult_is_0 neq0_conv unat_0 zero_neq_numeral)
  then show ?thesis using assms(1) False pos rate size
    by (simp add: response_delay_def unat_div)
qed

theorem throttle_delay_witness:
  "unat (response_delay \<lparr>tc_latency_ms = 0, tc_bandwidth_limit_kbps = 8, tc_enabled = True\<rparr>
      (rs_default\<lparr>rs_body := replicate 2048 0\<rparr>)) = 2000"
  using throttle_delay [of "\<lparr>tc_latency_ms = 0, tc_bandwidth_limit_kbps = 8, tc_enabled = True\<rparr>"
     "rs_default\<lparr>rs_body := replicate 2048 0\<rparr>"] by simp

end
