(* ===== verification/Rules.thy ===== *)
theory Rules
  imports Chain
begin

text \<open>
  \<open>middleware/plugins/rules.rs\<close>: the rewrite rules. A rule set couples a location with an
  ordered list of actions; every enabled rule whose location matches the request as it
  arrived is applied in order, and a redirect or block action ends the chain.

  A \<open>CompiledPattern\<close> is its pattern text: \<open>regex()\<close> is \<open>Some\<close> exactly when the
  library compiles it. \<open>CHR 0x27\<close> is the apostrophe of the summaries.
\<close>

datatype applies_to = AT_Request | AT_Response | AT_Both

datatype rewrite_action =
  SetHeader string string | AppendHeader string string | RemoveHeader string
| SetQueryParam string string | RemoveQueryParam string
| SetHost string | SetPath string string
| SetStatus u16
| ReplaceBody string string
| RA_Redirect u16 string | RA_Block u16

record rewrite_rule_set =
  rw_id :: string
  rw_name :: string
  rw_enabled :: bool
  rw_location :: location
  rw_applies_to :: applies_to
  rw_actions :: "rewrite_action list"

section \<open>Request actions\<close>

definition quoted :: "string \<Rightarrow> string" where
  "quoted s = [CHR 0x27] @ s @ [CHR 0x27]"

definition rewrite_response :: "u16 \<Rightarrow> header_map \<Rightarrow> intercepted_response" where
  "rewrite_response status headers =
     \<lparr>ir_status = status, ir_headers = headers, ir_body = [], ir_tags = [''rewrite''],
      ir_served_mock = None\<rparr>"

definition rewritten :: "request_context \<Rightarrow> request_context" where
  "rewritten ctx = ctx\<lparr>rq_rewritten := True\<rparr>"

definition rewrite_short_circuit ::
    "rewrite_rule_set \<Rightarrow> flow_short_circuit_reason \<Rightarrow> u16 \<Rightarrow> header_map \<Rightarrow> request_context \<Rightarrow>
     request_context" where
  "rewrite_short_circuit rule reason status headers ctx =
     rq_push_flow (ctx\<lparr>rq_mock_response := Some (rewrite_response status headers)\<rparr>)
       (ShortCircuited reason status (Some (rw_id rule)) (Some (rw_name rule)))"

text \<open>An action that does not end the chain: the new context and the summaries it adds.\<close>

fun request_action ::
    "regex_lib \<Rightarrow> rewrite_action \<Rightarrow> request_context \<Rightarrow> request_context \<times> string list" where
  "request_action rx (SetHeader name v) ctx =
     (rewritten (ctx\<lparr>rq_headers := set_header (rq_headers ctx) name v\<rparr>),
      [''request header '' @ quoted name @ '' set''])"
| "request_action rx (AppendHeader name v) ctx =
     (rewritten (ctx\<lparr>rq_headers := append_header (rq_headers ctx) name v\<rparr>),
      [''request header '' @ quoted name @ '' appended''])"
| "request_action rx (RemoveHeader name) ctx =
     (rewritten (ctx\<lparr>rq_headers := remove_header (rq_headers ctx) name\<rparr>),
      [''request header '' @ quoted name @ '' removed''])"
| "request_action rx (SetQueryParam name v) ctx =
     (rewritten (ctx\<lparr>rq_uri := set_query_param (rq_uri ctx) name v\<rparr>),
      [''query parameter '' @ quoted name @ '' set''])"
| "request_action rx (RemoveQueryParam name) ctx =
     (rewritten (ctx\<lparr>rq_uri := remove_query_param (rq_uri ctx) name\<rparr>),
      [''query parameter '' @ quoted name @ '' removed''])"
| "request_action rx (SetHost v) ctx =
     (rewritten (ctx\<lparr>rq_host := v, rq_headers := set_header (rq_headers ctx) ''host'' v,
                     rq_destination := None\<rparr>),
      [''host changed''])"
| "request_action rx (SetPath pattern replacement) ctx =
     (if rx_compiles rx pattern then
        let (_, query) = split_path_query (rq_uri ctx);
            new_path = rx_replace_all rx pattern (path_of (rq_uri ctx)) replacement
        in (rewritten (ctx\<lparr>rq_uri := if query = [] then new_path else new_path @ ''?'' @ query\<rparr>),
            [''path changed''])
      else (ctx, []))"
| "request_action rx (ReplaceBody pattern replacement) ctx =
     (if rx_compiles rx pattern then
        let text = rq_body_text ctx;
            new_body = rx_replace_all rx pattern text replacement
        in if new_body \<noteq> text
           then let c1 = rq_set_body_text ctx new_body
                in (rewritten (c1\<lparr>rq_headers := remove_header (rq_headers c1) ''content-length''\<rparr>),
                    [''request body changed''])
           else (ctx, [])
      else (ctx, []))"
| "request_action rx (SetStatus code) ctx = (ctx, [])"
| "request_action rx (RA_Redirect status loc) ctx = (ctx, [])"
| "request_action rx (RA_Block status) ctx = (ctx, [])"

fun request_actions ::
    "regex_lib \<Rightarrow> rewrite_rule_set \<Rightarrow> rewrite_action list \<Rightarrow> string list \<Rightarrow> request_context \<Rightarrow>
     middleware_action option \<times> request_context" where
  "request_actions rx rule [] summaries ctx =
     (None, if summaries \<noteq> []
            then rq_push_flow ctx (RuleApplied FR_Rewrite (rw_id rule) (rw_name rule) (join_str '', '' summaries))
            else ctx)"
| "request_actions rx rule (RA_Redirect status loc # as) summaries ctx =
     (Some StopAndReturn, rewrite_short_circuit rule SC_RewriteRedirect status
        (snd (hm_insert hm_new ''Location'' loc)) ctx)"
| "request_actions rx rule (RA_Block status # as) summaries ctx =
     (Some StopAndReturn, rewrite_short_circuit rule SC_RewriteBlock status hm_new ctx)"
| "request_actions rx rule (a # as) summaries ctx =
     (case request_action rx a ctx of
        (ctx', added) \<Rightarrow> request_actions rx rule as (summaries @ added) ctx')"

definition apply_request_actions ::
    "regex_lib \<Rightarrow> rewrite_rule_set \<Rightarrow> request_context \<Rightarrow> middleware_action option \<times> request_context" where
  "apply_request_actions rx rule ctx = request_actions rx rule (rw_actions rule) [] ctx"

section \<open>Response actions\<close>

definition push_tag_once :: "string list \<Rightarrow> string \<Rightarrow> string list" where
  "push_tag_once tags tag = (if tag \<in> set tags then tags else tags @ [tag])"

definition tag_rewrite :: "response_context \<Rightarrow> response_context" where
  "tag_rewrite ctx = ctx\<lparr>rs_tags := push_tag_once (rs_tags ctx) ''rewrite''\<rparr>"

fun response_action ::
    "regex_lib \<Rightarrow> rewrite_action \<Rightarrow> response_context \<Rightarrow> response_context \<times> string list" where
  "response_action rx (SetHeader name v) ctx =
     (tag_rewrite (ctx\<lparr>rs_headers := set_header (rs_headers ctx) name v\<rparr>),
      [''response header '' @ quoted name @ '' set''])"
| "response_action rx (AppendHeader name v) ctx =
     (tag_rewrite (ctx\<lparr>rs_headers := append_header (rs_headers ctx) name v\<rparr>),
      [''response header '' @ quoted name @ '' appended''])"
| "response_action rx (RemoveHeader name) ctx =
     (tag_rewrite (ctx\<lparr>rs_headers := remove_header (rs_headers ctx) name\<rparr>),
      [''response header '' @ quoted name @ '' removed''])"
| "response_action rx (SetStatus code) ctx =
     (tag_rewrite (ctx\<lparr>rs_status := code\<rparr>), [''status changed to '' @ decimal (unat code)])"
| "response_action rx (ReplaceBody pattern replacement) ctx =
     (if rx_compiles rx pattern then
        let text = rs_body_text ctx;
            new_body = rx_replace_all rx pattern text replacement
        in if new_body \<noteq> text
           then let c1 = rs_set_body_text ctx new_body
                in (tag_rewrite (c1\<lparr>rs_headers := remove_header (rs_headers c1) ''content-length''\<rparr>),
                    [''response body changed''])
           else (ctx, [])
      else (ctx, []))"
| "response_action rx (SetQueryParam name v) ctx = (ctx, [])"
| "response_action rx (RemoveQueryParam name) ctx = (ctx, [])"
| "response_action rx (SetHost v) ctx = (ctx, [])"
| "response_action rx (SetPath pattern replacement) ctx = (ctx, [])"
| "response_action rx (RA_Redirect status loc) ctx = (ctx, [])"
| "response_action rx (RA_Block status) ctx = (ctx, [])"

fun response_actions ::
    "regex_lib \<Rightarrow> rewrite_action list \<Rightarrow> string list \<Rightarrow> response_context \<Rightarrow>
     response_context \<times> string list" where
  "response_actions rx [] summaries ctx = (ctx, summaries)"
| "response_actions rx (a # as) summaries ctx =
     (case response_action rx a ctx of
        (ctx', added) \<Rightarrow> response_actions rx as (summaries @ added) ctx')"

definition apply_response_actions ::
    "regex_lib \<Rightarrow> rewrite_rule_set \<Rightarrow> response_context \<Rightarrow> response_context" where
  "apply_response_actions rx rule ctx =
     (case response_actions rx (rw_actions rule) [] ctx of
        (ctx', summaries) \<Rightarrow>
          if summaries \<noteq> []
          then rs_push_flow ctx' (ResponseModified FR_Rewrite (rw_id rule) (rw_name rule)
                 (join_str '', '' summaries))
          else ctx')"

section \<open>The plugin\<close>

definition rule_matched :: "rewrite_rule_set \<Rightarrow> flow_event" where
  "rule_matched rule = RuleMatched FR_Rewrite (rw_id rule) (rw_name rule)"

fun rewrite_request_loop ::
    "regex_lib \<Rightarrow> match_target \<Rightarrow> rewrite_rule_set list \<Rightarrow> request_context \<Rightarrow>
     middleware_action \<times> request_context" where
  "rewrite_request_loop rx target [] ctx = (Continue, ctx)"
| "rewrite_request_loop rx target (rule # rules) ctx =
     (if rw_applies_to rule \<noteq> AT_Response \<and> loc_matches rx (rw_location rule) target then
        (case apply_request_actions rx rule (rq_push_flow ctx (rule_matched rule)) of
           (Some action, ctx') \<Rightarrow> (action, ctx')
         | (None, ctx') \<Rightarrow> rewrite_request_loop rx target rules ctx')
      else rewrite_request_loop rx target rules ctx)"

definition rewrite_on_request ::
    "regex_lib \<Rightarrow> rewrite_rule_set list \<Rightarrow> request_context \<Rightarrow> middleware_action \<times> request_context" where
  "rewrite_on_request rx rules ctx =
     rewrite_request_loop rx (from_request ctx) (filter rw_enabled rules) ctx"

fun rewrite_response_loop ::
    "regex_lib \<Rightarrow> match_target \<Rightarrow> rewrite_rule_set list \<Rightarrow> response_context \<Rightarrow> response_context" where
  "rewrite_response_loop rx target [] ctx = ctx"
| "rewrite_response_loop rx target (rule # rules) ctx =
     rewrite_response_loop rx target rules
       (if rw_applies_to rule \<noteq> AT_Request \<and> loc_matches rx (rw_location rule) target
        then apply_response_actions rx rule (rs_push_flow ctx (rule_matched rule)) else ctx)"

definition rewrite_on_response ::
    "regex_lib \<Rightarrow> rewrite_rule_set list \<Rightarrow> response_context \<Rightarrow> middleware_action \<times> response_context" where
  "rewrite_on_response rx rules ctx =
     (Continue, rewrite_response_loop rx (from_response ctx) (filter rw_enabled rules) ctx)"

definition rewrite_middleware ::
    "regex_lib \<Rightarrow> ('w \<Rightarrow> rewrite_rule_set list) \<Rightarrow> ('w, 'o) middleware" where
  "rewrite_middleware rx rules = (default_middleware ''UnifiedRewriteMiddleware'')\<lparr>
     mwr_on_request := \<lambda>w c. case rewrite_on_request rx (rules w) c of (a, c') \<Rightarrow> (a, w, c'),
     mwr_on_response := \<lambda>w c. case rewrite_on_response rx (rules w) c of (a, c') \<Rightarrow> (a, w, c')\<rparr>"

section \<open>Lemmas\<close>

lemma request_action_clean: "request_clean c \<Longrightarrow> request_clean (fst (request_action rx a c))"
  by (cases a) (auto simp: request_clean_def rewritten_def rq_set_body_text_def Let_def
      split: prod.split)

lemma short_circuit_clean: "request_clean c \<Longrightarrow> request_clean (rewrite_short_circuit r re s h c)"
  by (simp add: rewrite_short_circuit_def request_clean_def)

fun short_circuits :: "rewrite_action \<Rightarrow> bool" where
  "short_circuits (RA_Redirect status loc) \<longleftrightarrow> True"
| "short_circuits (RA_Block status) \<longleftrightarrow> True"
| "short_circuits _ \<longleftrightarrow> False"

lemma request_actions_plain:
  "\<not> short_circuits a \<Longrightarrow> request_actions rx rule (a # as) summaries c =
     request_actions rx rule as (summaries @ snd (request_action rx a c)) (fst (request_action rx a c))"
  by (cases a) (simp_all add: split_beta)

lemma request_actions_clean:
  "request_clean c \<Longrightarrow> request_clean (snd (request_actions rx rule as summaries c))"
proof (induction as arbitrary: summaries c)
  case (Cons a as)
  show ?case
  proof (cases "short_circuits a")
    case True
    then show ?thesis using Cons.prems by (cases a) (auto simp: short_circuit_clean)
  next
    case False
    then show ?thesis using Cons by (simp add: request_actions_plain request_action_clean)
  qed
qed simp

lemma rewrite_request_loop_clean:
  "request_clean c \<Longrightarrow> request_clean (snd (rewrite_request_loop rx t rules c))"
proof (induction rx t rules c rule: rewrite_request_loop.induct)
  case (2 rx target rule rules ctx)
  obtain a c' where app: "apply_request_actions rx rule (rq_push_flow ctx (rule_matched rule)) = (a, c')"
    by (cases "apply_request_actions rx rule (rq_push_flow ctx (rule_matched rule))")
  have "request_clean c'"
    using request_actions_clean [of "rq_push_flow ctx (rule_matched rule)" rx rule "rw_actions rule" "[]"]
      "2.prems" app by (simp add: apply_request_actions_def)
  then show ?case using 2 app by (auto split: option.split)
qed simp

lemma response_action_clean: "response_clean c \<Longrightarrow> response_clean (fst (response_action rx a c))"
  by (cases a) (auto simp: response_clean_def tag_rewrite_def rs_set_body_text_def Let_def)

lemma response_actions_clean:
  "response_clean c \<Longrightarrow> response_clean (fst (response_actions rx as summaries c))"
  by (induction as arbitrary: summaries c)
    (simp_all add: split_beta response_action_clean del: response_action.simps)

lemma apply_response_actions_clean:
  "response_clean c \<Longrightarrow> response_clean (apply_response_actions rx rule c)"
  using response_actions_clean [of c rx "rw_actions rule" "[]"]
  by (auto simp: apply_response_actions_def split: prod.split)

lemma rewrite_response_loop_clean:
  "response_clean c \<Longrightarrow> response_clean (rewrite_response_loop rx t rules c)"
  by (induction rx t rules c rule: rewrite_response_loop.induct)
    (auto simp: apply_response_actions_clean)

lemma rewrite_clean [invariant_intro]: "clean_plugin (rewrite_middleware rx rules)"
  by (rule clean_pluginI) (simp_all add: rewrite_middleware_def rewrite_on_request_def
      rewrite_on_response_def rewrite_request_loop_clean rewrite_response_loop_clean split_beta)

lemma request_actions_stops:
  "fst (request_actions rx rule as summaries c) =
     (if list_ex short_circuits as then Some StopAndReturn else None)"
proof (induction as arbitrary: summaries c)
  case (Cons a as)
  show ?case
  proof (cases "short_circuits a")
    case True
    then show ?thesis by (cases a) auto
  next
    case False
    then show ?thesis using Cons.IH by (simp add: request_actions_plain)
  qed
qed simp

text \<open>The rules that apply to a request as it arrived, in order.\<close>

definition request_rules ::
    "regex_lib \<Rightarrow> rewrite_rule_set list \<Rightarrow> request_context \<Rightarrow> rewrite_rule_set list" where
  "request_rules rx rules ctx =
     filter (\<lambda>r. rw_enabled r \<and> rw_applies_to r \<noteq> AT_Response
        \<and> loc_matches rx (rw_location r) (from_request ctx)) rules"

text \<open>The reference: apply one rule after the other until one stops.\<close>

fun run_rules ::
    "regex_lib \<Rightarrow> rewrite_rule_set list \<Rightarrow> request_context \<Rightarrow> middleware_action \<times> request_context" where
  "run_rules rx [] ctx = (Continue, ctx)"
| "run_rules rx (rule # rules) ctx =
     (case apply_request_actions rx rule (rq_push_flow ctx (rule_matched rule)) of
        (Some action, ctx') \<Rightarrow> (action, ctx') | (None, ctx') \<Rightarrow> run_rules rx rules ctx')"

lemma rewrite_request_loop_filter:
  "rewrite_request_loop rx target rules ctx =
     run_rules rx (filter (\<lambda>r. rw_applies_to r \<noteq> AT_Response \<and> loc_matches rx (rw_location r) target) rules) ctx"
  by (induction rx target rules ctx rule: rewrite_request_loop.induct)
    (auto split: prod.split option.split)

lemma rewrite_on_request_run: "rewrite_on_request rx rules ctx = run_rules rx (request_rules rx rules ctx) ctx"
  by (simp add: rewrite_on_request_def rewrite_request_loop_filter request_rules_def)

lemma run_rules_stops:
  "fst (run_rules rx rules c) =
     (if \<exists>r \<in> set rules. list_ex short_circuits (rw_actions r) then StopAndReturn else Continue)"
proof (induction rules arbitrary: c)
  case (Cons r rules)
  obtain a c' where app: "apply_request_actions rx r (rq_push_flow c (rule_matched r)) = (a, c')"
    by (cases "apply_request_actions rx r (rq_push_flow c (rule_matched r))")
  then have "a = (if list_ex short_circuits (rw_actions r) then Some StopAndReturn else None)"
    using request_actions_stops [of rx r "rw_actions r" "[]" "rq_push_flow c (rule_matched r)"]
    by (simp add: apply_request_actions_def)
  with app Cons.IH show ?case by simp
qed simp

text \<open>What a rewrite can touch.\<close>

lemma request_action_frame:
  "rq_method (fst (request_action rx a c)) = rq_method c
   \<and> rq_session_id (fst (request_action rx a c)) = rq_session_id c
   \<and> rq_mock_response (fst (request_action rx a c)) = rq_mock_response c
   \<and> rq_flow (fst (request_action rx a c)) = rq_flow c
   \<and> rq_skip_recording (fst (request_action rx a c)) = rq_skip_recording c"
  by (cases a) (auto simp: rewritten_def rq_set_body_text_def Let_def split: prod.split)

lemma response_action_request_only:
  "a \<in> {SetQueryParam n v, RemoveQueryParam n, SetHost v, SetPath p q, RA_Redirect s l, RA_Block s} \<Longrightarrow>
   response_action rx a c = (c, [])"
  by auto

fun action_response :: "rewrite_action \<Rightarrow> intercepted_response option" where
  "action_response (RA_Redirect status loc) =
     Some (rewrite_response status (hm_from_iter [(''location'', loc)]))"
| "action_response (RA_Block status) = Some (rewrite_response status hm_new)"
| "action_response _ = None"

lemma location_header: "snd (hm_insert hm_new ''Location'' loc) = hm_from_iter [(''location'', loc)]"
proof -
  have "to_ascii_lowercase ''Location'' = ''location''" "to_ascii_lowercase ''location'' = ''location''"
    by code_simp+
  then show ?thesis by (simp add: hm_insert_def hm_remove_def hm_new_def hm_from_iter_def hm_append_def)
qed

lemma request_actions_mock:
  "rq_mock_response (snd (request_actions rx rule as summaries c)) =
     (case find short_circuits as of None \<Rightarrow> rq_mock_response c | Some a \<Rightarrow> action_response a)"
proof (induction as arbitrary: summaries c)
  case (Cons a as)
  show ?case
  proof (cases "short_circuits a")
    case True
    then show ?thesis by (cases a) (auto simp: rewrite_short_circuit_def location_header)
  next
    case False
    then show ?thesis
      using Cons.IH request_action_frame [of rx a c]
      by (simp add: request_actions_plain split: option.split)
  qed
qed simp

lemma run_rules_mock:
  "rq_mock_response (snd (run_rules rx rules c)) =
     (case find short_circuits (concat (map rw_actions rules)) of
        None \<Rightarrow> rq_mock_response c | Some a \<Rightarrow> action_response a)"
proof (induction rules arbitrary: c)
  case (Cons r rules)
  let ?c = "rq_push_flow c (rule_matched r)"
  obtain a c' where app: "apply_request_actions rx r ?c = (a, c')"
    by (cases "apply_request_actions rx r ?c")
  then have a: "a = (if list_ex short_circuits (rw_actions r) then Some StopAndReturn else None)"
    and c': "rq_mock_response c' = (case find short_circuits (rw_actions r) of
        None \<Rightarrow> rq_mock_response c | Some a \<Rightarrow> action_response a)"
    using request_actions_stops [of rx r "rw_actions r" "[]" ?c]
      request_actions_mock [of rx r "rw_actions r" "[]" ?c]
    by (simp_all add: apply_request_actions_def split: option.split)
  have "list_ex short_circuits (rw_actions r) \<longleftrightarrow> find short_circuits (rw_actions r) \<noteq> None"
    by (auto simp: list_ex_iff find_None_iff)
  then show ?case using app a c' Cons.IH
    by (auto simp: find_append split: option.splits)
qed simp

section \<open>Properties\<close>

text \<open>C18 All enabled request rules whose location matches the request as it arrived are
  applied in order, each on the result of the one before; rewriting never changes which rules
  match. The chain stops exactly when one of these rules has a redirect or a block, and the
  response is then that of the first such action.\<close>

theorem rewrite_request_semantics:
  "rewrite_on_request rx rules ctx = run_rules rx (request_rules rx rules ctx) ctx
   \<and> fst (rewrite_on_request rx rules ctx) =
       (if \<exists>r \<in> set (request_rules rx rules ctx). \<exists>a \<in> set (rw_actions r). short_circuits a
        then StopAndReturn else Continue)
   \<and> rq_mock_response (snd (rewrite_on_request rx rules ctx)) =
       (case find short_circuits (concat (map rw_actions (request_rules rx rules ctx))) of
          None \<Rightarrow> rq_mock_response ctx | Some a \<Rightarrow> action_response a)"
  by (simp add: rewrite_on_request_run run_rules_stops run_rules_mock list_ex_iff)

text \<open>A body replacement works on the lossy text of the body, so it rewrites the bytes of a
  binary body that the pattern happens to match.\<close>

lemma replace_body_binary:
  assumes "rx_compiles rx ''a''" and "\<And>s. rx_replace_all rx ''a'' s ''b'' = map (\<lambda>c. if c = CHR ''a'' then CHR ''b'' else c) s"
  shows "rq_body (fst (request_action rx (ReplaceBody ''a'' ''b'') (rq_default\<lparr>rq_body := [255, 97]\<rparr>)))
      = [239, 191, 189, 98]"
proof -
  have "rq_body_text (rq_default\<lparr>rq_body := [255, 97]\<rparr>) = string_of_bytes [239, 191, 189, 97]"
    by code_simp
  moreover have "map (\<lambda>c. if c = CHR ''a'' then CHR ''b'' else c) (string_of_bytes [239, 191, 189, 97])
      = string_of_bytes [239, 191, 189, 98]"
    and "string_of_bytes [239, 191, 189, 98] \<noteq> string_of_bytes [239, 191, 189, 97]"
    by code_simp+
  ultimately show ?thesis
    using assms by (simp add: Let_def rewritten_def rq_set_body_text_def)
qed

end
