(* ===== verification/Mock.thy ===== *)
theory Mock
  imports Chain
begin

text \<open>
  \<open>middleware/plugins/mock.rs\<close>: the mock rules, their round-robin HTTP responses, the
  gRPC scripts, and the plugin.

  The plugin takes a snapshot of the enabled rules and later locks the live list again to
  look the rule up by id; another task may edit the list in between. \<open>env i\<close> is the
  change other tasks make before the \<open>i\<close>-th acquisition of the write lock, so
  \<open>env = (\<lambda>_ rs. rs)\<close> is the plugin running alone. \<open>hash\<close> is the iteration order of a
  hash map, \<open>b64_decode\<close> the standard base64 decoder, and the list of delays that a
  handler returns are its sleeps in order. A mock body is a Rust string.
\<close>

record mock_http_response =
  mk_status :: u16
  mk_headers :: "string \<rightharpoonup> string"
  mk_body :: string
  mk_delay_ms :: u64

record ws_frame_action =
  wa_opcode :: byte
  wa_payload :: string
  wa_delay_ms :: u64

record grpc_message_action =
  ga_compressed :: bool
  ga_payload_base64 :: string
  ga_delay_ms :: u64

record tunnel_decision =
  td_allow :: bool
  td_delay_ms :: u64

datatype mock_behavior =
  HttpResponse "mock_http_response list"
| WebSocketScript "ws_frame_action list"
| GrpcScript "grpc_message_action list" header_map
| MB_TunnelDecision tunnel_decision

fun mb_kind :: "mock_behavior \<Rightarrow> string" where
  "mb_kind (HttpResponse _) = ''http_response''"
| "mb_kind (WebSocketScript _) = ''websocket_script''"
| "mb_kind (GrpcScript _ _) = ''grpc_script''"
| "mb_kind (MB_TunnelDecision _) = ''tunnel_decision''"

fun http_responses :: "mock_behavior \<Rightarrow> mock_http_response list option" where
  "http_responses (HttpResponse responses) = Some responses"
| "http_responses _ = None"

record mock_rule =
  mo_id :: string
  mo_name :: string
  mo_enabled :: bool
  mo_location :: location
  mo_behavior :: "mock_behavior option"
  mo_responses :: "mock_http_response list"
  mo_call_count :: u64

section \<open>Rules\<close>

definition mock_matches :: "regex_lib \<Rightarrow> mock_rule \<Rightarrow> request_context \<Rightarrow> bool" where
  "mock_matches rx rule ctx \<longleftrightarrow>
     mo_enabled rule \<and> loc_matches rx (mo_location rule) (from_request ctx)"

definition rule_responses :: "mock_rule \<Rightarrow> mock_http_response list" where
  "rule_responses rule =
     (case Option.bind (mo_behavior rule) http_responses of
        Some responses \<Rightarrow> responses | None \<Rightarrow> mo_responses rule)"

definition current_response :: "mock_rule \<Rightarrow> mock_http_response option" where
  "current_response rule =
     (let responses = rule_responses rule
      in if responses = [] then None
         else Some (responses ! (unat (mo_call_count rule) mod length responses)))"

definition behavior_kind :: "mock_rule \<Rightarrow> string" where
  "behavior_kind rule = (case mo_behavior rule of Some b \<Rightarrow> mb_kind b | None \<Rightarrow> ''http_response'')"

text \<open>\<open>str::replace\<close>: non-overlapping occurrences from the left. The placeholders are
  not empty.\<close>

function replace_str :: "string \<Rightarrow> string \<Rightarrow> string \<Rightarrow> string" where
  "replace_str pat rep s =
     (case s of [] \<Rightarrow> []
      | c # cs \<Rightarrow> if pat \<noteq> [] \<and> prefix pat s then rep @ replace_str pat rep (drop (length pat) s)
                 else c # replace_str pat rep cs)"
  by pat_completeness auto
termination
  by (relation "measure (\<lambda>(_, _, s). length s)") (auto simp: Suc_diff_le prefix_def)

declare replace_str.simps [simp del]

definition placeholder :: "nat \<Rightarrow> string" where
  "placeholder i = ''${'' @ decimal i @ ''}''"

text \<open>The captures of a match: group \<open>i\<close> or none, group 0 being the whole match.\<close>

definition apply_template :: "string \<Rightarrow> string option list \<Rightarrow> string" where
  "apply_template template captures =
     foldl (\<lambda>result i. replace_str (placeholder i)
              (case captures ! i of Some m \<Rightarrow> m | None \<Rightarrow> []) result)
       template [0..<length captures]"

definition mock_is_grpc_request :: "request_context \<Rightarrow> bool" where
  "mock_is_grpc_request ctx \<longleftrightarrow>
     (case rq_protocol_context ctx of Some p \<Rightarrow> pc_application p = App_Grpc | None \<Rightarrow> False)
     \<or> (case hm_get (rq_headers ctx) ''content-type'' of
          Some ct \<Rightarrow> starts_with ct ''application/grpc'' | None \<Rightarrow> False)"

definition grpc_script_body :: "(bytes \<Rightarrow> bytes option) \<Rightarrow> grpc_message_action list \<Rightarrow> bytes" where
  "grpc_script_body b64_decode messages =
     concat (map (\<lambda>m. encode_grpc_frame (ga_compressed m)
        (case b64_decode (bytes_of_string (ga_payload_base64 m)) of Some b \<Rightarrow> b | None \<Rightarrow> [])) messages)"

definition grpc_script_delays :: "grpc_message_action list \<Rightarrow> u64 list" where
  "grpc_script_delays messages = filter (\<lambda>d. d > 0) (map ga_delay_ms messages)"

section \<open>Serving\<close>

fun bump_rule :: "string \<Rightarrow> mock_rule list \<Rightarrow> mock_rule list" where
  "bump_rule i [] = []"
| "bump_rule i (r # rs) =
     (if mo_id r = i then r\<lparr>mo_call_count := mo_call_count r + 1\<rparr> # rs else r # bump_rule i rs)"

definition grpc_mock_headers :: "header_map \<Rightarrow> bytes \<Rightarrow> header_map" where
  "grpc_mock_headers trailers body =
     (let h0 = snd (hm_insert hm_new ''content-type'' ''application/grpc'');
          h1 = snd (hm_insert h0 ''content-length'' (decimal (length body)));
          h2 = foldl (\<lambda>h (name, v). snd (hm_insert h name v)) h1 (entries trailers)
      in if \<not> hm_contains_key h2 ''grpc-status'' then snd (hm_insert h2 ''grpc-status'' ''0'') else h2)"

definition mock_http_headers ::
    "((string \<rightharpoonup> string) \<Rightarrow> (string \<times> string) list) \<Rightarrow> mock_http_response \<Rightarrow> string \<Rightarrow> header_map" where
  "mock_http_headers hash resp body =
     (let h = hm_of_hash hash (mk_headers resp)
      in if \<not> hm_contains_key h ''content-length''
         then snd (hm_insert h ''content-length'' (decimal (length body))) else h)"

definition mock_body :: "regex_lib \<Rightarrow> mock_rule \<Rightarrow> match_target \<Rightarrow> mock_http_response \<Rightarrow> string" where
  "mock_body rx rule target resp =
     (case compiled_path_regex rx (mo_location rule) of
        Some re \<Rightarrow> (case rx_captures rx re (mt_path target) of
                     Some caps \<Rightarrow> apply_template (mk_body resp) caps | None \<Rightarrow> mk_body resp)
      | None \<Rightarrow> mk_body resp)"

definition mock_intercept ::
    "mock_rule \<Rightarrow> u16 \<Rightarrow> header_map \<Rightarrow> bytes \<Rightarrow> string \<Rightarrow> request_context \<Rightarrow> request_context" where
  "mock_intercept rule status headers body behavior ctx =
     rq_push_flow (ctx\<lparr>rq_mock_response := Some
        \<lparr>ir_status = status, ir_headers = headers, ir_body = body, ir_tags = [''mock''],
         ir_served_mock = Some \<lparr>sm_rule_id = mo_id rule, sm_behavior = behavior\<rparr>\<rparr>\<rparr>)
       (ShortCircuited SC_MockResponse status (Some (mo_id rule)) (Some (mo_name rule)))"

text \<open>The choice of the response under the write lock: from the live rule, whose counter
  advances, or from the snapshot when the live rule is gone. \<open>None\<close> is \<open>continue\<close>.\<close>

definition take_response ::
    "mock_rule \<Rightarrow> mock_rule list \<Rightarrow> (mock_http_response \<times> mock_rule list) option" where
  "take_response rule live =
     (case find (\<lambda>r. mo_id r = mo_id rule) live of
        Some r \<Rightarrow> (case current_response r of
                    Some resp \<Rightarrow> Some (resp, bump_rule (mo_id rule) live) | None \<Rightarrow> None)
      | None \<Rightarrow> (case current_response rule of Some resp \<Rightarrow> Some (resp, live) | None \<Rightarrow> None))"

record mock_params =
  mp_rx :: regex_lib
  mp_hash :: "(string \<rightharpoonup> string) \<Rightarrow> (string \<times> string) list"
  mp_b64_decode :: "bytes \<Rightarrow> bytes option"
  mp_env :: "nat \<Rightarrow> mock_rule list \<Rightarrow> mock_rule list"

text \<open>\<open>n\<close> counts the acquisitions of the write lock.\<close>

fun mock_loop ::
    "mock_params \<Rightarrow> match_target \<Rightarrow> mock_rule list \<Rightarrow> nat \<Rightarrow> mock_rule list \<Rightarrow> request_context \<Rightarrow>
     middleware_action \<times> mock_rule list \<times> request_context \<times> u64 list" where
  "mock_loop p target [] n live ctx = (Continue, live, ctx, [])"
| "mock_loop p target (rule # rules) n live ctx =
     (if \<not> mock_matches (mp_rx p) rule ctx then mock_loop p target rules n live ctx
      else let c1 = rq_push_flow ctx (RuleMatched FR_Mock (mo_id rule) (mo_name rule))
           in case mo_behavior rule of
                Some (GrpcScript messages trailers) \<Rightarrow>
                  if \<not> mock_is_grpc_request c1 then mock_loop p target rules n live c1
                  else let live' = bump_rule (mo_id rule) (mp_env p n live);
                           body = grpc_script_body (mp_b64_decode p) messages
                       in (StopAndReturn, live',
                           mock_intercept rule 200 (grpc_mock_headers trailers body) body ''grpc_script'' c1,
                           grpc_script_delays messages)
              | _ \<Rightarrow>
                  (let live1 = mp_env p n live in
                   case take_response rule live1 of
                     None \<Rightarrow> mock_loop p target rules (Suc n) live1 c1
                   | Some (resp, live') \<Rightarrow>
                       let body = mock_body (mp_rx p) rule target resp
                       in (StopAndReturn, live',
                           mock_intercept rule (mk_status resp) (mock_http_headers (mp_hash p) resp body)
                             (bytes_of_string body) (behavior_kind rule) c1,
                           if mk_delay_ms resp > 0 then [mk_delay_ms resp] else [])))"

definition mock_on_request ::
    "mock_params \<Rightarrow> mock_rule list \<Rightarrow> request_context \<Rightarrow>
     middleware_action \<times> mock_rule list \<times> request_context \<times> u64 list" where
  "mock_on_request p rules ctx = mock_loop p (from_request ctx) (filter mo_enabled rules) 0 rules ctx"

text \<open>The plugin over a shared state that holds the rules and runs timers.\<close>

definition mock_middleware ::
    "mock_params \<Rightarrow> ('w \<Rightarrow> mock_rule list) \<Rightarrow> (mock_rule list \<Rightarrow> 'w \<Rightarrow> 'w) \<Rightarrow> (u64 \<Rightarrow> 'w \<Rightarrow> 'w) \<Rightarrow>
     ('w, 'o) middleware" where
  "mock_middleware p rules set_rules sleep = (default_middleware ''MockMiddleware'')\<lparr>
     mwr_on_request := \<lambda>w c. case mock_on_request p (rules w) c of
        (a, live, c', delays) \<Rightarrow> (a, foldl (\<lambda>w d. sleep d w) (set_rules live w) delays, c')\<rparr>"

section \<open>Lemmas\<close>

lemma mock_intercept_simps [simp]:
  "rq_mock_response (mock_intercept rule st h b k c) = Some
     \<lparr>ir_status = st, ir_headers = h, ir_body = b, ir_tags = [''mock''],
      ir_served_mock = Some \<lparr>sm_rule_id = mo_id rule, sm_behavior = k\<rparr>\<rparr>"
  "rq_headers (mock_intercept rule st h b k c) = rq_headers c"
  by (simp_all add: mock_intercept_def)

lemma mock_intercept_clean: "request_clean c \<Longrightarrow> request_clean (mock_intercept rule st h b k c)"
  by (simp add: mock_intercept_def request_clean_def)

lemma mock_loop_clean:
  "request_clean c \<Longrightarrow> request_clean (fst (snd (snd (mock_loop p target rules n live c))))"
  by (induction p target rules n live c rule: mock_loop.induct)
    (auto simp: Let_def mock_intercept_clean split: option.split mock_behavior.split)

lemma mock_clean [invariant_intro]: "clean_plugin (mock_middleware p g s t)"
  by (rule clean_pluginI)
    (simp_all add: mock_middleware_def mock_on_request_def mock_loop_clean split_beta)

lemma find_bump:
  "find (\<lambda>r. mo_id r = i) (bump_rule j rs) =
     map_option (\<lambda>r. if i = j then r\<lparr>mo_call_count := mo_call_count r + 1\<rparr> else r)
       (find (\<lambda>r. mo_id r = i) rs)"
  by (induction j rs rule: bump_rule.induct) (auto simp: option.map_ident)

lemma bump_rule_others:
  "length (bump_rule i rs) = length rs"
  "map mo_id (bump_rule i rs) = map mo_id rs"
  "filter (\<lambda>r. mo_id r \<noteq> i) (bump_rule i rs) = filter (\<lambda>r. mo_id r \<noteq> i) rs"
  by (induction i rs rule: bump_rule.induct) auto

lemma find_own_id: "distinct (map mo_id rs) \<Longrightarrow> r \<in> set rs \<Longrightarrow> find (\<lambda>q. mo_id q = mo_id r) rs = Some r"
  by (induction rs) (auto simp: image_iff)

lemma rule_responses_bump [simp]:
  "rule_responses (r\<lparr>mo_call_count := n\<rparr>) = rule_responses r"
  by (simp add: rule_responses_def split: option.split)

lemma current_response_None: "current_response r = None \<longleftrightarrow> rule_responses r = []"
  by (simp add: current_response_def Let_def)

text \<open>Whether a matching rule answers the request, and with what.\<close>

definition can_serve :: "request_context \<Rightarrow> mock_rule \<Rightarrow> bool" where
  "can_serve ctx rule \<longleftrightarrow> (case mo_behavior rule of
     Some (GrpcScript messages trailers) \<Rightarrow> mock_is_grpc_request ctx
   | _ \<Rightarrow> rule_responses rule \<noteq> [])"

definition mock_answer :: "mock_params \<Rightarrow> request_context \<Rightarrow> mock_rule \<Rightarrow> u16 \<times> header_map \<times> bytes" where
  "mock_answer p ctx rule = (case mo_behavior rule of
     Some (GrpcScript messages trailers) \<Rightarrow>
       (let body = grpc_script_body (mp_b64_decode p) messages
        in (200, grpc_mock_headers trailers body, body))
   | _ \<Rightarrow>
       (let resp = rule_responses rule ! (unat (mo_call_count rule) mod length (rule_responses rule));
            body = mock_body (mp_rx p) rule (from_request ctx) resp
        in (mk_status resp, mock_http_headers (mp_hash p) resp body, bytes_of_string body)))"

lemma grpc_request_push [simp]: "mock_is_grpc_request (rq_push_flow c e) = mock_is_grpc_request c"
  by (simp add: mock_is_grpc_request_def)

lemma from_request_push [simp]: "from_request (rq_push_flow c e) = from_request c"
  by (simp add: from_request_def cong: option.case_cong)

lemma mock_matches_push [simp]: "mock_matches rx r (rq_push_flow c e) = mock_matches rx r c"
  by (simp add: mock_matches_def)

lemma can_serve_push [simp]: "can_serve (rq_push_flow c e) = can_serve c"
  by (auto simp: can_serve_def fun_eq_iff split: option.split mock_behavior.split)

lemma mock_answer_push [simp]: "mock_answer p (rq_push_flow c e) r = mock_answer p c r"
  by (simp add: mock_answer_def Let_def split: option.split mock_behavior.split)

definition answered ::
    "mock_params \<Rightarrow> request_context \<Rightarrow> mock_rule list \<Rightarrow> mock_rule option \<Rightarrow>
     middleware_action \<times> mock_rule list \<times> intercepted_response option" where
  "answered p ctx live served = (case served of
     None \<Rightarrow> (Continue, live, rq_mock_response ctx)
   | Some rule \<Rightarrow>
       (case mock_answer p ctx rule of (status, headers, body) \<Rightarrow>
          (StopAndReturn, bump_rule (mo_id rule) live, Some
            \<lparr>ir_status = status, ir_headers = headers, ir_body = body, ir_tags = [''mock''],
             ir_served_mock = Some \<lparr>sm_rule_id = mo_id rule, sm_behavior = behavior_kind rule\<rparr>\<rparr>)))"

lemma answered_push [simp]: "answered p (rq_push_flow c e) = answered p c"
  by (simp add: answered_def fun_eq_iff split: option.split)

definition outcome ::
    "middleware_action \<times> mock_rule list \<times> request_context \<times> u64 list \<Rightarrow>
     middleware_action \<times> mock_rule list \<times> intercepted_response option" where
  "outcome x = (case x of (a, live, c, _) \<Rightarrow> (a, live, rq_mock_response c))"

lemma mock_loop_outcome:
  assumes "distinct (map mo_id live)" and "mp_env p = (\<lambda>_ rs. rs)"
  shows "set rules \<subseteq> set live \<Longrightarrow>
    outcome (mock_loop p (from_request c) rules n live c) =
      answered p c live (find (\<lambda>r. mock_matches (mp_rx p) r c \<and> can_serve c r) rules)"
proof (induction rules arbitrary: n c)
  case Nil
  then show ?case by (simp add: outcome_def answered_def)
next
  case (Cons r rules)
  let ?c = "rq_push_flow c (RuleMatched FR_Mock (mo_id r) (mo_name r))"
  have IH: "outcome (mock_loop p (from_request c) rules m live d) =
      answered p c live (find (\<lambda>r. mock_matches (mp_rx p) r c \<and> can_serve c r) rules)"
    if "d = c \<or> d = ?c" for m d
    using Cons.IH [of d m] Cons.prems that by auto
  show ?case
  proof (cases "mock_matches (mp_rx p) r c")
    case False
    then show ?thesis using IH by simp
  next
    case match: True
    show ?thesis
    proof (cases "\<exists>ms ts. mo_behavior r = Some (GrpcScript ms ts)")
      case True
      then obtain ms ts where b: "mo_behavior r = Some (GrpcScript ms ts)" by blast
      then show ?thesis using match IH assms
        by (simp add: Let_def can_serve_def)
          (simp add: outcome_def answered_def mock_answer_def behavior_kind_def Let_def)
    next
      case False
      have own: "find (\<lambda>q. mo_id q = mo_id r) live = Some r"
        by (rule find_own_id [OF assms(1)]) (use Cons.prems in simp)
      have step: "mock_loop p (from_request c) (r # rules) n live c =
         (case take_response r live of
            None \<Rightarrow> mock_loop p (from_request c) rules (Suc n) live ?c
          | Some (resp, live') \<Rightarrow>
              let body = mock_body (mp_rx p) r (from_request c) resp
              in (StopAndReturn, live',
                  mock_intercept r (mk_status resp) (mock_http_headers (mp_hash p) resp body)
                    (bytes_of_string body) (behavior_kind r) ?c,
                  if mk_delay_ms resp > 0 then [mk_delay_ms resp] else []))"
        using match False assms(2) by (auto simp: Let_def split: option.split mock_behavior.split)
      have serve: "can_serve c r \<longleftrightarrow> rule_responses r \<noteq> []"
        using False by (auto simp: can_serve_def split: option.split mock_behavior.split)
      have answer: "mock_answer p c r =
         (let resp = rule_responses r ! (unat (mo_call_count r) mod length (rule_responses r));
              body = mock_body (mp_rx p) r (from_request c) resp
          in (mk_status resp, mock_http_headers (mp_hash p) resp body, bytes_of_string body))"
        using False by (auto simp: mock_answer_def split: option.split mock_behavior.split)
      show ?thesis
      proof (cases "rule_responses r = []")
        case True
        then have "take_response r live = None"
          by (simp add: take_response_def own current_response_def)
        then show ?thesis unfolding step using IH [of ?c "Suc n"] serve True by simp
      next
        case False
        then have "take_response r live = Some
            (rule_responses r ! (unat (mo_call_count r) mod length (rule_responses r)), bump_rule (mo_id r) live)"
          by (simp add: take_response_def own current_response_def Let_def)
        then show ?thesis unfolding step using serve False match
          by (simp add: outcome_def answered_def answer Let_def)
      qed
    qed
  qed
qed

section \<open>Properties\<close>

text \<open>Running alone, with distinct rule ids, the mock plugin is decided by the first enabled
  rule that matches and can answer (a gRPC script for a gRPC request, any other rule with a
  response): the chain stops with that answer, tagged with the rule, and exactly that rule's
  call counter goes up by one. Without such a rule nothing changes and the chain goes on.\<close>

theorem mock_first_serving_rule:
  assumes "distinct (map mo_id rules)" and "mp_env p = (\<lambda>_ rs. rs)"
  shows "(case mock_on_request p rules ctx of (a, live, c, _) \<Rightarrow> (a, live, rq_mock_response c)) =
     (case find (\<lambda>r. mock_matches (mp_rx p) r ctx \<and> can_serve ctx r) rules of
        None \<Rightarrow> (Continue, rules, rq_mock_response ctx)
      | Some rule \<Rightarrow>
          (case mock_answer p ctx rule of (status, headers, body) \<Rightarrow>
             (StopAndReturn, bump_rule (mo_id rule) rules, Some
               \<lparr>ir_status = status, ir_headers = headers, ir_body = body, ir_tags = [''mock''],
                ir_served_mock = Some \<lparr>sm_rule_id = mo_id rule, sm_behavior = behavior_kind rule\<rparr>\<rparr>)))"
proof -
  have "find (\<lambda>r. mo_enabled r \<and> mock_matches (mp_rx p) r ctx \<and> can_serve ctx r) rules
      = find (\<lambda>r. mock_matches (mp_rx p) r ctx \<and> can_serve ctx r) rules"
    by (intro arg_cong [where f = "\<lambda>P. find P rules"]) (auto simp: mock_matches_def)
  then show ?thesis
    using mock_loop_outcome [OF assms, of "filter mo_enabled rules" ctx 0]
    by (simp add: mock_on_request_def outcome_def answered_def find_filter)
qed

definition sample_rule :: mock_rule where
  "sample_rule = \<lparr>mo_id = ''m'', mo_name = ''m'', mo_enabled = True, mo_location = loc_default,
     mo_behavior = None, mo_responses =
       [\<lparr>mk_status = 200, mk_headers = Map.empty, mk_body = ''a'', mk_delay_ms = 0\<rparr>,
        \<lparr>mk_status = 503, mk_headers = Map.empty, mk_body = ''b'', mk_delay_ms = 0\<rparr>],
     mo_call_count = 1\<rparr>"

definition sample_params :: mock_params where
  "sample_params = \<lparr>mp_rx = literal_regex, mp_hash = (\<lambda>_. []), mp_b64_decode = (\<lambda>_. None), mp_env = (\<lambda>_ rs. rs)\<rparr>"

theorem mock_first_serving_rule_witness:
  "map_option ir_status (rq_mock_response (fst (snd (snd
      (mock_on_request sample_params [sample_rule] rq_default))))) = Some 503"
proof -
  have "mock_matches literal_regex sample_rule rq_default" "can_serve rq_default sample_rule"
    by (simp_all add: mock_matches_def sample_rule_def can_serve_def rule_responses_def)
  then have "(case mock_on_request sample_params [sample_rule] rq_default of
       (a, live, c, _) \<Rightarrow> (a, live, rq_mock_response c)) =
     (case mock_answer sample_params rq_default sample_rule of (status, headers, body) \<Rightarrow>
        (StopAndReturn, bump_rule (mo_id sample_rule) [sample_rule], Some
          \<lparr>ir_status = status, ir_headers = headers, ir_body = body, ir_tags = [''mock''],
           ir_served_mock = Some \<lparr>sm_rule_id = mo_id sample_rule, sm_behavior = behavior_kind sample_rule\<rparr>\<rparr>))"
    using mock_first_serving_rule [of "[sample_rule]" "sample_params" rq_default]
    by (simp add: sample_params_def)
  moreover have "fst (mock_answer sample_params rq_default sample_rule) = 503"
    by (simp add: mock_answer_def sample_rule_def rule_responses_def Let_def)
  ultimately show ?thesis by (auto split: prod.splits)
qed

text \<open>HTTP mock responses rotate: while other tasks leave the rule alone, the \<open>k\<close>-th
  answer taken from a rule with \<open>n\<close> responses is number \<open>(count + k) mod n\<close>, as long as the
  64-bit counter does not wrap.\<close>

theorem mock_round_robin:
  assumes "find (\<lambda>r. mo_id r = mo_id rule) live = Some r" and "rule_responses r \<noteq> []"
    and "unat (mo_call_count r) + k < 2 ^ 64"
  defines "next \<equiv> \<lambda>rs. case take_response rule rs of Some (_, rs') \<Rightarrow> rs' | None \<Rightarrow> rs"
  shows "map_option fst (take_response rule ((next ^^ k) live)) =
     Some (rule_responses r ! ((unat (mo_call_count r) + k) mod length (rule_responses r)))"
proof -
  have state: "find (\<lambda>q. mo_id q = mo_id rule) ((next ^^ k) live)
      = Some (r\<lparr>mo_call_count := mo_call_count r + word_of_nat k\<rparr>)" for k
  proof (induction k)
    case (Suc k)
    then show ?case using assms(2)
      by (simp add: next_def take_response_def current_response_def find_bump Let_def add.commute
          add.left_commute)
  qed (simp add: assms(1))
  have "unat (mo_call_count r + word_of_nat k) = unat (mo_call_count r) + k"
    using assms(3) by (simp add: unat_word_ariths unat_of_nat)
  with state [of k] assms(2) show ?thesis
    by (simp add: take_response_def current_response_def Let_def)
qed

theorem mock_round_robin_witness:
  "map_option (mk_status \<circ> fst) (take_response sample_rule [sample_rule]) = Some 503"
  using mock_round_robin [of sample_rule "[sample_rule]" sample_rule 0]
  by (simp add: sample_rule_def rule_responses_def option.map_comp comp_def map_option_case)
    (auto simp: take_response_def current_response_def rule_responses_def Let_def)

end
