(* ===== verification/IndexMap.thy ===== *)
theory IndexMap
  imports Prelude
begin

text \<open>
  The insertion-ordered map (\<open>indexmap::IndexMap\<close>) that holds the recorded exchanges: an
  association list with distinct keys. \<open>im_insert\<close> replaces the value of a key that is
  present, in its place, and appends a new key; \<open>im_update\<close> is a write through
  \<open>get_mut\<close>. The weight lemmas serve the accounting of retained bytes.
\<close>

type_synonym ('k, 'v) index_map = "('k \<times> 'v) list"

definition im_get :: "('k, 'v) index_map \<Rightarrow> 'k \<Rightarrow> 'v option" where
  "im_get m k = map_of m k"

definition im_contains :: "('k, 'v) index_map \<Rightarrow> 'k \<Rightarrow> bool" where
  "im_contains m k \<longleftrightarrow> k \<in> fst ` set m"

fun im_insert :: "('k, 'v) index_map \<Rightarrow> 'k \<Rightarrow> 'v \<Rightarrow> ('k, 'v) index_map" where
  "im_insert [] k v = [(k, v)]"
| "im_insert ((k', v') # m) k v =
     (if k' = k then (k, v) # m else (k', v') # im_insert m k v)"

fun im_update :: "('k, 'v) index_map \<Rightarrow> 'k \<Rightarrow> ('v \<Rightarrow> 'v) \<Rightarrow> ('k, 'v) index_map" where
  "im_update [] k f = []"
| "im_update ((k', v') # m) k f =
     (if k' = k then (k', f v') # m else (k', v') # im_update m k f)"

text \<open>\<open>shift_remove\<close>: the other entries keep their order.\<close>

definition im_remove :: "('k, 'v) index_map \<Rightarrow> 'k \<Rightarrow> ('k, 'v) index_map" where
  "im_remove m k = filter (\<lambda>(k', _). k' \<noteq> k) m"

definition im_wf :: "('k, 'v) index_map \<Rightarrow> bool" where
  "im_wf m \<longleftrightarrow> distinct (map fst m)"

definition weight :: "('v \<Rightarrow> nat) \<Rightarrow> ('k, 'v) index_map \<Rightarrow> nat" where
  "weight f m = sum_list (map (\<lambda>(_, v). f v) m)"

section \<open>Keys and lookups\<close>

lemma im_wf_Nil [simp]: "im_wf []"
  by (simp add: im_wf_def)

lemma im_keys_update [simp]: "map fst (im_update m k f) = map fst m"
  by (induction m) auto

lemma length_im_update [simp]: "length (im_update m k f) = length m"
  by (metis im_keys_update length_map)

lemma im_wf_update [simp, invariant_intro]: "im_wf (im_update m k f) \<longleftrightarrow> im_wf m"
  by (simp add: im_wf_def)

lemma im_insert_keys:
  "map fst (im_insert m k v) = (if im_contains m k then map fst m else map fst m @ [k])"
  by (induction m) (force simp: im_contains_def)+

lemma length_im_insert:
  "length (im_insert m k v) = (if im_contains m k then length m else Suc (length m))"
  by (metis im_insert_keys length_append_singleton length_map)

lemma im_wf_insert [simp, invariant_intro]: "im_wf m \<Longrightarrow> im_wf (im_insert m k v)"
  by (auto simp: im_wf_def im_insert_keys im_contains_def)

lemma im_wf_tl [simp, invariant_intro]: "im_wf m \<Longrightarrow> im_wf (tl m)"
  by (cases m) (auto simp: im_wf_def)

lemma im_wf_remove [simp, invariant_intro]: "im_wf m \<Longrightarrow> im_wf (im_remove m k)"
  unfolding im_wf_def im_remove_def by (induction m) auto

lemma im_get_insert: "im_get (im_insert m k v) k' = (if k' = k then Some v else im_get m k')"
  by (induction m) (auto simp: im_get_def)

lemma im_get_update:
  "im_get (im_update m k f) k' = (if k' = k then map_option f (im_get m k) else im_get m k')"
  by (induction m) (auto simp: im_get_def)

lemma im_get_remove: "im_get (im_remove m k) k' = (if k' = k then None else im_get m k')"
  by (induction m) (auto simp: im_get_def im_remove_def)

lemma im_contains_get: "im_contains m k \<longleftrightarrow> im_get m k \<noteq> None"
  by (auto simp: im_contains_def im_get_def map_of_eq_None_iff)

lemma im_contains_insert: "im_contains (im_insert m k v) j \<longleftrightarrow> j = k \<or> im_contains m j"
  by (auto simp: im_contains_get im_get_insert)

lemma im_update_absent: "\<not> im_contains m k \<Longrightarrow> im_update m k f = m"
  by (induction m) (auto simp: im_contains_def)

lemma im_get_tl: "im_wf m \<Longrightarrow> im_get (tl m) k = (if m \<noteq> [] \<and> fst (hd m) = k then None else im_get m k)"
  by (cases m) (auto simp: im_wf_def im_get_def map_of_eq_None_iff)

section \<open>Weights\<close>

lemma weight_Nil [simp]: "weight f [] = 0"
  by (simp add: weight_def)

lemma weight_Cons [simp]: "weight f (kv # m) = f (snd kv) + weight f m"
  by (cases kv) (simp add: weight_def)

lemma weight_append [simp]: "weight f (m @ m') = weight f m + weight f m'"
  by (simp add: weight_def)

lemma weight_insert:
  "weight f (im_insert m k v) + (case im_get m k of None \<Rightarrow> 0 | Some w \<Rightarrow> f w) = weight f m + f v"
  by (induction m) (auto simp: im_get_def)

lemma weight_insert_le: "weight f (im_insert m k v) \<le> weight f m + f v"
  using weight_insert [of f m k v] by linarith

lemma weight_insert_new:
  "im_get m k = None \<Longrightarrow> weight f (im_insert m k v) = weight f m + f v"
  using weight_insert [of f m k v] by simp

lemma weight_update:
  "im_get m k = Some w \<Longrightarrow> weight f (im_update m k g) + f w = weight f m + f (g w)"
  by (induction m) (auto simp: im_get_def)

lemma weight_update_same:
  "(\<And>v. f (g v) = f v) \<Longrightarrow> weight f (im_update m k g) = weight f m"
  by (induction m) auto

lemma weight_tl: "m \<noteq> [] \<Longrightarrow> weight f (tl m) + f (snd (hd m)) = weight f m"
  by (cases m) auto

lemma weight_member: "im_get m k = Some v \<Longrightarrow> f v \<le> weight f m"
  by (induction m) (auto simp: im_get_def split: if_splits)

section \<open>The contract of an ordered store\<close>

text \<open>What the session store and the rule stores rely on: lookup laws, and that the
  iteration order changes only by appending new keys.\<close>

locale ordered_store =
  fixes look :: "'m \<Rightarrow> 'k \<Rightarrow> 'v option"
    and put :: "'m \<Rightarrow> 'k \<Rightarrow> 'v \<Rightarrow> 'm"
    and upd :: "'m \<Rightarrow> 'k \<Rightarrow> ('v \<Rightarrow> 'v) \<Rightarrow> 'm"
    and keys :: "'m \<Rightarrow> 'k list"
  assumes look_put: "look (put m k v) k' = (if k' = k then Some v else look m k')"
    and look_upd: "look (upd m k f) k' = (if k' = k then map_option f (look m k) else look m k')"
    and look_keys: "k \<in> set (keys m) \<longleftrightarrow> look m k \<noteq> None"
    and keys_put: "keys (put m k v) = (if look m k = None then keys m @ [k] else keys m)"
    and keys_upd: "keys (upd m k f) = keys m"
begin

lemma distinct_put: "distinct (keys m) \<Longrightarrow> distinct (keys (put m k v))"
  by (auto simp: keys_put look_keys)

lemma upd_after_put: "look (upd (put m k v) k f) k = Some (f v)"
  by (simp add: look_upd look_put)

lemma upd_absent: "look m k = None \<Longrightarrow> look (upd m k f) = look m"
  by (auto simp: look_upd fun_eq_iff)

lemma upd_other: "k' \<noteq> k \<Longrightarrow> look (upd m k f) k' = look m k'"
  by (simp add: look_upd)

lemma prefix_put: "prefix (keys m) (keys (put m k v))"
  by (auto simp: keys_put)

end

interpretation im: ordered_store im_get im_insert im_update "map fst"
  by unfold_locales
    (simp_all add: im_get_insert im_get_update im_insert_keys im_contains_get im_contains_def [symmetric])

end
