(* ===== verification/SessionStore.thy ===== *)
theory SessionStore
  imports Context IndexMap
begin

text \<open>
  \<open>session/mod.rs\<close>: the recorded exchanges, the operations of the single writer task on
  them, the retained-body budget, and the bounded queue in front of the writer.

  \<open>session_store\<close> is \<open>SessionStore\<close> together with the exchanges it locks; only the
  writer takes the write lock, so an operation is one state change. \<open>clock i\<close> is the
  result of the \<open>i\<close>-th read of the wall clock in an operation. A counter of body bytes
  held in memory is a \<open>nat\<close>. \<open>session_manager\<close> adds the channel: the queued
  operations, the count of dropped ones and the changes broadcast so far.
\<close>

record exchange =
  ex_id :: string
  ex_timestamp :: timestamp
  ex_updated_at :: "timestamp option"
  ex_request :: request_context
  ex_response :: "response_context option"
  ex_metrics :: "inspection_metrics option"
  ex_source :: session_source
  ex_ws_frames :: "ws_frame list"
  ex_events :: "session_event list"
  ex_flow :: "flow_event list"
  ex_note :: "string option"
  ex_tags :: "string list"
  ex_inspector_data :: "inspector_data option"
  ex_paused_at :: "timestamp option"
  ex_connection_id :: "string option"
  ex_stream_id :: "u64 option"
  ex_downstream_protocol :: "string option"
  ex_protocol_context :: "protocol_context option"

datatype change_kind =
  RequestCaptured | ResponseCaptured | SessionUpdated | SessionsImported | SessionsCleared
| WsFrameCaptured | SessionPaused

type_synonym session_change = "string option \<times> change_kind"

datatype write_op =
  WO_RecordRequest string request_context session_source
| WO_RecordResponse string response_context
| WO_RecordResponseWithMetrics string response_context inspection_metrics
| WO_AppendWsFrame string ws_frame
| WO_AppendEvent string session_event
| WO_Annotate string "string option" "string list option"
| WO_ImportSessions "exchange list"
| WO_ClearSessions
| WO_UpdateInspectorData string inspector_data
| WO_MarkPaused string
| WO_ClearPaused string
| WO_LoadData "(string, exchange) index_map"
| WO_Flush

type_synonym exchanges = "(string, exchange) index_map"

record session_store =
  st_exchanges :: exchanges
  st_max_sessions :: nat
  st_max_retained_body_bytes :: nat
  st_body_bytes :: nat

section \<open>Retained bytes\<close>

definition exchange_body_size :: "exchange \<Rightarrow> nat" where
  "exchange_body_size x =
     length (rq_body (ex_request x))
     + (case ex_response x of None \<Rightarrow> 0 | Some r \<Rightarrow> length (rs_body r))
     + sum_list (map frame_retained_size (ex_ws_frames x))
     + sum_list (map retained_body_size (ex_events x))"

definition clear_exchange_bodies :: "exchange \<Rightarrow> exchange" where
  "clear_exchange_bodies x = x\<lparr>
     ex_request := (ex_request x)\<lparr>rq_body := []\<rparr>,
     ex_response := map_option (\<lambda>r. r\<lparr>rs_body := []\<rparr>) (ex_response x),
     ex_ws_frames := map clear_frame (ex_ws_frames x),
     ex_events := map clear_retained_body (ex_events x)\<rparr>"

text \<open>The loop over the exchanges, oldest first: it breaks once the budget holds and skips
  an exchange that retains nothing. The counter subtraction saturates.\<close>

fun enforce_budget :: "exchanges \<Rightarrow> nat \<Rightarrow> nat \<Rightarrow> exchanges \<times> nat" where
  "enforce_budget [] cap body_bytes = ([], body_bytes)"
| "enforce_budget ((k, x) # xs) cap body_bytes =
     (if body_bytes \<le> cap then ((k, x) # xs, body_bytes)
      else let freed = exchange_body_size x
           in if freed = 0 then
                (let (ys, b) = enforce_budget xs cap body_bytes in ((k, x) # ys, b))
              else
                (let (ys, b) = enforce_budget xs cap (body_bytes - freed)
                 in ((k, clear_exchange_bodies x) # ys, b)))"

definition enforce_body_budget :: "session_store \<Rightarrow> session_store" where
  "enforce_body_budget s =
     (if st_max_retained_body_bytes s \<noteq> usize_max \<and> st_body_bytes s > st_max_retained_body_bytes s
      then let (xs, b) = enforce_budget (st_exchanges s) (st_max_retained_body_bytes s) (st_body_bytes s)
           in s\<lparr>st_exchanges := xs, st_body_bytes := b\<rparr>
      else s)"

definition evict_session_if_full :: "session_store \<Rightarrow> string \<Rightarrow> session_store" where
  "evict_session_if_full s incoming_id =
     (if length (st_exchanges s) \<ge> st_max_sessions s \<and> \<not> im_contains (st_exchanges s) incoming_id
      then case st_exchanges s of
             [] \<Rightarrow> s
           | (_, evicted) # rest \<Rightarrow>
               s\<lparr>st_exchanges := rest,
                 st_body_bytes := st_body_bytes s - exchange_body_size evicted\<rparr>
      else s)"

section \<open>Operations of the store\<close>

type_synonym clock = "nat \<Rightarrow> timestamp"

definition new_exchange ::
    "string \<Rightarrow> request_context \<Rightarrow> session_source \<Rightarrow> timestamp \<Rightarrow> exchange" where
  "new_exchange i request src now =
     \<lparr>ex_id = i, ex_timestamp = now, ex_updated_at = None, ex_request = request,
      ex_response = None, ex_metrics = None, ex_source = src, ex_ws_frames = [],
      ex_events = [], ex_flow = rq_flow request, ex_note = None, ex_tags = [],
      ex_inspector_data = None, ex_paused_at = None, ex_connection_id = rq_connection_id request,
      ex_stream_id = rq_stream_id request, ex_downstream_protocol = rq_downstream_protocol request,
      ex_protocol_context = rq_protocol_context request\<rparr>"

definition ss_record_request ::
    "clock \<Rightarrow> session_store \<Rightarrow> string \<Rightarrow> request_context \<Rightarrow> session_source \<Rightarrow> session_store" where
  "ss_record_request clock s i request src =
     (let s1 = evict_session_if_full s i;
          s2 = s1\<lparr>st_body_bytes := st_body_bytes s1 + length (rq_body request),
                  st_exchanges := im_insert (st_exchanges s1) i (new_exchange i request src (clock 0))\<rparr>
      in enforce_body_budget s2)"

definition attach_response ::
    "response_context \<Rightarrow> inspection_metrics option \<Rightarrow> timestamp \<Rightarrow> exchange \<Rightarrow> exchange" where
  "attach_response response metrics now x =
     x\<lparr>ex_flow := ex_flow x @ rs_flow response,
       ex_response := Some response,
       ex_metrics := (case metrics of Some m \<Rightarrow> Some m | None \<Rightarrow> ex_metrics x),
       ex_updated_at := Some now\<rparr>"

definition ss_record_response ::
    "clock \<Rightarrow> session_store \<Rightarrow> string \<Rightarrow> response_context \<Rightarrow> inspection_metrics option \<Rightarrow>
     session_store" where
  "ss_record_response clock s i response metrics =
     (case im_get (st_exchanges s) i of
        Some x \<Rightarrow>
          if ex_response x \<noteq> None then s
          else enforce_body_budget
            (s\<lparr>st_exchanges := im_update (st_exchanges s) i (attach_response response metrics (clock 0)),
               st_body_bytes := st_body_bytes s + length (rs_body response)\<rparr>)
      | None \<Rightarrow> enforce_body_budget s)"

definition push_ws_frame :: "ws_frame \<Rightarrow> exchange \<Rightarrow> exchange" where
  "push_ws_frame frame x = x\<lparr>ex_events := ex_events x @ [Ev_WsFrame frame],
                             ex_ws_frames := ex_ws_frames x @ [frame]\<rparr>"

definition ss_append_ws_frame :: "session_store \<Rightarrow> string \<Rightarrow> ws_frame \<Rightarrow> session_store" where
  "ss_append_ws_frame s i frame =
     (let added = min usize_max (2 * frame_retained_size frame)
      in enforce_body_budget
           (if im_contains (st_exchanges s) i
            then s\<lparr>st_exchanges := im_update (st_exchanges s) i (push_ws_frame frame),
                   st_body_bytes := st_body_bytes s + added\<rparr>
            else s))"

definition push_event :: "session_event \<Rightarrow> timestamp \<Rightarrow> exchange \<Rightarrow> exchange" where
  "push_event event now x = x\<lparr>ex_events := ex_events x @ [event], ex_updated_at := Some now\<rparr>"

definition ss_append_event :: "clock \<Rightarrow> session_store \<Rightarrow> string \<Rightarrow> session_event \<Rightarrow> session_store" where
  "ss_append_event clock s i event =
     enforce_body_budget
       (if im_contains (st_exchanges s) i
        then s\<lparr>st_exchanges := im_update (st_exchanges s) i (push_event event (clock 0)),
               st_body_bytes := st_body_bytes s + retained_body_size event\<rparr>
        else s)"

definition annotate_exchange ::
    "string option \<Rightarrow> string list option \<Rightarrow> timestamp \<Rightarrow> exchange \<Rightarrow> exchange" where
  "annotate_exchange note tags now x =
     x\<lparr>ex_note := (case note of Some n \<Rightarrow> if n \<noteq> [] then Some n else None | None \<Rightarrow> ex_note x),
       ex_tags := (case tags of Some t \<Rightarrow> t | None \<Rightarrow> ex_tags x),
       ex_updated_at := Some now\<rparr>"

definition ss_annotate ::
    "clock \<Rightarrow> session_store \<Rightarrow> string \<Rightarrow> string option \<Rightarrow> string list option \<Rightarrow> bool \<times> session_store" where
  "ss_annotate clock s i note tags =
     (if im_contains (st_exchanges s) i
      then (True, s\<lparr>st_exchanges := im_update (st_exchanges s) i (annotate_exchange note tags (clock 0))\<rparr>)
      else (False, s))"

fun import_loop :: "session_store \<Rightarrow> exchange list \<Rightarrow> session_store" where
  "import_loop s [] = s"
| "import_loop s (x # xs) =
     (let s1 = evict_session_if_full s (ex_id x)
      in import_loop
           (s1\<lparr>st_body_bytes := st_body_bytes s1 + exchange_body_size x,
               st_exchanges := im_insert (st_exchanges s1) (ex_id x) x\<rparr>) xs)"

definition ss_import :: "session_store \<Rightarrow> exchange list \<Rightarrow> session_store" where
  "ss_import s xs = enforce_body_budget (import_loop s xs)"

definition ss_clear :: "session_store \<Rightarrow> session_store" where
  "ss_clear s = s\<lparr>st_exchanges := [], st_body_bytes := 0\<rparr>"

definition ss_update_inspector_data :: "session_store \<Rightarrow> string \<Rightarrow> inspector_data \<Rightarrow> session_store" where
  "ss_update_inspector_data s i data =
     s\<lparr>st_exchanges := im_update (st_exchanges s) i (\<lambda>x. x\<lparr>ex_inspector_data := Some data\<rparr>)\<rparr>"

definition ss_set_paused :: "clock \<Rightarrow> session_store \<Rightarrow> string \<Rightarrow> bool \<Rightarrow> session_store" where
  "ss_set_paused clock s i paused =
     s\<lparr>st_exchanges := im_update (st_exchanges s) i
        (\<lambda>x. x\<lparr>ex_paused_at := (if paused then Some (clock 0) else None),
               ex_updated_at := Some (clock (if paused then 1 else 0))\<rparr>)\<rparr>"

definition ss_replace :: "session_store \<Rightarrow> exchanges \<Rightarrow> session_store" where
  "ss_replace s m =
     enforce_body_budget (s\<lparr>st_body_bytes := weight exchange_body_size m, st_exchanges := m\<rparr>)"

section \<open>The writer task\<close>

datatype write_reply = NoReply | Found bool | Done

definition process_write_op ::
    "clock \<Rightarrow> write_op \<Rightarrow> session_store \<Rightarrow> session_store \<times> session_change list \<times> write_reply" where
  "process_write_op clock op s = (case op of
     WO_RecordRequest i request src \<Rightarrow>
       (ss_record_request clock s i request src, [(Some i, RequestCaptured)], NoReply)
   | WO_RecordResponse i response \<Rightarrow>
       (ss_record_response clock s i response None, [(Some i, ResponseCaptured)], NoReply)
   | WO_RecordResponseWithMetrics i response metrics \<Rightarrow>
       (ss_record_response clock s i response (Some metrics), [(Some i, ResponseCaptured)], NoReply)
   | WO_AppendWsFrame i frame \<Rightarrow>
       (ss_append_ws_frame s i frame, [(Some i, WsFrameCaptured)], NoReply)
   | WO_AppendEvent i event \<Rightarrow>
       (ss_append_event clock s i event, [(Some i, SessionUpdated)], NoReply)
   | WO_Annotate i note tags \<Rightarrow>
       (let (found, s') = ss_annotate clock s i note tags
        in (s', if found then [(Some i, SessionUpdated)] else [], Found found))
   | WO_ImportSessions xs \<Rightarrow> (ss_import s xs, [(None, SessionsImported)], NoReply)
   | WO_ClearSessions \<Rightarrow> (ss_clear s, [(None, SessionsCleared)], NoReply)
   | WO_UpdateInspectorData i data \<Rightarrow> (ss_update_inspector_data s i data, [], NoReply)
   | WO_MarkPaused i \<Rightarrow> (ss_set_paused clock s i True, [(Some i, SessionPaused)], NoReply)
   | WO_ClearPaused i \<Rightarrow> (ss_set_paused clock s i False, [(Some i, SessionUpdated)], NoReply)
   | WO_LoadData m \<Rightarrow> (ss_replace s m, [(None, SessionsImported)], Done)
   | WO_Flush \<Rightarrow> (s, [], Done))"

definition WRITE_QUEUE_CAPACITY :: nat where
  "WRITE_QUEUE_CAPACITY = 8192"

record session_manager =
  sm_store :: session_store
  sm_queue :: "write_op list"
  sm_dropped_writes :: u64
  sm_changes :: "session_change list"

definition with_body_budget :: "nat \<Rightarrow> nat \<Rightarrow> session_manager" where
  "with_body_budget max_sessions max_retained_body_bytes =
     \<lparr>sm_store = \<lparr>st_exchanges = [], st_max_sessions = max_sessions,
        st_max_retained_body_bytes = max_retained_body_bytes, st_body_bytes = 0\<rparr>,
      sm_queue = [], sm_dropped_writes = 0, sm_changes = []\<rparr>"

text \<open>\<open>try_send\<close> on the channel, whose writer task lives as long as the manager: a full
  queue drops the operation and counts it.\<close>

definition enqueue :: "session_manager \<Rightarrow> write_op \<Rightarrow> session_manager" where
  "enqueue m op =
     (if length (sm_queue m) < WRITE_QUEUE_CAPACITY
      then m\<lparr>sm_queue := sm_queue m @ [op]\<rparr>
      else m\<lparr>sm_dropped_writes := sm_dropped_writes m + 1\<rparr>)"

text \<open>One iteration of \<open>writer_task\<close>.\<close>

definition writer_iteration :: "clock \<Rightarrow> session_manager \<Rightarrow> session_manager option" where
  "writer_iteration clock m = (case sm_queue m of
     [] \<Rightarrow> None
   | op # ops \<Rightarrow>
       (case process_write_op clock op (sm_store m) of
          (s', changes, _) \<Rightarrow> Some (m\<lparr>sm_store := s', sm_queue := ops,
                                      sm_changes := sm_changes m @ changes\<rparr>)))"

definition get_session :: "session_store \<Rightarrow> string \<Rightarrow> exchange option" where
  "get_session s i = im_get (st_exchanges s) i"

definition get_all_sessions :: "session_store \<Rightarrow> exchange list" where
  "get_all_sessions s = map snd (st_exchanges s)"

section \<open>The budget loop\<close>

abbreviation retained :: "exchanges \<Rightarrow> nat" where
  "retained \<equiv> weight exchange_body_size"

lemma sum_list_map_zero: "(\<And>x. f x = (0 :: nat)) \<Longrightarrow> sum_list (map f xs) = 0"
  by (induction xs) auto

lemma body_size_cleared [simp]: "exchange_body_size (clear_exchange_bodies x) = 0"
  by (simp add: exchange_body_size_def clear_exchange_bodies_def comp_def sum_list_map_zero
      split: option.split)

definition same_but_bodies :: "exchange \<Rightarrow> exchange \<Rightarrow> bool" where
  "same_but_bodies x y \<longleftrightarrow> y = x \<or> y = clear_exchange_bodies x"

lemma same_but_bodies_refl [simp]: "same_but_bodies x x"
  by (simp add: same_but_bodies_def)

lemma enforce_budget_keys: "map fst (fst (enforce_budget xs cap b)) = map fst xs"
  by (induction xs cap b rule: enforce_budget.induct) (auto simp: Let_def split_beta)

lemma enforce_budget_bound:
  "retained xs \<le> b \<Longrightarrow>
   retained (fst (enforce_budget xs cap b)) \<le> snd (enforce_budget xs cap b)
   \<and> (snd (enforce_budget xs cap b) \<le> cap \<or> retained (fst (enforce_budget xs cap b)) = 0)"
  by (induction xs cap b rule: enforce_budget.induct) (auto simp: Let_def split_beta)

lemma enforce_budget_exact:
  "retained xs = b \<Longrightarrow>
   retained (fst (enforce_budget xs cap b)) = snd (enforce_budget xs cap b)"
  by (induction xs cap b rule: enforce_budget.induct) (auto simp: Let_def split_beta)

lemma enforce_budget_get:
  "im_get (fst (enforce_budget xs cap b)) i = Some y \<Longrightarrow>
   \<exists>x. im_get xs i = Some x \<and> same_but_bodies x y"
  by (induction xs cap b rule: enforce_budget.induct)
    (auto simp: Let_def split_beta im_get_def same_but_bodies_def split: if_splits)

lemma enforce_budget_get_some:
  "im_get (fst (enforce_budget xs cap b)) i = None \<longleftrightarrow> im_get xs i = None"
  using enforce_budget_keys [of xs cap b]
  by (metis im_get_def map_of_eq_None_iff list.set_map)

text \<open>Bodies are given up oldest first: the loop clears the shortest prefix that brings the
  counter under the budget, or everything.\<close>

definition cleared :: "exchanges \<Rightarrow> exchanges" where
  "cleared xs = map (\<lambda>(k, x). (k, if exchange_body_size x = 0 then x else clear_exchange_bodies x)) xs"

lemma cleared_simps [simp]:
  "cleared [] = []"
  "cleared ((k, x) # xs) =
     (k, if exchange_body_size x = 0 then x else clear_exchange_bodies x) # cleared xs"
  by (simp_all add: cleared_def)

lemma enforce_budget_prefix:
  "\<exists>n \<le> length xs. enforce_budget xs cap b = (cleared (take n xs) @ drop n xs, b - retained (take n xs))
     \<and> (\<forall>m < n. cap < b - retained (take m xs))
     \<and> (n = length xs \<or> b - retained (take n xs) \<le> cap)"
proof (induction xs cap b rule: enforce_budget.induct)
  case (2 k x xs cap b)
  show ?case
  proof (cases "b \<le> cap")
    case True
    then show ?thesis by (intro exI [of _ 0]) simp
  next
    case False
    let ?b = "b - exchange_body_size x"
    obtain n where n: "n \<le> length xs"
      "enforce_budget xs cap ?b = (cleared (take n xs) @ drop n xs, ?b - retained (take n xs))"
      "\<forall>m < n. cap < ?b - retained (take m xs)" "n = length xs \<or> ?b - retained (take n xs) \<le> cap"
      using 2 [OF False refl] by (cases "exchange_body_size x = 0") auto
    have "\<forall>m < Suc n. cap < b - retained (take m ((k, x) # xs))"
      using n(3) False by (auto simp: less_Suc_eq_0_disj)
    with n False show ?thesis
      by (intro exI [of _ "Suc n"]) (auto simp: Let_def split_beta)
  qed
qed simp

section \<open>The invariant of the store\<close>

text \<open>Ids are unique, the byte counter never falls below the bytes really retained, and the
  retained bytes respect the configured budget.\<close>

definition within_budget :: "session_store \<Rightarrow> bool" where
  "within_budget s \<longleftrightarrow> st_max_retained_body_bytes s \<noteq> usize_max \<longrightarrow>
     retained (st_exchanges s) \<le> st_max_retained_body_bytes s"

definition accounted :: "session_store \<Rightarrow> bool" where
  "accounted s \<longleftrightarrow> im_wf (st_exchanges s) \<and> retained (st_exchanges s) \<le> st_body_bytes s"

definition store_ok :: "session_store \<Rightarrow> bool" where
  "store_ok s \<longleftrightarrow> accounted s \<and> within_budget s"

lemma enforce_body_budget_ok [simp, invariant_intro]:
  "accounted s \<Longrightarrow> store_ok (enforce_body_budget s)"
  using enforce_budget_bound [of "st_exchanges s" "st_body_bytes s" "st_max_retained_body_bytes s"]
    enforce_budget_keys [of "st_exchanges s" "st_max_retained_body_bytes s" "st_body_bytes s"]
  by (auto simp: store_ok_def accounted_def within_budget_def enforce_body_budget_def im_wf_def
      split_beta Let_def)

lemma enforce_body_budget_config [simp]:
  "st_max_sessions (enforce_body_budget s) = st_max_sessions s"
  "st_max_retained_body_bytes (enforce_body_budget s) = st_max_retained_body_bytes s"
  "map fst (st_exchanges (enforce_body_budget s)) = map fst (st_exchanges s)"
  by (simp_all add: enforce_body_budget_def split_beta Let_def enforce_budget_keys)

lemma enforce_body_budget_contains [simp]:
  "im_contains (st_exchanges (enforce_body_budget s)) i = im_contains (st_exchanges s) i"
  unfolding im_contains_def list.set_map [symmetric] by simp

lemma enforce_body_budget_length [simp]:
  "length (st_exchanges (enforce_body_budget s)) = length (st_exchanges s)"
  using enforce_body_budget_config(3) [of s] by (metis length_map)

lemma enforce_body_budget_get:
  "im_get (st_exchanges (enforce_body_budget s)) i = Some y \<Longrightarrow>
   \<exists>x. im_get (st_exchanges s) i = Some x \<and> same_but_bodies x y"
  by (auto simp: enforce_body_budget_def split_beta Let_def dest: enforce_budget_get split: if_splits)

lemma evict_eq:
  "evict_session_if_full s i =
     (if length (st_exchanges s) \<ge> st_max_sessions s \<and> \<not> im_contains (st_exchanges s) i
         \<and> st_exchanges s \<noteq> []
      then s\<lparr>st_exchanges := tl (st_exchanges s),
             st_body_bytes := st_body_bytes s - exchange_body_size (snd (hd (st_exchanges s)))\<rparr>
      else s)"
  by (auto simp: evict_session_if_full_def split: list.splits)

lemma evict_accounted [simp, invariant_intro]:
  "accounted s \<Longrightarrow> accounted (evict_session_if_full s i)"
  using weight_tl [of "st_exchanges s" exchange_body_size]
  by (auto simp: evict_eq accounted_def)

lemma evict_config [simp]:
  "st_max_sessions (evict_session_if_full s i) = st_max_sessions s"
  "st_max_retained_body_bytes (evict_session_if_full s i) = st_max_retained_body_bytes s"
  by (auto simp: evict_eq)

lemma accounted_insert:
  "accounted s \<Longrightarrow>
   accounted (s\<lparr>st_body_bytes := st_body_bytes s + exchange_body_size x,
                st_exchanges := im_insert (st_exchanges s) i x\<rparr>)"
  using weight_insert_le [of exchange_body_size "st_exchanges s" i x]
  by (auto simp: accounted_def)

lemma accounted_update:
  assumes "accounted s" and "im_get (st_exchanges s) i = Some x"
    and "exchange_body_size (f x) \<le> exchange_body_size x + n"
  shows "accounted (s\<lparr>st_exchanges := im_update (st_exchanges s) i f,
                      st_body_bytes := st_body_bytes s + n\<rparr>)"
  using assms weight_update [OF assms(2), of exchange_body_size f]
  by (auto simp: accounted_def)

lemma store_ok_update_same:
  assumes "store_ok s" and "\<And>x. exchange_body_size (f x) = exchange_body_size x"
  shows "store_ok (s\<lparr>st_exchanges := im_update (st_exchanges s) i f\<rparr>)"
  using assms by (simp add: store_ok_def accounted_def within_budget_def weight_update_same)

text \<open>How each field update changes the retained bytes.\<close>

lemma new_exchange_size [simp]: "exchange_body_size (new_exchange i r src now) = length (rq_body r)"
  by (simp add: exchange_body_size_def new_exchange_def)

lemma attach_response_size:
  "ex_response x = None \<Longrightarrow>
   exchange_body_size (attach_response r m now x) = exchange_body_size x + length (rs_body r)"
  by (simp add: exchange_body_size_def attach_response_def)

lemma push_ws_frame_size:
  "exchange_body_size (push_ws_frame f x) = exchange_body_size x + 2 * frame_retained_size f"
  by (simp add: exchange_body_size_def push_ws_frame_def)

lemma push_event_size:
  "exchange_body_size (push_event e now x) = exchange_body_size x + retained_body_size e"
  by (simp add: exchange_body_size_def push_event_def)

lemma annotate_size [simp]: "exchange_body_size (annotate_exchange n t now x) = exchange_body_size x"
  by (simp add: exchange_body_size_def annotate_exchange_def)

lemma store_ok_accounted: "store_ok s \<Longrightarrow> accounted s"
  by (simp add: store_ok_def)

lemma store_ok_enforce [simp]: "store_ok s \<Longrightarrow> store_ok (enforce_body_budget s)"
  by (simp add: store_ok_accounted)

text \<open>A frame is held in memory, so its text and hex forms are far below half the address
  space; the doubled count then does not saturate.\<close>

fun op_ok :: "write_op \<Rightarrow> bool" where
  "op_ok (WO_AppendWsFrame i f) \<longleftrightarrow> 2 * frame_retained_size f \<le> usize_max"
| "op_ok (WO_LoadData m) \<longleftrightarrow> im_wf m"
| "op_ok _ \<longleftrightarrow> True"

lemma ss_record_request_ok [invariant_intro]:
  "accounted s \<Longrightarrow> store_ok (ss_record_request clock s i r src)"
  using accounted_insert [of "evict_session_if_full s i" i "new_exchange i r src (clock 0)"]
  by (simp add: ss_record_request_def Let_def)

lemma ss_record_response_ok [invariant_intro]:
  assumes "store_ok s" shows "store_ok (ss_record_response clock s i r m)"
proof (cases "im_get (st_exchanges s) i")
  case None
  with assms show ?thesis by (simp add: ss_record_response_def)
next
  case (Some x)
  show ?thesis
  proof (cases "ex_response x")
    case None
    have "accounted s" using assms by (simp add: store_ok_def)
    from accounted_update [OF this Some, of "attach_response r m (clock 0)" "length (rs_body r)"]
    show ?thesis using Some None by (simp add: ss_record_response_def attach_response_size)
  qed (use assms Some in \<open>simp add: ss_record_response_def\<close>)
qed

lemma ss_append_ws_frame_ok [invariant_intro]:
  assumes "store_ok s" and "2 * frame_retained_size f \<le> usize_max"
  shows "store_ok (ss_append_ws_frame s i f)"
proof (cases "im_get (st_exchanges s) i")
  case (Some x)
  have "accounted s" using assms(1) by (simp add: store_ok_def)
  from accounted_update [OF this Some, of "push_ws_frame f" "2 * frame_retained_size f"]
  show ?thesis using Some assms(2)
    by (simp add: ss_append_ws_frame_def Let_def im_contains_get push_ws_frame_size min_absorb2)
qed (use assms in \<open>simp add: ss_append_ws_frame_def im_contains_get Let_def\<close>)

lemma ss_append_event_ok [invariant_intro]:
  assumes "store_ok s"
  shows "store_ok (ss_append_event clock s i e)"
proof (cases "im_get (st_exchanges s) i")
  case (Some x)
  have "accounted s" using assms by (simp add: store_ok_def)
  from accounted_update [OF this Some, of "push_event e (clock 0)" "retained_body_size e"]
  show ?thesis using Some by (simp add: ss_append_event_def im_contains_get push_event_size)
qed (use assms in \<open>simp add: ss_append_event_def im_contains_get\<close>)

lemma ss_annotate_ok [invariant_intro]:
  "store_ok s \<Longrightarrow> store_ok (snd (ss_annotate clock s i n t))"
  by (simp add: ss_annotate_def store_ok_update_same)

lemma import_loop_accounted: "accounted s \<Longrightarrow> accounted (import_loop s xs)"
  by (induction s xs rule: import_loop.induct) (simp add: Let_def accounted_insert)+

lemma ss_import_ok [invariant_intro]: "accounted s \<Longrightarrow> store_ok (ss_import s xs)"
  by (simp add: ss_import_def import_loop_accounted)

lemma ss_clear_ok [invariant_intro]: "store_ok (ss_clear s)"
  by (simp add: ss_clear_def store_ok_def accounted_def within_budget_def)

lemma ss_update_inspector_ok [invariant_intro]:
  "store_ok s \<Longrightarrow> store_ok (ss_update_inspector_data s i d)"
  by (simp add: ss_update_inspector_data_def store_ok_update_same exchange_body_size_def)

lemma ss_set_paused_ok [invariant_intro]: "store_ok s \<Longrightarrow> store_ok (ss_set_paused clock s i p)"
  by (simp add: ss_set_paused_def store_ok_update_same exchange_body_size_def)

lemma ss_replace_ok [invariant_intro]: "im_wf m \<Longrightarrow> store_ok (ss_replace s m)"
  by (simp add: ss_replace_def accounted_def)

lemmas store_op_ok = ss_record_request_ok ss_record_response_ok ss_append_ws_frame_ok
  ss_append_event_ok ss_annotate_ok ss_import_ok ss_clear_ok ss_update_inspector_ok
  ss_set_paused_ok ss_replace_ok

lemma process_write_op_ok [invariant_intro]:
  "store_ok s \<Longrightarrow> op_ok op \<Longrightarrow> store_ok (fst (process_write_op clock op s))"
  by (cases op) (simp_all add: process_write_op_def split_beta store_op_ok store_ok_accounted)

section \<open>The number of sessions\<close>

definition capped :: "session_store \<Rightarrow> bool" where
  "capped s \<longleftrightarrow> length (st_exchanges s) \<le> max 1 (st_max_sessions s)"

lemma evict_room:
  "capped s \<Longrightarrow> \<not> im_contains (st_exchanges (evict_session_if_full s i)) i \<Longrightarrow>
   Suc (length (st_exchanges (evict_session_if_full s i))) \<le> max 1 (st_max_sessions s)"
  by (cases "st_exchanges s") (auto simp: evict_eq capped_def)

lemma evict_capped: "capped s \<Longrightarrow> capped (evict_session_if_full s i)"
  by (auto simp: evict_eq capped_def)

lemma capped_insert:
  "capped s \<Longrightarrow>
   capped ((evict_session_if_full s i)\<lparr>st_body_bytes := b,
     st_exchanges := im_insert (st_exchanges (evict_session_if_full s i)) i x\<rparr>)"
  using evict_room [of s i] evict_capped [of s i] by (auto simp: capped_def length_im_insert)

lemma import_loop_capped: "capped s \<Longrightarrow> capped (import_loop s xs)"
  by (induction s xs rule: import_loop.induct) (simp_all add: Let_def capped_insert)

lemma enforce_capped [simp]: "capped (enforce_body_budget s) = capped s"
  by (simp add: capped_def)

fun not_load :: "write_op \<Rightarrow> bool" where
  "not_load (WO_LoadData m) \<longleftrightarrow> False"
| "not_load _ \<longleftrightarrow> True"

lemma record_request_capped: "capped s \<Longrightarrow> capped (ss_record_request clock s i r src)"
  using capped_insert [of s i] by (simp add: ss_record_request_def Let_def)

lemma record_response_capped: "capped s \<Longrightarrow> capped (ss_record_response clock s i r m)"
  by (simp add: ss_record_response_def split: option.split) (simp add: capped_def)

lemma process_capped:
  "capped s \<Longrightarrow> not_load op \<Longrightarrow> capped (fst (process_write_op clock op s))"
  by (cases op) (simp_all add: process_write_op_def split_beta record_request_capped
      record_response_capped ss_import_def import_loop_capped,
      simp_all add: capped_def ss_append_ws_frame_def ss_append_event_def ss_annotate_def
      ss_clear_def ss_update_inspector_data_def ss_set_paused_def Let_def)

lemma process_config [simp]:
  "st_max_sessions (fst (process_write_op clock op s)) = st_max_sessions s"
  "st_max_retained_body_bytes (fst (process_write_op clock op s)) = st_max_retained_body_bytes s"
proof -
  have "st_max_sessions (import_loop s xs) = st_max_sessions s
      \<and> st_max_retained_body_bytes (import_loop s xs) = st_max_retained_body_bytes s" for xs
    by (induction s xs rule: import_loop.induct) (simp_all add: Let_def)
  note this [simp]
  show "st_max_sessions (fst (process_write_op clock op s)) = st_max_sessions s"
    "st_max_retained_body_bytes (fst (process_write_op clock op s)) = st_max_retained_body_bytes s"
    by (cases op; simp add: process_write_op_def split_beta ss_record_request_def
      ss_record_response_def ss_append_ws_frame_def ss_append_event_def ss_annotate_def
      ss_import_def ss_clear_def ss_update_inspector_data_def ss_set_paused_def ss_replace_def
      Let_def split: option.split)+
qed

section \<open>Runs of the writer\<close>

text \<open>An invariant that every operation of a class preserves holds after any sequence of
  them.\<close>

locale writer_invariant =
  fixes I :: "session_store \<Rightarrow> bool" and allowed :: "write_op \<Rightarrow> bool"
  assumes op_preserves: "I s \<Longrightarrow> allowed op \<Longrightarrow> I (fst (process_write_op clock op s))"
begin

lemma run_preserves:
  "I s \<Longrightarrow> \<forall>(c, op) \<in> set ops. allowed op \<Longrightarrow>
   I (foldl (\<lambda>s (c, op). fst (process_write_op c op s)) s ops)"
  by (induction ops arbitrary: s) (auto simp: op_preserves)

end

interpretation writer_ok: writer_invariant store_ok op_ok
  by unfold_locales (rule process_write_op_ok)

interpretation writer_capped: writer_invariant capped not_load
  by unfold_locales (rule process_capped)

definition apply_ops :: "session_store \<Rightarrow> (clock \<times> write_op) list \<Rightarrow> session_store" where
  "apply_ops s ops = foldl (\<lambda>s (c, op). fst (process_write_op c op s)) s ops"

text \<open>The manager as a transition system. The first list logs the operations the writer has
  processed and the second the ones the queue accepted, in order.\<close>

inductive sm_reach ::
    "nat \<Rightarrow> nat \<Rightarrow> session_manager \<Rightarrow> (clock \<times> write_op) list \<Rightarrow> write_op list \<Rightarrow> bool"
  for cap budget where
  start: "sm_reach cap budget (with_body_budget cap budget) [] []"
| accept: "sm_reach cap budget m log acc \<Longrightarrow> length (sm_queue m) < WRITE_QUEUE_CAPACITY \<Longrightarrow>
     sm_reach cap budget (enqueue m op) log (acc @ [op])"
| drop: "sm_reach cap budget m log acc \<Longrightarrow> \<not> length (sm_queue m) < WRITE_QUEUE_CAPACITY \<Longrightarrow>
     sm_reach cap budget (enqueue m op) log acc"
| turn: "sm_reach cap budget m log acc \<Longrightarrow> writer_iteration clock m = Some m' \<Longrightarrow>
     sm_reach cap budget m' (log @ [(clock, hd (sm_queue m))]) acc"

inductive_cases sm_reach_startE: "sm_reach cap budget m [] acc"

lemma writer_iteration_Some:
  "writer_iteration clock m = Some m' \<longleftrightarrow>
   (\<exists>op ops. sm_queue m = op # ops \<and>
      m' = m\<lparr>sm_store := fst (process_write_op clock op (sm_store m)), sm_queue := ops,
             sm_changes := sm_changes m @ fst (snd (process_write_op clock op (sm_store m)))\<rparr>)"
  by (auto simp: writer_iteration_def split: list.splits prod.splits)

lemma sm_reach_facts:
  "sm_reach cap budget m log acc \<Longrightarrow>
   acc = map snd log @ sm_queue m \<and> length (sm_queue m) \<le> WRITE_QUEUE_CAPACITY \<and>
   sm_store m = apply_ops (sm_store (with_body_budget cap budget)) log"
proof (induction rule: sm_reach.induct)
  case (turn m log acc clock m')
  from turn.hyps(2) obtain op ops where "sm_queue m = op # ops"
    "m' = m\<lparr>sm_store := fst (process_write_op clock op (sm_store m)), sm_queue := ops,
             sm_changes := sm_changes m @ fst (snd (process_write_op clock op (sm_store m)))\<rparr>"
    by (auto simp: writer_iteration_Some)
  with turn.IH show ?case by (simp add: apply_ops_def)
qed (auto simp: enqueue_def apply_ops_def with_body_budget_def WRITE_QUEUE_CAPACITY_def)

lemma with_body_budget_ok [simp]: "store_ok (sm_store (with_body_budget cap budget))"
  by (simp add: with_body_budget_def store_ok_def accounted_def within_budget_def)

lemma with_body_budget_capped [simp]: "capped (sm_store (with_body_budget cap budget))"
  by (simp add: with_body_budget_def capped_def)

lemma apply_ops_config [simp]:
  "st_max_sessions (apply_ops s ops) = st_max_sessions s"
  "st_max_retained_body_bytes (apply_ops s ops) = st_max_retained_body_bytes s"
  unfolding apply_ops_def by (induction ops arbitrary: s) (auto simp: split_beta)

lemma evict_get:
  "im_wf (st_exchanges s) \<Longrightarrow> im_get (st_exchanges (evict_session_if_full s i)) j =
     (if (st_max_sessions s \<le> length (st_exchanges s) \<and> im_get (st_exchanges s) i = None
          \<and> st_exchanges s \<noteq> []) \<and> fst (hd (st_exchanges s)) = j
      then None else im_get (st_exchanges s) j)"
  by (simp add: evict_eq im_get_tl im_contains_get)

section \<open>A recorded response stays\<close>

definition carries :: "response_context \<Rightarrow> exchange \<Rightarrow> bool" where
  "carries r x \<longleftrightarrow> ex_response x = Some r \<or> ex_response x = Some (r\<lparr>rs_body := []\<rparr>)"

definition keeps_response :: "string \<Rightarrow> response_context \<Rightarrow> session_store \<Rightarrow> bool" where
  "keeps_response i r s \<longleftrightarrow> im_wf (st_exchanges s) \<and>
     (\<forall>x. im_get (st_exchanges s) i = Some x \<longrightarrow> carries r x)"

fun replaces :: "string \<Rightarrow> write_op \<Rightarrow> bool" where
  "replaces i (WO_RecordRequest j r src) \<longleftrightarrow> i = j"
| "replaces i (WO_ImportSessions xs) \<longleftrightarrow> i \<in> ex_id ` set xs"
| "replaces i (WO_LoadData m) \<longleftrightarrow> True"
| "replaces i _ \<longleftrightarrow> False"

lemma carries_cleared: "carries r x \<Longrightarrow> same_but_bodies x y \<Longrightarrow> carries r y"
  by (auto simp: carries_def same_but_bodies_def clear_exchange_bodies_def)

lemma keeps_enforce: "keeps_response i r s \<Longrightarrow> keeps_response i r (enforce_body_budget s)"
  using enforce_body_budget_get [of s i] carries_cleared
  by (auto simp: keeps_response_def im_wf_def)

lemma keeps_evict: "keeps_response i r s \<Longrightarrow> keeps_response i r (evict_session_if_full s j)"
  by (auto simp: evict_eq keeps_response_def im_get_tl split: if_splits)

lemma keeps_insert:
  "keeps_response i r s \<Longrightarrow> j \<noteq> i \<Longrightarrow>
   keeps_response i r (s\<lparr>st_body_bytes := b, st_exchanges := im_insert (st_exchanges s) j x\<rparr>)"
  by (simp add: keeps_response_def im_get_insert)

lemma keeps_update:
  "keeps_response i r s \<Longrightarrow> (\<And>x. j = i \<Longrightarrow> carries r x \<Longrightarrow> carries r (f x)) \<Longrightarrow>
   keeps_response i r (s\<lparr>st_exchanges := im_update (st_exchanges s) j f\<rparr>)"
  by (auto simp: keeps_response_def im_get_update)

lemma keeps_counter [simp]:
  "keeps_response i r (s\<lparr>st_body_bytes := b\<rparr>) = keeps_response i r s"
  "keeps_response i r (s\<lparr>st_exchanges := m, st_body_bytes := b\<rparr>)
   = keeps_response i r (s\<lparr>st_exchanges := m\<rparr>)"
  by (simp_all add: keeps_response_def)

lemma keeps_import:
  "keeps_response i r s \<Longrightarrow> i \<notin> ex_id ` set xs \<Longrightarrow> keeps_response i r (import_loop s xs)"
  by (induction s xs rule: import_loop.induct) (auto simp: Let_def keeps_insert keeps_evict)

lemma keeps_record_response:
  assumes "keeps_response i r s"
  shows "keeps_response i r (ss_record_response clock s j q m)"
proof (cases "im_get (st_exchanges s) j")
  case (Some x)
  then have "j = i \<Longrightarrow> ex_response x \<noteq> None"
    using assms by (auto simp: keeps_response_def carries_def)
  with assms Some show ?thesis
    by (auto simp: ss_record_response_def intro!: keeps_enforce keeps_update)
qed (use assms in \<open>simp add: ss_record_response_def keeps_enforce\<close>)

lemma keeps_process:
  assumes "keeps_response i r s" and "\<not> replaces i op"
  shows "keeps_response i r (fst (process_write_op clock op s))"
proof (cases op)
  case (WO_ImportSessions xs)
  with assms show ?thesis
    by (auto simp: process_write_op_def ss_import_def intro!: keeps_enforce keeps_import)
next
  case (WO_ClearSessions)
  then show ?thesis by (simp add: process_write_op_def ss_clear_def keeps_response_def im_get_def)
qed (use assms in \<open>auto simp: process_write_op_def split_beta ss_record_request_def Let_def
       keeps_record_response ss_append_ws_frame_def ss_append_event_def ss_annotate_def
       ss_update_inspector_data_def ss_set_paused_def carries_def push_ws_frame_def push_event_def
       annotate_exchange_def intro!: keeps_enforce keeps_insert keeps_evict keeps_update\<close>)

section \<open>Exact accounting\<close>

definition exact :: "session_store \<Rightarrow> bool" where
  "exact s \<longleftrightarrow> im_wf (st_exchanges s) \<and> retained (st_exchanges s) = st_body_bytes s"

text \<open>The operations under which the counter stays exact: no request or import reuses the
  id of an exchange that is still stored.\<close>

fun fresh_ids :: "session_store \<Rightarrow> write_op \<Rightarrow> bool" where
  "fresh_ids s (WO_RecordRequest i r src) \<longleftrightarrow> \<not> im_contains (st_exchanges s) i"
| "fresh_ids s (WO_ImportSessions xs) \<longleftrightarrow>
     distinct (map ex_id xs) \<and> (\<forall>x \<in> set xs. \<not> im_contains (st_exchanges s) (ex_id x))"
| "fresh_ids s op \<longleftrightarrow> op_ok op"

lemma exact_enforce [simp]: "exact s \<Longrightarrow> exact (enforce_body_budget s)"
  using enforce_budget_exact [of "st_exchanges s" "st_body_bytes s" "st_max_retained_body_bytes s"]
    enforce_budget_keys [of "st_exchanges s" "st_max_retained_body_bytes s" "st_body_bytes s"]
  by (auto simp: exact_def enforce_body_budget_def im_wf_def split_beta Let_def)

lemma exact_evict [simp]: "exact s \<Longrightarrow> exact (evict_session_if_full s i)"
  using weight_tl [of "st_exchanges s" exchange_body_size] by (auto simp: evict_eq exact_def)

lemma evict_contains:
  "im_contains (st_exchanges (evict_session_if_full s i)) j \<Longrightarrow> im_contains (st_exchanges s) j"
  by (cases "st_exchanges s") (auto simp: evict_eq im_contains_def split: if_splits)

lemma exact_insert:
  "exact s \<Longrightarrow> \<not> im_contains (st_exchanges s) i \<Longrightarrow>
   exact (s\<lparr>st_body_bytes := st_body_bytes s + exchange_body_size x,
           st_exchanges := im_insert (st_exchanges s) i x\<rparr>)"
  by (simp add: exact_def im_contains_get weight_insert_new)

lemma exact_update:
  assumes "exact s" and "im_get (st_exchanges s) i = Some x"
    and "exchange_body_size (f x) = exchange_body_size x + n"
  shows "exact (s\<lparr>st_exchanges := im_update (st_exchanges s) i f,
                  st_body_bytes := st_body_bytes s + n\<rparr>)"
  using assms weight_update [OF assms(2), of exchange_body_size f] by (simp add: exact_def)

lemma exact_update_same:
  "exact s \<Longrightarrow> (\<And>x. exchange_body_size (f x) = exchange_body_size x) \<Longrightarrow>
   exact (s\<lparr>st_exchanges := im_update (st_exchanges s) i f\<rparr>)"
  by (simp add: exact_def weight_update_same)

lemma exact_import:
  "exact s \<Longrightarrow> distinct (map ex_id xs) \<Longrightarrow> \<forall>x \<in> set xs. \<not> im_contains (st_exchanges s) (ex_id x) \<Longrightarrow>
   exact (import_loop s xs)"
proof (induction s xs rule: import_loop.induct)
  case (2 s x xs)
  let ?s1 = "evict_session_if_full s (ex_id x)"
  let ?s2 = "?s1\<lparr>st_body_bytes := st_body_bytes ?s1 + exchange_body_size x,
                 st_exchanges := im_insert (st_exchanges ?s1) (ex_id x) x\<rparr>"
  have new: "\<not> im_contains (st_exchanges ?s1) (ex_id x)"
    using "2.prems"(3) evict_contains by auto
  have "exact ?s2" using exact_insert [OF exact_evict [OF "2.prems"(1)] new] .
  moreover have "\<forall>y \<in> set xs. \<not> im_contains (st_exchanges ?s2) (ex_id y)"
    using "2.prems"(2,3) by (auto simp: im_contains_insert dest: evict_contains) (metis image_eqI)
  ultimately show ?case using 2 by (simp add: Let_def)
qed simp

lemma exact_record_response:
  assumes "exact s" shows "exact (ss_record_response clock s i r m)"
proof (cases "im_get (st_exchanges s) i")
  case (Some x)
  show ?thesis
    using exact_update [OF assms Some, of "attach_response r m (clock 0)" "length (rs_body r)"]
      assms Some
    by (cases "ex_response x") (simp_all add: ss_record_response_def attach_response_size)
qed (use assms in \<open>simp add: ss_record_response_def\<close>)

lemma exact_append:
  assumes "exact s"
  shows "2 * frame_retained_size f \<le> usize_max \<Longrightarrow> exact (ss_append_ws_frame s i f)"
    and "exact (ss_append_event clock s i e)"
proof -
  have frame: "exact (s\<lparr>st_exchanges := im_update (st_exchanges s) i (push_ws_frame f),
       st_body_bytes := st_body_bytes s + 2 * frame_retained_size f\<rparr>)"
    and event: "exact (s\<lparr>st_exchanges := im_update (st_exchanges s) i (push_event e (clock 0)),
       st_body_bytes := st_body_bytes s + retained_body_size e\<rparr>)"
    if "im_get (st_exchanges s) i = Some x" for x
    using that exact_update [OF assms that] by (simp_all add: push_ws_frame_size push_event_size)
  show "2 * frame_retained_size f \<le> usize_max \<Longrightarrow> exact (ss_append_ws_frame s i f)"
    using assms frame
    by (auto simp: ss_append_ws_frame_def Let_def im_contains_get min_absorb2)
  show "exact (ss_append_event clock s i e)"
    using assms event by (auto simp: ss_append_event_def im_contains_get)
qed

lemma exact_process:
  assumes "exact s" and "fresh_ids s op"
  shows "exact (fst (process_write_op clock op s))"
proof (cases op)
  case (WO_RecordRequest i r src)
  have "\<not> im_contains (st_exchanges (evict_session_if_full s i)) i"
    using assms(2) WO_RecordRequest evict_contains by auto
  from exact_insert [OF exact_evict [OF assms(1)] this, of "new_exchange i r src (clock 0)"]
  show ?thesis using WO_RecordRequest
    by (simp add: process_write_op_def ss_record_request_def Let_def)
next
  case (WO_LoadData m)
  then have "exact (s\<lparr>st_body_bytes := retained m, st_exchanges := m\<rparr>)"
    using assms(2) by (simp add: exact_def)
  then show ?thesis using WO_LoadData by (simp add: process_write_op_def ss_replace_def)
next
  case (WO_Annotate i n t)
  then show ?thesis
    using assms(1) by (simp add: process_write_op_def ss_annotate_def exact_update_same)
qed (use assms in \<open>simp_all add: process_write_op_def exact_record_response exact_append
       ss_import_def exact_import exact_update_same ss_clear_def
       ss_update_inspector_data_def ss_set_paused_def exchange_body_size_def\<close>,
     simp_all add: exact_def)

section \<open>Properties\<close>

interpretation writer_keeps: writer_invariant "keeps_response i r" "\<lambda>op. \<not> replaces i op" for i r
  by unfold_locales (rule keeps_process)

lemma log_ops: "sm_reach cap budget m log acc \<Longrightarrow> (c, op) \<in> set log \<Longrightarrow> op \<in> set acc"
  by (drule sm_reach_facts) force

lemma reach_invariant:
  assumes "sm_reach cap budget m log acc" and "\<forall>op \<in> set acc. allowed op"
    and "writer_invariant I allowed" and "I (sm_store (with_body_budget cap budget))"
  shows "I (sm_store m)"
proof -
  have "\<forall>(c, op) \<in> set log. allowed op" using log_ops [OF assms(1)] assms(2) by auto
  from writer_invariant.run_preserves [OF assms(3,4) this]
  show ?thesis using sm_reach_facts [OF assms(1)] by (simp add: apply_ops_def)
qed

text \<open>C2 In every reachable state of the session manager the recorded ids are unique, the
  byte counter covers the retained bodies, and when a body budget is configured the bodies
  retained in memory do not exceed it.\<close>

theorem session_store_invariant:
  assumes "sm_reach cap budget m log acc" and "\<forall>op \<in> set acc. op_ok op"
  shows "distinct (map fst (st_exchanges (sm_store m)))
    \<and> retained (st_exchanges (sm_store m)) \<le> st_body_bytes (sm_store m)
    \<and> (budget \<noteq> usize_max \<longrightarrow> retained (st_exchanges (sm_store m)) \<le> budget)"
proof -
  have "store_ok (sm_store m)"
    using reach_invariant [OF assms writer_ok.writer_invariant_axioms] by simp
  moreover have "st_max_retained_body_bytes (sm_store m) = budget"
    using sm_reach_facts [OF assms(1)] by (simp add: with_body_budget_def)
  ultimately show ?thesis
    by (auto simp: store_ok_def accounted_def within_budget_def im_wf_def)
qed

theorem session_store_invariant_witness:
  "distinct (map fst (st_exchanges (sm_store (enqueue (with_body_budget 2 10) WO_ClearSessions))))
    \<and> retained (st_exchanges (sm_store (enqueue (with_body_budget 2 10) WO_ClearSessions)))
        \<le> st_body_bytes (sm_store (enqueue (with_body_budget 2 10) WO_ClearSessions))
    \<and> retained (st_exchanges (sm_store (enqueue (with_body_budget 2 10) WO_ClearSessions))) \<le> 10"
  using session_store_invariant [OF sm_reach.accept [OF sm_reach.start], of 2 10 WO_ClearSessions]
  by (simp add: with_body_budget_def WRITE_QUEUE_CAPACITY_def usize_max_def)

text \<open>As long as no session file is loaded, the number of stored sessions never exceeds
  the configured maximum (one session is kept even when the maximum is zero).\<close>

theorem session_count_bounded:
  assumes "sm_reach cap budget m log acc" and "\<forall>op \<in> set acc. not_load op"
  shows "length (get_all_sessions (sm_store m)) \<le> max 1 cap"
proof -
  have "capped (sm_store m)"
    using reach_invariant [OF assms writer_capped.writer_invariant_axioms] by simp
  moreover have "st_max_sessions (sm_store m) = cap"
    using sm_reach_facts [OF assms(1)] by (simp add: with_body_budget_def)
  ultimately show ?thesis by (simp add: capped_def get_all_sessions_def)
qed

theorem session_count_bounded_witness:
  "length (get_all_sessions (sm_store (enqueue (with_body_budget 2 10) WO_ClearSessions))) \<le> max 1 2"
  by (rule session_count_bounded [OF sm_reach.accept [OF sm_reach.start]])
    (simp_all add: with_body_budget_def WRITE_QUEUE_CAPACITY_def)

text \<open>C5 The writer is a bounded first-in first-out queue: the accepted operations are the
  processed ones followed by the queued ones, at most 8192 operations wait, and the store is
  the result of the processed operations in the order of acceptance.\<close>

theorem writer_fifo:
  assumes "sm_reach cap budget m log acc"
  shows "acc = map snd log @ sm_queue m \<and> length (sm_queue m) \<le> 8192
    \<and> sm_store m = apply_ops (sm_store (with_body_budget cap budget)) log"
  using sm_reach_facts [OF assms] by (simp add: WRITE_QUEUE_CAPACITY_def)

theorem writer_fifo_witness:
  "[WO_Flush] = map snd ([] :: (clock \<times> write_op) list)
       @ sm_queue (enqueue (with_body_budget 2 10) WO_Flush)
    \<and> length (sm_queue (enqueue (with_body_budget 2 10) WO_Flush)) \<le> 8192
    \<and> sm_store (enqueue (with_body_budget 2 10) WO_Flush)
        = apply_ops (sm_store (with_body_budget 2 10)) []"
  by (rule writer_fifo [OF sm_reach.accept [OF sm_reach.start, of _ _ WO_Flush, simplified]])
    (simp add: with_body_budget_def WRITE_QUEUE_CAPACITY_def)

text \<open>The first response recorded for a session wins: whatever operations follow, as long
  as none of them stores a new exchange under the same id, a session that is still stored has
  that response, possibly with its body given up to the budget.\<close>

theorem first_response_wins:
  assumes "im_wf (st_exchanges s)" and "get_session s i = Some x" and "ex_response x = Some r"
    and "\<forall>(c, op) \<in> set ops. \<not> replaces i op" and "get_session (apply_ops s ops) i = Some y"
  shows "ex_response y = Some r \<or> ex_response y = Some (r\<lparr>rs_body := []\<rparr>)"
proof -
  have "keeps_response i r s"
    using assms(1-3) by (simp add: keeps_response_def get_session_def carries_def)
  from writer_keeps.run_preserves [OF this assms(4)] assms(5) show ?thesis
    by (simp add: keeps_response_def get_session_def apply_ops_def carries_def)
qed

definition sample_store :: session_store where
  "sample_store = fst (process_write_op (\<lambda>_. 0)
     (WO_RecordResponse ''a'' (rs_default\<lparr>rs_status := 200, rs_body := [1, 2]\<rparr>))
     (fst (process_write_op (\<lambda>_. 0) (WO_RecordRequest ''a'' rq_default Proxy)
       (sm_store (with_body_budget 5 100)))))"

lemmas store_eval = process_write_op_def ss_record_request_def ss_record_response_def
  ss_import_def evict_session_if_full_def enforce_body_budget_def with_body_budget_def
  new_exchange_def attach_response_def rq_default_def rs_default_def im_get_def
  im_contains_def get_session_def apply_ops_def im_wf_def exchange_body_size_def usize_max_def
  clear_exchange_bodies_def

theorem first_response_wins_witness:
  "ex_response (the (get_session (apply_ops sample_store
      [(\<lambda>_. 1, WO_RecordResponse ''a'' rs_default)]) ''a''))
     = Some (rs_default\<lparr>rs_status := 200, rs_body := [1, 2]\<rparr>)"
proof -
  let ?r = "rs_default\<lparr>rs_status := 200, rs_body := [1, 2]\<rparr>"
  let ?ops = "[(\<lambda>_. 1, WO_RecordResponse ''a'' rs_default)] :: (clock \<times> write_op) list"
  let ?y = "the (get_session (apply_ops sample_store ?ops) ''a'')"
  have "ex_response ?y = Some ?r \<or> ex_response ?y = Some (?r\<lparr>rs_body := []\<rparr>)"
    by (rule first_response_wins [of sample_store "''a''" "the (get_session sample_store ''a'')" _ ?ops])
      (simp_all add: sample_store_def store_eval)
  moreover have "rs_body (the (ex_response ?y)) = [1, 2]"
    by (simp add: sample_store_def store_eval)
  ultimately show ?thesis by auto
qed

text \<open>Recording a request stores it under its id, with its body unless the budget takes
  it; every other session is untouched up to its body, except that the oldest session is
  evicted when the store is full and the id is new.\<close>

theorem record_request_effect:
  fixes clock s i r src
  assumes "im_wf (st_exchanges s)"
  defines "s' \<equiv> ss_record_request clock s i r src"
  shows "(\<exists>y. get_session s' i = Some y \<and> same_but_bodies (new_exchange i r src (clock 0)) y)
    \<and> (\<forall>j x. j \<noteq> i \<longrightarrow> get_session s j = Some x \<longrightarrow>
         (\<exists>y. get_session s' j = Some y \<and> same_but_bodies x y)
         \<or> (get_session s' j = None \<and> get_session s i = None \<and> fst (hd (st_exchanges s)) = j
            \<and> st_max_sessions s \<le> length (st_exchanges s)))"
proof -
  let ?x = "new_exchange i r src (clock 0)"
  define s1 where "s1 = evict_session_if_full s i"
  define s2 where "s2 = s1\<lparr>st_body_bytes := st_body_bytes s1 + length (rq_body r),
                  st_exchanges := im_insert (st_exchanges s1) i ?x\<rparr>"
  have s': "s' = enforce_body_budget s2"
    by (simp add: s'_def ss_record_request_def s1_def s2_def Let_def)
  have kept: "\<exists>y. get_session s' j = Some y \<and> same_but_bodies x y"
    if "im_get (st_exchanges s2) j = Some x" for j x
    using that enforce_body_budget_get [of s2 j] enforce_body_budget_contains [of s2 j]
    by (fastforce simp: s' get_session_def im_contains_get)
  have gone: "get_session s' j = None" if "im_get (st_exchanges s2) j = None" for j
    using that enforce_body_budget_contains [of s2 j] by (simp add: s' get_session_def im_contains_get)
  show ?thesis
  proof (intro conjI allI impI)
    show "\<exists>y. get_session s' i = Some y \<and> same_but_bodies ?x y"
      by (rule kept) (simp add: s2_def im_get_insert)
    fix j x assume j: "j \<noteq> i" "get_session s j = Some x"
    show "(\<exists>y. get_session s' j = Some y \<and> same_but_bodies x y)
         \<or> (get_session s' j = None \<and> get_session s i = None \<and> fst (hd (st_exchanges s)) = j
            \<and> st_max_sessions s \<le> length (st_exchanges s))"
    proof (cases "im_get (st_exchanges s1) j")
      case None
      then have "im_get (st_exchanges s2) j = None" using j by (simp add: s2_def im_get_insert)
      then have "get_session s' j = None" by (rule gone)
      moreover have "get_session s i = None \<and> fst (hd (st_exchanges s)) = j
            \<and> st_max_sessions s \<le> length (st_exchanges s)"
        using if_None_Some [OF None [unfolded s1_def evict_get [OF assms(1)]]
            j(2) [unfolded get_session_def]] by (simp add: get_session_def)
      ultimately show ?thesis by (intro disjI2 conjI) simp_all
    next
      case (Some z)
      have "z = x"
        by (rule if_Some_Some [OF Some [unfolded s1_def evict_get [OF assms(1)]]
            j(2) [unfolded get_session_def]])
      then show ?thesis using kept [of j x] Some j by (simp add: s2_def im_get_insert)
    qed
  qed
qed

theorem record_request_effect_witness:
  "\<exists>y. get_session (ss_record_request (\<lambda>_. 7) sample_store ''b'' rq_default Proxy) ''b'' = Some y
     \<and> same_but_bodies (new_exchange ''b'' rq_default Proxy 7) y"
proof -
  have "im_wf (st_exchanges sample_store)" by (simp add: sample_store_def store_eval)
  from record_request_effect [OF this, THEN conjunct1, of "\<lambda>_. 7" "''b''" rq_default Proxy]
  show ?thesis .
qed

text \<open>C14 The budget loop gives up bodies oldest first and no more than needed: it clears the
  shortest prefix of the exchanges that brings the counter down to the budget (all of them
  when none does), leaves the rest untouched, and subtracts exactly what it freed.\<close>

theorem budget_evicts_oldest_first:
  "\<exists>n \<le> length xs. enforce_budget xs cap b = (cleared (take n xs) @ drop n xs, b - retained (take n xs))
     \<and> \<not> (\<exists>m < n. b - retained (take m xs) \<le> cap)
     \<and> (n = length xs \<or> b - retained (take n xs) \<le> cap)"
  using enforce_budget_prefix [of xs cap b] unfolding not_ex de_Morgan_conj not_le imp_conv_disj
  by blast

text \<open>While ids are not reused, the byte counter is exactly the number of bytes retained,
  after any operation.\<close>

theorem body_accounting_exact:
  assumes "im_wf (st_exchanges s)" and "retained (st_exchanges s) = st_body_bytes s"
    and "fresh_ids s op"
  shows "retained (st_exchanges (fst (process_write_op clock op s)))
         = st_body_bytes (fst (process_write_op clock op s))"
  using exact_process [of s op clock] assms by (simp add: exact_def)

theorem body_accounting_exact_witness:
  "retained (st_exchanges (fst (process_write_op (\<lambda>_. 1)
      (WO_RecordRequest ''b'' (rq_default\<lparr>rq_body := [1, 2, 3]\<rparr>) Proxy) sample_store)))
   = st_body_bytes (fst (process_write_op (\<lambda>_. 1)
      (WO_RecordRequest ''b'' (rq_default\<lparr>rq_body := [1, 2, 3]\<rparr>) Proxy) sample_store))"
  by (rule body_accounting_exact) (simp_all add: sample_store_def store_eval)

text \<open>Reusing an id counts the replaced bodies twice. Importing one session file twice leaves
  a counter of 4 for a store that retains nothing, and the next request loses its body
  although it alone is within the budget of 5 bytes.\<close>

theorem reimport_loses_bodies:
  defines "x \<equiv> new_exchange ''a'' (rq_default\<lparr>rq_body := [1, 2, 3, 4]\<rparr>) Imported 0"
    and "r \<equiv> rq_default\<lparr>rq_body := [1, 2]\<rparr>"
  defines "s \<equiv> apply_ops (sm_store (with_body_budget 10 5))
     [(\<lambda>_. 0, WO_ImportSessions [x]), (\<lambda>_. 0, WO_ImportSessions [x]),
      (\<lambda>_. 0, WO_RecordRequest ''b'' r Proxy)]"
  shows "st_body_bytes s = 4 \<and> retained (st_exchanges s) = 0
     \<and> map_option (rq_body \<circ> ex_request) (get_session s ''b'') = Some []"
  unfolding s_def x_def r_def by (simp add: store_eval)

text \<open>Loading a session file installs every session of the file, whatever the maximum.\<close>

theorem load_ignores_maximum:
  "st_max_retained_body_bytes s = usize_max \<Longrightarrow>
   get_all_sessions (fst (process_write_op clock (WO_LoadData m) s)) = map snd m"
  by (simp add: process_write_op_def ss_replace_def enforce_body_budget_def get_all_sessions_def)

end
