(* ===== verification/Breakpoints.thy ===== *)
theory Breakpoints
  imports Chain SessionStore
begin

text \<open>
  \<open>middleware/plugins/breakpoints.rs\<close>: rules with tiers, the diagnostics of rules that
  cannot run, and the pause of a request, response or frame until it is resolved over the
  admin API, its channel closes, or 300 seconds pass.

  A handler is split at its await: \<open>\<dots>_pause\<close> is the code up to it and \<open>\<dots>_resume\<close>
  the code after it, given how the wait ended. The session operations it enqueues are
  returned in order. Uuids and clock reads are arguments. The second part of the theory is
  the protocol between handlers and resolutions as a transition system.
\<close>

datatype bp_type = BT_Request | BT_Response

datatype bp_tier = Tier_Head | Tier_Body | Tier_Frame | Tier_Tunnel

record bp_rule =
  br_id :: string
  br_location :: location
  br_type :: bp_type
  br_tier :: bp_tier
  br_enabled :: bool

record bp_diagnostic =
  bd_at :: timestamp
  bd_rule_id :: string
  bd_type :: bp_type
  bd_tier :: bp_tier
  bd_reason :: string
  bd_method :: string
  bd_host :: string
  bd_path :: string
  bd_wire_protocol :: "string option"
  bd_application_protocol :: "string option"
  bd_body_mode :: "string option"

datatype bp_context = BC_Request request_context | BC_Response response_context

datatype bp_resolution = BR_Continue | BR_Modify bp_context | BR_Drop

text \<open>A pending breakpoint; its sender is the mailbox of the handler with the same id.\<close>

record pending_breakpoint =
  pb_id :: string
  pb_type :: bp_type
  pb_context :: bp_context

record bp_manager =
  bm_rules :: "bp_rule list"
  bm_pending :: "string \<rightharpoonup> pending_breakpoint"
  bm_diagnostics :: "bp_diagnostic list"

definition bm_new :: bp_manager where
  "bm_new = \<lparr>bm_rules = [], bm_pending = Map.empty, bm_diagnostics = []\<rparr>"

section \<open>Rules and diagnostics\<close>

definition tier_compatible :: "bp_tier \<Rightarrow> match_target \<Rightarrow> bool" where
  "tier_compatible tier target = (case tier of
     Tier_Head \<Rightarrow> True
   | Tier_Body \<Rightarrow> mt_body_mode target \<notin>
       {Some ''tunnel'', Some ''frames'', Some ''stream_bytes'', Some ''stream_messages''}
   | Tier_Frame \<Rightarrow> mt_body_mode target \<in> {Some ''frames'', Some ''stream_messages''}
   | Tier_Tunnel \<Rightarrow> mt_body_mode target = Some ''tunnel'')"

definition bm_add_rule :: "bp_manager \<Rightarrow> bp_rule \<Rightarrow> bp_manager" where
  "bm_add_rule m rule = m\<lparr>bm_rules := bm_rules m @ [rule]\<rparr>"

definition bm_delete_rule :: "bp_manager \<Rightarrow> string \<Rightarrow> bp_manager" where
  "bm_delete_rule m i = m\<lparr>bm_rules := filter (\<lambda>r. br_id r \<noteq> i) (bm_rules m)\<rparr>"

fun replace_rule :: "bp_rule list \<Rightarrow> string \<Rightarrow> bp_rule \<Rightarrow> bp_rule list option" where
  "replace_rule [] i updated = None"
| "replace_rule (r # rs) i updated =
     (if br_id r = i then Some (updated\<lparr>br_id := i\<rparr> # rs)
      else map_option ((#) r) (replace_rule rs i updated))"

definition bm_update_rule :: "bp_manager \<Rightarrow> string \<Rightarrow> bp_rule \<Rightarrow> bool \<times> bp_manager" where
  "bm_update_rule m i updated = (case replace_rule (bm_rules m) i updated of
     Some rules \<Rightarrow> (True, m\<lparr>bm_rules := rules\<rparr>) | None \<Rightarrow> (False, m))"

fun tier_debug :: "bp_tier \<Rightarrow> string" where
  "tier_debug Tier_Head = ''Head''"
| "tier_debug Tier_Body = ''Body''"
| "tier_debug Tier_Frame = ''Frame''"
| "tier_debug Tier_Tunnel = ''Tunnel''"

text \<open>The \<open>Debug\<close> form of the body mode, a token that needs no escapes.\<close>

definition body_mode_debug :: "string option \<Rightarrow> string" where
  "body_mode_debug b = (case b of None \<Rightarrow> ''None''
     | Some s \<Rightarrow> ''Some('' @ [CHR 0x22] @ s @ [CHR 0x22] @ '')'')"

definition MAX_DIAGNOSTICS :: nat where
  "MAX_DIAGNOSTICS = 50"

definition record_diagnostic ::
    "timestamp \<Rightarrow> bp_rule \<Rightarrow> match_target \<Rightarrow> string \<Rightarrow> bp_manager \<Rightarrow> bp_manager" where
  "record_diagnostic now rule target reason m =
     (let ds = bm_diagnostics m @
            [\<lparr>bd_at = now, bd_rule_id = br_id rule, bd_type = br_type rule, bd_tier = br_tier rule,
              bd_reason = reason, bd_method = mt_method target, bd_host = mt_host target,
              bd_path = mt_path target, bd_wire_protocol = mt_wire_protocol target,
              bd_application_protocol = mt_application_protocol target,
              bd_body_mode = mt_body_mode target\<rparr>]
      in m\<lparr>bm_diagnostics := if length ds > MAX_DIAGNOSTICS
                            then drop (length ds - MAX_DIAGNOSTICS) ds else ds\<rparr>)"

text \<open>The loop under the read lock: the first compatible match, and the matching rules whose
  tier cannot run.\<close>

fun first_match_loop ::
    "regex_lib \<Rightarrow> match_target \<Rightarrow> bp_rule list \<Rightarrow> bp_rule option \<Rightarrow> bp_rule list \<Rightarrow>
     bp_rule option \<times> bp_rule list" where
  "first_match_loop rx target [] matched incompatible = (matched, incompatible)"
| "first_match_loop rx target (r # rs) matched incompatible =
     (if \<not> loc_matches rx (br_location r) target then first_match_loop rx target rs matched incompatible
      else if tier_compatible (br_tier r) target
      then first_match_loop rx target rs (if matched = None then Some r else matched) incompatible
      else first_match_loop rx target rs matched (incompatible @ [r]))"

definition incompatible_reason :: "match_target \<Rightarrow> bp_rule \<Rightarrow> string" where
  "incompatible_reason target r = tier_debug (br_tier r) @ '' breakpoint is incompatible with body mode ''
     @ body_mode_debug (mt_body_mode target)"

definition bm_first_match ::
    "regex_lib \<Rightarrow> clock \<Rightarrow> bp_type \<Rightarrow> match_target \<Rightarrow> bp_manager \<Rightarrow> bp_rule option \<times> bp_manager" where
  "bm_first_match rx clock ty target m =
     (let (matched, incompatible) = first_match_loop rx target
            (filter (\<lambda>r. br_enabled r \<and> br_type r = ty) (bm_rules m)) None [];
          m' = foldl (\<lambda>m (i, r). record_diagnostic (clock i) r target (incompatible_reason target r) m)
                 m (enumerate 0 incompatible)
      in (matched, m'))"

definition has_frame_rules :: "bp_manager \<Rightarrow> bool" where
  "has_frame_rules m \<longleftrightarrow> list_ex (\<lambda>r. br_enabled r \<and> br_tier r = Tier_Frame) (bm_rules m)"

text \<open>\<open>resolve_breakpoint\<close>: the entry leaves the map and the resolution goes to its
  mailbox, or the error "Breakpoint not found".\<close>

definition bm_resolve ::
    "bp_manager \<Rightarrow> string \<Rightarrow> bp_resolution \<Rightarrow> (string + pending_breakpoint \<times> bp_resolution) \<times> bp_manager" where
  "bm_resolve m i resolution = (case bm_pending m i of
     Some bp \<Rightarrow> (Inr (bp, resolution), m\<lparr>bm_pending := (bm_pending m)(i := None)\<rparr>)
   | None \<Rightarrow> (Inl ''Breakpoint not found'', m))"

section \<open>Pausing\<close>

text \<open>How the wait ends: a resolution, a closed channel, or the timeout.\<close>

datatype wait_outcome = Resolved bp_resolution | Closed | TimedOut

definition add_pending :: "string \<Rightarrow> bp_type \<Rightarrow> bp_context \<Rightarrow> bp_manager \<Rightarrow> bp_manager" where
  "add_pending i ty context m =
     m\<lparr>bm_pending := (bm_pending m)(i \<mapsto> \<lparr>pb_id = i, pb_type = ty, pb_context = context\<rparr>)\<rparr>"

definition remove_pending :: "string \<Rightarrow> bp_manager \<Rightarrow> bp_manager" where
  "remove_pending i m = m\<lparr>bm_pending := (bm_pending m)(i := None)\<rparr>"

definition pause_ops :: "string \<Rightarrow> string \<Rightarrow> write_op list" where
  "pause_ops sid bp_id = [WO_MarkPaused sid, WO_AppendEvent sid (Ev_BreakpointPaused bp_id)]"

definition bp_applied :: "bp_rule \<Rightarrow> string \<Rightarrow> flow_event" where
  "bp_applied rule summary = RuleApplied FR_Breakpoint (br_id rule) ''breakpoint'' summary"

text \<open>A paused request: the manager, the context and the enqueued operations.\<close>

definition bp_request_pause ::
    "bp_rule \<Rightarrow> string \<Rightarrow> string \<Rightarrow> bp_manager \<Rightarrow> request_context \<Rightarrow>
     bp_manager \<times> request_context \<times> write_op list" where
  "bp_request_pause rule sid bp_id m ctx =
     (let c1 = ctx\<lparr>rq_session_id := Some sid\<rparr>;
          c2 = rq_push_flow c1 (RuleMatched FR_Breakpoint (br_id rule) ''breakpoint'');
          c3 = rq_push_flow c2 (bp_applied rule ''paused request'');
          (_, c4) = rq_take_flow c3
      in (add_pending bp_id BT_Request (BC_Request c4) m, c4,
          WO_RecordRequest sid c3 Proxy # pause_ops sid bp_id))"

definition timeout_response :: intercepted_response where
  "timeout_response =
     \<lparr>ir_status = 504, ir_headers = snd (hm_insert hm_new ''content-type'' ''text/plain''),
      ir_body = bytes_of_string ''Breakpoint timed out'', ir_tags = [], ir_served_mock = None\<rparr>"

definition bp_request_resume ::
    "bp_rule \<Rightarrow> string \<Rightarrow> string \<Rightarrow> wait_outcome \<Rightarrow> bp_manager \<Rightarrow> request_context \<Rightarrow>
     middleware_action \<times> bp_manager \<times> request_context \<times> write_op list" where
  "bp_request_resume rule sid bp_id outcome m ctx = (case outcome of
     Resolved BR_Continue \<Rightarrow>
       (Continue, m, rq_push_flow ctx (bp_applied rule ''continued request''), [WO_ClearPaused sid])
   | Resolved (BR_Modify bc) \<Rightarrow>
       (case bc of
          BC_Request new_ctx \<Rightarrow>
            (Continue, m, rq_push_flow new_ctx (bp_applied rule ''modified request and continued''),
             [WO_ClearPaused sid])
        | BC_Response _ \<Rightarrow> (StopAndReturn, m, ctx, [WO_ClearPaused sid]))
   | Resolved BR_Drop \<Rightarrow> (StopAndReturn, m, ctx, [WO_ClearPaused sid])
   | Closed \<Rightarrow> (StopAndReturn, m, ctx, [WO_ClearPaused sid])
   | TimedOut \<Rightarrow>
       (StopAndReturn, remove_pending bp_id m,
        rq_push_flow (ctx\<lparr>rq_mock_response := Some timeout_response\<rparr>)
          (ShortCircuited SC_BreakpointTimeout 504 (Some (br_id rule)) (Some ''breakpoint'')),
        [WO_ClearPaused sid]))"

definition bp_response_pause ::
    "string \<Rightarrow> bp_manager \<Rightarrow> response_context \<Rightarrow> bp_manager \<times> write_op list" where
  "bp_response_pause bp_id m ctx =
     (add_pending bp_id BT_Response (BC_Response ctx) m,
      case rs_session_id ctx of Some sid \<Rightarrow> pause_ops sid bp_id | None \<Rightarrow> [])"

definition bp_response_resume ::
    "string \<Rightarrow> wait_outcome \<Rightarrow> bp_manager \<Rightarrow> response_context \<Rightarrow>
     middleware_action \<times> bp_manager \<times> response_context \<times> write_op list" where
  "bp_response_resume bp_id outcome m ctx =
     (let cleared = (case rs_session_id ctx of Some sid \<Rightarrow> [WO_ClearPaused sid] | None \<Rightarrow> [])
      in case outcome of
           Resolved BR_Continue \<Rightarrow> (Continue, m, ctx, cleared)
         | Resolved (BR_Modify bc) \<Rightarrow>
             (case bc of BC_Response new_ctx \<Rightarrow> (Continue, m, new_ctx, cleared)
              | BC_Request _ \<Rightarrow> (StopAndReturn, m, ctx, cleared))
         | Resolved BR_Drop \<Rightarrow> (StopAndReturn, m, ctx, cleared)
         | Closed \<Rightarrow> (StopAndReturn, m, ctx, cleared)
         | TimedOut \<Rightarrow> (StopAndReturn, remove_pending bp_id m, ctx, cleared))"

definition frame_target :: "bp_context \<Rightarrow> match_target \<times> bp_type" where
  "frame_target context = (case context of
     BC_Request ctx \<Rightarrow> (from_request ctx, BT_Request)
   | BC_Response ctx \<Rightarrow> (from_response ctx, BT_Response))"

definition frame_pause ::
    "regex_lib \<Rightarrow> string \<Rightarrow> string \<Rightarrow> bp_context \<Rightarrow> bp_manager \<Rightarrow> bp_manager \<times> write_op list option" where
  "frame_pause rx sid bp_id context m =
     (let (target, ty) = frame_target context
      in case find (\<lambda>r. br_enabled r \<and> br_type r = ty \<and> br_tier r = Tier_Frame
                  \<and> tier_compatible (br_tier r) target \<and> loc_matches rx (br_location r) target)
              (bm_rules m) of
           None \<Rightarrow> (m, None)
         | Some rule \<Rightarrow> (add_pending bp_id (br_type rule) context m, Some (pause_ops sid bp_id)))"

definition frame_resume ::
    "string \<Rightarrow> string \<Rightarrow> wait_outcome \<Rightarrow> bp_manager \<Rightarrow> bp_resolution \<times> bp_manager \<times> write_op list" where
  "frame_resume sid bp_id outcome m = (case outcome of
     Resolved resolution \<Rightarrow> (resolution, m, [WO_ClearPaused sid])
   | _ \<Rightarrow> (BR_Drop, remove_pending bp_id m, [WO_ClearPaused sid]))"

section \<open>The plugin\<close>

text \<open>What the plugin uses of the shared state: its manager, the session queue, a source of
  uuids, and the wait, during which other tasks change the state.\<close>

record 'w bp_world =
  bw_manager :: "'w \<Rightarrow> bp_manager"
  bw_set_manager :: "bp_manager \<Rightarrow> 'w \<Rightarrow> 'w"
  bw_emit :: "write_op list \<Rightarrow> 'w \<Rightarrow> 'w"
  bw_uuid :: "'w \<Rightarrow> string \<times> 'w"
  bw_clock :: "'w \<Rightarrow> clock"
  bw_await :: "string \<Rightarrow> 'w \<Rightarrow> wait_outcome \<times> 'w"

definition bp_on_request ::
    "regex_lib \<Rightarrow> 'w bp_world \<Rightarrow> 'w \<Rightarrow> request_context \<Rightarrow> middleware_action \<times> 'w \<times> request_context" where
  "bp_on_request rx bw w ctx =
     (case bm_first_match rx (bw_clock bw w) BT_Request (from_request ctx) (bw_manager bw w) of
        (None, m1) \<Rightarrow> (Continue, bw_set_manager bw m1 w, ctx)
      | (Some rule, m1) \<Rightarrow>
          let w1 = bw_set_manager bw m1 w;
              (sid, w2) = (case rq_session_id ctx of Some sid \<Rightarrow> (sid, w1) | None \<Rightarrow> bw_uuid bw w1);
              (bp_id, w3) = bw_uuid bw w2;
              (m2, c, ops) = bp_request_pause rule sid bp_id (bw_manager bw w3) ctx;
              (outcome, w4) = bw_await bw bp_id (bw_set_manager bw m2 (bw_emit bw ops w3));
              (a, m3, c', ops') = bp_request_resume rule sid bp_id outcome (bw_manager bw w4) c
          in (a, bw_emit bw ops' (bw_set_manager bw m3 w4), c'))"

definition bp_on_response ::
    "regex_lib \<Rightarrow> 'w bp_world \<Rightarrow> 'w \<Rightarrow> response_context \<Rightarrow> middleware_action \<times> 'w \<times> response_context" where
  "bp_on_response rx bw w ctx =
     (case bm_first_match rx (bw_clock bw w) BT_Response (from_response ctx) (bw_manager bw w) of
        (None, m1) \<Rightarrow> (Continue, bw_set_manager bw m1 w, ctx)
      | (Some rule, m1) \<Rightarrow>
          let (bp_id, w2) = bw_uuid bw (bw_set_manager bw m1 w);
              (m2, ops) = bp_response_pause bp_id (bw_manager bw w2) ctx;
              (outcome, w3) = bw_await bw bp_id (bw_set_manager bw m2 (bw_emit bw ops w2));
              (a, m3, c', ops') = bp_response_resume bp_id outcome (bw_manager bw w3) ctx
          in (a, bw_emit bw ops' (bw_set_manager bw m3 w3), c'))"

definition breakpoint_middleware :: "regex_lib \<Rightarrow> 'w bp_world \<Rightarrow> ('w, 'o) middleware" where
  "breakpoint_middleware rx bw = (default_middleware ''BreakpointMiddleware'')\<lparr>
     mwr_on_request := bp_on_request rx bw, mwr_on_response := bp_on_response rx bw\<rparr>"

section \<open>The resolve endpoint\<close>

text \<open>\<open>control_plane/breakpoints.rs\<close>: the body names an action and, for an edit, the
  context that serde read from its wire representation.\<close>

datatype bp_context_wire = BW_Request request_context_wire | BW_Response response_context_wire

definition context_of_wire ::
    "((string \<rightharpoonup> string) \<Rightarrow> (string \<times> string) list) \<Rightarrow> (bytes \<Rightarrow> bytes option) \<Rightarrow>
     bp_context_wire \<Rightarrow> bp_context" where
  "context_of_wire iter b64_decode w = (case w of
     BW_Request r \<Rightarrow> BC_Request (rq_of_wire iter r)
   | BW_Response r \<Rightarrow> BC_Response (rs_of_wire iter b64_decode r))"

definition resolution_of_request :: "string \<Rightarrow> bp_context option \<Rightarrow> bp_resolution" where
  "resolution_of_request act context =
     (if act = ''drop'' then BR_Drop
      else if act = ''modify'' then (case context of Some bc \<Rightarrow> BR_Modify bc | None \<Rightarrow> BR_Continue)
      else BR_Continue)"

section \<open>Lemmas on matching\<close>

lemma first_match_loop_eq:
  "first_match_loop rx t rs matched inc =
     (case matched of
        Some r \<Rightarrow> Some r
      | None \<Rightarrow> find (\<lambda>r. loc_matches rx (br_location r) t \<and> tier_compatible (br_tier r) t) rs,
      inc @ filter (\<lambda>r. loc_matches rx (br_location r) t \<and> \<not> tier_compatible (br_tier r) t) rs)"
  by (induction rx t rs matched inc rule: first_match_loop.induct) (auto split: option.splits)

lemma record_diagnostic_frame [simp]:
  "bm_rules (record_diagnostic now r t reason m) = bm_rules m"
  "bm_pending (record_diagnostic now r t reason m) = bm_pending m"
  by (simp_all add: record_diagnostic_def Let_def)

lemma record_diagnostic_bound: "length (bm_diagnostics (record_diagnostic now r t reason m)) \<le> MAX_DIAGNOSTICS"
  by (simp add: record_diagnostic_def Let_def MAX_DIAGNOSTICS_def)

lemma diagnostics_fold:
  "bm_rules (foldl (\<lambda>m (i, r). record_diagnostic (c i) r t (f r) m) m irs) = bm_rules m
   \<and> bm_pending (foldl (\<lambda>m (i, r). record_diagnostic (c i) r t (f r) m) m irs) = bm_pending m
   \<and> (length (bm_diagnostics m) \<le> MAX_DIAGNOSTICS \<longrightarrow>
       length (bm_diagnostics (foldl (\<lambda>m (i, r). record_diagnostic (c i) r t (f r) m) m irs)) \<le> MAX_DIAGNOSTICS)"
proof (induction irs arbitrary: m)
  case (Cons ir irs)
  obtain i r where ir: "ir = (i, r)" by (cases ir)
  show ?case using Cons.IH [of "record_diagnostic (c i) r t (f r) m"]
    by (simp add: ir record_diagnostic_bound)
qed simp

lemma bm_first_match_find:
  "fst (bm_first_match rx clock ty t m) =
     find (\<lambda>r. br_enabled r \<and> br_type r = ty \<and> loc_matches rx (br_location r) t
               \<and> tier_compatible (br_tier r) t) (bm_rules m)"
  by (simp add: bm_first_match_def first_match_loop_eq find_filter Let_def split_beta conj_assoc)

lemma bm_first_match_frame:
  "bm_rules (snd (bm_first_match rx clock ty t m)) = bm_rules m"
  "bm_pending (snd (bm_first_match rx clock ty t m)) = bm_pending m"
  "length (bm_diagnostics m) \<le> MAX_DIAGNOSTICS \<Longrightarrow>
   length (bm_diagnostics (snd (bm_first_match rx clock ty t m))) \<le> MAX_DIAGNOSTICS"
  by (simp_all add: bm_first_match_def Let_def diagnostics_fold split: prod.split)

section \<open>The protocol between handlers and resolutions\<close>

text \<open>A handler waits; the resolver mails it a resolution or its timer expires; an expired
  handler then takes its entry out of the map. A resolution already mailed is received even
  when the deadline has passed, because the timeout polls the channel first. A handler whose
  client disconnects is dropped where it stands.\<close>

datatype handler_state = Waiting | Mailed bp_resolution | Expired | Ended wait_outcome | Cancelled

record bp_system =
  sys_manager :: bp_manager
  sys_handlers :: "string \<rightharpoonup> handler_state"

definition sys_start :: "bp_rule list \<Rightarrow> bp_system" where
  "sys_start rules = \<lparr>sys_manager = bm_new\<lparr>bm_rules := rules\<rparr>, sys_handlers = Map.empty\<rparr>"

definition sys_set :: "string \<Rightarrow> handler_state \<Rightarrow> bp_manager \<Rightarrow> bp_system \<Rightarrow> bp_system" where
  "sys_set i h m s = s\<lparr>sys_manager := m, sys_handlers := (sys_handlers s)(i \<mapsto> h)\<rparr>"

text \<open>What a successful resolution does to the handler: a waiting one receives it, for an
  expired or cancelled one the receiver is gone.\<close>

definition deliver :: "string \<Rightarrow> bp_resolution \<Rightarrow> bp_system \<Rightarrow> bp_manager \<Rightarrow> bp_system" where
  "deliver i resolution s m = (if sys_handlers s i = Some Waiting
     then sys_set i (Mailed resolution) m s else s\<lparr>sys_manager := m\<rparr>)"

inductive bp_step :: "bp_system \<Rightarrow> bp_system \<Rightarrow> bool" where
  step_pause: "sys_handlers s i = None \<Longrightarrow>
     bp_step s (sys_set i Waiting (add_pending i ty c (sys_manager s)) s)"
| step_resolve: "bm_resolve (sys_manager s) i resolution = (Inr sent, m) \<Longrightarrow>
     bp_step s (deliver i resolution s m)"
| step_wake: "sys_handlers s i = Some (Mailed resolution) \<Longrightarrow>
     bp_step s (sys_set i (Ended (Resolved resolution)) (sys_manager s) s)"
| step_expire: "sys_handlers s i = Some Waiting \<Longrightarrow> bp_step s (sys_set i Expired (sys_manager s) s)"
| step_cleanup: "sys_handlers s i = Some Expired \<Longrightarrow>
     bp_step s (sys_set i (Ended TimedOut) (remove_pending i (sys_manager s)) s)"
| step_cancel: "sys_handlers s i \<in> {Some Waiting, Some (Mailed resolution), Some Expired} \<Longrightarrow>
     bp_step s (sys_set i Cancelled (sys_manager s) s)"
| step_rules: "bp_step s (s\<lparr>sys_manager := (sys_manager s)\<lparr>bm_rules := rs, bm_diagnostics := ds\<rparr>\<rparr>)"

inductive bp_reach :: "bp_rule list \<Rightarrow> bp_system \<Rightarrow> bool" for rules where
  reach_start: "bp_reach rules (sys_start rules)"
| reach_step: "bp_reach rules s \<Longrightarrow> bp_step s s' \<Longrightarrow> bp_reach rules s'"

inductive_cases bp_stepE: "bp_step s s'"

definition bp_inv :: "bp_system \<Rightarrow> bool" where
  "bp_inv s \<longleftrightarrow> (\<forall>i.
     (sys_handlers s i = Some Waiting \<longrightarrow> bm_pending (sys_manager s) i \<noteq> None)
     \<and> (bm_pending (sys_manager s) i \<noteq> None \<longrightarrow>
          sys_handlers s i \<in> {Some Waiting, Some Expired, Some Cancelled})
     \<and> (\<forall>bp. bm_pending (sys_manager s) i = Some bp \<longrightarrow> pb_id bp = i)
     \<and> sys_handlers s i \<noteq> Some (Ended Closed))"

lemma bm_resolve_Inr:
  "bm_resolve m i r = (Inr sent, m') \<longleftrightarrow>
     (\<exists>bp. bm_pending m i = Some bp \<and> sent = (bp, r) \<and> m' = m\<lparr>bm_pending := (bm_pending m)(i := None)\<rparr>)"
  by (auto simp: bm_resolve_def split: option.splits)

lemma bp_inv_step: "bp_inv s \<Longrightarrow> bp_step s s' \<Longrightarrow> bp_inv s'"
  by (erule bp_stepE) (auto simp: bp_inv_def sys_set_def deliver_def add_pending_def
      remove_pending_def bm_resolve_Inr split: if_splits)

lemma bp_reach_inv: "bp_reach rules s \<Longrightarrow> bp_inv s"
  by (induction rule: bp_reach.induct)
    (auto simp: bp_inv_step, simp add: bp_inv_def sys_start_def bm_new_def)

section \<open>Properties\<close>

text \<open>A breakpoint pauses at the first enabled rule of the right type whose location matches
  and whose tier can run on the body mode; looking for it changes neither the rules nor the
  pending breakpoints and keeps at most 50 diagnostics.\<close>

theorem breakpoint_first_match:
  "fst (bm_first_match rx clock ty t m) =
     find (\<lambda>r. br_enabled r \<and> br_type r = ty \<and> loc_matches rx (br_location r) t
               \<and> tier_compatible (br_tier r) t) (bm_rules m)
   \<and> bm_rules (snd (bm_first_match rx clock ty t m)) = bm_rules m
   \<and> bm_pending (snd (bm_first_match rx clock ty t m)) = bm_pending m
   \<and> length (bm_diagnostics (snd (bm_first_match rx clock ty t m))) \<le> max 50 (length (bm_diagnostics m))"
proof -
  have "length (bm_diagnostics (snd (bm_first_match rx clock ty t m))) \<le> max 50 (length (bm_diagnostics m))"
  proof (cases "length (bm_diagnostics m) \<le> MAX_DIAGNOSTICS")
    case True
    from bm_first_match_frame(3) [OF this, of rx clock ty t] show ?thesis
      by (simp add: MAX_DIAGNOSTICS_def)
  next
    case False
    have bound: "length (bm_diagnostics (foldl (\<lambda>m (i, r). record_diagnostic (clock i) r t
        (incompatible_reason t r) m) m irs)) \<le> max 50 (length (bm_diagnostics m))" for irs
    proof (cases irs)
      case (Cons ir irs')
      obtain i r where ir: "ir = (i, r)" by (cases ir)
      show ?thesis
        using diagnostics_fold [of clock t "incompatible_reason t"
            "record_diagnostic (clock i) r t (incompatible_reason t r) m" irs']
          record_diagnostic_bound [of "clock i" r t "incompatible_reason t r" m]
        by (simp add: Cons ir MAX_DIAGNOSTICS_def le_max_iff_disj)
    qed simp
    show ?thesis using bound by (simp add: bm_first_match_def Let_def split: prod.split)
  qed
  then show ?thesis by (simp add: bm_first_match_find bm_first_match_frame)
qed

text \<open>C4 In every reachable state a resolution for a waiting handler succeeds and is exactly
  what that handler receives; once a handler has been resolved or has finished by its
  timeout, resolving its id again fails with "Breakpoint not found" and changes nothing; and
  the handler never finds its channel closed.\<close>

theorem breakpoint_resolved_once:
  assumes "bp_reach rules s"
  shows "(case sys_handlers s i of
     Some Waiting \<Rightarrow> (\<exists>bp m. pb_id bp = i \<and> bm_resolve (sys_manager s) i r = (Inr (bp, r), m)
        \<and> sys_handlers (deliver i r s m) i = Some (Mailed r) \<and> bm_pending m i = None)
   | Some (Mailed _) \<Rightarrow> bm_resolve (sys_manager s) i r = (Inl ''Breakpoint not found'', sys_manager s)
   | Some (Ended e) \<Rightarrow> e \<noteq> Closed
        \<and> bm_resolve (sys_manager s) i r = (Inl ''Breakpoint not found'', sys_manager s)
   | None \<Rightarrow> bm_resolve (sys_manager s) i r = (Inl ''Breakpoint not found'', sys_manager s)
   | _ \<Rightarrow> True)"
proof -
  have inv: "(sys_handlers s i = Some Waiting \<longrightarrow> bm_pending (sys_manager s) i \<noteq> None)
     \<and> (bm_pending (sys_manager s) i \<noteq> None \<longrightarrow>
          sys_handlers s i \<in> {Some Waiting, Some Expired, Some Cancelled})
     \<and> (\<forall>bp. bm_pending (sys_manager s) i = Some bp \<longrightarrow> pb_id bp = i)
     \<and> sys_handlers s i \<noteq> Some (Ended Closed)"
    using bp_reach_inv [OF assms] by (simp add: bp_inv_def)
  then show ?thesis
    by (auto simp: bm_resolve_def deliver_def sys_set_def split: option.split handler_state.split)
qed

theorem breakpoint_resolved_once_witness:
  "\<exists>bp m. pb_id bp = ''b'' \<and> bm_resolve (add_pending ''b'' BT_Request (BC_Request rq_default) (sys_manager (sys_start []))) ''b'' BR_Drop
       = (Inr (bp, BR_Drop), m) \<and> bm_pending m ''b'' = None"
proof -
  let ?s = "sys_set ''b'' Waiting (add_pending ''b'' BT_Request (BC_Request rq_default) (sys_manager (sys_start [])))
     (sys_start [])"
  have "bp_reach [] ?s"
    by (rule reach_step [OF reach_start step_pause]) (simp add: sys_start_def)
  from breakpoint_resolved_once [OF this, of "''b''" BR_Drop]
  show ?thesis by (auto simp: sys_set_def)
qed

text \<open>A resolution that arrives between the expiry of the timer and the clean-up is reported
  as accepted although the request is dropped.\<close>

lemma late_resolution_accepted:
  "\<exists>s. bp_reach [] s \<and> sys_handlers s ''b'' = Some Expired
     \<and> (\<exists>sent m. bm_resolve (sys_manager s) ''b'' BR_Continue = (Inr sent, m)
          \<and> sys_handlers (deliver ''b'' BR_Continue s m) ''b'' = Some Expired)"
proof -
  let ?m = "add_pending ''b'' BT_Request (BC_Request rq_default) (sys_manager (sys_start []))"
  let ?s1 = "sys_set ''b'' Waiting ?m (sys_start [])"
  let ?s2 = "sys_set ''b'' Expired (sys_manager ?s1) ?s1"
  have "bp_reach [] ?s1"
    by (rule reach_step [OF reach_start step_pause]) (simp add: sys_start_def)
  then have "bp_reach [] ?s2"
    by (rule reach_step [OF _ step_expire]) (simp add: sys_set_def)
  then show ?thesis
    by (intro exI [of _ ?s2]) (simp add: sys_set_def bm_resolve_def add_pending_def deliver_def)
qed

text \<open>However the wait for a request ends, the plugin goes on exactly for a continue or an
  edited request, answers 504 on a timeout (and only then sets a response), leaves no entry
  behind for the expired breakpoint, and unpauses the session: after its operations no stored
  session of that id is paused.\<close>

theorem breakpoint_request_outcome:
  assumes "bp_request_resume rule sid bp_id outcome m ctx = (a, m', ctx', ops)"
  shows "(a = Continue \<longleftrightarrow> outcome = Resolved BR_Continue \<or> (\<exists>c. outcome = Resolved (BR_Modify (BC_Request c))))
    \<and> (outcome = TimedOut \<longrightarrow> rq_mock_response ctx' = Some timeout_response \<and> bm_pending m' bp_id = None)
    \<and> (a = StopAndReturn \<longrightarrow> outcome \<noteq> TimedOut \<longrightarrow> rq_mock_response ctx' = rq_mock_response ctx)
    \<and> (case get_session (apply_ops s (map (Pair clock) ops)) sid of
         Some x \<Rightarrow> ex_paused_at x = None | None \<Rightarrow> True)"
proof -
  have ops: "ops = [WO_ClearPaused sid]"
    using assms by (auto simp: bp_request_resume_def split: wait_outcome.splits bp_resolution.splits bp_context.splits)
  have "case get_session (apply_ops s (map (Pair clock) ops)) sid of
         Some x \<Rightarrow> ex_paused_at x = None | None \<Rightarrow> True"
    by (auto simp: ops apply_ops_def process_write_op_def ss_set_paused_def get_session_def
        im_get_update split: option.split)
  moreover have "(a = Continue \<longleftrightarrow> outcome = Resolved BR_Continue \<or> (\<exists>c. outcome = Resolved (BR_Modify (BC_Request c))))
    \<and> (outcome = TimedOut \<longrightarrow> rq_mock_response ctx' = Some timeout_response \<and> bm_pending m' bp_id = None)
    \<and> (a = StopAndReturn \<longrightarrow> outcome \<noteq> TimedOut \<longrightarrow> rq_mock_response ctx' = rq_mock_response ctx)"
    using assms by (auto simp: bp_request_resume_def remove_pending_def
        split: wait_outcome.splits bp_resolution.splits bp_context.splits)
  ultimately show ?thesis by blast
qed

theorem breakpoint_request_outcome_witness:
  "rq_mock_response (fst (snd (snd (bp_request_resume
      \<lparr>br_id = ''r'', br_location = loc_default, br_type = BT_Request, br_tier = Tier_Body, br_enabled = True\<rparr>
      ''s'' ''b'' TimedOut bm_new rq_default)))) = Some timeout_response"
proof -
  let ?x = "bp_request_resume
      \<lparr>br_id = ''r'', br_location = loc_default, br_type = BT_Request, br_tier = Tier_Body, br_enabled = True\<rparr>
      ''s'' ''b'' TimedOut bm_new rq_default"
  obtain a m' ctx' ops where x: "?x = (a, m', ctx', ops)" by (cases ?x)
  from breakpoint_request_outcome [OF this] show ?thesis by (simp add: x)
qed

text \<open>An edit sent to the resolve endpoint comes back without the engine's side channel: the
  request that goes on has no destination override, no session id, no capture-filter flag
  and no protocol identity, whatever the paused request had.\<close>

theorem breakpoint_edit_drops_side_channel:
  assumes "resolution_of_request ''modify'' (Some (context_of_wire iter dec (BW_Request wire))) = resolution"
    and "bp_request_resume rule sid bp_id (Resolved resolution) m ctx = (a, m', ctx', ops)"
  shows "a = Continue \<and> rq_destination ctx' = None \<and> rq_session_id ctx' = None
    \<and> rq_skip_recording ctx' = False \<and> rq_protocol_context ctx' = None
    \<and> rq_uri ctx' = rqw_uri wire \<and> rq_method ctx' = rqw_method wire"
proof -
  have "resolution = BR_Modify (BC_Request (rq_of_wire iter wire))"
    using assms(1) by (simp add: resolution_of_request_def context_of_wire_def)
  with assms(2) show ?thesis
    by (auto simp: bp_request_resume_def rq_of_wire_def rq_default_def)
qed

theorem breakpoint_edit_drops_side_channel_witness:
  "rq_destination (fst (snd (snd (bp_request_resume
      \<lparr>br_id = ''r'', br_location = loc_default, br_type = BT_Request, br_tier = Tier_Body, br_enabled = True\<rparr>
      ''s'' ''b'' (Resolved (resolution_of_request ''modify'' (Some (context_of_wire (\<lambda>_. []) (\<lambda>_. None)
         (BW_Request (rq_to_wire (rq_default\<lparr>rq_destination := Some ''http://staging''\<rparr>)))))))
      bm_new (rq_default\<lparr>rq_destination := Some ''http://staging''\<rparr>))))) = None"
proof -
  let ?w = "rq_to_wire (rq_default\<lparr>rq_destination := Some ''http://staging''\<rparr>)"
  let ?r = "resolution_of_request ''modify'' (Some (context_of_wire (\<lambda>_. []) (\<lambda>_. None) (BW_Request ?w)))"
  let ?rule = "\<lparr>br_id = ''r'', br_location = loc_default, br_type = BT_Request, br_tier = Tier_Body, br_enabled = True\<rparr>"
  obtain a m' ctx' ops where x: "bp_request_resume ?rule ''s'' ''b'' (Resolved ?r) bm_new
     (rq_default\<lparr>rq_destination := Some ''http://staging''\<rparr>) = (a, m', ctx', ops)"
    by (cases "bp_request_resume ?rule ''s'' ''b'' (Resolved ?r) bm_new
     (rq_default\<lparr>rq_destination := Some ''http://staging''\<rparr>)")
  from breakpoint_edit_drops_side_channel [OF refl this] show ?thesis by (simp add: x)
qed

end
