(* ===== verification/Grpc.thy ===== *)
theory Grpc
  imports Breakpoints
begin

text \<open>
  \<open>middleware/plugins/grpc_inspector.rs\<close>: the schema-less protobuf decoder, the
  incremental splitter of length-prefixed gRPC frames, and the stream observer that pauses,
  records and re-emits messages.

  Positions in a buffer are \<open>nat\<close>; the one addition that an attacker controls,
  \<open>pos + len\<close> with a decoded 64-bit \<open>len\<close>, is taken modulo \<open>2 ^ 64\<close> as in a
  release build, and a slice with its start after its end is the value \<open>Panic\<close>.
\<close>

unbundle bit_operations_syntax

section \<open>Variable-length integers\<close>

function varint_loop :: "bytes \<Rightarrow> nat \<Rightarrow> u64 \<Rightarrow> nat \<Rightarrow> (u64 \<times> nat) option" where
  "varint_loop data pos result shift =
     (if pos \<ge> length data \<or> shift \<ge> 64 then None
      else let b = data ! pos;
               result' = result OR push_bit shift (ucast (b AND 0x7f))
           in if b AND 0x80 = 0 then Some (result', Suc pos)
              else varint_loop data (Suc pos) result' (shift + 7))"
  by pat_completeness auto
termination by (relation "measure (\<lambda>(data, pos, _, _). length data - pos)") auto

declare varint_loop.simps [simp del]

definition read_varint :: "bytes \<Rightarrow> nat \<Rightarrow> (u64 \<times> nat) option" where
  "read_varint data pos = map_option (\<lambda>(v, p). (v, p - pos)) (varint_loop data pos 0 0)"

section \<open>Schema-less decoding\<close>

definition hex_digit :: "nat \<Rightarrow> char" where
  "hex_digit n = ''0123456789abcdef'' ! n"

definition hex_bytes :: "bytes \<Rightarrow> string" where
  "hex_bytes bs = concat (map (\<lambda>b. [hex_digit (unat b div 16), hex_digit (unat b mod 16)]) bs)"

definition slice :: "bytes \<Rightarrow> nat \<Rightarrow> nat \<Rightarrow> bytes" where
  "slice data a b = take (b - a) (drop a data)"

text \<open>The value of one field: \<open>Stop\<close> is the \<open>break\<close> of the loop.\<close>

datatype field_value = Value json nat | Stop | Slice_Panic

definition usize_add :: "nat \<Rightarrow> nat \<Rightarrow> nat" where
  "usize_add a b = (a + b) mod 2 ^ 64"

definition length_delimited :: "bytes \<Rightarrow> nat \<Rightarrow> u64 \<Rightarrow> field_value" where
  "length_delimited data pos len =
     (let end_pos = usize_add pos (unat len)
      in if end_pos > length data then Stop
         else if pos > end_pos then Slice_Panic
         else let bs = slice data pos end_pos
              in Value (JString (case from_utf8 bs of Some s \<Rightarrow> s | None \<Rightarrow> hex_bytes bs)) end_pos)"

definition decode_value :: "bytes \<Rightarrow> nat \<Rightarrow> byte \<Rightarrow> field_value" where
  "decode_value data pos wire_type =
     (if wire_type = 0 then
        (case read_varint data pos of
           Some (v, n) \<Rightarrow> Value (JNumber (PosInt v)) (pos + n) | None \<Rightarrow> Stop)
      else if wire_type = 1 then
        (if pos + 8 > length data then Stop
         else Value (JString (hex_bytes (slice data pos (pos + 8)))) (pos + 8))
      else if wire_type = 2 then
        (case read_varint data pos of
           Some (len, n) \<Rightarrow> length_delimited data (pos + n) len | None \<Rightarrow> Stop)
      else if wire_type = 5 then
        (if pos + 4 > length data then Stop
         else Value (JString (hex_bytes (slice data pos (pos + 4)))) (pos + 4))
      else Stop)"

text \<open>The loop makes progress: a field takes at least its one-byte tag. \<open>acc\<close> are the
  fields pushed so far.\<close>

lemma varint_loop_progress: "varint_loop data pos r s = Some (v, p) \<Longrightarrow> pos < p \<and> p \<le> length data"
proof (induction data pos r s rule: varint_loop.induct)
  case (1 data pos r s)
  show ?case
  proof (cases "length data \<le> pos \<or> 64 \<le> s")
    case True
    with "1.prems" show ?thesis by (simp add: varint_loop.simps [of data pos])
  next
    case False
    show ?thesis
    proof (cases "data ! pos AND 0x80 = 0")
      case True
      with "1.prems" False show ?thesis by (auto simp: varint_loop.simps [of data pos] Let_def)
    next
      case more: False
      have "varint_loop data (Suc pos) (r OR push_bit s (ucast (data ! pos AND 0x7f))) (s + 7) = Some (v, p)"
        using "1.prems" False more by (simp add: varint_loop.simps [of data pos] Let_def)
      from "1.IH" [OF False refl refl more this] show ?thesis by simp
    qed
  qed
qed

lemma read_varint_progress: "read_varint data pos = Some (v, n) \<Longrightarrow> 0 < n \<and> pos + n \<le> length data"
  by (auto simp: read_varint_def dest: varint_loop_progress)

lemma length_delimited_progress:
  "length_delimited data pos len = Value v p \<Longrightarrow> pos \<le> p \<and> p \<le> length data"
  by (auto simp: length_delimited_def Let_def split: if_splits)

lemma decode_value_progress:
  "pos \<le> length data \<Longrightarrow> decode_value data pos w = Value v p \<Longrightarrow> pos \<le> p \<and> p \<le> length data"
proof -
  assume pos: "pos \<le> length data" and val: "decode_value data pos w = Value v p"
  show ?thesis
  proof (cases "w = 0 \<or> w = 2")
    case True
    show ?thesis
    proof (cases "read_varint data pos")
      case None
      with True val show ?thesis by (auto simp: decode_value_def)
    next
      case (Some xn)
      obtain x n where xn: "xn = (x, n)" by (cases xn)
      have n: "0 < n \<and> pos + n \<le> length data" using Some xn read_varint_progress by simp
      show ?thesis
      proof (cases "w = 0")
        case True
        with val Some xn n show ?thesis by (simp add: decode_value_def)
      next
        case False
        with \<open>w = 0 \<or> w = 2\<close> val Some xn have "length_delimited data (pos + n) x = Value v p"
          by (simp add: decode_value_def)
        from length_delimited_progress [OF this] show ?thesis by simp
      qed
    qed
  next
    case False
    with val pos show ?thesis by (simp add: decode_value_def split: if_splits)
  qed
qed

function decode_loop :: "bytes \<Rightarrow> nat \<Rightarrow> grpc_field list \<Rightarrow> grpc_field list or_panic" where
  "decode_loop data pos acc =
     (if pos < length data then
        (case read_varint data pos of
           None \<Rightarrow> Returns acc
         | Some (tag, n) \<Rightarrow>
             let field_number = ucast (drop_bit 3 tag); wire_type = ucast (tag AND 0x7)
             in case decode_value data (pos + n) wire_type of
                  Stop \<Rightarrow> Returns acc
                | Slice_Panic \<Rightarrow> Panic
                | Value v pos' \<Rightarrow> decode_loop data pos'
                    (acc @ [\<lparr>gf_field_number = field_number, gf_wire_type = wire_type, gf_value = v\<rparr>]))
      else Returns acc)"
  by pat_completeness auto
termination
proof (relation "measure (\<lambda>(data, pos, _). length data - pos)", goal_cases)
  case (2 data pos acc x tag n field_number wire_type v pos')
  have n: "0 < n \<and> pos + n \<le> length data"
    by (rule read_varint_progress [of data pos tag n]) (simp only: 2(2) 2(3))
  have "pos + n \<le> pos'"
    using decode_value_progress [of "pos + n" data wire_type v pos'] n 2(6) by simp
  with n have "pos < pos'" "pos < length data" by linarith+
  then show ?case by (simp add: diff_less_mono2)
qed simp

declare decode_loop.simps [simp del]

definition decode_wire_format :: "bytes \<Rightarrow> grpc_field list or_panic" where
  "decode_wire_format data = decode_loop data 0 []"

section \<open>Frames\<close>

record frame_splitter =
  sp_buf :: bytes

definition splitter_new :: frame_splitter where
  "splitter_new = \<lparr>sp_buf = []\<rparr>"

function split_loop :: "bytes \<Rightarrow> (bool \<times> bytes) list \<Rightarrow> (bool \<times> bytes) list \<times> bytes" where
  "split_loop buf out =
     (if length buf < 5 then (out, buf)
      else let msg_len = unat (of_be32 (buf ! 1) (buf ! 2) (buf ! 3) (buf ! 4));
               frame_len = 5 + msg_len
           in if length buf < frame_len then (out, buf)
              else split_loop (drop frame_len buf) (out @ [(buf ! 0 \<noteq> 0, slice buf 5 frame_len)]))"
  by pat_completeness auto
termination by (relation "measure (\<lambda>(buf, _). length buf)") auto

declare split_loop.simps [simp del]

definition splitter_push :: "frame_splitter \<Rightarrow> bytes \<Rightarrow> (bool \<times> bytes) list \<times> frame_splitter" where
  "splitter_push sp chunk =
     (case split_loop (sp_buf sp @ chunk) [] of (out, buf) \<Rightarrow> (out, sp\<lparr>sp_buf := buf\<rparr>))"

section \<open>The plugin\<close>

definition grpc_is_grpc :: "request_context \<Rightarrow> bool" where
  "grpc_is_grpc ctx \<longleftrightarrow> (case hm_get (rq_headers ctx) ''content-type'' of
     Some ct \<Rightarrow> starts_with ct ''application/grpc'' | None \<Rightarrow> False)"

function trim_start_matches :: "string \<Rightarrow> string \<Rightarrow> string" where
  "trim_start_matches pat s =
     (if pat \<noteq> [] \<and> prefix pat s then trim_start_matches pat (drop (length pat) s) else s)"
  by pat_completeness auto
termination by (relation "measure (\<lambda>(_, s). length s)") (auto simp: prefix_def)

declare trim_start_matches.simps [simp del]

definition grpc_parse_uri :: "string \<Rightarrow> string option \<times> string option" where
  "grpc_parse_uri u =
     (let path0 = trim_start_matches ''https://'' (trim_start_matches ''http://'' u);
          path = (case find_str ''/'' path0 of Some slash \<Rightarrow> drop slash path0 | None \<Rightarrow> path0);
          rest = trim_start_char (CHR ''/'') path
      in case split_once (CHR ''/'') rest of
           Some (a, b) \<Rightarrow> if a \<noteq> [] \<and> b \<noteq> [] then (Some a, Some b) else (None, None)
         | None \<Rightarrow> if rest \<noteq> [] then (Some rest, None) else (None, None))"

definition message_from_frame :: "string \<Rightarrow> bool \<Rightarrow> bytes \<Rightarrow> grpc_message or_panic" where
  "message_from_frame direction compressed proto =
     (case decode_wire_format proto of
        Returns acc \<Rightarrow> Returns \<lparr>gm_direction = direction, gm_compressed = compressed,
           gm_length = word_of_nat (length proto), gm_fields = acc\<rparr>
      | Panic \<Rightarrow> Panic)"

definition grpc_on_request :: "request_context \<Rightarrow> middleware_action \<times> request_context" where
  "grpc_on_request ctx =
     (if \<not> grpc_is_grpc ctx then (Continue, ctx)
      else let (service, verb) = grpc_parse_uri (rq_uri ctx)
           in (Continue, ctx\<lparr>rq_inspector := (rq_inspector ctx)\<lparr>id_grpc := Some
                \<lparr>gi_service = service, gi_method = verb, gi_messages = [], gi_grpc_status = None,
                 gi_grpc_status_message = None\<rparr>\<rparr>\<rparr>))"

record grpc_observer =
  go_session_id :: string
  go_request :: request_context
  go_response_head :: "response_context option"
  go_service :: "string option"
  go_method :: "string option"
  go_req_splitter :: frame_splitter
  go_res_splitter :: frame_splitter
  go_messages :: "grpc_message list"
  go_grpc_status :: "string option"
  go_grpc_status_message :: "string option"

definition grpc_stream_observer :: "request_context \<Rightarrow> grpc_observer option" where
  "grpc_stream_observer req =
     (if \<not> grpc_is_grpc req then None
      else case rq_session_id req of
             None \<Rightarrow> None
           | Some sid \<Rightarrow>
               let (service, verb) = grpc_parse_uri (rq_uri req)
               in Some \<lparr>go_session_id = sid, go_request = req, go_response_head = None,
                    go_service = service, go_method = verb, go_req_splitter = splitter_new,
                    go_res_splitter = splitter_new, go_messages = [], go_grpc_status = None,
                    go_grpc_status_message = None\<rparr>)"

definition grpc_middleware :: "('w, grpc_observer) middleware" where
  "grpc_middleware = (default_middleware ''GrpcInspectorMiddleware'')\<lparr>
     mwr_on_request := \<lambda>w c. case grpc_on_request c of (a, c') \<Rightarrow> (a, w, c'),
     mwr_body_hint := \<lambda>c. if grpc_is_grpc c then StreamingInspect Gran_Messages else FullBody,
     mwr_stream_observer := grpc_stream_observer\<rparr>"

section \<open>The stream observer\<close>

definition go_on_response_head :: "grpc_observer \<Rightarrow> response_context \<Rightarrow> grpc_observer" where
  "go_on_response_head go res = go\<lparr>go_response_head := Some res,
     go_grpc_status := hm_get (rs_headers res) ''grpc-status'',
     go_grpc_status_message := hm_get (rs_headers res) ''grpc-message''\<rparr>"

definition go_message_protocol_context :: "grpc_observer \<Rightarrow> protocol_context" where
  "go_message_protocol_context go =
     (case rq_protocol_context (go_request go) of Some p \<Rightarrow> p | None \<Rightarrow> pc_default)
       \<lparr>pc_application := App_Grpc, pc_body_mode := Body_StreamMessages\<rparr>"

definition bool_text :: "bool \<Rightarrow> string" where
  "bool_text b = (if b then ''true'' else ''false'')"

definition go_request_context :: "grpc_observer \<Rightarrow> bool \<Rightarrow> bytes \<Rightarrow> request_context" where
  "go_request_context go compressed proto =
     (let ctx = (go_request go)\<lparr>rq_session_id := Some (go_session_id go), rq_body := proto,
            rq_protocol_context := Some (go_message_protocol_context go)\<rparr>;
          h1 = snd (hm_insert (rq_headers ctx) ''x-oproxy-grpc-direction'' ''request'')
      in ctx\<lparr>rq_headers := snd (hm_insert h1 ''x-oproxy-grpc-compressed'' (bool_text compressed))\<rparr>)"

definition go_response_context :: "grpc_observer \<Rightarrow> bool \<Rightarrow> bytes \<Rightarrow> response_context" where
  "go_response_context go compressed proto =
     (let ctx0 = (case go_response_head go of Some r \<Rightarrow> r
            | None \<Rightarrow> rs_default\<lparr>rs_status := 200, rs_request_uri := rq_uri (go_request go),
                 rs_session_id := Some (go_session_id go), rs_request_host := rq_host (go_request go),
                 rs_request_method := rq_method (go_request go),
                 rs_protocol_context := Some (go_message_protocol_context go)\<rparr>);
          ctx1 = (if rs_request_uri ctx0 = [] then ctx0\<lparr>rs_request_uri := rq_uri (go_request go)\<rparr> else ctx0);
          ctx2 = (if rs_request_host ctx1 = [] then ctx1\<lparr>rs_request_host := rq_host (go_request go)\<rparr> else ctx1);
          ctx3 = (if rs_request_method ctx2 = [] then ctx2\<lparr>rs_request_method := rq_method (go_request go)\<rparr>
                  else ctx2);
          ctx = ctx3\<lparr>rs_session_id := Some (go_session_id go), rs_body := proto,
            rs_protocol_context := Some (go_message_protocol_context go)\<rparr>;
          h1 = snd (hm_insert (rs_headers ctx) ''x-oproxy-grpc-direction'' ''response'')
      in ctx\<lparr>rs_headers := snd (hm_insert h1 ''x-oproxy-grpc-compressed'' (bool_text compressed))\<rparr>)"

text \<open>\<open>pause_frame\<close> of the manager over the shared state.\<close>

definition pause_frame ::
    "regex_lib \<Rightarrow> 'w bp_world \<Rightarrow> string \<Rightarrow> bp_context \<Rightarrow> 'w \<Rightarrow> bp_resolution \<times> 'w" where
  "pause_frame rx bw sid context w =
     (let (bp_id, w1) = bw_uuid bw w
      in case frame_pause rx sid bp_id context (bw_manager bw w) of
           (m, None) \<Rightarrow> (BR_Continue, w)
         | (_, Some ops) \<Rightarrow>
             let (m, _) = frame_pause rx sid bp_id context (bw_manager bw w1);
                 (outcome, w2) = bw_await bw bp_id (bw_set_manager bw m (bw_emit bw ops w1));
                 (resolution, m', ops') = frame_resume sid bp_id outcome (bw_manager bw w2)
             in (resolution, bw_emit bw ops' (bw_set_manager bw m' w2)))"

definition go_pause_message ::
    "regex_lib \<Rightarrow> 'w bp_world \<Rightarrow> grpc_observer \<Rightarrow> bool \<Rightarrow> bool \<Rightarrow> bytes \<Rightarrow> 'w \<Rightarrow> bp_resolution \<times> 'w" where
  "go_pause_message rx bw go is_request compressed proto w =
     (if \<not> has_frame_rules (bw_manager bw w) then (BR_Continue, w)
      else pause_frame rx bw (go_session_id go)
        (if is_request then BC_Request (go_request_context go compressed proto)
         else BC_Response (go_response_context go compressed proto)) w)"

definition direction_text :: "bool \<Rightarrow> string" where
  "direction_text is_request = (if is_request then ''request'' else ''response'')"

definition go_record_message ::
    "bool \<Rightarrow> bool \<Rightarrow> bytes \<Rightarrow> grpc_observer \<Rightarrow> grpc_observer or_panic" where
  "go_record_message is_request compressed proto go =
     (case message_from_frame (direction_text is_request) compressed proto of
        Returns m \<Rightarrow> Returns (go\<lparr>go_messages := go_messages go @ [m]\<rparr>) | Panic \<Rightarrow> Panic)"

definition resolution_body :: "bp_context \<Rightarrow> bytes" where
  "resolution_body c = (case c of BC_Request r \<Rightarrow> rq_body r | BC_Response r \<Rightarrow> rs_body r)"

text \<open>The loop over the complete frames: the bytes to emit, the observer and the state.\<close>

fun frames_loop ::
    "(grpc_observer \<Rightarrow> bool \<Rightarrow> bytes \<Rightarrow> 'w \<Rightarrow> bp_resolution \<times> 'w) \<Rightarrow> bool \<Rightarrow> (bool \<times> bytes) list \<Rightarrow>
     bytes \<Rightarrow> grpc_observer \<Rightarrow> 'w \<Rightarrow> (bytes \<times> grpc_observer \<times> 'w) or_panic" where
  "frames_loop pause is_request [] out go w = Returns (out, go, w)"
| "frames_loop pause is_request ((compressed, proto) # frames) out go w =
     (case pause go compressed proto w of
        (BR_Continue, w') \<Rightarrow>
          (case go_record_message is_request compressed proto go of
             Panic \<Rightarrow> Panic
           | Returns go' \<Rightarrow> frames_loop pause is_request frames (out @ encode_grpc_frame compressed proto) go' w')
      | (BR_Drop, w') \<Rightarrow> frames_loop pause is_request frames out go w'
      | (BR_Modify ctx, w') \<Rightarrow>
          (let modified = resolution_body ctx
           in case go_record_message is_request compressed modified go of
                Panic \<Rightarrow> Panic
              | Returns go' \<Rightarrow>
                  frames_loop pause is_request frames (out @ encode_grpc_frame compressed modified) go' w'))"

definition go_handle_frames ::
    "(grpc_observer \<Rightarrow> bool \<Rightarrow> bytes \<Rightarrow> 'w \<Rightarrow> bp_resolution \<times> 'w) \<Rightarrow> bool \<Rightarrow> bytes \<Rightarrow> grpc_observer \<Rightarrow> 'w \<Rightarrow>
     (bytes \<times> grpc_observer \<times> 'w) or_panic" where
  "go_handle_frames pause is_request chunk go w =
     (if is_request then
        (case splitter_push (go_req_splitter go) chunk of
           (frames, sp) \<Rightarrow> frames_loop pause True frames [] (go\<lparr>go_req_splitter := sp\<rparr>) w)
      else
        (case splitter_push (go_res_splitter go) chunk of
           (frames, sp) \<Rightarrow> frames_loop pause False frames [] (go\<lparr>go_res_splitter := sp\<rparr>) w))"

definition go_finish :: "grpc_observer \<Rightarrow> write_op list" where
  "go_finish go =
     map (\<lambda>m. WO_AppendEvent (go_session_id go) (Ev_GrpcMessage (gm_direction m) m)) (go_messages go)
     @ [WO_UpdateInspectorData (go_session_id go) (id_default\<lparr>id_grpc := Some
          \<lparr>gi_service = go_service go, gi_method = go_method go, gi_messages = go_messages go,
           gi_grpc_status = go_grpc_status go, gi_grpc_status_message = go_grpc_status_message go\<rparr>\<rparr>)]"

section \<open>Lemmas on integers and fields\<close>

text \<open>The encoder of protobuf, the reference for the decoder.\<close>

function encode_varint :: "u64 \<Rightarrow> bytes" where
  "encode_varint w =
     (if drop_bit 7 w = 0 then [ucast w]
      else (ucast (take_bit 7 w) OR 0x80) # encode_varint (drop_bit 7 w))"
  by pat_completeness auto
termination
proof (relation "measure unat", goal_cases)
  case (2 w)
  then have "w \<noteq> 0" by auto
  then have "0 < unat w" by (simp add: unat_gt_0)
  then show ?case by (simp add: drop_bit_eq_div unat_div)
qed simp

declare encode_varint.simps [simp del]

lemma mask7: "(0x7f :: byte) = mask 7"
  by (simp add: mask_eq_exp_minus_1)

lemma bit_0x80: "bit (0x80 :: byte) n \<longleftrightarrow> n = 7"
proof -
  have "(0x80 :: byte) = 2 ^ 7" by simp
  then show ?thesis by (simp only: bit_exp_iff) auto
qed

lemma low_byte:
  fixes w :: u64
  assumes "drop_bit 7 w = 0"
  shows "(ucast w :: byte) AND 0x80 = 0" and "(ucast ((ucast w :: byte) AND 0x7f) :: u64) = w"
proof -
  have low: "\<not> bit w n" if "7 \<le> n" for n
  proof -
    have "bit (drop_bit 7 w) (n - 7) \<longleftrightarrow> bit w n" using that by (simp add: bit_drop_bit_eq)
    with assms show ?thesis by simp
  qed
  show "(ucast w :: byte) AND 0x80 = 0"
    by (rule bit_word_eqI) (simp only: bit_and_iff bit_0x80 bit_unsigned_iff, auto simp: low)
  show "(ucast ((ucast w :: byte) AND 0x7f) :: u64) = w"
  proof (rule bit_word_eqI)
    fix n assume "n < LENGTH(64)"
    then show "bit (ucast ((ucast w :: byte) AND 0x7f) :: u64) n = bit w n"
      using low [of n]
      by (simp only: mask7 bit_and_iff bit_unsigned_iff bit_mask_iff) (cases "n < 7", auto)
  qed
qed

lemma high_byte:
  fixes w :: u64
  defines "c \<equiv> (ucast (take_bit 7 w) OR 0x80) :: byte"
  shows "c AND 0x80 \<noteq> 0" and "(ucast (c AND 0x7f) :: u64) = take_bit 7 w"
proof -
  have "bit (c AND 0x80) 7" by (simp only: c_def bit_and_iff bit_or_iff bit_0x80) simp
  then show "c AND 0x80 \<noteq> 0" by auto
  show "(ucast (c AND 0x7f) :: u64) = take_bit 7 w"
    by (rule bit_word_eqI)
      (simp only: c_def mask7 bit_and_iff bit_or_iff bit_0x80 bit_unsigned_iff bit_mask_iff bit_take_bit_iff,
       auto)
qed

lemma push_bit_split:
  "push_bit s (take_bit 7 w) OR push_bit (s + 7) (drop_bit 7 w) = push_bit s (w :: u64)"
proof (rule bit_word_eqI)
  fix n assume "n < LENGTH(64)"
  have shift: "7 + (n - (s + 7)) = n - s" if "\<not> n - s < 7" using that by linarith
  show "bit (push_bit s (take_bit 7 w) OR push_bit (s + 7) (drop_bit 7 w)) n = bit (push_bit s w) n"
    using shift by (cases "n - s < 7") (auto simp: bit_simps)
qed

lemma varint_loop_encode:
  "unat v < 2 ^ (64 - s) \<Longrightarrow> s < 64 \<Longrightarrow> drop pos data = encode_varint v @ rest \<Longrightarrow>
   varint_loop data pos r s = Some (r OR push_bit s v, pos + length (encode_varint v))"
proof (induction v arbitrary: pos r s rule: encode_varint.induct)
  case (1 w)
  have len: "pos < length data" using "1.prems"(3) encode_varint.simps [of w]
    by (metis Nil_is_append_conv drop_all list.distinct(1) not_le)
  have hd: "data ! pos = hd (encode_varint w)"
    using "1.prems"(3) len encode_varint.simps [of w] by (metis hd_append2 hd_drop_conv_nth list.distinct(1))
  show ?case
  proof (cases "drop_bit 7 w = 0")
    case True
    then have e: "encode_varint w = [ucast w]" by (simp add: encode_varint.simps)
    then show ?thesis using len hd low_byte [OF True] "1.prems"(2)
      by (simp add: varint_loop.simps [of data pos] Let_def)
  next
    case False
    let ?c = "(ucast (take_bit 7 w) OR 0x80) :: byte"
    let ?v = "drop_bit 7 w"
    have e: "encode_varint w = ?c # encode_varint ?v" using False by (simp add: encode_varint.simps [of w])
    have pos: "0 < unat ?v" using False by (simp add: unat_gt_0)
    have div: "unat ?v = unat w div 128" by (simp add: drop_bit_eq_div unat_div)
    have "s + 7 < 64"
    proof (rule ccontr)
      assume "\<not> s + 7 < 64"
      then have "(2 :: nat) ^ (64 - s) \<le> 2 ^ 7" by (intro power_increasing) auto
      then have "unat w < 128" using "1.prems"(1) by simp
      then show False using pos div by simp
    qed
    moreover have "unat ?v < 2 ^ (64 - (s + 7))"
    proof -
      have "(2 :: nat) ^ (64 - s) = 2 ^ (64 - (s + 7)) * 128"
        using \<open>s + 7 < 64\<close> power_add [of "2 :: nat" "64 - (s + 7)" 7] by simp
      then show ?thesis using "1.prems"(1) div by (simp add: less_mult_imp_div_less)
    qed
    moreover have "drop (Suc pos) data = encode_varint ?v @ rest"
      using "1.prems"(3) e by (metis append_Cons drop_Suc list.sel(3) tl_drop)
    ultimately have "varint_loop data (Suc pos) (r OR push_bit s (take_bit 7 w)) (s + 7) =
       Some ((r OR push_bit s (take_bit 7 w)) OR push_bit (s + 7) ?v, Suc pos + length (encode_varint ?v))"
      by (intro "1.IH" [OF False])
    moreover have "varint_loop data pos r s = varint_loop data (Suc pos) (r OR push_bit s (take_bit 7 w)) (s + 7)"
      using len hd e high_byte [of w] "1.prems"(2) by (simp add: varint_loop.simps [of data pos] Let_def)
    ultimately show ?thesis by (simp add: e or.assoc push_bit_split)
  qed
qed

lemma read_varint_encode:
  assumes "drop pos data = encode_varint v @ rest"
  shows "read_varint data pos = Some (v, length (encode_varint v))"
proof -
  have "unat v < 2 ^ LENGTH(64)" by (rule unsigned_less)
  with varint_loop_encode [of v 0 pos data rest 0] assms show ?thesis by (simp add: read_varint_def)
qed

datatype proto_value = PVarint u64 | P64 bytes | PBytes bytes | P32 bytes

fun wire_type_of :: "proto_value \<Rightarrow> u64" where
  "wire_type_of (PVarint v) = 0"
| "wire_type_of (P64 bs) = 1"
| "wire_type_of (PBytes bs) = 2"
| "wire_type_of (P32 bs) = 5"

fun encode_value :: "proto_value \<Rightarrow> bytes" where
  "encode_value (PVarint v) = encode_varint v"
| "encode_value (P64 bs) = bs"
| "encode_value (PBytes bs) = encode_varint (word_of_nat (length bs)) @ bs"
| "encode_value (P32 bs) = bs"

fun value_ok :: "proto_value \<Rightarrow> bool" where
  "value_ok (PVarint v) \<longleftrightarrow> True"
| "value_ok (P64 bs) \<longleftrightarrow> length bs = 8"
| "value_ok (PBytes bs) \<longleftrightarrow> True"
| "value_ok (P32 bs) \<longleftrightarrow> length bs = 4"

fun value_json :: "proto_value \<Rightarrow> json" where
  "value_json (PVarint v) = JNumber (PosInt v)"
| "value_json (P64 bs) = JString (hex_bytes bs)"
| "value_json (PBytes bs) = JString (case from_utf8 bs of Some s \<Rightarrow> s | None \<Rightarrow> hex_bytes bs)"
| "value_json (P32 bs) = JString (hex_bytes bs)"

definition field_tag :: "u32 \<Rightarrow> proto_value \<Rightarrow> u64" where
  "field_tag n v = push_bit 3 (ucast n) OR wire_type_of v"

definition encode_field :: "u32 \<times> proto_value \<Rightarrow> bytes" where
  "encode_field nv = (case nv of (n, v) \<Rightarrow> encode_varint (field_tag n v) @ encode_value v)"

definition field_record :: "u32 \<times> proto_value \<Rightarrow> grpc_field" where
  "field_record nv = (case nv of (n, v) \<Rightarrow>
     \<lparr>gf_field_number = n, gf_wire_type = ucast (wire_type_of v), gf_value = value_json v\<rparr>)"

lemma mask3: "(0x7 :: u64) = mask 3"
  by (simp add: mask_eq_exp_minus_1)

lemma wire_type_small: "take_bit 3 (wire_type_of v) = wire_type_of v"
  by (cases v) simp_all

lemma field_tag_parts:
  "ucast (drop_bit 3 (field_tag n v)) = n" "field_tag n v AND 0x7 = wire_type_of v"
proof -
  have low: "bit (wire_type_of v) k \<Longrightarrow> k < 3" for k
    using wire_type_small [of v] by (metis bit_take_bit_iff)
  have high: "\<not> bit (wire_type_of v) (3 + k)" for k using low [of "3 + k"] by auto
  show "ucast (drop_bit 3 (field_tag n v)) = n"
    by (rule bit_word_eqI)
      (simp only: field_tag_def bit_unsigned_iff bit_drop_bit_eq bit_or_iff comp_def bit_push_bit_iff high, auto)
  show "field_tag n v AND 0x7 = wire_type_of v"
  proof (rule bit_word_eqI)
    fix k assume "k < LENGTH(64)"
    show "bit (field_tag n v AND 0x7) k = bit (wire_type_of v) k"
      using low [of k]
      by (simp only: field_tag_def mask3 bit_and_iff bit_or_iff bit_mask_iff bit_push_bit_iff)
        (cases "k < 3", auto)
  qed
qed

lemma encode_varint_not_Nil [simp]: "encode_varint v \<noteq> []"
  by (simp add: encode_varint.simps [of v])

lemma decode_value_encode:
  assumes "drop pos data = encode_value v @ rest" and "value_ok v" and "length data < 2 ^ 64"
    and "pos \<le> length data"
  shows "decode_value data pos (ucast (wire_type_of v)) = Value (value_json v) (pos + length (encode_value v))"
proof (cases v)
  case (PVarint w)
  with assms read_varint_encode [of pos data w rest] show ?thesis by (simp add: decode_value_def)
next
  case (P64 bs)
  have "length (drop pos data) = length (bs @ rest)" using assms(1) P64 by simp
  moreover have "slice data pos (pos + 8) = bs" using assms(1,2) P64 by (simp add: slice_def)
  ultimately show ?thesis using assms(2,4) P64 by (simp add: decode_value_def)
next
  case (P32 bs)
  have "length (drop pos data) = length (bs @ rest)" using assms(1) P32 by simp
  moreover have "slice data pos (pos + 4) = bs" using assms(1,2) P32 by (simp add: slice_def)
  ultimately show ?thesis using assms(2,4) P32 by (simp add: decode_value_def)
next
  case (PBytes bs)
  let ?w = "word_of_nat (length bs) :: u64" and ?n = "length (encode_varint (word_of_nat (length bs) :: u64))"
  have eq: "drop pos data = encode_varint ?w @ (bs @ rest)" using assms(1) PBytes by simp
  have "length (drop pos data) = length (encode_varint ?w @ bs @ rest)" using eq by simp
  then have fits: "pos + ?n + length bs \<le> length data" using assms(4) by simp
  then have "unat ?w = length bs" using assms(3) by (simp add: unat_of_nat)
  moreover have "slice data (pos + ?n) (pos + ?n + length bs) = bs"
  proof -
    have "drop (pos + ?n) data = bs @ rest" using eq by (metis add.commute append_eq_conv_conj drop_drop)
    then show ?thesis by (simp add: slice_def)
  qed
  ultimately show ?thesis
    using PBytes fits assms(3) read_varint_encode [OF eq]
    by (simp add: decode_value_def length_delimited_def usize_add_def Let_def)
qed

lemma decode_loop_encode:
  "drop pos data = concat (map encode_field fs) \<Longrightarrow> pos \<le> length data \<Longrightarrow> length data < 2 ^ 64 \<Longrightarrow>
   list_all (value_ok \<circ> snd) fs \<Longrightarrow> decode_loop data pos acc = Returns (acc @ map field_record fs)"
proof (induction fs arbitrary: pos acc)
  case Nil
  then show ?case by (simp add: decode_loop.simps [of data pos])
next
  case (Cons nv fs)
  obtain n v where nv: "nv = (n, v)" by (cases nv)
  let ?t = "length (encode_varint (field_tag n v))"
  have eq: "drop pos data = encode_varint (field_tag n v) @ (encode_value v @ concat (map encode_field fs))"
  proof -
    have "encode_field nv = encode_varint (field_tag n v) @ encode_value v" by (simp add: nv encode_field_def)
    then show ?thesis using Cons.prems(1) by simp
  qed
  have eq2: "drop (pos + ?t) data = encode_value v @ concat (map encode_field fs)"
    using eq by (metis add.commute append_eq_conv_conj drop_drop)
  have lens: "length data - pos = ?t + length (encode_value v) + length (concat (map encode_field fs))"
    using arg_cong [OF eq, of length] by simp
  have "0 < ?t" by simp
  then have pos: "pos < length data" and le: "pos + ?t \<le> length data"
    and le2: "pos + ?t + length (encode_value v) \<le> length data"
    using lens Cons.prems(2) by linarith+
  have val: "decode_value data (pos + ?t) (ucast (wire_type_of v))
      = Value (value_json v) (pos + ?t + length (encode_value v))"
    using decode_value_encode [OF eq2 _ Cons.prems(3) le] Cons.prems(4) by (simp add: nv)
  have "drop (pos + ?t + length (encode_value v)) data = concat (map encode_field fs)"
    using eq2 by (metis add.commute append_eq_conv_conj drop_drop)
  from Cons.IH [OF this le2 Cons.prems(3)] Cons.prems(4)
  have "decode_loop data (pos + ?t + length (encode_value v)) (acc @ [field_record nv])
      = Returns ((acc @ [field_record nv]) @ map field_record fs)" by simp
  then show ?case
    using pos read_varint_encode [OF eq] val
    by (simp add: decode_loop.simps [of data pos] Let_def field_tag_parts field_record_def nv)
qed

section \<open>Lemmas on frames\<close>

abbreviation frame_size :: "bytes \<Rightarrow> nat" where
  "frame_size buf \<equiv> 5 + unat (of_be32 (buf ! 1) (buf ! 2) (buf ! 3) (buf ! 4))"

lemma split_loop_short:
  "length buf < 5 \<or> length buf < frame_size buf \<Longrightarrow> split_loop buf out = (out, buf)"
  by (auto simp: split_loop.simps [of buf] Let_def)

lemma split_loop_step:
  "frame_size buf \<le> length buf \<Longrightarrow>
   split_loop buf out = split_loop (drop (frame_size buf) buf) (out @ [(buf ! 0 \<noteq> 0, slice buf 5 (frame_size buf))])"
  by (subst split_loop.simps) (simp add: Let_def)

lemma split_loop_acc:
  "split_loop buf out = (out @ fst (split_loop buf []), snd (split_loop buf []))"
proof (induction buf arbitrary: out rule: length_induct)
  case (1 buf)
  show ?case
  proof (cases "frame_size buf \<le> length buf")
    case False
    then show ?thesis by (simp add: split_loop_short)
  next
    case True
    let ?f = "(buf ! 0 \<noteq> 0, slice buf 5 (frame_size buf))"
    have "length (drop (frame_size buf) buf) < length buf" using True by simp
    note IH = "1.IH" [rule_format, OF this]
    show ?thesis
      using IH [of "out @ [?f]"] IH [of "[?f]"] by (simp add: split_loop_step [OF True])
  qed
qed

lemma split_loop_Nil: "split_loop [] out = (out, [])"
  by (simp add: split_loop_short)

text \<open>Splitting is incremental: what is left over is split with the bytes that follow.\<close>

lemma split_loop_append:
  "split_loop (buf @ c) [] =
     (fst (split_loop buf []) @ fst (split_loop (snd (split_loop buf []) @ c) []),
      snd (split_loop (snd (split_loop buf []) @ c) []))"
proof (induction buf rule: length_induct)
  case (1 buf)
  show ?case
  proof (cases "5 \<le> length buf \<and> frame_size buf \<le> length buf")
    case False
    then have "split_loop buf [] = ([], buf)" by (intro split_loop_short) auto
    then show ?thesis by simp
  next
    case True
    let ?f = "(buf ! 0 \<noteq> 0, slice buf 5 (frame_size buf))"
    let ?d = "drop (frame_size buf) buf"
    have "0 < length buf" using True by linarith
    have size: "frame_size (buf @ c) = frame_size buf" using True by (simp add: nth_append)
    then have le: "frame_size (buf @ c) \<le> length (buf @ c)" using True by simp
    have "(buf @ c) ! 0 = buf ! 0" "slice (buf @ c) 5 (frame_size buf) = slice buf 5 (frame_size buf)"
      "drop (frame_size buf) (buf @ c) = ?d @ c"
      using True \<open>0 < length buf\<close> by (simp_all add: nth_append slice_def)
    then have "split_loop (buf @ c) [] = split_loop (?d @ c) [?f]"
      using split_loop_step [OF le, of "[]"] unfolding size by simp
    moreover have "split_loop buf [] = split_loop ?d [?f]" using split_loop_step [of buf "[]"] True by simp
    moreover have "length ?d < length buf"
      using True \<open>0 < length buf\<close> unfolding length_drop by linarith
    note "1.IH" [rule_format, OF this]
    ultimately show ?thesis
      using split_loop_acc [of "?d @ c" "[?f]"] split_loop_acc [of ?d "[?f]"] by simp
  qed
qed

lemma split_encoded:
  assumes "length p < 2 ^ 32"
  shows "split_loop (encode_grpc_frame z p @ rest) [] =
     ((z, p) # fst (split_loop rest []), snd (split_loop rest []))"
proof -
  obtain a b c d where e: "encode_grpc_frame z p = (if z then 1 else 0) # a # b # c # d # p"
    and n: "of_be32 a b c d = word_of_nat (length p)"
    using encode_grpc_frame_shape by blast
  let ?buf = "encode_grpc_frame z p @ rest"
  have "unat (of_be32 a b c d) = length p" using n assms by (simp add: unat_of_nat)
  then have size: "frame_size ?buf = 5 + length p" by (simp add: e)
  then have le: "frame_size ?buf \<le> length ?buf" by simp
  have "(?buf ! 0 \<noteq> 0) = z" "slice ?buf 5 (5 + length p) = p" by (simp_all add: e slice_def)
  moreover have "drop (length p) (drop 5 ?buf) = drop (5 + length p) ?buf" by (simp only: drop_drop add.commute)
  moreover have "drop (length p) (drop 5 ?buf) = rest" by (simp add: e)
  ultimately show ?thesis
    using split_loop_step [OF le, of "[]"] split_loop_acc [of rest "[(z, p)]"] unfolding size by (simp only: fst_conv snd_conv append_Nil append_Cons)
qed

lemma split_encoded_list:
  "list_all (\<lambda>(z, p). length p < 2 ^ 32) fs \<Longrightarrow>
   split_loop (concat (map (\<lambda>(z, p). encode_grpc_frame z p) fs) @ rest) [] =
     (fs @ fst (split_loop rest []), snd (split_loop rest []))"
  by (induction fs) (auto simp: split_encoded)

text \<open>Feeding a list of chunks.\<close>

fun push_all :: "frame_splitter \<Rightarrow> bytes list \<Rightarrow> (bool \<times> bytes) list \<times> frame_splitter" where
  "push_all sp [] = ([], sp)"
| "push_all sp (c # cs) =
     (case splitter_push sp c of (out, sp') \<Rightarrow>
        (case push_all sp' cs of (out', sp'') \<Rightarrow> (out @ out', sp'')))"

lemma push_all_concat:
  "snd (split_loop (sp_buf sp) []) = sp_buf sp \<Longrightarrow> fst (split_loop (sp_buf sp) []) = [] \<Longrightarrow>
   push_all sp cs = splitter_push sp (concat cs)"
proof (induction cs arbitrary: sp)
  case Nil
  then show ?case by (simp add: splitter_push_def split_beta)
next
  case (Cons c cs)
  let ?r = "split_loop (sp_buf sp @ c) []"
  have idem: "split_loop (snd (split_loop b [])) [] = ([], snd (split_loop b []))" for b
    using split_loop_append [of b "[]"] by (metis append_Nil2 append_self_conv fst_conv prod.collapse snd_conv)
  have "push_all (sp\<lparr>sp_buf := snd ?r\<rparr>) cs = splitter_push (sp\<lparr>sp_buf := snd ?r\<rparr>) (concat cs)"
    by (rule Cons.IH) (simp_all add: idem)
  then show ?case
    using split_loop_append [of "sp_buf sp @ c" "concat cs"]
    by (simp add: splitter_push_def split_beta)
qed

section \<open>Properties\<close>

text \<open>C17: the schema-less decoder inverts the protobuf wire format: a message below 2 to the 64
  bytes that is the concatenation of encoded fields (varint, 64-bit, length-delimited or 32-bit)
  decodes to exactly these fields, in order, with their numbers, wire types and rendered values,
  and never panics.\<close>

theorem decode_roundtrip:
  assumes "list_all (value_ok \<circ> snd) fs" and "length (concat (map encode_field fs)) < 2 ^ 64"
  shows "decode_wire_format (concat (map encode_field fs)) = Returns (map field_record fs)"
  using decode_loop_encode [of 0 "concat (map encode_field fs)" fs "[]"] assms
  by (simp add: decode_wire_format_def)

theorem decode_roundtrip_witness:
  "decode_wire_format (concat (map encode_field [(1, PVarint 300), (2, PBytes [104, 105]), (3, P32 [1, 2, 3, 4])]))
     = Returns (map field_record [(1, PVarint 300), (2, PBytes [104, 105]), (3, P32 [1, 2, 3, 4])])"
proof (rule decode_roundtrip)
  have "length (concat (map encode_field [(1, PVarint 300), (2, PBytes [104, 105]), (3, P32 [1, 2, 3, 4])])) = 12"
    by code_simp
  then show "length (concat (map encode_field
      [(1, PVarint 300), (2, PBytes [104, 105]), (3, P32 [1, 2, 3, 4])])) < 2 ^ 64" by simp
qed simp

text \<open>On a length-delimited field whose declared length makes \<open>pos + len\<close> wrap around
  below the position, the decoder panics on the slice instead of stopping: eleven bytes are
  enough.\<close>

theorem decode_panics:
  "decode_wire_format [10, 255, 255, 255, 255, 255, 255, 255, 255, 255, 1] = Panic"
  (is "decode_wire_format ?d = Panic")
proof -
  have "read_varint ?d 0 = Some (10, 1)" by (simp add: read_varint_def varint_loop.simps)
  moreover have "read_varint ?d 1 = Some (18446744073709551615, 10)"
    by (simp add: read_varint_def varint_loop.simps)
  ultimately show ?thesis
    by (simp add: decode_wire_format_def decode_loop.simps decode_value_def length_delimited_def
        usize_add_def)
qed

text \<open>The frame splitter does not depend on how the network cuts the stream: whatever
  chunks a sequence of frames (each below 2 to the 32 bytes) and an incomplete last frame arrive
  in, the splitter hands out exactly these frames, in order, and keeps the incomplete rest.\<close>

theorem splitter_chunks:
  assumes "concat cs = concat (map (\<lambda>(z, p). encode_grpc_frame z p) fs) @ rest"
    and "list_all (\<lambda>(z, p). length p < 2 ^ 32) fs"
    and "length rest < 5 \<or> length rest < frame_size rest"
  shows "push_all splitter_new cs = (fs, \<lparr>sp_buf = rest\<rparr>)"
proof -
  have "push_all splitter_new cs = splitter_push splitter_new (concat cs)"
    by (rule push_all_concat) (simp_all add: splitter_new_def split_loop_Nil)
  moreover have "split_loop rest [] = ([], rest)" using assms(3) by (rule split_loop_short)
  ultimately show ?thesis
    using split_encoded_list [OF assms(2), of rest]
    by (simp add: assms(1) splitter_push_def splitter_new_def)
qed

theorem splitter_chunks_witness:
  "push_all splitter_new [[0, 0, 0], [0, 2, 7], [8, 1, 0, 0, 0, 0, 0, 0]] =
     ([(False, [7, 8]), (True, [])], \<lparr>sp_buf = [0, 0]\<rparr>)"
  by (rule splitter_chunks) (simp_all add: encode_grpc_frame_def be32_def)

text \<open>The splitter of one direction of the observer, and what a recorded message says of
  its frame.\<close>

definition go_splitter :: "bool \<Rightarrow> grpc_observer \<Rightarrow> frame_splitter" where
  "go_splitter is_request go = (if is_request then go_req_splitter go else go_res_splitter go)"

definition message_heads :: "grpc_observer \<Rightarrow> (string \<times> bool \<times> u32) list" where
  "message_heads go = map (\<lambda>m. (gm_direction m, gm_compressed m, gm_length m)) (go_messages go)"

lemma splitter_of_recorded [simp]: "go_splitter d (go\<lparr>go_messages := ms\<rparr>) = go_splitter d go"
  by (simp add: go_splitter_def)

lemma heads_of_recorded [simp]:
  "message_heads (go\<lparr>go_messages := go_messages go @ [m]\<rparr>) =
     message_heads go @ [(gm_direction m, gm_compressed m, gm_length m)]"
  by (simp add: message_heads_def)

lemma frames_loop_transparent:
  assumes "\<And>go z p. pause go z p w = (BR_Continue, w)"
    and "list_all (\<lambda>(z, p). decode_wire_format p \<noteq> Panic) fs"
  shows "\<exists>go'. frames_loop pause d fs out go w =
       Returns (out @ concat (map (\<lambda>(z, p). encode_grpc_frame z p) fs), go', w)
     \<and> message_heads go' =
         message_heads go @ map (\<lambda>(z, p). (direction_text d, z, word_of_nat (length p))) fs
     \<and> go_splitter d go' = go_splitter d go"
  using assms(2)
proof (induction fs arbitrary: out go)
  case (Cons f fs)
  obtain z p acc where f: "f = (z, p)" and acc: "decode_wire_format p = Returns acc"
    using Cons.prems by (cases f, cases "decode_wire_format (snd f)") auto
  let ?m = "\<lparr>gm_direction = direction_text d, gm_compressed = z, gm_length = word_of_nat (length p), gm_fields = acc\<rparr>"
  have "go_record_message d z p go = Returns (go\<lparr>go_messages := go_messages go @ [?m]\<rparr>)"
    by (simp add: go_record_message_def message_from_frame_def acc)
  then show ?case
    using Cons.IH [of "out @ encode_grpc_frame z p" "go\<lparr>go_messages := go_messages go @ [?m]\<rparr>"] Cons.prems
    by (simp add: f assms(1))
qed simp

text \<open>C16: with no frame-level breakpoint the gRPC observer is transparent for well-formed
  frames: when the bytes kept from earlier chunks and a new chunk make up the frames \<open>fs\<close>
  (whose payloads the decoder accepts) and an incomplete rest, the call returns, it emits exactly
  the bytes of these frames, it records one message per frame with its direction, compressed flag
  and length, it keeps the rest for the next chunk, and it does not touch the shared state.\<close>

theorem grpc_relay_transparent:
  assumes "\<not> has_frame_rules (bw_manager bw w)"
    and "sp_buf (go_splitter d go) @ chunk = concat (map (\<lambda>(z, p). encode_grpc_frame z p) fs) @ rest"
    and "list_all (\<lambda>(z, p). length p < 2 ^ 32) fs"
    and "list_all (\<lambda>(z, p). decode_wire_format p \<noteq> Panic) fs"
    and "length rest < 5 \<or> length rest < frame_size rest"
  shows "\<exists>go'. go_handle_frames (\<lambda>go. go_pause_message rx bw go d) d chunk go w =
       Returns (concat (map (\<lambda>(z, p). encode_grpc_frame z p) fs), go', w)
     \<and> message_heads go' =
         message_heads go @ map (\<lambda>(z, p). (direction_text d, z, word_of_nat (length p))) fs
     \<and> sp_buf (go_splitter d go') = rest"
proof -
  have "split_loop rest [] = ([], rest)" using assms(5) by (rule split_loop_short)
  then have split: "splitter_push (go_splitter d go) chunk = (fs, (go_splitter d go)\<lparr>sp_buf := rest\<rparr>)"
    using split_encoded_list [OF assms(3), of rest] by (simp add: splitter_push_def assms(2))
  have "go_pause_message rx bw g d z p w = (BR_Continue, w)" for g z p
    using assms(1) by (simp add: go_pause_message_def)
  note loop = frames_loop_transparent [where pause = "\<lambda>go. go_pause_message rx bw go d", OF this assms(4),
      where d = d and out = "[]"]
  show ?thesis
    using split loop [of "go\<lparr>go_req_splitter := (go_splitter d go)\<lparr>sp_buf := rest\<rparr>\<rparr>"]
      loop [of "go\<lparr>go_res_splitter := (go_splitter d go)\<lparr>sp_buf := rest\<rparr>\<rparr>"]
    by (cases d) (auto simp: go_handle_frames_def go_splitter_def message_heads_def)
qed

text \<open>A splitter in the middle of a frame, and a chunk that completes it and another one.\<close>

definition sample_observer :: grpc_observer where
  "sample_observer = \<lparr>go_session_id = ''s'', go_request = rq_default, go_response_head = None,
     go_service = None, go_method = None, go_req_splitter = \<lparr>sp_buf = [0, 0, 0]\<rparr>,
     go_res_splitter = splitter_new, go_messages = [], go_grpc_status = None,
     go_grpc_status_message = None\<rparr>"

definition manager_world :: "bp_manager bp_world" where
  "manager_world = \<lparr>bw_manager = id, bw_set_manager = (\<lambda>m _. m), bw_emit = (\<lambda>_. id),
     bw_uuid = (\<lambda>m. (''b'', m)), bw_clock = (\<lambda>_ _. 0),
     bw_await = (\<lambda>_ m. (TimedOut, m))\<rparr>"

theorem grpc_relay_transparent_witness:
  "\<exists>go'. go_handle_frames (\<lambda>go. go_pause_message literal_regex manager_world go True) True
       [0, 2, 8, 42, 1, 0, 0, 0, 0, 0] sample_observer bm_new
     = Returns (concat (map (\<lambda>(z, p). encode_grpc_frame z p) [(False, [8, 42]), (True, [])]), go', bm_new)
     \<and> message_heads go' = message_heads sample_observer
         @ map (\<lambda>(z, p). (direction_text True, z, word_of_nat (length p))) [(False, [8, 42] :: bytes), (True, [])]
     \<and> sp_buf (go_splitter True go') = [0]"
proof (rule grpc_relay_transparent)
  show "\<not> has_frame_rules (bw_manager manager_world bm_new)"
    by (simp add: has_frame_rules_def manager_world_def bm_new_def)
  show "list_all (\<lambda>(z, p). decode_wire_format p \<noteq> Panic) [(False, [8, 42]), (True, [])]"
    by code_simp
qed (simp_all add: sample_observer_def go_splitter_def encode_grpc_frame_def be32_def)

end
