(* ===== verification/Recorder.thy ===== *)
theory Recorder
  imports SessionStore
begin

text \<open>
  How plugins and the engine reach the session manager. \<open>session_world\<close> is that part of
  the shared state: \<open>sw_emit\<close> hands operations to the session writer in order,
  \<open>sw_session\<close> is \<open>get_session\<close>, \<open>sw_wait\<close> is what the rest of the program
  does while an \<open>annotate\<close> or \<open>flush\<close> call awaits the writer's reply, and the
  clocks and identifiers come from outside.

  The locale \<open>recorder\<close> states what a client relies on; it is interpreted on the session
  manager of \<open>SessionStore\<close> with a log of the operations handed to it.
\<close>

record 'w session_world =
  sw_emit :: "write_op list \<Rightarrow> 'w \<Rightarrow> 'w"
  sw_session :: "string \<Rightarrow> 'w \<Rightarrow> exchange option"
  sw_wait :: "'w \<Rightarrow> 'w"
  sw_uuid :: "'w \<Rightarrow> string \<times> 'w"
  sw_now :: "'w \<Rightarrow> timestamp"
  sw_instant :: "'w \<Rightarrow> nat"

section \<open>Operations that answer a session\<close>

fun answers :: "string \<Rightarrow> write_op \<Rightarrow> bool" where
  "answers i (WO_RecordResponse j r) \<longleftrightarrow> i = j"
| "answers i (WO_RecordResponseWithMetrics j r m) \<longleftrightarrow> i = j"
| "answers i (WO_ImportSessions xs) \<longleftrightarrow> i \<in> ex_id ` set xs"
| "answers i (WO_LoadData m) \<longleftrightarrow> True"
| "answers i _ \<longleftrightarrow> False"

definition unanswered :: "string \<Rightarrow> session_store \<Rightarrow> bool" where
  "unanswered i s \<longleftrightarrow> im_wf (st_exchanges s) \<and>
     (\<forall>x. im_get (st_exchanges s) i = Some x \<longrightarrow> ex_response x = None)"

lemma unanswered_bodies: "ex_response x = None \<Longrightarrow> same_but_bodies x y \<Longrightarrow> ex_response y = None"
  by (auto simp: same_but_bodies_def clear_exchange_bodies_def)

lemma unanswered_enforce: "unanswered i s \<Longrightarrow> unanswered i (enforce_body_budget s)"
  using enforce_body_budget_get [of s i] unanswered_bodies
  by (auto simp: unanswered_def im_wf_def)

lemma unanswered_evict: "unanswered i s \<Longrightarrow> unanswered i (evict_session_if_full s j)"
  by (auto simp: evict_eq unanswered_def im_get_tl split: if_splits)

lemma unanswered_counter [simp]:
  "unanswered i (s\<lparr>st_body_bytes := b\<rparr>) = unanswered i s"
  "unanswered i (s\<lparr>st_exchanges := m, st_body_bytes := b\<rparr>) = unanswered i (s\<lparr>st_exchanges := m\<rparr>)"
  by (simp_all add: unanswered_def)

lemma unanswered_insert:
  "unanswered i s \<Longrightarrow> j \<noteq> i \<or> ex_response x = None \<Longrightarrow>
   unanswered i (s\<lparr>st_body_bytes := b, st_exchanges := im_insert (st_exchanges s) j x\<rparr>)"
  by (auto simp: unanswered_def im_get_insert)

lemma unanswered_update:
  "unanswered i s \<Longrightarrow> (\<And>x. j = i \<Longrightarrow> ex_response x = None \<Longrightarrow> ex_response (f x) = None) \<Longrightarrow>
   unanswered i (s\<lparr>st_exchanges := im_update (st_exchanges s) j f\<rparr>)"
  by (auto simp: unanswered_def im_get_update)

lemma unanswered_import:
  "unanswered i s \<Longrightarrow> i \<notin> ex_id ` set xs \<Longrightarrow> unanswered i (import_loop s xs)"
  by (induction s xs rule: import_loop.induct) (auto simp: Let_def unanswered_insert unanswered_evict)

lemma unanswered_record_response:
  "unanswered i s \<Longrightarrow> j \<noteq> i \<Longrightarrow> unanswered i (ss_record_response clock s j q m)"
  by (auto simp: ss_record_response_def intro!: unanswered_enforce unanswered_update
      split: option.split)

lemma unanswered_process:
  assumes "unanswered i s" and "\<not> answers i op"
  shows "unanswered i (fst (process_write_op clock op s))"
proof (cases op)
  case (WO_ImportSessions xs)
  with assms show ?thesis
    by (auto simp: process_write_op_def ss_import_def intro!: unanswered_enforce unanswered_import)
next
  case (WO_ClearSessions)
  then show ?thesis by (simp add: process_write_op_def ss_clear_def unanswered_def im_get_def)
qed (use assms in \<open>auto simp: process_write_op_def split_beta ss_record_request_def Let_def
       unanswered_record_response ss_append_ws_frame_def ss_append_event_def ss_annotate_def
       ss_update_inspector_data_def ss_set_paused_def new_exchange_def push_ws_frame_def
       push_event_def annotate_exchange_def
       intro!: unanswered_enforce unanswered_insert unanswered_evict unanswered_update\<close>)

interpretation writer_unanswered: writer_invariant "unanswered i" "\<lambda>op. \<not> answers i op" for i
  by unfold_locales (rule unanswered_process)

lemma reach_answered:
  assumes "sm_reach cap budget m log acc" and "get_session (sm_store m) i = Some x"
    and "ex_response x \<noteq> None"
  shows "\<exists>op \<in> set acc. answers i op"
proof (rule ccontr)
  assume "\<not> (\<exists>op \<in> set acc. answers i op)"
  then have "unanswered i (sm_store m)"
    using reach_invariant [OF assms(1) _ writer_unanswered.writer_invariant_axioms, of i]
    by (simp add: with_body_budget_def unanswered_def im_get_def)
  with assms(2,3) show False by (simp add: unanswered_def get_session_def)
qed

section \<open>The contract\<close>

locale recorder =
  fixes sw :: "'w session_world" and log :: "'w \<Rightarrow> write_op list" and ok :: "'w \<Rightarrow> bool"
  assumes emit_log: "ok w \<Longrightarrow> log (sw_emit sw ops w) = log w @ ops"
    and emit_ok: "ok w \<Longrightarrow> ok (sw_emit sw ops w)"
    and wait_log: "ok w \<Longrightarrow> log (sw_wait sw w) = log w"
    and wait_ok: "ok w \<Longrightarrow> ok (sw_wait sw w)"
    and uuid_log: "ok w \<Longrightarrow> log (snd (sw_uuid sw w)) = log w"
    and uuid_ok: "ok w \<Longrightarrow> ok (snd (sw_uuid sw w))"
    and answered_logged: "ok w \<Longrightarrow> sw_session sw i w = Some x \<Longrightarrow> ex_response x \<noteq> None \<Longrightarrow>
      \<exists>op \<in> set (log w). answers i op"
begin

text \<open>A step that only adds to the log.\<close>

definition extends :: "'w \<Rightarrow> 'w \<Rightarrow> bool" where
  "extends w w' \<longleftrightarrow> (ok w \<longrightarrow> ok w' \<and> set (log w) \<subseteq> set (log w'))"

definition answered :: "string \<Rightarrow> 'w \<Rightarrow> bool" where
  "answered i w \<longleftrightarrow> (\<exists>op \<in> set (log w). answers i op)"

lemma extends_refl [simp]: "extends w w"
  by (simp add: extends_def)

lemma extends_trans: "extends w w' \<Longrightarrow> extends w' w'' \<Longrightarrow> extends w w''"
  by (auto simp: extends_def)

lemma extends_emit [simp]: "extends w (sw_emit sw ops w)"
  by (auto simp: extends_def emit_log emit_ok)

lemma extends_wait [simp]: "extends w (sw_wait sw w)"
  by (auto simp: extends_def wait_log wait_ok)

lemma extends_after [simp]:
  "extends w v \<Longrightarrow> extends w (sw_emit sw ops v)" "extends w v \<Longrightarrow> extends w (sw_wait sw v)"
  by (blast intro: extends_trans extends_emit extends_wait)+

lemma extends_uuid [simp]: "extends w (snd (sw_uuid sw w))"
  by (auto simp: extends_def uuid_log uuid_ok)

lemma extends_ok: "extends w w' \<Longrightarrow> ok w \<Longrightarrow> ok w'"
  by (simp add: extends_def)

lemma answered_extends: "ok w \<Longrightarrow> extends w w' \<Longrightarrow> answered i w \<Longrightarrow> answered i w'"
  by (auto simp: extends_def answered_def)

lemma answered_emit: "ok w \<Longrightarrow> \<exists>op \<in> set ops. answers i op \<Longrightarrow> answered i (sw_emit sw ops w)"
  by (auto simp: answered_def emit_log)

lemma answered_session: "ok w \<Longrightarrow> sw_session sw i w = Some x \<Longrightarrow> ex_response x \<noteq> None \<Longrightarrow> answered i w"
  by (auto simp: answered_def dest: answered_logged)

end

section \<open>The session manager as a recorder\<close>

record recorder_state =
  rc_manager :: session_manager
  rc_log :: "write_op list"
  rc_fresh :: nat
  rc_wall :: timestamp
  rc_instant :: nat

definition drain :: "session_manager \<Rightarrow> session_manager" where
  "drain m = ((\<lambda>m. case writer_iteration (\<lambda>_. 0) m of Some m' \<Rightarrow> m' | None \<Rightarrow> m)
     ^^ length (sm_queue m)) m"

definition recorder_world :: "recorder_state session_world" where
  "recorder_world =
     \<lparr>sw_emit = (\<lambda>ops s. s\<lparr>rc_manager := foldl enqueue (rc_manager s) ops, rc_log := rc_log s @ ops\<rparr>),
      sw_session = (\<lambda>i s. get_session (sm_store (rc_manager s)) i),
      sw_wait = (\<lambda>s. s\<lparr>rc_manager := drain (rc_manager s)\<rparr>),
      sw_uuid = (\<lambda>s. (decimal (rc_fresh s), s\<lparr>rc_fresh := Suc (rc_fresh s)\<rparr>)),
      sw_now = rc_wall, sw_instant = rc_instant\<rparr>"

text \<open>The manager is reachable, and what its queue accepted was handed to it.\<close>

definition recorder_ok :: "recorder_state \<Rightarrow> bool" where
  "recorder_ok s \<longleftrightarrow>
     (\<exists>cap budget log acc. sm_reach cap budget (rc_manager s) log acc \<and> set acc \<subseteq> set (rc_log s))"

lemma reach_enqueue:
  "sm_reach cap budget m log acc \<Longrightarrow> \<exists>acc'. sm_reach cap budget (enqueue m op) log acc'
     \<and> set acc' \<subseteq> insert op (set acc)"
  by (cases "length (sm_queue m) < WRITE_QUEUE_CAPACITY")
    (force dest: sm_reach.accept [where op = op], blast dest: sm_reach.drop [where op = op])

lemma reach_enqueues:
  "sm_reach cap budget m log acc \<Longrightarrow> \<exists>acc'. sm_reach cap budget (foldl enqueue m ops) log acc'
     \<and> set acc' \<subseteq> set ops \<union> set acc"
proof (induction ops arbitrary: m acc)
  case (Cons op ops)
  from reach_enqueue [OF Cons.prems] obtain acc1 where
    1: "sm_reach cap budget (enqueue m op) log acc1" "set acc1 \<subseteq> insert op (set acc)" by blast
  from Cons.IH [OF 1(1)] obtain acc2 where
    "sm_reach cap budget (foldl enqueue (enqueue m op) ops) log acc2" "set acc2 \<subseteq> set ops \<union> set acc1" by blast
  with 1(2) show ?case by (intro exI [of _ acc2]) auto
qed auto

lemma reach_iterations:
  "sm_reach cap budget m log acc \<Longrightarrow> \<exists>log'. sm_reach cap budget
     (((\<lambda>m. case writer_iteration clk m of Some m' \<Rightarrow> m' | None \<Rightarrow> m) ^^ n) m) log' acc"
proof (induction n)
  case (Suc n)
  then obtain log' where r: "sm_reach cap budget
     (((\<lambda>m. case writer_iteration clk m of Some m' \<Rightarrow> m' | None \<Rightarrow> m) ^^ n) m) log' acc" by blast
  then show ?case
    by (cases "writer_iteration clk (((\<lambda>m. case writer_iteration clk m of Some m' \<Rightarrow> m' | None \<Rightarrow> m) ^^ n) m)")
      (auto dest: sm_reach.turn)
qed auto

interpretation rec: recorder recorder_world rc_log recorder_ok
proof unfold_locales
  fix w :: recorder_state and ops i x
  show "rc_log (sw_emit recorder_world ops w) = rc_log w @ ops"
    "rc_log (sw_wait recorder_world w) = rc_log w" "rc_log (snd (sw_uuid recorder_world w)) = rc_log w"
    by (simp_all add: recorder_world_def)
  assume ok: "recorder_ok w"
  then obtain cap budget lg acc where
    r: "sm_reach cap budget (rc_manager w) lg acc" "set acc \<subseteq> set (rc_log w)"
    by (auto simp: recorder_ok_def)
  show "recorder_ok (sw_emit recorder_world ops w)"
    using reach_enqueues [OF r(1), of ops] r(2) by (fastforce simp: recorder_ok_def recorder_world_def)
  show "recorder_ok (sw_wait recorder_world w)"
    using reach_iterations [OF r(1)] r(2) by (fastforce simp: recorder_ok_def recorder_world_def drain_def)
  show "recorder_ok (snd (sw_uuid recorder_world w))"
    using ok by (simp add: recorder_ok_def recorder_world_def)
  assume "sw_session recorder_world i w = Some x" "ex_response x \<noteq> None"
  then show "\<exists>op \<in> set (rc_log w). answers i op"
    using reach_answered [OF r(1), of i x] r(2) by (auto simp: recorder_world_def)
qed

definition recorder_start :: "nat \<Rightarrow> nat \<Rightarrow> recorder_state" where
  "recorder_start cap budget = \<lparr>rc_manager = with_body_budget cap budget, rc_log = [], rc_fresh = 0,
     rc_wall = 0, rc_instant = 0\<rparr>"

lemma recorder_start_ok [simp]: "recorder_ok (recorder_start cap budget)"
  using sm_reach.start [of cap budget] by (force simp: recorder_ok_def recorder_start_def)

end
