(* ===== verification/Inspectors.thy ===== *)
theory Inspectors
  imports Chain Recorder
begin

text \<open>
  The plugins that record and annotate an exchange: \<open>jwt_inspector.rs\<close>,
  \<open>graphql_inspector.rs\<close> and \<open>inspection.rs\<close> of \<open>middleware/plugins\<close>.

  They reach the session store through \<open>session_world\<close>. Base64, JSON and GraphQL parsing are third-party code and stay parameters; so does
  \<open>lc\<close>, the Unicode lower case.
\<close>

section \<open>JSON values\<close>

fun json_get :: "json \<Rightarrow> string \<Rightarrow> json option" where
  "json_get (JObject kvs) k = map_of kvs k"
| "json_get _ k = None"

fun json_as_str :: "json \<Rightarrow> string option" where
  "json_as_str (JString s) = Some s"
| "json_as_str _ = None"

fun json_as_i64 :: "json \<Rightarrow> int option" where
  "json_as_i64 (JNumber (PosInt v)) = (if uint v < 2 ^ 63 then Some (uint v) else None)"
| "json_as_i64 (JNumber (NegInt i)) = Some i"
| "json_as_i64 _ = None"

section \<open>JSON web tokens\<close>

record jwt_lib =
  jl_lower :: "string \<Rightarrow> string"
  jl_b64_decode :: "string \<Rightarrow> bytes option"
  jl_json :: "bytes \<Rightarrow> json option"

definition bearer_token :: "jwt_lib \<Rightarrow> header_map \<Rightarrow> string option" where
  "bearer_token lib headers = (case hm_get headers ''authorization'' of
     Some auth \<Rightarrow>
       if starts_with (jl_lower lib auth) ''bearer '' then
         (let token = trim_str (drop 7 auth) in if token \<noteq> [] then Some token else None)
       else None
   | None \<Rightarrow> None)"

definition cookie_names :: "string list" where
  "cookie_names = [''token'', ''jwt'', ''access_token'']"

fun cookie_value :: "string \<Rightarrow> string list \<Rightarrow> string option" where
  "cookie_value part [] = None"
| "cookie_value part (name # names) =
     (let pre = name @ ''=''; v = trim_str (drop (length pre) part)
      in if starts_with part pre \<and> v \<noteq> [] then Some v else cookie_value part names)"

fun cookie_token :: "string list \<Rightarrow> string option" where
  "cookie_token [] = None"
| "cookie_token (p # ps) =
     (case cookie_value (trim_str p) cookie_names of Some v \<Rightarrow> Some v | None \<Rightarrow> cookie_token ps)"

definition extract_jwt :: "jwt_lib \<Rightarrow> header_map \<Rightarrow> string option" where
  "extract_jwt lib headers = (case bearer_token lib headers of
     Some token \<Rightarrow> Some token
   | None \<Rightarrow> (case hm_get headers ''cookie'' of
        Some cookie \<Rightarrow> cookie_token (split_char (CHR '';'') cookie) | None \<Rightarrow> None))"

definition splitn3 :: "char \<Rightarrow> string \<Rightarrow> (string \<times> string \<times> string) option" where
  "splitn3 d s = (case split_once d s of
     Some (a, r) \<Rightarrow> (case split_once d r of Some (b, c) \<Rightarrow> Some (a, b, c) | None \<Rightarrow> None)
   | None \<Rightarrow> None)"

text \<open>\<open>now\<close> is the wall clock in seconds.\<close>

definition decode_jwt :: "jwt_lib \<Rightarrow> int \<Rightarrow> string \<Rightarrow> jwt_info option" where
  "decode_jwt lib now token = (case splitn3 (CHR ''.'') token of
     None \<Rightarrow> None
   | Some (p0, p1, _) \<Rightarrow>
       (case (jl_b64_decode lib p0, jl_b64_decode lib p1) of
          (Some header_bytes, Some payload_bytes) \<Rightarrow>
            (case (jl_json lib header_bytes, jl_json lib payload_bytes) of
               (Some header, Some claims) \<Rightarrow> Some
                 \<lparr>jw_header = header, jw_claims = claims,
                  jw_expired = (case Option.bind (json_get claims ''exp'') json_as_i64 of
                     Some e \<Rightarrow> e < now | None \<Rightarrow> False),
                  jw_alg_none_warning = (case Option.bind (json_get header ''alg'') json_as_str of
                     Some a \<Rightarrow> eq_ignore_ascii_case a ''none'' | None \<Rightarrow> False)\<rparr>
             | _ \<Rightarrow> None)
        | _ \<Rightarrow> None))"

definition jwt_on_request :: "jwt_lib \<Rightarrow> int \<Rightarrow> request_context \<Rightarrow> request_context" where
  "jwt_on_request lib now ctx = (case Option.bind (extract_jwt lib (rq_headers ctx)) (decode_jwt lib now) of
     Some info \<Rightarrow> ctx\<lparr>rq_inspector := (rq_inspector ctx)\<lparr>id_jwt := Some info\<rparr>\<rparr>
   | None \<Rightarrow> ctx)"

definition jwt_middleware :: "jwt_lib \<Rightarrow> 'w session_world \<Rightarrow> ('w, 'o) middleware" where
  "jwt_middleware lib sw = (default_middleware ''JwtInspectorMiddleware'')\<lparr>
     mwr_on_request := \<lambda>w c. (Continue, w, jwt_on_request lib (sw_now sw w div 1000) c),
     mwr_body_hint := \<lambda>_. StreamingInspect Gran_Bytes\<rparr>"

section \<open>GraphQL\<close>

text \<open>A definition of a parsed document, with the parts the inspector reads.\<close>

datatype gql_definition =
  Gql_Query "string option" | Gql_Mutation "string option" | Gql_Subscription "string option"
| Gql_SelectionSet | Gql_Fragment

record gql_lib =
  gl_lower :: "string \<Rightarrow> string"
  gl_json :: "string \<Rightarrow> json option"
  gl_parse :: "string \<Rightarrow> gql_definition list option"

definition is_graphql :: "request_context \<Rightarrow> bool" where
  "is_graphql ctx \<longleftrightarrow>
     (let ct = (case hm_get (rq_headers ctx) ''content-type'' of Some v \<Rightarrow> v | None \<Rightarrow> [])
      in (contains_str ct ''application/json'' \<or> contains_str ct ''application/graphql'')
         \<and> contains_str (rq_body_text ctx) ([CHR 0x22] @ ''query'' @ [CHR 0x22]))"

fun first_operation :: "gql_definition list \<Rightarrow> (string \<times> string option) option" where
  "first_operation [] = None"
| "first_operation (Gql_Query name # _) = Some (''query'', name)"
| "first_operation (Gql_Mutation name # _) = Some (''mutation'', name)"
| "first_operation (Gql_Subscription name # _) = Some (''subscription'', name)"
| "first_operation (Gql_SelectionSet # _) = Some (''query'', None)"
| "first_operation (Gql_Fragment # ds) = first_operation ds"

definition trim_start :: "string \<Rightarrow> string" where
  "trim_start s = concat (dropWhile (\<lambda>g. g \<in> white_space) (utf8_chars s))"

definition parse_operation :: "gql_lib \<Rightarrow> string \<Rightarrow> string \<times> string option" where
  "parse_operation lib query_str =
     (case Option.bind (gl_parse lib query_str) first_operation of
        Some r \<Rightarrow> r
      | None \<Rightarrow>
          let lower = gl_lower lib (trim_start query_str)
          in if starts_with lower ''mutation'' then (''mutation'', None)
             else if starts_with lower ''subscription'' then (''subscription'', None)
             else (''query'', None))"

definition gql_parse :: "gql_lib \<Rightarrow> string \<Rightarrow> graphql_info option" where
  "gql_parse lib body = (case gl_json lib body of
     None \<Rightarrow> None
   | Some v \<Rightarrow>
       (case Option.bind (json_get v ''query'') json_as_str of
          None \<Rightarrow> None
        | Some query_str \<Rightarrow>
            let (operation_type, operation_name) = parse_operation lib query_str
            in Some \<lparr>gq_operation_type = operation_type, gq_operation_name = operation_name,
                 gq_variables = json_get v ''variables''\<rparr>))"

definition gql_on_request :: "gql_lib \<Rightarrow> request_context \<Rightarrow> request_context" where
  "gql_on_request lib ctx =
     (if is_graphql ctx then
        (case gql_parse lib (rq_body_text ctx) of
           Some info \<Rightarrow> ctx\<lparr>rq_inspector := (rq_inspector ctx)\<lparr>id_graphql := Some info\<rparr>\<rparr>
         | None \<Rightarrow> ctx)
      else ctx)"

definition graphql_middleware :: "gql_lib \<Rightarrow> ('w, 'o) middleware" where
  "graphql_middleware lib = (default_middleware ''GraphQLInspectorMiddleware'')\<lparr>
     mwr_on_request := \<lambda>w c. (Continue, w, gql_on_request lib c)\<rparr>"

section \<open>Recording\<close>

definition INTERNAL_HEADERS :: "string list" where
  "INTERNAL_HEADERS = [''x-oproxy-session-id'', ''x-oproxy-destination'', ''x-oproxy-mock-response'',
     ''x-oproxy-tags'', ''x-oproxy-grpc-direction'', ''x-oproxy-grpc-compressed'',
     ''x-oproxy-frame-direction'', ''x-oproxy-frame-opcode'', ''x-oproxy-admin-token'']"

definition strip_internal_headers :: "header_map \<Rightarrow> header_map" where
  "strip_internal_headers headers =
     hm_retain (\<lambda>name _. to_ascii_lowercase (trim_str name) \<notin> set INTERNAL_HEADERS) headers"

definition content_length :: "header_map \<Rightarrow> nat option" where
  "content_length headers =
     (case find (\<lambda>(name, _). eq_ignore_ascii_case name ''content-length'') (entries headers) of
        Some (_, v) \<Rightarrow> map_option unat (parse_u64 (trim_str v)) | None \<Rightarrow> None)"

definition inspection_on_request ::
    "'w session_world \<Rightarrow> 'w \<Rightarrow> request_context \<Rightarrow> middleware_action \<times> 'w \<times> request_context" where
  "inspection_on_request sw w ctx =
     (if rq_session_id ctx \<noteq> None \<or> rq_skip_recording ctx then (Continue, w, ctx)
      else
        let inspector = rq_inspector ctx;
            ctx1 = ctx\<lparr>rq_inspector := id_default\<rparr>;
            (i, w1) = sw_uuid sw w;
            ctx2 = ctx1\<lparr>rq_session_id := Some i\<rparr>;
            recorded = ctx2\<lparr>rq_headers := strip_internal_headers (rq_headers ctx2)\<rparr>;
            w2 = sw_emit sw [WO_RecordRequest i recorded Proxy] w1;
            ctx3 = snd (rq_take_flow ctx2);
            w3 = (if id_jwt inspector \<noteq> None \<or> id_graphql inspector \<noteq> None \<or> id_grpc inspector \<noteq> None
                  then sw_emit sw [WO_UpdateInspectorData i inspector] w2 else w2)
        in (Continue, w3, ctx3))"

text \<open>The tags of a response merged into those of its session, and the awaited annotation.\<close>

fun merge_tags :: "string list \<Rightarrow> string list \<Rightarrow> string list" where
  "merge_tags merged [] = merged"
| "merge_tags merged (t # ts) = merge_tags (if t \<in> set merged then merged else merged @ [t]) ts"

definition annotate_tags :: "'w session_world \<Rightarrow> string \<Rightarrow> string list \<Rightarrow> 'w \<Rightarrow> 'w" where
  "annotate_tags sw i tags w = sw_wait sw (sw_emit sw [WO_Annotate i None (Some tags)] w)"

text \<open>A difference of two readings of the wall clock, cast to an unsigned number.\<close>

definition latency_since :: "timestamp \<Rightarrow> timestamp \<Rightarrow> u64" where
  "latency_since now start = word_of_int (now - start)"

definition response_size :: "response_context \<Rightarrow> nat" where
  "response_size ctx =
     (if rs_body ctx = [] then (case content_length (rs_headers ctx) of Some n \<Rightarrow> n | None \<Rightarrow> 0)
      else length (rs_body ctx))"

definition inspection_metrics_of :: "timestamp \<Rightarrow> exchange \<Rightarrow> response_context \<Rightarrow> inspection_metrics" where
  "inspection_metrics_of now session ctx = im_default\<lparr>
     im_latency_ms := latency_since now (ex_timestamp session),
     im_request_size_bytes := length (rq_body (ex_request session)),
     im_response_size_bytes := response_size ctx, im_status_code := rs_status ctx,
     im_ttfb_ms := rs_ttfb_ms ctx, im_body_ms := rs_body_ms ctx, im_protocol := rs_protocol ctx\<rparr>"

definition inspection_on_response ::
    "'w session_world \<Rightarrow> 'w \<Rightarrow> response_context \<Rightarrow> middleware_action \<times> 'w \<times> response_context" where
  "inspection_on_response sw w ctx =
     (if rs_response_body_observer_pending ctx \<or> rs_terminal_recording_pending ctx then (Continue, w, ctx)
      else
        let tags = rs_tags ctx; ctx1 = ctx\<lparr>rs_tags := []\<rparr>
        in case Option.bind (rs_session_id ctx1) (\<lambda>i. sw_session sw i w) of
             None \<Rightarrow> (Continue, w, ctx1)
           | Some session \<Rightarrow>
               if ex_response session \<noteq> None then (Continue, w, ctx1)
               else let w1 = sw_emit sw [WO_RecordResponseWithMetrics (ex_id session) ctx1
                          (inspection_metrics_of (sw_now sw w) session ctx1)] w
                    in (Continue, if tags = [] then w1
                          else annotate_tags sw (ex_id session) (merge_tags (ex_tags session) tags) w1, ctx1))"

record inspection_observer =
  io_session_id :: string
  io_res_ctx :: "response_context option"
  io_start :: "nat option"
  io_byte_count :: u64
  io_retained :: bytes
  io_max_retained_body_bytes :: nat

definition inspection_stream_observer :: "nat \<Rightarrow> request_context \<Rightarrow> inspection_observer option" where
  "inspection_stream_observer max_retained req =
     (if rq_skip_recording req then None
      else case rq_session_id req of
             None \<Rightarrow> None
           | Some i \<Rightarrow> Some \<lparr>io_session_id = i, io_res_ctx = None, io_start = None, io_byte_count = 0,
               io_retained = [], io_max_retained_body_bytes = max_retained\<rparr>)"

definition io_on_response_head :: "inspection_observer \<Rightarrow> response_context \<Rightarrow> nat \<Rightarrow> inspection_observer" where
  "io_on_response_head io res start = io\<lparr>io_res_ctx := Some res, io_start := Some start\<rparr>"

text \<open>Appending a chunk to a buffer that keeps at most \<open>cap\<close> bytes.\<close>

definition retain_chunk :: "nat \<Rightarrow> bytes \<Rightarrow> bytes \<Rightarrow> bytes" where
  "retain_chunk cap kept chunk =
     (if length kept < cap then kept @ take (min (cap - length kept) (length chunk)) chunk else kept)"

definition io_on_chunk :: "inspection_observer \<Rightarrow> bytes \<Rightarrow> bytes option \<times> inspection_observer" where
  "io_on_chunk io chunk = (Some chunk, io\<lparr>io_byte_count := io_byte_count io + word_of_nat (length chunk),
     io_retained := retain_chunk (io_max_retained_body_bytes io) (io_retained io) chunk\<rparr>)"

text \<open>\<open>saturating_sub\<close> on \<open>u64\<close> and the milliseconds since an instant.\<close>

definition sat_sub :: "u64 \<Rightarrow> u64 \<Rightarrow> u64" where
  "sat_sub a b = (if b \<le> a then a - b else 0)"

definition elapsed_ms :: "nat \<Rightarrow> nat \<Rightarrow> u64" where
  "elapsed_ms start now = word_of_nat (now - start)"

definition io_finish :: "'w session_world \<Rightarrow> inspection_observer \<Rightarrow> 'w \<Rightarrow> 'w" where
  "io_finish sw io w = (case io_res_ctx io of
     None \<Rightarrow> w
   | Some head \<Rightarrow>
       let now = sw_instant sw w;
           start = (case io_start io of Some t \<Rightarrow> t | None \<Rightarrow> now);
           latency_ms = elapsed_ms start now;
           res = rs_push_flow (head\<lparr>rs_body := io_retained io\<rparr>) (Completed (rs_status head) latency_ms);
           metrics = im_default\<lparr>im_latency_ms := latency_ms, im_request_size_bytes := 0,
             im_response_size_bytes := unat (io_byte_count io), im_status_code := rs_status res,
             im_ttfb_ms := rs_ttfb_ms res, im_body_ms := sat_sub latency_ms (rs_ttfb_ms res),
             im_protocol := rs_protocol res\<rparr>;
           w1 = sw_emit sw [WO_RecordResponseWithMetrics (io_session_id io) res metrics] w
       in if rs_tags res = [] then w1 else annotate_tags sw (io_session_id io) (rs_tags res) w1)"

definition inspection_middleware :: "'w session_world \<Rightarrow> string \<Rightarrow> nat \<Rightarrow> ('w, inspection_observer) middleware" where
  "inspection_middleware sw label max_retained =
     \<lparr>mwr_name = label, mwr_on_request = inspection_on_request sw,
      mwr_on_response = inspection_on_response sw, mwr_body_hint = (\<lambda>_. StreamingInspect Gran_Bytes),
      mwr_stream_observer = inspection_stream_observer max_retained\<rparr>"

section \<open>The inspection plugin and its recorder\<close>

lemma inspection_simps [simp]:
  "mwr_name (inspection_middleware sw l n) = l"
  "mwr_on_request (inspection_middleware sw l n) = inspection_on_request sw"
  "mwr_on_response (inspection_middleware sw l n) = inspection_on_response sw"
  by (simp_all add: inspection_middleware_def)

lemma inspection_fresh:
  "rq_session_id c = None \<Longrightarrow> \<not> rq_skip_recording c \<Longrightarrow>
   \<exists>w' c'. inspection_on_request sw w c = (Continue, w', c') \<and> rq_session_id c' = Some (fst (sw_uuid sw w))"
  by (cases "sw_uuid sw w") (simp add: inspection_on_request_def rq_take_flow_def Let_def)

context recorder
begin

lemma annotate_extends: "extends w (annotate_tags sw i ts w)"
  by (simp add: annotate_tags_def)

lemma annotate_extends_after [simp]: "extends w v \<Longrightarrow> extends w (annotate_tags sw i ts v)"
  by (blast intro: extends_trans annotate_extends)

lemma inspection_response_extends:
  assumes "inspection_on_response sw w c = (a, w', c')"
  shows "extends w w' \<and> rs_session_id c' = rs_session_id c"
  using assms by (auto simp: inspection_on_response_def Let_def split: if_splits option.splits)

lemma inspection_request_extends:
  assumes "inspection_on_request sw w c = (a, w', c')"
  shows "extends w w'"
proof -
  obtain i v where u: "sw_uuid sw w = (i, v)" by fastforce
  then have "extends w v" using extends_uuid [of w] by simp
  with assms u show ?thesis by (auto simp: inspection_on_request_def Let_def split: if_splits)
qed

end

lemma jwt_clean: "clean_plugin (jwt_middleware lib sw)"
  by (rule clean_pluginI)
    (auto simp: jwt_middleware_def jwt_on_request_def request_clean_def split: option.split)

lemma graphql_clean: "clean_plugin (graphql_middleware lib)"
  by (rule clean_pluginI)
    (auto simp: graphql_middleware_def gql_on_request_def request_clean_def split: option.split)

lemma inspection_clean: "clean_plugin (inspection_middleware sw l n)"
  by (rule clean_pluginI)
    (auto simp: inspection_on_request_def inspection_on_response_def request_clean_def response_clean_def
      rq_take_flow_def Let_def split: option.split prod.split)

section \<open>Tags\<close>

lemma set_merge_tags: "set (merge_tags ts us) = set ts \<union> set us"
  by (induction ts us rule: merge_tags.induct) auto

lemma distinct_merge_tags: "distinct ts \<Longrightarrow> distinct (merge_tags ts us)"
  by (induction ts us rule: merge_tags.induct) auto

lemma merge_tags_prefix: "prefix ts (merge_tags ts us)"
  by (induction ts us rule: merge_tags.induct) (auto dest: append_prefixD)

section \<open>Retained bodies\<close>

lemma retain_chunk_take: "retain_chunk cap (take cap b) c = take cap (b @ c)"
  by (auto simp: retain_chunk_def min_def)

lemma retain_chunks: "foldl (retain_chunk cap) (take cap b) cs = take cap (b @ concat cs)"
proof (induction cs arbitrary: b)
  case (Cons c cs)
  show ?case using Cons.IH [of "b @ c"] by (simp only: foldl_Cons retain_chunk_take concat.simps append_assoc)
qed simp

section \<open>Properties\<close>

text \<open>The inspection plugin records a request once: the first pass gives the context a session
  id, hands the writer the request with the internal headers stripped and its decision trace, and
  leaves headers, body and destination alone; a second pass, like the response-pass instance of
  the plugin, changes nothing; and a request marked by the capture filter is never recorded.\<close>

theorem inspection_records_once:
  "(case inspection_on_request sw w c of (a, w', c') \<Rightarrow>
      a = Continue \<and> inspection_on_request sw w' c' = (Continue, w', c')
    \<and> (if rq_session_id c = None \<and> \<not> rq_skip_recording c then
         rq_session_id c' = Some (fst (sw_uuid sw w)) \<and> rq_flow c' = []
         \<and> rq_headers c' = rq_headers c \<and> rq_body c' = rq_body c \<and> rq_destination c' = rq_destination c
         \<and> w' = (if rq_inspector c = id_default then (\<lambda>v. v)
                else sw_emit sw [WO_UpdateInspectorData (fst (sw_uuid sw w)) (rq_inspector c)])
             (sw_emit sw [WO_RecordRequest (fst (sw_uuid sw w))
                (c\<lparr>rq_inspector := id_default, rq_session_id := Some (fst (sw_uuid sw w)),
                   rq_headers := strip_internal_headers (rq_headers c)\<rparr>) Proxy] (snd (sw_uuid sw w)))
       else w' = w \<and> c' = c))"
proof -
  obtain i v where u: "sw_uuid sw w = (i, v)" by fastforce
  have none: "rq_inspector c = id_default \<longleftrightarrow>
     \<not> (id_jwt (rq_inspector c) \<noteq> None \<or> id_graphql (rq_inspector c) \<noteq> None \<or> id_grpc (rq_inspector c) \<noteq> None)"
    by (cases "rq_inspector c") (auto simp: id_default_def)
  show ?thesis
    unfolding inspection_on_request_def Let_def u none
    by (simp add: rq_take_flow_def)
qed

end
