(* ===== verification/Engine.thy ===== *)
theory Engine
  imports Inspectors
begin

text \<open>
  \<open>core/engine/mod.rs\<close> and \<open>core/decompression.rs\<close>: one proxied exchange, from the
  request head to the response handed back to the client and the record of it in the session
  store.

  The network is outside: \<open>en_send\<close> is the call to the upstream client and answers with a
  response, an error, or the news that the client went away meanwhile and the handler is dropped;
  \<open>en_pause\<close> is what the rest of the program does during one of the other waits. URL,
  header and method parsing and the decompressors are third-party functions in
  \<open>engine_net\<close>. A response handed to the client is the record \<open>http_response\<close>; the
  content type is the one \<open>axum\<close> gives a text body.
\<close>

section \<open>Interfaces\<close>

record engine_net =
  nt_url_parse :: "string \<Rightarrow> url option"
  nt_name :: "string \<Rightarrow> string option"
  nt_value :: "string \<Rightarrow> string option"
  nt_method_ok :: "string \<Rightarrow> bool"
  nt_lower :: "string \<Rightarrow> string"
  nt_gunzip :: "bytes \<Rightarrow> bytes option"
  nt_zlib :: "bytes \<Rightarrow> bytes option"
  nt_inflate :: "bytes \<Rightarrow> bytes option"
  nt_brotli :: "bytes \<Rightarrow> bytes option"
  nt_unzstd :: "bytes \<Rightarrow> bytes option"

record http_request =
  hq_method :: string
  hq_uri :: uri
  hq_version :: http_version
  hq_headers :: "(string \<times> string option) list"
  hq_chunks :: "bytes list"
  hq_body_ok :: bool
  hq_peer :: "string option"
  hq_conn :: "(string \<times> u64) option"

record http_response =
  hr_status :: u16
  hr_headers :: "(string \<times> string) list"
  hr_body :: bytes
  hr_trailers :: "(string \<times> string) list"

datatype upstream_body = No_Body | Full_Body bytes | Stream_Body "bytes list"

record upstream_request =
  uq_url :: string
  uq_headers :: "(string \<times> string) list"
  uq_method :: string
  uq_body :: upstream_body

text \<open>The body of an upstream response arrives in chunks and ends well or with an error;
  \<open>ur_gone\<close> is the number of chunks after which the client stops reading, if it does.\<close>

record upstream_response =
  ur_status :: u16
  ur_version :: http_version
  ur_headers :: "(string \<times> string option) list"
  ur_content_length :: "u64 option"
  ur_chunks :: "bytes list"
  ur_body_ok :: bool
  ur_gone :: "nat option"

record forward_error =
  fe_timeout :: bool
  fe_connect :: bool
  fe_text :: string
  fe_sources :: "string list"

datatype send_outcome = Answered upstream_response | Send_Failed forward_error | Client_Gone

record ('w, 'o) engine =
  en_net :: engine_net
  en_chain :: "'w \<Rightarrow> ('w, 'o) chain"
  en_recorder :: "'w session_world option"
  en_max_body_bytes :: "'w \<Rightarrow> nat"
  en_stream_threshold_bytes :: u64
  en_bind_port :: u16
  en_bind_host :: string
  en_self_lan_hosts :: "string list"
  en_alt_svc_header :: "string option"
  en_now :: "'w \<Rightarrow> nat"
  en_send :: "upstream_request \<Rightarrow> 'w \<Rightarrow> send_outcome \<times> 'w"
  en_pause :: "'w \<Rightarrow> 'w"

section \<open>Responses to the client\<close>

definition text_response :: "u16 \<Rightarrow> string \<Rightarrow> http_response" where
  "text_response status message = \<lparr>hr_status = status,
     hr_headers = [(''content-type'', ''text/plain; charset=utf-8'')],
     hr_body = bytes_of_string message, hr_trailers = []\<rparr>"

text \<open>\<open>StatusCode::from_u16\<close> and the response builder of the \<open>http\<close> crate: one field that
  does not parse makes \<open>body\<close> fail.\<close>

definition status_of :: "u16 \<Rightarrow> u16 option" where
  "status_of n = (if 100 \<le> n \<and> n < 1000 then Some n else None)"

definition build_fields :: "engine_net \<Rightarrow> (string \<times> string) list \<Rightarrow> (string \<times> string) list option" where
  "build_fields net hdrs = those (map (\<lambda>(n, v). case (nt_name net n, nt_value net v) of
     (Some n', Some v') \<Rightarrow> Some (n', v') | _ \<Rightarrow> None) hdrs)"

definition internal_error :: http_response where
  "internal_error = \<lparr>hr_status = 500, hr_headers = [], hr_body = [], hr_trailers = []\<rparr>"

definition response_fields :: "('w, 'o) engine \<Rightarrow> response_context \<Rightarrow> (string \<times> string) list option" where
  "response_fields en response = build_fields (en_net en) (entries (rs_headers response)
     @ (case en_alt_svc_header en of Some v \<Rightarrow> [(''alt-svc'', v)] | None \<Rightarrow> []))"

definition response_builder ::
    "('w, 'o) engine \<Rightarrow> response_context \<Rightarrow> bytes \<Rightarrow> (string \<times> string) list \<Rightarrow> http_response" where
  "response_builder en response body trailers =
     (let status = (case status_of (rs_status response) of Some s \<Rightarrow> s | None \<Rightarrow> 500)
      in case response_fields en response of
           Some hdrs \<Rightarrow> \<lparr>hr_status = status, hr_headers = hdrs, hr_body = body, hr_trailers = trailers\<rparr>
         | None \<Rightarrow> internal_error)"

section \<open>Recording\<close>

definition owns_terminal_response_recording :: "('w, 'o) engine \<Rightarrow> bool" where
  "owns_terminal_response_recording en \<longleftrightarrow> en_recorder en \<noteq> None"

definition declared_size :: "response_context \<Rightarrow> nat" where
  "declared_size ctx = (if rs_body ctx = [] then
       (case Option.bind (header_value (rs_headers ctx) ''content-length'') parse_u64 of
          Some n \<Rightarrow> unat n | None \<Rightarrow> 0)
     else length (rs_body ctx))"

definition terminal_metrics ::
    "timestamp \<Rightarrow> exchange \<Rightarrow> response_context \<Rightarrow> nat option \<Rightarrow> inspection_metrics" where
  "terminal_metrics now session ctx size_override = im_default\<lparr>
     im_latency_ms := latency_since now (ex_timestamp session),
     im_request_size_bytes := length (rq_body (ex_request session)),
     im_response_size_bytes := (case size_override of Some n \<Rightarrow> n | None \<Rightarrow> declared_size ctx),
     im_status_code := rs_status ctx, im_ttfb_ms := rs_ttfb_ms ctx, im_body_ms := rs_body_ms ctx\<rparr>"

definition record_response_with_optional_size ::
    "('w, 'o) engine \<Rightarrow> response_context \<Rightarrow> nat option \<Rightarrow> 'w \<Rightarrow> 'w" where
  "record_response_with_optional_size en ctx size_override w =
     (case (rs_session_id ctx, en_recorder en) of
        (Some i, Some sw) \<Rightarrow>
          (case sw_session sw i w of
             None \<Rightarrow> sw_emit sw [WO_RecordResponse i ctx] w
           | Some session \<Rightarrow>
               if ex_response session \<noteq> None then w
               else let w1 = sw_emit sw [WO_RecordResponseWithMetrics i ctx
                          (terminal_metrics (sw_now sw w) session ctx size_override)] w
                    in if rs_tags ctx = [] then w1
                       else annotate_tags sw i (merge_tags (ex_tags session) (rs_tags ctx)) w1)
      | _ \<Rightarrow> w)"

definition append_session_event :: "('w, 'o) engine \<Rightarrow> string \<Rightarrow> session_event \<Rightarrow> 'w \<Rightarrow> 'w" where
  "append_session_event en i event w = (case en_recorder en of
     Some sw \<Rightarrow> sw_emit sw [WO_AppendEvent i event] w | None \<Rightarrow> w)"

text \<open>\<open>TerminalSessionGuard\<close>; an absent manager means disarmed.\<close>

record 'w terminal_guard =
  tg_session_manager :: "'w session_world option"
  tg_session_id :: string
  tg_request_uri :: string
  tg_request_host :: string
  tg_request_method :: string
  tg_protocol_context :: "protocol_context option"
  tg_protocol :: "string option"
  tg_flow :: "flow_event list"
  tg_started_at :: nat
  tg_ttfb_ms :: u64
  tg_message :: string

definition guard_update_flow :: "flow_event list \<Rightarrow> 'w terminal_guard \<Rightarrow> 'w terminal_guard" where
  "guard_update_flow flow g = g\<lparr>tg_flow := flow\<rparr>"

definition guard_update_from_response :: "response_context \<Rightarrow> 'w terminal_guard \<Rightarrow> 'w terminal_guard" where
  "guard_update_from_response r g = g\<lparr>tg_request_uri := rs_request_uri r,
     tg_request_host := rs_request_host r, tg_request_method := rs_request_method r,
     tg_protocol_context := rs_protocol_context r, tg_protocol := rs_protocol r,
     tg_ttfb_ms := rs_ttfb_ms r, tg_flow := rs_flow r\<rparr>"

definition guard_disarm :: "'w terminal_guard \<Rightarrow> 'w terminal_guard" where
  "guard_disarm g = g\<lparr>tg_session_manager := None\<rparr>"

definition failure_response ::
    "'w terminal_guard \<Rightarrow> u16 \<Rightarrow> flow_stage \<Rightarrow> string \<Rightarrow> response_context" where
  "failure_response g status stage message =
     rs_push_flow (rs_extend_flow (rs_default\<lparr>rs_status := status, rs_body := bytes_of_string message,
         rs_request_uri := tg_request_uri g, rs_session_id := Some (tg_session_id g),
         rs_ttfb_ms := tg_ttfb_ms g, rs_request_host := tg_request_host g,
         rs_request_method := tg_request_method g, rs_protocol := tg_protocol g,
         rs_protocol_context := tg_protocol_context g\<rparr>) (tg_flow g))
       (Failed stage message)"

definition guard_record_failure ::
    "u16 \<Rightarrow> flow_stage \<Rightarrow> string \<Rightarrow> 'w terminal_guard \<Rightarrow> 'w \<Rightarrow> 'w terminal_guard \<times> 'w" where
  "guard_record_failure status stage message g w = (case tg_session_manager g of
     None \<Rightarrow> (g, w)
   | Some sw \<Rightarrow>
       let g' = guard_disarm g; i = tg_session_id g
       in if Option.bind (sw_session sw i w) ex_response \<noteq> None then (g', w)
          else let response = failure_response g status stage message;
                   metrics = im_default\<lparr>
                     im_latency_ms := elapsed_ms (tg_started_at g) (sw_instant sw w),
                     im_request_size_bytes := (case sw_session sw i w of
                        Some x \<Rightarrow> length (rq_body (ex_request x)) | None \<Rightarrow> 0),
                     im_response_size_bytes := length message, im_status_code := status,
                     im_ttfb_ms := tg_ttfb_ms g, im_body_ms := 0, im_protocol := tg_protocol g\<rparr>
               in (g', sw_emit sw [WO_RecordResponseWithMetrics i response metrics] w))"

definition guard_drop :: "'w terminal_guard option \<Rightarrow> 'w \<Rightarrow> 'w" where
  "guard_drop g w = (case g of
     None \<Rightarrow> w | Some g \<Rightarrow> snd (guard_record_failure 499 FS_Forwarding (tg_message g) g w))"

definition terminal_guard_for_request ::
    "('w, 'o) engine \<Rightarrow> request_context \<Rightarrow> nat \<Rightarrow> string \<Rightarrow> 'w terminal_guard option" where
  "terminal_guard_for_request en req started_at message =
     (case (rq_session_id req, en_recorder en) of
        (Some i, Some sw) \<Rightarrow> Some \<lparr>tg_session_manager = Some sw, tg_session_id = i,
          tg_request_uri = rq_uri req, tg_request_host = rq_host req, tg_request_method = rq_method req,
          tg_protocol_context = rq_protocol_context req, tg_protocol = None, tg_flow = rq_flow req,
          tg_started_at = started_at, tg_ttfb_ms = 0, tg_message = message\<rparr>
      | _ \<Rightarrow> None)"

section \<open>Proxy loops\<close>

definition loopback_names :: "string list" where
  "loopback_names = [''localhost'', ''127.0.0.1'', ''::1'', ''0.0.0.0'', ''[::]'']"

definition bind_host_clean :: "string \<Rightarrow> string" where
  "bind_host_clean bind_host = to_ascii_lowercase (trim_str (hd (split_char (CHR '':'') bind_host)))"

definition is_self_proxy :: "('w, 'o) engine \<Rightarrow> string \<Rightarrow> bool" where
  "is_self_proxy en target =
     (case nt_url_parse (en_net en) target of
        None \<Rightarrow> False
      | Some u \<Rightarrow>
          (case url_host_str u of
             None \<Rightarrow> False
           | Some host \<Rightarrow>
               let host_clean = to_ascii_lowercase host;
                   target_port = (case url_port u of Some p \<Rightarrow> p
                     | None \<Rightarrow> if url_scheme u = ''https'' then 443 else 80);
                   bind = bind_host_clean (en_bind_host en)
               in target_port = en_bind_port en
                  \<and> (host_clean \<in> set loopback_names \<or> host_clean = bind
                     \<or> bind \<in> {''0.0.0.0'', ''::'', ''[::]''} \<and> host_clean \<in> set (en_self_lan_hosts en))))"

section \<open>Middleware phases\<close>

datatype middleware_outcome = Go_On | Short_Circuit http_response

definition intercepted_context ::
    "('w, 'o) engine \<Rightarrow> intercepted_response \<Rightarrow> string \<Rightarrow> string option \<Rightarrow> string \<Rightarrow> string \<Rightarrow>
     protocol_context option \<Rightarrow> flow_event list \<Rightarrow> response_context" where
  "intercepted_context en ir request_uri session_id request_host request_method protocol_context flow =
     rs_extend_flow (rs_default\<lparr>rs_status := ir_status ir, rs_headers := ir_headers ir,
       rs_body := ir_body ir, rs_request_uri := request_uri, rs_session_id := session_id,
       rs_tags := ir_tags ir, rs_request_host := request_host, rs_request_method := request_method,
       rs_protocol_context := protocol_context,
       rs_terminal_recording_pending := owns_terminal_response_recording en\<rparr>) flow"

definition stopped_response :: http_response where
  "stopped_response = text_response 403 ''Response stopped by middleware''"

definition respond_to_intercepted ::
    "('w, 'o) engine \<Rightarrow> intercepted_response \<Rightarrow> string \<Rightarrow> string option \<Rightarrow> string \<Rightarrow> string \<Rightarrow>
     protocol_context option \<Rightarrow> flow_event list \<Rightarrow> 'w \<Rightarrow> http_response \<times> 'w" where
  "respond_to_intercepted en ir request_uri session_id request_host request_method protocol_context flow w =
     (case execute_response (en_chain en w) w
             (intercepted_context en ir request_uri session_id request_host request_method
                protocol_context flow) of
        (action, w1, response) \<Rightarrow>
          if action \<noteq> Continue then (stopped_response, w1)
          else
            let w2 = record_response_with_optional_size en response None w1;
                w3 = (case (rs_session_id response, ir_served_mock ir) of
                   (Some i, Some m) \<Rightarrow>
                     append_session_event en i (Ev_MockServed (sm_rule_id m) (sm_behavior m)) w2
                 | _ \<Rightarrow> w2);
                status = (case status_of (rs_status response) of Some s \<Rightarrow> s | None \<Rightarrow> 200)
            in (case build_fields (en_net en) (entries (rs_headers response)) of
                  Some hdrs \<Rightarrow> \<lparr>hr_status = status, hr_headers = hdrs, hr_body = rs_body response,
                     hr_trailers = []\<rparr>
                | None \<Rightarrow> text_response 500 ''mock error'', w3))"

definition execute_request_middleware ::
    "('w, 'o) engine \<Rightarrow> request_context \<Rightarrow> string \<Rightarrow> string \<Rightarrow> string \<Rightarrow> 'w \<Rightarrow>
     middleware_outcome \<times> request_context \<times> 'w" where
  "execute_request_middleware en request u host verb w =
     (case execute_request (en_chain en w) w request of
        (action, w1, req) \<Rightarrow>
          if action = Continue then (Go_On, req, w1)
          else (case rq_mock_response req of
             Some ir \<Rightarrow>
               let req1 = req\<lparr>rq_mock_response := None\<rparr>;
                   (flow, req2) = rq_take_flow req1;
                   (response, w2) = respond_to_intercepted en ir u (rq_session_id req1) host verb
                      (rq_protocol_context req1) flow w1
               in (Short_Circuit response, req2, w2)
           | None \<Rightarrow> (Short_Circuit (text_response 403 ''Request stopped by middleware''), req, w1)))"

definition execute_response_middleware ::
    "('w, 'o) engine \<Rightarrow> response_context \<Rightarrow> 'w \<Rightarrow> middleware_outcome \<times> response_context \<times> 'w" where
  "execute_response_middleware en response w =
     (case execute_response (en_chain en w) w response of
        (action, w1, r) \<Rightarrow> (if action = Continue then Go_On else Short_Circuit stopped_response, r, w1))"

section \<open>The upstream request\<close>

record prepared_upstream =
  pu_url :: string
  pu_headers :: "(string \<times> string) list"
  pu_method :: string
  pu_session_id :: "string option"
  pu_protocol_context :: "protocol_context option"

definition loop_message :: string where
  "loop_message = ''Proxy error: Proxy loop detected (request forwarded to the proxy itself)''"

definition prepare_upstream ::
    "('w, 'o) engine \<Rightarrow> request_context \<Rightarrow> uri \<Rightarrow> string \<Rightarrow>
     (http_response + prepared_upstream) \<times> request_context" where
  "prepare_upstream en request u fallback_uri =
     (let destination = rq_destination request;
          req1 = request\<lparr>rq_destination := None,
             rq_headers := sanitize_forwarded_request_headers (rq_headers request)\<rparr>;
          (url, headers) = target_url (nt_url_parse (en_net en)) destination (rq_host req1)
             (upstream_path u fallback_uri) (rq_headers req1);
          req2 = req1\<lparr>rq_headers := headers\<rparr>;
          req3 = (if destination = None
                  then rq_push_flow req2 (TargetSelected FT_OriginalHost url None None) else req2)
      in if is_self_proxy en url then (Inl (text_response 502 loop_message), req3)
         else if \<not> nt_method_ok (en_net en) (rq_method req3)
         then (Inl (text_response 400 ''invalid HTTP method''), req3)
         else (Inr \<lparr>pu_url = url,
                    pu_headers = upstream_headers (nt_name (en_net en)) (nt_value (en_net en)) (rq_headers req3),
                    pu_method = rq_method req3, pu_session_id = rq_session_id req3,
                    pu_protocol_context = rq_protocol_context req3\<rparr>, req3))"

section \<open>Response bodies\<close>

definition looks_like_zstd_frame :: "bytes \<Rightarrow> bool" where
  "looks_like_zstd_frame bs \<longleftrightarrow> length bs \<ge> 4 \<and>
     (take 4 bs = [0x28, 0xb5, 0x2f, 0xfd]
      \<or> 0x50 \<le> bs ! 0 \<and> bs ! 0 \<le> 0x5f \<and> take 3 (drop 1 bs) = [0x2a, 0x4d, 0x18])"

definition decode_deflate :: "engine_net \<Rightarrow> bytes \<Rightarrow> bytes option" where
  "decode_deflate net bs = (case nt_zlib net bs of Some out \<Rightarrow> Some out | None \<Rightarrow> nt_inflate net bs)"

definition decode_body :: "engine_net \<Rightarrow> string \<Rightarrow> bytes \<Rightarrow> bytes option" where
  "decode_body net encoding bs =
     (if contains_str encoding ''gzip'' then nt_gunzip net bs
      else if contains_str encoding ''deflate'' then decode_deflate net bs
      else if contains_str encoding ''br'' then nt_brotli net bs
      else if contains_str encoding ''zstd'' then
        (if looks_like_zstd_frame bs then nt_unzstd net bs else Some bs)
      else None)"

definition decoded_response_body :: "engine_net \<Rightarrow> header_map \<Rightarrow> bytes \<Rightarrow> bytes \<times> header_map" where
  "decoded_response_body net res_headers res_bytes =
     (let encoding = nt_lower net
            (case header_value res_headers ''content-encoding'' of Some v \<Rightarrow> v | None \<Rightarrow> [])
      in case decode_body net encoding res_bytes of
           Some out \<Rightarrow> (out, remove_header (remove_header res_headers ''content-encoding'') ''content-length'')
         | None \<Rightarrow> (res_bytes, res_headers))"

section \<open>Upstream failures\<close>

definition tls_message :: string where
  "tls_message = ''TLS certificate verification failed for the upstream server '' @
     ''(it may be using a self-signed or otherwise untrusted '' @
     ''certificate). If this is expected, e.g. a dev/staging '' @
     ''upstream, set OPROXY_INSECURE_UPSTREAM=1 - see '' @
     ''docs/configuration.md for the tradeoffs.''"

definition error_chain :: "forward_error \<Rightarrow> string" where
  "error_chain e = fe_text e @ concat (map (\<lambda>s. '': '' @ s) (fe_sources e))"

definition classify_forward_error :: "forward_error \<Rightarrow> string \<Rightarrow> string" where
  "classify_forward_error e source_chain =
     (let haystack = to_ascii_lowercase source_chain; any = list_ex (contains_str haystack)
      in if fe_timeout e then ''the upstream connection timed out''
         else if any [''certificate'', ''unknownissuer'', ''invalid peer certificate'', ''invalidcertificate'']
         then tls_message
         else if any [''dns error'', ''failed to lookup address'', ''nodename nor servname'',
                ''name or service not known'', ''no such host'']
         then ''DNS resolution failed for the upstream host''
         else if any [''connection refused'', ''actively refused'']
         then ''the upstream server refused the connection (nothing appears '' @
              ''to be listening on that host/port)''
         else if any [''connection reset''] then ''the upstream server reset the connection''
         else if any [''no route to host'', ''network is unreachable''] then ''the upstream host is unreachable''
         else if fe_connect e then ''failed to connect to the upstream server: '' @ fe_text e
         else fe_text e)"

definition record_forward_failure ::
    "('w, 'o) engine \<Rightarrow> forward_error \<Rightarrow> string \<Rightarrow> string \<Rightarrow> string \<Rightarrow> string option \<Rightarrow>
     protocol_context option \<Rightarrow> u64 \<Rightarrow> flow_event list \<Rightarrow> 'w \<Rightarrow> http_response \<times> 'w" where
  "record_forward_failure en e u host verb session_id protocol_context ttfb_ms flow w =
     (let cause = classify_forward_error e (error_chain e);
          client_message = ''Proxy error: '' @ cause;
          response = rs_push_flow (rs_extend_flow (rs_default\<lparr>rs_status := 502,
              rs_body := bytes_of_string client_message, rs_request_uri := u, rs_session_id := session_id,
              rs_ttfb_ms := ttfb_ms, rs_request_host := host, rs_request_method := verb,
              rs_protocol_context := protocol_context\<rparr>) flow) (Failed FS_Forwarding cause);
          (_, w1, response') = execute_response (en_chain en w) w response
      in (text_response 502 client_message, record_response_with_optional_size en response' None w1))"

section \<open>SOCKS5 tunnels\<close>

definition socks5_uri :: "string \<Rightarrow> u16 \<Rightarrow> string" where
  "socks5_uri host port = ''socks5://'' @ host @ '':'' @ decimal (unat port)"

definition record_socks5_tunnel_opened ::
    "('w, 'o) engine \<Rightarrow> string \<Rightarrow> u16 \<Rightarrow> 'w \<Rightarrow> string option \<times> 'w" where
  "record_socks5_tunnel_opened en host port w = (case en_recorder en of
     None \<Rightarrow> (None, w)
   | Some sw \<Rightarrow>
       let (i, w1) = sw_uuid sw w;
           connection_id = ''socks5:'' @ i;
           request = rq_default\<lparr>rq_method := ''CONNECT'', rq_uri := socks5_uri host port, rq_host := host,
             rq_protocol_context := Some (pc_with_identity pc_socks5_tunnel (Some connection_id) (Some 1)),
             rq_downstream_protocol := Some (wp_label Socks5), rq_connection_id := Some connection_id,
             rq_stream_id := Some 1\<rparr>
       in (Some i, sw_emit sw [WO_RecordRequest i request Proxy, WO_AppendEvent i Ev_TunnelOpened] w1))"

definition record_socks5_tunnel_closed ::
    "('w, 'o) engine \<Rightarrow> string \<Rightarrow> u64 \<Rightarrow> u64 \<Rightarrow> 'w \<Rightarrow> 'w" where
  "record_socks5_tunnel_closed en i bytes_up bytes_down w = (case en_recorder en of
     None \<Rightarrow> w
   | Some sw \<Rightarrow>
       let w1 = sw_wait sw (sw_emit sw [WO_Flush] w)
       in case sw_session sw i w1 of
            None \<Rightarrow> w1
          | Some session \<Rightarrow>
              let w2 = sw_emit sw [WO_AppendEvent i (Ev_TunnelClosed bytes_up bytes_down)] w1;
                  response = rs_default\<lparr>rs_status := 200,
                    rs_body := bytes_of_string (''up='' @ decimal (unat bytes_up) @ '' down='' @ decimal (unat bytes_down)),
                    rs_request_uri := rq_uri (ex_request session), rs_session_id := Some i,
                    rs_request_host := rq_host (ex_request session),
                    rs_request_method := rq_method (ex_request session),
                    rs_protocol := Some (wp_label Socks5), rs_protocol_context := ex_protocol_context session\<rparr>;
                  metrics = im_default\<lparr>
                    im_latency_ms := word_of_int (max 0 (sw_now sw w2 - ex_timestamp session)),
                    im_request_size_bytes := unat bytes_up, im_response_size_bytes := unat bytes_down,
                    im_status_code := 200, im_protocol := Some (wp_label Socks5)\<rparr>
              in sw_emit sw [WO_RecordResponseWithMetrics i response metrics] w2)"

definition terminal_guard_for_socks5_tunnel ::
    "('w, 'o) engine \<Rightarrow> string \<Rightarrow> 'w \<Rightarrow> 'w terminal_guard option \<times> 'w" where
  "terminal_guard_for_socks5_tunnel en i w = (case en_recorder en of
     None \<Rightarrow> (None, w)
   | Some sw \<Rightarrow>
       let w1 = sw_wait sw (sw_emit sw [WO_Flush] w)
       in case sw_session sw i w1 of
            None \<Rightarrow> (None, w1)
          | Some session \<Rightarrow> (Some \<lparr>tg_session_manager = Some sw, tg_session_id = i,
              tg_request_uri = rq_uri (ex_request session), tg_request_host = rq_host (ex_request session),
              tg_request_method = rq_method (ex_request session),
              tg_protocol_context = ex_protocol_context session, tg_protocol = Some (wp_label Socks5),
              tg_flow = ex_flow session, tg_started_at = sw_instant sw w1, tg_ttfb_ms = 0,
              tg_message = ''SOCKS5 tunnel closed before oproxy recorded tunnel completion.''\<rparr>, w1))"

definition record_socks5_mock_served ::
    "('w, 'o) engine \<Rightarrow> string \<Rightarrow> u16 \<Rightarrow> string \<Rightarrow> string \<Rightarrow> 'w \<Rightarrow> 'w" where
  "record_socks5_mock_served en host port rule_id behavior w = (case en_recorder en of
     None \<Rightarrow> w
   | Some sw \<Rightarrow>
       let (i, w1) = sw_uuid sw w;
           request = rq_default\<lparr>rq_method := ''CONNECT'', rq_uri := socks5_uri host port, rq_host := host,
             rq_protocol_context := Some pc_socks5_tunnel,
             rq_downstream_protocol := Some (wp_label Socks5)\<rparr>
       in sw_emit sw [WO_RecordRequest i request Proxy, WO_AppendEvent i (Ev_MockServed rule_id behavior)] w1)"

section \<open>The request head\<close>

record request_head =
  rh_method :: string
  rh_uri :: uri
  rh_host :: string
  rh_remote_addr :: "string option"
  rh_connection_id :: "string option"
  rh_stream_id :: "u64 option"
  rh_downstream_protocol :: "string option"
  rh_req_uri :: string
  rh_req_headers :: header_map
  rh_display_uri :: string
  rh_protocol_context :: protocol_context

definition collect_headers :: "(string \<times> string option) list \<Rightarrow> header_map" where
  "collect_headers hs = foldl (\<lambda>h (n, v). hm_append h n (case v of Some s \<Rightarrow> s | None \<Rightarrow> [])) hm_new hs"

definition host_of :: "http_request \<Rightarrow> string" where
  "host_of req =
     (case Option.bind (map_option snd (find (\<lambda>(n, _). eq_ignore_ascii_case n ''host'') (hq_headers req))) id of
        Some h \<Rightarrow> h
      | None \<Rightarrow> (case uri_authority (hq_uri req) of Some a \<Rightarrow> a | None \<Rightarrow> ''unknown''))"

definition build_request_head :: "('w, 'o) engine \<Rightarrow> http_request \<Rightarrow> string option \<Rightarrow> request_head" where
  "build_request_head en req mitm_destination =
     (let host = host_of req;
          connection_id = map_option fst (hq_conn req);
          stream_id = map_option snd (hq_conn req);
          headers = collect_headers (hq_headers req)
      in \<lparr>rh_method = hq_method req, rh_uri = hq_uri req, rh_host = host, rh_remote_addr = hq_peer req,
          rh_connection_id = connection_id, rh_stream_id = stream_id,
          rh_downstream_protocol = Some (protocol_label (hq_version req)),
          rh_req_uri = uri_text (hq_uri req), rh_req_headers = headers,
          rh_display_uri = display_request_uri (hq_uri req) mitm_destination host,
          rh_protocol_context = pc_with_identity
            (pc_http (hq_version req) (request_scheme (hq_uri req) mitm_destination)
               (infer_application_protocol headers)
               (infer_body_mode (hq_method req) headers (en_stream_threshold_bytes en)))
            connection_id stream_id\<rparr>)"

text \<open>The context the planner looks at, and the context of the exchange.\<close>

definition head_context :: "request_head \<Rightarrow> request_context" where
  "head_context rh = rq_default\<lparr>rq_method := rh_method rh, rq_uri := rh_display_uri rh,
     rq_headers := rh_req_headers rh, rq_host := rh_host rh,
     rq_protocol_context := Some (rh_protocol_context rh)\<rparr>"

definition exchange_context :: "request_head \<Rightarrow> string option \<Rightarrow> bytes \<Rightarrow> request_context" where
  "exchange_context rh mitm_destination body =
     rq_push_flow ((head_context rh)\<lparr>rq_body := body, rq_destination := mitm_destination,
         rq_connection_id := rh_connection_id rh, rq_stream_id := rh_stream_id rh,
         rq_downstream_protocol := rh_downstream_protocol rh, rq_remote_addr := rh_remote_addr rh\<rparr>)
       (RequestReceived (rh_method rh) (rh_host rh) (rh_display_uri rh))"

section \<open>Entering the exchange\<close>

definition fail_guard ::
    "u16 \<Rightarrow> flow_stage \<Rightarrow> string \<Rightarrow> 'w terminal_guard option \<Rightarrow> 'w \<Rightarrow> 'w" where
  "fail_guard status stage message g w = (case g of
     None \<Rightarrow> w
   | Some g \<Rightarrow> (case guard_record_failure status stage message g w of (g', w') \<Rightarrow> guard_drop (Some g') w'))"

text \<open>From the request chain to the upstream request: the client's response when the exchange
  ends here, and otherwise the upstream request, the context and the guard.\<close>

definition enter_exchange ::
    "('w, 'o) engine \<Rightarrow> request_head \<Rightarrow> request_context \<Rightarrow> nat \<Rightarrow> string \<Rightarrow> 'w \<Rightarrow>
     (http_response + prepared_upstream \<times> request_context \<times> 'w terminal_guard option) \<times> 'w" where
  "enter_exchange en rh ctx start message w =
     (case execute_request_middleware en ctx (rh_display_uri rh) (rh_host rh) (rh_method rh) w of
        (Short_Circuit response, _, w1) \<Rightarrow> (Inl response, w1)
      | (Go_On, ctx1, w1) \<Rightarrow>
          (let guard = terminal_guard_for_request en ctx1 start message
           in case prepare_upstream en ctx1 (rh_uri rh) (rh_req_uri rh) of
                (Inl response, ctx2) \<Rightarrow>
                  (Inl response, fail_guard (hr_status response) FS_TargetResolution
                     ''Target resolution failed before oproxy recorded an upstream response.''
                     (map_option (guard_update_flow (rq_flow ctx2)) guard) w1)
              | (Inr up, ctx2) \<Rightarrow>
                  let ctx3 = rq_push_flow ctx2 (Forwarded (pu_url up))
                  in (Inr (up, ctx3, map_option (guard_update_flow (rq_flow ctx3)) guard), w1)))"

section \<open>The buffered path\<close>

definition too_large_message :: "nat \<Rightarrow> string" where
  "too_large_message n = ''Request body exceeds the '' @ decimal n @ '' byte limit. '' @
     ''Raise max_body_bytes in settings to increase it.''"

definition declared_content_length :: "header_map \<Rightarrow> u64 option" where
  "declared_content_length h = Option.bind (header_value h ''content-length'') (\<lambda>v. parse_u64 (trim_str v))"

text \<open>The request body: buffered, or a stream to relay when its declared length exceeds the
  limit.\<close>

definition read_request_body ::
    "nat \<Rightarrow> request_head \<Rightarrow> http_request \<Rightarrow> http_response + bytes \<times> bytes list option" where
  "read_request_body limit rh req =
     (let unbuffered = (case declared_content_length (rh_req_headers rh) of
            Some len \<Rightarrow> unat len > limit | None \<Rightarrow> False)
      in if unbuffered then Inr ([], Some (hq_chunks req))
         else if hq_body_ok req \<and> length (concat (hq_chunks req)) \<le> limit
         then Inr (concat (hq_chunks req), None)
         else Inl (text_response 413 (too_large_message limit)))"

definition upstream_body_of :: "request_context \<Rightarrow> bytes list option \<Rightarrow> upstream_body" where
  "upstream_body_of ctx streamed = (case streamed of
     Some chunks \<Rightarrow> Stream_Body chunks
   | None \<Rightarrow> if rq_body ctx \<noteq> [] \<or> hm_contains_key (rq_headers ctx) ''content-length''
             then Full_Body (rq_body ctx) else No_Body)"

definition tag_rewritten :: "request_context \<Rightarrow> response_context \<Rightarrow> response_context" where
  "tag_rewritten req r = (if rq_rewritten req then r\<lparr>rs_tags := rs_tags r @ [''rewrite'']\<rparr> else r)"

definition push_tag :: "string \<Rightarrow> response_context \<Rightarrow> response_context" where
  "push_tag t r = r\<lparr>rs_tags := rs_tags r @ [t]\<rparr>"

text \<open>The response context as the response head gives it.\<close>

definition answered_context ::
    "('w, 'o) engine \<Rightarrow> request_head \<Rightarrow> prepared_upstream \<Rightarrow> request_context \<Rightarrow> upstream_response \<Rightarrow>
     u64 \<Rightarrow> u64 \<Rightarrow> header_map \<Rightarrow> bytes \<Rightarrow> bool \<Rightarrow> response_context" where
  "answered_context en rh up req ur ttfb_ms body_ms headers body observer_pending =
     rs_push_flow (rs_extend_flow (rs_default\<lparr>rs_status := ur_status ur, rs_headers := headers,
         rs_body := body, rs_request_uri := rh_display_uri rh, rs_session_id := pu_session_id up,
         rs_ttfb_ms := ttfb_ms, rs_body_ms := body_ms, rs_request_host := rh_host rh,
         rs_request_method := rh_method rh, rs_protocol := Some (protocol_label (ur_version ur)),
         rs_protocol_context := rq_protocol_context req,
         rs_terminal_recording_pending := owns_terminal_response_recording en,
         rs_response_body_observer_pending := observer_pending\<rparr>) (rq_flow req))
       (ResponseReceived (ur_status ur) ttfb_ms)"

definition is_chunked :: "upstream_response \<Rightarrow> bool" where
  "is_chunked ur \<longleftrightarrow>
     (case find (\<lambda>(n, _). eq_ignore_ascii_case n ''transfer-encoding'') (ur_headers ur) of
        Some (_, Some v) \<Rightarrow> contains_str (to_ascii_lowercase v) ''chunked'' | _ \<Rightarrow> False)"

definition content_type_value :: "upstream_response \<Rightarrow> string" where
  "content_type_value ur =
     (case header_value (collect_headers (ur_headers ur)) ''content-type'' of Some v \<Rightarrow> v | None \<Rightarrow> [])"

definition relays_stream :: "('w, 'o) engine \<Rightarrow> upstream_response \<Rightarrow> bool" where
  "relays_stream en ur \<longleftrightarrow>
     (let content_length = (case ur_content_length ur of Some n \<Rightarrow> n | None \<Rightarrow> 0)
      in contains_str (content_type_value ur) ''text/event-stream''
         \<or> content_length > en_stream_threshold_bytes en \<or> is_chunked ur)"

definition response_headers :: "upstream_response \<Rightarrow> header_map" where
  "response_headers ur = strip_hop_by_hop_response_headers (collect_headers (ur_headers ur))"

text \<open>The body stream handed to the client, with a capped copy for the record.\<close>

record 'w tee_state =
  te_ctx :: response_context
  te_guard :: "'w terminal_guard option"
  te_retained :: bytes
  te_total_bytes :: nat
  te_recorded :: bool
  te_sent :: bytes

definition tee_record ::
    "('w, 'o) engine \<Rightarrow> nat \<Rightarrow> nat \<Rightarrow> 'w tee_state \<Rightarrow> 'w \<Rightarrow> 'w tee_state \<times> 'w" where
  "tee_record en start body_start st w =
     (let ctx = (te_ctx st)\<lparr>rs_body_ms := elapsed_ms body_start (en_now en w), rs_body := te_retained st\<rparr>;
          ctx' = rs_push_flow ctx (Completed (rs_status ctx) (elapsed_ms start (en_now en w)))
      in (st\<lparr>te_ctx := ctx', te_guard := map_option guard_disarm (te_guard st), te_recorded := True\<rparr>,
          record_response_with_optional_size en ctx' (Some (te_total_bytes st)) w))"

definition tee_chunk ::
    "('w, 'o) engine \<Rightarrow> nat \<Rightarrow> nat \<Rightarrow> nat \<Rightarrow> nat option \<Rightarrow> bytes \<Rightarrow> 'w tee_state \<times> 'w \<Rightarrow>
     'w tee_state \<times> 'w" where
  "tee_chunk en start body_start cap expected chunk sw =
     (case sw of (st, w) \<Rightarrow>
        let w1 = en_pause en w;
            st1 = st\<lparr>te_total_bytes := te_total_bytes st + length chunk,
                     te_retained := retain_chunk cap (te_retained st) chunk\<rparr>;
            (st2, w2) = (if \<not> te_recorded st1 \<and> (case expected of Some n \<Rightarrow> te_total_bytes st1 \<ge> n | None \<Rightarrow> False)
                         then tee_record en start body_start st1 w1 else (st1, w1))
        in (st2\<lparr>te_sent := te_sent st2 @ chunk\<rparr>, w2))"

definition tee_stream ::
    "('w, 'o) engine \<Rightarrow> nat \<Rightarrow> nat \<Rightarrow> nat option \<Rightarrow> upstream_response \<Rightarrow> response_context \<Rightarrow>
     'w terminal_guard option \<Rightarrow> 'w \<Rightarrow> bytes \<times> 'w" where
  "tee_stream en start cap expected ur ctx guard w =
     (let body_start = en_now en w;
          init = \<lparr>te_ctx = ctx, te_guard = guard, te_retained = [], te_total_bytes = 0,
                  te_recorded = False, te_sent = []\<rparr>;
          seen = (case ur_gone ur of Some n \<Rightarrow> take n (ur_chunks ur) | None \<Rightarrow> ur_chunks ur);
          (st, w1) = fold (tee_chunk en start body_start cap expected) seen (init, w)
      in if ur_gone ur \<noteq> None then (te_sent st, guard_drop (te_guard st) w1)
         else (case (if te_recorded st then (st, w1) else tee_record en start body_start st (en_pause en w1)) of
                 (st', w2) \<Rightarrow> (te_sent st', guard_drop (te_guard st') w2)))"

definition stopped_stream_message :: string where
  "stopped_stream_message =
     ''Response middleware stopped the streamed response before terminal recording.''"

definition relay_streamed ::
    "('w, 'o) engine \<Rightarrow> nat \<Rightarrow> request_head \<Rightarrow> prepared_upstream \<Rightarrow> request_context \<Rightarrow>
     'w terminal_guard option \<Rightarrow> upstream_response \<Rightarrow> u64 \<Rightarrow> 'w \<Rightarrow> http_response \<times> 'w" where
  "relay_streamed en start rh up req guard ur ttfb_ms w =
     (let ctx0 = answered_context en rh up req ur ttfb_ms 0 (response_headers ur) [] True;
          guard0 = map_option (guard_update_from_response ctx0) guard;
          ctx1 = tag_rewritten req (push_tag ''streamed'' ctx0)
      in case execute_response (en_chain en w) w ctx1 of
           (action, w1, ctx2) \<Rightarrow>
             if action \<noteq> Continue then
               (stopped_response, fail_guard 403 FS_ResponseMiddleware stopped_stream_message
                  (map_option (guard_update_from_response ctx2) guard0) w1)
             else
               let content_length = (case ur_content_length ur of Some n \<Rightarrow> unat n | None \<Rightarrow> 0);
                   expected = (if content_length > 0 then Some content_length else None)
               in if response_fields en ctx2 = None then (internal_error, guard_drop guard0 w1)
                  else (case tee_stream en start (en_max_body_bytes en w1) expected ur ctx2 guard0 w1 of
                          (sent, w2) \<Rightarrow> (response_builder en ctx2 sent [], w2)))"

definition is_grpc_content :: "upstream_response \<Rightarrow> bool" where
  "is_grpc_content ur \<longleftrightarrow> starts_with (content_type_value ur) ''application/grpc''"

definition relay_buffered ::
    "('w, 'o) engine \<Rightarrow> nat \<Rightarrow> request_head \<Rightarrow> prepared_upstream \<Rightarrow> request_context \<Rightarrow> bool \<Rightarrow>
     'w terminal_guard option \<Rightarrow> upstream_response \<Rightarrow> u64 \<Rightarrow> 'w \<Rightarrow> http_response option \<times> 'w" where
  "relay_buffered en start rh up req request_streamed guard ur ttfb_ms w =
     (let w1 = en_pause en w
      in if ur_gone ur \<noteq> None then (None, guard_drop guard w1)
         else
           let raw = (if ur_body_ok ur then concat (ur_chunks ur) else []);
               (body, headers) = decoded_response_body (en_net en) (response_headers ur) raw;
               ctx0 = answered_context en rh up req ur ttfb_ms (elapsed_ms (en_now en w) (en_now en w1))
                  headers body False;
               guard0 = map_option (guard_update_from_response ctx0) guard;
               ctx1 = tag_rewritten req (if request_streamed then push_tag ''streamed'' ctx0 else ctx0)
           in (case execute_response_middleware en ctx1 w1 of
                 (Short_Circuit response, ctx2, w2) \<Rightarrow>
                   (Some response, fail_guard (hr_status response) FS_ResponseMiddleware
                      ''Response middleware stopped the response before terminal recording.''
                      (map_option (guard_update_from_response ctx2) guard0) w2)
               | (Go_On, ctx2, w2) \<Rightarrow>
                   let ctx3 = rs_push_flow ctx2 (Completed (rs_status ctx2) (elapsed_ms start (en_now en w2)));
                       w3 = record_response_with_optional_size en ctx3 None w2;
                       trailers = (if is_grpc_content ur \<and> rs_status ctx3 = 200
                                   then [(''grpc-status'', ''0'')] else [])
                   in (Some (response_builder en ctx3 (rs_body ctx3) trailers),
                       guard_drop (map_option guard_disarm guard0) w3)))"

definition buffered_exchange ::
    "('w, 'o) engine \<Rightarrow> nat \<Rightarrow> request_head \<Rightarrow> string option \<Rightarrow> bytes \<Rightarrow> bytes list option \<Rightarrow> 'w \<Rightarrow>
     http_response option \<times> 'w" where
  "buffered_exchange en start rh mitm_destination body streamed w =
     (case enter_exchange en rh (exchange_context rh mitm_destination body) start
        ''Client closed the downstream connection before oproxy recorded a terminal response.'' w of
        (Inl response, w1) \<Rightarrow> (Some response, w1)
      | (Inr (up, ctx, guard), w1) \<Rightarrow>
          (case en_send en \<lparr>uq_url = pu_url up, uq_headers = pu_headers up, uq_method = pu_method up,
                  uq_body = upstream_body_of ctx streamed\<rparr> w1 of
             (Client_Gone, w2) \<Rightarrow> (None, guard_drop guard w2)
           | (Send_Failed e, w2) \<Rightarrow>
               (case record_forward_failure en e (rh_display_uri rh) (rh_host rh) (rh_method rh)
                   (pu_session_id up) (pu_protocol_context up) (elapsed_ms (en_now en w1) (en_now en w2))
                   (rq_flow ctx) w2 of
                  (response, w3) \<Rightarrow> (Some response, guard_drop (map_option guard_disarm guard) w3))
           | (Answered ur, w2) \<Rightarrow>
               let ttfb_ms = elapsed_ms (en_now en w1) (en_now en w2)
               in if relays_stream en ur
                  then (case relay_streamed en start rh up ctx guard ur ttfb_ms w2 of
                          (response, w3) \<Rightarrow> (Some response, w3))
                  else relay_buffered en start rh up ctx (streamed \<noteq> None) guard ur ttfb_ms w2))"

section \<open>The streaming path\<close>

text \<open>\<open>observer_ops\<close> are the methods of a \<open>BodyObserver\<close>. The chunks of the two
  directions interleave: \<open>fs_early\<close> request chunks are relayed before the response head, and
  \<open>fs_turns\<close> says which direction the following chunks come from.\<close>

record ('w, 'o) observer_ops =
  oo_request_chunk :: "'o \<Rightarrow> bytes \<Rightarrow> 'w \<Rightarrow> bytes option \<times> 'o \<times> 'w"
  oo_response_head :: "'o \<Rightarrow> response_context \<Rightarrow> nat \<Rightarrow> 'w \<Rightarrow> 'o \<times> 'w"
  oo_chunk :: "'o \<Rightarrow> bytes \<Rightarrow> 'w \<Rightarrow> bytes option \<times> 'o \<times> 'w"
  oo_finish :: "'o \<Rightarrow> 'w \<Rightarrow> 'w"

record schedule =
  fs_early :: nat
  fs_turns :: "bool list"

fun feed_chunk ::
    "('o \<Rightarrow> bytes \<Rightarrow> 'w \<Rightarrow> bytes option \<times> 'o \<times> 'w) \<Rightarrow> 'o list \<Rightarrow> bytes option \<Rightarrow> 'w \<Rightarrow>
     bytes option \<times> 'o list \<times> 'w" where
  "feed_chunk f [] chunk w = (chunk, [], w)"
| "feed_chunk f (ob # obs) None w = (None, ob # obs, w)"
| "feed_chunk f (ob # obs) (Some b) w =
     (case f ob b w of (chunk, ob', w1) \<Rightarrow>
        (case feed_chunk f obs chunk w1 of (chunk', obs', w2) \<Rightarrow> (chunk', ob' # obs', w2)))"

definition relayed_bytes :: "bytes option \<Rightarrow> bytes" where
  "relayed_bytes chunk = (case chunk of Some b \<Rightarrow> b | None \<Rightarrow> [])"

fun feed_all ::
    "('o \<Rightarrow> bytes \<Rightarrow> 'w \<Rightarrow> bytes option \<times> 'o \<times> 'w) \<Rightarrow> 'o list \<Rightarrow> bytes list \<Rightarrow> 'w \<Rightarrow>
     bytes list \<times> 'o list \<times> 'w" where
  "feed_all f obs [] w = ([], obs, w)"
| "feed_all f obs (c # cs) w =
     (case feed_chunk f obs (Some c) w of (out, obs1, w1) \<Rightarrow>
        (case feed_all f obs1 cs w1 of (outs, obs2, w2) \<Rightarrow>
           (if relayed_bytes out = [] then outs else relayed_bytes out # outs, obs2, w2)))"

text \<open>After the head; the flag of a chunk says that it comes from the client.\<close>

fun interleave :: "bool list \<Rightarrow> bytes list \<Rightarrow> bytes list \<Rightarrow> (bool \<times> bytes) list" where
  "interleave ts [] ss = map (Pair False) ss"
| "interleave ts (c # cs) [] = []"
| "interleave [] (c # cs) (s # ss) = map (Pair False) (s # ss)"
| "interleave (True # ts) (c # cs) (s # ss) = (True, c) # interleave ts cs (s # ss)"
| "interleave (False # ts) (c # cs) (s # ss) = (False, s) # interleave ts (c # cs) ss"

fun relay_events ::
    "('w, 'o) observer_ops \<Rightarrow> 'o list \<Rightarrow> (bool \<times> bytes) list \<Rightarrow> 'w \<Rightarrow> bytes \<times> 'o list \<times> 'w" where
  "relay_events ops obs [] w = ([], obs, w)"
| "relay_events ops obs ((from_client, c) # es) w =
     (case feed_chunk (if from_client then oo_request_chunk ops else oo_chunk ops) obs (Some c) w of
        (out, obs1, w1) \<Rightarrow>
          (case relay_events ops obs1 es w1 of (sent, obs2, w2) \<Rightarrow>
             (if from_client then sent else relayed_bytes out @ sent, obs2, w2)))"

fun observe_head :: "('w, 'o) observer_ops \<Rightarrow> 'o list \<Rightarrow> response_context \<Rightarrow> nat \<Rightarrow> 'w \<Rightarrow> 'o list \<times> 'w" where
  "observe_head ops [] ctx start w = ([], w)"
| "observe_head ops (ob # obs) ctx start w =
     (case oo_response_head ops ob ctx start w of (ob', w1) \<Rightarrow>
        (case observe_head ops obs ctx start w1 of (obs', w2) \<Rightarrow> (ob' # obs', w2)))"

fun finish_all :: "('w, 'o) observer_ops \<Rightarrow> 'o list \<Rightarrow> 'w \<Rightarrow> 'w" where
  "finish_all ops [] w = w"
| "finish_all ops (ob # obs) w = finish_all ops obs (oo_finish ops ob w)"

text \<open>The loop over the observers of an encoded body: head and one chunk each.\<close>

fun observe_decoded ::
    "('w, 'o) observer_ops \<Rightarrow> 'o list \<Rightarrow> response_context \<Rightarrow> nat \<Rightarrow> bytes \<Rightarrow> 'w \<Rightarrow> 'o list \<times> 'w" where
  "observe_decoded ops [] ctx start body w = ([], w)"
| "observe_decoded ops (ob # obs) ctx start body w =
     (case oo_response_head ops ob ctx start w of (ob1, w1) \<Rightarrow>
      (case oo_chunk ops ob1 body w1 of (_, ob2, w2) \<Rightarrow>
        (case observe_decoded ops obs ctx start body w2 of (obs', w3) \<Rightarrow> (ob2 # obs', w3))))"

text \<open>Reading an encoded body with the limit enforced during the read.\<close>

fun read_capped :: "nat \<Rightarrow> bytes \<Rightarrow> bytes list \<Rightarrow> bytes option" where
  "read_capped cap raw [] = Some raw"
| "read_capped cap raw (c # cs) =
     (if length raw + length c > cap then None else read_capped cap (raw @ c) cs)"

definition normalizes_encoding :: "('w, 'o) engine \<Rightarrow> response_context \<Rightarrow> upstream_response \<Rightarrow> 'w \<Rightarrow> bool" where
  "normalizes_encoding en ctx ur w \<longleftrightarrow>
     (case header_value (rs_headers ctx) ''content-encoding'' of
        Some v \<Rightarrow> trim_str v \<noteq> [] | None \<Rightarrow> False)
     \<and> \<not> contains_str (to_ascii_lowercase (case header_value (rs_headers ctx) ''content-type'' of
          Some v \<Rightarrow> v | None \<Rightarrow> [])) ''text/event-stream''
     \<and> (case ur_content_length ur of Some len \<Rightarrow> unat len \<le> en_max_body_bytes en w | None \<Rightarrow> True)"

definition encoded_too_large_message :: "nat \<Rightarrow> string" where
  "encoded_too_large_message n = ''encoded response exceeded max_body_bytes ('' @ decimal n @
     '') while normalizing content-encoding''"

definition stream_encoded ::
    "('w, 'o) engine \<Rightarrow> ('w, 'o) observer_ops \<Rightarrow> nat \<Rightarrow> 'o list \<Rightarrow> response_context \<Rightarrow>
     'w terminal_guard option \<Rightarrow> upstream_response \<Rightarrow> 'w \<Rightarrow> http_response option \<times> 'w" where
  "stream_encoded en ops start obs ctx guard ur w =
     (let cap = en_max_body_bytes en w; w1 = en_pause en w;
          body_ms = elapsed_ms (en_now en w) (en_now en w1)
      in if ur_gone ur \<noteq> None then (None, guard_drop guard w1)
         else case read_capped cap [] (ur_chunks ur) of
           Some raw \<Rightarrow>
             let (decoded, headers) = decoded_response_body (en_net en) (rs_headers ctx) raw;
                 ctx1 = ctx\<lparr>rs_headers := headers, rs_body := decoded, rs_body_ms := body_ms,
                   rs_response_body_observer_pending := False\<rparr>;
                 ctx2 = rs_push_flow ctx1 (Completed (rs_status ctx1) (elapsed_ms start (en_now en w1)));
                 (obs1, w2) = observe_decoded ops obs ctx2 start decoded w1;
                 w3 = finish_all ops obs1 w2
             in (Some (response_builder en ctx2 decoded []), guard_drop (map_option guard_disarm guard) w3)
         | None \<Rightarrow>
             let message = encoded_too_large_message (en_max_body_bytes en w1);
                 ctx1 = ctx\<lparr>rs_status := 413, rs_headers := hm_new, rs_body := bytes_of_string message,
                   rs_body_ms := body_ms, rs_response_body_observer_pending := False\<rparr>;
                 ctx2 = rs_push_flow ctx1 (Completed (rs_status ctx1) (elapsed_ms start (en_now en w1)));
                 w2 = record_response_with_optional_size en ctx2 None w1
             in (Some (text_response 413 message), guard_drop (map_option guard_disarm guard) w2))"

definition stream_chunks ::
    "('w, 'o) engine \<Rightarrow> ('w, 'o) observer_ops \<Rightarrow> nat \<Rightarrow> bool list \<Rightarrow> bytes list \<Rightarrow> 'o list \<Rightarrow>
     response_context \<Rightarrow> 'w terminal_guard option \<Rightarrow> upstream_response \<Rightarrow> 'w \<Rightarrow> http_response option \<times> 'w" where
  "stream_chunks en ops start turns late obs ctx guard ur w =
     (let ctx1 = push_tag ''streamed'' ctx;
          (obs1, w1) = observe_head ops obs ctx1 start w;
          ctx2 = (if obs1 \<noteq> [] then ctx1\<lparr>rs_headers := remove_header (rs_headers ctx1) ''content-length''\<rparr>
                  else ctx1);
          seen = (case ur_gone ur of Some n \<Rightarrow> take n (ur_chunks ur) | None \<Rightarrow> ur_chunks ur)
      in if response_fields en ctx2 = None then (Some internal_error, guard_drop guard w1)
         else case relay_events ops obs1 (interleave turns late seen) w1 of
           (sent, obs2, w2) \<Rightarrow>
             (Some (response_builder en ctx2 sent []),
              if ur_gone ur \<noteq> None then guard_drop guard w2
              else guard_drop (map_option guard_disarm guard) (finish_all ops obs2 w2)))"

definition forward_stream ::
    "('w, 'o) engine \<Rightarrow> ('w, 'o) observer_ops \<Rightarrow> schedule \<Rightarrow> nat \<Rightarrow> request_head \<Rightarrow> string option \<Rightarrow>
     http_request \<Rightarrow> 'w \<Rightarrow> http_response option \<times> 'w" where
  "forward_stream en ops sched start rh mitm_destination req w =
     (case enter_exchange en rh (exchange_context rh mitm_destination []) start
        ''Client closed the downstream stream before oproxy recorded a terminal response.'' w of
        (Inl response, w1) \<Rightarrow> (Some response, w1)
      | (Inr (up, ctx, guard), w1) \<Rightarrow>
          (let obs = stream_observers (en_chain en w1) ctx;
               (early, obs1, w2) = feed_all (oo_request_chunk ops) obs (take (fs_early sched) (hq_chunks req)) w1
           in case en_send en \<lparr>uq_url = pu_url up, uq_headers = pu_headers up, uq_method = pu_method up,
                     uq_body = Stream_Body early\<rparr> w2 of
                (Client_Gone, w3) \<Rightarrow> (None, guard_drop guard w3)
              | (Send_Failed e, w3) \<Rightarrow>
                  (case record_forward_failure en e (rh_display_uri rh) (rh_host rh) (rh_method rh)
                      (pu_session_id up) (pu_protocol_context up) (elapsed_ms (en_now en w1) (en_now en w3))
                      (rq_flow ctx) w3 of
                     (response, w4) \<Rightarrow> (Some response, guard_drop (map_option guard_disarm guard) w4))
              | (Answered ur, w3) \<Rightarrow>
                  let ctx0 = answered_context en rh up ctx ur (elapsed_ms (en_now en w1) (en_now en w3)) 0
                        (response_headers ur) [] True;
                      guard0 = map_option (guard_update_from_response ctx0) guard
                  in (case execute_response_middleware en (tag_rewritten ctx ctx0) w3 of
                        (Short_Circuit response, ctx2, w4) \<Rightarrow>
                          (Some response, fail_guard (hr_status response) FS_ResponseMiddleware
                             stopped_stream_message (map_option (guard_update_from_response ctx2) guard0) w4)
                      | (Go_On, ctx2, w4) \<Rightarrow>
                          if normalizes_encoding en ctx2 ur w4
                          then stream_encoded en ops start obs1 ctx2 guard0 ur w4
                          else stream_chunks en ops start (fs_turns sched)
                                 (drop (fs_early sched) (hq_chunks req)) obs1 ctx2 guard0 ur w4)))"

section \<open>Entry point\<close>

definition handle_request_with_destination ::
    "('w, 'o) engine \<Rightarrow> ('w, 'o) observer_ops \<Rightarrow> schedule \<Rightarrow> http_request \<Rightarrow> string option \<Rightarrow> 'w \<Rightarrow>
     http_response option \<times> 'w" where
  "handle_request_with_destination en ops sched req mitm_destination w =
     (let start = en_now en w; rh = build_request_head en req mitm_destination
      in if rh_method rh = ''CONNECT'' then (Some (text_response 502 ''CONNECT should be handled upstream''), w)
         else if cp_forward_class (chain_capability_plan (en_chain en w) (head_context rh)
                   (rh_protocol_context rh)) = Streaming
         then forward_stream en ops sched start rh mitm_destination req w
         else case read_request_body (en_max_body_bytes en w) rh req of
                Inl response \<Rightarrow> (Some response, w)
              | Inr (body, streamed) \<Rightarrow> buffered_exchange en start rh mitm_destination body streamed w)"

section \<open>Lemmas on contexts\<close>

lemma rs_push_session [simp]: "rs_session_id (rs_push_flow r e) = rs_session_id r"
  by (simp add: rs_push_flow_def)

lemma rs_extend_session [simp]: "rs_session_id (rs_extend_flow r es) = rs_session_id r"
  unfolding rs_extend_flow_def by (induction es arbitrary: r) simp_all

lemma answered_context_session [simp]:
  "rs_session_id (answered_context en rh up req ur t b h body p) = pu_session_id up"
  by (simp add: answered_context_def)

lemma tag_session [simp]:
  "rs_session_id (tag_rewritten req r) = rs_session_id r" "rs_session_id (push_tag t r) = rs_session_id r"
  by (simp_all add: tag_rewritten_def push_tag_def)

lemma rq_push_session [simp]: "rq_session_id (rq_push_flow r e) = rq_session_id r"
  by (simp add: rq_push_flow_def)

lemma prepare_session:
  "prepare_upstream en req u fb = (Inr up, req') \<Longrightarrow> pu_session_id up = rq_session_id req"
  by (auto simp: prepare_upstream_def Let_def split: prod.splits if_splits)

section \<open>Terminal recording\<close>

definition armed :: "'w session_world \<Rightarrow> string \<Rightarrow> 'w terminal_guard option \<Rightarrow> bool" where
  "armed sw i g \<longleftrightarrow> (\<exists>g'. g = Some g' \<and> tg_session_manager g' = Some sw \<and> tg_session_id g' = i)"

lemma armed_update [simp]:
  "armed sw i (map_option (guard_update_flow f) g) = armed sw i g"
  "armed sw i (map_option (guard_update_from_response r) g) = armed sw i g"
  by (cases g; simp add: armed_def guard_update_flow_def guard_update_from_response_def)+

lemma drop_disarmed [simp]: "guard_drop (map_option guard_disarm g) w = w"
  by (cases g) (simp_all add: guard_drop_def guard_disarm_def guard_record_failure_def)

locale recorded_engine = recorder sw log ok
  for sw :: "'w session_world" and log :: "'w \<Rightarrow> write_op list" and ok :: "'w \<Rightarrow> bool" +
  fixes en :: "('w, 'o) engine"
  assumes recorder_of: "en_recorder en = Some sw"
    and plugin_extends: "m \<in> set (en_chain en v) \<Longrightarrow> mwr_on_response m w r = (a, w', r') \<Longrightarrow>
      extends w w' \<and> rs_session_id r' = rs_session_id r"
    and send_extends: "extends w (snd (en_send en q w))"
    and pause_extends: "extends w (en_pause en w)"
begin

lemma responses_extend:
  assumes "execute_response (en_chain en v) w r = (a, w', r')"
  shows "extends w w'" and "rs_session_id r' = rs_session_id r"
proof -
  have "response_invariant (\<lambda>m. m \<in> set (en_chain en v))
      (\<lambda>w1 c. extends w w1 \<and> rs_session_id c = rs_session_id r)"
    by unfold_locales (metis plugin_extends extends_trans)
  from response_invariant.response_chain [OF this _ _ assms]
  show "extends w w'" "rs_session_id r' = rs_session_id r" by auto
qed

lemma record_extends [simp]: "extends w (record_response_with_optional_size en ctx sz w)"
  by (auto simp: record_response_with_optional_size_def recorder_of annotate_tags_def Let_def
      split: option.split)

lemma record_answers:
  assumes "ok w" and "rs_session_id ctx = Some i"
  shows "answered i (record_response_with_optional_size en ctx sz w)"
proof (cases "sw_session sw i w")
  case None
  then show ?thesis using assms
    by (simp add: record_response_with_optional_size_def recorder_of answered_emit)
next
  case (Some x)
  show ?thesis
  proof (cases "ex_response x")
    case (Some r)
    with \<open>sw_session sw i w = Some x\<close> answered_session [OF assms(1) \<open>sw_session sw i w = Some x\<close>] assms
    show ?thesis by (simp add: record_response_with_optional_size_def recorder_of)
  next
    case None
    let ?op = "WO_RecordResponseWithMetrics i ctx (terminal_metrics (sw_now sw w) x ctx sz)"
    have a: "answered i (sw_emit sw [?op] w)" using assms(1) by (simp add: answered_emit)
    have o: "ok (sw_emit sw [?op] w)" using assms(1) by (rule emit_ok)
    have "extends (sw_emit sw [?op] w) (annotate_tags sw i ts (sw_emit sw [?op] w))" for ts
      unfolding annotate_tags_def by (rule extends_trans [OF extends_emit extends_wait])
    from answered_extends [OF o this a] a show ?thesis
      using assms(2) None \<open>sw_session sw i w = Some x\<close>
      by (simp add: record_response_with_optional_size_def recorder_of Let_def)
  qed
qed

lemma failure_extends:
  "tg_session_manager g = Some sw \<or> tg_session_manager g = None \<Longrightarrow>
   extends w (snd (guard_record_failure status stage message g w))"
  by (auto simp: guard_record_failure_def Let_def split: option.split)

lemma failure_answers:
  assumes "ok w" and "tg_session_manager g = Some sw" and "tg_session_id g = i"
  shows "answered i (snd (guard_record_failure status stage message g w))"
proof (cases "Option.bind (sw_session sw i w) ex_response")
  case None
  then show ?thesis using assms by (simp add: guard_record_failure_def Let_def answered_emit)
next
  case (Some r)
  then obtain x where "sw_session sw i w = Some x" "ex_response x = Some r"
    by (cases "sw_session sw i w") auto
  then show ?thesis using assms answered_session [OF assms(1)]
    by (simp add: guard_record_failure_def Let_def)
qed

lemma drop_answers: "ok w \<Longrightarrow> armed sw i g \<Longrightarrow> ok (guard_drop g w) \<and> answered i (guard_drop g w)"
  by (auto simp: armed_def guard_drop_def failure_answers intro: extends_ok [OF failure_extends])

lemma fail_answers:
  assumes "ok w" and "armed sw i g"
  shows "ok (fail_guard status stage message g w) \<and> answered i (fail_guard status stage message g w)"
proof -
  obtain g1 where g: "g = Some g1" "tg_session_manager g1 = Some sw" "tg_session_id g1 = i"
    using assms(2) by (auto simp: armed_def)
  have "fst (guard_record_failure status stage message g1 w) = guard_disarm g1"
    by (simp add: guard_record_failure_def g Let_def)
  then have "fail_guard status stage message g w = snd (guard_record_failure status stage message g1 w)"
    using drop_disarmed [of "Some g1"] by (simp add: fail_guard_def g split_beta)
  then show ?thesis using failure_answers [OF assms(1) g(2,3)] extends_ok [OF failure_extends assms(1)] g(2)
    by simp
qed

text \<open>The tee: until it records the response, the guard is armed.\<close>

definition tee_inv :: "string \<Rightarrow> 'w tee_state \<times> 'w \<Rightarrow> bool" where
  "tee_inv i s \<longleftrightarrow> ok (snd s) \<and> rs_session_id (te_ctx (fst s)) = Some i \<and>
     (if te_recorded (fst s) then answered i (snd s) \<and> (\<exists>g. te_guard (fst s) = map_option guard_disarm g)
      else armed sw i (te_guard (fst s)))"

lemma tee_record_inv: "tee_inv i (st, w) \<Longrightarrow> tee_inv i (tee_record en start body_start st w)
    \<and> te_recorded (fst (tee_record en start body_start st w))"
  by (auto simp: tee_inv_def tee_record_def Let_def record_answers intro: extends_ok [OF record_extends])

lemma tee_chunk_inv:
  assumes "tee_inv i s"
  shows "tee_inv i (tee_chunk en start body_start cap expected chunk s)"
proof -
  obtain st w where s: "s = (st, w)" by (cases s)
  let ?st = "st\<lparr>te_total_bytes := te_total_bytes st + length chunk,
                 te_retained := retain_chunk cap (te_retained st) chunk\<rparr>"
  have "ok (en_pause en w)" "answered i w \<Longrightarrow> answered i (en_pause en w)"
    using assms extends_ok [OF pause_extends] answered_extends [OF _ pause_extends]
    by (auto simp: s tee_inv_def)
  then have 1: "tee_inv i (?st, en_pause en w)" using assms by (auto simp: s tee_inv_def)
  have sent: "tee_inv i (st'\<lparr>te_sent := b\<rparr>, w') = tee_inv i (st', w')" for st' b w'
    by (simp add: tee_inv_def)
  show ?thesis using 1 tee_record_inv [OF 1, of start body_start]
    by (auto simp: s tee_chunk_def Let_def sent split: prod.splits)
qed

lemma tee_answers:
  assumes "ok w" and "rs_session_id ctx = Some i" and "armed sw i g"
  shows "ok (snd (tee_stream en start cap expected ur ctx g w))
     \<and> answered i (snd (tee_stream en start cap expected ur ctx g w))"
proof -
  let ?init = "(\<lparr>te_ctx = ctx, te_guard = g, te_retained = [], te_total_bytes = 0,
                 te_recorded = False, te_sent = []\<rparr>, w)"
  have init: "tee_inv i ?init" using assms by (simp add: tee_inv_def)
  have run: "tee_inv i (fold (tee_chunk en start (en_now en w) cap expected) cs s)" if "tee_inv i s" for cs s
    using that by (induction cs arbitrary: s) (auto simp: tee_chunk_inv)
  have final: "ok (guard_drop (te_guard st) v) \<and> answered i (guard_drop (te_guard st) v)"
    if "tee_inv i (st, v)" for st v
    using that by (cases "te_recorded st") (auto simp: tee_inv_def drop_answers)
  have pause: "tee_inv i (st, en_pause en v)" if "tee_inv i (st, v)" for st v
    using that extends_ok [OF pause_extends] answered_extends [OF _ pause_extends]
    by (auto simp: tee_inv_def)
  show ?thesis
    using run [OF init] tee_record_inv [OF pause]
    by (auto simp: tee_stream_def Let_def split_beta intro!: final)
qed

lemma streamed_answers:
  assumes "ok w" and "armed sw i g" and "pu_session_id up = Some i"
  shows "ok (snd (relay_streamed en start rh up req g ur t w))
     \<and> answered i (snd (relay_streamed en start rh up req g ur t w))"
proof -
  let ?c = "tag_rewritten req (push_tag ''streamed''
     (answered_context en rh up req ur t 0 (response_headers ur) [] True))"
  obtain a w1 c where run: "execute_response (en_chain en w) w ?c = (a, w1, c)"
    by (cases "execute_response (en_chain en w) w ?c")
  have "ok w1" and "rs_session_id c = Some i"
    using extends_ok [OF responses_extend(1) [OF run] assms(1)] responses_extend(2) [OF run] assms(3)
    by simp_all
  then show ?thesis
    using fail_answers [of w1 i] drop_answers [of w1 i] tee_answers [of w1 c i] assms(2)
    by (auto simp: relay_streamed_def run Let_def split_beta)
qed

lemma buffered_answers:
  assumes "ok w" and "armed sw i g" and "pu_session_id up = Some i"
  shows "ok (snd (relay_buffered en start rh up req st g ur t w))
     \<and> answered i (snd (relay_buffered en start rh up req st g ur t w))"
proof -
  let ?v = "en_pause en w"
  have v: "ok ?v" using extends_ok [OF pause_extends assms(1)] .
  obtain body headers where dec: "decoded_response_body (en_net en) (response_headers ur)
      (if ur_body_ok ur then concat (ur_chunks ur) else []) = (body, headers)" by fastforce
  let ?c0 = "answered_context en rh up req ur t (elapsed_ms (en_now en w) (en_now en ?v)) headers body False"
  let ?c = "tag_rewritten req (if st then push_tag ''streamed'' ?c0 else ?c0)"
  obtain a w1 c where run: "execute_response (en_chain en ?v) ?v ?c = (a, w1, c)"
    by (cases "execute_response (en_chain en ?v) ?v ?c")
  have w1: "ok w1" using extends_ok [OF responses_extend(1) [OF run] v] .
  have "rs_session_id ?c = Some i" using assms(3) by simp
  then have c: "rs_session_id c = Some i" using responses_extend(2) [OF run] by simp
  let ?d = "rs_push_flow c (Completed (rs_status c) (elapsed_ms start (en_now en w1)))"
  have "ok (record_response_with_optional_size en ?d None w1)
      \<and> answered i (record_response_with_optional_size en ?d None w1)"
    using record_answers [OF w1, of ?d i] extends_ok [OF record_extends w1] c by simp
  then show ?thesis
    using drop_answers [OF v assms(2)] fail_answers [OF w1, of i] assms(2)
    by (auto simp: relay_buffered_def dec execute_response_middleware_def run Let_def)
qed

lemma forward_failure_answers:
  assumes "ok w" and "s = Some i"
  shows "ok (snd (record_forward_failure en e u host verb s p t flow w))
     \<and> answered i (snd (record_forward_failure en e u host verb s p t flow w))"
proof -
  let ?r = "rs_push_flow (rs_extend_flow (rs_default\<lparr>rs_status := 502,
      rs_body := bytes_of_string (''Proxy error: '' @ classify_forward_error e (error_chain e)),
      rs_request_uri := u, rs_session_id := s, rs_ttfb_ms := t, rs_request_host := host,
      rs_request_method := verb, rs_protocol_context := p\<rparr>) flow)
      (Failed FS_Forwarding (classify_forward_error e (error_chain e)))"
  obtain a w1 c where run: "execute_response (en_chain en w) w ?r = (a, w1, c)"
    by (cases "execute_response (en_chain en w) w ?r")
  have w1: "ok w1" using extends_ok [OF responses_extend(1) [OF run] assms(1)] .
  have "rs_session_id c = Some i" using responses_extend(2) [OF run] assms(2) by simp
  then show ?thesis
    using record_answers [OF w1] extends_ok [OF record_extends w1] run
    by (simp add: record_forward_failure_def Let_def)
qed

lemma exchange_answers:
  assumes "ok w1" and "execute_request (en_chain en w) w (exchange_context rh dest body) = (Continue, w1, ctx1)"
    and "rq_session_id ctx1 = Some i"
  shows "ok (snd (buffered_exchange en start rh dest body streamed w))
     \<and> answered i (snd (buffered_exchange en start rh dest body streamed w))"
proof -
  let ?msg = "''Client closed the downstream connection before oproxy recorded a terminal response.''"
  let ?g = "terminal_guard_for_request en ctx1 start ?msg"
  have armed: "armed sw i ?g"
    using assms(3) by (simp add: armed_def terminal_guard_for_request_def recorder_of)
  have mid: "execute_request_middleware en (exchange_context rh dest body) (rh_display_uri rh) (rh_host rh)
      (rh_method rh) w = (Go_On, ctx1, w1)"
    using assms(2) by (simp add: execute_request_middleware_def)
  obtain o1 ctx2 where prep: "prepare_upstream en ctx1 (rh_uri rh) (rh_req_uri rh) = (o1, ctx2)" by fastforce
  show ?thesis
  proof (cases o1)
    case (Inl response)
    then show ?thesis
      using fail_answers [OF assms(1), of i] armed
      by (simp add: buffered_exchange_def enter_exchange_def mid prep)
  next
    case (Inr up)
    let ?c = "rq_push_flow ctx2 (Forwarded (pu_url up))"
    let ?q = "\<lparr>uq_url = pu_url up, uq_headers = pu_headers up, uq_method = pu_method up,
        uq_body = upstream_body_of ?c streamed\<rparr>"
    have up: "pu_session_id up = Some i" using prepare_session [OF prep [unfolded Inr]] assms(3) by simp
    obtain ans w2 where send: "en_send en ?q w1 = (ans, w2)" by fastforce
    have w2: "ok w2" using extends_ok [OF send_extends assms(1)] send by (metis snd_conv)
    show ?thesis
      using drop_answers [OF w2, of i] forward_failure_answers [OF w2, of "pu_session_id up" i]
        streamed_answers [OF w2, of i] buffered_answers [OF w2, of i] armed up
      by (cases ans) (auto simp: buffered_exchange_def enter_exchange_def mid prep Inr send Let_def
          split_beta)
  qed
qed

end

section \<open>An engine on the session manager\<close>

text \<open>The engine whose chain is the inspection plugin, over an arbitrary network: \<open>net_answers\<close>
  answers a request, and a wait lets a millisecond pass.\<close>

record engine_config =
  ec_net :: engine_net
  ec_label :: string
  ec_max_body_bytes :: nat
  ec_stream_threshold_bytes :: u64
  ec_bind_port :: u16
  ec_bind_host :: string
  ec_self_lan_hosts :: "string list"
  ec_alt_svc_header :: "string option"

definition inspecting_engine ::
    "engine_config \<Rightarrow> (upstream_request \<Rightarrow> nat \<Rightarrow> send_outcome) \<Rightarrow>
     (recorder_state, inspection_observer) engine" where
  "inspecting_engine cfg net_answers =
     \<lparr>en_net = ec_net cfg,
      en_chain = (\<lambda>_. [inspection_middleware recorder_world (ec_label cfg) (ec_max_body_bytes cfg)]),
      en_recorder = Some recorder_world, en_max_body_bytes = (\<lambda>_. ec_max_body_bytes cfg),
      en_stream_threshold_bytes = ec_stream_threshold_bytes cfg, en_bind_port = ec_bind_port cfg,
      en_bind_host = ec_bind_host cfg, en_self_lan_hosts = ec_self_lan_hosts cfg,
      en_alt_svc_header = ec_alt_svc_header cfg, en_now = rc_instant,
      en_send = (\<lambda>q w. (net_answers q (rc_instant w), w\<lparr>rc_instant := Suc (rc_instant w)\<rparr>)),
      en_pause = (\<lambda>w. w\<lparr>rc_instant := Suc (rc_instant w)\<rparr>)\<rparr>"

lemma tick_extends [simp]: "rec.extends w (w\<lparr>rc_instant := n\<rparr>)"
  by (simp add: rec.extends_def recorder_ok_def)

interpretation inspecting: recorded_engine recorder_world rc_log recorder_ok "inspecting_engine cfg net_answers"
  for cfg net_answers
  by unfold_locales
    (auto simp: inspecting_engine_def dest: rec.inspection_response_extends)

lemma inspecting_chain [simp]:
  "en_chain (inspecting_engine cfg net_answers) w =
     [inspection_middleware recorder_world (ec_label cfg) (ec_max_body_bytes cfg)]"
  by (simp add: inspecting_engine_def)

section \<open>Lemmas on bodies\<close>

lemma read_capped_eq:
  "length raw \<le> cap \<Longrightarrow>
   read_capped cap raw cs = (if length raw + length (concat cs) \<le> cap then Some (raw @ concat cs) else None)"
proof (induction cs arbitrary: raw)
  case (Cons c cs)
  show ?case using Cons.IH [of "raw @ c"] by auto
qed simp

text \<open>The tee relays every chunk and keeps the first \<open>cap\<close> bytes.\<close>

lemma tee_chunk_bytes:
  assumes "tee_chunk en start body_start cap expected chunk (st, w) = (st', w')"
  shows "te_sent st' = te_sent st @ chunk" and "te_total_bytes st' = te_total_bytes st + length chunk"
    and "te_retained st' = retain_chunk cap (te_retained st) chunk"
  using assms by (auto simp: tee_chunk_def tee_record_def Let_def split: if_splits prod.splits)

lemma tee_fold_bytes:
  "te_sent (fst (fold (tee_chunk en start body_start cap expected) cs s)) = te_sent (fst s) @ concat cs
   \<and> te_retained (fst (fold (tee_chunk en start body_start cap expected) cs s)) =
       foldl (retain_chunk cap) (te_retained (fst s)) cs"
proof (induction cs arbitrary: s)
  case (Cons c cs)
  obtain st w st' w' where "s = (st, w)" and step: "tee_chunk en start body_start cap expected c (st, w) = (st', w')"
    by (cases s, cases "tee_chunk en start body_start cap expected c s") auto
  with Cons.IH [of "(st', w')"] tee_chunk_bytes [OF step] show ?case by simp
qed simp

section \<open>Properties\<close>


definition sample_net :: engine_net where
  "sample_net = \<lparr>nt_url_parse = (\<lambda>_. None), nt_name = Some, nt_value = Some, nt_method_ok = (\<lambda>_. True),
     nt_lower = to_ascii_lowercase, nt_gunzip = Some, nt_zlib = (\<lambda>_. None), nt_inflate = (\<lambda>_. None),
     nt_brotli = (\<lambda>_. None), nt_unzstd = (\<lambda>_. None)\<rparr>"

definition sample_config :: engine_config where
  "sample_config = \<lparr>ec_net = sample_net, ec_label = ''InspectionMiddleware'', ec_max_body_bytes = 100,
     ec_stream_threshold_bytes = 50, ec_bind_port = 8080, ec_bind_host = ''127.0.0.1'',
     ec_self_lan_hosts = [], ec_alt_svc_header = None\<rparr>"

definition sample_head :: request_head where
  "sample_head = \<lparr>rh_method = ''GET'', rh_uri = \<lparr>uri_scheme = None, uri_authority = None,
     uri_path_and_query = Some ''/'', uri_text = ''/''\<rparr>, rh_host = ''h'', rh_remote_addr = None,
     rh_connection_id = None, rh_stream_id = None, rh_downstream_protocol = None, rh_req_uri = ''/'',
     rh_req_headers = hm_new, rh_display_uri = ''http://h/'', rh_protocol_context = pc_default\<rparr>"






text \<open>The loop check compares with the address \<open>::1\<close>, but the host of a parsed URL keeps the
  brackets of an IPv6 address, and the clean bind host is cut at its first colon: a target on the
  IPv6 loopback is never recognised.\<close>

lemma hd_split_char_no_sep: "d \<notin> set (hd (split_char d s))"
  by (induction s) (auto split: list.split)

lemma ipv6_loop_undetected:
  assumes "nt_url_parse (en_net en) url = Some \<lparr>url_scheme = sch, url_host_str = Some ''[::1]'', url_port = port\<rparr>"
    and "''[::1]'' \<notin> set (en_self_lan_hosts en)"
  shows "\<not> is_self_proxy en url"
proof -
  let ?b = "bind_host_clean (en_bind_host en)"
  have lower: "ascii_lower c = CHR '':'' \<Longrightarrow> c = CHR '':''" for c
    by (auto simp: ascii_lower_def Let_def char_of_eq_iff take_bit_eq_mod split: if_splits)
  have "CHR '':'' \<notin> set ?b"
    using set_trim_str hd_split_char_no_sep [of "CHR '':''" "en_bind_host en"]
    by (auto simp: bind_host_clean_def to_ascii_lowercase_def dest!: lower [OF sym] subsetD)
  moreover have "CHR '':'' \<in> set ''[::1]''" by simp
  ultimately have "''[::1]'' \<noteq> ?b" by metis
  moreover have "to_ascii_lowercase ''[::1]'' = ''[::1]''" by code_simp
  ultimately show ?thesis
    using assms by (simp add: is_self_proxy_def Let_def loopback_names_def)
qed

lemma body_independent [simp]:
  "response_headers (ur\<lparr>ur_body_ok := b\<rparr>) = response_headers ur"
  "response_headers (ur\<lparr>ur_chunks := cs\<rparr>) = response_headers ur"
  "answered_context en rh up req (ur\<lparr>ur_body_ok := b\<rparr>) = answered_context en rh up req ur"
  "answered_context en rh up req (ur\<lparr>ur_chunks := cs\<rparr>) = answered_context en rh up req ur"
  "is_grpc_content (ur\<lparr>ur_body_ok := b\<rparr>) = is_grpc_content ur"
  "is_grpc_content (ur\<lparr>ur_chunks := cs\<rparr>) = is_grpc_content ur"
  by (simp_all add: response_headers_def answered_context_def is_grpc_content_def content_type_value_def fun_eq_iff)

lemma tee_stream_ok_independent [simp]:
  "tee_stream en start cap expected (ur\<lparr>ur_body_ok := b\<rparr>) = tee_stream en start cap expected ur"
  by (cases "ur_gone ur") (simp_all add: tee_stream_def fun_eq_iff)

text \<open>A failure while the upstream body is read is not reported: on the buffered path it cannot
  be told from an empty body of the same status and headers, neither by the client nor in the record,
  and on the streamed path not from a body that ends there.\<close>

theorem failed_body_read_is_silent:
  "relay_buffered en start rh up req st g (ur\<lparr>ur_body_ok := False\<rparr>) t w
     = relay_buffered en start rh up req st g (ur\<lparr>ur_chunks := [], ur_body_ok := True\<rparr>) t w
   \<and> relay_streamed en start rh up req g (ur\<lparr>ur_body_ok := False\<rparr>) t w
     = relay_streamed en start rh up req g (ur\<lparr>ur_body_ok := True\<rparr>) t w"
  by (simp add: relay_buffered_def relay_streamed_def Let_def split_beta
      cong: option.case_cong middleware_outcome.case_cong if_cong)

text \<open>Of two codings only the one tested first is undone, and the header that names both goes.\<close>

lemma stacked_encodings_lose_one:
  assumes "header_value h ''content-encoding'' = Some ''br, gzip''" and "nt_lower net ''br, gzip'' = ''br, gzip''"
    and "nt_gunzip net body = Some inner"
  shows "decoded_response_body net h body =
    (inner, remove_header (remove_header h ''content-encoding'') ''content-length'')"
proof -
  have "contains_str ''br, gzip'' ''gzip''" by code_simp
  with assms show ?thesis by (simp add: decoded_response_body_def decode_body_def)
qed

text \<open>A wall clock that steps back by a millisecond gives the largest latency.\<close>

lemma latency_wraps: "latency_since (t - 1) t = - 1"
  by (simp add: latency_since_def)

text \<open>A response plugin that stops an intercepted response leaves the session without a record of
  it: nothing is emitted after the chain.\<close>

lemma stopped_intercept_unrecorded:
  "execute_response (en_chain en w) w (intercepted_context en ir u s host verb p flow) = (StopAndReturn, w', r) \<Longrightarrow>
   respond_to_intercepted en ir u s host verb p flow w = (stopped_response, w')"
  by (simp add: respond_to_intercepted_def)

end
