(* ===== verification/MapLocal.thy ===== *)
theory MapLocal
  imports Chain
begin

text \<open>
  \<open>middleware/plugins/map_local.rs\<close>: fixtures served from disk.

  A path is its bytes; \<open>is_absolute\<close>, \<open>join\<close>, \<open>starts_with\<close> and
  \<open>extension\<close> of \<open>std::path\<close> are written out for Unix. The file system is the record
  \<open>files\<close> of what the queries answer while a request is handled: \<open>fl_canonicalize\<close> is
  \<open>Path::canonicalize\<close> with the error's text on the left.
\<close>

section \<open>Paths\<close>

type_synonym path = string

definition is_absolute :: "path \<Rightarrow> bool" where
  "is_absolute p \<longleftrightarrow> prefix ''/'' p"

definition path_join :: "path \<Rightarrow> path \<Rightarrow> path" where
  "path_join base p =
     (if is_absolute p then p
      else if base \<noteq> [] \<and> last base \<noteq> CHR ''/'' then base @ ''/'' @ p
      else base @ p)"

text \<open>The components: the root directory, a leading dot, and the names; empty and other dot
  components are skipped.\<close>

definition path_components :: "path \<Rightarrow> string list" where
  "path_components p =
     (let parts = split_char (CHR ''/'') p
      in (if is_absolute p then [''/''] else if hd parts = ''.'' then [''.''] else [])
         @ filter (\<lambda>c. c \<noteq> [] \<and> c \<noteq> ''.'') parts)"

definition path_starts_with :: "path \<Rightarrow> path \<Rightarrow> bool" where
  "path_starts_with p base \<longleftrightarrow> prefix (path_components base) (path_components p)"

definition file_name :: "path \<Rightarrow> string option" where
  "file_name p = (let cs = path_components p
     in if cs = [] \<or> last cs \<in> {''/'', ''.'', ''..''} then None else Some (last cs))"

definition extension :: "path \<Rightarrow> string option" where
  "extension p = (case file_name p of
     None \<Rightarrow> None
   | Some n \<Rightarrow> (case rsplit_once (CHR ''.'') n of
        Some (before, after) \<Rightarrow> if before = [] then None else Some after | None \<Rightarrow> None))"

record files =
  fl_exists :: "path \<Rightarrow> bool"
  fl_is_dir :: "path \<Rightarrow> bool"
  fl_is_file :: "path \<Rightarrow> bool"
  fl_canonicalize :: "path \<Rightarrow> string + path"
  fl_read :: "path \<Rightarrow> bytes option"

section \<open>Rules\<close>

record map_local_rule =
  ml_id :: string
  ml_name :: string
  ml_enabled :: bool
  ml_location :: location
  ml_file_path :: path

definition resolve_map_local_path :: "files \<Rightarrow> path \<Rightarrow> path option \<Rightarrow> path option \<Rightarrow> path" where
  "resolve_map_local_path fs file_path base_path fixtures_dir =
     (if is_absolute file_path then file_path
      else case Option.bind base_path (\<lambda>b. let c = path_join b file_path in if fl_exists fs c then Some c else None) of
             Some c \<Rightarrow> c
           | None \<Rightarrow>
               (case Option.bind fixtures_dir (\<lambda>f. let c = path_join f file_path in if fl_exists fs c then Some c else None) of
                  Some c \<Rightarrow> c
                | None \<Rightarrow>
                    (case fixtures_dir of
                       Some f \<Rightarrow> path_join f file_path
                     | None \<Rightarrow> (case base_path of Some b \<Rightarrow> path_join b file_path | None \<Rightarrow> file_path))))"

definition quote_path :: "path \<Rightarrow> string" where
  "quote_path p = [CHR 0x27] @ p @ [CHR 0x27]"

text \<open>\<open>Inl\<close> is the error message, \<open>Inr None\<close> a file that is not there.\<close>

definition path_for_request :: "files \<Rightarrow> path \<Rightarrow> string \<Rightarrow> string + path option" where
  "path_for_request fs root request_path =
     (if \<not> fl_exists fs root then Inl (''root path '' @ quote_path root @ '' does not exist'')
      else if fl_is_dir fs root then
        (case fl_canonicalize fs (path_join root (trim_start_char (CHR ''/'') request_path)) of
           Inl _ \<Rightarrow> Inr None
         | Inr resolved \<Rightarrow>
             let canonical_root = (case fl_canonicalize fs root of Inr r \<Rightarrow> r | Inl _ \<Rightarrow> root)
             in Inr (if path_starts_with resolved canonical_root \<and> fl_is_file fs resolved
                     then Some resolved else None))
      else case fl_canonicalize fs root of
             Inr p \<Rightarrow> if fl_is_file fs p then Inr (Some p)
                      else Inl (quote_path root @ '' is not a regular file'')
           | Inl err \<Rightarrow> Inl (quote_path root @ '' is not accessible: '' @ err))"

definition error_headers :: header_map where
  "error_headers = snd (hm_insert hm_new ''content-type'' ''text/plain'')"

definition map_local_error :: "string \<Rightarrow> intercepted_response" where
  "map_local_error message = \<lparr>ir_status = 502, ir_headers = error_headers,
     ir_body = bytes_of_string (''map_local: '' @ message), ir_tags = [''map-local-error''],
     ir_served_mock = None\<rparr>"

definition mime_table :: "(string \<times> string) list" where
  "mime_table =
     [(''json'', ''application/json''), (''html'', ''text/html; charset=utf-8''),
      (''htm'', ''text/html; charset=utf-8''), (''js'', ''application/javascript''),
      (''mjs'', ''application/javascript''), (''ts'', ''application/typescript''),
      (''css'', ''text/css''), (''xml'', ''application/xml''), (''txt'', ''text/plain; charset=utf-8''),
      (''svg'', ''image/svg+xml''), (''png'', ''image/png''), (''jpg'', ''image/jpeg''),
      (''jpeg'', ''image/jpeg''), (''gif'', ''image/gif''), (''webp'', ''image/webp''),
      (''ico'', ''image/x-icon''), (''wasm'', ''application/wasm''), (''pdf'', ''application/pdf''),
      (''gz'', ''application/gzip''), (''zip'', ''application/zip'')]"

definition mime_for_path :: "path \<Rightarrow> string" where
  "mime_for_path p = (case Option.bind (extension p) (map_of mime_table) of
     Some t \<Rightarrow> t | None \<Rightarrow> ''application/octet-stream'')"

definition map_local_file :: "path \<Rightarrow> bytes \<Rightarrow> intercepted_response" where
  "map_local_file p contents =
     (let h1 = snd (hm_insert hm_new ''Content-Type'' (mime_for_path p));
          h2 = snd (hm_insert h1 ''Content-Length'' (decimal (length contents)))
      in \<lparr>ir_status = 200, ir_headers = h2, ir_body = contents, ir_tags = [''map-local''],
          ir_served_mock = None\<rparr>)"

record map_local_dirs =
  md_base_path :: "path option"
  md_fixtures_dir :: "path option"

definition map_local_stop ::
    "map_local_rule \<Rightarrow> intercepted_response \<Rightarrow> flow_short_circuit_reason \<Rightarrow> request_context \<Rightarrow>
     request_context" where
  "map_local_stop rule ir reason ctx =
     rq_push_flow (ctx\<lparr>rq_mock_response := Some ir\<rparr>)
       (ShortCircuited reason (ir_status ir) (Some (ml_id rule)) (Some (ml_name rule)))"

fun map_local_loop ::
    "regex_lib \<Rightarrow> files \<Rightarrow> map_local_dirs \<Rightarrow> match_target \<Rightarrow> map_local_rule list \<Rightarrow> request_context \<Rightarrow>
     middleware_action \<times> request_context" where
  "map_local_loop rx fs dirs target [] ctx = (Continue, ctx)"
| "map_local_loop rx fs dirs target (rule # rules) ctx =
     (if \<not> loc_matches rx (ml_location rule) target then map_local_loop rx fs dirs target rules ctx
      else
        let ctx1 = rq_push_flow ctx (RuleMatched FR_MapLocal (ml_id rule) (ml_name rule));
            root = resolve_map_local_path fs (ml_file_path rule) (md_base_path dirs) (md_fixtures_dir dirs)
        in case path_for_request fs root (mt_path target) of
             Inl message \<Rightarrow> (StopAndReturn, map_local_stop rule (map_local_error message) SC_MapLocalError ctx1)
           | Inr None \<Rightarrow> map_local_loop rx fs dirs target rules ctx1
           | Inr (Some p) \<Rightarrow>
               (case fl_read fs p of
                  Some contents \<Rightarrow>
                    (StopAndReturn, map_local_stop rule (map_local_file p contents) SC_MapLocalFile ctx1)
                | None \<Rightarrow> map_local_loop rx fs dirs target rules ctx1))"

definition map_local_on_request ::
    "regex_lib \<Rightarrow> files \<Rightarrow> map_local_dirs \<Rightarrow> map_local_rule list \<Rightarrow> request_context \<Rightarrow>
     middleware_action \<times> request_context" where
  "map_local_on_request rx fs dirs rules ctx =
     map_local_loop rx fs dirs (from_request ctx) (filter ml_enabled rules) ctx"

definition map_local_middleware ::
    "regex_lib \<Rightarrow> ('w \<Rightarrow> files) \<Rightarrow> map_local_dirs \<Rightarrow> ('w \<Rightarrow> map_local_rule list) \<Rightarrow> ('w, 'o) middleware" where
  "map_local_middleware rx fs dirs rules = (default_middleware ''MapLocalMiddleware'')\<lparr>
     mwr_on_request := \<lambda>w c. case map_local_on_request rx (fs w) dirs (rules w) c of (a, c') \<Rightarrow> (a, w, c')\<rparr>"

section \<open>Lemmas\<close>

lemma map_local_stop_clean [simp]: "request_clean c \<Longrightarrow> request_clean (map_local_stop r ir e c)"
  by (simp add: map_local_stop_def request_clean_def)

lemma map_local_loop_clean:
  "request_clean c \<Longrightarrow> request_clean (snd (map_local_loop rx fs dirs t rules c))"
  by (induction rx fs dirs t rules c rule: map_local_loop.induct)
    (auto simp: Let_def split: sum.split option.split)

lemma map_local_clean: "clean_plugin (map_local_middleware rx fs dirs rules)"
  by (rule clean_pluginI)
    (auto simp: map_local_middleware_def map_local_on_request_def map_local_loop_clean split_beta)

lemma map_local_stop_simps [simp]:
  "rq_mock_response (map_local_stop r ir e c) = Some ir" "rq_body (map_local_stop r ir e c) = rq_body c"
  by (simp_all add: map_local_stop_def rq_push_flow_def)

text \<open>What a rule may serve: the file it names, or a file below the directory it names.\<close>

definition servable :: "files \<Rightarrow> path \<Rightarrow> string \<Rightarrow> path \<Rightarrow> bool" where
  "servable fs root request_path p \<longleftrightarrow> fl_is_file fs p \<and>
     (if fl_is_dir fs root
      then fl_canonicalize fs (path_join root (trim_start_char (CHR ''/'') request_path)) = Inr p
        \<and> path_starts_with p (case fl_canonicalize fs root of Inr r \<Rightarrow> r | Inl _ \<Rightarrow> root)
      else fl_canonicalize fs root = Inr p)"

lemma path_for_request_servable:
  "path_for_request fs root request_path = Inr (Some p) \<Longrightarrow> servable fs root request_path p"
  by (auto simp: path_for_request_def servable_def Let_def split: if_splits sum.splits)

lemma map_local_loop_serves:
  "map_local_loop rx fs dirs target rules c = (StopAndReturn, c') \<Longrightarrow>
   \<exists>rule \<in> set rules. loc_matches rx (ml_location rule) target \<and>
     (let root = resolve_map_local_path fs (ml_file_path rule) (md_base_path dirs) (md_fixtures_dir dirs)
      in (\<exists>p contents. servable fs root (mt_path target) p \<and> fl_read fs p = Some contents
            \<and> rq_mock_response c' = Some (map_local_file p contents))
         \<or> (\<exists>message. path_for_request fs root (mt_path target) = Inl message
            \<and> rq_mock_response c' = Some (map_local_error message)))"
proof (induction rx fs dirs target rules c rule: map_local_loop.induct)
  case (2 rx fs dirs target rule rules ctx)
  let ?root = "resolve_map_local_path fs (ml_file_path rule) (md_base_path dirs) (md_fixtures_dir dirs)"
  show ?case
  proof (cases "loc_matches rx (ml_location rule) target")
    case False
    with 2 show ?thesis by auto
  next
    case match: True
    show ?thesis
    proof (cases "path_for_request fs ?root (mt_path target)")
      case (Inl message)
      with 2 match show ?thesis by (auto simp: Let_def)
    next
      case (Inr found)
      show ?thesis
      proof (cases found)
        case None
        with 2 match Inr show ?thesis by (auto simp: Let_def)
      next
        case (Some p)
        with Inr have "servable fs ?root (mt_path target) p" by (simp add: path_for_request_servable)
        with 2 match Inr Some show ?thesis by (cases "fl_read fs p") (auto simp: Let_def)
      qed
    qed
  qed
qed simp

section \<open>Properties\<close>

text \<open>C9 A fixture directory cannot be left: whatever path a request asks for, when the plugin
  answers, the answer is an enabled matching rule's -- either the contents of a regular file whose
  canonical path lies below the canonical directory of the rule (or is the rule's own file), with
  status 200, or the
  error of resolving the rule's path with status 502.\<close>

theorem map_local_containment:
  assumes "map_local_on_request rx fs dirs rules c = (StopAndReturn, c')"
  shows "\<exists>rule \<in> set rules. ml_enabled rule \<and> loc_matches rx (ml_location rule) (from_request c) \<and>
     (let root = resolve_map_local_path fs (ml_file_path rule) (md_base_path dirs) (md_fixtures_dir dirs)
      in (\<exists>p contents. servable fs root (mt_path (from_request c)) p \<and> fl_read fs p = Some contents
            \<and> rq_mock_response c' = Some (map_local_file p contents))
         \<or> (\<exists>message. path_for_request fs root (mt_path (from_request c)) = Inl message
            \<and> rq_mock_response c' = Some (map_local_error message)))"
  using map_local_loop_serves [of rx fs dirs "from_request c" "filter ml_enabled rules" c c'] assms
  by (auto simp: map_local_on_request_def)

text \<open>A disk with a directory and two files, one of them outside.\<close>

definition sample_files :: files where
  "sample_files = \<lparr>fl_exists = (\<lambda>p. p \<in> {''/fx'', ''/fx/a.json'', ''/etc/passwd''}), fl_is_dir = (\<lambda>p. p = ''/fx''),
     fl_is_file = (\<lambda>p. p \<in> {''/fx/a.json'', ''/etc/passwd''}),
     fl_canonicalize = (\<lambda>p. if p = ''/fx/../etc/passwd'' then Inr ''/etc/passwd''
        else if p \<in> {''/fx'', ''/fx/a.json''} then Inr p else Inl ''No such file or directory''),
     fl_read = (\<lambda>p. if p = ''/fx/a.json'' then Some [123, 125] else Some [114])\<rparr>"

definition sample_map_local :: map_local_rule where
  "sample_map_local = \<lparr>ml_id = ''r'', ml_name = ''n'', ml_enabled = True, ml_location = loc_default,
     ml_file_path = ''/fx''\<rparr>"

theorem map_local_containment_witness:
  "\<exists>rule \<in> set [sample_map_local]. ml_enabled rule
     \<and> loc_matches literal_regex (ml_location rule) (from_request (rq_default\<lparr>rq_uri := ''/a.json''\<rparr>)) \<and>
     (let root = resolve_map_local_path sample_files (ml_file_path rule) None None
      in (\<exists>p contents. servable sample_files root (mt_path (from_request (rq_default\<lparr>rq_uri := ''/a.json''\<rparr>))) p
            \<and> fl_read sample_files p = Some contents
            \<and> rq_mock_response (snd (map_local_on_request literal_regex sample_files
                \<lparr>md_base_path = None, md_fixtures_dir = None\<rparr> [sample_map_local]
                (rq_default\<lparr>rq_uri := ''/a.json''\<rparr>))) = Some (map_local_file p contents))
         \<or> (\<exists>message. path_for_request sample_files root (mt_path (from_request (rq_default\<lparr>rq_uri := ''/a.json''\<rparr>)))
              = Inl message
            \<and> rq_mock_response (snd (map_local_on_request literal_regex sample_files
                \<lparr>md_base_path = None, md_fixtures_dir = None\<rparr> [sample_map_local]
                (rq_default\<lparr>rq_uri := ''/a.json''\<rparr>))) = Some (map_local_error message)))"
proof -
  let ?c = "rq_default\<lparr>rq_uri := ''/a.json''\<rparr>"
  let ?d = "\<lparr>md_base_path = None, md_fixtures_dir = None\<rparr>"
  have path: "mt_path (from_request ?c) = ''/a.json''" by code_simp
  have served: "path_for_request sample_files ''/fx'' ''/a.json'' = Inr (Some ''/fx/a.json'')"
    "resolve_map_local_path sample_files ''/fx'' None None = ''/fx''"
    "fl_read sample_files ''/fx/a.json'' = Some [123, 125]" by code_simp+
  have "fst (map_local_on_request literal_regex sample_files ?d [sample_map_local] ?c) = StopAndReturn"
    by (simp add: map_local_on_request_def sample_map_local_def path served Let_def)
  then obtain c' where run: "map_local_on_request literal_regex sample_files ?d [sample_map_local] ?c = (StopAndReturn, c')"
    by (metis prod.collapse)
  from map_local_containment [OF this] show ?thesis unfolding run by simp
qed

text \<open>A request path with dot-dot components leaves the directory, so the rule does not answer.\<close>

lemma map_local_escape_refused:
  "path_for_request sample_files ''/fx'' ''/../etc/passwd'' = Inr None"
  by code_simp

end
