(* ===== verification/AssistantRedaction.thy ===== *)
theory AssistantRedaction
  imports SessionTypes Utf8
begin

text \<open>
  Redaction of what the assistant is shown (\<open>control_plane/assistant_redaction.rs\<close>). The cut of a
  long text is \<open>String::truncate\<close>, which panics inside a character, so the result is an
  \<open>or_panic\<close>.
\<close>

definition REDACTED_MARK :: string where
  "REDACTED_MARK = ''[REDACTED]''"

definition is_secret_key :: "string \<Rightarrow> bool" where
  "is_secret_key key = list_ex (contains_str (to_ascii_lowercase key))
     [''authorization'', ''cookie'', ''token'', ''secret'', ''api_key'', ''apikey'', ''password'']"

definition jwt_char :: "char \<Rightarrow> bool" where
  "jwt_char c = (let n = char_code c
     in (48 \<le> n \<and> n \<le> 57) \<or> (65 \<le> n \<and> n \<le> 90) \<or> (97 \<le> n \<and> n \<le> 122)
        \<or> c = CHR ''-'' \<or> c = CHR ''_'')"

definition looks_like_jwt :: "string \<Rightarrow> bool" where
  "looks_like_jwt input =
     (let parts = split_char (CHR ''.'') (trim_str input)
      in length parts = 3 \<and> list_all (\<lambda>p. 8 \<le> length p \<and> list_all jwt_char p) parts)"

definition redact_query_part :: "string \<Rightarrow> bool \<times> string" where
  "redact_query_part part = (case split_once (CHR ''='') part of
     None \<Rightarrow> if is_secret_key part then (True, part @ ''='' @ REDACTED_MARK) else (False, part)
   | Some (key, v) \<Rightarrow> if is_secret_key key \<or> looks_like_jwt v then (True, key @ ''='' @ REDACTED_MARK)
                       else (False, part))"

definition redact_uri_query_secrets :: "string \<Rightarrow> string" where
  "redact_uri_query_secrets input = (case split_once (CHR ''?'') input of
     None \<Rightarrow> input
   | Some (before_query, after_query) \<Rightarrow>
       let (query, fragment) = (case split_once (CHR ''#'') after_query of
              Some (q, f) \<Rightarrow> (q, Some f) | None \<Rightarrow> (after_query, None));
           parts = map redact_query_part (split_char (CHR ''&'') query)
       in if \<not> list_ex fst parts then input
          else before_query @ ''?'' @ join_str ''&'' (map snd parts)
               @ (case fragment of Some f \<Rightarrow> ''#'' @ f | None \<Rightarrow> []))"

definition secret_markers :: "string list" where
  "secret_markers = [''sk-'', ''Bearer '', ''authorization:'', ''cookie:'', ''api_key'', ''secret'', ''token'']"

definition redact_string :: "string \<Rightarrow> string or_panic" where
  "redact_string input =
     (let out = redact_uri_query_secrets input;
          marked = out = input
            \<and> list_ex (\<lambda>m. contains_str (to_ascii_lowercase out) (to_ascii_lowercase m)) secret_markers;
          out1 = (if marked then REDACTED_MARK else out);
          out2 = (if looks_like_jwt out1 then REDACTED_MARK else out1)
      in if 4000 < length out2
         then bind_panic (truncate_str 4000 out2) (\<lambda>t. Returns (t @ ''...[truncated]''))
         else Returns out2)"

definition redact_uri :: "string \<Rightarrow> string or_panic" where
  "redact_uri input =
     (let redacted = redact_uri_query_secrets input
      in if redacted = input then redact_string input else Returns redacted)"

fun redact_value :: "json \<Rightarrow> json or_panic" where
  "redact_value (JObject kvs) = bind_panic
     (collect_panic (map (\<lambda>(k, v). if is_secret_key k then Returns (k, JString REDACTED_MARK)
                                  else bind_panic (redact_value v) (\<lambda>r. Returns (k, r))) kvs))
     (\<lambda>r. Returns (JObject r))"
| "redact_value (JArray items) = bind_panic (collect_panic (map redact_value items)) (\<lambda>r. Returns (JArray r))"
| "redact_value (JString s) = bind_panic (redact_string s) (\<lambda>r. Returns (JString r))"
| "redact_value v = Returns v"

section \<open>Lemmas\<close>

lemma split_char_amp_single: "CHR ''&'' \<notin> set q \<Longrightarrow> split_char (CHR ''&'') q = [q]"
  by (rule split_char_single)

lemma no_dot_not_jwt:
  assumes "CHR ''.'' \<notin> set s"
  shows "\<not> looks_like_jwt s"
proof -
  have "CHR ''.'' \<notin> set (trim_str s)" using assms set_trim_str [of s] by blast
  then show ?thesis by (simp add: looks_like_jwt_def split_char_single)
qed

text \<open>Once a secret of the query is redacted, the text before the query is not looked at.\<close>

lemma redact_string_keeps_prefix:
  assumes "CHR ''?'' \<notin> set p" and "length p \<le> 3000" and "\<not> looks_like_jwt (p @ ''?token=[REDACTED]'')"
  shows "redact_string (p @ ''?token=x'') = Returns (p @ ''?token=[REDACTED]'')"
proof -
  have "split_once (CHR ''?'') (p @ ''?token=x'') = Some (p, ''token=x'')"
    using split_once_append [OF assms(1), of "''token=x''"] by simp
  then have "redact_uri_query_secrets (p @ ''?token=x'') = p @ ''?token=[REDACTED]''"
    by (simp add: redact_uri_query_secrets_def redact_query_part_def is_secret_key_def
        contains_str_def to_ascii_lowercase_def ascii_lower_def REDACTED_MARK_def)
  then show ?thesis using assms(2,3) by (simp add: redact_string_def)
qed

text \<open>A bearer token in front of a redacted query stays readable.\<close>

lemma redact_string_leaks:
  "redact_string ''Authorization: Bearer sk-1 for /p?token=x''
     = Returns ''Authorization: Bearer sk-1 for /p?token=[REDACTED]''"
  using redact_string_keeps_prefix [of "''Authorization: Bearer sk-1 for /p''"]
  by (simp add: no_dot_not_jwt)

text \<open>A text of 4,001 bytes whose last character takes two.\<close>

lemma sublist_replicate: "sublist m (replicate n c @ s) \<Longrightarrow> set m \<subseteq> {c} \<union> set s"
  by (auto dest!: set_mono_sublist split: if_splits)

lemma redact_string_panics:
  "redact_string (replicate 3999 CHR ''a'' @ [CHR 0xC3, CHR 0xA9]) = Panic"
proof -
  let ?s = "replicate 3999 CHR ''a'' @ [CHR 0xC3, CHR 0xA9]"
  have uri: "redact_uri_query_secrets ?s = ?s" by (simp add: redact_uri_query_secrets_def)
  have lower: "to_ascii_lowercase ?s = ?s" by (simp add: to_ascii_lowercase_def ascii_lower_def)
  have "\<not> contains_str ?s (to_ascii_lowercase m)" if "m \<in> set secret_markers" for m
    using that unfolding contains_str_sublist
    by (auto simp: secret_markers_def to_ascii_lowercase_def ascii_lower_def dest!: sublist_replicate)
  then have marks: "\<not> list_ex (\<lambda>m. contains_str ?s (to_ascii_lowercase m)) secret_markers"
    by (auto simp: list_ex_iff)
  have jwt: "\<not> looks_like_jwt ?s" by (rule no_dot_not_jwt) simp
  have "truncate_str 4000 ?s = Panic"
    by (simp add: truncate_str_def nth_append is_continuation_def)
  then show ?thesis unfolding redact_string_def Let_def uri lower using marks jwt by simp
qed

section \<open>Redacted documents\<close>

fun secrets_hidden :: "json \<Rightarrow> bool" where
  "secrets_hidden (JObject kvs) =
     list_all (\<lambda>(k, v). if is_secret_key k then v = JString REDACTED_MARK else secrets_hidden v) kvs"
| "secrets_hidden (JArray items) = list_all secrets_hidden items"
| "secrets_hidden v = True"

lemma bind_panic_Returns: "bind_panic x f = Returns r \<longleftrightarrow> (\<exists>y. x = Returns y \<and> f y = Returns r)"
  by (cases x) auto

lemma collect_panic_Returns: "collect_panic xs = Returns ys \<longleftrightarrow> xs = map Returns ys"
  by (induction xs arbitrary: ys) (auto simp: bind_panic_Returns)

lemma redact_value_hides: "redact_value v = Returns r \<Longrightarrow> secrets_hidden r"
proof (induction v arbitrary: r)
  case (JArray xs)
  then obtain ys where r: "r = JArray ys" and ys: "map redact_value xs = map Returns ys"
    by (auto simp: bind_panic_Returns collect_panic_Returns)
  have "secrets_hidden y" if "y \<in> set ys" for y
  proof -
    have "Returns y \<in> set (map redact_value xs)" using that unfolding ys by simp
    then show ?thesis using JArray.IH by force
  qed
  then show ?case using r by (simp add: list_all_iff)
next
  case (JObject kvs)
  then obtain ys where r: "r = JObject ys"
    and ys: "map (\<lambda>(k, v). if is_secret_key k then Returns (k, JString REDACTED_MARK)
                         else bind_panic (redact_value v) (\<lambda>r. Returns (k, r))) kvs = map Returns ys"
    by (auto simp: bind_panic_Returns collect_panic_Returns)
  have "if is_secret_key k then y = JString REDACTED_MARK else secrets_hidden y" if "(k, y) \<in> set ys" for k y
  proof -
    have "Returns (k, y) \<in> Returns ` set ys" using that by simp
    also have "Returns ` set ys = set (map Returns ys)" by simp
    also note ys [symmetric]
    finally obtain k' v where kv: "(k', v) \<in> set kvs"
      and e: "(if is_secret_key k' then Returns (k', JString REDACTED_MARK)
               else bind_panic (redact_value v) (\<lambda>r. Returns (k', r))) = Returns (k, y)"
      by auto
    show ?thesis using e JObject.IH [OF kv, of v y]
      by (auto simp: bind_panic_Returns snds.simps split: if_splits)
  qed
  then show ?case using r by (auto simp: list_all_iff)
qed (auto simp: bind_panic_Returns)

end
