(* ===== verification/SessionDiff.thy ===== *)
theory SessionDiff
  imports SessionStore
begin

text \<open>
  The difference of two recorded sessions (\<open>diff.rs\<close>). The line diff of the similar crate is the
  parameter \<open>text_diff\<close>: the groups of changes with three lines of context.
\<close>

datatype change_tag = Delete | Insert | Equal

type_synonym text_diff = "string \<Rightarrow> string \<Rightarrow> (change_tag \<times> string) list list"

record header_change =
  hc_name :: string
  hc_old_value :: string
  hc_new_value :: string

record context_diff =
  cd_method_changed :: bool
  cd_uri_diff :: "string list option"
  cd_headers_added :: "string list"
  cd_headers_removed :: "string list"
  cd_headers_changed :: "header_change list"
  cd_body_diff :: "string list option"

record response_diff =
  rd_status_changed :: "(u16 \<times> u16) option"
  rd_headers_added :: "string list"
  rd_headers_removed :: "string list"
  rd_headers_changed :: "header_change list"
  rd_body_diff :: "string list option"

record timing_delta =
  td_latency_delta_ms :: int
  td_ttfb_delta_ms :: int
  td_size_delta_bytes :: int

record session_diff =
  sd_request_diff :: context_diff
  sd_response_diff :: "response_diff option"
  sd_timing_delta :: timing_delta

fun change_prefix :: "change_tag \<Rightarrow> string" where
  "change_prefix Delete = ''-''"
| "change_prefix Insert = ''+''"
| "change_prefix Equal = '' ''"

definition hunk_of :: "(change_tag \<times> string) list \<Rightarrow> string" where
  "hunk_of g = concat (map (\<lambda>(tag, v).
     change_prefix tag @ v @ (if suffix [CHR 0x0A] v then [] else [CHR 0x0A])) g)"

text \<open>\<open>LineDiff\<close> is its list of hunks.\<close>

definition unified_diff :: "text_diff \<Rightarrow> string \<Rightarrow> string \<Rightarrow> string list option" where
  "unified_diff td old new =
     (if old = new then None
      else let hunks = filter (\<lambda>h. h \<noteq> []) (map hunk_of (td old new))
           in if hunks = [] then None else Some hunks)"

definition header_line :: "string \<times> string \<Rightarrow> string" where
  "header_line kv = fst kv @ '': '' @ snd kv"

definition diff_headers ::
    "header_map \<Rightarrow> header_map \<Rightarrow> string list \<times> string list \<times> header_change list" where
  "diff_headers a b =
     (map header_line (filter (\<lambda>(k, _). hm_get a k = None) (entries b)),
      map header_line (filter (\<lambda>(k, _). \<not> hm_contains_key b k) (entries a)),
      List.map_filter (\<lambda>(k, bv). case hm_get a k of
         Some av \<Rightarrow> if av \<noteq> bv then Some \<lparr>hc_name = k, hc_old_value = av, hc_new_value = bv\<rparr> else None
       | None \<Rightarrow> None) (entries b))"

text \<open>A \<open>u64\<close> read as \<open>i64\<close>; the subtraction wraps.\<close>

definition metric_delta :: "(inspection_metrics \<Rightarrow> u64) \<Rightarrow> inspection_metrics option \<Rightarrow>
    inspection_metrics option \<Rightarrow> int" where
  "metric_delta f ma mb =
     sint ((case mb of Some m \<Rightarrow> f m | None \<Rightarrow> 0) - (case ma of Some m \<Rightarrow> f m | None \<Rightarrow> 0))"

definition diff_responses :: "text_diff \<Rightarrow> response_context \<Rightarrow> response_context \<Rightarrow> response_diff" where
  "diff_responses td ra rb = (case diff_headers (rs_headers ra) (rs_headers rb) of (added, removed, changed) \<Rightarrow>
     \<lparr>rd_status_changed = (if rs_status ra \<noteq> rs_status rb then Some (rs_status ra, rs_status rb) else None),
      rd_headers_added = added, rd_headers_removed = removed, rd_headers_changed = changed,
      rd_body_diff = unified_diff td (rs_body_text ra) (rs_body_text rb)\<rparr>)"

definition diff_exchanges :: "text_diff \<Rightarrow> exchange \<Rightarrow> exchange \<Rightarrow> session_diff" where
  "diff_exchanges td a b =
     (let req_a = ex_request a; req_b = ex_request b;
          (added, removed, changed) = diff_headers (rq_headers req_a) (rq_headers req_b)
      in \<lparr>sd_request_diff = \<lparr>
            cd_method_changed = rq_method req_a \<noteq> rq_method req_b,
            cd_uri_diff = unified_diff td (rq_uri req_a) (rq_uri req_b),
            cd_headers_added = added, cd_headers_removed = removed, cd_headers_changed = changed,
            cd_body_diff = unified_diff td (rq_body_text req_a) (rq_body_text req_b)\<rparr>,
          sd_response_diff = (case (ex_response a, ex_response b) of
            (Some ra, Some rb) \<Rightarrow> Some (diff_responses td ra rb) | _ \<Rightarrow> None),
          sd_timing_delta = \<lparr>
            td_latency_delta_ms = metric_delta im_latency_ms (ex_metrics a) (ex_metrics b),
            td_ttfb_delta_ms = metric_delta im_ttfb_ms (ex_metrics a) (ex_metrics b),
            td_size_delta_bytes = metric_delta (\<lambda>m. of_nat (im_response_size_bytes m)) (ex_metrics a) (ex_metrics b)\<rparr>\<rparr>)"

section \<open>Lemmas\<close>

lemma map_filter_Nil: "List.map_filter f xs = [] \<longleftrightarrow> list_all (\<lambda>x. f x = None) xs"
  by (induction xs) (auto simp: List.map_filter_def split: option.splits)

lemma get_entry: "hm_wf h \<Longrightarrow> hm_get h k = Some v \<Longrightarrow> (to_ascii_lowercase k, v) \<in> set (entries h)"
  by (simp add: hm_get_map_of map_of_SomeD)

text \<open>No difference in the headers means that the lookups agree.\<close>

lemma diff_headers_none:
  assumes "hm_wf a" and "hm_wf b" and "diff_headers a b = ([], [], [])"
  shows "hm_get a k = hm_get b k"
proof -
  have added: "\<And>k v. (k, v) \<in> set (entries b) \<Longrightarrow> hm_get a k = Some v"
    using assms(3) by (force simp: diff_headers_def filter_empty_conv map_filter_Nil list_all_iff split: option.splits if_splits)
  have removed: "\<And>k v. (k, v) \<in> set (entries a) \<Longrightarrow> hm_get b k \<noteq> None"
    using assms(3) by (auto simp: diff_headers_def filter_empty_conv hm_contains_key_get)
  have low: "hm_get h (to_ascii_lowercase k) = hm_get h k" for h by (rule hm_get_case) simp
  show ?thesis
  proof (cases "hm_get b k")
    case (Some v)
    then show ?thesis using added [OF get_entry [OF assms(2) Some]] low by simp
  next
    case None
    then have "hm_get a k = None"
      using get_entry [OF assms(1), of k] removed [of "to_ascii_lowercase k"] low [of b]
      by (cases "hm_get a k") auto
    then show ?thesis using None by simp
  qed
qed

section \<open>Properties\<close>

text \<open>Comparing a session with itself reports nothing, except that a header sent more than once
  with different values is reported as changed: each further value is compared with the first.\<close>

theorem diff_self:
  "(let d = diff_exchanges td x x
    in cd_method_changed (sd_request_diff d) = False
     \<and> cd_uri_diff (sd_request_diff d) = None \<and> cd_body_diff (sd_request_diff d) = None
     \<and> sd_timing_delta d = \<lparr>td_latency_delta_ms = 0, td_ttfb_delta_ms = 0, td_size_delta_bytes = 0\<rparr>
     \<and> (cd_headers_changed (sd_request_diff d) = [] \<longleftrightarrow>
          list_all (\<lambda>(k, v). case hm_get (rq_headers (ex_request x)) k of Some w \<Rightarrow> w = v | None \<Rightarrow> True)
            (entries (rq_headers (ex_request x))))
     \<and> map_option (\<lambda>r. (rd_status_changed r, rd_body_diff r)) (sd_response_diff d)
         = map_option (\<lambda>_. (None, None)) (ex_response x))"
  by (auto simp: diff_exchanges_def diff_responses_def diff_headers_def unified_diff_def metric_delta_def
      Let_def map_filter_Nil list_all_iff split: option.split if_splits)

text \<open>A request with two cookies differs from itself.\<close>

lemma diff_self_duplicate:
  "cd_headers_changed (sd_request_diff (diff_exchanges td x x)) \<noteq> []"
  if "rq_headers (ex_request x) = hm_append (hm_append hm_new ''cookie'' ''a=1'') ''cookie'' ''b=2''"
  using that
  by (simp add: diff_exchanges_def diff_headers_def map_filter_Nil hm_append_def hm_new_def hm_get_def
      to_ascii_lowercase_def ascii_lower_def eq_ignore_ascii_case_def Let_def)

end

