(* ===== verification/SessionList.thy ===== *)
theory SessionList
  imports SessionStore Matcher "HOL-Library.List_Lexorder" "HOL-Library.Char_ord"
begin

text \<open>
  The session list of the admin API (\<open>api/mod.rs\<close>): filtering, sorting, facets and paging over
  the recorded exchanges, with the search language of \<open>session/search.rs\<close> and the reading of
  the query parameters in \<open>control_plane/sessions.rs\<close>. \<open>lc\<close> is \<open>str::to_lowercase\<close>.
\<close>

section \<open>The search language\<close>

datatype search_term =
  Term_Tag string | Term_Host string | Term_Method string | Term_Status u16 | Term_Text string

definition headers_contain :: "(string \<Rightarrow> string) \<Rightarrow> string \<Rightarrow> header_map \<Rightarrow> bool" where
  "headers_contain lc t h =
     list_ex (\<lambda>(k, v). contains_str (lc k) t \<or> contains_str (lc v) t) (entries h)"

fun term_matches :: "(string \<Rightarrow> string) \<Rightarrow> search_term \<Rightarrow> exchange \<Rightarrow> bool" where
  "term_matches lc (Term_Tag t) ex = list_ex (\<lambda>tag. contains_str (lc tag) t) (ex_tags ex)"
| "term_matches lc (Term_Host h) ex = contains_str (lc (rq_host (ex_request ex))) h"
| "term_matches lc (Term_Method m) ex = (lc (rq_method (ex_request ex)) = m)"
| "term_matches lc (Term_Status s) ex =
     (case ex_response ex of Some r \<Rightarrow> rs_status r = s | None \<Rightarrow> False)"
| "term_matches lc (Term_Text t) ex =
     (contains_str (lc (rq_uri (ex_request ex))) t
      \<or> contains_str (lc (rq_body_text (ex_request ex))) t
      \<or> headers_contain lc t (rq_headers (ex_request ex))
      \<or> (case ex_response ex of
           Some r \<Rightarrow> contains_str (lc (rs_body_text r)) t \<or> headers_contain lc t (rs_headers r)
         | None \<Rightarrow> False)
      \<or> (case ex_note ex of Some n \<Rightarrow> contains_str (lc n) t | None \<Rightarrow> False))"

definition parse_term :: "(string \<Rightarrow> string) \<Rightarrow> string \<Rightarrow> search_term" where
  "parse_term lc token =
     (case strip_prefix token ''tag:'' of
        Some t \<Rightarrow> Term_Tag (lc t)
      | None \<Rightarrow> (case strip_prefix token ''host:'' of
          Some h \<Rightarrow> Term_Host (lc h)
        | None \<Rightarrow> (case strip_prefix token ''method:'' of
            Some m \<Rightarrow> Term_Method (lc m)
          | None \<Rightarrow> (case strip_prefix token ''status:'' of
              Some s \<Rightarrow> (case parse_u16 s of Some n \<Rightarrow> Term_Status n | None \<Rightarrow> Term_Text (lc s))
            | None \<Rightarrow> Term_Text (lc token)))))"

definition parse_search_query :: "(string \<Rightarrow> string) \<Rightarrow> string \<Rightarrow> search_term list" where
  "parse_search_query lc query = map (parse_term lc) (split_whitespace query)"

section \<open>Keys of a session\<close>

definition response_status :: "exchange \<Rightarrow> u16" where
  "response_status s = (case ex_response s of Some r \<Rightarrow> rs_status r | None \<Rightarrow> 0)"

definition status_bucket :: "exchange \<Rightarrow> string" where
  "status_bucket s = (let n = response_status s in
     if 100 \<le> n \<and> n \<le> 199 then ''1'' else if 200 \<le> n \<and> n \<le> 299 then ''2''
     else if 300 \<le> n \<and> n \<le> 399 then ''3'' else if 400 \<le> n \<and> n \<le> 499 then ''4''
     else if 500 \<le> n \<and> n \<le> 599 then ''5'' else ''-'')"

definition session_path :: "exchange \<Rightarrow> string" where
  "session_path s =
     (let u = rq_uri (ex_request s);
          path = (case find_str ''://'' u of
             Some i \<Rightarrow> (let rest = drop (i + 3) u
                in if CHR ''/'' \<in> set rest then dropWhile (\<lambda>c. c \<noteq> CHR ''/'') rest else u)
           | None \<Rightarrow> u)
      in case split_once (CHR ''?'') path of Some (p, _) \<Rightarrow> p | None \<Rightarrow> path)"

definition session_kind :: "exchange \<Rightarrow> string" where
  "session_kind s =
     (if Option.bind (ex_inspector_data s) id_graphql \<noteq> None then ''graphql''
      else if Option.bind (ex_inspector_data s) id_grpc \<noteq> None then ''grpc''
      else if ex_response s \<noteq> None then ''http'' else ''pending'')"

definition request_size :: "exchange \<Rightarrow> nat" where
  "request_size s = (case ex_metrics s of
     Some m \<Rightarrow> im_request_size_bytes m | None \<Rightarrow> length (rq_body (ex_request s)))"

definition session_latency :: "exchange \<Rightarrow> u64" where
  "session_latency s = (case ex_metrics s of Some m \<Rightarrow> im_latency_ms m | None \<Rightarrow> 0)"

definition session_protocol :: "exchange \<Rightarrow> string" where
  "session_protocol s = (case Option.bind (ex_metrics s) im_protocol of Some p \<Rightarrow> p | None \<Rightarrow> [])"

definition session_filter_haystack :: "exchange \<Rightarrow> string" where
  "session_filter_haystack s = rq_uri (ex_request s) @ '' '' @ rq_method (ex_request s) @ '' ''
     @ rq_host (ex_request s) @ '' '' @ session_kind s @ '' '' @ join_str '' '' (ex_tags s)"

section \<open>Filter, order, facets\<close>

datatype sort_direction = Asc | Desc

record session_sort =
  so_key :: string
  so_dir :: sort_direction

record session_list_filter =
  sf_query :: string
  sf_regex :: bool
  sf_methods :: "string list option"
  sf_status_buckets :: "string list option"
  sf_host_focus :: "string list"
  sf_host_filter :: "string option"
  sf_sort :: session_sort

record session_list_options =
  so_since :: "timestamp option"
  so_limit :: "nat option"
  so_offset :: "nat option"
  so_include_bodies :: bool
  so_filter :: session_list_filter

definition matches_since :: "exchange \<Rightarrow> timestamp option \<Rightarrow> bool" where
  "matches_since s since = (case since of
     Some t \<Rightarrow> ex_timestamp s > t \<or> ex_response s = None
       \<or> (case ex_updated_at s of Some u \<Rightarrow> u > t | None \<Rightarrow> False)
   | None \<Rightarrow> True)"

definition matches_query :: "(string \<Rightarrow> string) \<Rightarrow> regex_lib \<Rightarrow> exchange \<Rightarrow> session_list_filter \<Rightarrow> bool" where
  "matches_query lc rx s f =
     (let query = trim_str (sf_query f)
      in if query = [] then True
         else if sf_regex f then rx_compiles rx query \<and> rx_is_match rx query (session_filter_haystack s)
         else list_all (\<lambda>t. term_matches lc t s) (parse_search_query lc query))"

definition matches_session_filter ::
    "(string \<Rightarrow> string) \<Rightarrow> regex_lib \<Rightarrow> exchange \<Rightarrow> session_list_filter \<Rightarrow> bool" where
  "matches_session_filter lc rx s f =
     (if (case sf_methods f of
            Some ms \<Rightarrow> \<not> list_ex (\<lambda>m. eq_ignore_ascii_case (rq_method (ex_request s)) m) ms | None \<Rightarrow> False)
      then False
      else if (case sf_status_buckets f of
                 Some bs \<Rightarrow> \<not> list_ex (\<lambda>b. status_bucket s = b) bs | None \<Rightarrow> False)
      then False
      else if (case sf_host_filter f of
                 Some h \<Rightarrow> h \<noteq> [] \<and> \<not> eq_ignore_ascii_case (rq_host (ex_request s)) h | None \<Rightarrow> False)
      then False
      else if sf_host_focus f \<noteq> [] \<and> \<not> list_ex (\<lambda>host.
                 let h = to_ascii_lowercase (rq_host (ex_request s)) in h = host \<or> suffix (''.'' @ host) h)
                 (sf_host_focus f)
      then False
      else matches_query lc rx s f)"

definition ascii_upper :: "char \<Rightarrow> char" where
  "ascii_upper c = (if 97 \<le> char_code c \<and> char_code c \<le> 122 then char_of (char_code c - 32) else c)"

definition to_ascii_uppercase :: "string \<Rightarrow> string" where
  "to_ascii_uppercase = map ascii_upper"

text \<open>\<open>sort_by_key\<close> is stable, as \<open>sort_key\<close> is.\<close>

definition sort_ascending :: "string \<Rightarrow> exchange list \<Rightarrow> exchange list" where
  "sort_ascending key xs =
     (if key = ''idx'' \<or> key = ''ts'' then sort_key ex_timestamp xs
      else if key = ''method'' then sort_key (\<lambda>s. to_ascii_uppercase (rq_method (ex_request s))) xs
      else if key = ''status'' then sort_key response_status xs
      else if key = ''host'' then sort_key (\<lambda>s. to_ascii_lowercase (rq_host (ex_request s))) xs
      else if key = ''path'' then sort_key session_path xs
      else if key = ''type'' then sort_key session_kind xs
      else if key = ''reqSize'' then sort_key request_size xs
      else if key = ''total'' then sort_key session_latency xs
      else if key = ''protocol'' then sort_key session_protocol xs
      else sort_key ex_timestamp xs)"

definition sort_sessions :: "exchange list \<Rightarrow> session_sort \<Rightarrow> exchange list" where
  "sort_sessions xs srt =
     (let ys = sort_ascending (so_key srt) xs in if so_dir srt = Desc then rev ys else ys)"

text \<open>A \<open>BTreeMap\<close> of counters is the function from keys to counts.\<close>

record session_list_facets =
  fa_methods :: "string \<Rightarrow> nat"
  fa_status_buckets :: "string \<Rightarrow> nat"
  fa_hosts :: "string \<Rightarrow> nat"

definition facets_default :: session_list_facets where
  "facets_default = \<lparr>fa_methods = (\<lambda>_. 0), fa_status_buckets = (\<lambda>_. 0), fa_hosts = (\<lambda>_. 0)\<rparr>"

definition bump :: "string \<Rightarrow> (string \<Rightarrow> nat) \<Rightarrow> string \<Rightarrow> nat" where
  "bump k m = m(k := m k + 1)"

definition build_facets :: "exchange list \<Rightarrow> session_list_facets" where
  "build_facets xs = foldl (\<lambda>f s. f\<lparr>
      fa_methods := bump (to_ascii_uppercase (rq_method (ex_request s))) (fa_methods f),
      fa_status_buckets := bump (status_bucket s) (fa_status_buckets f),
      fa_hosts := bump (rq_host (ex_request s)) (fa_hosts f)\<rparr>) facets_default xs"

section \<open>The list\<close>

record session_list_response =
  lr_sessions :: "exchange list"
  lr_total :: nat
  lr_filtered_total :: nat
  lr_limit :: "nat option"
  lr_offset :: "nat option"
  lr_facets :: session_list_facets

definition strip_bodies :: "exchange \<Rightarrow> exchange" where
  "strip_bodies x = x\<lparr>
     ex_request := (ex_request x)\<lparr>rq_body := []\<rparr>,
     ex_response := map_option (\<lambda>r. r\<lparr>rs_body := []\<rparr>) (ex_response x),
     ex_ws_frames := map clear_frame (ex_ws_frames x)\<rparr>"

definition list_sessions ::
    "(string \<Rightarrow> string) \<Rightarrow> regex_lib \<Rightarrow> exchange list \<Rightarrow> session_list_options \<Rightarrow> session_list_response" where
  "list_sessions lc rx all opts =
     (let sessions = filter (\<lambda>s. matches_session_filter lc rx s (so_filter opts))
                       (filter (\<lambda>s. matches_since s (so_since opts)) all);
          sorted = sort_sessions sessions (sf_sort (so_filter opts));
          off = (case so_offset opts of Some n \<Rightarrow> n | None \<Rightarrow> 0);
          paged = (case so_limit opts of
             Some lim \<Rightarrow> take lim (drop off sorted) | None \<Rightarrow> drop off sorted)
      in \<lparr>lr_sessions = (if so_include_bodies opts then paged else map strip_bodies paged),
          lr_total = length all, lr_filtered_total = length sessions,
          lr_limit = so_limit opts, lr_offset = so_offset opts, lr_facets = build_facets sessions\<rparr>)"

section \<open>Query parameters\<close>

definition split_csv :: "string \<Rightarrow> string list" where
  "split_csv v = filter (\<lambda>p. p \<noteq> []) (map trim_str (split_char (CHR '','') v))"

definition parse_sort_dir :: "string option \<Rightarrow> sort_direction" where
  "parse_sort_dir v = (if v = Some ''asc'' then Asc else Desc)"

record session_query =
  qp_since :: "string option"
  qp_limit :: "nat option"
  qp_offset :: "nat option"
  qp_q :: "string option"
  qp_regex :: "bool option"
  qp_methods :: "string option"
  qp_status_buckets :: "string option"
  qp_host_focus :: "string option"
  qp_host_filter :: "string option"
  qp_host :: "string option"
  qp_sort_key :: "string option"
  qp_sort_dir :: "string option"
  qp_workspace_view :: "string option"
  qp_include_bodies :: "bool option"

record sessions_view_state =
  vw_query :: string
  vw_regex :: bool
  vw_methods :: "string list"
  vw_status_buckets :: "string list"
  vw_host_focus :: "string list"
  vw_host_filter :: "string option"
  vw_sort :: session_sort

definition session_filter_from_workspace :: "sessions_view_state \<Rightarrow> session_list_filter" where
  "session_filter_from_workspace view =
     (let ms = vw_methods view;
          methods = (if list_ex (\<lambda>m. eq_ignore_ascii_case m ''GET'') ms
                        \<and> \<not> list_ex (\<lambda>m. eq_ignore_ascii_case m ''WS'') ms
                     then ms @ [''WS''] else ms)
      in \<lparr>sf_query = vw_query view, sf_regex = vw_regex view, sf_methods = Some methods,
          sf_status_buckets = Some (vw_status_buckets view), sf_host_focus = vw_host_focus view,
          sf_host_filter = vw_host_filter view, sf_sort = vw_sort view\<rparr>)"

definition opt_or :: "'a option \<Rightarrow> 'a option \<Rightarrow> 'a option" where
  "opt_or a b = (case a of Some x \<Rightarrow> Some x | None \<Rightarrow> b)"

definition unwrap_or :: "'a option \<Rightarrow> 'a \<Rightarrow> 'a" where
  "unwrap_or a d = (case a of Some x \<Rightarrow> x | None \<Rightarrow> d)"

text \<open>\<open>parse_time\<close> reads an RFC 3339 timestamp.\<close>

definition list_options ::
    "(string \<Rightarrow> timestamp option) \<Rightarrow> sessions_view_state \<Rightarrow> session_query \<Rightarrow> session_list_options" where
  "list_options parse_time view q =
     (let opts = \<lparr>so_since = Option.bind (qp_since q) parse_time, so_limit = qp_limit q,
            so_offset = qp_offset q, so_include_bodies = unwrap_or (qp_include_bodies q) False,
            so_filter = \<lparr>sf_query = unwrap_or (qp_q q) [], sf_regex = unwrap_or (qp_regex q) False,
              sf_methods = map_option split_csv (qp_methods q),
              sf_status_buckets = map_option split_csv (qp_status_buckets q),
              sf_host_focus = unwrap_or (map_option split_csv (qp_host_focus q)) [],
              sf_host_filter = Option.bind (opt_or (qp_host_filter q) (qp_host q))
                (\<lambda>h. if trim_str h = [] then None else Some h),
              sf_sort = \<lparr>so_key = unwrap_or (qp_sort_key q) ''ts'', so_dir = parse_sort_dir (qp_sort_dir q)\<rparr>\<rparr>\<rparr>
      in if qp_workspace_view q = Some ''current''
         then opts\<lparr>so_filter := session_filter_from_workspace view\<rparr> else opts)"

section \<open>Order\<close>

lemma mset_sort_ascending [simp]: "mset (sort_ascending key xs) = mset xs"
  by (simp add: sort_ascending_def)

lemma mset_sort_sessions [simp]: "mset (sort_sessions xs srt) = mset xs"
  by (simp add: sort_sessions_def Let_def)

lemma length_sort_sessions [simp]: "length (sort_sessions xs srt) = length xs"
  using mset_sort_sessions [of xs srt] by (metis size_mset)

text \<open>The keys by which a column sorts, in a common order.\<close>

lemma sort_status_sorted:
  "so_key srt = ''status'' \<Longrightarrow> so_dir srt = Asc \<Longrightarrow> sorted (map response_status (sort_sessions xs srt))"
  by (simp add: sort_sessions_def sort_ascending_def)

lemma sort_time_sorted:
  "so_key srt \<in> {''idx'', ''ts''} \<Longrightarrow>
   sorted (map ex_timestamp (if so_dir srt = Asc then sort_sessions xs srt else rev (sort_sessions xs srt)))"
  by (cases "so_dir srt") (auto simp: sort_sessions_def sort_ascending_def Let_def)

lemma sort_protocol_sorted:
  "so_key srt = ''protocol'' \<Longrightarrow> so_dir srt = Asc \<Longrightarrow> sorted (map session_protocol (sort_sessions xs srt))"
  by (simp add: sort_sessions_def sort_ascending_def)

text \<open>In ascending order the sessions without a protocol come first.\<close>

lemma no_protocol_first:
  assumes "so_key srt = ''protocol''" and "so_dir srt = Asc" and "s \<in> set xs" and "session_protocol s = []"
  shows "session_protocol (hd (sort_sessions xs srt)) = []"
proof -
  have "sorted (map session_protocol (sort_sessions xs srt))" using sort_protocol_sorted assms(1,2) by blast
  moreover have "s \<in> set (sort_sessions xs srt)" using assms(3) by (metis mset_sort_sessions set_mset_mset)
  ultimately have "session_protocol (hd (sort_sessions xs srt)) \<le> []"
    using assms(4) by (cases "sort_sessions xs srt") force+
  then show ?thesis by (cases "session_protocol (hd (sort_sessions xs srt))") auto
qed

section \<open>Facets\<close>

lemma build_facets_counts:
  "fa_methods (build_facets xs) k = length (filter (\<lambda>s. to_ascii_uppercase (rq_method (ex_request s)) = k) xs)"
  "fa_status_buckets (build_facets xs) k = length (filter (\<lambda>s. status_bucket s = k) xs)"
  "fa_hosts (build_facets xs) k = length (filter (\<lambda>s. rq_host (ex_request s) = k) xs)"
proof -
  have "fa_methods (foldl (\<lambda>f s. f\<lparr>
      fa_methods := bump (to_ascii_uppercase (rq_method (ex_request s))) (fa_methods f),
      fa_status_buckets := bump (status_bucket s) (fa_status_buckets f),
      fa_hosts := bump (rq_host (ex_request s)) (fa_hosts f)\<rparr>) f0 xs) k
     = fa_methods f0 k + length (filter (\<lambda>s. to_ascii_uppercase (rq_method (ex_request s)) = k) xs)
    \<and> fa_status_buckets (foldl (\<lambda>f s. f\<lparr>
      fa_methods := bump (to_ascii_uppercase (rq_method (ex_request s))) (fa_methods f),
      fa_status_buckets := bump (status_bucket s) (fa_status_buckets f),
      fa_hosts := bump (rq_host (ex_request s)) (fa_hosts f)\<rparr>) f0 xs) k
     = fa_status_buckets f0 k + length (filter (\<lambda>s. status_bucket s = k) xs)
    \<and> fa_hosts (foldl (\<lambda>f s. f\<lparr>
      fa_methods := bump (to_ascii_uppercase (rq_method (ex_request s))) (fa_methods f),
      fa_status_buckets := bump (status_bucket s) (fa_status_buckets f),
      fa_hosts := bump (rq_host (ex_request s)) (fa_hosts f)\<rparr>) f0 xs) k
     = fa_hosts f0 k + length (filter (\<lambda>s. rq_host (ex_request s) = k) xs)" for f0
    by (induction xs arbitrary: f0) (auto simp: bump_def)
  from this [of facets_default] show
    "fa_methods (build_facets xs) k = length (filter (\<lambda>s. to_ascii_uppercase (rq_method (ex_request s)) = k) xs)"
    "fa_status_buckets (build_facets xs) k = length (filter (\<lambda>s. status_bucket s = k) xs)"
    "fa_hosts (build_facets xs) k = length (filter (\<lambda>s. rq_host (ex_request s) = k) xs)"
    by (simp_all add: build_facets_def facets_default_def)
qed

section \<open>Rows without bodies\<close>

lemma strip_bodies_size:
  "exchange_body_size (strip_bodies x) = sum_list (map retained_body_size (ex_events x))"
  by (simp add: exchange_body_size_def strip_bodies_def o_def split: option.split)

section \<open>Properties\<close>

text \<open>A page of the session list is the slice of the full list that the offset and the limit
  name; the full list holds exactly the recorded sessions that pass the filters, each as often as it
  is recorded; the totals and the facets count the sessions before paging.\<close>

theorem session_list_pages:
  "(let rows = list_sessions lc rx all (opts\<lparr>so_limit := None, so_offset := None\<rparr>);
        page = list_sessions lc rx all (opts\<lparr>so_limit := Some n, so_offset := Some k\<rparr>);
        selected = filter (\<lambda>s. matches_since s (so_since opts) \<and> matches_session_filter lc rx s (so_filter opts)) all
    in lr_sessions page = take n (drop k (lr_sessions rows))
     \<and> mset (lr_sessions rows) = mset (map (if so_include_bodies opts then id else strip_bodies) selected)
     \<and> lr_total page = length all \<and> lr_filtered_total page = length selected
     \<and> fa_hosts (lr_facets page) host = length (filter (\<lambda>s. rq_host (ex_request s) = host) selected)
     \<and> fa_status_buckets (lr_facets page) b = length (filter (\<lambda>s. status_bucket s = b) selected))"
proof -
  have "filter (\<lambda>s. matches_session_filter lc rx s f) (filter (\<lambda>s. matches_since s t) all)
     = filter (\<lambda>s. matches_since s t \<and> matches_session_filter lc rx s f) all" for f t
    by (simp add: conj_commute)
  then show ?thesis
    by (simp add: list_sessions_def Let_def build_facets_counts take_map drop_map)
qed

text \<open>A list without bodies carries no request or response body and no payload in its
  WebSocket frames, but the payloads recorded as events of the session stay in the rows: what is
  left of a row's retained bytes is exactly that of its events, and every frame recorded through
  the store leaves its payload there.\<close>

theorem bodyless_rows_keep_events:
  "exchange_body_size (strip_bodies x) = sum_list (map retained_body_size (ex_events x))
   \<and> exchange_body_size (strip_bodies (push_ws_frame frame x))
       = exchange_body_size (strip_bodies x) + frame_retained_size frame"
  by (simp add: strip_bodies_size push_ws_frame_def)

end
