(* ===== verification/SessionViews.thy ===== *)
theory SessionViews
  imports SessionList
begin

text \<open>
  The aggregated views of the recorded sessions (\<open>control_plane/sessions.rs\<close>): the connections
  with their streams and peak concurrency, the protocol metrics, and the timing waterfall of one
  session. \<open>rfc3339\<close> formats a timestamp. Offsets and durations are \<open>i64\<close> in the source and
  integers here; the end of an interval wraps as it does there.
\<close>

section \<open>Peak concurrency\<close>

text \<open>An event is a time with \<open>1\<close> for a start and \<open>-1\<close> for an end.\<close>

definition interval_events :: "(int \<times> int) list \<Rightarrow> (int \<times> int) list" where
  "interval_events intervals = concat (map (\<lambda>(start, end). [(start, 1), (max end start, -1)]) intervals)"

fun sweep :: "int \<Rightarrow> int \<Rightarrow> (int \<times> int) list \<Rightarrow> int" where
  "sweep cur peak [] = peak"
| "sweep cur peak ((_, delta) # events) = sweep (cur + delta) (max peak (cur + delta)) events"

definition peak_concurrency :: "(int \<times> int) list \<Rightarrow> nat" where
  "peak_concurrency intervals =
     nat (max (sweep 0 0 (sort_key fst (sort_key snd (interval_events intervals)))) 0)"

section \<open>Connections\<close>

record connection_stream =
  cs_id :: string
  cs_stream_id :: "u64 option"
  cs_method :: string
  cs_host :: string
  cs_path :: string
  cs_status :: u16
  cs_ts :: string
  cs_start_offset_ms :: int
  cs_duration_ms :: u64

record connection_summary =
  cn_connection_id :: string
  cn_downstream_protocol :: "string option"
  cn_hosts :: "string list"
  cn_exchange_count :: nat
  cn_stream_count :: nat
  cn_first_seen :: string
  cn_last_seen :: string
  cn_span_ms :: int
  cn_max_concurrency :: nat
  cn_streams :: "connection_stream list"

definition status_code_of :: "exchange \<Rightarrow> u16" where
  "status_code_of e = (case ex_metrics e of Some m \<Rightarrow> im_status_code m | None \<Rightarrow> response_status e)"

definition duration_of :: "exchange \<Rightarrow> u64" where
  "duration_of e = session_latency e"

definition connection_stream_of :: "(timestamp \<Rightarrow> string) \<Rightarrow> timestamp \<Rightarrow> exchange \<Rightarrow> connection_stream" where
  "connection_stream_of rfc3339 first_seen e = \<lparr>
     cs_id = ex_id e, cs_stream_id = ex_stream_id e, cs_method = rq_method (ex_request e),
     cs_host = rq_host (ex_request e),
     cs_path = (case split_once (CHR ''?'') (rq_uri (ex_request e)) of
        Some (p, _) \<Rightarrow> p | None \<Rightarrow> rq_uri (ex_request e)),
     cs_status = status_code_of e, cs_ts = rfc3339 (ex_timestamp e),
     cs_start_offset_ms = ex_timestamp e - first_seen, cs_duration_ms = duration_of e\<rparr>"

definition i64_of :: "int \<Rightarrow> int" where
  "i64_of i = sint (word_of_int i :: 64 word)"

definition interval_of :: "timestamp \<Rightarrow> exchange \<Rightarrow> int \<times> int" where
  "interval_of first_seen e =
     (let start = ex_timestamp e - first_seen in (start, i64_of (start + sint (duration_of e))))"

text \<open>First occurrences in order, as the vectors \<open>order\<close> and \<open>hosts\<close> collect them.\<close>

fun push_new :: "'a list \<Rightarrow> 'a list \<Rightarrow> 'a list" where
  "push_new acc [] = acc"
| "push_new acc (x # xs) = push_new (if x \<in> set acc then acc else acc @ [x]) xs"

definition min_list :: "int list \<Rightarrow> int option" where
  "min_list xs = (case xs of [] \<Rightarrow> None | x # r \<Rightarrow> Some (foldl min x r))"

definition max_list :: "int list \<Rightarrow> int option" where
  "max_list xs = (case xs of [] \<Rightarrow> None | x # r \<Rightarrow> Some (foldl max x r))"

definition summarize_connection ::
    "(timestamp \<Rightarrow> string) \<Rightarrow> timestamp \<Rightarrow> string \<Rightarrow> exchange list \<Rightarrow> connection_summary" where
  "summarize_connection rfc3339 now cid exs =
     (let members = sort_key (\<lambda>e. unwrap_or (ex_stream_id e) 0) exs;
          first_seen = unwrap_or (min_list (map ex_timestamp members)) now;
          last_seen = unwrap_or (max_list (map (\<lambda>e. unwrap_or (ex_updated_at e) (ex_timestamp e)) members)) now;
          intervals = map (interval_of first_seen) members
      in \<lparr>cn_connection_id = cid,
          cn_downstream_protocol = Option.bind (find (\<lambda>e. ex_downstream_protocol e \<noteq> None) members) ex_downstream_protocol,
          cn_hosts = push_new [] (filter (\<lambda>h. h \<noteq> []) (map (\<lambda>e. rq_host (ex_request e)) members)),
          cn_exchange_count = length members,
          cn_stream_count = length (remdups (List.map_filter ex_stream_id members)),
          cn_first_seen = rfc3339 first_seen, cn_last_seen = rfc3339 last_seen,
          cn_span_ms = max (last_seen - first_seen) (unwrap_or (max_list (map snd intervals)) 0),
          cn_max_concurrency = peak_concurrency intervals,
          cn_streams = map (connection_stream_of rfc3339 first_seen) members\<rparr>)"

definition aggregate_connections ::
    "(timestamp \<Rightarrow> string) \<Rightarrow> timestamp \<Rightarrow> exchange list \<Rightarrow> connection_summary list" where
  "aggregate_connections rfc3339 now sessions =
     (let order = push_new [] (List.map_filter ex_connection_id sessions);
          connections = map (\<lambda>cid. summarize_connection rfc3339 now cid
             (filter (\<lambda>e. ex_connection_id e = Some cid) sessions)) order
      in rev (sort_key cn_last_seen (rev connections)))"

section \<open>Protocol metrics\<close>

type_synonym label_count = "string \<times> nat"

record protocol_metrics =
  pm_total_exchanges :: nat
  pm_connections :: nat
  pm_websockets :: nat
  pm_grpc_calls :: nat
  pm_protocol_mix :: "label_count list"
  pm_downstream_mix :: "label_count list"
  pm_application_mix :: "label_count list"
  pm_source_mix :: "label_count list"
  pm_status_classes :: "label_count list"
  pm_grpc_status :: "label_count list"
  pm_total_bytes :: u64
  pm_latency_p50_ms :: u64
  pm_latency_p95_ms :: u64
  pm_latency_max_ms :: u64

definition downstream_protocol_label :: "exchange \<Rightarrow> string" where
  "downstream_protocol_label ex = (case ex_protocol_context ex of
     Some c \<Rightarrow> wp_label (pc_downstream c)
   | None \<Rightarrow> if ex_downstream_protocol ex = Some ''admin'' \<or> ex_downstream_protocol ex = None
             then unwrap_or (Option.bind (ex_metrics ex) im_protocol) ''HTTP/1.1''
             else the (ex_downstream_protocol ex))"

definition application_protocol_label :: "exchange \<Rightarrow> string" where
  "application_protocol_label ex = (case ex_protocol_context ex of
     Some c \<Rightarrow>
       (if pc_application c = App_Grpc then ''gRPC''
        else if pc_application c = App_Http \<and> pc_downstream c = WebSocket then ''WebSocket''
        else if pc_application c = App_Http \<and> pc_body_mode c = Body_Tunnel then ''Tunnel'' else ''HTTP'')
   | None \<Rightarrow>
       (if eq_ignore_ascii_case (rq_method (ex_request ex)) ''WS'' then ''WebSocket''
        else if Option.bind (ex_inspector_data ex) id_grpc \<noteq> None then ''gRPC''
        else if ex_downstream_protocol ex = Some ''SOCKS5'' then ''Tunnel'' else ''HTTP''))"

fun source_label :: "session_source \<Rightarrow> string" where
  "source_label Proxy = ''Proxy''"
| "source_label AdminForward = ''Compose''"
| "source_label Playback = ''Replay''"
| "source_label Imported = ''Imported''"

definition status_class :: "u16 \<Rightarrow> string" where
  "status_class n =
     (if n = 0 then ''pending'' else if 200 \<le> n \<and> n \<le> 299 then ''2xx''
      else if 300 \<le> n \<and> n \<le> 399 then ''3xx'' else if 400 \<le> n \<and> n \<le> 499 then ''4xx''
      else if 500 \<le> n \<and> n \<le> 599 then ''5xx'' else ''Others'')"

text \<open>Counters in label order, then by count from the largest; equal counts stay in label order.\<close>

definition tally :: "string list \<Rightarrow> label_count list" where
  "tally labels =
     rev (sort_key snd (rev (map (\<lambda>l. (l, length (filter ((=) l) labels))) (sort (remdups labels)))))"

text \<open>\<open>(p * (n - 1)).round()\<close> for a percentage \<open>p\<close>.\<close>

definition percentile :: "nat \<Rightarrow> u64 list \<Rightarrow> u64" where
  "percentile p sorted_latencies =
     (let n = length sorted_latencies
      in if n = 0 then 0 else sorted_latencies ! min ((p * (n - 1) + 50) div 100) (n - 1))"

definition aggregate_protocol_metrics :: "exchange list \<Rightarrow> protocol_metrics" where
  "aggregate_protocol_metrics sessions =
     (let metrics = List.map_filter ex_metrics sessions;
          grpc = List.map_filter (\<lambda>ex. Option.bind (ex_inspector_data ex) id_grpc) sessions;
          latencies = sort (map im_latency_ms metrics)
      in \<lparr>pm_total_exchanges = length sessions,
          pm_connections = length (remdups (List.map_filter ex_connection_id sessions)),
          pm_websockets = length (filter (\<lambda>ex. eq_ignore_ascii_case (rq_method (ex_request ex)) ''WS'') sessions),
          pm_grpc_calls = length grpc,
          pm_protocol_mix = tally (List.map_filter im_protocol metrics),
          pm_downstream_mix = tally (map downstream_protocol_label sessions),
          pm_application_mix = tally (map application_protocol_label sessions),
          pm_source_mix = tally (map (\<lambda>ex. source_label (ex_source ex)) sessions),
          pm_status_classes = tally (map (\<lambda>ex. status_class (status_code_of ex)) sessions),
          pm_grpc_status = tally (List.map_filter gi_grpc_status grpc),
          pm_total_bytes = foldl (\<lambda>b m. b + (of_nat (im_request_size_bytes m) + of_nat (im_response_size_bytes m))) 0 metrics,
          pm_latency_p50_ms = percentile 50 latencies,
          pm_latency_p95_ms = percentile 95 latencies,
          pm_latency_max_ms = (if latencies = [] then 0 else last latencies)\<rparr>)"

section \<open>The waterfall of a session\<close>

record phase =
  ph_name :: string
  ph_start :: u64
  ph_duration :: u64

definition opt_phase :: "string \<Rightarrow> u64 option \<Rightarrow> u64 \<times> phase list \<Rightarrow> u64 \<times> phase list" where
  "opt_phase name d st = (case st of (cursor, phases) \<Rightarrow> (case d of
     Some n \<Rightarrow> (cursor + n, phases @ [\<lparr>ph_name = name, ph_start = cursor, ph_duration = n\<rparr>])
   | None \<Rightarrow> st))"

definition saturating_sub :: "u64 \<Rightarrow> u64 \<Rightarrow> u64" where
  "saturating_sub a b = (if b \<le> a then a - b else 0)"

definition timing_phases :: "inspection_metrics \<Rightarrow> phase list" where
  "timing_phases m =
     (let st = opt_phase ''tls'' (im_tls_ms m) (opt_phase ''tcp'' (im_tcp_connect_ms m)
                 (opt_phase ''dns'' (im_dns_ms m) (0, [])));
          wait = saturating_sub (im_ttfb_ms m) (fst st);
          st2 = opt_phase ''wait'' (if wait > 0 then Some wait else None) st
      in snd (opt_phase ''body'' (if im_body_ms m > 0 then Some (im_body_ms m) else None) st2))"

section \<open>The sweep finds the peak\<close>

definition active_at :: "(int \<times> int) list \<Rightarrow> int \<Rightarrow> nat" where
  "active_at intervals t = length (filter (\<lambda>(start, end). start \<le> t \<and> t < end) intervals)"

abbreviation delta_sum :: "(int \<times> int) list \<Rightarrow> int" where
  "delta_sum es \<equiv> sum_list (map snd es)"

definition before_eq :: "int \<times> int \<Rightarrow> int \<times> int \<Rightarrow> bool" where
  "before_eq a b \<longleftrightarrow> fst a < fst b \<or> fst a = fst b \<and> snd a \<le> snd b"

lemma active_delta:
  "int (active_at intervals t) = delta_sum (filter (\<lambda>e. fst e \<le> t) (interval_events intervals))"
proof (induction intervals)
  case (Cons i intervals)
  obtain a b where i: "i = (a, b)" by fastforce
  have "delta_sum (filter (\<lambda>e. fst e \<le> t) [(a, 1), (max b a, -1)]) = (if a \<le> t \<and> t < b then 1 else 0)"
    by (auto simp: max_def)
  moreover have "interval_events (i # intervals) = [(a, 1), (max b a, -1)] @ interval_events intervals"
    by (simp add: interval_events_def i)
  ultimately show ?case using Cons
    by (simp only: filter_append map_append sum_list_append) (auto simp: active_at_def i)
qed (simp add: active_at_def interval_events_def)

lemma filter_takeWhile:
  fixes xs :: "(int \<times> 'a) list"
  shows "sorted (map fst xs) \<Longrightarrow> filter (\<lambda>e. fst e \<le> t) xs = takeWhile (\<lambda>e. fst e \<le> t) xs"
  by (induction xs) (force simp: filter_empty_conv takeWhile_eq_Nil_iff neq_Nil_conv)+

lemma sum_sort_key: "delta_sum (filter P (sort_key f xs)) = delta_sum (filter P xs)"
proof -
  have "mset (map snd (filter P (sort_key f xs))) = mset (map snd (filter P xs))" by simp
  then show ?thesis by (metis sum_mset_sum_list)
qed

lemma sorted_lex:
  assumes "\<And>k. sorted (map snd (filter (\<lambda>y. fst y = k) ys))" and "sorted (map fst ys)"
  shows "sorted_wrt before_eq ys"
  using assms
proof (induction ys)
  case (Cons y ys)
  have "sorted (map snd (filter (\<lambda>x. fst x = k) ys))" for k
    using Cons.prems(1) [of k] by (auto split: if_splits)
  then have "sorted_wrt before_eq ys" using Cons.IH Cons.prems(2) by simp
  moreover have "before_eq y z" if z: "z \<in> set ys" for z
  proof -
    have "fst y \<le> fst z" using Cons.prems(2) z by simp
    moreover have "snd y \<le> snd z" if "fst y = fst z"
      using Cons.prems(1) [of "fst y"] z that by auto
    ultimately show ?thesis by (auto simp: before_eq_def)
  qed
  ultimately show ?case by simp
qed simp

lemma events_sorted: "sorted_wrt before_eq (sort_key fst (sort_key snd xs))"
proof (rule sorted_lex)
  fix k
  have "filter (\<lambda>y. fst y = k) (sort_key fst (sort_key snd xs)) = filter (\<lambda>y. fst y = k) (sort_key snd xs)"
    by (rule sort_key_stable)
  moreover have "sorted (map snd (filter (\<lambda>y. fst y = k) (sort_key snd xs)))"
    by (rule sorted_filter) simp
  ultimately show "sorted (map snd (filter (\<lambda>y. fst y = k) (sort_key fst (sort_key snd xs))))" by simp
qed simp

lemma sweep_peak_le: "p \<le> sweep c p es"
  by (induction c p es rule: sweep.induct) auto

lemma sweep_prefix_le: "pre \<noteq> [] \<Longrightarrow> c + delta_sum pre \<le> sweep c p (pre @ suf)"
proof (induction pre arbitrary: c p)
  case (Cons e pre)
  obtain t d where e: "e = (t, d)" by fastforce
  show ?case
  proof (cases "pre = []")
    case True
    then show ?thesis using sweep_peak_le [of "max p (c + d)" "c + d" suf] by (simp add: e)
  next
    case False
    then show ?thesis using Cons.IH [of "c + d" "max p (c + d)"] by (simp add: e algebra_simps)
  qed
qed simp

lemma sweep_attained:
  "sweep c p es = p \<or> (\<exists>pre suf. es = pre @ suf \<and> sweep c p es = c + delta_sum pre)"
proof (induction c p es rule: sweep.induct)
  case (2 c p t d es)
  show ?case
  proof (cases "sweep (c + d) (max p (c + d)) es = max p (c + d)")
    case True
    show ?thesis
    proof (cases "c + d \<le> p")
      case False
      then show ?thesis using True by (intro disjI2 exI [of _ "[(t, d)]"] exI [of _ es]) simp
    qed (use True in simp)
  next
    case False
    then obtain pre suf where "es = pre @ suf" and "sweep (c + d) (max p (c + d)) es = c + d + delta_sum pre"
      using 2 by auto
    then show ?thesis by (intro disjI2 exI [of _ "(t, d) # pre"] exI [of _ suf]) simp
  qed
qed simp

text \<open>A prefix of the sorted events has at most the sum of all the events up to some time.\<close>

lemma prefix_sum_bounded:
  assumes "sorted_wrt before_eq (pre @ suf)" and "\<forall>e \<in> set (pre @ suf). snd e = 1 \<or> snd e = -1"
  shows "delta_sum pre \<le> 0 \<or> (\<exists>t. delta_sum pre \<le> delta_sum (filter (\<lambda>e. fst e \<le> t) (pre @ suf)))"
  using assms
proof (induction pre arbitrary: suf rule: rev_induct)
  case (snoc e pre)
  have IH: "delta_sum pre \<le> 0 \<or> (\<exists>t. delta_sum pre \<le> delta_sum (filter (\<lambda>e. fst e \<le> t) (pre @ e # suf)))"
    using snoc.IH [of "e # suf"] snoc.prems by simp
  show ?case
  proof (cases "snd e = 1")
    case True
    have "snd x = 1" if "x \<in> set suf" "fst x \<le> fst e" for x
      using snoc.prems that True by (force simp: sorted_wrt_append before_eq_def)
    then have "0 \<le> delta_sum (filter (\<lambda>x. fst x \<le> fst e) suf)"
      by (intro sum_list_nonneg) auto
    moreover have "filter (\<lambda>x. fst x \<le> fst e) pre = pre"
      using snoc.prems(1) by (intro filter_True) (force simp: sorted_wrt_append before_eq_def)
    ultimately show ?thesis by (intro disjI2 exI [of _ "fst e"]) simp
  next
    case False
    then have "snd e = -1" using snoc.prems(2) by auto
    then have le: "delta_sum (pre @ [e]) \<le> delta_sum pre" by simp
    have same: "(pre @ [e]) @ suf = pre @ e # suf" by simp
    show ?thesis using IH le unfolding same by (meson order_trans)
  qed
qed simp

abbreviation swept :: "(int \<times> int) list \<Rightarrow> (int \<times> int) list" where
  "swept intervals \<equiv> sort_key fst (sort_key snd (interval_events intervals))"

lemma active_swept: "int (active_at intervals t) = delta_sum (filter (\<lambda>e. fst e \<le> t) (swept intervals))"
  by (simp add: active_delta sum_sort_key)

lemma active_le_sweep: "int (active_at intervals t) \<le> sweep 0 0 (swept intervals)"
proof -
  have "filter (\<lambda>e. fst e \<le> t) (swept intervals) = takeWhile (\<lambda>e. fst e \<le> t) (swept intervals)"
    by (rule filter_takeWhile) simp
  then obtain suf where suf: "swept intervals = filter (\<lambda>e. fst e \<le> t) (swept intervals) @ suf"
    by (metis takeWhile_dropWhile_id)
  show ?thesis
  proof (cases "filter (\<lambda>e. fst e \<le> t) (swept intervals) = []")
    case True
    then show ?thesis unfolding active_swept using sweep_peak_le [of 0 0 "swept intervals"] by simp
  next
    case False
    then show ?thesis unfolding active_swept using sweep_prefix_le [of _ 0 0 suf] suf by (metis add_0)
  qed
qed

lemma idle_before: "\<exists>t. active_at intervals t = 0"
proof -
  have "\<exists>m. \<forall>i \<in> set intervals. m < fst i"
  proof (induction intervals)
    case (Cons i js)
    then obtain m where "\<forall>j \<in> set js. m < fst j" by blast
    then show ?case by (intro exI [of _ "min m (fst i - 1)"]) auto
  qed simp
  then obtain m where m: "\<forall>i \<in> set intervals. m < fst i" by blast
  have "filter (\<lambda>(s, e). s \<le> m \<and> m < e) intervals = []"
    using m by (auto simp: filter_empty_conv split_beta)
  then show ?thesis unfolding active_at_def by (intro exI [of _ m]) simp
qed

lemma sweep_reached: "\<exists>t. sweep 0 0 (swept intervals) \<le> int (active_at intervals t)"
  using sweep_attained [of 0 0 "swept intervals"]
proof (elim disjE exE conjE)
  fix pre suf assume es: "swept intervals = pre @ suf" and r: "sweep 0 0 (swept intervals) = 0 + delta_sum pre"
  have "sorted_wrt before_eq (swept intervals)" by (rule events_sorted)
  moreover have "\<forall>e \<in> set (swept intervals). snd e = 1 \<or> snd e = -1" by (auto simp: interval_events_def)
  ultimately have "delta_sum pre \<le> 0 \<or> (\<exists>t. delta_sum pre \<le> delta_sum (filter (\<lambda>e. fst e \<le> t) (pre @ suf)))"
    using prefix_sum_bounded [of pre suf] unfolding es by blast
  then show ?thesis
  proof
    assume "delta_sum pre \<le> 0"
    then have "sweep 0 0 (swept intervals) \<le> 0" unfolding r by simp
    moreover obtain t where "active_at intervals t = 0" using idle_before by blast
    ultimately show ?thesis by (intro exI [of _ t]) simp
  next
    assume "\<exists>t. delta_sum pre \<le> delta_sum (filter (\<lambda>e. fst e \<le> t) (pre @ suf))"
    then show ?thesis unfolding active_swept unfolding es [symmetric] r by simp
  qed
qed (use idle_before in force)

text \<open>C22 The peak concurrency of a connection is the largest number of its streams that are active
  at one time, a stream being active from its start up to but not including its end: no time has
  more active streams, and some time has that many.\<close>

theorem peak_concurrency_correct:
  "(\<forall>t. active_at intervals t \<le> peak_concurrency intervals)
   \<and> (\<exists>t. active_at intervals t = peak_concurrency intervals)"
proof -
  obtain t where t: "int (active_at intervals t) = sweep 0 0 (swept intervals)"
    using sweep_reached [of intervals] active_le_sweep [of intervals] by (metis order_antisym)
  then have "int (peak_concurrency intervals) = sweep 0 0 (swept intervals)"
    by (simp add: peak_concurrency_def)
  then show ?thesis using active_le_sweep [of intervals] t by (metis of_nat_eq_iff of_nat_le_iff)
qed

section \<open>Counts and phases\<close>

lemma mset_tally: "mset (tally labels) = mset (map (\<lambda>l. (l, length (filter ((=) l) labels))) (remdups labels))"
proof -
  have "mset (sort (remdups labels)) = mset (remdups labels)" by simp
  then show ?thesis unfolding tally_def mset_rev mset_sort mset_map by simp
qed

text \<open>Every label is counted once, and the counts add up to the number of labels.\<close>

lemma tally_total: "sum_list (map snd (tally labels)) = length labels"
proof -
  have "sum_list (map snd (tally labels)) = sum_mset (image_mset snd (mset (tally labels)))"
    by (simp add: sum_mset_sum_list flip: mset_map)
  also have "\<dots> = (\<Sum>l \<in> set labels. length (filter ((=) l) labels))"
    by (simp add: mset_tally sum_mset_sum_list sum_list_distinct_conv_sum_set o_def flip: mset_map)
  also have "\<dots> = length labels"
    using sum_count_set [of labels "set labels"] by (simp add: count_list_eq_length_filter)
  finally show ?thesis .
qed

text \<open>The phases of a session follow each other from time zero without gaps.\<close>

fun contiguous :: "u64 \<Rightarrow> phase list \<Rightarrow> bool" where
  "contiguous t [] = True"
| "contiguous t (p # ps) = (ph_start p = t \<and> contiguous (t + ph_duration p) ps)"

definition ends_at :: "u64 \<times> phase list \<Rightarrow> bool" where
  "ends_at st \<longleftrightarrow> contiguous 0 (snd st) \<and> fst st = foldl (\<lambda>t p. t + ph_duration p) 0 (snd st)"

lemma contiguous_append:
  "contiguous t (ps @ [q]) \<longleftrightarrow> contiguous t ps \<and> ph_start q = foldl (\<lambda>t p. t + ph_duration p) t ps"
  by (induction ps arbitrary: t) auto

lemma ends_at_opt_phase: "ends_at st \<Longrightarrow> ends_at (opt_phase name d st)"
  by (cases st) (auto simp: opt_phase_def ends_at_def contiguous_append split: option.split)

lemma timing_phases_contiguous: "contiguous 0 (timing_phases m)"
proof -
  have "ends_at (0, [])" by (simp add: ends_at_def)
  then show ?thesis unfolding timing_phases_def Let_def
    by (metis ends_at_opt_phase ends_at_def)
qed

end
