(* ===== verification/Ip.thy ===== *)
theory Ip
  imports Prelude
begin

text \<open>
  The IP addresses of the standard library, as far as the program uses them: \<open>IpAddr\<close> with its
  classification predicates, parsing (\<open>str::parse\<close>) and display.
\<close>

unbundle bit_operations_syntax

section \<open>Addresses\<close>

text \<open>Four octets, or eight segments.\<close>

datatype ip_addr = V4 byte byte byte byte | V6 "u16 list"

fun ip_wf :: "ip_addr \<Rightarrow> bool" where
  "ip_wf (V4 a b c d) = True"
| "ip_wf (V6 s) = (length s = 8)"

fun is_loopback :: "ip_addr \<Rightarrow> bool" where
  "is_loopback (V4 a b c d) = (a = 127)"
| "is_loopback (V6 s) = (s = [0, 0, 0, 0, 0, 0, 0, 1])"

fun is_private :: "ip_addr \<Rightarrow> bool" where
  "is_private (V4 a b c d) = (a = 10 \<or> a = 172 \<and> 16 \<le> b \<and> b \<le> 31 \<or> a = 192 \<and> b = 168)"
| "is_private (V6 s) = False"

fun is_link_local :: "ip_addr \<Rightarrow> bool" where
  "is_link_local (V4 a b c d) = (a = 169 \<and> b = 254)"
| "is_link_local (V6 s) = (s ! 0 AND 0xffc0 = 0xfe80)"

fun is_multicast :: "ip_addr \<Rightarrow> bool" where
  "is_multicast (V4 a b c d) = (224 \<le> a \<and> a \<le> 239)"
| "is_multicast (V6 s) = (s ! 0 AND 0xff00 = 0xff00)"

fun is_broadcast :: "ip_addr \<Rightarrow> bool" where
  "is_broadcast (V4 a b c d) = (a = 255 \<and> b = 255 \<and> c = 255 \<and> d = 255)"
| "is_broadcast (V6 s) = False"

fun is_unspecified :: "ip_addr \<Rightarrow> bool" where
  "is_unspecified (V4 a b c d) = (a = 0 \<and> b = 0 \<and> c = 0 \<and> d = 0)"
| "is_unspecified (V6 s) = (s = [0, 0, 0, 0, 0, 0, 0, 0])"

fun is_unique_local :: "ip_addr \<Rightarrow> bool" where
  "is_unique_local (V4 a b c d) = False"
| "is_unique_local (V6 s) = (s ! 0 AND 0xfe00 = 0xfc00)"

section \<open>Display\<close>

definition hex_digit_char :: "nat \<Rightarrow> char" where
  "hex_digit_char n = (if n < 10 then char_of (48 + n) else char_of (87 + n))"

fun hex_str :: "nat \<Rightarrow> string" where
  "hex_str n = (if n < 16 then [hex_digit_char n] else hex_str (n div 16) @ [hex_digit_char (n mod 16)])"

declare hex_str.simps [simp del]

text \<open>The longest run of zero segments: start and length, the first one on a tie.\<close>

fun zero_runs :: "u16 list \<Rightarrow> nat \<Rightarrow> nat \<times> nat \<Rightarrow> nat \<times> nat \<Rightarrow> nat \<times> nat" where
  "zero_runs [] i current longest = longest"
| "zero_runs (x # xs) i current longest =
     (if x = 0 then
        let cur = ((if snd current = 0 then i else fst current), snd current + 1)
        in zero_runs xs (Suc i) cur (if snd cur > snd longest then cur else longest)
      else zero_runs xs (Suc i) (0, 0) longest)"

definition show_segments :: "u16 list \<Rightarrow> string" where
  "show_segments s = join_str '':'' (map (\<lambda>x. hex_str (unat x)) s)"

definition show_v4 :: "byte \<Rightarrow> byte \<Rightarrow> byte \<Rightarrow> byte \<Rightarrow> string" where
  "show_v4 a b c d = join_str ''.'' (map (\<lambda>x. decimal (unat x)) [a, b, c, d])"

fun show_ip :: "ip_addr \<Rightarrow> string" where
  "show_ip (V4 a b c d) = show_v4 a b c d"
| "show_ip (V6 s) =
     (if take 6 s = [0, 0, 0, 0, 0, 0xffff]
      then ''::ffff:'' @ show_v4 (ucast (drop_bit 8 (s ! 6))) (ucast (s ! 6)) (ucast (drop_bit 8 (s ! 7))) (ucast (s ! 7))
      else case zero_runs s 0 (0, 0) (0, 0) of (start, len) \<Rightarrow>
        if len > 1 then show_segments (take start s) @ ''::'' @ show_segments (drop (start + len) s)
        else show_segments s)"

section \<open>Parsing\<close>

definition to_digit :: "nat \<Rightarrow> char \<Rightarrow> nat option" where
  "to_digit radix c =
     (let n = char_code c;
          v = (if 48 \<le> n \<and> n \<le> 57 then n - 48 else if 97 \<le> n \<and> n \<le> 122 then n - 87
               else if 65 \<le> n \<and> n \<le> 90 then n - 55 else 36)
      in if v < radix then Some v else None)"

definition read_number :: "nat \<Rightarrow> nat \<Rightarrow> bool \<Rightarrow> nat \<Rightarrow> string \<Rightarrow> (nat \<times> string) option" where
  "read_number radix max_digits allow_zero_prefix bound s =
     (let ds = takeWhile (\<lambda>c. to_digit radix c \<noteq> None) s;
          v = foldl (\<lambda>acc c. acc * radix + the (to_digit radix c)) 0 ds
      in if ds = [] \<or> max_digits < length ds \<or> \<not> allow_zero_prefix \<and> hd ds = CHR ''0'' \<and> 1 < length ds
            \<or> bound \<le> v
         then None else Some (v, drop (length ds) s))"

definition read_char :: "char \<Rightarrow> string \<Rightarrow> string option" where
  "read_char c s = (case s of d # r \<Rightarrow> if c = d then Some r else None | [] \<Rightarrow> None)"

text \<open>\<open>read_separator\<close>: the separator is read before every item but the first.\<close>

definition read_separator :: "char \<Rightarrow> nat \<Rightarrow> (string \<Rightarrow> ('a \<times> string) option) \<Rightarrow> string \<Rightarrow> ('a \<times> string) option" where
  "read_separator sep i f s = (if i > 0 then Option.bind (read_char sep s) f else f s)"

definition read_octet :: "nat \<Rightarrow> string \<Rightarrow> (nat \<times> string) option" where
  "read_octet i = read_separator (CHR ''.'') i (read_number 10 3 False 256)"

definition read_ipv4 :: "string \<Rightarrow> ((byte \<times> byte \<times> byte \<times> byte) \<times> string) option" where
  "read_ipv4 s =
     Option.bind (read_octet 0 s) (\<lambda>(a, s). Option.bind (read_octet 1 s) (\<lambda>(b, s).
     Option.bind (read_octet 2 s) (\<lambda>(c, s). Option.bind (read_octet 3 s) (\<lambda>(d, s).
       Some ((of_nat a, of_nat b, of_nat c, of_nat d), s)))))"

text \<open>At most \<open>limit\<close> groups from index \<open>i\<close> on; an embedded IPv4 address counts for two.\<close>

function read_groups :: "nat \<Rightarrow> nat \<Rightarrow> string \<Rightarrow> u16 list \<Rightarrow> u16 list \<times> bool \<times> string" where
  "read_groups i limit s acc =
     (if limit \<le> i then (acc, False, s)
      else case (if i + 1 < limit then read_separator (CHR '':'') i read_ipv4 s else None) of
             Some ((a, b, c, d), r) \<Rightarrow>
               (acc @ [ucast a * 256 + ucast b, ucast c * 256 + ucast d], True, r)
           | None \<Rightarrow>
               (case read_separator (CHR '':'') i (read_number 16 4 True 65536) s of
                  Some (g, r) \<Rightarrow> read_groups (Suc i) limit r (acc @ [of_nat g])
                | None \<Rightarrow> (acc, False, s)))"
  by pat_completeness auto
termination by (relation "measure (\<lambda>(i, limit, _). limit - i)") auto

declare read_groups.simps [simp del]

definition read_ipv6 :: "string \<Rightarrow> (u16 list \<times> string) option" where
  "read_ipv6 s = (case read_groups 0 8 s [] of (head, head_ipv4, r) \<Rightarrow>
     if length head = 8 then Some (head, r)
     else if head_ipv4 then None
     else Option.bind (read_char (CHR '':'') r) (\<lambda>r. Option.bind (read_char (CHR '':'') r) (\<lambda>r.
       (case read_groups 0 (8 - (length head + 1)) r [] of (tail, _, r) \<Rightarrow>
          Some (head @ replicate (8 - length head - length tail) 0 @ tail, r)))))"

definition parse_ip :: "string \<Rightarrow> ip_addr option" where
  "parse_ip s = (case read_ipv4 s of
     Some ((a, b, c, d), r) \<Rightarrow> if r = [] then Some (V4 a b c d) else None
   | None \<Rightarrow> (case read_ipv6 s of
        Some (g, r) \<Rightarrow> if r = [] then Some (V6 g) else None
      | None \<Rightarrow> None))"

definition parse_ipv6 :: "string \<Rightarrow> u16 list option" where
  "parse_ipv6 s = (case read_ipv6 s of Some (g, []) \<Rightarrow> Some g | _ \<Rightarrow> None)"

section \<open>Lemmas\<close>

text \<open>Displaying and parsing an IPv4 address gives it back.\<close>

lemma to_digit_10: "to_digit 10 c = (if is_ascii_digit c then Some (char_code c - 48) else None)"
  by (auto simp: to_digit_def is_ascii_digit_def Let_def)

lemma decimal_hd: "0 < n \<Longrightarrow> hd (decimal n) \<noteq> CHR ''0''"
proof (induction n rule: decimal.induct)
  case (1 n)
  show ?case
  proof (cases "n < 10")
    case True
    have "char_code (char_of (48 + n)) = 48 + n" using True by (intro char_code_small) simp
    moreover have "char_code (CHR ''0'') = 48" by simp
    ultimately have "char_of (48 + n) \<noteq> CHR ''0''" using "1.prems" by (metis add_cancel_right_right less_numeral_extra(3))
    then show ?thesis using True by (simp add: decimal.simps [of n])
  next
    case False
    then show ?thesis using 1 decimal.simps [of n] by (simp add: hd_append)
  qed
qed

lemma length_decimal: "n < 10 ^ k \<Longrightarrow> 0 < k \<Longrightarrow> length (decimal n) \<le> k"
proof (induction k arbitrary: n)
  case (Suc k)
  show ?case
  proof (cases "n < 10")
    case True
    then show ?thesis by (simp add: decimal.simps [of n])
  next
    case False
    then have "0 < k" using Suc.prems(1) by (cases k) auto
    moreover have "n div 10 < 10 ^ k" using Suc.prems(1) by (simp add: div_less_iff_less_mult mult.commute)
    ultimately show ?thesis using Suc.IH False by (simp add: decimal.simps [of n])
  qed
qed simp

lemma foldl_digits:
  "list_all is_ascii_digit ds \<Longrightarrow>
   foldl (\<lambda>acc c. acc * 10 + the (to_digit 10 c)) v ds = foldl (\<lambda>n c. 10 * n + (char_code c - 48)) v ds"
  by (induction ds arbitrary: v) (auto simp: to_digit_10 mult.commute)

lemma read_octet_decimal:
  assumes "n < 256" and "r = [] \<or> \<not> is_ascii_digit (hd r)"
  shows "read_number 10 3 False 256 (decimal n @ r) = Some (n, r)"
proof -
  have ds: "takeWhile (\<lambda>c. to_digit 10 c \<noteq> None) (decimal n @ r) = decimal n"
    using decimal_digits [of n] assms(2)
    by (cases r) (auto simp: to_digit_10 list_all_iff takeWhile_append2 takeWhile_tail)
  have "n = 0 \<Longrightarrow> length (decimal n) = 1" by (simp add: decimal.simps [of 0])
  moreover have "length (decimal n) \<le> 3" using assms(1) by (intro length_decimal) auto
  moreover have "foldl (\<lambda>acc c. acc * 10 + the (to_digit 10 c)) 0 (decimal n) = n"
    using foldl_digits [OF decimal_digits] digits_value_decimal [of n] by (simp add: digits_value_def)
  ultimately show ?thesis using assms(1) decimal_hd [of n] unfolding read_number_def ds Let_def
    by (cases "n = 0") auto
qed

lemma read_octet_dot:
  assumes "n < 256" and "0 < i" and "r = [] \<or> \<not> is_ascii_digit (hd r)"
  shows "read_octet i (CHR ''.'' # decimal n @ r) = Some (n, r)"
  using assms read_octet_decimal [OF assms(1,3)] by (simp add: read_octet_def read_separator_def read_char_def)

lemma parse_show_v4: "parse_ip (show_ip (V4 a b c d)) = Some (V4 a b c d)"
proof -
  have dot: "\<not> is_ascii_digit CHR ''.''" by (simp add: is_ascii_digit_def)
  have lt: "unat (x :: byte) < 256" for x using unsigned_less [of x] by simp
  have "read_ipv4 (show_v4 a b c d) = Some ((a, b, c, d), [])"
    using dot read_octet_decimal [OF lt, of _ a] read_octet_dot [OF lt] read_octet_dot [OF lt, of _ "[]"]
    by (simp add: read_ipv4_def show_v4_def read_octet_def [of 0] read_separator_def)
  then show ?thesis by (simp add: parse_ip_def)
qed

end
