(* ===== verification/Security.thy ===== *)
theory Security
  imports Ip EngineWire
begin

text \<open>
  The egress policy of the admin interface (\<open>security.rs\<close>): with remote administration on, the
  requests that an administrator can make the proxy send must not reach local addresses. Name
  resolution is the parameter \<open>lookup\<close>; \<open>None\<close> stands for an error or the timeout.
\<close>

record admin_egress_policy =
  block_private_targets :: bool

definition from_config :: "bool \<Rightarrow> bool \<Rightarrow> admin_egress_policy" where
  "from_config allow_remote_admin allow_private_admin_egress =
     \<lparr>block_private_targets = allow_remote_admin \<and> \<not> allow_private_admin_egress\<rparr>"

fun is_protected_admin_egress_ip :: "ip_addr \<Rightarrow> bool" where
  "is_protected_admin_egress_ip (V4 a b c d) =
     (let ip = V4 a b c d
      in is_loopback ip \<or> is_private ip \<or> is_link_local ip \<or> is_multicast ip \<or> is_broadcast ip
         \<or> is_unspecified ip \<or> a = 100 \<and> 64 \<le> b \<and> b \<le> 127)"
| "is_protected_admin_egress_ip (V6 s) =
     (let ip = V6 s
      in is_loopback ip \<or> is_unspecified ip \<or> is_unique_local ip \<or> is_link_local ip \<or> is_multicast ip)"

definition port_or_known_default :: "url \<Rightarrow> u16 option" where
  "port_or_known_default u = (case url_port u of
     Some p \<Rightarrow> Some p
   | None \<Rightarrow> if url_scheme u \<in> {''http'', ''ws''} then Some 80
             else if url_scheme u \<in> {''https'', ''wss''} then Some 443
             else if url_scheme u = ''ftp'' then Some 21 else None)"

definition blocked_literal :: "ip_addr \<Rightarrow> string" where
  "blocked_literal ip = ''admin egress to protected address '' @ show_ip ip
     @ '' is blocked while remote admin is enabled''"

definition blocked_target :: "string \<Rightarrow> ip_addr \<Rightarrow> string" where
  "blocked_target host ip = ''admin egress target '' @ host @ '' resolved to protected address '' @ show_ip ip"

definition enforce_admin_egress_policy ::
    "(string \<Rightarrow> u16 \<Rightarrow> ip_addr list option) \<Rightarrow> url \<Rightarrow> admin_egress_policy \<Rightarrow> string + unit" where
  "enforce_admin_egress_policy lookup u policy =
     (if \<not> block_private_targets policy then Inr ()
      else case url_host_str u of
        None \<Rightarrow> Inl ''admin egress URL must include a host''
      | Some host \<Rightarrow>
          (case parse_ip host of
             Some ip \<Rightarrow> if is_protected_admin_egress_ip ip then Inl (blocked_literal ip) else Inr ()
           | None \<Rightarrow>
               (case port_or_known_default u of
                  None \<Rightarrow> Inl ''admin egress URL must include a resolvable port''
                | Some port \<Rightarrow>
                    (case lookup host port of
                       None \<Rightarrow> Inr ()
                     | Some addrs \<Rightarrow>
                         (case find is_protected_admin_egress_ip addrs of
                            Some ip \<Rightarrow> Inl (blocked_target host ip) | None \<Rightarrow> Inr ())))))"

section \<open>The protected ranges\<close>

definition v4_number :: "byte \<Rightarrow> byte \<Rightarrow> byte \<Rightarrow> byte \<Rightarrow> nat" where
  "v4_number a b c d = ((unat a * 256 + unat b) * 256 + unat c) * 256 + unat d"

text \<open>Network and prefix length.\<close>

definition protected_v4 :: "((byte \<times> byte \<times> byte \<times> byte) \<times> nat) list" where
  "protected_v4 = [((127, 0, 0, 0), 8), ((10, 0, 0, 0), 8), ((172, 16, 0, 0), 12), ((192, 168, 0, 0), 16),
     ((169, 254, 0, 0), 16), ((224, 0, 0, 0), 4), ((255, 255, 255, 255), 32), ((0, 0, 0, 0), 32),
     ((100, 64, 0, 0), 10)]"

definition in_v4_net :: "byte \<times> byte \<times> byte \<times> byte \<Rightarrow> (byte \<times> byte \<times> byte \<times> byte) \<times> nat \<Rightarrow> bool" where
  "in_v4_net x net = (case (x, net) of ((a, b, c, d), ((p, q, r, s), len)) \<Rightarrow>
     v4_number a b c d div 2 ^ (32 - len) = v4_number p q r s div 2 ^ (32 - len))"

definition protected_v6 :: "(nat \<times> nat) list" where
  "protected_v6 = [(0xfc00, 0xfdff), (0xfe80, 0xfebf), (0xff00, 0xffff)]"

lemma byte_lt: "unat (x :: byte) < 256"
  using unsigned_less [of x] by simp

lemma byte_eq: "(x :: byte) = y \<longleftrightarrow> unat x = unat y"
  by (simp add: word_unat_eq_iff)

lemma v4_ranges:
  "is_protected_admin_egress_ip (V4 a b c d) \<longleftrightarrow> list_ex (in_v4_net (a, b, c, d)) protected_v4"
proof -
  have pair: "x * k + y = p * k + q \<longleftrightarrow> x = p \<and> y = q" if "y < k" "q < k" for x y p q k :: nat
  proof -
    have "(x * k + y) div k = x" and "(p * k + q) div k = p" using that by simp_all
    then have "x * k + y = p * k + q \<Longrightarrow> x = p" by metis
    then show ?thesis by auto
  qed
  have "(x * 256 + y) div 16 = 2753 \<longleftrightarrow> x = 172 \<and> 16 \<le> y \<and> y \<le> 31" if "y < 256" for x y :: nat
  proof -
    have "(x * 256 + y) div 16 = x * 16 + y div 16"
      using div_mult_self1 [of 16 y "x * 16"] by (simp add: algebra_simps)
    moreover have "y div 16 = 1 \<longleftrightarrow> 16 \<le> y \<and> y \<le> 31"
      using div_nat_eqI [of 16 1 y] div_mult_mod_eq [of y 16] mod_less_divisor [of 16 y] by auto
    ultimately show ?thesis using pair [of "y div 16" 16 1 x 172] that by (simp add: less_mult_imp_div_less)
  qed
  moreover have "(x * 256 + y) div 64 = 401 \<longleftrightarrow> x = 100 \<and> 64 \<le> y \<and> y \<le> 127" if "y < 256" for x y :: nat
  proof -
    have "(x * 256 + y) div 64 = x * 4 + y div 64"
      using div_mult_self1 [of 64 y "x * 4"] by (simp add: algebra_simps)
    moreover have "y div 64 = 1 \<longleftrightarrow> 64 \<le> y \<and> y \<le> 127"
      using div_nat_eqI [of 64 1 y] div_mult_mod_eq [of y 64] mod_less_divisor [of 64 y] by auto
    ultimately show ?thesis using pair [of "y div 64" 4 1 x 100] that by (simp add: less_mult_imp_div_less)
  qed
  ultimately have nets: "(unat a * 256 + unat b) div 16 = 2753 \<longleftrightarrow> unat a = 172 \<and> 16 \<le> unat b \<and> unat b \<le> 31"
    "(unat a * 256 + unat b) div 64 = 401 \<longleftrightarrow> unat a = 100 \<and> 64 \<le> unat b \<and> unat b \<le> 127"
    using byte_lt [of b] by blast+
  have tenth: "unat a div 16 = 14 \<longleftrightarrow> 224 \<le> unat a \<and> unat a \<le> 239"
    using div_nat_eqI [of 16 14 "unat a"] div_mult_mod_eq [of "unat a" 16] mod_less_divisor [of 16 "unat a"] by auto
  have low: "v4_number a b c d = 0 \<longleftrightarrow> unat a = 0 \<and> unat b = 0 \<and> unat c = 0 \<and> unat d = 0"
    by (simp add: v4_number_def)
  have "x = 255 \<and> y = 255 \<and> z = 255 \<and> w = 255"
    if "x * 16777216 + y * 65536 + z * 256 + w = 4294967295" "x < 256" "y < 256" "z < 256" "w < 256"
    for x y z w :: nat
  proof -
    have "x \<ge> 255" using that by linarith
    moreover have "y \<ge> 255" using that by linarith
    moreover have "z \<ge> 255" using that by linarith
    moreover have "w \<ge> 255" using that by linarith
    ultimately show ?thesis using that by linarith
  qed
  note max = this [OF _ byte_lt byte_lt byte_lt byte_lt, of a b c d]
  have number: "v4_number a b c d = unat a * 16777216 + unat b * 65536 + unat c * 256 + unat d"
    by (simp add: v4_number_def)
  have high: "v4_number a b c d = 4294967295 \<longleftrightarrow> unat a = 255 \<and> unat b = 255 \<and> unat c = 255 \<and> unat d = 255"
    unfolding number using max by (intro iffI) simp_all
  have pairs: "unat a * 256 + unat b = 192 * 256 + 168 \<longleftrightarrow> unat a = 192 \<and> unat b = 168"
    "unat a * 256 + unat b = 169 * 256 + 254 \<longleftrightarrow> unat a = 169 \<and> unat b = 254"
    using pair [OF byte_lt [of b], of 168 "unat a" 192] pair [OF byte_lt [of b], of 254 "unat a" 169] by simp_all
  have nth: "v4_number p q r s div 2 ^ 24 = unat p" "v4_number p q r s div 2 ^ 16 = unat p * 256 + unat q"
    "v4_number p q r s div 2 ^ 20 = (unat p * 256 + unat q) div 16"
    "v4_number p q r s div 2 ^ 22 = (unat p * 256 + unat q) div 64"
    "v4_number p q r s div 2 ^ 28 = unat p div 16" for p q r s
    using byte_lt [of q] byte_lt [of r] byte_lt [of s] by (simp_all add: v4_number_def)
  have net: "in_v4_net (a, b, c, d) ((p, q, r, s), 8) \<longleftrightarrow> unat a = unat p"
    "in_v4_net (a, b, c, d) ((p, q, r, s), 4) \<longleftrightarrow> unat a div 16 = unat p div 16"
    "in_v4_net (a, b, c, d) ((p, q, r, s), 16) \<longleftrightarrow> unat a * 256 + unat b = unat p * 256 + unat q"
    "in_v4_net (a, b, c, d) ((p, q, r, s), 12) \<longleftrightarrow>
       (unat a * 256 + unat b) div 16 = (unat p * 256 + unat q) div 16"
    "in_v4_net (a, b, c, d) ((p, q, r, s), 10) \<longleftrightarrow>
       (unat a * 256 + unat b) div 64 = (unat p * 256 + unat q) div 64"
    "in_v4_net (a, b, c, d) ((p, q, r, s), 32) \<longleftrightarrow> v4_number a b c d = v4_number p q r s" for p q r s
    by (simp_all add: in_v4_net_def nth [simplified])
  have ends: "v4_number 255 255 255 255 = 4294967295" "v4_number 0 0 0 0 = 0"
    by (simp_all add: v4_number_def)
  have list: "list_ex (in_v4_net (a, b, c, d)) protected_v4 \<longleftrightarrow>
      unat a = 127 \<or> unat a = 10 \<or> (unat a * 256 + unat b) div 16 = 2753
      \<or> unat a * 256 + unat b = 192 * 256 + 168 \<or> unat a * 256 + unat b = 169 * 256 + 254
      \<or> unat a div 16 = 14 \<or> v4_number a b c d = 4294967295 \<or> v4_number a b c d = 0
      \<or> (unat a * 256 + unat b) div 64 = 401"
    unfolding protected_v4_def by (simp add: net ends)
  show ?thesis unfolding list nets tenth low high pairs
    by (auto simp: Let_def byte_eq word_le_nat_alt)
qed

text \<open>The masks of the IPv6 ranges, on the first segment.\<close>

lemma mask_range:
  fixes x :: u16
  assumes "k \<le> 16"
  shows "x AND push_bit k (mask (16 - k)) = push_bit k y \<longleftrightarrow> drop_bit k x = take_bit (16 - k) y"
proof
  assume l: "x AND push_bit k (mask (16 - k)) = push_bit k y"
  show "drop_bit k x = take_bit (16 - k) y"
  proof (rule bit_word_eqI)
    fix n assume n: "n < LENGTH(16)"
    show "bit (drop_bit k x) n = bit (take_bit (16 - k) y) n"
      using arg_cong [OF l, of "\<lambda>w. bit w (k + n)"] n assms bit_imp_le_length [of x "k + n"]
      by (auto simp: bit_simps)
  qed
next
  assume r: "drop_bit k x = take_bit (16 - k) y"
  show "x AND push_bit k (mask (16 - k)) = push_bit k y"
  proof (rule bit_word_eqI)
    fix n assume n: "n < LENGTH(16)"
    show "bit (x AND push_bit k (mask (16 - k))) n = bit (push_bit k y) n"
      using arg_cong [OF r, of "\<lambda>w. bit w (n - k)"] n assms by (auto simp: bit_simps)
  qed
qed

lemma drop_range:
  fixes x :: u16
  shows "drop_bit k x = c \<longleftrightarrow> unat c * 2 ^ k \<le> unat x \<and> unat x < (unat c + 1) * 2 ^ k"
proof -
  have "drop_bit k x = c \<longleftrightarrow> unat x div 2 ^ k = unat c"
    unfolding word_unat_eq_iff unat_drop_bit_eq by (simp add: drop_bit_eq_div)
  also have "\<dots> \<longleftrightarrow> unat c * 2 ^ k \<le> unat x \<and> unat x < (unat c + 1) * 2 ^ k"
    by (metis add.commute div_nat_eqI div_times_less_eq_dividend dividend_less_div_times mult.commute
        plus_1_eq_Suc zero_less_numeral zero_less_power mult_Suc)
  finally show ?thesis .
qed

lemma v6_segment:
  fixes x :: u16
  shows "x AND 0xfe00 = 0xfc00 \<longleftrightarrow> 0xfc00 \<le> unat x \<and> unat x \<le> 0xfdff"
    and "x AND 0xffc0 = 0xfe80 \<longleftrightarrow> 0xfe80 \<le> unat x \<and> unat x \<le> 0xfebf"
    and "x AND 0xff00 = 0xff00 \<longleftrightarrow> 0xff00 \<le> unat x \<and> unat x \<le> 0xffff"
  using mask_range [where k = 9 and x = x and y = "0x7e"]
    mask_range [where k = 6 and x = x and y = "0x3fa"] mask_range [where k = 8 and x = x and y = "0xff"]
    drop_range [where k = 9 and x = x and c = "0x7e"]
    drop_range [where k = 6 and x = x and c = "0x3fa"] drop_range [where k = 8 and x = x and c = "0xff"]
  by (auto simp: push_bit_eq_mult mask_eq_exp_minus_1 take_bit_eq_mod)

lemma v6_ranges:
  assumes "length s = 8"
  shows "is_protected_admin_egress_ip (V6 s) \<longleftrightarrow> s \<in> {[0, 0, 0, 0, 0, 0, 0, 0], [0, 0, 0, 0, 0, 0, 0, 1]}
     \<or> list_ex (\<lambda>(lo, hi). lo \<le> unat (hd s) \<and> unat (hd s) \<le> hi) protected_v6"
proof -
  have "s ! 0 = hd s" using assms by (cases s) auto
  then show ?thesis by (auto simp: Let_def protected_v6_def v6_segment)
qed

section \<open>Literals in brackets\<close>

lemma parse_ip_bracket: "parse_ip (CHR 0x5B # s) = None"
  by (simp add: parse_ip_def read_ipv4_def read_octet_def read_separator_def read_number_def to_digit_def
      read_ipv6_def read_groups.simps [of 0] read_char_def)

text \<open>The host of a URL keeps the brackets of an IPv6 literal, so the literal is not recognised as
  an address; the resolver does not know it either, and the request is let through.\<close>

lemma bracketed_literal_allowed:
  assumes "url_host_str u = Some (CHR 0x5B # s)" and "port_or_known_default u = Some p"
    and "lookup (CHR 0x5B # s) p = None"
  shows "enforce_admin_egress_policy lookup u policy = Inr ()"
  using assms by (simp add: enforce_admin_egress_policy_def parse_ip_bracket)

section \<open>Properties\<close>


end
