(* ===== verification/Redaction.thy ===== *)
theory Redaction
  imports Headers SessionTypes Utf8 "HOL-Library.Sublist" "HOL-Library.List_Lexorder" "HOL-Library.Char_ord"
begin

text \<open>
  Redaction of recorded data (\<open>redaction.rs\<close>) and of what is shown to the assistant
  (\<open>control_plane/assistant_redaction.rs\<close>). The JSON parser and printer are the parameters
  \<open>js_parse\<close> and \<open>js_pretty\<close>. Replacement of known values works on the text; everything else on
  keys.
\<close>

section \<open>Sensitive keys\<close>

definition REDACTED :: string where
  "REDACTED = ''[redacted]''"

definition sensitive_names :: "string list" where
  "sensitive_names = [''authorization'', ''cookie'', ''set_cookie'', ''x_api_key'', ''api_key'',
     ''access_token'', ''refresh_token'', ''password'', ''secret'', ''token'']"

definition is_sensitive_key :: "string \<Rightarrow> bool" where
  "is_sensitive_key key0 =
     (let key = map (\<lambda>c. if c = CHR ''-'' then CHR ''_'' else c) (to_ascii_lowercase (trim_str key0))
      in key \<in> set sensitive_names \<or> contains_str key ''password'' \<or> contains_str key ''secret''
         \<or> suffix ''_token'' key \<or> contains_str key ''api_key'')"

definition redact_headers :: "header_map \<Rightarrow> header_map" where
  "redact_headers headers = hm_from_iter
     (map (\<lambda>(k, v). (k, if is_sensitive_key k then REDACTED else v)) (entries headers))"

definition should_redact_literal :: "string \<Rightarrow> bool" where
  "should_redact_literal v \<longleftrightarrow> 4 \<le> length v \<and> v \<noteq> REDACTED"

definition push_sensitive_value :: "string list \<Rightarrow> string \<Rightarrow> string list" where
  "push_sensitive_value out value0 =
     (let v = trim_str value0 in if should_redact_literal v then out @ [v] else out)"

section \<open>JSON bodies\<close>

record json_lib =
  js_parse :: "string \<Rightarrow> json option"
  js_pretty :: "json \<Rightarrow> string option"

fun json_number_str :: "json_number \<Rightarrow> string" where
  "json_number_str (PosInt n) = decimal (unat n)"
| "json_number_str (NegInt i) = (if i < 0 then CHR ''-'' # decimal (nat (- i)) else decimal (nat i))"
| "json_number_str (Float s) = s"

definition json_bool_str :: "bool \<Rightarrow> string" where
  "json_bool_str b = (if b then ''true'' else ''false'')"

fun redact_json_value :: "json \<Rightarrow> json" where
  "redact_json_value (JObject kvs) =
     JObject (map (\<lambda>(k, v). (k, if is_sensitive_key k then JString REDACTED else redact_json_value v)) kvs)"
| "redact_json_value (JArray items) = JArray (map redact_json_value items)"
| "redact_json_value v = v"

fun collect_sensitive_json_values :: "json \<Rightarrow> string \<Rightarrow> string list \<Rightarrow> string list" where
  "collect_sensitive_json_values (JObject kvs) key out =
     fold (\<lambda>(k, v). collect_sensitive_json_values v k) kvs out"
| "collect_sensitive_json_values (JArray items) key out =
     fold (\<lambda>v. collect_sensitive_json_values v key) items out"
| "collect_sensitive_json_values (JString s) key out =
     (if is_sensitive_key key then push_sensitive_value out s else out)"
| "collect_sensitive_json_values (JNumber n) key out =
     (if is_sensitive_key key then push_sensitive_value out (json_number_str n) else out)"
| "collect_sensitive_json_values (JBool b) key out =
     (if is_sensitive_key key then push_sensitive_value out (json_bool_str b) else out)"
| "collect_sensitive_json_values JNull key out = out"

section \<open>Form-like bodies\<close>

definition form_separator :: "string \<Rightarrow> char" where
  "form_separator body = (if CHR ''&'' \<in> set body then CHR ''&'' else CHR 0x0A)"

definition redact_part :: "string \<Rightarrow> string" where
  "redact_part part = (case split_once (CHR ''='') part of
     None \<Rightarrow> part
   | Some (key, v) \<Rightarrow> if is_sensitive_key key then key @ ''='' @ REDACTED else key @ ''='' @ v)"

definition redact_urlencoded_like :: "string \<Rightarrow> string" where
  "redact_urlencoded_like body =
     (let sep = form_separator body in join_str [sep] (map redact_part (split_char sep body)))"

definition collect_sensitive_urlencoded_like_values :: "string \<Rightarrow> string list \<Rightarrow> string list" where
  "collect_sensitive_urlencoded_like_values body out =
     fold (\<lambda>part out. case split_once (CHR ''='') part of
         None \<Rightarrow> out
       | Some (key, v) \<Rightarrow> if is_sensitive_key key then push_sensitive_value out v else out)
       (split_char (form_separator body) body) out"

section \<open>Whole bodies and texts\<close>

definition redact_body_text :: "json_lib \<Rightarrow> string \<Rightarrow> string" where
  "redact_body_text js body =
     (if trim_str body = [] then body
      else case js_parse js body of
             Some v \<Rightarrow> (case js_pretty js (redact_json_value v) of Some t \<Rightarrow> t | None \<Rightarrow> REDACTED)
           | None \<Rightarrow> redact_urlencoded_like body)"

definition collect_sensitive_body_values :: "json_lib \<Rightarrow> string \<Rightarrow> string list \<Rightarrow> string list" where
  "collect_sensitive_body_values js body out =
     (if trim_str body = [] then out
      else case js_parse js body of
             Some v \<Rightarrow> collect_sensitive_json_values v [] out
           | None \<Rightarrow> collect_sensitive_urlencoded_like_values body out)"

definition sensitive_values :: "json_lib \<Rightarrow> header_map \<Rightarrow> string \<Rightarrow> string list" where
  "sensitive_values js headers body =
     (let values = fold (\<lambda>(k, v) out. if is_sensitive_key k then push_sensitive_value out v else out)
                     (entries headers) []
      in remdups_adj (sort (collect_sensitive_body_values js body values)))"

text \<open>\<open>str::replace\<close> with a pattern that is not empty: occurrences from the left, not overlapping.\<close>

function replace_str :: "string \<Rightarrow> string \<Rightarrow> string \<Rightarrow> string" where
  "replace_str pat to [] = []"
| "replace_str pat to (c # cs) =
     (if pat \<noteq> [] \<and> prefix pat (c # cs) then to @ replace_str pat to (drop (length pat) (c # cs))
      else c # replace_str pat to cs)"
  by pat_completeness auto
termination by (relation "measure (\<lambda>(pat, _, s). length s)") (auto simp: length_greater_0_conv [symmetric] simp del: length_greater_0_conv)

definition redact_known_values :: "string \<Rightarrow> string list \<Rightarrow> string" where
  "redact_known_values text0 values =
     foldl (\<lambda>acc v. if should_redact_literal v then replace_str v REDACTED acc else acc) text0 values"

section \<open>Headers\<close>

lemma redact_headers_entries:
  assumes "hm_wf h"
  shows "entries (redact_headers h) = map (\<lambda>(k, v). (k, if is_sensitive_key k then REDACTED else v)) (entries h)"
proof -
  have "list_all (\<lambda>(n, _). to_ascii_lowercase n = n) (entries h)" using assms by (simp add: hm_wf_def)
  then show ?thesis unfolding redact_headers_def hm_entries_from_iter
    by (auto simp: list_all_iff)
qed

lemma redact_headers_get:
  assumes "hm_wf h"
  shows "hm_get (redact_headers h) k =
    map_option (\<lambda>v. if is_sensitive_key (to_ascii_lowercase k) then REDACTED else v) (hm_get h k)"
proof -
  have wf: "hm_wf (redact_headers h)" unfolding redact_headers_def by simp
  have "map_of (map (\<lambda>(k, v). (k, if is_sensitive_key k then REDACTED else v)) es) k'
     = map_option (\<lambda>v. if is_sensitive_key k' then REDACTED else v) (map_of es k')" for es k'
    by (induction es) auto
  then show ?thesis unfolding hm_get_map_of [OF wf] hm_get_map_of [OF assms] redact_headers_entries [OF assms] .
qed

section \<open>What JSON redaction keeps\<close>

text \<open>Two documents with the same public part: the same shape, and the same values except under
  sensitive keys.\<close>

inductive same_public :: "json \<Rightarrow> json \<Rightarrow> bool" where
  same_object: "list_all2 (\<lambda>p q. fst p = fst q \<and> (is_sensitive_key (fst p) \<or> same_public (snd p) (snd q))) a b
     \<Longrightarrow> same_public (JObject a) (JObject b)"
| same_array: "list_all2 same_public a b \<Longrightarrow> same_public (JArray a) (JArray b)"
| same_null: "same_public JNull JNull"
| same_bool: "same_public (JBool x) (JBool x)"
| same_number: "same_public (JNumber n) (JNumber n)"
| same_string: "same_public (JString s) (JString s)"
  monos list_all2_mono

inductive_cases same_publicE: "same_public v w"

lemma same_public_redacted: "same_public v w \<Longrightarrow> redact_json_value v = redact_json_value w"
proof (induction rule: same_public.induct)
  case (same_object a b)
  then have "list_all2 (\<lambda>p q. fst p = fst q \<and> (is_sensitive_key (fst p)
      \<or> redact_json_value (snd p) = redact_json_value (snd q))) a b"
    by (rule list_all2_mono) auto
  then show ?case by (induction rule: list_all2_induct) auto
next
  case (same_array a b)
  then have "list_all2 (\<lambda>x y. redact_json_value x = redact_json_value y) a b"
    by (rule list_all2_mono) auto
  then show ?case by (induction rule: list_all2_induct) auto
qed auto

lemma redacted_same_public: "redact_json_value v = redact_json_value w \<Longrightarrow> same_public v w"
proof (induction v arbitrary: w)
  case (JArray xs)
  obtain ys where w: "w = JArray ys" using JArray.prems by (cases w) auto
  have "map redact_json_value xs = map redact_json_value ys" using JArray.prems w by simp
  then have "list_all2 same_public xs ys"
    using JArray.IH by (auto simp: list_all2_conv_all_nth list_eq_iff_nth_eq)
  then show ?case using w by (simp add: same_array)
next
  case (JObject kvs)
  obtain qs where w: "w = JObject qs" using JObject.prems by (cases w) auto
  let ?f = "\<lambda>(k, v). (k, if is_sensitive_key k then JString REDACTED else redact_json_value v)"
  have eq: "map ?f kvs = map ?f qs" using JObject.prems w by simp
  have "list_all2 (\<lambda>p q. fst p = fst q \<and> (is_sensitive_key (fst p) \<or> same_public (snd p) (snd q))) kvs qs"
  proof (rule list_all2_all_nthI)
    show "length kvs = length qs" using map_eq_imp_length_eq [OF eq] .
    fix i assume i: "i < length kvs"
    have "?f (kvs ! i) = ?f (qs ! i)" using arg_cong [OF eq, of "\<lambda>l. l ! i"] i map_eq_imp_length_eq [OF eq] by simp
    moreover have "kvs ! i \<in> set kvs" using i by simp
    ultimately show "fst (kvs ! i) = fst (qs ! i) \<and>
        (is_sensitive_key (fst (kvs ! i)) \<or> same_public (snd (kvs ! i)) (snd (qs ! i)))"
      using JObject.IH [of "kvs ! i" "snd (kvs ! i)"] by (auto simp: split_beta snds.simps split: if_splits)
  qed
  then show ?case using w by (simp add: same_object)
qed (case_tac w; auto intro: same_public.intros)+

section \<open>What the redaction of forms keeps\<close>

lemma redact_part_no_sep:
  "sep \<in> {CHR ''&'', CHR 0x0A} \<Longrightarrow> sep \<notin> set p \<Longrightarrow> sep \<notin> set (redact_part p)"
  by (auto simp: redact_part_def REDACTED_def split: option.split dest: split_once_Some)

lemma redact_part_idem [simp]: "redact_part (redact_part p) = redact_part p"
proof (cases "split_once (CHR ''='') p")
  case (Some kv)
  obtain k v where kv: "kv = (k, v)" by fastforce
  with Some have "CHR ''='' \<notin> set k" by (auto dest: split_once_Some)
  then show ?thesis using Some kv split_once_append [of "CHR ''=''" k]
    by (simp add: redact_part_def)
qed (simp add: redact_part_def)

lemma form_separator_cases: "form_separator b \<in> {CHR ''&'', CHR 0x0A}"
  by (simp add: form_separator_def)

lemma split_redacted:
  "split_char (form_separator b) (redact_urlencoded_like b) = map redact_part (split_char (form_separator b) b)"
  unfolding redact_urlencoded_like_def Let_def
proof (rule split_join_char)
  show "\<forall>p \<in> set (map redact_part (split_char (form_separator b) b)). form_separator b \<notin> set p"
    using split_char_no_sep [of "form_separator b" b] redact_part_no_sep [OF form_separator_cases]
    unfolding list.set_map by blast
qed simp

lemma join_set:
  "c \<in> set (join_str [d] ps) \<longleftrightarrow> (c = d \<and> 2 \<le> length ps) \<or> (\<exists>p \<in> set ps. c \<in> set p)"
  by (induction ps rule: induct_list012) auto

lemma sep_in_join: "d \<in> set (join_str [d] ps) \<longleftrightarrow> 2 \<le> length ps \<or> (\<exists>p \<in> set ps. d \<in> set p)"
  by (induction ps rule: induct_list012) auto

lemma redact_part_amp: "CHR ''&'' \<notin> set p \<Longrightarrow> CHR ''&'' \<notin> set (redact_part p)"
  by (rule redact_part_no_sep) auto

lemma form_separator_redacted [simp]: "form_separator (redact_urlencoded_like b) = form_separator b"
proof (cases "CHR ''&'' \<in> set b")
  case True
  then have "2 \<le> length (split_char (CHR ''&'') b)"
    using sep_in_join [of "CHR ''&''" "split_char (CHR ''&'') b"] split_char_no_sep [of "CHR ''&''" b]
    by (auto simp: join_split_char)
  then show ?thesis using True
    by (simp add: redact_urlencoded_like_def form_separator_def Let_def sep_in_join)
next
  case False
  have "CHR ''&'' \<notin> set p" if "p \<in> set (split_char (CHR 0x0A) b)" for p
    using False that join_set [of "CHR ''&''" "CHR 0x0A" "split_char (CHR 0x0A) b"]
    by (auto simp: join_split_char)
  then have "CHR ''&'' \<notin> set (join_str [CHR 0x0A] (map redact_part (split_char (CHR 0x0A) b)))"
    by (auto simp: join_set dest: redact_part_amp)
  then show ?thesis using False by (simp add: redact_urlencoded_like_def form_separator_def Let_def)
qed

lemma redact_form_idem [simp]:
  "redact_urlencoded_like (redact_urlencoded_like b) = redact_urlencoded_like b"
proof -
  have "redact_urlencoded_like (redact_urlencoded_like b)
      = join_str [form_separator b] (map redact_part (map redact_part (split_char (form_separator b) b)))"
    by (simp only: redact_urlencoded_like_def [of "redact_urlencoded_like b"] form_separator_redacted
        Let_def split_redacted)
  also have "\<dots> = redact_urlencoded_like b"
    by (simp add: redact_urlencoded_like_def Let_def o_def)
  finally show ?thesis .
qed

section \<open>Replacing known values\<close>

text \<open>The values whose occurrences cannot overlap the text put in their place.\<close>

definition clear_of_marker :: "string \<Rightarrow> bool" where
  "clear_of_marker v \<longleftrightarrow> v \<noteq> [] \<and> CHR 0x5B \<notin> set v \<and> CHR 0x5D \<notin> set v \<and> \<not> sublist v ''redacted''"

lemma REDACTED_split: "REDACTED = CHR 0x5B # ''redacted'' @ [CHR 0x5D]"
  by (simp add: REDACTED_def)

lemma sublist_across:
  assumes "sublist v (a @ c # b)" and "c \<notin> set v"
  shows "sublist v a \<or> sublist v b"
proof -
  obtain x y where eq: "a @ c # b = x @ v @ y" using assms(1) by (auto simp: sublist_def)
  show ?thesis
  proof (cases "length x + length v \<le> length a")
    case True
    then have "take (length x + length v) a = x @ v"
      using arg_cong [OF eq, of "take (length x + length v)"] by simp
    then have "a = x @ v @ drop (length x + length v) a" by (metis append.assoc append_take_drop_id)
    then show ?thesis unfolding sublist_def by blast
  next
    case False
    have "length x \<ge> Suc (length a)"
    proof (rule ccontr)
      assume "\<not> ?thesis"
      then have "(x @ v @ y) ! length a = v ! (length a - length x)" and "length a - length x < length v"
        using False by (auto simp: nth_append)
      then have "c \<in> set v" using arg_cong [OF eq, of "\<lambda>l. l ! length a"] by (auto simp: nth_append)
      with assms(2) show False by simp
    qed
    then have "b = drop (Suc (length a)) x @ v @ y"
      using arg_cong [OF eq, of "drop (Suc (length a))"] by simp
    then show ?thesis unfolding sublist_def by blast
  qed
qed

lemma sublist_across_marker:
  assumes "sublist v (REDACTED @ b)" and "clear_of_marker v"
  shows "sublist v b"
proof -
  have "sublist v ([] @ CHR 0x5B # (''redacted'' @ CHR 0x5D # b))"
    using assms(1) by (simp add: REDACTED_split)
  then have "sublist v (''redacted'' @ CHR 0x5D # b)"
    using assms(2) sublist_across [of v "[]" "CHR 0x5B"] by (auto simp: clear_of_marker_def)
  then show ?thesis using assms(2) sublist_across [of v "''redacted''" "CHR 0x5D" b]
    by (auto simp: clear_of_marker_def)
qed

lemma prefix_replaced:
  "prefix v (replace_str p REDACTED s) \<Longrightarrow> CHR 0x5B \<notin> set v \<Longrightarrow> prefix v s"
proof (induction p "REDACTED" s arbitrary: v rule: replace_str.induct)
  case (2 pat c cs)
  show ?case
  proof (cases "pat \<noteq> [] \<and> prefix pat (c # cs)")
    case True
    then show ?thesis using "2.prems" by (cases v) (auto simp: REDACTED_split)
  next
    case False
    then show ?thesis using "2.prems" "2.hyps"(2) by (cases v) auto
  qed
qed simp

lemma sublist_replaced:
  "sublist v (replace_str p REDACTED s) \<Longrightarrow> clear_of_marker v \<Longrightarrow> sublist v s"
proof (induction p "REDACTED" s rule: replace_str.induct)
  case (2 pat c cs)
  show ?case
  proof (cases "pat \<noteq> [] \<and> prefix pat (c # cs)")
    case True
    then have "sublist v (replace_str pat REDACTED (drop (length pat) (c # cs)))"
      using "2.prems" sublist_across_marker by simp
    then have "sublist v (drop (length pat) (c # cs))" using "2.hyps"(1) [OF True] "2.prems"(2) by simp
    then show ?thesis using sublist_drop sublist_order.order.trans by blast
  next
    case False
    then have "sublist v (c # replace_str pat REDACTED cs)"
      using "2.prems"(1) by (auto split: if_splits)
    moreover have "prefix v (c # replace_str pat REDACTED cs) \<Longrightarrow> prefix v (c # cs)"
      using prefix_replaced [of v pat "c # cs"] False "2.prems"(2) by (simp add: clear_of_marker_def)
    ultimately show ?thesis using "2.hyps"(2) [OF False] "2.prems"(2)
      by (auto simp: sublist_Cons_right)
  qed
qed simp

lemma replaced_gone: "clear_of_marker v \<Longrightarrow> \<not> sublist v (replace_str v REDACTED s)"
proof (induction v "REDACTED" s rule: replace_str.induct)
  case (1 pat)
  then show ?case by (simp add: clear_of_marker_def)
next
  case (2 pat c cs)
  have ne: "pat \<noteq> []" using "2.prems" by (simp add: clear_of_marker_def)
  show ?case
  proof (cases "prefix pat (c # cs)")
    case True
    then show ?thesis using "2.hyps"(1) "2.prems" ne sublist_across_marker by auto
  next
    case False
    have "\<not> prefix pat (c # replace_str pat REDACTED cs)"
      using prefix_replaced [of pat pat "c # cs"] False "2.prems" ne by (auto simp: clear_of_marker_def)
    then show ?thesis using "2.hyps"(2) "2.prems" False ne by (simp add: sublist_Cons_right)
  qed
qed

lemma redact_known_keeps_out:
  "\<not> sublist v s \<Longrightarrow> clear_of_marker v \<Longrightarrow> \<not> sublist v (redact_known_values s vs)"
  unfolding redact_known_values_def
  by (induction vs arbitrary: s) (auto dest: sublist_replaced)

section \<open>Properties\<close>

text \<open>C19 JSON redaction reveals exactly the public part: two documents have the same redaction if
  and only if they have the same shape and agree everywhere except under sensitive keys, so nothing
  stored under a sensitive key at any depth, not even its shape, can be read off the redacted
  document, and nothing else is lost.\<close>

theorem json_redaction_exact:
  "redact_json_value v = redact_json_value w \<longleftrightarrow> same_public v w"
  using same_public_redacted redacted_same_public by blast

text \<open>C20 After the known sensitive values are replaced in a text, none of them occurs in it any
  more, whatever the order of the values, for every value of at least four bytes that cannot
  overlap the replacement text itself.\<close>

theorem known_values_removed:
  assumes "v \<in> set vs" and "should_redact_literal v" and "clear_of_marker v"
  shows "\<not> contains_str (redact_known_values s vs) v"
proof -
  obtain as bs where vs: "vs = as @ v # bs" using assms(1) by (auto dest: split_list)
  have "redact_known_values s vs = redact_known_values (replace_str v REDACTED (redact_known_values s as)) bs"
    using assms(2) by (simp add: vs redact_known_values_def)
  then show ?thesis
    unfolding contains_str_sublist using redact_known_keeps_out [OF replaced_gone] assms(3) by simp
qed

theorem known_values_removed_witness:
  "\<not> contains_str (redact_known_values ''echo token-1 token-12'' [''token-12'', ''token-1'']) ''token-1''"
  by (rule known_values_removed)
    (auto simp: should_redact_literal_def REDACTED_def clear_of_marker_def sublist_Cons_right)

end
