(* ===== verification/Socks5.thy ===== *)
theory Socks5
  imports Engine RoutingPlugins Mock Ip
begin

text \<open>
  The SOCKS5 listener (\<open>transport/socks5.rs\<close>): the handshake over the bytes of the client, the
  tunnel policy of the mock rules, and the tunnel with its recording. A socket is the bytes still to
  be read before the end of the stream, the bytes written so far, and whether writes succeed. The
  outcome of the upstream connection, of the copy and of the shutdown signal is the argument
  \<open>tunnel_outcome\<close>; a connection that is to be intercepted is handed to the TLS layer.
\<close>

section \<open>Sockets\<close>

record socket =
  so_input :: bytes
  so_output :: bytes
  so_writable :: bool

definition read_exact :: "nat \<Rightarrow> socket \<Rightarrow> bytes option \<times> socket" where
  "read_exact n s =
     (if n \<le> length (so_input s) then (Some (take n (so_input s)), s\<lparr>so_input := drop n (so_input s)\<rparr>)
      else (None, s\<lparr>so_input := []\<rparr>))"

definition write_all :: "bytes \<Rightarrow> socket \<Rightarrow> bool \<times> socket" where
  "write_all bs s = (if so_writable s then (True, s\<lparr>so_output := so_output s @ bs\<rparr>) else (False, s))"

section \<open>The handshake\<close>

datatype socks5_error =
  Sk_Io | Sk_BadVersion byte | Sk_NoAcceptableMethod | Sk_UnsupportedCommand byte
| Sk_UnsupportedAddrType byte | Sk_InvalidAddress | Sk_ConnectFailed string | Sk_ConnectTimeout

record socks5_target =
  sk_host :: string
  sk_port :: u16

type_synonym 'a socks5_result = "(socks5_error + 'a) \<times> socket"

definition bind_sk :: "'a socks5_result \<Rightarrow> ('a \<Rightarrow> socket \<Rightarrow> 'b socks5_result) \<Rightarrow> 'b socks5_result" where
  "bind_sk r f = (case r of (Inl e, s) \<Rightarrow> (Inl e, s) | (Inr x, s) \<Rightarrow> f x s)"

definition read_sk :: "nat \<Rightarrow> socket \<Rightarrow> bytes socks5_result" where
  "read_sk n s = (case read_exact n s of (Some bs, s') \<Rightarrow> (Inr bs, s') | (None, s') \<Rightarrow> (Inl Sk_Io, s'))"

definition write_sk :: "bytes \<Rightarrow> socket \<Rightarrow> unit socks5_result" where
  "write_sk bs s = (case write_all bs s of (True, s') \<Rightarrow> (Inr (), s') | (False, s') \<Rightarrow> (Inl Sk_Io, s'))"

definition greeting :: "socket \<Rightarrow> unit socks5_result" where
  "greeting s = bind_sk (read_sk 2 s) (\<lambda>buf s.
     if buf ! 0 \<noteq> 5 then (Inl (Sk_BadVersion (buf ! 0)), s)
     else bind_sk (read_sk (unat (buf ! 1)) s) (\<lambda>methods s.
       if 0 \<notin> set methods then
         bind_sk (write_sk [0x05, 0xFF] s) (\<lambda>_ s. (Inl Sk_NoAcceptableMethod, s))
       else write_sk [0x05, 0x00] s))"

text \<open>The segments of an IPv6 address from its 16 octets.\<close>

fun segments_of :: "bytes \<Rightarrow> u16 list" where
  "segments_of (a # b # r) = (ucast a * 256 + ucast b) # segments_of r"
| "segments_of _ = []"

definition read_host :: "byte \<Rightarrow> socket \<Rightarrow> string socks5_result" where
  "read_host addr_type s =
     (if addr_type = 0x01 then
        bind_sk (read_sk 4 s) (\<lambda>ip s. (Inr (show_ip (V4 (ip ! 0) (ip ! 1) (ip ! 2) (ip ! 3))), s))
      else if addr_type = 0x03 then
        bind_sk (read_sk 1 s) (\<lambda>len s. bind_sk (read_sk (unat (len ! 0)) s) (\<lambda>name s.
          case from_utf8 name of Some h \<Rightarrow> (Inr h, s) | None \<Rightarrow> (Inl Sk_InvalidAddress, s)))
      else if addr_type = 0x04 then
        bind_sk (read_sk 16 s) (\<lambda>ip s. (Inr (show_ip (V6 (segments_of ip))), s))
      else (Inl (Sk_UnsupportedAddrType addr_type), s))"

definition u16_of_be :: "byte \<Rightarrow> byte \<Rightarrow> u16" where
  "u16_of_be hi lo = ucast hi * 256 + ucast lo"

definition connect_request :: "socket \<Rightarrow> socks5_target socks5_result" where
  "connect_request s = bind_sk (read_sk 4 s) (\<lambda>hdr s.
     if hdr ! 0 \<noteq> 5 then (Inl (Sk_BadVersion (hdr ! 0)), s)
     else if hdr ! 1 \<noteq> 0x01 then
       (Inl (Sk_UnsupportedCommand (hdr ! 1)), snd (write_all [0x05, 0x07, 0x00, 0x01, 0, 0, 0, 0, 0, 0] s))
     else bind_sk (read_host (hdr ! 3) s) (\<lambda>host s.
       bind_sk (read_sk 1 s) (\<lambda>hi s. bind_sk (read_sk 1 s) (\<lambda>lo s.
         (Inr \<lparr>sk_host = host, sk_port = u16_of_be (hi ! 0) (lo ! 0)\<rparr>, s)))))"

definition handshake :: "socket \<Rightarrow> socks5_target socks5_result" where
  "handshake s = bind_sk (greeting s) (\<lambda>_. connect_request)"

definition success_reply :: bytes where
  "success_reply = [0x05, 0x00, 0x00, 0x01, 0, 0, 0, 0, 0, 0]"

definition failure_reply :: "byte \<Rightarrow> bytes" where
  "failure_reply code = [0x05, code, 0x00, 0x01, 0, 0, 0, 0, 0, 0]"

section \<open>Target and policy\<close>

definition resolve_target :: "(string \<rightharpoonup> dns_entry) \<Rightarrow> socks5_target \<Rightarrow> socks5_target" where
  "resolve_target overrides t = t\<lparr>sk_host := (case overrides (sk_host t) of
     Some e \<Rightarrow> if de_enabled e then de_ip e else sk_host t | None \<Rightarrow> sk_host t)\<rparr>"

definition connect_addr :: "socks5_target \<Rightarrow> string" where
  "connect_addr t =
     (if parse_ipv6 (sk_host t) \<noteq> None then ''['' @ sk_host t @ '']:'' @ decimal (unat (sk_port t))
      else sk_host t @ '':'' @ decimal (unat (sk_port t)))"

definition socks5_request_context :: "socks5_target \<Rightarrow> request_context" where
  "socks5_request_context t = rq_default\<lparr>rq_method := ''CONNECT'',
     rq_uri := socks5_uri (sk_host t) (sk_port t), rq_host := sk_host t,
     rq_protocol_context := Some pc_socks5_tunnel, rq_downstream_protocol := Some (wp_label Socks5)\<rparr>"

text \<open>The rules are read once; the counter is kept on the live rules, found by id.\<close>

fun tunnel_decision_loop ::
    "regex_lib \<Rightarrow> request_context \<Rightarrow> mock_rule list \<Rightarrow> mock_rule list \<Rightarrow>
     (string \<times> tunnel_decision) option \<times> mock_rule list" where
  "tunnel_decision_loop rx ctx [] live = (None, live)"
| "tunnel_decision_loop rx ctx (rule # rules) live = (case mo_behavior rule of
     Some (MB_TunnelDecision decision) \<Rightarrow>
       if mock_matches rx rule ctx then (Some (mo_id rule, decision), bump_rule (mo_id rule) live)
       else tunnel_decision_loop rx ctx rules live
   | _ \<Rightarrow> tunnel_decision_loop rx ctx rules live)"

definition tunnel_decision_for ::
    "regex_lib \<Rightarrow> socks5_target \<Rightarrow> mock_rule list \<Rightarrow> (string \<times> tunnel_decision) option \<times> mock_rule list" where
  "tunnel_decision_for rx t rules =
     tunnel_decision_loop rx (socks5_request_context t) (filter mo_enabled rules) rules"

definition apply_tunnel_policy ::
    "('w, 'o) engine \<Rightarrow> regex_lib \<Rightarrow> socks5_target \<Rightarrow> mock_rule list \<Rightarrow> socket \<Rightarrow> 'w \<Rightarrow>
     bool \<times> socket \<times> mock_rule list \<times> 'w" where
  "apply_tunnel_policy en rx t rules s w = (case tunnel_decision_for rx t rules of
     (None, live) \<Rightarrow> (True, s, live, w)
   | (Some (rule_id, decision), live) \<Rightarrow>
       let w1 = (if td_delay_ms decision > 0 then en_pause en w else w);
           w2 = record_socks5_mock_served en (sk_host t) (sk_port t) rule_id ''tunnel_decision'' w1
       in if td_allow decision then (True, s, live, w2)
          else (False, snd (write_all (failure_reply 0x02) s), live, w2))"

section \<open>The connection\<close>

definition is_tls_port :: "u16 \<Rightarrow> bool" where
  "is_tls_port port \<longleftrightarrow> port \<in> {443, 8443, 4443}"

definition should_intercept :: "bool \<Rightarrow> bool \<Rightarrow> socks5_target \<Rightarrow> bool" where
  "should_intercept mitm_enabled has_ca t \<longleftrightarrow> mitm_enabled \<and> is_tls_port (sk_port t) \<and> has_ca"

text \<open>\<open>Stopped\<close>: the shutdown signal came first. \<open>Copied None\<close>: the copy failed.\<close>

datatype connect_outcome = Dialed "(u64 \<times> u64) option" | Refused string | Dial_Timeout

datatype tunnel_outcome = Stopped | Ran connect_outcome

definition tunnel_with_connect_timeout :: "connect_outcome \<Rightarrow> socket \<Rightarrow> (u64 \<times> u64) socks5_result" where
  "tunnel_with_connect_timeout oc s = (case oc of
     Refused e \<Rightarrow> (Inl (Sk_ConnectFailed e), snd (write_all (failure_reply 0x05) s))
   | Dial_Timeout \<Rightarrow> (Inl Sk_ConnectTimeout, snd (write_all (failure_reply 0x06) s))
   | Dialed copied \<Rightarrow> bind_sk (write_sk success_reply s) (\<lambda>_ s.
       case copied of Some n \<Rightarrow> (Inr n, s) | None \<Rightarrow> (Inl Sk_Io, s)))"

definition serve_tunnel ::
    "('w, 'o) engine \<Rightarrow> socks5_target \<Rightarrow> tunnel_outcome \<Rightarrow> socket \<Rightarrow> 'w \<Rightarrow> socket \<times> 'w" where
  "serve_tunnel en t oc s w =
     (let (session_id, w1) = record_socks5_tunnel_opened en (sk_host t) (sk_port t) w;
          (guard, w2) = (case session_id of
             Some i \<Rightarrow> terminal_guard_for_socks5_tunnel en i w1 | None \<Rightarrow> (None, w1))
      in case oc of
           Stopped \<Rightarrow> (s, guard_drop guard w2)
         | Ran co \<Rightarrow>
             (case tunnel_with_connect_timeout co s of (r, s') \<Rightarrow>
                let (up, down) = (case r of Inr n \<Rightarrow> n | Inl _ \<Rightarrow> (0, 0))
                in case session_id of
                     Some i \<Rightarrow> (s', guard_drop (map_option guard_disarm guard)
                                    (record_socks5_tunnel_closed en i up down w2))
                   | None \<Rightarrow> (s', w2)))"

datatype served = Closed | Tunnelled | Intercepted string string

record socks5_service =
  sv_mitm_enabled :: bool
  sv_has_ca :: bool
  sv_rx :: regex_lib

definition serve_connection ::
    "('w, 'o) engine \<Rightarrow> socks5_service \<Rightarrow> (string \<rightharpoonup> dns_entry) \<Rightarrow> bool \<Rightarrow> tunnel_outcome \<Rightarrow>
     mock_rule list \<Rightarrow> socket \<Rightarrow> 'w \<Rightarrow> served \<times> socket \<times> mock_rule list \<times> 'w" where
  "serve_connection en sv dns timed_out oc rules s w =
     (if timed_out then (Closed, s, rules, w)
      else case handshake s of
        (Inl _, s1) \<Rightarrow> (Closed, s1, rules, w)
      | (Inr target, s1) \<Rightarrow>
          (let t = resolve_target dns target in
           case apply_tunnel_policy en (sv_rx sv) t rules s1 w of
             (False, s2, live, w1) \<Rightarrow> (Closed, s2, live, w1)
           | (True, s2, live, w1) \<Rightarrow>
               if should_intercept (sv_mitm_enabled sv) (sv_has_ca sv) t then
                 (case write_all success_reply s2 of
                    (False, s3) \<Rightarrow> (Closed, s3, live, w1)
                  | (True, s3) \<Rightarrow>
                      (Intercepted (sk_host t) (sk_host t @ '':'' @ decimal (unat (sk_port t))), s3, live, w1))
               else (case serve_tunnel en t oc s2 w1 of (s3, w2) \<Rightarrow> (Tunnelled, s3, live, w2))))"

section \<open>What a client sends\<close>

datatype socks5_address = Addr_V4 byte byte byte byte | Addr_Name bytes | Addr_V6 bytes

fun address_ok :: "socks5_address \<Rightarrow> bool" where
  "address_ok (Addr_V4 a b c d) = True"
| "address_ok (Addr_Name name) = (length name < 256 \<and> valid_utf8 name)"
| "address_ok (Addr_V6 octets) = (length octets = 16)"

fun address_bytes :: "socks5_address \<Rightarrow> bytes" where
  "address_bytes (Addr_V4 a b c d) = [0x01, a, b, c, d]"
| "address_bytes (Addr_Name name) = [0x03, of_nat (length name)] @ name"
| "address_bytes (Addr_V6 octets) = [0x04] @ octets"

fun address_host :: "socks5_address \<Rightarrow> string" where
  "address_host (Addr_V4 a b c d) = show_ip (V4 a b c d)"
| "address_host (Addr_Name name) = string_of_bytes name"
| "address_host (Addr_V6 octets) = show_ip (V6 (segments_of octets))"

definition greeting_bytes :: "bytes \<Rightarrow> bytes" where
  "greeting_bytes methods = [5, of_nat (length methods)] @ methods"

definition request_bytes :: "byte \<Rightarrow> socks5_address \<Rightarrow> u16 \<Rightarrow> bytes" where
  "request_bytes cmd addr port = [5, cmd, 0] @ address_bytes addr @ [ucast (drop_bit 8 port), ucast port]"

section \<open>Lemmas\<close>

lemma unat_len [simp]: "n < 256 \<Longrightarrow> unat (of_nat n :: byte) = n"
  by (simp add: unat_of_nat take_bit_eq_mod)

lemma port_roundtrip [simp]: "u16_of_be (ucast (drop_bit 8 p)) (ucast p) = p"
proof -
  have lt: "unat p < 65536" using unsigned_less [of p] by simp
  have "unat (drop_bit 8 p) = unat p div 256" unfolding unat_drop_bit_eq by (simp add: drop_bit_eq_div)
  then have hi: "unat (ucast (drop_bit 8 p) :: byte) = unat p div 256"
    using lt by (simp add: unsigned_ucast_eq take_bit_eq_mod)
  have lo: "unat (ucast p :: byte) = unat p mod 256" by (simp add: unsigned_ucast_eq take_bit_eq_mod)
  have "unat (u16_of_be (ucast (drop_bit 8 p)) (ucast p)) = (unat p div 256 * 256 + unat p mod 256) mod 65536"
    using hi lo by (simp add: u16_of_be_def unat_word_ariths unsigned_ucast_eq take_bit_eq_mod mod_simps)
  also have "\<dots> = unat p" using lt by simp
  finally show ?thesis by (simp add: word_unat_eq_iff)
qed

lemma read_sk_prefix:
  "so_input s = bs @ rest \<Longrightarrow> length bs = n \<Longrightarrow> read_sk n s = (Inr bs, s\<lparr>so_input := rest\<rparr>)"
  by (simp add: read_sk_def read_exact_def)

lemma write_sk_ok: "so_writable s \<Longrightarrow> write_sk bs s = (Inr (), s\<lparr>so_output := so_output s @ bs\<rparr>)"
  by (simp add: write_sk_def write_all_def)

lemma greeting_reads:
  assumes "so_input s = greeting_bytes methods @ rest" and "length methods < 256" and "so_writable s"
  shows "greeting s = (if 0 \<in> set methods
      then (Inr (), s\<lparr>so_input := rest, so_output := so_output s @ [5, 0]\<rparr>)
      else (Inl Sk_NoAcceptableMethod, s\<lparr>so_input := rest, so_output := so_output s @ [5, 0xFF]\<rparr>))"
proof -
  have "read_sk 2 s = (Inr [5, of_nat (length methods)], s\<lparr>so_input := methods @ rest\<rparr>)"
    by (rule read_sk_prefix) (simp_all add: assms(1) greeting_bytes_def)
  moreover have "read_sk (length methods) (s\<lparr>so_input := methods @ rest\<rparr>) = (Inr methods, s\<lparr>so_input := rest\<rparr>)"
    using read_sk_prefix [of "s\<lparr>so_input := methods @ rest\<rparr>" methods rest] by simp
  ultimately show ?thesis using assms(2,3)
    by (simp add: greeting_def bind_sk_def write_sk_ok)
qed

lemma read_host_reads:
  assumes "address_ok addr" and "so_input s = tl (address_bytes addr) @ rest"
  shows "read_host (hd (address_bytes addr)) s = (Inr (address_host addr), s\<lparr>so_input := rest\<rparr>)"
proof (cases addr)
  case (Addr_V4 a b c d)
  then have "read_sk 4 s = (Inr [a, b, c, d], s\<lparr>so_input := rest\<rparr>)"
    using assms(2) by (intro read_sk_prefix) simp_all
  then show ?thesis using Addr_V4 by (simp add: read_host_def bind_sk_def)
next
  case (Addr_Name name)
  have "read_sk 1 s = (Inr [of_nat (length name)], s\<lparr>so_input := name @ rest\<rparr>)"
    using assms(2) Addr_Name by (intro read_sk_prefix) simp_all
  moreover have "read_sk (length name) (s\<lparr>so_input := name @ rest\<rparr>) = (Inr name, s\<lparr>so_input := rest\<rparr>)"
    using read_sk_prefix [of "s\<lparr>so_input := name @ rest\<rparr>" name rest] by simp
  ultimately show ?thesis using assms(1) Addr_Name
    by (simp add: read_host_def bind_sk_def from_utf8_def)
next
  case (Addr_V6 octets)
  then have "read_sk 16 s = (Inr octets, s\<lparr>so_input := rest\<rparr>)"
    using assms by (intro read_sk_prefix) simp_all
  then show ?thesis using Addr_V6 by (simp add: read_host_def bind_sk_def)
qed

lemma address_bytes_not_Nil: "address_bytes addr = hd (address_bytes addr) # tl (address_bytes addr)"
  by (cases addr) simp_all

lemma connect_request_reads:
  assumes "address_ok addr" and "so_input s = request_bytes 1 addr port @ rest"
  shows "connect_request s = (Inr \<lparr>sk_host = address_host addr, sk_port = port\<rparr>, s\<lparr>so_input := rest\<rparr>)"
proof -
  let ?tail = "[ucast (drop_bit 8 port), ucast port] @ rest"
  let ?s1 = "s\<lparr>so_input := tl (address_bytes addr) @ ?tail\<rparr>"
  have "so_input s = [5, 1, 0] @ (hd (address_bytes addr) # tl (address_bytes addr)) @ ?tail"
    using assms(2) by (simp only: address_bytes_not_Nil [symmetric] request_bytes_def append.assoc append_Cons append_Nil)
  then have "read_sk 4 s = (Inr [5, 1, 0, hd (address_bytes addr)], ?s1)"
    by (intro read_sk_prefix) simp_all
  moreover have "read_host (hd (address_bytes addr)) ?s1 = (Inr (address_host addr), s\<lparr>so_input := ?tail\<rparr>)"
    using read_host_reads [OF assms(1), of ?s1 ?tail] by simp
  moreover have "read_sk 1 (s\<lparr>so_input := ?tail\<rparr>) = (Inr [ucast (drop_bit 8 port)], s\<lparr>so_input := ucast port # rest\<rparr>)"
    using read_sk_prefix [of "s\<lparr>so_input := ?tail\<rparr>" "[ucast (drop_bit 8 port)]" "ucast port # rest"] by simp
  moreover have "read_sk 1 (s\<lparr>so_input := ucast port # rest\<rparr>) = (Inr [ucast port], s\<lparr>so_input := rest\<rparr>)"
    using read_sk_prefix [of "s\<lparr>so_input := ucast port # rest\<rparr>" "[ucast port]" rest] by simp
  ultimately show ?thesis by (simp add: connect_request_def bind_sk_def)
qed

section \<open>Properties\<close>

text \<open>C23 The SOCKS5 handshake reads back what a client sends: for a greeting that offers the
  method without authentication and a CONNECT request to an IPv4 address, a name or an IPv6
  address, it answers with the method selection alone, returns the host in text form and the port,
  and leaves every byte after the request unread.\<close>

theorem socks5_handshake_roundtrip:
  assumes "0 \<in> set methods" and "length methods < 256" and "address_ok addr"
  shows "handshake \<lparr>so_input = greeting_bytes methods @ request_bytes 1 addr port @ rest,
            so_output = out, so_writable = True\<rparr>
     = (Inr \<lparr>sk_host = address_host addr, sk_port = port\<rparr>,
        \<lparr>so_input = rest, so_output = out @ [5, 0], so_writable = True\<rparr>)"
proof -
  let ?s = "\<lparr>so_input = greeting_bytes methods @ request_bytes 1 addr port @ rest,
            so_output = out, so_writable = True\<rparr>"
  have "greeting ?s = (Inr (), ?s\<lparr>so_input := request_bytes 1 addr port @ rest, so_output := out @ [5, 0]\<rparr>)"
    using greeting_reads [of ?s methods "request_bytes 1 addr port @ rest"] assms(1,2) by simp
  then show ?thesis
    using connect_request_reads [OF assms(3), of "?s\<lparr>so_input := request_bytes 1 addr port @ rest, so_output := out @ [5, 0]\<rparr>" port rest]
    by (simp add: handshake_def bind_sk_def)
qed

theorem socks5_handshake_roundtrip_witness:
  "handshake \<lparr>so_input = greeting_bytes [2, 0] @ request_bytes 1 (Addr_V4 127 0 0 1) 8080 @ [22],
            so_output = [], so_writable = True\<rparr>
     = (Inr \<lparr>sk_host = address_host (Addr_V4 127 0 0 1), sk_port = 8080\<rparr>,
        \<lparr>so_input = [22], so_output = [] @ [5, 0], so_writable = True\<rparr>)"
  by (rule socks5_handshake_roundtrip) simp_all

text \<open>A denied tunnel is answered with code 2 and opens no tunnel session.\<close>

lemma denied_tunnel:
  assumes "handshake s = (Inr target, s1)"
    and "apply_tunnel_policy en (sv_rx sv) (resolve_target dns target) rules s1 w = (False, s2, live, w1)"
  shows "serve_connection en sv dns False oc rules s w = (Closed, s2, live, w1)"
  using assms by (simp add: serve_connection_def)

text \<open>The first enabled tunnel rule that matches decides, and only its counter moves.\<close>

lemma tunnel_decision_first:
  "tunnel_decision_loop rx ctx rules live =
     (case find (\<lambda>r. (case mo_behavior r of Some (MB_TunnelDecision _) \<Rightarrow> True | _ \<Rightarrow> False) \<and> mock_matches rx r ctx) rules of
        None \<Rightarrow> (None, live)
      | Some r \<Rightarrow> (case mo_behavior r of
           Some (MB_TunnelDecision d) \<Rightarrow> (Some (mo_id r, d), bump_rule (mo_id r) live) | _ \<Rightarrow> (None, live)))"
  by (induction rules) (auto split: option.splits mock_behavior.splits)

end
