(* ===== verification/Connect.thy ===== *)
theory Connect
  imports Engine RoutingPlugins
begin

text \<open>
  CONNECT tunnels (\<open>transport/connect.rs\<close>): the target, the stream that replays the bytes read
  ahead, the choice between interception and a plain tunnel, and what is recorded. What the network
  does is an argument: whether the upgrade came, the first chunk the client sent, and the end of the
  tunnel; \<open>Interrupted\<close> is the shutdown signal. \<open>fixed1\<close> formats a quotient with one decimal.
\<close>

section \<open>Target\<close>

record connect_target =
  ct_authority :: string
  ct_hostname :: string
  ct_address :: string

definition connect_target_resolve :: "(string \<rightharpoonup> dns_entry) \<Rightarrow> string option \<Rightarrow> connect_target" where
  "connect_target_resolve overrides auth_opt =
     (let authority = (case auth_opt of Some a \<Rightarrow> a | None \<Rightarrow> []);
          raw_address = (if CHR '':'' \<in> set authority then authority else authority @ '':443'');
          (hostname, port) = (case split_once (CHR '':'') raw_address of
             Some (h, p) \<Rightarrow> (h, p) | None \<Rightarrow> (raw_address, ''443''))
      in \<lparr>ct_authority = authority, ct_hostname = hostname,
          ct_address = (case overrides hostname of
             Some e \<Rightarrow> if de_enabled e then de_ip e @ '':'' @ port else raw_address | None \<Rightarrow> raw_address)\<rparr>)"

definition connect_request_context :: "connect_target \<Rightarrow> string \<Rightarrow> request_context" where
  "connect_request_context t scheme = rq_default\<lparr>rq_method := ''CONNECT'',
     rq_uri := scheme @ ''://'' @ ct_authority t, rq_host := ct_authority t\<rparr>"

section \<open>The replaying stream\<close>

record prefixed_io =
  px_prefix :: bytes
  px_pos :: nat
  px_inner :: bytes

definition prefixed_new :: "bytes \<Rightarrow> bytes \<Rightarrow> prefixed_io" where
  "prefixed_new pre inner = \<lparr>px_prefix = pre, px_pos = 0, px_inner = inner\<rparr>"

text \<open>One read into a buffer of \<open>n\<close> bytes; the inner stream delivers at most \<open>k\<close> of them.\<close>

definition poll_read :: "nat \<Rightarrow> nat \<Rightarrow> prefixed_io \<Rightarrow> bytes \<times> prefixed_io" where
  "poll_read n k io =
     (if px_pos io < length (px_prefix io) then
        let m = min (length (px_prefix io) - px_pos io) n
        in (take m (drop (px_pos io) (px_prefix io)), io\<lparr>px_pos := px_pos io + m\<rparr>)
      else let m = min n k in (take m (px_inner io), io\<lparr>px_inner := drop m (px_inner io)\<rparr>))"

fun read_all :: "(nat \<times> nat) list \<Rightarrow> prefixed_io \<Rightarrow> bytes \<times> prefixed_io" where
  "read_all [] io = ([], io)"
| "read_all ((n, k) # ns) io =
     (case poll_read n k io of (bs, io1) \<Rightarrow> case read_all ns io1 of (cs, io2) \<Rightarrow> (bs @ cs, io2))"

definition px_rest :: "prefixed_io \<Rightarrow> bytes" where
  "px_rest io = drop (px_pos io) (px_prefix io) @ px_inner io"

section \<open>The tunnel\<close>

definition TLS_HANDSHAKE_RECORD :: byte where
  "TLS_HANDSHAKE_RECORD = 0x16"

datatype tunnel_end = Connected u64 u64 | Unreachable string | Timed_Out | Interrupted

datatype connect_end =
  Upgrade_Failed | Client_Silent | Handed_To_Mitm string string prefixed_io | Tunnel_Closed | Tunnel_Dropped

definition fmt_bytes :: "(nat \<Rightarrow> nat \<Rightarrow> string) \<Rightarrow> u64 \<Rightarrow> string" where
  "fmt_bytes fixed1 n =
     (if n < 1024 then decimal (unat n) @ ''B''
      else if n < 1048576 then fixed1 (unat n) 1024 @ ''KB''
      else fixed1 (unat n) 1048576 @ ''MB'')"

definition up_arrow :: string where
  "up_arrow = [CHR 0xE2, CHR 0x86, CHR 0x91]"

definition down_arrow :: string where
  "down_arrow = [CHR 0xE2, CHR 0x86, CHR 0x93]"

definition outcome_fields :: "(nat \<Rightarrow> nat \<Rightarrow> string) \<Rightarrow> tunnel_end \<Rightarrow> u16 \<times> string \<times> u64 \<times> u64" where
  "outcome_fields fixed1 oc = (case oc of
     Connected up down \<Rightarrow>
       (200, up_arrow @ fmt_bytes fixed1 up @ '' '' @ down_arrow @ fmt_bytes fixed1 down, up, down)
   | Unreachable e \<Rightarrow> (502, ''upstream unreachable: '' @ e, 0, 0)
   | _ \<Rightarrow> (504, ''upstream connect timed out'', 0, 0))"

definition record_tunnel_outcome ::
    "(nat \<Rightarrow> nat \<Rightarrow> string) \<Rightarrow> 'w session_world \<Rightarrow> string \<Rightarrow> connect_target \<Rightarrow> nat \<Rightarrow> tunnel_end \<Rightarrow> 'w \<Rightarrow> 'w" where
  "record_tunnel_outcome fixed1 sw i t started_at oc w = (case outcome_fields fixed1 oc of
     (status, body, up, down) \<Rightarrow>
       sw_emit sw [WO_RecordResponseWithMetrics i
         (rs_default\<lparr>rs_status := status, rs_body := bytes_of_string body,
            rs_request_uri := ''https://'' @ ct_authority t, rs_session_id := Some i\<rparr>)
         (im_default\<lparr>im_latency_ms := elapsed_ms started_at (sw_instant sw w),
            im_request_size_bytes := unat up, im_response_size_bytes := unat down,
            im_status_code := status\<rparr>)] w)"

definition run_tunnel ::
    "(nat \<Rightarrow> nat \<Rightarrow> string) \<Rightarrow> 'w session_world \<Rightarrow> string \<Rightarrow> connect_target \<Rightarrow> nat \<Rightarrow> tunnel_end \<Rightarrow> 'w \<Rightarrow>
     connect_end \<times> 'w" where
  "run_tunnel fixed1 sw i t started_at oc w =
     (if oc = Interrupted then (Tunnel_Dropped, w)
      else (Tunnel_Closed, record_tunnel_outcome fixed1 sw i t started_at oc w))"

definition handle_connect ::
    "(nat \<Rightarrow> nat \<Rightarrow> string) \<Rightarrow> 'w session_world \<Rightarrow> bool \<Rightarrow> bool \<Rightarrow> (string \<rightharpoonup> dns_entry) \<Rightarrow> string option \<Rightarrow>
     bool \<Rightarrow> bytes option \<Rightarrow> bytes \<Rightarrow> tunnel_end \<Rightarrow> 'w \<Rightarrow> connect_end \<times> 'w" where
  "handle_connect fixed1 sw mitm_enabled has_ca dns auth_opt upgraded peeked later oc w =
     (let t = connect_target_resolve dns auth_opt;
          is_mitm = mitm_enabled \<and> has_ca;
          (i, w1) = sw_uuid sw w;
          w2 = (if is_mitm then w1
                else sw_emit sw [WO_RecordRequest i (connect_request_context t ''https'') Proxy] w1);
          start = sw_instant sw w2
      in if \<not> upgraded then (Upgrade_Failed, w2)
         else if \<not> is_mitm then run_tunnel fixed1 sw i t start oc w2
         else case peeked of
                None \<Rightarrow> (Client_Silent, w2)
              | Some peek \<Rightarrow>
                  if hd peek = TLS_HANDSHAKE_RECORD
                  then (Handed_To_Mitm (ct_hostname t) (ct_authority t) (prefixed_new peek later), w2)
                  else run_tunnel fixed1 sw i t start oc
                         (sw_emit sw [WO_RecordRequest i (connect_request_context t ''http'') Proxy] w2))"

section \<open>Lemmas\<close>

lemma poll_read_rest: "poll_read n k io = (bs, io') \<Longrightarrow> px_rest io = bs @ px_rest io'"
proof -
  assume r: "poll_read n k io = (bs, io')"
  show ?thesis
  proof (cases "px_pos io < length (px_prefix io)")
    case True
    let ?m = "min (length (px_prefix io) - px_pos io) n"
    have "drop (px_pos io) (px_prefix io) = take ?m (drop (px_pos io) (px_prefix io)) @ drop (px_pos io + ?m) (px_prefix io)"
      by (metis add.commute append_take_drop_id drop_drop)
    then show ?thesis using r True by (auto simp: poll_read_def px_rest_def Let_def)
  next
    case False
    then show ?thesis using r by (auto simp: poll_read_def px_rest_def Let_def)
  qed
qed

lemma read_all_rest: "read_all ns io = (bs, io') \<Longrightarrow> px_rest io = bs @ px_rest io'"
proof (induction ns io arbitrary: bs io' rule: read_all.induct)
  case (2 n k ns io)
  obtain b1 io1 where r1: "poll_read n k io = (b1, io1)" by fastforce
  obtain b2 io2 where r2: "read_all ns io1 = (b2, io2)" by fastforce
  show ?case using "2.IH" [OF r1 [symmetric] r2] poll_read_rest [OF r1] "2.prems" r1 r2 by simp
qed simp

text \<open>A bracketed IPv6 authority is cut at its first colon.\<close>

lemma ipv6_authority_cut:
  "ct_hostname (connect_target_resolve overrides (Some ''[::1]:443'')) = ''[''"
  by (simp add: connect_target_resolve_def Let_def split: option.split)

text \<open>A tunnel that the shutdown interrupts is recorded without a response.\<close>

lemma interrupted_unanswered:
  "handle_connect fixed1 sw False has_ca dns a True peeked later Interrupted w =
     (case sw_uuid sw w of (i, w1) \<Rightarrow> (Tunnel_Dropped,
        sw_emit sw [WO_RecordRequest i (connect_request_context (connect_target_resolve dns a) ''https'') Proxy] w1))"
  by (simp add: handle_connect_def run_tunnel_def Let_def split: prod.split)

section \<open>Properties\<close>

text \<open>Reading ahead to detect TLS loses nothing: whatever the sizes of the buffers and of the
  reads below, the stream handed on delivers the bytes read ahead and then the rest of the
  connection, in order, each byte once.\<close>

theorem prefixed_io_replays:
  "case read_all ns (prefixed_new peek later) of (bs, io) \<Rightarrow> bs @ px_rest io = peek @ later"
  using read_all_rest [of ns "prefixed_new peek later"]
  by (auto simp: px_rest_def prefixed_new_def split: prod.split)

end
