(* ===== verification/Lifecycle.thy ===== *)
theory Lifecycle
  imports Main "HOL-Library.Multiset"
begin

text \<open>
  The connections and tracked tasks of the listeners (\<open>transport/lifecycle.rs\<close>). The counter of
  tracked tasks is an atomic number and a watch channel that carries the last number sent. An
  increment or decrement is two steps, first on the counter and then on the channel, and the steps
  of different threads interleave: \<open>pending\<close> is the multiset of numbers read from the counter
  and not sent yet. The connection limiter is a semaphore of permits.
\<close>

section \<open>Tracked tasks\<close>

record tracked_tasks =
  tt_active :: nat
  tt_channel :: nat
  tt_starting :: "nat multiset"
  tt_running :: nat
  tt_finishing :: "nat multiset"

definition tracked_new :: tracked_tasks where
  "tracked_new = \<lparr>tt_active = 0, tt_channel = 0, tt_starting = {#}, tt_running = 0, tt_finishing = {#}\<rparr>"

definition fetch_add :: "tracked_tasks \<Rightarrow> tracked_tasks" where
  "fetch_add s = s\<lparr>tt_active := tt_active s + 1, tt_starting := add_mset (tt_active s + 1) (tt_starting s)\<rparr>"

definition send_started :: "nat \<Rightarrow> tracked_tasks \<Rightarrow> tracked_tasks" where
  "send_started n s = s\<lparr>tt_channel := n, tt_starting := tt_starting s - {#n#}, tt_running := tt_running s + 1\<rparr>"

definition fetch_sub :: "tracked_tasks \<Rightarrow> tracked_tasks" where
  "fetch_sub s = s\<lparr>tt_active := tt_active s - 1, tt_running := tt_running s - 1,
     tt_finishing := add_mset (tt_active s - 1) (tt_finishing s)\<rparr>"

definition send_finished :: "nat \<Rightarrow> tracked_tasks \<Rightarrow> tracked_tasks" where
  "send_finished n s = s\<lparr>tt_channel := n, tt_finishing := tt_finishing s - {#n#}\<rparr>"

text \<open>\<open>increment\<close> is \<open>Add\<close> then \<open>Started\<close>, before the task runs; \<open>decrement\<close>, in the
  destructor of the guard of a running task, is \<open>Sub\<close> then \<open>Finished\<close>.\<close>

inductive task_step :: "tracked_tasks \<Rightarrow> tracked_tasks \<Rightarrow> bool" where
  Add: "task_step s (fetch_add s)"
| Started: "n \<in># tt_starting s \<Longrightarrow> task_step s (send_started n s)"
| Sub: "0 < tt_running s \<Longrightarrow> task_step s (fetch_sub s)"
| Finished: "n \<in># tt_finishing s \<Longrightarrow> task_step s (send_finished n s)"

inductive_cases task_stepE: "task_step s s'"

abbreviation task_reachable :: "tracked_tasks \<Rightarrow> bool" where
  "task_reachable s \<equiv> task_step\<^sup>*\<^sup>* tracked_new s"

text \<open>No task runs and no thread is inside \<open>increment\<close> or \<open>decrement\<close>.\<close>

definition quiescent :: "tracked_tasks \<Rightarrow> bool" where
  "quiescent s \<longleftrightarrow> tt_starting s = {#} \<and> tt_running s = 0 \<and> tt_finishing s = {#}"

text \<open>\<open>wait_for_tracked_tasks\<close> returns once the channel shows zero.\<close>

definition waiter_returns :: "tracked_tasks \<Rightarrow> bool" where
  "waiter_returns s \<longleftrightarrow> tt_channel s = 0"

section \<open>The counter is exact, the channel is not\<close>

lemma counter_invariant:
  "task_reachable s \<Longrightarrow> tt_active s = size (tt_starting s) + tt_running s"
proof (induction rule: rtranclp_induct)
  case (step s s')
  from step(2) step(3) show ?case
    by (cases rule: task_step.cases)
      (auto simp: fetch_add_def send_started_def fetch_sub_def send_finished_def size_Diff_singleton
        nonempty_has_size [symmetric] dest: multi_member_split)
qed (simp add: tracked_new_def)

text \<open>While the steps of one thread are not interleaved with those of another, the channel shows
  the counter.\<close>

inductive alone :: "tracked_tasks \<Rightarrow> bool" where
  alone_new: "alone tracked_new"
| alone_increment: "alone s \<Longrightarrow> alone (send_started (tt_active (fetch_add s)) (fetch_add s))"
| alone_decrement: "alone s \<Longrightarrow> 0 < tt_running s \<Longrightarrow> alone (send_finished (tt_active (fetch_sub s)) (fetch_sub s))"

lemma alone_channel:
  "alone s \<Longrightarrow> tt_channel s = tt_active s \<and> tt_starting s = {#} \<and> tt_finishing s = {#} \<and> tt_active s = tt_running s"
  by (induction rule: alone.induct)
    (auto simp: tracked_new_def fetch_add_def send_started_def fetch_sub_def send_finished_def)

section \<open>Connection permits\<close>

record limiter =
  lm_available :: nat
  lm_held :: nat

definition limiter_new :: "nat \<Rightarrow> limiter" where
  "limiter_new max_connections = \<lparr>lm_available = max_connections, lm_held = 0\<rparr>"

definition try_acquire_connection :: "limiter \<Rightarrow> bool \<times> limiter" where
  "try_acquire_connection l =
     (if 0 < lm_available l then (True, l\<lparr>lm_available := lm_available l - 1, lm_held := lm_held l + 1\<rparr>)
      else (False, l))"

text \<open>The permit is dropped at the end of the connection task of \<open>spawn_connection\<close>.\<close>

definition connection_finished :: "limiter \<Rightarrow> limiter" where
  "connection_finished l = l\<lparr>lm_available := lm_available l + 1, lm_held := lm_held l - 1\<rparr>"

inductive limiter_step :: "limiter \<Rightarrow> limiter \<Rightarrow> bool" where
  acquire: "try_acquire_connection l = (True, l') \<Longrightarrow> limiter_step l l'"
| release: "0 < lm_held l \<Longrightarrow> limiter_step l (connection_finished l)"

definition permits_to_wait :: "nat \<Rightarrow> nat" where
  "permits_to_wait max_connections = (if max_connections < 2 ^ 32 then max_connections else 2 ^ 32 - 1)"

text \<open>\<open>drain_runtime\<close> is past the listeners and the limiter, and at the tracked tasks.\<close>

definition drained :: "nat \<Rightarrow> limiter \<Rightarrow> tracked_tasks \<Rightarrow> bool" where
  "drained max_connections l s \<longleftrightarrow> permits_to_wait max_connections \<le> lm_available l \<and> waiter_returns s"

lemma permits_invariant:
  "limiter_step\<^sup>*\<^sup>* (limiter_new m) l \<Longrightarrow> lm_available l + lm_held l = m"
  by (induction rule: rtranclp_induct)
    (auto simp: limiter_new_def try_acquire_connection_def connection_finished_def elim!: limiter_step.cases
      split: if_splits)

text \<open>With fewer than \<open>2\<^sup>3\<^sup>2\<close> permits the drain is past the limiter exactly when no connection is
  left.\<close>

lemma drained_no_connection:
  "limiter_step\<^sup>*\<^sup>* (limiter_new m) l \<Longrightarrow> m < 2 ^ 32 \<Longrightarrow> permits_to_wait m \<le> lm_available l \<longleftrightarrow> lm_held l = 0"
  using permits_invariant [of m l] by (auto simp: permits_to_wait_def)

section \<open>Two tasks ending together\<close>

lemma stale_channel:
  "task_reachable \<lparr>tt_active = 0, tt_channel = 1, tt_starting = {#}, tt_running = 0, tt_finishing = {#}\<rparr>"
proof -
  let ?s = "\<lambda>a c st r f. \<lparr>tt_active = a, tt_channel = c, tt_starting = st, tt_running = r, tt_finishing = f\<rparr>"
  have 1: "task_step tracked_new (?s 1 0 {#1#} 0 {#})"
    using task_step.Add [of tracked_new] by (simp add: tracked_new_def fetch_add_def)
  have 2: "task_step (?s 1 0 {#1#} 0 {#}) (?s 1 1 {#} 1 {#})"
    using task_step.Started [of 1 "?s 1 0 {#1#} 0 {#}"] by (simp add: send_started_def)
  have 3: "task_step (?s 1 1 {#} 1 {#}) (?s 2 1 {#2#} 1 {#})"
    using task_step.Add [of "?s 1 1 {#} 1 {#}"] by (simp add: fetch_add_def numeral_2_eq_2)
  have 4: "task_step (?s 2 1 {#2#} 1 {#}) (?s 2 2 {#} 2 {#})"
    using task_step.Started [of 2 "?s 2 1 {#2#} 1 {#}"] by (simp add: send_started_def numeral_2_eq_2)
  have 5: "task_step (?s 2 2 {#} 2 {#}) (?s 1 2 {#} 1 {#1#})"
    using task_step.Sub [of "?s 2 2 {#} 2 {#}"] by (simp add: fetch_sub_def)
  have 6: "task_step (?s 1 2 {#} 1 {#1#}) (?s 0 2 {#} 0 {#0, 1#})"
    using task_step.Sub [of "?s 1 2 {#} 1 {#1#}"] by (simp add: fetch_sub_def)
  have 7: "task_step (?s 0 2 {#} 0 {#0, 1#}) (?s 0 0 {#} 0 {#1#})"
    using task_step.Finished [of 0 "?s 0 2 {#} 0 {#0, 1#}"] by (simp add: send_finished_def)
  have 8: "task_step (?s 0 0 {#} 0 {#1#}) (?s 0 1 {#} 0 {#})"
    using task_step.Finished [of 1 "?s 0 0 {#} 0 {#1#}"] by (simp add: send_finished_def)
  show ?thesis using 1 2 3 4 5 6 7 8 by (meson rtranclp.rtrancl_into_rtrancl rtranclp.rtrancl_refl)
qed

section \<open>Properties\<close>

text \<open>The graceful drain can wait for nothing until its grace period is over: although the counter of tracked tasks is exact, a run is
  possible after which no task is left, no thread is inside the counter, the counter is zero and
  every connection permit is back, but the waiter still sees one task, because two decrements that
  overlap may send their numbers in the opposite order.\<close>

theorem drain_waiter_can_hang:
  "\<exists>s. task_reachable s \<and> quiescent s \<and> tt_active s = 0 \<and> \<not> drained m (limiter_new m) s"
  using stale_channel
  by (intro exI [of _ "\<lparr>tt_active = 0, tt_channel = 1, tt_starting = {#}, tt_running = 0, tt_finishing = {#}\<rparr>"])
    (simp add: quiescent_def waiter_returns_def drained_def)

end
