(* ===== verification/Lua.thy ===== *)
theory Lua
  imports Chain
begin

text \<open>
  The scripting plugin (\<open>middleware/plugins/lua_engine.rs\<close>). The interpreter is the parameter
  \<open>lua_vm\<close>: it takes the code of a script and the globals injected into a fresh sandbox, and gives
  the globals it left, or \<open>None\<close> when the sandbox, the injection or the script failed or the script
  ran out of time. \<open>hash\<close> enumerates a \<open>HashMap\<close> of headers. A task that does not join is the
  argument \<open>joined\<close>.
\<close>

record lua_script =
  ls_id :: string
  ls_name :: string
  ls_code :: string
  ls_enabled :: bool

text \<open>What is left of the injected table: a field is \<open>None\<close> when it does not have its type, the
  pairs of the header table are those of strings.\<close>

record lua_table =
  lt_status :: "u16 option"
  lt_body :: "string option"
  lt_headers :: "(string \<times> string) list option"

record lua_globals =
  lg_table :: "lua_table option"
  lg_abort_status :: "u16 option"
  lg_abort_body :: "string option"

record lua_vm =
  lv_request :: "string \<Rightarrow> string \<Rightarrow> string \<Rightarrow> string \<Rightarrow> (string \<rightharpoonup> string) \<Rightarrow> lua_globals option"
  lv_response :: "string \<Rightarrow> u16 \<Rightarrow> string \<Rightarrow> (string \<rightharpoonup> string) \<Rightarrow> lua_globals option"

section \<open>Running scripts\<close>

definition check_abort :: "lua_globals \<Rightarrow> (u16 \<times> string) option" where
  "check_abort g = (case (lg_abort_status g, lg_abort_body g) of (Some s, Some b) \<Rightarrow> Some (s, b) | _ \<Rightarrow> None)"

definition insert_headers :: "(string \<times> string) list \<Rightarrow> (string \<rightharpoonup> string) \<Rightarrow> (string \<rightharpoonup> string)" where
  "insert_headers kvs h = foldl (\<lambda>m (k, v). m(k \<mapsto> v)) h kvs"

definition extract_request :: "lua_globals \<Rightarrow> string \<times> (string \<rightharpoonup> string) \<Rightarrow> string \<times> (string \<rightharpoonup> string)" where
  "extract_request g st = (case (st, lg_table g) of
     ((body, headers), None) \<Rightarrow> (body, headers)
   | ((body, headers), Some t) \<Rightarrow>
       ((case lt_body t of Some b \<Rightarrow> b | None \<Rightarrow> body),
        (case lt_headers t of Some kvs \<Rightarrow> insert_headers kvs headers | None \<Rightarrow> headers)))"

definition extract_response ::
    "lua_globals \<Rightarrow> u16 \<times> string \<times> (string \<rightharpoonup> string) \<Rightarrow> u16 \<times> string \<times> (string \<rightharpoonup> string)" where
  "extract_response g st = (case (st, lg_table g) of
     ((status, body, headers), None) \<Rightarrow> (status, body, headers)
   | ((status, body, headers), Some t) \<Rightarrow>
       ((case lt_status t of Some s \<Rightarrow> s | None \<Rightarrow> status),
        (case lt_body t of Some b \<Rightarrow> b | None \<Rightarrow> body),
        (case lt_headers t of Some kvs \<Rightarrow> insert_headers kvs headers | None \<Rightarrow> headers)))"

record request_script_outcome =
  so_body :: string
  so_headers :: "string \<rightharpoonup> string"
  so_abort :: "(u16 \<times> string) option"

fun run_request_scripts ::
    "lua_vm \<Rightarrow> lua_script list \<Rightarrow> string \<Rightarrow> string \<Rightarrow> string \<Rightarrow> (string \<rightharpoonup> string) \<Rightarrow> request_script_outcome" where
  "run_request_scripts vm [] m u body headers = \<lparr>so_body = body, so_headers = headers, so_abort = None\<rparr>"
| "run_request_scripts vm (s # ss) m u body headers =
     (case lv_request vm (ls_code s) m u body headers of
        None \<Rightarrow> run_request_scripts vm ss m u body headers
      | Some g \<Rightarrow>
          (case check_abort g of
             Some a \<Rightarrow> \<lparr>so_body = body, so_headers = headers, so_abort = Some a\<rparr>
           | None \<Rightarrow> (case extract_request g (body, headers) of
               (body', headers') \<Rightarrow> run_request_scripts vm ss m u body' headers')))"

fun run_response_scripts ::
    "lua_vm \<Rightarrow> lua_script list \<Rightarrow> u16 \<Rightarrow> string \<Rightarrow> (string \<rightharpoonup> string) \<Rightarrow> u16 \<times> string \<times> (string \<rightharpoonup> string)" where
  "run_response_scripts vm [] status body headers = (status, body, headers)"
| "run_response_scripts vm (s # ss) status body headers =
     (case lv_response vm (ls_code s) status body headers of
        None \<Rightarrow> run_response_scripts vm ss status body headers
      | Some g \<Rightarrow> (case extract_response g (status, body, headers) of
          (status', body', headers') \<Rightarrow> run_response_scripts vm ss status' body' headers'))"

section \<open>The plugin\<close>

definition abort_response :: "u16 \<Rightarrow> string \<Rightarrow> intercepted_response" where
  "abort_response status body = \<lparr>ir_status = (if 100 \<le> status \<and> status < 1000 then status else 403),
     ir_headers = snd (hm_insert hm_new ''content-type'' ''text/plain''),
     ir_body = bytes_of_string body, ir_tags = [], ir_served_mock = None\<rparr>"

definition lua_on_request ::
    "lua_vm \<Rightarrow> ((string \<rightharpoonup> string) \<Rightarrow> (string \<times> string) list) \<Rightarrow> bool \<Rightarrow> lua_script list \<Rightarrow> request_context \<Rightarrow>
     middleware_action \<times> request_context" where
  "lua_on_request vm hash joined all_scripts ctx =
     (let scripts = filter ls_enabled all_scripts
      in if scripts = [] \<or> \<not> joined then (Continue, ctx)
         else let r = run_request_scripts vm scripts (rq_method ctx) (rq_uri ctx) (rq_body_text ctx)
                        (hm_to_hash (rq_headers ctx))
              in case so_abort r of
                   Some (status, body) \<Rightarrow>
                     (StopAndReturn, ctx\<lparr>rq_mock_response := Some (abort_response status body)\<rparr>)
                 | None \<Rightarrow>
                     (Continue, (rq_set_body_text ctx (so_body r))\<lparr>rq_headers := hm_of_hash hash (so_headers r)\<rparr>))"

definition lua_on_response ::
    "lua_vm \<Rightarrow> ((string \<rightharpoonup> string) \<Rightarrow> (string \<times> string) list) \<Rightarrow> bool \<Rightarrow> lua_script list \<Rightarrow> response_context \<Rightarrow>
     middleware_action \<times> response_context" where
  "lua_on_response vm hash joined all_scripts ctx =
     (let scripts = filter ls_enabled all_scripts
      in if scripts = [] \<or> \<not> joined then (Continue, ctx)
         else (case run_response_scripts vm scripts (rs_status ctx) (rs_body_text ctx) (hm_to_hash (rs_headers ctx)) of
                 (status, body, headers) \<Rightarrow>
                   (Continue, (rs_set_body_text (ctx\<lparr>rs_status := status\<rparr>) body)
                      \<lparr>rs_headers := hm_of_hash hash headers\<rparr>)))"

definition lua_middleware ::
    "lua_vm \<Rightarrow> ((string \<rightharpoonup> string) \<Rightarrow> (string \<times> string) list) \<Rightarrow> ('w \<Rightarrow> bool) \<Rightarrow> ('w \<Rightarrow> lua_script list) \<Rightarrow>
     ('w, 'o) middleware" where
  "lua_middleware vm hash joined scripts = (default_middleware ''LuaEngineMiddleware'')\<lparr>
     mwr_on_request := \<lambda>w c. case lua_on_request vm hash (joined w) (scripts w) c of (a, c') \<Rightarrow> (a, w, c'),
     mwr_on_response := \<lambda>w c. case lua_on_response vm hash (joined w) (scripts w) c of (a, c') \<Rightarrow> (a, w, c')\<rparr>"

section \<open>The limit on \<open>string.rep\<close>\<close>

text \<open>The size is computed in \<open>usize\<close>; the first product wraps.\<close>

definition saturating_mul :: "u64 \<Rightarrow> u64 \<Rightarrow> u64" where
  "saturating_mul a b = (if unat a * unat b < 2 ^ 64 then a * b else - 1)"

definition rep_size :: "u64 \<Rightarrow> u64 \<Rightarrow> u64 \<Rightarrow> u64" where
  "rep_size s_len n sep_len = s_len * n + saturating_mul sep_len (if n = 0 then 0 else n - 1)"

definition rep_allowed :: "u64 \<Rightarrow> u64 \<Rightarrow> u64 \<Rightarrow> bool" where
  "rep_allowed s_len n sep_len \<longleftrightarrow> rep_size s_len n sep_len \<le> 1048576"

section \<open>Lemmas\<close>

lemma lua_clean: "clean_plugin (lua_middleware vm hash joined scripts)"
  by (rule clean_pluginI)
    (auto simp: lua_middleware_def lua_on_request_def lua_on_response_def request_clean_def response_clean_def
      hm_of_hash_def rq_set_body_text_def rs_set_body_text_def Let_def split: prod.split option.split)

text \<open>A script that fails is as if it were not there.\<close>

lemma failing_request_script:
  "(\<And>m u b h. lv_request vm (ls_code s) m u b h = None) \<Longrightarrow>
   run_request_scripts vm (xs @ s # ys) m u b h = run_request_scripts vm (xs @ ys) m u b h"
  by (induction vm xs m u b h rule: run_request_scripts.induct) (auto split: option.split prod.split)

lemma failing_response_script:
  "(\<And>st b h. lv_response vm (ls_code s) st b h = None) \<Longrightarrow>
   run_response_scripts vm (xs @ s # ys) st b h = run_response_scripts vm (xs @ ys) st b h"
  by (induction vm xs st b h rule: run_response_scripts.induct) (auto split: option.split prod.split)

text \<open>The first script that aborts decides, with what the scripts before it left.\<close>

lemma aborting_script:
  "so_abort (run_request_scripts vm xs m u b h) = None \<Longrightarrow>
   (\<And>b h. lv_request vm (ls_code s) m u b h = Some g) \<Longrightarrow> check_abort g = Some a \<Longrightarrow>
   so_abort (run_request_scripts vm (xs @ s # ys) m u b h) = Some a"
  by (induction vm xs m u b h rule: run_request_scripts.induct) (auto split: option.splits prod.splits)

section \<open>Properties\<close>

text \<open>Script errors are contained: enabled scripts that all fail leave the request to continue,
  but even then the message is rewritten, as with scripts that change nothing: the body is the lossy
  text of the old one, so it survives exactly when it is valid UTF-8.\<close>

theorem lua_failing_scripts:
  assumes "\<And>s st b h. s \<in> set scripts \<Longrightarrow> lv_response vm (ls_code s) st b h = None"
    and "\<exists>s \<in> set scripts. ls_enabled s"
  shows "fst (lua_on_response vm hash True scripts c) = Continue
    \<and> rs_status (snd (lua_on_response vm hash True scripts c)) = rs_status c
    \<and> (rs_body (snd (lua_on_response vm hash True scripts c)) = rs_body c \<longleftrightarrow> valid_utf8 (rs_body c))"
proof -
  have run: "run_response_scripts vm ss st b h = (st, b, h)" if "set ss \<subseteq> set scripts" for ss st b h
    using that assms(1) by (induction ss) auto
  have "filter ls_enabled scripts \<noteq> []" using assms(2) by (auto simp: filter_empty_conv)
  moreover have "bytes_of_string (from_utf8_lossy bs) = bs \<longleftrightarrow> valid_utf8 bs" for bs
    unfolding from_utf8_lossy_def using lossy_valid [of bs] valid_lossy [of bs] by auto
  ultimately show ?thesis
    by (auto simp: lua_on_response_def run Let_def rs_set_body_text_def rs_body_text_def)
qed

definition broken_vm :: lua_vm where
  "broken_vm = \<lparr>lv_request = (\<lambda>_ _ _ _ _. None), lv_response = (\<lambda>_ _ _ _. None)\<rparr>"

theorem lua_failing_scripts_witness:
  "fst (lua_on_response broken_vm (\<lambda>_. []) True [\<lparr>ls_id = ''a'', ls_name = ''a'', ls_code = ''?'', ls_enabled = True\<rparr>]
       (rs_default\<lparr>rs_body := [255]\<rparr>)) = Continue
    \<and> rs_status (snd (lua_on_response broken_vm (\<lambda>_. []) True [\<lparr>ls_id = ''a'', ls_name = ''a'', ls_code = ''?'', ls_enabled = True\<rparr>]
       (rs_default\<lparr>rs_body := [255]\<rparr>))) = rs_status (rs_default\<lparr>rs_body := [255]\<rparr>)
    \<and> (rs_body (snd (lua_on_response broken_vm (\<lambda>_. []) True [\<lparr>ls_id = ''a'', ls_name = ''a'', ls_code = ''?'', ls_enabled = True\<rparr>]
       (rs_default\<lparr>rs_body := [255]\<rparr>))) = rs_body (rs_default\<lparr>rs_body := [255]\<rparr>)
       \<longleftrightarrow> valid_utf8 (rs_body (rs_default\<lparr>rs_body := [255]\<rparr>)))"
  by (rule lua_failing_scripts) (simp_all add: broken_vm_def)

text \<open>The memory limit on repeated strings does not hold: repeating two bytes
  \<open>2\<^sup>6\<^sup>3\<close> times passes the check, because the size wraps to zero.\<close>

theorem rep_limit_wraps:
  "rep_allowed 2 (2 ^ 63) 0 \<and> unat (2 :: u64) * unat (2 ^ 63 :: u64) > 1048576"
  by (simp add: rep_allowed_def rep_size_def saturating_mul_def)

end
