(* ===== verification/Runtime.thy ===== *)
theory Runtime
  imports RoutingPlugins Rules Breakpoints Grpc Engine MapLocal Mock Lua
begin

text \<open>
  The assembly of the proxy (\<open>runtime/state.rs\<close>): the plugin chain in the order in which the
  runtime registers it, over one shared state that holds every plugin's rules. A stream observer is
  that of the gRPC inspector or of the inspection plugin.
\<close>

datatype runtime_observer = Obs_Grpc grpc_observer | Obs_Inspection inspection_observer

definition with_observer :: "('o \<Rightarrow> 'p) \<Rightarrow> ('w, 'o) middleware \<Rightarrow> ('w, 'p) middleware" where
  "with_observer f m = \<lparr>mwr_name = mwr_name m, mwr_on_request = mwr_on_request m,
     mwr_on_response = mwr_on_response m, mwr_body_hint = mwr_body_hint m,
     mwr_stream_observer = (\<lambda>c. map_option f (mwr_stream_observer m c))\<rparr>"

text \<open>The shared state of the plugins, as the handles cloned into them, and the libraries.\<close>

record 'w runtime =
  rt_rx :: regex_lib
  rt_lower :: "string \<Rightarrow> string"
  rt_hash :: "(string \<rightharpoonup> string) \<Rightarrow> (string \<times> string) list"
  rt_sleep :: "u64 \<Rightarrow> 'w \<Rightarrow> 'w"
  rt_access_rules :: "'w \<Rightarrow> access_rule list"
  rt_capture_filter :: "'w \<Rightarrow> capture_filter_config"
  rt_dns :: "'w \<Rightarrow> (string \<rightharpoonup> dns_entry)"
  rt_map_remote_rules :: "'w \<Rightarrow> map_remote_rule list"
  rt_throttling :: "'w \<Rightarrow> throttling_config"
  rt_rule_sets :: "'w \<Rightarrow> rewrite_rule_set list"
  rt_breakpoints :: "'w bp_world"
  rt_jwt :: jwt_lib
  rt_gql :: gql_lib
  rt_sessions :: "'w session_world"
  rt_max_body_bytes :: nat
  rt_files :: "'w \<Rightarrow> files"
  rt_map_local_dirs :: map_local_dirs
  rt_map_local_rules :: "'w \<Rightarrow> map_local_rule list"
  rt_mock :: mock_params
  rt_mock_rules :: "'w \<Rightarrow> mock_rule list"
  rt_set_mock_rules :: "mock_rule list \<Rightarrow> 'w \<Rightarrow> 'w"
  rt_lua :: lua_vm
  rt_lua_joined :: "'w \<Rightarrow> bool"
  rt_lua_scripts :: "'w \<Rightarrow> lua_script list"

definition DEFAULT_MAX_RETAINED_BODY_BYTES :: nat where
  "DEFAULT_MAX_RETAINED_BODY_BYTES = 10 * 1024 * 1024"

definition build_request_chain :: "'w runtime \<Rightarrow> ('w, runtime_observer) chain" where
  "build_request_chain rt = foldl add_middleware chain_new
     [access_middleware (rt_rx rt) (rt_access_rules rt),
      capture_middleware (rt_lower rt) (rt_capture_filter rt),
      dns_middleware (rt_dns rt),
      map_remote_middleware (rt_rx rt) (rt_map_remote_rules rt),
      throttling_middleware (rt_sleep rt) (rt_throttling rt),
      rewrite_middleware (rt_rx rt) (rt_rule_sets rt),
      breakpoint_middleware (rt_rx rt) (rt_breakpoints rt),
      jwt_middleware (rt_jwt rt) (rt_sessions rt),
      graphql_middleware (rt_gql rt),
      with_observer Obs_Grpc grpc_middleware,
      with_observer Obs_Inspection
        (inspection_middleware (rt_sessions rt) ''InspectionMiddleware'' (rt_max_body_bytes rt))]"

definition add_short_circuit_middlewares ::
    "'w runtime \<Rightarrow> ('w, runtime_observer) chain \<Rightarrow> ('w, runtime_observer) chain" where
  "add_short_circuit_middlewares rt chain = foldl add_middleware chain
     [map_local_middleware (rt_rx rt) (rt_files rt) (rt_map_local_dirs rt) (rt_map_local_rules rt),
      mock_middleware (rt_mock rt) (rt_mock_rules rt) (rt_set_mock_rules rt) (rt_sleep rt),
      lua_middleware (rt_lua rt) (rt_hash rt) (rt_lua_joined rt) (rt_lua_scripts rt),
      with_observer Obs_Inspection
        (inspection_middleware (rt_sessions rt) ''InspectionMiddleware:response-pass''
           DEFAULT_MAX_RETAINED_BODY_BYTES)]"

definition runtime_chain :: "'w runtime \<Rightarrow> ('w, runtime_observer) chain" where
  "runtime_chain rt = add_short_circuit_middlewares rt (build_request_chain rt)"

section \<open>Plugins of the chain\<close>

lemma with_observer_simps [simp]:
  "mwr_name (with_observer f m) = mwr_name m"
  "mwr_on_request (with_observer f m) = mwr_on_request m"
  "mwr_on_response (with_observer f m) = mwr_on_response m"
  "mwr_body_hint (with_observer f m) = mwr_body_hint m"
  by (simp_all add: with_observer_def)

lemma with_observer_clean: "clean_plugin m \<Longrightarrow> clean_plugin (with_observer f m)"
  by (simp add: clean_plugin_def)

lemma foldl_add: "foldl add_middleware ms ns = ms @ ns"
  by (induction ns arbitrary: ms) (simp_all add: add_middleware_def)

lemma runtime_chain_eq:
  "runtime_chain rt =
     [access_middleware (rt_rx rt) (rt_access_rules rt),
      capture_middleware (rt_lower rt) (rt_capture_filter rt),
      dns_middleware (rt_dns rt),
      map_remote_middleware (rt_rx rt) (rt_map_remote_rules rt),
      throttling_middleware (rt_sleep rt) (rt_throttling rt),
      rewrite_middleware (rt_rx rt) (rt_rule_sets rt),
      breakpoint_middleware (rt_rx rt) (rt_breakpoints rt),
      jwt_middleware (rt_jwt rt) (rt_sessions rt),
      graphql_middleware (rt_gql rt),
      with_observer Obs_Grpc grpc_middleware,
      with_observer Obs_Inspection
        (inspection_middleware (rt_sessions rt) ''InspectionMiddleware'' (rt_max_body_bytes rt)),
      map_local_middleware (rt_rx rt) (rt_files rt) (rt_map_local_dirs rt) (rt_map_local_rules rt),
      mock_middleware (rt_mock rt) (rt_mock_rules rt) (rt_set_mock_rules rt) (rt_sleep rt),
      lua_middleware (rt_lua rt) (rt_hash rt) (rt_lua_joined rt) (rt_lua_scripts rt),
      with_observer Obs_Inspection
        (inspection_middleware (rt_sessions rt) ''InspectionMiddleware:response-pass''
           DEFAULT_MAX_RETAINED_BODY_BYTES)]"
  unfolding runtime_chain_def add_short_circuit_middlewares_def build_request_chain_def foldl_add chain_new_def
  by simp

lemma grpc_clean: "clean_plugin grpc_middleware"
  by (rule clean_pluginI)
    (auto simp: grpc_middleware_def grpc_on_request_def request_clean_def Let_def split: prod.split)

section \<open>Breakpoints in the chain\<close>

text \<open>The contexts that an edit may put in place of a paused one.\<close>

fun clean_context :: "bp_context \<Rightarrow> bool" where
  "clean_context (BC_Request c) = request_clean c"
| "clean_context (BC_Response r) = response_clean r"

fun clean_outcome :: "wait_outcome \<Rightarrow> bool" where
  "clean_outcome (Resolved (BR_Modify bc)) = clean_context bc"
| "clean_outcome _ = True"

text \<open>Those that the resolve endpoint reads from its wire form are.\<close>

lemma wire_context_clean: "clean_context (context_of_wire iter b64_decode w)"
  by (cases w) (simp_all add: context_of_wire_def request_clean_def response_clean_def rq_of_wire_def
      rs_of_wire_def hm_of_hash_def rq_default_def rs_default_def flow_bounded_def Let_def)

definition clean_waits :: "'w bp_world \<Rightarrow> bool" where
  "clean_waits bw \<longleftrightarrow> (\<forall>i w. clean_outcome (fst (bw_await bw i w)))"

lemma bp_pause_clean:
  "request_clean c \<Longrightarrow> request_clean (fst (snd (bp_request_pause rule sid i m c)))"
  by (simp add: bp_request_pause_def Let_def rq_take_flow_def request_clean_def flow_bounded_def)

lemma bp_resume_clean:
  assumes "clean_outcome oc" and "request_clean c"
  shows "request_clean (fst (snd (snd (bp_request_resume rule sid i oc m c))))"
proof (cases oc)
  case (Resolved r)
  then show ?thesis using assms by (cases r) (auto simp: bp_request_resume_def split: bp_context.split)
next
  case TimedOut
  then show ?thesis using assms by (simp add: bp_request_resume_def request_clean_def)
qed (use assms in \<open>simp_all add: bp_request_resume_def\<close>)

lemma bp_response_resume_clean:
  assumes "clean_outcome oc" and "response_clean c"
  shows "response_clean (fst (snd (snd (bp_response_resume i oc m c))))"
proof (cases oc)
  case (Resolved r)
  then show ?thesis using assms by (cases r) (auto simp: bp_response_resume_def Let_def split: bp_context.split)
qed (use assms in \<open>simp_all add: bp_response_resume_def Let_def\<close>)

lemma breakpoint_clean:
  assumes "clean_waits bw"
  shows "clean_plugin (breakpoint_middleware rx bw)"
proof (rule clean_pluginI)
  have waits: "bw_await bw i w = (oc, w') \<Longrightarrow> clean_outcome oc" for i w oc w'
    using assms by (metis clean_waits_def fst_conv)
  fix w c
  show "request_clean (snd (snd (mwr_on_request (breakpoint_middleware rx bw) w c)))" if "request_clean c"
    using that
    by (auto simp: breakpoint_middleware_def bp_on_request_def Let_def split: prod.split option.split
        dest: waits)
      (metis bp_pause_clean bp_resume_clean fst_conv snd_conv waits)+
  fix r
  show "response_clean (snd (snd (mwr_on_response (breakpoint_middleware rx bw) w r)))" if "response_clean r"
    using that
    by (auto simp: breakpoint_middleware_def bp_on_response_def Let_def split: prod.split option.split)
      (metis bp_response_resume_clean fst_conv snd_conv waits)+
qed

lemma runtime_plugins_clean:
  assumes "clean_waits (rt_breakpoints rt)"
  shows "\<forall>m \<in> set (runtime_chain rt). clean_plugin m"
  unfolding runtime_chain_eq
  by (auto intro: access_clean capture_clean dns_clean map_remote_clean throttling_clean rewrite_clean
      breakpoint_clean [OF assms] jwt_clean graphql_clean grpc_clean inspection_clean map_local_clean
      mock_clean lua_clean with_observer_clean)

section \<open>A runtime without rules\<close>

definition idle_sessions :: "unit session_world" where
  "idle_sessions = \<lparr>sw_emit = (\<lambda>_ w. w), sw_session = (\<lambda>_ _. None), sw_wait = (\<lambda>w. w),
     sw_uuid = (\<lambda>w. (''id'', w)), sw_now = (\<lambda>_. 0), sw_instant = (\<lambda>_. 0)\<rparr>"

definition idle_runtime :: "unit runtime" where
  "idle_runtime = \<lparr>rt_rx = literal_regex, rt_lower = id, rt_hash = (\<lambda>_. []), rt_sleep = (\<lambda>_ w. w),
     rt_access_rules = (\<lambda>_. []), rt_capture_filter = (\<lambda>_. \<lparr>cf_mode = Disabled, cf_hosts = []\<rparr>),
     rt_dns = (\<lambda>_. Map.empty), rt_map_remote_rules = (\<lambda>_. []),
     rt_throttling = (\<lambda>_. \<lparr>tc_latency_ms = 0, tc_bandwidth_limit_kbps = 0, tc_enabled = False\<rparr>),
     rt_rule_sets = (\<lambda>_. []),
     rt_breakpoints = \<lparr>bw_manager = (\<lambda>_. bm_new), bw_set_manager = (\<lambda>_ w. w), bw_emit = (\<lambda>_ w. w),
        bw_uuid = (\<lambda>w. (''id'', w)), bw_clock = (\<lambda>_ _. 0), bw_await = (\<lambda>_ w. (TimedOut, w))\<rparr>,
     rt_jwt = \<lparr>jl_lower = id, jl_b64_decode = (\<lambda>_. None), jl_json = (\<lambda>_. None)\<rparr>,
     rt_gql = \<lparr>gl_lower = id, gl_json = (\<lambda>_. None), gl_parse = (\<lambda>_. None)\<rparr>,
     rt_sessions = idle_sessions, rt_max_body_bytes = 1024,
     rt_files = (\<lambda>_. \<lparr>fl_exists = (\<lambda>_. False), fl_is_dir = (\<lambda>_. False), fl_is_file = (\<lambda>_. False),
        fl_canonicalize = (\<lambda>_. Inl ''none''), fl_read = (\<lambda>_. None)\<rparr>),
     rt_map_local_dirs = \<lparr>md_base_path = None, md_fixtures_dir = None\<rparr>, rt_map_local_rules = (\<lambda>_. []),
     rt_mock = \<lparr>mp_rx = literal_regex, mp_hash = (\<lambda>_. []), mp_b64_decode = (\<lambda>_. None), mp_env = (\<lambda>_ r. r)\<rparr>,
     rt_mock_rules = (\<lambda>_. []), rt_set_mock_rules = (\<lambda>_ w. w),
     rt_lua = broken_vm, rt_lua_joined = (\<lambda>_. True), rt_lua_scripts = (\<lambda>_. [])\<rparr>"

section \<open>Properties\<close>



text \<open>The configuration that ships never streams a body through the plugins: the rewrite, the
  breakpoint and further plugins of the chain ask for the full body, so every exchange of every
  protocol is planned as buffered and no stream observer is ever created for it, and the plan says so
  for frame streams and tunnels.\<close>

theorem runtime_plan_buffered:
  "chain_capability_plan (runtime_chain rt) head p =
     \<lparr>cp_execution = Exec_Buffered, cp_forward_class = Buffered, cp_diagnostic = full_body_diagnostic (pc_body_mode p)\<rparr>"
proof -
  have "FullBody \<in> set (map (\<lambda>m. mwr_body_hint m head) (runtime_chain rt))"
    unfolding runtime_chain_eq by (simp add: rewrite_middleware_def)
  then show ?thesis by (simp add: chain_capability_plan_def plan_execution_eq)
qed

text \<open>Access control comes before everything else: a request that it denies reaches no other
  plugin, so it is neither recorded, paused, mocked nor scripted, and the shared state is left as it
  was; the plugins behind it run in the order of the source.\<close>

theorem runtime_access_first:
  "(case access_on_request (rt_rx rt) (rt_access_rules rt w) c of
      (StopAndReturn, c') \<Rightarrow> execute_request (runtime_chain rt) w c = (StopAndReturn, w, c')
    | (Continue, c') \<Rightarrow> execute_request (runtime_chain rt) w c = execute_request (tl (runtime_chain rt)) w c')
   \<and> list_plugins (runtime_chain rt) =
     [''AccessControlMiddleware'', ''CaptureFilterMiddleware'', ''dns_override'', ''MapRemoteMiddleware'',
      ''ThrottlingMiddleware'', ''UnifiedRewriteMiddleware'', ''BreakpointMiddleware'',
      ''JwtInspectorMiddleware'', ''GraphQLInspectorMiddleware'', ''GrpcInspectorMiddleware'',
      ''InspectionMiddleware'', ''MapLocalMiddleware'', ''MockMiddleware'', ''LuaEngineMiddleware'',
      ''InspectionMiddleware:response-pass'']"
proof -
  let ?m = "access_middleware (rt_rx rt) (rt_access_rules rt) :: ('a, runtime_observer) middleware"
  have chain: "runtime_chain rt = ?m # tl (runtime_chain rt)" unfolding runtime_chain_eq by simp
  have "case access_on_request (rt_rx rt) (rt_access_rules rt w) c of
      (StopAndReturn, c') \<Rightarrow> execute_request (?m # ms) w c = (StopAndReturn, w, c')
    | (Continue, c') \<Rightarrow> execute_request (?m # ms) w c = execute_request ms w c'" for ms
    by (auto simp: access_middleware_def split: prod.split middleware_action.split)
  then show ?thesis
    by (subst (1 2) chain) (simp add: list_plugins_def runtime_chain_eq access_middleware_def
        capture_middleware_def dns_middleware_def map_remote_middleware_def throttling_middleware_def
        rewrite_middleware_def breakpoint_middleware_def jwt_middleware_def graphql_middleware_def
        grpc_middleware_def map_local_middleware_def mock_middleware_def lua_middleware_def streaming_plugin_def)
qed

end
