(* ===== verification/Auth.thy ===== *)
theory Auth
  imports Redaction Security
begin

text \<open>
  Access to the admin interface (\<open>control_plane/auth.rs\<close>, \<open>control_plane/login.rs\<close>): the layer that
  tells admin requests from proxied ones, the layer that checks the token and the origin, and the
  login form.

  \<open>tag\<close> is the keyed hash that \<open>token_matches\<close> compares, \<open>lan\<close> what \<open>public_lan_ip_for_setup\<close>
  finds, \<open>url_parse\<close> the URL parser and \<open>value_ok\<close> says which strings may be header values. A header
  whose bytes are not text has the value \<open>None\<close>.
\<close>

record admin_config =
  ac_admin_token :: "string option"
  ac_bind_host :: string
  ac_allow_remote_admin :: bool
  ac_port :: u16

record admin_request =
  aq_method :: string
  aq_uri :: uri
  aq_headers :: "(string \<times> string option) list"
  aq_peer :: "ip_addr option"

text \<open>A request goes on to the routes, with the cookie the response will set, or is answered: status,
  headers and body.\<close>

datatype admin_outcome = To_Routes "string option" | Answer u16 "(string \<times> string) list" string

datatype dispatched = To_Engine | Admin admin_outcome

section \<open>Parts of a request\<close>

definition uri_path :: "uri \<Rightarrow> string" where
  "uri_path u = (case uri_path_and_query u of
     None \<Rightarrow> []
   | Some pq \<Rightarrow> let p = takeWhile (\<lambda>c. c \<noteq> CHR ''?'') pq in if p = [] then ''/'' else p)"

definition uri_query :: "uri \<Rightarrow> string option" where
  "uri_query u = Option.bind (uri_path_and_query u) (\<lambda>pq. map_option snd (split_once (CHR ''?'') pq))"

definition header_str :: "string \<Rightarrow> admin_request \<Rightarrow> string option" where
  "header_str name req = Option.bind (map_of (aq_headers req) name) id"

section \<open>Hosts and authorities\<close>

definition single_port :: "string \<Rightarrow> string \<Rightarrow> bool" where
  "single_port host port \<longleftrightarrow> count_list host (CHR '':'') = 1 \<and> list_all is_ascii_digit port"

definition host_without_port :: "string \<Rightarrow> string" where
  "host_without_port host_header =
     (let host = trim_str host_header
      in case strip_prefix host ''['' of
           Some rest \<Rightarrow> hd (split_char (CHR '']'') rest)
         | None \<Rightarrow> (case rsplit_once (CHR '':'') host of
             Some (h, port) \<Rightarrow> if single_port host port then h else host
           | None \<Rightarrow> host))"

definition authority_port :: "string \<Rightarrow> u16 option" where
  "authority_port authority0 =
     (let authority = trim_str authority0
      in case strip_prefix authority ''['' of
           Some rest \<Rightarrow>
             Option.bind (split_once (CHR '']'') rest)
               (\<lambda>(_, suffix). Option.bind (strip_prefix suffix '':'') parse_u16)
         | None \<Rightarrow> (case rsplit_once (CHR '':'') authority of
             Some (_, port) \<Rightarrow> if single_port authority port then parse_u16 port else None
           | None \<Rightarrow> None))"

definition normalized_authority :: "string \<Rightarrow> string \<times> u16 option" where
  "normalized_authority a = (to_ascii_lowercase (host_without_port a), authority_port a)"

definition same_authority :: "string \<Rightarrow> string \<Rightarrow> bool" where
  "same_authority left right \<longleftrightarrow> normalized_authority left = normalized_authority right"

definition local_hosts :: "string list" where
  "local_hosts = [''localhost'', ''127.0.0.1'', ''::1'', ''0.0.0.0'']"

definition is_loopback_peer :: "ip_addr option \<Rightarrow> bool" where
  "is_loopback_peer peer = (case peer of Some ip \<Rightarrow> is_loopback ip | None \<Rightarrow> False)"

definition is_management_host ::
    "string option \<Rightarrow> string \<Rightarrow> string \<Rightarrow> bool \<Rightarrow> bool \<Rightarrow> ip_addr option \<Rightarrow> u16 \<Rightarrow> bool" where
  "is_management_host lan host_header bind_host0 allow_remote_admin token_configured peer proxy_port =
     (let host = to_ascii_lowercase (host_without_port host_header);
          host_port = authority_port host_header
      in if host \<in> set local_hosts
         then if (case host_port of Some p \<Rightarrow> p | None \<Rightarrow> 80) \<noteq> proxy_port then False
              else if is_loopback_peer peer then True
              else allow_remote_admin \<and> token_configured
         else if \<not> allow_remote_admin \<or> \<not> token_configured then False
         else let bind_host = to_ascii_lowercase (trim_str bind_host0)
              in if bind_host \<notin> {''0.0.0.0'', ''::'', ''[::]''}
                 then host = to_ascii_lowercase (host_without_port bind_host)
                 else if host = ''0.0.0.0'' then True
                 else (case lan of Some lan_host \<Rightarrow> host = to_ascii_lowercase lan_host | None \<Rightarrow> False))"

section \<open>Tokens\<close>

definition configured_admin_token :: "admin_config \<Rightarrow> string option" where
  "configured_admin_token cfg = (case map_option trim_str (ac_admin_token cfg) of
     Some t \<Rightarrow> if t \<noteq> [] then Some t else None | None \<Rightarrow> None)"

definition token_matches :: "(string \<Rightarrow> bytes) \<Rightarrow> string \<Rightarrow> string \<Rightarrow> bool" where
  "token_matches tag candidate expected \<longleftrightarrow>
     foldl (\<lambda>diff (a, b). Bit_Operations.or diff (Bit_Operations.xor a b)) 0 (zip (tag candidate) (tag expected)) = 0"

definition opt_holds :: "('a \<Rightarrow> bool) \<Rightarrow> 'a option \<Rightarrow> bool" where
  "opt_holds P x = (case x of Some v \<Rightarrow> P v | None \<Rightarrow> False)"

definition request_has_header_admin_token :: "(string \<Rightarrow> bytes) \<Rightarrow> admin_request \<Rightarrow> string \<Rightarrow> bool" where
  "request_has_header_admin_token tag req expected \<longleftrightarrow>
     opt_holds (\<lambda>t. token_matches tag (trim_str t) expected) (header_str ''x-oproxy-admin-token'' req)
     \<or> opt_holds (\<lambda>t. token_matches tag (trim_str t) expected)
         (Option.bind (header_str ''authorization'' req) (\<lambda>v. strip_prefix v ''Bearer ''))"

text \<open>The first pair with one of the two names decides.\<close>

fun find_token :: "string list \<Rightarrow> string option" where
  "find_token [] = None"
| "find_token (pair # pairs) =
     (let (key, value) = (case split_once (CHR ''='') pair of Some kv \<Rightarrow> kv | None \<Rightarrow> (pair, []))
      in if key \<in> {''token'', ''admin_token''} then Some value else find_token pairs)"

definition query_admin_token :: "string option \<Rightarrow> string option" where
  "query_admin_token query = Option.bind query (\<lambda>q. find_token (split_char (CHR ''&'') q))"

definition cookie_has_admin_token :: "(string \<Rightarrow> bytes) \<Rightarrow> string \<Rightarrow> string \<Rightarrow> bool" where
  "cookie_has_admin_token tag cookies expected =
     list_ex (\<lambda>cookie. (case split_once (CHR ''='') (trim_str cookie) of
         Some (name, value) \<Rightarrow> name = ''oproxy_admin_token'' \<and> token_matches tag (trim_str value) expected
       | None \<Rightarrow> False)) (split_char (CHR '';'') cookies)"

definition request_has_admin_token :: "(string \<Rightarrow> bytes) \<Rightarrow> admin_request \<Rightarrow> string \<Rightarrow> bool" where
  "request_has_admin_token tag req expected \<longleftrightarrow>
     request_has_header_admin_token tag req expected
     \<or> opt_holds (\<lambda>c. cookie_has_admin_token tag c expected) (header_str ''cookie'' req)
     \<or> opt_holds (\<lambda>t. token_matches tag t expected) (query_admin_token (uri_query (aq_uri req)))"

definition cookie_octet :: "char \<Rightarrow> bool" where
  "cookie_octet c = (let b = char_code c
     in b = 0x21 \<or> 0x23 \<le> b \<and> b \<le> 0x2b \<or> 0x2d \<le> b \<and> b \<le> 0x3a \<or> 0x3c \<le> b \<and> b \<le> 0x5b
        \<or> 0x5d \<le> b \<and> b \<le> 0x7e)"

definition cookie_text :: "string \<Rightarrow> string" where
  "cookie_text token = ''oproxy_admin_token='' @ token @ ''; HttpOnly; SameSite=Strict; Path=/''"

definition admin_token_cookie :: "string \<Rightarrow> string option" where
  "admin_token_cookie token = (if list_all cookie_octet token then Some (cookie_text token) else None)"

section \<open>Origins\<close>

definition is_state_changing_admin_request :: "admin_request \<Rightarrow> bool" where
  "is_state_changing_admin_request req \<longleftrightarrow> aq_method req \<notin> {''GET'', ''HEAD'', ''OPTIONS''}"

definition url_authority :: "(string \<Rightarrow> url option) \<Rightarrow> string \<Rightarrow> string option" where
  "url_authority url_parse value =
     Option.bind (url_parse value) (\<lambda>u.
       if url_scheme u \<in> {''http'', ''https''}
       then map_option (\<lambda>host. case url_port u of
              Some port \<Rightarrow> host @ '':'' @ decimal (unat port) | None \<Rightarrow> host) (url_host_str u)
       else None)"

definition request_origin_authority :: "(string \<Rightarrow> url option) \<Rightarrow> admin_request \<Rightarrow> string option" where
  "request_origin_authority url_parse req =
     (case Option.bind (header_str ''origin'' req) (url_authority url_parse) of
        Some a \<Rightarrow> Some a
      | None \<Rightarrow> Option.bind (header_str ''referer'' req) (url_authority url_parse))"

definition managed :: "string option \<Rightarrow> admin_config \<Rightarrow> admin_request \<Rightarrow> string \<Rightarrow> bool" where
  "managed lan cfg req host =
     is_management_host lan host (ac_bind_host cfg) (ac_allow_remote_admin cfg)
       (configured_admin_token cfg \<noteq> None) (aq_peer req) (ac_port cfg)"

definition csrf_origin_allowed ::
    "(string \<Rightarrow> url option) \<Rightarrow> string option \<Rightarrow> admin_config \<Rightarrow> admin_request \<Rightarrow> bool" where
  "csrf_origin_allowed url_parse lan cfg req =
     (case request_origin_authority url_parse req of
        None \<Rightarrow> True
      | Some origin \<Rightarrow> (case header_str ''host'' req of
          None \<Rightarrow> False
        | Some host \<Rightarrow> if \<not> same_authority origin host then False else managed lan cfg req host))"

section \<open>The layers\<close>

definition is_admin_host :: "string option \<Rightarrow> admin_config \<Rightarrow> admin_request \<Rightarrow> bool" where
  "is_admin_host lan cfg req = (case header_str ''host'' req of
     Some h \<Rightarrow> managed lan cfg req h
   | None \<Rightarrow> is_loopback_peer (aq_peer req))"

definition public_paths :: "string list" where
  "public_paths = [''/'', ''/login'', ''/health'', ''/robots.txt'', ''/favicon.ico'', ''/setup'', ''/setup/mobile'']"

definition is_public_path :: "string \<Rightarrow> bool" where
  "is_public_path path \<longleftrightarrow> path \<in> set public_paths \<or> starts_with path ''/assets/''
     \<or> path \<in> {''/admin/ca'', ''/admin/setup/network-info''}"

definition hex_upper :: "nat \<Rightarrow> char" where
  "hex_upper n = (if n < 10 then char_of (48 + n) else char_of (55 + n))"

definition unreserved :: "char \<Rightarrow> bool" where
  "unreserved c = (let b = char_code c
     in 48 \<le> b \<and> b \<le> 57 \<or> 65 \<le> b \<and> b \<le> 90 \<or> 97 \<le> b \<and> b \<le> 122 \<or> c \<in> set ''-_.~/'')"

definition encode_next_param :: "string \<Rightarrow> string" where
  "encode_next_param s = concat (map (\<lambda>c. if unreserved c then [c]
     else [CHR ''%'', hex_upper (char_code c div 16), hex_upper (char_code c mod 16)]) s)"

definition is_browser_navigation :: "admin_request \<Rightarrow> bool" where
  "is_browser_navigation req = opt_holds (\<lambda>accept. contains_str accept ''text/html'') (header_str ''accept'' req)"

definition token_required :: admin_outcome where
  "token_required = Answer 401 [(''www-authenticate'', ''Bearer realm='' @ [CHR 0x22] @ ''oproxy-admin'' @ [CHR 0x22])]
     ''oproxy admin token required''"

definition unauthenticated :: "admin_request \<Rightarrow> admin_outcome" where
  "unauthenticated req =
     (let path_and_query = (case uri_path_and_query (aq_uri req) of Some pq \<Rightarrow> pq | None \<Rightarrow> ''/'')
      in if is_browser_navigation req \<and> path_and_query \<noteq> ''/login''
         then Answer 302 [(''location'', ''/login?next='' @ encode_next_param path_and_query)] []
         else token_required)"

definition admin_auth_layer ::
    "(string \<Rightarrow> bytes) \<Rightarrow> (string \<Rightarrow> url option) \<Rightarrow> string option \<Rightarrow> admin_config \<Rightarrow> admin_request \<Rightarrow> admin_outcome" where
  "admin_auth_layer tag url_parse lan cfg req =
     (let is_exempt = is_public_path (uri_path (aq_uri req))
            \<or> uri_scheme (aq_uri req) \<noteq> None \<and> \<not> is_admin_host lan cfg req
      in if is_exempt then To_Routes None
         else
           let expected_token = configured_admin_token cfg;
               header_authenticated = opt_holds (request_has_header_admin_token tag req) expected_token
           in if is_state_changing_admin_request req \<and> \<not> header_authenticated
                 \<and> \<not> csrf_origin_allowed url_parse lan cfg req
              then Answer 403 [] ''oproxy admin origin check failed''
              else (case expected_token of
                None \<Rightarrow> To_Routes None
              | Some expected \<Rightarrow>
                  let set_cookie = opt_holds (\<lambda>t. token_matches tag t expected)
                        (query_admin_token (uri_query (aq_uri req)))
                  in if request_has_admin_token tag req expected
                     then To_Routes (if set_cookie then admin_token_cookie expected else None)
                     else unauthenticated req))"

definition is_public_setup_endpoint :: "admin_request \<Rightarrow> bool" where
  "is_public_setup_endpoint req =
     (if uri_scheme (aq_uri req) \<noteq> None then False
      else aq_method req = ''GET''
        \<and> uri_path (aq_uri req) \<in> {''/admin/ca'', ''/setup'', ''/setup/mobile'', ''/admin/setup/network-info''})"

definition proxy_dispatch_layer ::
    "(string \<Rightarrow> bytes) \<Rightarrow> (string \<Rightarrow> url option) \<Rightarrow> string option \<Rightarrow> admin_config \<Rightarrow> admin_request \<Rightarrow> dispatched" where
  "proxy_dispatch_layer tag url_parse lan cfg req =
     (if is_admin_host lan cfg req \<or> is_public_setup_endpoint req
      then Admin (admin_auth_layer tag url_parse lan cfg req) else To_Engine)"

text \<open>The outer layer adds headers to every response of the admin interface; an insert replaces the
  values a name has.\<close>

definition response_insert :: "string \<Rightarrow> string \<Rightarrow> (string \<times> string) list \<Rightarrow> (string \<times> string) list" where
  "response_insert k v hs = filter (\<lambda>(n, _). n \<noteq> k) hs @ [(k, v)]"

definition csp_keyword :: "string \<Rightarrow> string" where
  "csp_keyword w = [CHR 0x27] @ w @ [CHR 0x27]"

definition content_security_policy :: string where
  "content_security_policy =
     (let self = csp_keyword ''self''; inline = csp_keyword ''unsafe-inline''
      in ''default-src '' @ self @ ''; script-src '' @ self @ '' '' @ inline
         @ ''; style-src '' @ self @ '' '' @ inline @ ''; img-src '' @ self @ '' data: blob:; connect-src ''
         @ self @ ''; font-src '' @ self @ '' data:; frame-ancestors '' @ csp_keyword ''none'')"

definition security_headers :: "string \<Rightarrow> (string \<times> string) list \<Rightarrow> (string \<times> string) list" where
  "security_headers path hs0 =
     (let hs1 = (if starts_with path ''/admin'' then response_insert ''cache-control'' ''no-store'' hs0 else hs0);
          hs2 = response_insert ''x-content-type-options'' ''nosniff'' hs1;
          hs3 = response_insert ''x-frame-options'' ''DENY'' hs2;
          hs4 = response_insert ''referrer-policy'' ''no-referrer'' hs3
      in response_insert ''content-security-policy'' content_security_policy hs4)"

section \<open>The login form\<close>

definition sanitize_next :: "string \<Rightarrow> string" where
  "sanitize_next next =
     (if starts_with next ''/'' \<and> \<not> starts_with next ''//'' \<and> \<not> starts_with next ''/login'' then next else ''/'')"

definition html_escape :: "string \<Rightarrow> string" where
  "html_escape s = concat (map (\<lambda>c.
     if c = CHR ''&'' then ''&amp;'' else if c = CHR ''<'' then ''&lt;'' else if c = CHR ''>'' then ''&gt;''
     else if c = CHR 0x22 then ''&quot;'' else if c = CHR 0x27 then ''&#x27;'' else [c]) s)"

definition login_error :: string where
  "login_error = ''<div class='' @ [CHR 0x22] @ ''error'' @ [CHR 0x22] @ ''>Invalid token ''
     @ map char_of [226, 128, 148 :: nat] @ '' please try again.</div>''"

definition get_login :: "string \<Rightarrow> (string \<rightharpoonup> string) \<Rightarrow> string" where
  "get_login template params =
     (let raw_next = (case params ''next'' of Some n \<Rightarrow> n | None \<Rightarrow> ''/'');
          error_block = (if params ''error'' \<noteq> None then login_error else [])
      in replace_str ''{{ERROR}}'' error_block
           (replace_str ''{{NEXT}}'' (html_escape (sanitize_next raw_next)) template))"

text \<open>A header value that is not allowed turns the answer into the framework's error.\<close>

datatype login_answer = See_Other "(string \<times> string) list" | Invalid_Header

definition see_other :: "(string \<Rightarrow> bool) \<Rightarrow> (string \<times> string) list \<Rightarrow> login_answer" where
  "see_other value_ok hs = (if list_all (\<lambda>(_, v). value_ok v) hs then See_Other hs else Invalid_Header)"

definition post_login ::
    "(string \<Rightarrow> bytes) \<Rightarrow> (string \<Rightarrow> bool) \<Rightarrow> admin_config \<Rightarrow> string \<Rightarrow> string option \<Rightarrow> login_answer" where
  "post_login tag value_ok cfg form_token form_next =
     (let expected = (case ac_admin_token cfg of Some t \<Rightarrow> trim_str t | None \<Rightarrow> []);
          submitted = trim_str form_token;
          next = sanitize_next (case form_next of Some n \<Rightarrow> n | None \<Rightarrow> ''/'')
      in if expected \<noteq> [] \<and> token_matches tag submitted expected
         then see_other value_ok [(''location'', next), (''set-cookie'', cookie_text submitted)]
         else see_other value_ok [(''location'', ''/login?error=1&next='' @ encode_next_param next)])"

section \<open>Comparing tokens\<close>

lemma xor_zero: "Bit_Operations.xor (a :: byte) b = 0 \<longleftrightarrow> a = b"
  by (metis xor.assoc xor.left_neutral xor_self_eq)

lemma or_xor_fold:
  "foldl (\<lambda>diff (a, b). Bit_Operations.or diff (Bit_Operations.xor a b)) d ps = 0
   \<longleftrightarrow> (d :: byte) = 0 \<and> (\<forall>(a, b) \<in> set ps. a = b)"
proof (induction ps arbitrary: d)
  case (Cons p ps)
  obtain a b where "p = (a, b)" by (cases p)
  moreover have "Bit_Operations.or d (Bit_Operations.xor a b) = 0 \<longleftrightarrow> d = 0 \<and> a = b"
    using xor_zero by (simp add: or_eq_0_iff)
  ultimately show ?case using Cons.IH by auto
qed simp

lemma token_matches_iff:
  "length (tag c) = length (tag e) \<Longrightarrow> token_matches tag c e \<longleftrightarrow> tag c = tag e"
  unfolding token_matches_def or_xor_fold
  by (auto simp: set_zip list_eq_iff_nth_eq)

lemma token_matches_same [simp]: "token_matches tag t t"
  by (simp add: token_matches_iff)

text \<open>The tokens a request presents, by the place it presents them in.\<close>

definition header_tokens :: "admin_request \<Rightarrow> string list" where
  "header_tokens req =
     map trim_str (List.map_filter id [header_str ''x-oproxy-admin-token'' req,
        Option.bind (header_str ''authorization'' req) (\<lambda>v. strip_prefix v ''Bearer '')])"

definition session_cookie :: "string \<Rightarrow> string option" where
  "session_cookie cookie = (case split_once (CHR ''='') (trim_str cookie) of
     Some (name, value) \<Rightarrow> if name = ''oproxy_admin_token'' then Some (trim_str value) else None
   | None \<Rightarrow> None)"

definition cookie_tokens :: "admin_request \<Rightarrow> string list" where
  "cookie_tokens req = (case header_str ''cookie'' req of
     None \<Rightarrow> []
   | Some cookies \<Rightarrow> List.map_filter session_cookie (split_char (CHR '';'') cookies))"

definition presented_tokens :: "admin_request \<Rightarrow> string list" where
  "presented_tokens req = header_tokens req @ cookie_tokens req
     @ (case query_admin_token (uri_query (aq_uri req)) of Some t \<Rightarrow> [t] | None \<Rightarrow> [])"

lemma header_tokens_match:
  "request_has_header_admin_token tag req e \<longleftrightarrow> (\<exists>t \<in> set (header_tokens req). token_matches tag t e)"
  by (auto simp: request_has_header_admin_token_def header_tokens_def opt_holds_def map_filter_def
      split: option.splits)

lemma presented_tokens_match:
  "request_has_admin_token tag req e \<longleftrightarrow> (\<exists>t \<in> set (presented_tokens req). token_matches tag t e)"
proof -
  have "opt_holds (\<lambda>c. cookie_has_admin_token tag c e) (header_str ''cookie'' req)
        \<longleftrightarrow> (\<exists>t \<in> set (cookie_tokens req). token_matches tag t e)"
  proof (cases "header_str ''cookie'' req")
    case (Some cookies)
    have one: "(case split_once (CHR ''='') (trim_str c) of
           Some (name, value) \<Rightarrow> name = ''oproxy_admin_token'' \<and> token_matches tag (trim_str value) e | None \<Rightarrow> False)
        \<longleftrightarrow> (\<exists>t. session_cookie c = Some t \<and> token_matches tag t e)" for c
      by (auto simp: session_cookie_def split: option.splits)
    have "(\<exists>t \<in> set (List.map_filter session_cookie cs). token_matches tag t e)
        \<longleftrightarrow> (\<exists>c \<in> set cs. \<exists>t. session_cookie c = Some t \<and> token_matches tag t e)" for cs
      by (fastforce simp: map_filter_def)
    then show ?thesis using Some
      by (simp add: opt_holds_def cookie_has_admin_token_def cookie_tokens_def list_ex_iff one)
  qed (simp add: opt_holds_def cookie_tokens_def)
  then show ?thesis
    by (auto simp: request_has_admin_token_def header_tokens_match presented_tokens_def opt_holds_def
        split: option.splits)
qed

lemma presented_exact:
  assumes "\<And>s. length (tag s) = 32" and "\<forall>c \<in> set ts. tag c = tag e \<longrightarrow> c = e"
  shows "(\<exists>t \<in> set ts. token_matches tag t e) \<longleftrightarrow> e \<in> set ts"
  using assms by (auto simp: token_matches_iff)

section \<open>Management hosts\<close>

lemma managed_without_token:
  "configured_admin_token cfg = None \<Longrightarrow> managed lan cfg req h \<Longrightarrow> is_loopback_peer (aq_peer req)"
  by (auto simp: managed_def is_management_host_def Let_def split: if_splits)

lemma managed_local_only:
  "\<not> ac_allow_remote_admin cfg \<Longrightarrow> managed lan cfg req h \<longleftrightarrow>
     is_loopback_peer (aq_peer req) \<and> to_ascii_lowercase (host_without_port h) \<in> set local_hosts
     \<and> (case authority_port h of Some p \<Rightarrow> p | None \<Rightarrow> 80) = ac_port cfg"
  by (auto simp: managed_def is_management_host_def Let_def split: if_splits)

lemma admin_host_without_token:
  "configured_admin_token cfg = None \<Longrightarrow> is_admin_host lan cfg req \<Longrightarrow> is_loopback_peer (aq_peer req)"
  by (auto simp: is_admin_host_def managed_without_token split: option.splits)

lemma setup_endpoint_public: "is_public_setup_endpoint req \<Longrightarrow> is_public_path (uri_path (aq_uri req))"
  by (auto simp: is_public_setup_endpoint_def is_public_path_def public_paths_def split: if_splits)

lemma unauthenticated_answers: "unauthenticated req \<noteq> To_Routes c"
  by (simp add: unauthenticated_def token_required_def Let_def)

text \<open>What lets a request through to the routes that are not public.\<close>

definition admitted :: "(string \<Rightarrow> url option) \<Rightarrow> string option \<Rightarrow> admin_config \<Rightarrow> admin_request \<Rightarrow> bool" where
  "admitted url_parse lan cfg req \<longleftrightarrow> (case configured_admin_token cfg of
     None \<Rightarrow> is_loopback_peer (aq_peer req)
       \<and> (is_state_changing_admin_request req \<longrightarrow> csrf_origin_allowed url_parse lan cfg req)
   | Some t \<Rightarrow> t \<in> set (presented_tokens req)
       \<and> (is_state_changing_admin_request req \<longrightarrow>
            t \<in> set (header_tokens req) \<or> csrf_origin_allowed url_parse lan cfg req))"

text \<open>C25 On a path that is not public, exactly these requests reach the admin routes: the host is one
  of the admin interface, and with a configured token the request presents that token in a header, a
  cookie or its query, and without one it comes from a loopback peer; a request that changes state
  also needs the token in a header or an acceptable origin. The keyed hash is taken to tell the
  configured token from the ones presented.\<close>

theorem admin_routes_guarded:
  assumes "\<And>s. length (tag s) = 32"
    and "\<forall>e. configured_admin_token cfg = Some e \<longrightarrow> (\<forall>c \<in> set (presented_tokens req). tag c = tag e \<longrightarrow> c = e)"
    and "\<not> is_public_path (uri_path (aq_uri req))"
  shows "(\<exists>c. proxy_dispatch_layer tag url_parse lan cfg req = Admin (To_Routes c))
     \<longleftrightarrow> is_admin_host lan cfg req \<and> admitted url_parse lan cfg req"
proof -
  have no_setup: "\<not> is_public_setup_endpoint req" using assms(3) setup_endpoint_public by blast
  show ?thesis
  proof (cases "configured_admin_token cfg")
    case None
    then show ?thesis using assms(3) no_setup admin_host_without_token [OF None, of lan req]
      by (auto simp: proxy_dispatch_layer_def admin_auth_layer_def admitted_def opt_holds_def Let_def)
  next
    case (Some e)
    have all: "\<forall>c \<in> set (presented_tokens req). tag c = tag e \<longrightarrow> c = e" using assms(2) Some by blast
    have "set (header_tokens req) \<subseteq> set (presented_tokens req)" by (auto simp: presented_tokens_def)
    then have hdr: "request_has_header_admin_token tag req e \<longleftrightarrow> e \<in> set (header_tokens req)"
      using all assms(1) unfolding header_tokens_match by (subst presented_exact) auto
    have pres: "request_has_admin_token tag req e \<longleftrightarrow> e \<in> set (presented_tokens req)"
      unfolding presented_tokens_match using all assms(1) by (subst presented_exact) auto
    show ?thesis using assms(3) no_setup Some hdr pres
      by (auto simp: proxy_dispatch_layer_def admin_auth_layer_def admitted_def opt_holds_def Let_def
          unauthenticated_answers)
  qed
qed

lemma secret_trimmed: "trim_str ''secret'' = ''secret''"
  and wrong_trimmed: "trim_str ''wrong'' = ''wrong''"
  and localhost_trimmed: "trim_str ''localhost'' = ''localhost''"
  by (rule trim_str_printable; simp add: printable_def)+

theorem admin_routes_guarded_witness:
  "let tag = (\<lambda>s. replicate 32 (if s = ''secret'' then 1 else 0));
       cfg = \<lparr>ac_admin_token = Some ''secret'', ac_bind_host = ''127.0.0.1'', ac_allow_remote_admin = False, ac_port = 80\<rparr>;
       req = \<lparr>aq_method = ''POST'',
          aq_uri = \<lparr>uri_scheme = None, uri_authority = None, uri_path_and_query = Some ''/admin/dns'', uri_text = ''/admin/dns''\<rparr>,
          aq_headers = [(''host'', Some ''localhost''), (''authorization'', Some ''Bearer secret'')],
          aq_peer = Some (V4 127 0 0 1)\<rparr>
   in \<exists>c. proxy_dispatch_layer tag (\<lambda>_. None) None cfg req = Admin (To_Routes c)"
proof -
  let ?tag = "\<lambda>s. replicate 32 (if s = ''secret'' then 1 else 0 :: byte)"
  let ?cfg = "\<lparr>ac_admin_token = Some ''secret'', ac_bind_host = ''127.0.0.1'', ac_allow_remote_admin = False, ac_port = 80\<rparr>"
  let ?req = "\<lparr>aq_method = ''POST'',
          aq_uri = \<lparr>uri_scheme = None, uri_authority = None, uri_path_and_query = Some ''/admin/dns'', uri_text = ''/admin/dns''\<rparr>,
          aq_headers = [(''host'', Some ''localhost''), (''authorization'', Some ''Bearer secret'')],
          aq_peer = Some (V4 127 0 0 1)\<rparr>"
  note trims = secret_trimmed localhost_trimmed
  have "configured_admin_token ?cfg = Some ''secret''" and "presented_tokens ?req = [''secret'']"
    and "header_tokens ?req = [''secret'']" and "is_admin_host None ?cfg ?req"
    and "\<not> is_public_path (uri_path (aq_uri ?req))"
    using trims
    by (simp_all add: configured_admin_token_def presented_tokens_def header_tokens_def cookie_tokens_def
        header_str_def map_filter_def strip_prefix_def query_admin_token_def uri_query_def is_admin_host_def
        managed_def is_management_host_def host_without_port_def authority_port_def rsplit_once_def
        local_hosts_def to_ascii_lowercase_def ascii_lower_def is_loopback_peer_def uri_path_def is_public_path_def public_paths_def Let_def)
  then show ?thesis using admin_routes_guarded [of ?tag ?cfg ?req "\<lambda>_. None" None]
    by (simp add: admitted_def Let_def)
qed

section \<open>Percent encoding\<close>

definition hex_value :: "char \<Rightarrow> nat" where
  "hex_value c = (if char_code c \<le> 57 then char_code c - 48 else char_code c - 55)"

fun percent_decode :: "string \<Rightarrow> string" where
  "percent_decode (c # h # l # s) =
     (if c = CHR ''%'' then char_of (16 * hex_value h + hex_value l) # percent_decode s
      else c # percent_decode (h # l # s))"
| "percent_decode s = s"

lemma percent_decode_plain: "c \<noteq> CHR ''%'' \<Longrightarrow> percent_decode (c # s) = c # percent_decode s"
  by (cases s rule: percent_decode.cases) auto

lemma hex_value_upper: "n < 16 \<Longrightarrow> hex_value (hex_upper n) = n"
  by (auto simp: hex_value_def hex_upper_def)

lemma percent_decode_encode: "percent_decode (encode_next_param s) = s"
proof (induction s)
  case (Cons c s)
  have code: "char_code c < 256" by simp
  have "unreserved c \<Longrightarrow> c \<noteq> CHR ''%''" by (auto simp: unreserved_def)
  moreover have "16 * (char_code c div 16) + char_code c mod 16 = char_code c" by simp
  ultimately show ?case using Cons code
    by (cases "unreserved c") (auto simp: encode_next_param_def percent_decode_plain hex_value_upper
        less_mult_imp_div_less)
qed (simp add: encode_next_param_def)

section \<open>Login\<close>

lemma sanitize_next_local:
  "starts_with (sanitize_next n) ''/'' \<and> \<not> starts_with (sanitize_next n) ''//''
   \<and> \<not> starts_with (sanitize_next n) ''/login''"
  by (simp add: sanitize_next_def)



text \<open>A backslash after the first slash is kept, and browsers read it as a second slash.\<close>

lemma backslash_next_kept: "sanitize_next (''/'' @ [CHR 0x5C] @ ''evil.example'') = ''/'' @ [CHR 0x5C] @ ''evil.example''"
  by (simp add: sanitize_next_def)

text \<open>An opaque origin, as a sandboxed frame sends, does not parse as a URL, and the request then
  counts as one of a client that sends no origin.\<close>

lemma opaque_origin_allowed:
  "url_parse ''null'' = None \<Longrightarrow> header_str ''origin'' req = Some ''null'' \<Longrightarrow> header_str ''referer'' req = None \<Longrightarrow>
   csrf_origin_allowed url_parse lan cfg req"
  by (simp add: csrf_origin_allowed_def request_origin_authority_def url_authority_def)

lemma admin_responses_uncached:
  "starts_with path ''/admin'' \<Longrightarrow>
   filter (\<lambda>(n, _). n = ''cache-control'') (security_headers path hs) = [(''cache-control'', ''no-store'')]"
  by (auto simp: security_headers_def response_insert_def Let_def filter_empty_conv)

lemma html_escape_safe:
  "set (html_escape s) \<inter> {CHR ''<'', CHR ''>'', CHR 0x22, CHR 0x27} = {}"
  by (auto simp: html_escape_def split: if_splits)

end
