(* ===== verification/Storage.thy ===== *)
theory Storage
  imports Prelude
begin

text \<open>
  The files of the storage directory (\<open>storage.rs\<close>). A save writes a temporary file named after a
  counter and renames it over the target, and several saves may be under way at once, so each is a
  sequence of steps of \<open>storage_step\<close>: what a write that does not end well leaves in the temporary
  file is not known. \<open>started\<close> and \<open>finished\<close> are the saves that were asked for and the renames that
  took place, the last one first. The counter is an \<open>AtomicU64\<close>; no run makes \<open>2 ^ 64\<close> saves, and it
  is a natural number here. Serialisation is \<open>print\<close> and \<open>parse\<close>.
\<close>

definition config_files :: "string list" where
  "config_files = [''rule_sets.json'', ''throttle.json'', ''dns_overrides.json'', ''breakpoints.json'',
     ''hot_config.json'', ''capture_filter.json'', ''upstream_proxy.json'', ''lua_scripts.json'',
     ''mock_rules.json'', ''webhooks.json'', ''map_local_rules.json'', ''access_rules.json'',
     ''map_remote_rules.json'']"

record save =
  sv_file :: string
  sv_tmp :: string
  sv_contents :: string
  sv_written :: bool

record storage =
  so_files :: "string \<rightharpoonup> string"
  so_seq :: nat
  so_active :: "save list"
  so_started :: "(string \<times> string) list"
  so_finished :: "(string \<times> string) list"

definition tmp_name :: "string \<Rightarrow> nat \<Rightarrow> string" where
  "tmp_name file seq = ''.'' @ file @ ''.'' @ decimal seq @ ''.tmp''"

definition start_save :: "string \<Rightarrow> string \<Rightarrow> storage \<Rightarrow> storage" where
  "start_save file contents s = s\<lparr>so_seq := Suc (so_seq s),
     so_active := so_active s @ [\<lparr>sv_file = file, sv_tmp = tmp_name file (so_seq s),
        sv_contents = contents, sv_written = False\<rparr>],
     so_started := (file, contents) # so_started s\<rparr>"

definition drop_nth :: "nat \<Rightarrow> 'a list \<Rightarrow> 'a list" where
  "drop_nth k xs = take k xs @ drop (Suc k) xs"

definition write_part :: "nat \<Rightarrow> string \<Rightarrow> storage \<Rightarrow> storage" where
  "write_part k part s = s\<lparr>so_files := (so_files s)(sv_tmp (so_active s ! k) \<mapsto> part)\<rparr>"

definition write_done :: "nat \<Rightarrow> storage \<Rightarrow> storage" where
  "write_done k s = (let v = so_active s ! k
     in s\<lparr>so_files := (so_files s)(sv_tmp v \<mapsto> sv_contents v),
          so_active := (so_active s)[k := v\<lparr>sv_written := True\<rparr>]\<rparr>)"

definition rename_done :: "nat \<Rightarrow> storage \<Rightarrow> storage" where
  "rename_done k s = (let v = so_active s ! k
     in s\<lparr>so_files := (so_files s)(sv_file v := so_files s (sv_tmp v), sv_tmp v := None),
          so_active := drop_nth k (so_active s),
          so_finished := (sv_file v, sv_contents v) # so_finished s\<rparr>)"

definition save_failed :: "nat \<Rightarrow> storage \<Rightarrow> storage" where
  "save_failed k s = s\<lparr>so_active := drop_nth k (so_active s)\<rparr>"

definition restarted :: "storage \<Rightarrow> storage" where
  "restarted s = s\<lparr>so_active := [], so_seq := 0\<rparr>"

inductive storage_step :: "storage \<Rightarrow> storage \<Rightarrow> bool" where
  start: "file \<in> set config_files \<Longrightarrow> storage_step s (start_save file contents s)"
| part: "k < length (so_active s) \<Longrightarrow> \<not> sv_written (so_active s ! k) \<Longrightarrow> storage_step s (write_part k p s)"
| written: "k < length (so_active s) \<Longrightarrow> \<not> sv_written (so_active s ! k) \<Longrightarrow> storage_step s (write_done k s)"
| renamed: "k < length (so_active s) \<Longrightarrow> sv_written (so_active s ! k) \<Longrightarrow> storage_step s (rename_done k s)"
| failed: "k < length (so_active s) \<Longrightarrow> storage_step s (save_failed k s)"
| restart: "storage_step s (restarted s)"

inductive_cases storage_stepE: "storage_step s s'"

definition storage_of :: "(string \<rightharpoonup> string) \<Rightarrow> storage" where
  "storage_of files = \<lparr>so_files = files, so_seq = 0, so_active = [], so_started = [], so_finished = []\<rparr>"

definition load_json :: "(string \<Rightarrow> 'a option) \<Rightarrow> 'a \<Rightarrow> string \<Rightarrow> storage \<Rightarrow> 'a" where
  "load_json parse dflt file s =
     (case Option.bind (so_files s file) parse of Some v \<Rightarrow> v | None \<Rightarrow> dflt)"

definition save_json :: "('a \<Rightarrow> string) \<Rightarrow> string \<Rightarrow> 'a \<Rightarrow> storage \<Rightarrow> storage" where
  "save_json print file v s = start_save file (print v) s"

section \<open>Names of temporary files\<close>

lemma tmp_not_config: "tmp_name f n \<notin> set config_files"
  by (simp add: tmp_name_def config_files_def)

lemma decimal_no_dot: "CHR ''.'' \<notin> set (decimal n)"
  using decimal_digits [of n] by (auto simp: list_all_iff is_ascii_digit_def)

lemma tmp_name_inj: "tmp_name f n = tmp_name g m \<longleftrightarrow> f = g \<and> n = m"
proof
  assume "tmp_name f n = tmp_name g m"
  then have "f @ CHR ''.'' # decimal n = g @ CHR ''.'' # decimal m" by (simp add: tmp_name_def)
  then have "rsplit_once (CHR ''.'') (f @ CHR ''.'' # decimal n) = rsplit_once (CHR ''.'') (g @ CHR ''.'' # decimal m)"
    by simp
  then have "f = g" "decimal n = decimal m" by (simp_all add: rsplit_once_append decimal_no_dot)
  then show "f = g \<and> n = m" using digits_value_decimal [of n] digits_value_decimal [of m] by metis
qed simp

section \<open>The invariant\<close>

text \<open>A save under way has a temporary file of its own, which holds its contents once written.\<close>

definition saves_ok :: "storage \<Rightarrow> bool" where
  "saves_ok s \<longleftrightarrow> distinct (map sv_tmp (so_active s))
     \<and> (\<forall>v \<in> set (so_active s). sv_file v \<in> set config_files
          \<and> (\<exists>n < so_seq s. sv_tmp v = tmp_name (sv_file v) n)
          \<and> (sv_written v \<longrightarrow> so_files s (sv_tmp v) = Some (sv_contents v))
          \<and> (sv_file v, sv_contents v) \<in> set (so_started s))"

definition finished_state :: "(string \<rightharpoonup> string) \<Rightarrow> storage \<Rightarrow> string \<Rightarrow> string option" where
  "finished_state init s file = (case map_of (so_finished s) file of Some c \<Rightarrow> Some c | None \<Rightarrow> init file)"

definition storage_ok :: "(string \<rightharpoonup> string) \<Rightarrow> storage \<Rightarrow> bool" where
  "storage_ok init s \<longleftrightarrow> saves_ok s \<and> set (so_finished s) \<subseteq> set (so_started s)
     \<and> (\<forall>f \<in> set config_files. so_files s f = finished_state init s f)"

lemma set_drop_nth: "set (drop_nth k xs) \<subseteq> set xs"
  using set_take_subset set_drop_subset by (fastforce simp: drop_nth_def)

lemma map_drop_nth: "map f (drop_nth k xs) = drop_nth k (map f xs)"
  by (simp add: drop_nth_def take_map drop_map)

lemma distinct_drop_nth: "distinct xs \<Longrightarrow> distinct (drop_nth k xs)"
  by (simp add: drop_nth_def set_take_disj_set_drop_if_distinct)

lemma drop_nth_fresh: "distinct xs \<Longrightarrow> k < length xs \<Longrightarrow> xs ! k \<notin> set (drop_nth k xs)"
proof -
  assume d: "distinct xs" and k: "k < length xs"
  have "xs = take k xs @ xs ! k # drop (Suc k) xs" using k by (rule id_take_nth_drop)
  then have "distinct (take k xs @ xs ! k # drop (Suc k) xs)" using d by simp
  then show ?thesis by (auto simp: drop_nth_def)
qed

lemma saves_okD:
  "saves_ok s \<Longrightarrow> v \<in> set (so_active s) \<Longrightarrow>
   sv_file v \<in> set config_files \<and> (\<exists>n < so_seq s. sv_tmp v = tmp_name (sv_file v) n)
   \<and> (sv_written v \<longrightarrow> so_files s (sv_tmp v) = Some (sv_contents v)) \<and> (sv_file v, sv_contents v) \<in> set (so_started s)"
  by (auto simp: saves_ok_def)

lemma tmp_no_target: "saves_ok s \<Longrightarrow> v \<in> set (so_active s) \<Longrightarrow> sv_tmp v \<notin> set config_files"
  using saves_okD tmp_not_config by metis

lemma start_ok: "storage_ok init s \<Longrightarrow> file \<in> set config_files \<Longrightarrow> storage_ok init (start_save file c s)"
  by (auto simp: storage_ok_def saves_ok_def start_save_def finished_state_def tmp_name_inj less_Suc_eq)

lemma other_tmp:
  "saves_ok s \<Longrightarrow> k < length (so_active s) \<Longrightarrow> v \<in> set (so_active s) \<Longrightarrow> v \<noteq> so_active s ! k \<Longrightarrow>
   sv_tmp v \<noteq> sv_tmp (so_active s ! k)"
  by (metis distinct_map inj_onD nth_mem saves_ok_def)

lemma part_ok:
  assumes "storage_ok init s" and k: "k < length (so_active s)" and w: "\<not> sv_written (so_active s ! k)"
  shows "storage_ok init (write_part k p s)"
proof -
  have ok: "saves_ok s" using assms(1) by (simp add: storage_ok_def)
  have t: "sv_tmp (so_active s ! k) \<notin> set config_files" using tmp_no_target [OF ok] k by simp
  have "sv_written v \<Longrightarrow> v \<in> set (so_active s) \<Longrightarrow> sv_tmp v \<noteq> sv_tmp (so_active s ! k)" for v
    using other_tmp [OF ok k] w by blast
  then show ?thesis using assms(1) t
    by (auto simp: storage_ok_def saves_ok_def write_part_def finished_state_def)
qed

lemma written_ok:
  assumes "storage_ok init s" and k: "k < length (so_active s)"
  shows "storage_ok init (write_done k s)"
proof -
  let ?v = "so_active s ! k"
  have ok: "saves_ok s" using assms(1) by (simp add: storage_ok_def)
  have t: "sv_tmp ?v \<notin> set config_files" using tmp_no_target [OF ok] k by simp
  have tmps: "map sv_tmp ((so_active s)[k := ?v\<lparr>sv_written := True\<rparr>]) = map sv_tmp (so_active s)"
    using k by (simp add: map_update) (metis list_update_id nth_map)
  have files: "so_files (write_done k s) (sv_tmp u) = Some (sv_contents u)"
    if "u \<in> set (so_active s)" "sv_written u \<or> u = ?v" for u
    using that other_tmp [OF ok k, of u] saves_okD [OF ok, of u] by (auto simp: write_done_def Let_def)
  have members: "w = ?v\<lparr>sv_written := True\<rparr> \<or> w \<in> set (so_active s)" if "w \<in> set (so_active (write_done k s))" for w
    using that set_update_subset_insert by (fastforce simp: write_done_def Let_def)
  have rest: "so_seq (write_done k s) = so_seq s" "so_started (write_done k s) = so_started s"
    "map sv_tmp (so_active (write_done k s)) = map sv_tmp (so_active s)"
    by (simp_all add: write_done_def Let_def tmps)
  have "saves_ok (write_done k s)"
    unfolding saves_ok_def rest
  proof (intro conjI ballI)
    show "distinct (map sv_tmp (so_active s))" using ok by (simp add: saves_ok_def)
  next
    fix w assume "w \<in> set (so_active (write_done k s))"
    then obtain u where u: "u \<in> set (so_active s)" "sv_file w = sv_file u" "sv_tmp w = sv_tmp u"
      "sv_contents w = sv_contents u" "sv_written w \<Longrightarrow> sv_written u \<or> u = ?v"
      using members [of w] k by (metis nth_mem save.select_convs save.simps(5-8) save.surjective save.update_convs(4))
    note uok = saves_okD [OF ok u(1)] and fu = files [OF u(1)]
    show "sv_file w \<in> set config_files" using uok u by simp
    show "\<exists>n < so_seq s. sv_tmp w = tmp_name (sv_file w) n" using uok u by simp
    show "sv_written w \<longrightarrow> so_files (write_done k s) (sv_tmp w) = Some (sv_contents w)" using fu u by simp
    show "(sv_file w, sv_contents w) \<in> set (so_started s)" using uok u by simp
  qed
  then show ?thesis using assms(1) t
    by (auto simp: storage_ok_def write_done_def finished_state_def Let_def)
qed

lemma dropped_ok:
  "saves_ok s \<Longrightarrow> saves_ok (s\<lparr>so_active := drop_nth k (so_active s)\<rparr>)"
  using set_drop_nth [of k "so_active s"]
  by (auto simp: saves_ok_def map_drop_nth distinct_drop_nth)

lemma renamed_ok:
  assumes "storage_ok init s" and k: "k < length (so_active s)" and w: "sv_written (so_active s ! k)"
  shows "storage_ok init (rename_done k s)"
proof -
  let ?v = "so_active s ! k"
  have ok: "saves_ok s" using assms(1) by (simp add: storage_ok_def)
  note v = saves_okD [OF ok, of ?v]
  have mem: "?v \<in> set (so_active s)" using k by simp
  have t: "sv_tmp ?v \<notin> set config_files" using tmp_no_target [OF ok mem] .
  have fresh: "sv_tmp ?v \<notin> sv_tmp ` set (drop_nth k (so_active s))"
    using drop_nth_fresh [of "map sv_tmp (so_active s)" k] ok k
    by (simp add: saves_ok_def flip: map_drop_nth)
  have target: "sv_tmp u \<noteq> sv_file ?v" if "u \<in> set (so_active s)" for u
    using tmp_no_target [OF ok that] v mem by auto
  have "saves_ok (rename_done k s)"
    using dropped_ok [OF ok, of k] fresh target set_drop_nth [of k "so_active s"]
    by (auto simp: saves_ok_def rename_done_def Let_def image_iff)
  moreover have "so_files (rename_done k s) f = finished_state init (rename_done k s) f"
    if "f \<in> set config_files" for f
    using assms(1) that t v mem w
    by (auto simp: storage_ok_def rename_done_def finished_state_def Let_def)
  ultimately show ?thesis using assms(1) v mem
    by (auto simp: storage_ok_def rename_done_def Let_def)
qed

lemma failed_ok: "storage_ok init s \<Longrightarrow> storage_ok init (save_failed k s)"
  using dropped_ok [of s k] by (simp add: storage_ok_def save_failed_def finished_state_def)

lemma restarted_ok: "storage_ok init s \<Longrightarrow> storage_ok init (restarted s)"
  by (simp add: storage_ok_def saves_ok_def restarted_def finished_state_def)

lemma storage_step_ok: "storage_step s s' \<Longrightarrow> storage_ok init s \<Longrightarrow> storage_ok init s'"
  by (erule storage_stepE) (simp_all add: start_ok part_ok written_ok renamed_ok failed_ok restarted_ok)

lemma storage_reach_ok: "storage_step\<^sup>*\<^sup>* (storage_of init) s \<Longrightarrow> storage_ok init s"
proof (induction rule: rtranclp_induct)
  case base
  show ?case by (simp add: storage_ok_def saves_ok_def storage_of_def finished_state_def)
next
  case (step s s')
  then show ?case using storage_step_ok by blast
qed



text \<open>A finished save is what is read back when parsing inverts printing; a file that is missing or
  damaged reads as the default.\<close>

lemma load_saved:
  "\<lbrakk>storage_step\<^sup>*\<^sup>* (storage_of files) s; file \<in> set config_files; so_finished s = (file, print v) # rest;
    parse (print v) = Some v\<rbrakk> \<Longrightarrow> load_json parse dflt file s = v"
  using storage_reach_ok [of files s] by (simp add: storage_ok_def finished_state_def load_json_def)

lemma load_damaged: "Option.bind (so_files s file) parse = None \<Longrightarrow> load_json parse dflt file s = dflt"
  by (simp add: load_json_def)

text \<open>A save that fails leaves its temporary file behind.\<close>

lemma failed_save_leaves_file:
  "so_files (save_failed 0 (write_part 0 p (start_save f c (storage_of Map.empty)))) (tmp_name f 0) = Some p"
  by (simp add: save_failed_def write_part_def start_save_def storage_of_def)

end
