(* ===== verification/AdminTables.thy ===== *)
theory AdminTables
  imports Storage Lua RoutingPlugins Rules Mock MapLocal "HOL-Library.Multiset"
begin

text \<open>
  The rule tables behind the admin interface (\<open>control_plane/policy.rs\<close>,
  \<open>control_plane/extensions.rs\<close>, \<open>control_plane/settings.rs\<close>, \<open>control_plane/storage_paths.rs\<close>).

  A handler changes the table in memory and then hands it to the storage: its value is the reply, the
  table, and what was handed over, if anything. \<open>io\<close> is the outcome of the save, \<open>None\<close> for success.
  Identifiers of new rules are drawn outside.
\<close>

datatype 'r admin_reply =
  Rp_Ok | Rp_Created 'r | Rp_Json 'r | Rp_Not_Found | Rp_Storage_Error string | Rp_Unprocessable string

type_synonym ('r, 't) handled = "'r admin_reply \<times> 't \<times> 't option"

definition stored :: "string option \<Rightarrow> 'r admin_reply \<Rightarrow> 't \<Rightarrow> ('r, 't) handled" where
  "stored io reply t = ((case io of Some e \<Rightarrow> Rp_Storage_Error e | None \<Rightarrow> reply), t, Some t)"

section \<open>Tables of rules\<close>

text \<open>\<open>iter_mut().find\<close> and the assignment to what it found.\<close>

fun update_first :: "('r \<Rightarrow> bool) \<Rightarrow> ('r \<Rightarrow> 'r) \<Rightarrow> 'r list \<Rightarrow> 'r list option" where
  "update_first P f [] = None"
| "update_first P f (r # rs) = (if P r then Some (f r # rs) else map_option ((#) r) (update_first P f rs))"

definition create_row :: "string option \<Rightarrow> 'r \<Rightarrow> 'r list \<Rightarrow> ('r, 'r list) handled" where
  "create_row io saved rules = stored io (Rp_Created saved) (rules @ [saved])"

definition update_row :: "('r \<Rightarrow> string) \<Rightarrow> string option \<Rightarrow> string \<Rightarrow> ('r \<Rightarrow> 'r) \<Rightarrow> 'r list \<Rightarrow> ('r, 'r list) handled" where
  "update_row rid io i f rules = (case update_first (\<lambda>r. rid r = i) f rules of
     None \<Rightarrow> (Rp_Not_Found, rules, None)
   | Some rules' \<Rightarrow> stored io Rp_Ok rules')"

definition delete_row :: "('r \<Rightarrow> string) \<Rightarrow> string option \<Rightarrow> string \<Rightarrow> 'r list \<Rightarrow> ('r, 'r list) handled" where
  "delete_row rid io i rules = (let rules' = filter (\<lambda>r. rid r \<noteq> i) rules
     in if length rules' = length rules then (Rp_Not_Found, rules', None) else stored io Rp_Ok rules')"

subsection \<open>Access rules, rewrite rules, map remote rules\<close>

definition create_access_rule :: "string \<Rightarrow> string option \<Rightarrow> access_rule \<Rightarrow> access_rule list \<Rightarrow> (access_rule, access_rule list) handled" where
  "create_access_rule new_id io rule = create_row io (rule\<lparr>ar_id := new_id\<rparr>)"

definition update_access_rule :: "string option \<Rightarrow> string \<Rightarrow> access_rule \<Rightarrow> access_rule list \<Rightarrow> (access_rule, access_rule list) handled" where
  "update_access_rule io i rule = update_row ar_id io i (\<lambda>_. rule\<lparr>ar_id := i\<rparr>)"

definition delete_access_rule :: "string option \<Rightarrow> string \<Rightarrow> access_rule list \<Rightarrow> (access_rule, access_rule list) handled" where
  "delete_access_rule = delete_row ar_id"

definition create_rule_set :: "string \<Rightarrow> string option \<Rightarrow> rewrite_rule_set \<Rightarrow> rewrite_rule_set list \<Rightarrow> (rewrite_rule_set, rewrite_rule_set list) handled" where
  "create_rule_set new_id io rule = create_row io (rule\<lparr>rw_id := new_id\<rparr>)"

definition get_rule_set :: "string \<Rightarrow> rewrite_rule_set list \<Rightarrow> rewrite_rule_set admin_reply" where
  "get_rule_set i rules = (case find (\<lambda>r. rw_id r = i) rules of Some r \<Rightarrow> Rp_Json r | None \<Rightarrow> Rp_Not_Found)"

definition update_rule_set :: "string option \<Rightarrow> string \<Rightarrow> rewrite_rule_set \<Rightarrow> rewrite_rule_set list \<Rightarrow> (rewrite_rule_set, rewrite_rule_set list) handled" where
  "update_rule_set io i rule = update_row rw_id io i (\<lambda>_. rule\<lparr>rw_id := i\<rparr>)"

definition delete_rule_set :: "string option \<Rightarrow> string \<Rightarrow> rewrite_rule_set list \<Rightarrow> (rewrite_rule_set, rewrite_rule_set list) handled" where
  "delete_rule_set = delete_row rw_id"

definition as_str :: "json \<Rightarrow> string option" where
  "as_str v = (case v of JString s \<Rightarrow> Some s | _ \<Rightarrow> None)"

definition body_get :: "string \<Rightarrow> json \<Rightarrow> json option" where
  "body_get key v = (case v of JObject m \<Rightarrow> map_of m key | _ \<Rightarrow> None)"

definition reordered :: "string list \<Rightarrow> rewrite_rule_set list \<Rightarrow> rewrite_rule_set list" where
  "reordered ids rules = List.map_filter (\<lambda>i. find (\<lambda>r. rw_id r = i) rules) ids
     @ filter (\<lambda>r. rw_id r \<notin> set ids) rules"

definition reorder_rule_sets ::
    "string option \<Rightarrow> json \<Rightarrow> rewrite_rule_set list \<Rightarrow> (rewrite_rule_set list, rewrite_rule_set list) handled" where
  "reorder_rule_sets io body rules = (case body_get ''ids'' body of
     Some (JArray arr) \<Rightarrow> (let rules' = reordered (List.map_filter as_str arr) rules in stored io (Rp_Json rules') rules')
   | _ \<Rightarrow> (Rp_Unprocessable ''ids array required'', rules, None))"

definition create_map_remote_rule :: "string \<Rightarrow> string option \<Rightarrow> map_remote_rule \<Rightarrow> map_remote_rule list \<Rightarrow> (map_remote_rule, map_remote_rule list) handled" where
  "create_map_remote_rule new_id io rule = create_row io (rule\<lparr>mr_id := new_id\<rparr>)"

definition update_map_remote_rule :: "string option \<Rightarrow> string \<Rightarrow> map_remote_rule \<Rightarrow> map_remote_rule list \<Rightarrow> (map_remote_rule, map_remote_rule list) handled" where
  "update_map_remote_rule io i rule = update_row mr_id io i (\<lambda>_. rule\<lparr>mr_id := i\<rparr>)"

definition delete_map_remote_rule :: "string option \<Rightarrow> string \<Rightarrow> map_remote_rule list \<Rightarrow> (map_remote_rule, map_remote_rule list) handled" where
  "delete_map_remote_rule = delete_row mr_id"

text \<open>The probe of a destination: \<open>head\<close> is the status of the \<open>HEAD\<close> request, \<open>None\<close> when it fails, and
  then a \<open>GET\<close> request is built only to unwrap the error of building it: \<open>builds\<close> is that error.\<close>

definition test_map_remote :: "(string \<Rightarrow> u16 option) \<Rightarrow> (string \<Rightarrow> string option) \<Rightarrow> json \<Rightarrow> (string + bool \<times> u16 \<times> string) or_panic" where
  "test_map_remote head build_error body = (case Option.bind (body_get ''destination'' body) as_str of
     None \<Rightarrow> Returns (Inl ''destination is required'')
   | Some d \<Rightarrow>
       (let probe_url = trim_end_char (CHR ''/'') d @ ''/''
        in case head probe_url of
             Some status \<Rightarrow> Returns (Inr (True, status, []))
           | None \<Rightarrow> (case build_error probe_url of
               Some e \<Rightarrow> Returns (Inr (False, 0, e))
             | None \<Rightarrow> Panic)))"

subsection \<open>Mock rules and scripts\<close>

definition create_mock_rule :: "string \<Rightarrow> string option \<Rightarrow> mock_rule \<Rightarrow> mock_rule list \<Rightarrow> (mock_rule, mock_rule list) handled" where
  "create_mock_rule new_id io rule = create_row io (rule\<lparr>mo_id := new_id\<rparr>)"

definition update_mock_rule :: "string option \<Rightarrow> string \<Rightarrow> mock_rule \<Rightarrow> mock_rule list \<Rightarrow> (mock_rule, mock_rule list) handled" where
  "update_mock_rule io i updated rules =
     (case find (\<lambda>r. mo_id r = i) rules of
        None \<Rightarrow> (Rp_Not_Found, rules, None)
      | Some r \<Rightarrow>
          (let updated_rule = updated\<lparr>mo_call_count := mo_call_count r\<rparr>
           in case update_first (\<lambda>r. mo_id r = i) (\<lambda>_. updated_rule) rules of
                Some rules' \<Rightarrow> stored io (Rp_Json updated_rule) rules'
              | None \<Rightarrow> (Rp_Not_Found, rules, None)))"

definition delete_mock_rule :: "string option \<Rightarrow> string \<Rightarrow> mock_rule list \<Rightarrow> (mock_rule, mock_rule list) handled" where
  "delete_mock_rule = delete_row mo_id"

definition reset_mock_rule :: "string option \<Rightarrow> string \<Rightarrow> mock_rule list \<Rightarrow> (mock_rule, mock_rule list) handled" where
  "reset_mock_rule io i = update_row mo_id io i (\<lambda>r. r\<lparr>mo_call_count := 0\<rparr>)"

definition create_script :: "string \<Rightarrow> string option \<Rightarrow> lua_script \<Rightarrow> lua_script list \<Rightarrow> (lua_script, lua_script list) handled" where
  "create_script new_id io script = create_row io (script\<lparr>ls_id := new_id\<rparr>)"

definition update_script :: "string option \<Rightarrow> string \<Rightarrow> lua_script \<Rightarrow> lua_script list \<Rightarrow> (lua_script, lua_script list) handled" where
  "update_script io i updated = update_row ls_id io i (\<lambda>_. updated)"

definition delete_script :: "string option \<Rightarrow> string \<Rightarrow> lua_script list \<Rightarrow> (lua_script, lua_script list) handled" where
  "delete_script = delete_row ls_id"

subsection \<open>Map local rules and their fixtures\<close>

text \<open>A submitted rule comes with its inline contents, which are written to the fixture directory and
  never kept. The directory is a map from names; \<open>dir_ok\<close> and \<open>write_ok\<close> are the outcomes of creating
  it and of the write.\<close>

definition sanitize_fixture_name :: "string \<Rightarrow> string option" where
  "sanitize_fixture_name name = (let trimmed = trim_str name
     in if trimmed = [] then None
        else case path_components trimmed of
               [c] \<Rightarrow> if c \<in> {''/'', ''.'', ''..''} then None else Some c
             | _ \<Rightarrow> None)"

datatype materialize_error = Invalid_File_Name | Fixture_Storage string

definition materialize_inline_fixture ::
    "string option \<Rightarrow> string option \<Rightarrow> map_local_rule \<Rightarrow> string option \<Rightarrow> (string \<rightharpoonup> string) \<Rightarrow>
     (materialize_error + map_local_rule) \<times> (string \<rightharpoonup> string)" where
  "materialize_inline_fixture dir_err write_err rule inline fixtures = (case inline of
     None \<Rightarrow> (Inr rule, fixtures)
   | Some body \<Rightarrow> (case sanitize_fixture_name (ml_file_path rule) of
       None \<Rightarrow> (Inl Invalid_File_Name, fixtures)
     | Some safe \<Rightarrow> (case dir_err of
         Some e \<Rightarrow> (Inl (Fixture_Storage e), fixtures)
       | None \<Rightarrow> (case write_err of
           Some e \<Rightarrow> (Inl (Fixture_Storage e), fixtures)
         | None \<Rightarrow> (Inr (rule\<lparr>ml_file_path := safe\<rparr>), fixtures(safe \<mapsto> body))))))"

definition materialize_reply :: "materialize_error \<Rightarrow> 'r admin_reply" where
  "materialize_reply e = (case e of
     Invalid_File_Name \<Rightarrow> Rp_Unprocessable (''inline_body requires file_path to be a single fixture file name ''
       @ ''(no path separators or '' @ quote_path ''..'' @ '')'')
   | Fixture_Storage e \<Rightarrow> Rp_Storage_Error e)"

definition em_dash :: string where
  "em_dash = map char_of [226, 128, 148 :: nat]"

definition missing_path_hint :: "string \<Rightarrow> path option \<Rightarrow> path \<Rightarrow> string" where
  "missing_path_hint file_path base_path fixtures_dir =
     (if base_path \<noteq> None \<and> \<not> is_absolute file_path
      then ''relative paths resolve from base path '' @ quote_path (the base_path)
        @ '' or the managed fixtures dir '' @ quote_path fixtures_dir
      else if \<not> is_absolute file_path
      then ''relative paths resolve from the managed fixtures dir '' @ quote_path fixtures_dir
        @ '' '' @ em_dash @ '' upload a file first''
      else ''In containerized deployments ensure the path is mounted inside the container.'')"

definition validate_map_local_path :: "files \<Rightarrow> map_local_rule \<Rightarrow> path option \<Rightarrow> path \<Rightarrow> 'r admin_reply option" where
  "validate_map_local_path fs rule base_path fixtures_dir =
     (if trim_str (ml_file_path rule) = []
      then Some (Rp_Unprocessable (''file_path is required '' @ em_dash
             @ '' set a file/directory path, upload a file, or paste fixture content''))
      else if \<not> fl_exists fs (resolve_map_local_path fs (ml_file_path rule) base_path (Some fixtures_dir))
      then Some (Rp_Unprocessable (''file_path '' @ quote_path (ml_file_path rule)
             @ '' does not exist or is not accessible from this process. ''
             @ missing_path_hint (ml_file_path rule) base_path fixtures_dir))
      else None)"

definition submit_map_local ::
    "((string \<rightharpoonup> string) \<Rightarrow> files) \<Rightarrow> string option \<Rightarrow> string option \<Rightarrow> path option \<Rightarrow> path \<Rightarrow> map_local_rule \<Rightarrow>
     string option \<Rightarrow> (map_local_rule \<Rightarrow> (map_local_rule, map_local_rule list) handled) \<Rightarrow> map_local_rule list \<Rightarrow>
     (string \<rightharpoonup> string) \<Rightarrow> (map_local_rule, map_local_rule list) handled \<times> (string \<rightharpoonup> string)" where
  "submit_map_local fs dir_err write_err base_path fixtures_dir rule inline continue rules fixtures =
     (case materialize_inline_fixture dir_err write_err rule inline fixtures of
        (Inl e, fixtures') \<Rightarrow> ((materialize_reply e, rules, None), fixtures')
      | (Inr rule', fixtures') \<Rightarrow>
          ((case validate_map_local_path (fs fixtures') rule' base_path fixtures_dir of
              Some reply \<Rightarrow> (reply, rules, None)
            | None \<Rightarrow> continue rule'), fixtures'))"

definition create_map_local_rule ::
    "((string \<rightharpoonup> string) \<Rightarrow> files) \<Rightarrow> string option \<Rightarrow> string option \<Rightarrow> string option \<Rightarrow> path option \<Rightarrow> path \<Rightarrow> string \<Rightarrow>
     map_local_rule \<Rightarrow> string option \<Rightarrow> map_local_rule list \<Rightarrow> (string \<rightharpoonup> string) \<Rightarrow>
     (map_local_rule, map_local_rule list) handled \<times> (string \<rightharpoonup> string)" where
  "create_map_local_rule fs dir_err write_err io base_path fixtures_dir new_id rule inline rules =
     submit_map_local fs dir_err write_err base_path fixtures_dir (rule\<lparr>ml_id := new_id\<rparr>) inline
       (\<lambda>r. create_row io r rules) rules"

definition update_map_local_rule ::
    "((string \<rightharpoonup> string) \<Rightarrow> files) \<Rightarrow> string option \<Rightarrow> string option \<Rightarrow> string option \<Rightarrow> path option \<Rightarrow> path \<Rightarrow> string \<Rightarrow>
     map_local_rule \<Rightarrow> string option \<Rightarrow> map_local_rule list \<Rightarrow> (string \<rightharpoonup> string) \<Rightarrow>
     (map_local_rule, map_local_rule list) handled \<times> (string \<rightharpoonup> string)" where
  "update_map_local_rule fs dir_err write_err io base_path fixtures_dir i rule inline rules =
     submit_map_local fs dir_err write_err base_path fixtures_dir (rule\<lparr>ml_id := i\<rparr>) inline
       (\<lambda>r. update_row ml_id io i (\<lambda>_. r) rules) rules"

definition delete_map_local_rule :: "string option \<Rightarrow> string \<Rightarrow> map_local_rule list \<Rightarrow> (map_local_rule, map_local_rule list) handled" where
  "delete_map_local_rule = delete_row ml_id"

datatype fixture_reply = Fx_Bad_Request | Fx_Not_Found | Fx_Created string nat | Fx_Contents string | Fx_Deleted | Fx_Error string

definition upload_map_local_fixture ::
    "string option \<Rightarrow> string option \<Rightarrow> string \<Rightarrow> string \<Rightarrow> (string \<rightharpoonup> string) \<Rightarrow> fixture_reply \<times> (string \<rightharpoonup> string)" where
  "upload_map_local_fixture dir_err write_err name body fixtures = (case sanitize_fixture_name name of
     None \<Rightarrow> (Fx_Bad_Request, fixtures)
   | Some safe \<Rightarrow> (case dir_err of
       Some e \<Rightarrow> (Fx_Error e, fixtures)
     | None \<Rightarrow> (case write_err of
         Some e \<Rightarrow> (Fx_Error e, fixtures)
       | None \<Rightarrow> (Fx_Created safe (length body), fixtures(safe \<mapsto> body)))))"

definition get_map_local_fixture :: "string \<Rightarrow> (string \<rightharpoonup> string) \<Rightarrow> fixture_reply" where
  "get_map_local_fixture name fixtures = (case sanitize_fixture_name name of
     None \<Rightarrow> Fx_Bad_Request
   | Some safe \<Rightarrow> (case fixtures safe of Some body \<Rightarrow> Fx_Contents body | None \<Rightarrow> Fx_Not_Found))"

definition delete_map_local_fixture :: "string \<Rightarrow> (string \<rightharpoonup> string) \<Rightarrow> fixture_reply \<times> (string \<rightharpoonup> string)" where
  "delete_map_local_fixture name fixtures = (case sanitize_fixture_name name of
     None \<Rightarrow> (Fx_Bad_Request, fixtures)
   | Some safe \<Rightarrow> if fixtures safe = None then (Fx_Not_Found, fixtures) else (Fx_Deleted, fixtures(safe := None)))"

section \<open>Single values\<close>

definition update_value :: "string option \<Rightarrow> 't \<Rightarrow> ('t, 't) handled" where
  "update_value io v = stored io Rp_Ok v"

definition update_throttling :: "string option \<Rightarrow> throttling_config \<Rightarrow> (throttling_config, throttling_config) handled" where
  "update_throttling = update_value"

definition update_capture_filter :: "string option \<Rightarrow> capture_filter_config \<Rightarrow> (capture_filter_config, capture_filter_config) handled" where
  "update_capture_filter = update_value"

type_synonym dns_overrides = "string \<rightharpoonup> dns_entry"

definition dns_shape_error :: "string \<Rightarrow> string" where
  "dns_shape_error e = (let q = (\<lambda>s. [CHR 0x22] @ s @ [CHR 0x22])
     in ''expected either a single {'' @ q ''host'' @ '': ..., '' @ q ''ip'' @ '': ..., '' @ q ''enabled''
        @ '': ...} object, or a whole-map replace {'' @ q ''<host>'' @ '': {'' @ q ''ip'' @ '': ..., ''
        @ q ''enabled'' @ '': ...}, ...}: '' @ e)"

text \<open>The two forms of the body are what the JSON parser makes of it: an entry for one host, or a map.\<close>

definition update_dns ::
    "string option \<Rightarrow> (string \<times> string \<times> bool option) option \<Rightarrow> string + (string \<rightharpoonup> dns_value) \<Rightarrow> dns_overrides \<Rightarrow>
     (dns_entry, dns_overrides) handled" where
  "update_dns io single whole overrides =
     (let replaced = (case whole of
            Inr m \<Rightarrow> stored io Rp_Ok (map_option into_entry \<circ> m)
          | Inl e \<Rightarrow> (Rp_Unprocessable (dns_shape_error e), overrides, None))
      in case single of
           Some (host, ip, enabled) \<Rightarrow>
             if trim_str host \<noteq> []
             then stored io Rp_Ok (overrides(host \<mapsto> \<lparr>de_ip = ip,
                    de_enabled = (case enabled of Some b \<Rightarrow> b | None \<Rightarrow> True)\<rparr>))
             else replaced
         | None \<Rightarrow> replaced)"

definition upsert_dns :: "string option \<Rightarrow> string \<Rightarrow> dns_entry \<Rightarrow> dns_overrides \<Rightarrow> (dns_entry, dns_overrides) handled" where
  "upsert_dns io host entry overrides = stored io Rp_Ok (overrides(host \<mapsto> entry))"

definition delete_dns :: "string option \<Rightarrow> string \<Rightarrow> dns_overrides \<Rightarrow> (dns_entry, dns_overrides) handled" where
  "delete_dns io host overrides =
     (if overrides host \<noteq> None then stored io Rp_Ok (overrides(host := None)) else (Rp_Not_Found, overrides, None))"

text \<open>The settings save first and change the running engine only when that worked: the second component
  is the engine's value, the third the value handed to the storage.\<close>

definition reload_config :: "string option \<Rightarrow> nat \<Rightarrow> nat option \<Rightarrow> nat \<Rightarrow> nat admin_reply \<times> nat \<times> nat option option" where
  "reload_config io yaml posted current = (case posted of
     Some v \<Rightarrow> (case io of
         Some e \<Rightarrow> (Rp_Storage_Error e, current, Some (Some v))
       | None \<Rightarrow> (Rp_Json v, v, Some (Some v)))
   | None \<Rightarrow> (Rp_Json yaml, yaml, None))"

definition set_upstream_proxy ::
    "string option \<Rightarrow> (string \<Rightarrow> bool) \<Rightarrow> string option \<Rightarrow> string option \<Rightarrow>
     string option admin_reply \<times> string option \<times> string option option" where
  "set_upstream_proxy io proxy_ok posted current =
     (let url = (case posted of Some s \<Rightarrow> if s = [] then None else Some s | None \<Rightarrow> None)
      in if (case url of Some u \<Rightarrow> \<not> proxy_ok u | None \<Rightarrow> False) then (Rp_Unprocessable ''invalid proxy URL'', current, None)
         else case io of
           Some e \<Rightarrow> (Rp_Storage_Error e, current, Some url)
         | None \<Rightarrow> (Rp_Json url, url, Some url))"

text \<open>What the settings page shows and what the engine starts with: the stored value, or else the
  configured one.\<close>

definition effective_upstream_proxy :: "string option \<Rightarrow> string option \<Rightarrow> string option" where
  "effective_upstream_proxy from_file configured = (case from_file of Some u \<Rightarrow> Some u | None \<Rightarrow> configured)"

section \<open>Files the session endpoints may name\<close>

text \<open>\<open>mkdir\<close> is the error of creating a directory with its parents, if any. A result names the
  directories that were created before it.\<close>

fun render_path :: "string list \<Rightarrow> path" where
  "render_path [] = []"
| "render_path (c # cs) = (if c = ''/'' then ''/'' @ join_str ''/'' cs else join_str ''/'' (c # cs))"

definition path_parent :: "path \<Rightarrow> path option" where
  "path_parent p = (let cs = path_components p in if cs = [] \<or> cs = [''/''] then None else Some (render_path (butlast cs)))"

definition storage_root :: "files \<Rightarrow> (path \<Rightarrow> string option) \<Rightarrow> path \<Rightarrow> string + path" where
  "storage_root fs mkdir storage_path = (case mkdir storage_path of
     Some e \<Rightarrow> Inl (''failed to create storage directory: '' @ e)
   | None \<Rightarrow> (case fl_canonicalize fs storage_path of
       Inl e \<Rightarrow> Inl (''failed to resolve storage directory: '' @ e) | Inr root \<Rightarrow> Inr root))"

definition is_safe_relative_path :: "path \<Rightarrow> bool" where
  "is_safe_relative_path p \<longleftrightarrow> p \<noteq> [] \<and> list_all (\<lambda>c. c \<notin> {''/'', ''..''}) (path_components p)"

definition outside_error :: string where
  "outside_error = ''path must stay inside storage directory''"

definition storage_candidate :: "path \<Rightarrow> path \<Rightarrow> string + path" where
  "storage_candidate root requested =
     (if requested = [] then Inl ''path is required''
      else if is_absolute requested then Inr requested
      else if \<not> is_safe_relative_path requested then Inl outside_error
      else Inr (path_join root requested))"

definition resolve_storage_file_for_write ::
    "files \<Rightarrow> (path \<Rightarrow> string option) \<Rightarrow> path \<Rightarrow> path \<Rightarrow> (string + path) \<times> path list" where
  "resolve_storage_file_for_write fs mkdir storage_path requested =
     (case storage_root fs mkdir storage_path of
        Inl e \<Rightarrow> (Inl e, [])
      | Inr root \<Rightarrow> (case storage_candidate root requested of
          Inl e \<Rightarrow> (Inl e, [storage_path])
        | Inr candidate \<Rightarrow> (case file_name candidate of
            None \<Rightarrow> (Inl ''path must include a file name'', [storage_path])
          | Some name \<Rightarrow> (case path_parent candidate of
              None \<Rightarrow> (Inl ''path must include a parent directory'', [storage_path])
            | Some parent0 \<Rightarrow> (case mkdir parent0 of
                Some e \<Rightarrow> (Inl (''failed to create parent directory: '' @ e), [storage_path])
              | None \<Rightarrow>
                  ((case fl_canonicalize fs parent0 of
                      Inl e \<Rightarrow> Inl (''failed to resolve parent directory: '' @ e)
                    | Inr parent \<Rightarrow>
                        if \<not> path_starts_with parent root then Inl outside_error
                        else let p = path_join parent name
                             in if fl_exists fs p
                                then (case fl_canonicalize fs p of
                                        Inl e \<Rightarrow> Inl (''failed to resolve file: '' @ e)
                                      | Inr resolved \<Rightarrow>
                                          if \<not> path_starts_with resolved root \<or> \<not> fl_is_file fs resolved
                                          then Inl outside_error else Inr p)
                                else Inr p), [storage_path, parent0]))))))"

definition resolve_storage_file_for_read ::
    "files \<Rightarrow> (path \<Rightarrow> string option) \<Rightarrow> path \<Rightarrow> path \<Rightarrow> string + path" where
  "resolve_storage_file_for_read fs mkdir storage_path requested =
     (case storage_root fs mkdir storage_path of
        Inl e \<Rightarrow> Inl e
      | Inr root \<Rightarrow> (case storage_candidate root requested of
          Inl e \<Rightarrow> Inl e
        | Inr candidate \<Rightarrow> (case fl_canonicalize fs candidate of
            Inl e \<Rightarrow> Inl (''failed to resolve file: '' @ e)
          | Inr p \<Rightarrow> if \<not> path_starts_with p root then Inl outside_error
                     else if \<not> fl_is_file fs p then Inl ''path must reference a file''
                     else Inr p)))"

section \<open>Tables as keyed stores\<close>

lemma update_first_None: "update_first P f rs = None \<longleftrightarrow> (\<forall>r \<in> set rs. \<not> P r)"
  by (induction rs) auto

lemma update_first_map:
  "update_first (\<lambda>r. k r = i) f rs = Some rs' \<Longrightarrow> (\<And>r. k (f r) = i) \<Longrightarrow> map k rs' = map k rs"
  by (induction rs arbitrary: rs') (auto split: if_splits)

lemma find_update_first:
  "update_first (\<lambda>r. k r = i) f rs = Some rs' \<Longrightarrow> (\<And>r. k (f r) = i) \<Longrightarrow>
   find (\<lambda>r. k r = j) rs' = (if j = i then map_option f (find (\<lambda>r. k r = i) rs) else find (\<lambda>r. k r = j) rs)"
  by (induction rs arbitrary: rs') (auto split: if_splits)

lemma length_update_first: "update_first P f rs = Some rs' \<Longrightarrow> length rs' = length rs"
  by (induction rs arbitrary: rs') (auto split: if_splits)

lemma find_filter_key: "find (\<lambda>r. k r = j) (filter (\<lambda>r. k r \<noteq> i) rs) = (if j = i then None else find (\<lambda>r. k r = j) rs)"
  by (induction rs) auto

locale rule_table =
  fixes rid :: "'r \<Rightarrow> string"
    and set_rid :: "string \<Rightarrow> 'r \<Rightarrow> 'r"
  assumes rid_set: "rid (set_rid i r) = i"
begin

definition row :: "string \<Rightarrow> 'r list \<Rightarrow> 'r option" where
  "row i rs = find (\<lambda>r. rid r = i) rs"

abbreviation table_of :: "('r, 'r list) handled \<Rightarrow> 'r list" where
  "table_of h \<equiv> fst (snd h)"

lemma created: "map rid (table_of (create_row io (set_rid i r) rs)) = map rid rs @ [i]"
  by (simp add: create_row_def stored_def rid_set)

lemma updated: "map rid (table_of (update_row rid io i (\<lambda>_. set_rid i r) rs)) = map rid rs"
  by (auto simp: update_row_def stored_def rid_set dest: update_first_map split: option.split)

lemma deleted: "map rid (table_of (delete_row rid io i rs)) = filter (\<lambda>j. j \<noteq> i) (map rid rs)"
  by (simp add: delete_row_def stored_def Let_def filter_map comp_def)

lemma row_created:
  "row j (table_of (create_row io (set_rid i r) rs)) =
     (case row j rs of Some r' \<Rightarrow> Some r' | None \<Rightarrow> if j = i then Some (set_rid i r) else None)"
  by (simp add: row_def create_row_def stored_def find_append rid_set split: option.split)

lemma row_updated:
  "row j (table_of (update_row rid io i (\<lambda>_. set_rid i r) rs)) =
     (if j = i then map_option (\<lambda>_. set_rid i r) (row i rs) else row j rs)"
proof (cases "update_first (\<lambda>r. rid r = i) (\<lambda>_. set_rid i r) rs")
  case None
  then have "row i rs = None" by (auto simp: row_def find_None_iff update_first_None)
  with None show ?thesis by (simp add: update_row_def)
next
  case (Some rs')
  from find_update_first [OF this] show ?thesis by (simp add: update_row_def row_def stored_def Some rid_set)
qed

lemma row_deleted: "row j (table_of (delete_row rid io i rs)) = (if j = i then None else row j rs)"
  by (simp add: delete_row_def row_def stored_def find_filter_key Let_def)

lemma kept_distinct:
  assumes "distinct (map rid rs)"
  shows "i \<notin> rid ` set rs \<Longrightarrow> distinct (map rid (table_of (create_row io (set_rid i r) rs)))"
    and "distinct (map rid (table_of (update_row rid io j (\<lambda>_. set_rid j r) rs)))"
    and "distinct (map rid (table_of (delete_row rid io j rs)))"
  using assms by (simp_all add: created updated deleted)

end

interpretation access_table: rule_table ar_id "\<lambda>i r. r\<lparr>ar_id := i\<rparr>"
  by unfold_locales simp

interpretation rewrite_table: rule_table rw_id "\<lambda>i r. r\<lparr>rw_id := i\<rparr>"
  by unfold_locales simp

interpretation map_local_table: rule_table ml_id "\<lambda>i r. r\<lparr>ml_id := i\<rparr>"
  by unfold_locales simp

interpretation map_remote_table: rule_table mr_id "\<lambda>i r. r\<lparr>mr_id := i\<rparr>"
  by unfold_locales simp

interpretation mock_table: rule_table mo_id "\<lambda>i r. r\<lparr>mo_id := i\<rparr>"
  by unfold_locales simp

interpretation script_table: rule_table ls_id "\<lambda>i r. r\<lparr>ls_id := i\<rparr>"
  by unfold_locales simp

section \<open>Reordering\<close>

lemma find_picked:
  "find (\<lambda>r. k r = j) (List.map_filter (\<lambda>i. find (\<lambda>r. k r = i) rs) ids) =
     (if j \<in> set ids then find (\<lambda>r. k r = j) rs else None)"
proof (induction ids)
  case (Cons i ids)
  show ?case
  proof (cases "find (\<lambda>r. k r = i) rs")
    case None
    with Cons show ?thesis by (auto simp: map_filter_simps)
  next
    case (Some r)
    then have "k r = i" by (auto dest: find_SomeD)
    with Some Cons show ?thesis by (auto simp: map_filter_simps)
  qed
qed (simp add: map_filter_simps)

lemma find_rest: "find (\<lambda>r. k r = j) (filter (\<lambda>r. k r \<notin> A) rs) = (if j \<in> A then None else find (\<lambda>r. k r = j) rs)"
  by (induction rs) auto

lemma row_reordered: "rewrite_table.row j (reordered ids rs) = rewrite_table.row j rs"
  by (simp add: rewrite_table.row_def reordered_def find_append find_picked find_rest split: option.split)

lemma picked_permutes:
  assumes "distinct ids" and "distinct (map k rs)"
  shows "mset (List.map_filter (\<lambda>i. find (\<lambda>r. k r = i) rs) ids) = mset (filter (\<lambda>r. k r \<in> set ids) rs)"
proof (rule set_eq_iff_mset_eq_distinct [THEN iffD1])
  let ?picked = "List.map_filter (\<lambda>i. find (\<lambda>r. k r = i) rs) ids"
  show "distinct (filter (\<lambda>r. k r \<in> set ids) rs)" using assms(2) by (simp add: distinct_map)
  show "distinct ?picked" using assms(1)
  proof (induction ids)
    case (Cons i ids)
    have "r \<notin> set (List.map_filter (\<lambda>i. find (\<lambda>r. k r = i) rs) ids)" if "find (\<lambda>r. k r = i) rs = Some r" for r
    proof
      assume "r \<in> set (List.map_filter (\<lambda>i. find (\<lambda>r. k r = i) rs) ids)"
      then obtain j where "j \<in> set ids" "find (\<lambda>r. k r = j) rs = Some r" by (auto simp: map_filter_def)
      with that have "j = i" by (auto dest!: find_SomeD)
      with \<open>j \<in> set ids\<close> Cons.prems show False by simp
    qed
    with Cons show ?case by (auto simp: map_filter_simps split: option.split)
  qed (simp add: map_filter_simps)
  have self: "find (\<lambda>r. k r = k x) rs = Some x" if "x \<in> set rs" for x
    using that assms(2) by (induction rs) auto
  show "set ?picked = set (filter (\<lambda>r. k r \<in> set ids) rs)"
  proof (intro set_eqI iffI)
    fix x assume "x \<in> set ?picked"
    then obtain i where "i \<in> set ids" "find (\<lambda>r. k r = i) rs = Some x" by (auto simp: map_filter_def)
    then show "x \<in> set (filter (\<lambda>r. k r \<in> set ids) rs)" by (auto dest!: find_SomeD)
  next
    fix x assume "x \<in> set (filter (\<lambda>r. k r \<in> set ids) rs)"
    then have "k x \<in> set ids" "find (\<lambda>r. k r = k x) rs = Some x" using self by auto
    then show "x \<in> set ?picked" by (force simp: map_filter_def)
  qed
qed

lemma reordered_permutes:
  "distinct ids \<Longrightarrow> distinct (map rw_id rs) \<Longrightarrow> mset (reordered ids rs) = mset rs"
  by (simp add: reordered_def picked_permutes)

section \<open>Properties\<close>



text \<open>An identifier listed twice duplicates its rule set.\<close>

lemma reorder_duplicates:
  "reordered [rw_id r, rw_id r] [r] = [r, r]"
  by (simp add: reordered_def map_filter_simps)

text \<open>A script that is updated takes the identifier of the body, which defaults to the empty string:
  it can then be neither updated nor deleted under its own.\<close>

lemma updated_script_loses_id:
  assumes "ls_id s = i" and "i \<noteq> []"
  shows "fst (snd (update_script io i (s\<lparr>ls_id := []\<rparr>) [s])) = [s\<lparr>ls_id := []\<rparr>]"
    and "fst (delete_script io' i [s\<lparr>ls_id := []\<rparr>]) = Rp_Not_Found"
  using assms by (simp_all add: update_script_def update_row_def stored_def delete_script_def delete_row_def)

lemma updated_mock_takes_body_id:
  "mo_id r = i \<Longrightarrow> map mo_id (fst (snd (update_mock_rule io i u [r]))) = [mo_id u]"
  by (simp add: update_mock_rule_def stored_def Let_def)

text \<open>Turning a configured upstream proxy off lasts until the restart: the stored value is then \<open>null\<close>,
  and the configured one is taken.\<close>

lemma disabled_proxy_comes_back:
  "set_upstream_proxy None ok (Some []) current = (Rp_Json None, None, Some None)"
  "effective_upstream_proxy None (Some u) = Some u"
  by (simp_all add: set_upstream_proxy_def effective_upstream_proxy_def)

text \<open>A destination that does not answer \<open>HEAD\<close> but has a well-formed URL panics the handler.\<close>

lemma unreachable_destination_panics:
  "head (trim_end_char (CHR ''/'') d @ ''/'') = None \<Longrightarrow> build_error (trim_end_char (CHR ''/'') d @ ''/'') = None \<Longrightarrow>
   test_map_remote head build_error (JObject [(''destination'', JString d)]) = Panic"
  by (simp add: test_map_remote_def body_get_def as_str_def Let_def)

subsection \<open>Paths\<close>

lemma split_char_append: "split_char c (a @ c # b) = split_char c a @ split_char c b"
  by (induction a) (auto split: list.splits)

lemma components_join:
  assumes "CHR ''/'' \<notin> set n" and "n \<noteq> []" and "n \<noteq> ''.''"
  shows "path_components (path_join d n) = path_components d @ [n]"
proof -
  have rel: "\<not> is_absolute n" using assms by (cases n) (auto simp: is_absolute_def)
  have n: "split_char (CHR ''/'') n = [n]" using assms(1) by (rule split_char_single)
  show ?thesis
  proof (cases "d = []")
    case True
    then show ?thesis using assms rel n by (simp add: path_join_def path_components_def is_absolute_def Let_def)
  next
    case False
    obtain ps where ps: "split_char (CHR ''/'') (path_join d n) = ps @ [n]" "ps \<noteq> []" "hd ps = hd (split_char (CHR ''/'') d)"
      "filter (\<lambda>c. c \<noteq> [] \<and> c \<noteq> ''.'') ps = filter (\<lambda>c. c \<noteq> [] \<and> c \<noteq> ''.'') (split_char (CHR ''/'') d)"
    proof (cases "last d = CHR ''/''")
      case True
      then have d: "d = butlast d @ [CHR ''/'']" using False by (metis append_butlast_last_id)
      have "split_char (CHR ''/'') d = split_char (CHR ''/'') (butlast d) @ [[]]"
        using split_char_append [of "CHR ''/''" "butlast d" "[]"] d by simp
      moreover have "split_char (CHR ''/'') (path_join d n) = split_char (CHR ''/'') (butlast d) @ [n]"
        using split_char_append [of "CHR ''/''" "butlast d" n] d rel True n
        by (metis append.assoc append_Cons append_Nil path_join_def)
      ultimately show ?thesis using that [of "split_char (CHR ''/'') (butlast d)"] by (simp add: hd_append)
    next
      case other: False
      then have "path_join d n = d @ CHR ''/'' # n" using False rel by (simp add: path_join_def)
      then show ?thesis using that [of "split_char (CHR ''/'') d"] n by (simp add: split_char_append)
    qed
    have "is_absolute (path_join d n) = is_absolute d"
      using False rel by (cases d) (auto simp: path_join_def is_absolute_def)
    with ps assms show ?thesis by (simp add: path_components_def Let_def hd_append)
  qed
qed

lemma split_char_part: "p \<in> set (split_char d s) \<Longrightarrow> d \<notin> set p"
  using split_char_no_sep by blast

lemma component_plain:
  "c \<in> set (path_components p) \<Longrightarrow> c \<noteq> ''/'' \<Longrightarrow> CHR ''/'' \<notin> set c \<and> c \<noteq> []"
  by (auto simp: path_components_def Let_def split_char_part split: if_splits)

lemma sanitized_fixture:
  assumes "sanitize_fixture_name name = Some s"
  shows "CHR ''/'' \<notin> set s \<and> s \<notin> {[], ''.'', ''..''}"
proof -
  have "path_components (trim_str name) = [s]" "s \<notin> {''/'', ''.'', ''..''}"
    using assms by (auto simp: sanitize_fixture_name_def Let_def split: if_splits list.splits)
  moreover from this have "s \<in> set (path_components (trim_str name))" by simp
  ultimately show ?thesis using component_plain by blast
qed

text \<open>A fixture that is uploaded is stored directly in the fixture directory, whatever name it was
  given: the stored name is one plain component, so the path that the directory and the name make has
  exactly one component more than the directory.\<close>

theorem fixtures_stay_in_directory:
  assumes "upload_map_local_fixture dir_err write_err name body fixtures = (Fx_Created s n, fixtures')"
  shows "fixtures' = fixtures(s \<mapsto> body) \<and> n = length body
     \<and> path_components (path_join dir s) = path_components dir @ [s] \<and> s \<noteq> ''..''"
  using assms sanitized_fixture [of name s] components_join [of s dir]
  by (auto simp: upload_map_local_fixture_def split: option.splits)

lemma readme_trimmed: "trim_str ''./'' = ''./''" "trim_str ''a.json/'' = ''a.json/''"
  by (rule trim_str_printable; simp add: printable_def)+

theorem fixtures_stay_in_directory_witness:
  "path_components (path_join ''/data/map-local/'' ''a.json'') = [''/'', ''data'', ''map-local'', ''a.json'']"
proof -
  have "upload_map_local_fixture None None ''a.json/'' ''{}'' Map.empty = (Fx_Created ''a.json'' 2, [''a.json'' \<mapsto> ''{}''])"
    by (simp add: upload_map_local_fixture_def sanitize_fixture_name_def readme_trimmed path_components_def
        is_absolute_def Let_def)
  from fixtures_stay_in_directory [OF this, of "''/data/map-local/''"] show ?thesis
    by (simp add: path_components_def is_absolute_def Let_def)
qed

text \<open>The same holds of the fixture a rule brings inline.\<close>

lemma inline_fixture_contained:
  "materialize_inline_fixture dir_err write_err rule (Some body) fixtures = (Inr rule', fixtures') \<Longrightarrow>
   fixtures' = fixtures(ml_file_path rule' \<mapsto> body)
   \<and> path_components (path_join dir (ml_file_path rule')) = path_components dir @ [ml_file_path rule']"
  using sanitized_fixture [of "ml_file_path rule"] components_join [of _ dir]
  by (auto simp: materialize_inline_fixture_def split: option.splits)

text \<open>It is written before the path is checked and before the rule is looked for, so an update that
  finds no rule has replaced the fixture.\<close>

lemma fixture_written_without_rule:
  assumes "sanitize_fixture_name (ml_file_path rule) = Some s" and "trim_str s \<noteq> []"
    and "fl_exists (fs (fixtures(s \<mapsto> body))) (resolve_map_local_path (fs (fixtures(s \<mapsto> body))) s base (Some dir))"
  shows "update_map_local_rule fs None None io base dir i rule (Some body) [] fixtures =
     ((Rp_Not_Found, [], None), fixtures(s \<mapsto> body))"
  using assms by (simp add: update_map_local_rule_def submit_map_local_def materialize_inline_fixture_def
      validate_map_local_path_def update_row_def)

text \<open>A session file that an endpoint reads or writes lies below the storage directory: what is read
  is a canonical path below the canonical root, and what is written has a canonical parent below it and
  a name of one component.\<close>

theorem storage_paths_contained:
  assumes "fl_canonicalize fs storage_path = Inr root"
  shows "(resolve_storage_file_for_read fs mkdir storage_path requested = Inr p \<longrightarrow>
           path_starts_with p root \<and> fl_is_file fs p)
     \<and> (fst (resolve_storage_file_for_write fs mkdir storage_path requested) = Inr q \<longrightarrow>
           path_starts_with q root
           \<and> (\<exists>parent name. q = path_join parent name \<and> path_starts_with parent root
                \<and> path_components q = path_components parent @ [name])
           \<and> (fl_exists fs q \<longrightarrow> (\<exists>r. fl_canonicalize fs q = Inr r \<and> path_starts_with r root \<and> fl_is_file fs r)))"
proof (intro conjI impI)
  assume "resolve_storage_file_for_read fs mkdir storage_path requested = Inr p"
  then show "path_starts_with p root" and "fl_is_file fs p"
    using assms by (auto simp: resolve_storage_file_for_read_def storage_root_def split: option.splits sum.splits if_splits)
next
  assume w: "fst (resolve_storage_file_for_write fs mkdir storage_path requested) = Inr q"
  then obtain candidate name parent where c: "file_name candidate = Some name" "q = path_join parent name"
    "path_starts_with parent root"
    "fl_exists fs q \<longrightarrow> (\<exists>r. fl_canonicalize fs q = Inr r \<and> path_starts_with r root \<and> fl_is_file fs r)"
    using assms by (auto simp: resolve_storage_file_for_write_def storage_root_def Let_def
        split: option.splits sum.splits if_splits)
  have name: "name \<in> set (path_components candidate)" "name \<notin> {''/'', ''.'', ''..''}"
    using c(1) by (auto simp: file_name_def Let_def split: if_splits)
  then have "path_components q = path_components parent @ [name]"
    using component_plain [of name candidate] c(2) by (auto intro: components_join)
  moreover from this have "path_starts_with q root" using c(3) by (simp add: path_starts_with_def prefix_prefix)
  ultimately have "path_starts_with q root
           \<and> (\<exists>parent name. q = path_join parent name \<and> path_starts_with parent root
                \<and> path_components q = path_components parent @ [name])
           \<and> (fl_exists fs q \<longrightarrow> (\<exists>r. fl_canonicalize fs q = Inr r \<and> path_starts_with r root \<and> fl_is_file fs r))"
    using c by blast
  then show "path_starts_with q root"
    and "\<exists>parent name. q = path_join parent name \<and> path_starts_with parent root
           \<and> path_components q = path_components parent @ [name]"
    and "fl_exists fs q \<Longrightarrow> \<exists>r. fl_canonicalize fs q = Inr r \<and> path_starts_with r root \<and> fl_is_file fs r"
    by blast+
qed

theorem storage_paths_contained_witness:
  "resolve_storage_file_for_read sample_files (\<lambda>_. None) ''/fx'' ''a.json'' = Inr ''/fx/a.json''
   \<and> path_starts_with ''/fx/a.json'' ''/fx''"
proof -
  have root: "fl_canonicalize sample_files ''/fx'' = Inr ''/fx''" by (simp add: sample_files_def)
  have "resolve_storage_file_for_read sample_files (\<lambda>_. None) ''/fx'' ''a.json'' = Inr ''/fx/a.json''" by code_simp
  with storage_paths_contained [OF root, of "\<lambda>_. None" "''a.json''" "''/fx/a.json''" "''/fx/b''"] show ?thesis by simp
qed

text \<open>The parent directory is created before the check: a refused absolute path leaves directories
  behind outside the storage.\<close>

lemma refused_write_creates_parent:
  assumes "mkdir storage_path = None" "fl_canonicalize fs storage_path = Inr root" "is_absolute p"
    "file_name p = Some n" "path_parent p = Some d" "mkdir d = None" "fl_canonicalize fs d = Inr d'" "\<not> path_starts_with d' root"
  shows "resolve_storage_file_for_write fs mkdir storage_path p = (Inl outside_error, [storage_path, d])"
proof -
  have "p \<noteq> []" using assms(3) by (auto simp: is_absolute_def)
  then show ?thesis using assms
    by (simp add: resolve_storage_file_for_write_def storage_root_def storage_candidate_def)
qed

end
