(* ===== verification/Webhooks.thy ===== *)
theory Webhooks
  imports AdminTables Security SessionStore
begin

text \<open>
  Webhooks (\<open>webhooks.rs\<close>, \<open>control_plane/webhooks.rs\<close>): their configuration, the dispatcher that
  turns the changes of the session store into deliveries, and a delivery with its retries.

  \<open>url_parse\<close> gives the URL or the parser's error, \<open>lookup\<close> resolves names, \<open>hmac\<close> is the signature,
  \<open>render\<close> prints JSON and \<open>rfc3339\<close> a time.
\<close>

datatype webhook_event = WE_RequestCaptured | WE_ResponseCaptured | WE_BreakpointHit | WE_Error

record webhook_config =
  wh_id :: string
  wh_name :: "string option"
  wh_url :: string
  wh_events :: "webhook_event list"
  wh_enabled :: bool
  wh_secret :: "string option"

definition is_dispatchable :: "webhook_event \<Rightarrow> bool" where
  "is_dispatchable e \<longleftrightarrow> e \<in> {WE_RequestCaptured, WE_ResponseCaptured}"

definition dedup_first :: "'a list \<Rightarrow> 'a list" where
  "dedup_first xs = rev (remdups (rev xs))"

definition sanitize_webhook_events :: "webhook_event list \<Rightarrow> webhook_event list" where
  "sanitize_webhook_events events = dedup_first (filter is_dispatchable events)"

section \<open>Endpoints\<close>

datatype webhook_reply =
  Wh_Ok | Wh_Unprocessable string | Wh_Forbidden string | Wh_Not_Found | Wh_Storage_Error string

type_synonym webhooks_handled = "webhook_reply \<times> webhook_config list \<times> webhook_config list option"

definition check_webhook ::
    "(string \<Rightarrow> string + url) \<Rightarrow> (string \<Rightarrow> u16 \<Rightarrow> ip_addr list option) \<Rightarrow> admin_egress_policy \<Rightarrow>
     webhook_config \<Rightarrow> webhook_reply option" where
  "check_webhook url_parse lookup policy hook =
     (if wh_events hook = [] then Some (Wh_Unprocessable ''webhook must include request_captured or response_captured'')
      else case url_parse (wh_url hook) of
        Inl e \<Rightarrow> Some (Wh_Unprocessable (''invalid webhook URL: '' @ e))
      | Inr u \<Rightarrow>
          if url_scheme u \<notin> {''http'', ''https''}
          then Some (Wh_Unprocessable (''unsupported webhook URL scheme: '' @ url_scheme u))
          else (case enforce_admin_egress_policy lookup u policy of Inl e \<Rightarrow> Some (Wh_Forbidden e) | Inr () \<Rightarrow> None))"

definition saved_webhooks :: "string option \<Rightarrow> webhook_config list \<Rightarrow> webhooks_handled" where
  "saved_webhooks io hooks = ((case io of Some e \<Rightarrow> Wh_Storage_Error e | None \<Rightarrow> Wh_Ok), hooks, Some hooks)"

definition create_webhook ::
    "(string \<Rightarrow> string + url) \<Rightarrow> (string \<Rightarrow> u16 \<Rightarrow> ip_addr list option) \<Rightarrow> admin_egress_policy \<Rightarrow> string \<Rightarrow>
     string option \<Rightarrow> webhook_config \<Rightarrow> webhook_config list \<Rightarrow> webhooks_handled" where
  "create_webhook url_parse lookup policy new_id io hook0 hooks =
     (let hook = hook0\<lparr>wh_events := sanitize_webhook_events (wh_events hook0)\<rparr>
      in case check_webhook url_parse lookup policy hook of
           Some reply \<Rightarrow> (reply, hooks, None)
         | None \<Rightarrow> saved_webhooks io (hooks @ [if wh_id hook = [] then hook\<lparr>wh_id := new_id\<rparr> else hook]))"

definition update_webhook ::
    "(string \<Rightarrow> string + url) \<Rightarrow> (string \<Rightarrow> u16 \<Rightarrow> ip_addr list option) \<Rightarrow> admin_egress_policy \<Rightarrow>
     string option \<Rightarrow> string \<Rightarrow> webhook_config \<Rightarrow> webhook_config list \<Rightarrow> webhooks_handled" where
  "update_webhook url_parse lookup policy io i updated0 hooks =
     (let updated = updated0\<lparr>wh_events := sanitize_webhook_events (wh_events updated0)\<rparr>
      in case check_webhook url_parse lookup policy updated of
           Some reply \<Rightarrow> (reply, hooks, None)
         | None \<Rightarrow> (case update_first (\<lambda>h. wh_id h = i) (\<lambda>_. updated) hooks of
             Some hooks' \<Rightarrow> saved_webhooks io hooks'
           | None \<Rightarrow> (Wh_Not_Found, hooks, None)))"

definition delete_webhook :: "string option \<Rightarrow> string \<Rightarrow> webhook_config list \<Rightarrow> webhooks_handled" where
  "delete_webhook io i hooks = (let hooks' = filter (\<lambda>h. wh_id h \<noteq> i) hooks
     in if length hooks' < length hooks then saved_webhooks io hooks' else (Wh_Not_Found, hooks', None))"

definition load_webhooks :: "(string \<Rightarrow> webhook_config list option) \<Rightarrow> storage \<Rightarrow> webhook_config list" where
  "load_webhooks parse s =
     filter (\<lambda>h. wh_events h \<noteq> [])
       (map (\<lambda>h. h\<lparr>wh_events := sanitize_webhook_events (wh_events h)\<rparr>) (load_json parse [] ''webhooks.json'' s))"

section \<open>Dispatch\<close>

fun event_of_kind :: "change_kind \<Rightarrow> webhook_event option" where
  "event_of_kind RequestCaptured = Some WE_RequestCaptured"
| "event_of_kind ResponseCaptured = Some WE_ResponseCaptured"
| "event_of_kind _ = None"

fun event_name :: "webhook_event \<Rightarrow> string" where
  "event_name WE_RequestCaptured = ''request_captured''"
| "event_name WE_ResponseCaptured = ''response_captured''"
| "event_name WE_BreakpointHit = ''breakpoint_hit''"
| "event_name WE_Error = ''error''"

definition webhook_payload :: "(timestamp \<Rightarrow> string) \<Rightarrow> webhook_event \<Rightarrow> exchange \<Rightarrow> json" where
  "webhook_payload rfc3339 event session = JObject
     [(''event'', JString (event_name event)), (''session_id'', JString (ex_id session)),
      (''timestamp'', JString (rfc3339 (ex_timestamp session))),
      (''request'', JObject [(''method'', JString (rq_method (ex_request session))),
         (''uri'', JString (rq_uri (ex_request session))),
         (''status'', case ex_response session of
            Some r \<Rightarrow> JNumber (PosInt (ucast (rs_status r))) | None \<Rightarrow> JNull)])]"

text \<open>A delivery: the address, the body and the signature.\<close>

type_synonym delivery = "string \<times> string \<times> string option"

definition dispatch_change ::
    "(timestamp \<Rightarrow> string) \<Rightarrow> (json \<Rightarrow> string) \<Rightarrow> (string \<Rightarrow> string \<Rightarrow> string) \<Rightarrow> (string \<Rightarrow> exchange option) \<Rightarrow>
     webhook_config list \<Rightarrow> session_change \<Rightarrow> delivery list" where
  "dispatch_change rfc3339 render hmac session_of hooks change = (case change of (sid, kind) \<Rightarrow>
     (case event_of_kind kind of
        None \<Rightarrow> []
      | Some event \<Rightarrow> (case Option.bind sid session_of of
          None \<Rightarrow> []
        | Some session \<Rightarrow>
            (let payload = render (webhook_payload rfc3339 event session)
             in map (\<lambda>h. (wh_url h, payload, map_option (\<lambda>s. hmac s payload) (wh_secret h)))
                  (filter (\<lambda>h. event \<in> set (wh_events h)) (filter wh_enabled hooks))))))"

text \<open>The receiver of the changes: one change, or the news that some were dropped.\<close>

datatype received = Change session_change | Lagged

fun dispatcher ::
    "(timestamp \<Rightarrow> string) \<Rightarrow> (json \<Rightarrow> string) \<Rightarrow> (string \<Rightarrow> string \<Rightarrow> string) \<Rightarrow>
     (received \<times> (string \<Rightarrow> exchange option) \<times> webhook_config list) list \<Rightarrow> delivery list" where
  "dispatcher rfc3339 render hmac [] = []"
| "dispatcher rfc3339 render hmac ((Lagged, _) # rest) = dispatcher rfc3339 render hmac rest"
| "dispatcher rfc3339 render hmac ((Change c, session_of, hooks) # rest) =
     dispatch_change rfc3339 render hmac session_of hooks c @ dispatcher rfc3339 render hmac rest"

section \<open>Delivery\<close>

definition WEBHOOK_ATTEMPTS :: nat where
  "WEBHOOK_ATTEMPTS = 3"

datatype delivery_step = Post | Sleep_Ms nat

text \<open>\<open>sent\<close> says which attempts get an answer; any status counts as one.\<close>

fun attempts :: "(nat \<Rightarrow> bool) \<Rightarrow> nat list \<Rightarrow> delivery_step list" where
  "attempts sent [] = []"
| "attempts sent (a # as) = Post #
     (if sent a then [] else if a = WEBHOOK_ATTEMPTS then []
      else Sleep_Ms (200 * 2 ^ a) # attempts sent as)"

definition fire_webhook ::
    "(string \<Rightarrow> string + url) \<Rightarrow> (string \<Rightarrow> u16 \<Rightarrow> ip_addr list option) \<Rightarrow> admin_egress_policy \<Rightarrow>
     (nat \<Rightarrow> bool) \<Rightarrow> string \<Rightarrow> delivery_step list" where
  "fire_webhook url_parse lookup policy sent u = (case url_parse u of
     Inl _ \<Rightarrow> []
   | Inr parsed \<Rightarrow> (case enforce_admin_egress_policy lookup parsed policy of
       Inl _ \<Rightarrow> [] | Inr () \<Rightarrow> attempts sent [1..<Suc WEBHOOK_ATTEMPTS]))"

section \<open>Lemmas\<close>

lemma set_sanitized: "set (sanitize_webhook_events es) = {e \<in> set es. is_dispatchable e}"
  by (auto simp: sanitize_webhook_events_def dedup_first_def)

lemma distinct_sanitized: "distinct (sanitize_webhook_events es)"
  by (simp add: sanitize_webhook_events_def dedup_first_def)

lemma sanitized_idem: "sanitize_webhook_events (sanitize_webhook_events es) = sanitize_webhook_events es"
proof -
  have "filter is_dispatchable (sanitize_webhook_events es) = sanitize_webhook_events es"
    by (rule filter_True) (simp add: set_sanitized)
  then show ?thesis
    by (metis dedup_first_def distinct_remdups_id distinct_rev distinct_sanitized rev_rev_ident sanitize_webhook_events_def)
qed

interpretation webhook_table: rule_table wh_id "\<lambda>i h. h\<lparr>wh_id := i\<rparr>"
  by unfold_locales simp

text \<open>A configuration worth keeping: it has an event that can occur, and each one once.\<close>

definition webhook_ok :: "webhook_config \<Rightarrow> bool" where
  "webhook_ok h \<longleftrightarrow> wh_events h \<noteq> [] \<and> distinct (wh_events h) \<and> (\<forall>e \<in> set (wh_events h). is_dispatchable e)"

lemma webhook_ok_sanitized:
  "wh_events h = sanitize_webhook_events es \<Longrightarrow> wh_events h \<noteq> [] \<Longrightarrow> webhook_ok h"
  by (simp add: webhook_ok_def distinct_sanitized set_sanitized)

lemma load_webhooks_ok: "h \<in> set (load_webhooks parse s) \<Longrightarrow> webhook_ok h"
  by (auto simp: load_webhooks_def intro: webhook_ok_sanitized)

lemma set_update_first:
  "update_first P f xs = Some ys \<Longrightarrow> y \<in> set ys \<Longrightarrow> y \<in> set xs \<or> (\<exists>x \<in> set xs. y = f x)"
  by (induction xs arbitrary: ys) (auto split: if_splits)

lemma created_ok:
  "\<forall>h \<in> set hooks. webhook_ok h \<Longrightarrow>
   \<forall>h \<in> set (fst (snd (create_webhook url_parse lookup policy n io hook hooks))). webhook_ok h"
  by (auto simp: create_webhook_def check_webhook_def saved_webhooks_def Let_def split: option.splits if_splits
      intro: webhook_ok_sanitized)

lemma updated_ok:
  "\<forall>h \<in> set hooks. webhook_ok h \<Longrightarrow>
   \<forall>h \<in> set (fst (snd (update_webhook url_parse lookup policy io i hook hooks))). webhook_ok h"
  by (auto simp: update_webhook_def check_webhook_def saved_webhooks_def Let_def split: option.splits if_splits
      dest!: set_update_first intro: webhook_ok_sanitized)

text \<open>A delivery is refused by the egress policy or the URL parser without any request; otherwise
  there are one to three requests, each but the last one unanswered and followed by a pause of 400 and
  then 800 milliseconds, and the last one is answered or the third.\<close>

theorem webhook_delivery_bounded:
  "let steps = fire_webhook url_parse lookup policy sent u;
       refused = (case url_parse u of Inl _ \<Rightarrow> True
         | Inr p \<Rightarrow> enforce_admin_egress_policy lookup p policy \<noteq> Inr ())
   in (if refused then steps = []
       else steps = (if sent 1 then [Post]
         else if sent 2 then [Post, Sleep_Ms 400, Post]
         else [Post, Sleep_Ms 400, Post, Sleep_Ms 800, Post]))"
  by (auto simp: fire_webhook_def WEBHOOK_ATTEMPTS_def upt_rec numeral_2_eq_2 [symmetric] Let_def
      split: sum.split unit.split)

text \<open>The configured webhooks keep a well-formed list of events: whatever is created, updated,
  deleted or loaded, each has at least one event, no event twice, and only events that occur. A change
  of the session store is delivered to exactly the enabled webhooks that list its event, and a change
  of any other kind to none.\<close>

theorem webhooks_well_formed:
  assumes "\<forall>h \<in> set hooks. webhook_ok h"
  shows "(\<forall>h \<in> set (load_webhooks parse s) \<union> set (fst (snd (create_webhook url_parse lookup policy n io hook hooks)))
            \<union> set (fst (snd (update_webhook url_parse lookup policy io i hook hooks)))
            \<union> set (fst (snd (delete_webhook io i hooks))). webhook_ok h)
     \<and> map fst (dispatch_change rfc3339 render hmac session_of hooks (sid, kind)) =
        (if Option.bind sid session_of = None then []
         else [wh_url h. h \<leftarrow> hooks, wh_enabled h \<and>
                 ((kind = RequestCaptured \<and> WE_RequestCaptured \<in> set (wh_events h))
                  \<or> (kind = ResponseCaptured \<and> WE_ResponseCaptured \<in> set (wh_events h)))])"
proof (intro conjI)
  have "\<forall>h \<in> set (fst (snd (delete_webhook io i hooks))). webhook_ok h"
    using assms by (simp add: delete_webhook_def saved_webhooks_def Let_def)
  then show "\<forall>h \<in> set (load_webhooks parse s) \<union> set (fst (snd (create_webhook url_parse lookup policy n io hook hooks)))
            \<union> set (fst (snd (update_webhook url_parse lookup policy io i hook hooks)))
            \<union> set (fst (snd (delete_webhook io i hooks))). webhook_ok h"
    using load_webhooks_ok created_ok [OF assms] updated_ok [OF assms] by blast
  have "map f (filter P (filter Q hs)) = concat (map (\<lambda>h. if Q h \<and> P h then [f h] else []) hs)"
    for f :: "webhook_config \<Rightarrow> string" and P Q hs by (induction hs) auto
  then show "map fst (dispatch_change rfc3339 render hmac session_of hooks (sid, kind)) =
        (if Option.bind sid session_of = None then []
         else [wh_url h. h \<leftarrow> hooks, wh_enabled h \<and>
                 ((kind = RequestCaptured \<and> WE_RequestCaptured \<in> set (wh_events h))
                  \<or> (kind = ResponseCaptured \<and> WE_ResponseCaptured \<in> set (wh_events h)))])"
    by (cases kind) (auto simp: dispatch_change_def Let_def comp_def split: option.split)
qed

theorem webhooks_well_formed_witness:
  "let h = \<lparr>wh_id = ''a'', wh_name = None, wh_url = ''http://u/'', wh_events = [WE_RequestCaptured], wh_enabled = True, wh_secret = None\<rparr>
   in (\<forall>g \<in> set (fst (snd (delete_webhook None ''b'' [h]))). webhook_ok g)"
proof -
  let ?h = "\<lparr>wh_id = ''a'', wh_name = None, wh_url = ''http://u/'', wh_events = [WE_RequestCaptured], wh_enabled = True, wh_secret = None\<rparr>"
  have "\<forall>h \<in> set [?h]. webhook_ok h" by (simp add: webhook_ok_def is_dispatchable_def)
  from webhooks_well_formed [OF this, of "\<lambda>_. None" "storage_of Map.empty" "\<lambda>_. Inl []" "\<lambda>_ _. None" "from_config False False" "''n''" None ?h "''b''"]
  show ?thesis by (simp add: Let_def)
qed

text \<open>An update takes the identifier of the body, which defaults to the empty string.\<close>

lemma updated_webhook_loses_id:
  assumes "check_webhook url_parse lookup policy (h\<lparr>wh_id := []\<rparr>) = None" "wh_id h = i" "webhook_ok h"
    "sanitize_webhook_events (wh_events h) = wh_events h"
  shows "fst (snd (update_webhook url_parse lookup policy io i (h\<lparr>wh_id := []\<rparr>) [h])) = [h\<lparr>wh_id := []\<rparr>]"
  using assms by (simp add: update_webhook_def saved_webhooks_def Let_def)

end
