(* ===== verification/UpdateCheck.thy ===== *)
theory UpdateCheck
  imports Utf8
begin

text \<open>
  The check for a newer release (\<open>control_plane/update.rs\<close>): the comparison of versions and the cached
  status. The release is what the request answers, an error is its text; \<open>now\<close> is a reading of the
  monotonic clock in seconds.
\<close>

record github_release =
  gr_tag_name :: string
  gr_html_url :: "string option"
  gr_name :: "string option"
  gr_published_at :: "string option"

record update_status =
  us_current :: string
  us_latest :: "string option"
  us_update_available :: bool
  us_release_url :: "string option"
  us_release_name :: "string option"
  us_published_at :: "string option"
  us_checked :: bool
  us_error :: "string option"
  us_checked_at :: "nat option"

definition RECHECK_AFTER :: nat where
  "RECHECK_AFTER = 24 * 60 * 60"

definition initial_status :: "string \<Rightarrow> update_status" where
  "initial_status current = \<lparr>us_current = current, us_latest = None, us_update_available = False,
     us_release_url = None, us_release_name = None, us_published_at = None, us_checked = False,
     us_error = None, us_checked_at = None\<rparr>"

definition is_stale :: "nat \<Rightarrow> update_status \<Rightarrow> bool" where
  "is_stale now s = (case us_checked_at s of None \<Rightarrow> True | Some at \<Rightarrow> RECHECK_AFTER \<le> now - at)"

text \<open>A missing component is zero; a fourth one is ignored.\<close>

definition version_part :: "string list \<Rightarrow> nat \<Rightarrow> u64 option" where
  "version_part parts k = parse_u64 (if k < length parts then parts ! k else ''0'')"

definition parse_version :: "string \<Rightarrow> (u64 \<times> u64 \<times> u64) option" where
  "parse_version value =
     (let trimmed = dropWhile (\<lambda>c. c = CHR ''v'' \<or> c = CHR ''V'') (trim_str value);
          core = takeWhile (\<lambda>c. c \<noteq> CHR ''-'' \<and> c \<noteq> CHR ''+'') trimmed;
          parts = split_char (CHR ''.'') core
      in Option.bind (version_part parts 0) (\<lambda>major.
         Option.bind (version_part parts 1) (\<lambda>minor.
         Option.bind (version_part parts 2) (\<lambda>patch. Some (major, minor, patch)))))"

fun version_less :: "u64 \<times> u64 \<times> u64 \<Rightarrow> u64 \<times> u64 \<times> u64 \<Rightarrow> bool" where
  "version_less (a, b, c) (a', b', c') \<longleftrightarrow> a < a' \<or> a = a' \<and> (b < b' \<or> b = b' \<and> c < c')"

definition is_newer :: "string \<Rightarrow> string \<Rightarrow> bool" where
  "is_newer latest current = (case (parse_version latest, parse_version current) of
     (Some l, Some c) \<Rightarrow> version_less c l | _ \<Rightarrow> False)"

definition refresh_update_status :: "string \<Rightarrow> nat \<Rightarrow> string + github_release \<Rightarrow> update_status \<Rightarrow> update_status" where
  "refresh_update_status current now outcome s0 =
     (let s = s0\<lparr>us_checked := True, us_checked_at := Some now\<rparr>
      in case outcome of
           Inr release \<Rightarrow>
             (let latest = trim_str (gr_tag_name release)
              in s\<lparr>us_update_available := is_newer latest current, us_release_url := gr_html_url release,
                   us_release_name := gr_name release, us_published_at := gr_published_at release,
                   us_latest := Some latest, us_error := None\<rparr>)
         | Inl e \<Rightarrow> s\<lparr>us_error := Some e\<rparr>)"

definition show_version :: "u64 \<times> u64 \<times> u64 \<Rightarrow> string" where
  "show_version v = (case v of (a, b, c) \<Rightarrow>
     decimal (unat a) @ ''.'' @ decimal (unat b) @ ''.'' @ decimal (unat c))"

section \<open>Lemmas\<close>

lemma decimal_chars: "c \<in> set (decimal n) \<Longrightarrow> is_ascii_digit c"
  using decimal_digits by (auto simp: list_all_iff)

lemma digit_not: "is_ascii_digit c \<Longrightarrow> c \<notin> {CHR ''v'', CHR ''V'', CHR ''-'', CHR ''+'', CHR ''.''}"
  by (auto simp: is_ascii_digit_def)

lemma decimal_hd_digit: "is_ascii_digit (hd (decimal n))" and decimal_last_digit: "is_ascii_digit (last (decimal n))"
  using decimal_chars by (meson decimal_not_Nil hd_in_set last_in_set)+

lemma parse_shown:
  assumes "sfx = [] \<or> hd sfx \<in> {CHR ''-'', CHR ''+''} \<and> printable (last sfx)"
    and "list_all (\<lambda>c. char_code c < 128) sfx"
  shows "parse_version (''v'' @ show_version v @ sfx) = Some v"
proof -
  obtain a b c where v: "v = (a, b, c)" by (cases v) auto
  let ?s = "show_version v"
  have chars: "is_ascii_digit d \<or> d = CHR ''.''" if "d \<in> set ?s" for d
    using that by (auto simp: v show_version_def decimal_chars)
  have ends: "?s \<noteq> []" "is_ascii_digit (hd ?s)" "is_ascii_digit (last ?s)"
    by (simp_all add: v show_version_def decimal_hd_digit decimal_last_digit)
  have ascii: "list_all (\<lambda>c. char_code c < 128) (''v'' @ ?s @ sfx)"
    using chars assms(2) by (fastforce simp: list_all_iff is_ascii_digit_def)
  have "printable (last (''v'' @ ?s @ sfx))"
    using ends assms(1) by (cases "sfx = []") (auto simp: printable_def is_ascii_digit_def)
  then have trim: "trim_str (''v'' @ ?s @ sfx) = ''v'' @ ?s @ sfx"
    using ascii by (intro trim_str_printable) (simp_all add: printable_def)
  have drop: "dropWhile (\<lambda>c. c = CHR ''v'' \<or> c = CHR ''V'') (''v'' @ ?s @ sfx) = ?s @ sfx"
    using ends digit_not [of "hd ?s"] by (cases ?s) auto
  have "\<forall>c \<in> set ?s. c \<noteq> CHR ''-'' \<and> c \<noteq> CHR ''+''" using chars digit_not by fastforce
  then have core: "takeWhile (\<lambda>c. c \<noteq> CHR ''-'' \<and> c \<noteq> CHR ''+'') (?s @ sfx) = ?s"
    using assms(1) by (cases sfx) (auto simp: takeWhile_append2 takeWhile_eq_all_conv)
  have nodot: "CHR ''.'' \<notin> set (decimal n)" for n using decimal_chars digit_not by blast
  have parts: "split_char (CHR ''.'') ?s = [decimal (unat a), decimal (unat b), decimal (unat c)]"
    using nodot by (simp add: v show_version_def split_char_append_sep split_char_single)
  show ?thesis
    unfolding parse_version_def trim drop core Let_def parts by (simp add: version_part_def v)
qed

text \<open>Versions are compared as numbers, component by component, whatever their pre-release or build
  suffixes: a release counts as newer exactly when its three numbers are greater in lexicographic
  order, so no release is newer than itself and of two releases at most one is newer than the other.\<close>

theorem newer_release:
  assumes "\<forall>x \<in> {s, t}. x = [] \<or> hd x \<in> {CHR ''-'', CHR ''+''} \<and> printable (last x)
       \<and> list_all (\<lambda>c. char_code c < 128) x"
  shows "is_newer (''v'' @ show_version v @ s) (''v'' @ show_version w @ t) \<longleftrightarrow>
      (case (v, w) of ((a, b, c), (a', b', c')) \<Rightarrow>
         unat a' < unat a \<or> unat a' = unat a \<and> (unat b' < unat b \<or> unat b' = unat b \<and> unat c' < unat c))
    \<and> \<not> (is_newer (''v'' @ show_version v @ s) (''v'' @ show_version w @ t)
          \<and> is_newer (''v'' @ show_version w @ t) (''v'' @ show_version v @ s))"
proof -
  have "parse_version (''v'' @ show_version v @ s) = Some v" "parse_version (''v'' @ show_version w @ t) = Some w"
    using assms by (intro parse_shown; auto)+
  then have new: "is_newer (''v'' @ show_version v @ s) (''v'' @ show_version w @ t) \<longleftrightarrow> version_less w v"
    "is_newer (''v'' @ show_version w @ t) (''v'' @ show_version v @ s) \<longleftrightarrow> version_less v w"
    by (simp_all add: is_newer_def)
  obtain a b c a' b' c' where vw: "v = (a, b, c)" "w = (a', b', c')" by (cases v; cases w) auto
  have "\<not> (version_less w v \<and> version_less v w)" unfolding vw by auto
  moreover have "version_less w v \<longleftrightarrow>
      unat a' < unat a \<or> unat a' = unat a \<and> (unat b' < unat b \<or> unat b' = unat b \<and> unat c' < unat c)"
    unfolding vw by (simp add: word_less_nat_alt word_unat_eq_iff)
  ultimately show ?thesis unfolding new unfolding vw prod.case by blast
qed

theorem newer_release_witness:
  "is_newer (''v'' @ show_version (1, 10, 0) @ ''-rc1'') (''v'' @ show_version (1, 9, 3) @ [])"
proof -
  have "\<forall>x \<in> {''-rc1'', []}. x = [] \<or> hd x \<in> {CHR ''-'', CHR ''+''} \<and> printable (last x)
       \<and> list_all (\<lambda>c. char_code c < 128) x" by (simp add: printable_def)
  from newer_release [OF this, of "(1, 10, 0)" "(1, 9, 3)"] show ?thesis by auto
qed

text \<open>A failed check keeps what the last successful one found.\<close>

lemma failed_check_keeps_release:
  "us_latest (refresh_update_status current now (Inl e) s) = us_latest s
   \<and> us_update_available (refresh_update_status current now (Inl e) s) = us_update_available s
   \<and> \<not> is_stale now (refresh_update_status current now (Inl e) s)"
  by (simp add: refresh_update_status_def is_stale_def RECHECK_AFTER_def Let_def)

end
