(* ===== verification/Playback.thy ===== *)
theory Playback
  imports Engine Security
begin

text \<open>
  Replaying recorded exchanges (\<open>core/playback.rs\<close>). The parsers of methods, URLs and headers, the
  resolver and the client are third party; \<open>pb_send\<close> is the call to the client: the status and the
  body, \<open>None\<close> in place of the body when it cannot be read, or nothing at all when there is no answer.
\<close>

record 'w playback =
  pb_method_ok :: "string \<Rightarrow> bool"
  pb_url_parse :: "string \<Rightarrow> url option"
  pb_name :: "string \<Rightarrow> string option"
  pb_value :: "string \<Rightarrow> string option"
  pb_lookup :: "string \<Rightarrow> u16 \<Rightarrow> ip_addr list option"
  pb_policy :: admin_egress_policy
  pb_send :: "upstream_request \<Rightarrow> 'w \<Rightarrow> (u16 \<times> bytes option) option \<times> 'w"

definition hop_by_hop_names :: "string list" where
  "hop_by_hop_names = [''host'', ''connection'', ''transfer-encoding'', ''keep-alive'', ''proxy-authenticate'',
     ''proxy-authorization'', ''te'', ''trailer'', ''upgrade'']"

definition is_hop_by_hop_header :: "string \<Rightarrow> bool" where
  "is_hop_by_hop_header name \<longleftrightarrow> to_ascii_lowercase name \<in> set hop_by_hop_names"

definition replay_headers :: "'w playback \<Rightarrow> header_map \<Rightarrow> (string \<times> string) list" where
  "replay_headers pb headers = List.map_filter (\<lambda>(name, value).
     if is_hop_by_hop_header name then None
     else case (pb_name pb name, pb_value pb value) of (Some n, Some v) \<Rightarrow> Some (n, v) | _ \<Rightarrow> None) (entries headers)"

definition replay_request :: "'w playback \<Rightarrow> request_context \<Rightarrow> upstream_request" where
  "replay_request pb request = \<lparr>uq_url = rq_uri request, uq_headers = replay_headers pb (rq_headers request),
     uq_method = rq_method request,
     uq_body = (if rq_body request = [] then No_Body else Full_Body (rq_body request))\<rparr>"

definition prepare_replay :: "'w playback \<Rightarrow> exchange \<Rightarrow> upstream_request option" where
  "prepare_replay pb x =
     (let request = ex_request x
      in if \<not> pb_method_ok pb (rq_method request) then None
         else case pb_url_parse pb (rq_uri request) of
           None \<Rightarrow> None
         | Some u \<Rightarrow> (case enforce_admin_egress_policy (pb_lookup pb) u (pb_policy pb) of
             Inl _ \<Rightarrow> None | Inr () \<Rightarrow> Some (replay_request pb request)))"

definition replay_method :: "string \<Rightarrow> string" where
  "replay_method m = ''[REPLAY] '' @ m"

definition replay_one :: "'w session_world \<Rightarrow> 'w playback \<Rightarrow> exchange \<Rightarrow> 'w \<Rightarrow> upstream_request option \<times> 'w" where
  "replay_one sw pb x w = (case prepare_replay pb x of
     None \<Rightarrow> (None, w)
   | Some r \<Rightarrow> (case pb_send pb r w of
       (None, w1) \<Rightarrow> (Some r, w1)
     | (Some (status, body), w1) \<Rightarrow>
         (let (i, w2) = sw_uuid sw w1;
              request = (ex_request x)\<lparr>rq_method := replay_method (rq_method (ex_request x))\<rparr>;
              w3 = sw_emit sw [WO_RecordRequest i request Playback] w2;
              response = rs_default\<lparr>rs_status := status,
                rs_body := (case body of Some b \<Rightarrow> b | None \<Rightarrow> []), rs_request_uri := rq_uri (ex_request x)\<rparr>;
              w4 = sw_emit sw [WO_RecordResponse i response] w3
          in (Some r, annotate_tags sw i [''replay''] w4))))"

fun replay :: "'w session_world \<Rightarrow> 'w playback \<Rightarrow> exchange list \<Rightarrow> 'w \<Rightarrow> upstream_request list \<times> 'w" where
  "replay sw pb [] w = ([], w)"
| "replay sw pb (x # xs) w =
     (let (sent, w1) = replay_one sw pb x w; (rest, w2) = replay sw pb xs w1
      in ((case sent of Some r \<Rightarrow> [r] | None \<Rightarrow> []) @ rest, w2))"

section \<open>Lemmas\<close>

text \<open>What a replayed request may be.\<close>

definition replayable :: "'w playback \<Rightarrow> exchange \<Rightarrow> upstream_request \<Rightarrow> bool" where
  "replayable pb x r \<longleftrightarrow> pb_method_ok pb (rq_method (ex_request x)) \<and> r = replay_request pb (ex_request x)
     \<and> (\<exists>u. pb_url_parse pb (rq_uri (ex_request x)) = Some u
          \<and> enforce_admin_egress_policy (pb_lookup pb) u (pb_policy pb) = Inr ())"

lemma prepare_replay_Some: "prepare_replay pb x = Some r \<longleftrightarrow> replayable pb x r"
  by (auto simp: prepare_replay_def replayable_def Let_def split: option.splits sum.splits unit.splits)

lemma replay_one_sent: "fst (replay_one sw pb x w) = prepare_replay pb x"
  by (auto simp: replay_one_def annotate_tags_def split_beta Let_def split: option.splits prod.splits)

lemma replay_sent: "fst (replay sw pb xs w) = List.map_filter (prepare_replay pb) xs"
proof (induction xs arbitrary: w)
  case (Cons x xs)
  then show ?case using replay_one_sent [of sw pb x w]
    by (auto simp: split_beta Let_def map_filter_simps split: option.split)
qed (simp add: map_filter_simps)

lemma replay_headers_end_to_end:
  assumes "(n, v) \<in> set (replay_headers pb h)" and "\<And>m k. pb_name pb m = Some k \<Longrightarrow> k = to_ascii_lowercase m"
  shows "\<not> is_hop_by_hop_header n"
proof -
  obtain m where "pb_name pb m = Some n" "\<not> is_hop_by_hop_header m"
    using assms(1) by (auto simp: replay_headers_def map_filter_def split: if_splits option.splits)
  with assms(2) [of m n] show ?thesis by (simp add: is_hop_by_hop_header_def)
qed

context recorder
begin

text \<open>What replaying an exchange hands to the session writer.\<close>

lemma replay_one_log:
  assumes "ok w" and send: "\<And>r w. ok w \<Longrightarrow> ok (snd (pb_send pb r w)) \<and> log (snd (pb_send pb r w)) = log w"
  shows "ok (snd (replay_one sw pb x w)) \<and>
     (log (snd (replay_one sw pb x w)) = log w \<or>
      (\<exists>i r status body. prepare_replay pb x = Some r \<and> fst (pb_send pb r w) = Some (status, body)
         \<and> log (snd (replay_one sw pb x w)) = log w @
          [WO_RecordRequest i ((ex_request x)\<lparr>rq_method := replay_method (rq_method (ex_request x))\<rparr>) Playback,
           WO_RecordResponse i (rs_default\<lparr>rs_status := status,
              rs_body := (case body of Some b \<Rightarrow> b | None \<Rightarrow> []), rs_request_uri := rq_uri (ex_request x)\<rparr>),
           WO_Annotate i None (Some [''replay''])]))"
proof (cases "prepare_replay pb x")
  case (Some r)
  obtain a w1 where s: "pb_send pb r w = (a, w1)" by (cases "pb_send pb r w")
  then have w1: "ok w1" "log w1 = log w" using send [OF assms(1), of r] by simp_all
  obtain i w2 where u: "sw_uuid sw w1 = (i, w2)" by (cases "sw_uuid sw w1")
  then have w2: "ok w2" "log w2 = log w" using w1 uuid_ok [OF w1(1)] uuid_log [OF w1(1)] by simp_all
  show ?thesis
  proof (cases a)
    case None
    with Some s w1 show ?thesis by (simp add: replay_one_def)
  next
    case answer: (Some p)
    obtain status body where "p = (status, body)" by (cases p)
    with Some s u answer w2 show ?thesis
      by (auto simp: replay_one_def annotate_tags_def Let_def emit_log emit_ok wait_log wait_ok)
  qed
qed (simp add: replay_one_def assms)

lemma replay_log:
  assumes "ok w" and send: "\<And>r w. ok w \<Longrightarrow> ok (snd (pb_send pb r w)) \<and> log (snd (pb_send pb r w)) = log w"
  shows "\<exists>ops. log (snd (replay sw pb xs w)) = log w @ ops
     \<and> (\<forall>op \<in> set ops. \<forall>i c src. op = WO_RecordRequest i c src \<longrightarrow> src = Playback \<and>
          (\<exists>x \<in> set xs. prepare_replay pb x \<noteq> None
             \<and> c = (ex_request x)\<lparr>rq_method := replay_method (rq_method (ex_request x))\<rparr>))"
  using assms(1)
proof (induction xs arbitrary: w)
  case (Cons x xs)
  let ?w1 = "snd (replay_one sw pb x w)"
  note one = replay_one_log [where pb = pb, OF Cons.prems send, of x]
  then have "ok ?w1" by blast
  from Cons.IH [OF this] obtain ops where ops: "log (snd (replay sw pb xs ?w1)) = log ?w1 @ ops"
    "\<forall>op \<in> set ops. \<forall>i c src. op = WO_RecordRequest i c src \<longrightarrow> src = Playback \<and>
          (\<exists>x \<in> set xs. prepare_replay pb x \<noteq> None
             \<and> c = (ex_request x)\<lparr>rq_method := replay_method (rq_method (ex_request x))\<rparr>)" by blast
  from one consider "log ?w1 = log w" | i r s b where "prepare_replay pb x = Some r"
    "log ?w1 = log w @ [WO_RecordRequest i ((ex_request x)\<lparr>rq_method := replay_method (rq_method (ex_request x))\<rparr>) Playback,
        WO_RecordResponse i s, WO_Annotate i None (Some b)]" by blast
  then show ?case
  proof cases
    case 1
    with ops show ?thesis by (intro exI [of _ ops]) (auto simp: split_beta Let_def)
  next
    case 2
    with ops show ?thesis
      by (intro exI [of _ "[WO_RecordRequest i ((ex_request x)\<lparr>rq_method := replay_method (rq_method (ex_request x))\<rparr>) Playback,
        WO_RecordResponse i s, WO_Annotate i None (Some b)] @ ops"]) (auto simp: split_beta Let_def)
  qed
qed simp

end

section \<open>Properties\<close>


definition sample_playback :: "recorder_state playback" where
  "sample_playback = \<lparr>pb_method_ok = (\<lambda>m. CHR '' '' \<notin> set m),
     pb_url_parse = (\<lambda>_. Some \<lparr>url_scheme = ''http'', url_host_str = Some ''example.com'', url_port = None\<rparr>),
     pb_name = (\<lambda>n. Some (to_ascii_lowercase n)), pb_value = Some, pb_lookup = (\<lambda>_ _. None),
     pb_policy = from_config False False, pb_send = (\<lambda>_ w. (Some (200, Some [111, 107]), w))\<rparr>"

definition recorded_exchange :: "request_context \<Rightarrow> exchange" where
  "recorded_exchange r = new_exchange ''x'' r Proxy 0"


text \<open>A body that the budget has evicted is replayed as none, under the length of the original.\<close>

lemma evicted_body_keeps_length:
  assumes "rq_body c = []" and "(''content-length'', v) \<in> set (entries (rq_headers c))"
    and "pb_name pb ''content-length'' = Some n" and "pb_value pb v = Some u"
  shows "uq_body (replay_request pb c) = No_Body \<and> (n, u) \<in> set (uq_headers (replay_request pb c))"
proof -
  have "\<not> is_hop_by_hop_header ''content-length''"
    by (simp add: is_hop_by_hop_header_def hop_by_hop_names_def to_ascii_lowercase_def ascii_lower_def)
  then show ?thesis using assms
    by (force simp: replay_request_def replay_headers_def map_filter_def image_iff)
qed

end
