(* ===== verification/Utf8_Strings.thy ===== *)
theory Utf8_Strings
  imports Utf8
begin

text \<open>
  Strings put together from pieces: the scalar values of a concatenation, and what trimming leaves
  alone. \<open>utf8_start\<close> holds of every valid string: it does not begin inside a character.
\<close>

definition utf8_start :: "string \<Rightarrow> bool" where
  "utf8_start s \<longleftrightarrow> s = [] \<or> \<not> is_continuation (hd s)"

lemma utf8_start_Cons [simp]: "utf8_start (c # s) \<longleftrightarrow> \<not> is_continuation c" and utf8_start_Nil [simp]: "utf8_start []"
  by (simp_all add: utf8_start_def)

lemma not_continuation [simp]: "printable c \<Longrightarrow> \<not> is_continuation c"
  by (simp add: printable_def is_continuation_def)

lemma not_continuation_ascii [simp]: "\<not> is_continuation (CHR '' '')" "\<not> is_continuation (CHR 39)"
  by (simp_all add: is_continuation_def)

lemma utf8_chars_append_start: "utf8_start t \<Longrightarrow> utf8_chars (s @ t) = utf8_chars s @ utf8_chars t"
proof (induction s rule: utf8_chars.induct)
  case (2 c cs)
  have "takeWhile is_continuation t = []" "dropWhile is_continuation t = t"
    using "2.prems" by (cases t; simp)+
  then have "takeWhile is_continuation (cs @ t) = takeWhile is_continuation cs"
    and "dropWhile is_continuation (cs @ t) = dropWhile is_continuation cs @ t"
    by (induction cs) auto
  with 2 show ?case by simp
qed simp

lemma utf8_chars_Cons_start: "utf8_start t \<Longrightarrow> utf8_chars (c # t) = [c] # utf8_chars t"
  using utf8_chars_append_start [of t "[c]"] by simp

lemma utf8_chars_no_char: "c \<notin> set s \<Longrightarrow> [c] \<notin> set (utf8_chars s)"
proof
  assume "c \<notin> set s" and "[c] \<in> set (utf8_chars s)"
  then have "c \<in> set (concat (utf8_chars s))" unfolding set_concat by fastforce
  then show False using \<open>c \<notin> set s\<close> by simp
qed

lemma trim_str_blank: "utf8_start s \<Longrightarrow> trim_str (CHR '' '' # s) = trim_str s"
  by (simp add: trim_str_def utf8_chars_Cons_start ascii_white_space del: utf8_chars.simps(2))

lemma trim_str_ends:
  assumes "printable a" "printable b" "utf8_start s"
  shows "trim_str (a # s @ [b]) = a # s @ [b]"
proof -
  have "utf8_start (s @ [b])" using assms by (cases s) simp_all
  then have "utf8_chars (a # s @ [b]) = [a] # utf8_chars s @ [[b]]"
    using assms utf8_chars_append_start [of "[b]" s] by (simp add: utf8_chars_Cons_start del: utf8_chars.simps(2))
  moreover have "[a] \<notin> white_space" "[b] \<notin> white_space"
    using assms by (auto simp: ascii_white_space printable_def)
  ultimately show ?thesis by (simp add: trim_str_def del: utf8_chars.simps(2))
qed

lemma trim_str_all_printable:
  assumes "list_all printable s"
  shows "trim_str s = s"
proof (rule trim_str_printable)
  show "s = [] \<or> printable (hd s) \<and> printable (last s)" using assms by (cases "s = []") (simp_all add: list_all_iff)
  show "list_all (\<lambda>c. char_code c < 128) s" using assms by (auto simp: list_all_iff printable_def)
qed

lemma dropWhile_rev_dropWhile:
  "dropWhile P (rev (dropWhile P (rev (dropWhile P xs)))) = rev (dropWhile P (rev (dropWhile P xs)))"
proof -
  define ys where "ys = dropWhile P xs"
  define gs where "gs = rev (dropWhile P (rev ys))"
  have "ys = gs @ rev (takeWhile P (rev ys))"
    unfolding gs_def by (metis rev_append rev_rev_ident takeWhile_dropWhile_id)
  then have "gs \<noteq> [] \<Longrightarrow> hd gs = hd ys \<and> ys \<noteq> []" by (metis append_is_Nil_conv hd_append2)
  then have "gs \<noteq> [] \<Longrightarrow> \<not> P (hd gs)" using hd_dropWhile [of P xs] by (auto simp: ys_def)
  then have "dropWhile P gs = gs" by (cases gs) simp_all
  then show ?thesis by (simp only: gs_def ys_def)
qed

lemma trim_str_idem: "utf8_start s \<Longrightarrow> trim_str (trim_str s) = trim_str s"
proof -
  assume "utf8_start s"
  then have grouped: "well_grouped (utf8_chars s)" by (intro utf8_chars_well_grouped) (cases s; simp)
  define gs where "gs = rev (dropWhile (\<lambda>g. g \<in> white_space) (rev (dropWhile (\<lambda>g. g \<in> white_space) (utf8_chars s))))"
  have "set gs \<subseteq> set (utf8_chars s)" by (auto simp: gs_def dest!: set_dropWhileD)
  then have chars: "utf8_chars (concat gs) = gs"
    using grouped by (intro utf8_chars_concat) (auto simp: well_grouped_def)
  have "dropWhile (\<lambda>g. g \<in> white_space) gs = gs" unfolding gs_def by (rule dropWhile_rev_dropWhile)
  moreover have "dropWhile (\<lambda>g. g \<in> white_space) (rev gs) = rev gs" by (simp add: gs_def dropWhile_idem)
  ultimately have "trim_str (concat gs) = concat gs" by (simp only: trim_str_def chars) simp
  then show ?thesis by (simp add: trim_str_def [of s] gs_def)
qed

end
