(* ===== verification/Export.thy ===== *)
theory Export
  imports Redaction SessionStore Utf8_Strings
begin

text \<open>
  Requests as commands (\<open>export.rs\<close>): the export of a recorded request as a curl command, a call of
  \<open>fetch\<close> or a Python script, and the parser of curl commands with its shell tokeniser. The parser
  of URLs and the check of a method are third party (\<open>curl_lib\<close>), as is the JSON printer of
  strings. \<open>printed\<close> says which scalar values beyond ASCII the \<open>Debug\<close> form of a string prints as
  they are, a table of the standard library.
\<close>

section \<open>Export\<close>

definition replay_skipped :: "string list" where
  "replay_skipped = [''host'', ''content-length'', ''connection'', ''keep-alive'', ''proxy-authenticate'',
     ''proxy-authorization'', ''proxy-connection'', ''te'', ''trailer'', ''transfer-encoding'', ''upgrade'']"

definition should_skip_replay_header :: "string \<Rightarrow> bool" where
  "should_skip_replay_header header =
     (let h = to_ascii_lowercase (trim_str header) in h \<in> set replay_skipped \<or> starts_with h ''x-oproxy-'')"

text \<open>The headers and the body that every format exports.\<close>

definition exported_headers :: "bool \<Rightarrow> request_context \<Rightarrow> header_map" where
  "exported_headers redact req = (if redact then redact_headers (rq_headers req) else rq_headers req)"

definition exported_body :: "json_lib \<Rightarrow> bool \<Rightarrow> request_context \<Rightarrow> string" where
  "exported_body js redact req =
     (if redact then redact_body_text js (rq_body_text req) else rq_body_text req)"

definition replayed_headers :: "header_map \<Rightarrow> (string \<times> string) list" where
  "replayed_headers h = filter (\<lambda>(k, _). \<not> should_skip_replay_header k) (entries h)"

definition escape_quote :: "string \<Rightarrow> string" where
  "escape_quote v = replace_str [CHR 39] [CHR 39, CHR 92, CHR 39, CHR 39] v"

definition header_argument :: "string \<times> string \<Rightarrow> string" where
  "header_argument kv = ''-H '' @ [CHR 39] @ fst kv @ '': '' @ escape_quote (snd kv) @ [CHR 39]"

definition curl_separator :: string where
  "curl_separator = [CHR '' '', CHR 92, CHR 10, CHR '' '', CHR '' '']"

definition export_as_curl_with_redaction :: "json_lib \<Rightarrow> exchange \<Rightarrow> bool \<Rightarrow> string" where
  "export_as_curl_with_redaction js ex redact =
     (let req = ex_request ex;
          parts = [''curl -X '' @ rq_method req @ '' '' @ [CHR 39] @ rq_uri req @ [CHR 39]]
            @ map header_argument (replayed_headers (exported_headers redact req))
            @ (if rq_body req = [] then []
               else [''--data '' @ [CHR 39] @ escape_quote (exported_body js redact req) @ [CHR 39]])
      in join_str curl_separator parts)"

definition export_as_curl :: "json_lib \<Rightarrow> exchange \<Rightarrow> string" where
  "export_as_curl js ex = export_as_curl_with_redaction js ex True"

definition export_as_curl_raw :: "json_lib \<Rightarrow> exchange \<Rightarrow> string" where
  "export_as_curl_raw js ex = export_as_curl_with_redaction js ex False"

definition export_as_fetch_with_redaction ::
    "(string \<Rightarrow> string) \<Rightarrow> json_lib \<Rightarrow> exchange \<Rightarrow> bool \<Rightarrow> string" where
  "export_as_fetch_with_redaction js_string js ex redact =
     (let req = ex_request ex; quote = [CHR 34]; nl = [CHR 10];
          headers_obj = map (\<lambda>(k, v). ''    '' @ js_string k @ '': '' @ js_string v)
            (replayed_headers (exported_headers redact req));
          opts = [''  method: '' @ quote @ rq_method req @ quote,
                  ''  headers: {'' @ nl @ join_str ('','' @ nl) headers_obj @ nl @ ''  }'']
            @ (if rq_body req = [] then [] else [''  body: '' @ js_string (exported_body js redact req)])
      in ''fetch('' @ quote @ rq_uri req @ quote @ '', {'' @ nl @ join_str ('','' @ nl) opts @ nl @ ''});'')"

definition export_as_fetch :: "(string \<Rightarrow> string) \<Rightarrow> json_lib \<Rightarrow> exchange \<Rightarrow> string" where
  "export_as_fetch js_string js ex = export_as_fetch_with_redaction js_string js ex True"

definition export_as_fetch_raw :: "(string \<Rightarrow> string) \<Rightarrow> json_lib \<Rightarrow> exchange \<Rightarrow> string" where
  "export_as_fetch_raw js_string js ex = export_as_fetch_with_redaction js_string js ex False"

text \<open>The \<open>Debug\<close> form of a string.\<close>

fun hex_digits :: "nat \<Rightarrow> string" where
  "hex_digits n = (if n < 16 then [] else hex_digits (n div 16))
     @ [let d = n mod 16 in char_of (if d < 10 then 48 + d else 87 + d)]"

declare hex_digits.simps [simp del]

definition code_point :: "string \<Rightarrow> nat" where
  "code_point g = (case map char_code g of
     [] \<Rightarrow> 0
   | [a] \<Rightarrow> a
   | a # ks \<Rightarrow> foldl (\<lambda>n k. n * 64 + k mod 64) (a mod (if length ks = 1 then 32 else if length ks = 2 then 16 else 8)) ks)"

definition escape_debug :: "(string \<Rightarrow> bool) \<Rightarrow> string \<Rightarrow> string" where
  "escape_debug printed g =
     (if g = [CHR 0x00] then [CHR 92, CHR ''0'']
      else if g = [CHR 9] then [CHR 92, CHR ''t'']
      else if g = [CHR 13] then [CHR 92, CHR ''r'']
      else if g = [CHR 10] then [CHR 92, CHR ''n'']
      else if g = [CHR 92] \<or> g = [CHR 34] then CHR 92 # g
      else if (case g of [c] \<Rightarrow> 32 \<le> char_code c \<and> char_code c < 127 | _ \<Rightarrow> printed g) then g
      else [CHR 92] @ ''u{'' @ hex_digits (code_point g) @ ''}'')"

definition python_string :: "(string \<Rightarrow> bool) \<Rightarrow> string \<Rightarrow> string" where
  "python_string printed v = [CHR 34] @ concat (map (escape_debug printed) (utf8_chars v)) @ [CHR 34]"

definition export_as_python_with_redaction ::
    "(string \<Rightarrow> bool) \<Rightarrow> json_lib \<Rightarrow> exchange \<Rightarrow> bool \<Rightarrow> string" where
  "export_as_python_with_redaction printed js ex redact =
     (let req = ex_request ex; quote = [CHR 34]; nl = [CHR 10];
          headers_entries = map (\<lambda>(k, v). ''    '' @ python_string printed k @ '': '' @ python_string printed v)
            (replayed_headers (exported_headers redact req));
          headers_str = ''{'' @ nl @ join_str ('','' @ nl) headers_entries @ nl @ ''}'';
          body_line = (if rq_body req = [] then []
            else nl @ ''data = '' @ python_string printed (exported_body js redact req) @ nl);
          data_arg = (if rq_body req = [] then [] else '', data=data'')
      in ''import requests'' @ nl @ nl @ ''url = '' @ quote @ rq_uri req @ quote @ nl @ ''headers = ''
         @ headers_str @ body_line @ nl @ ''response = requests.request('' @ quote @ rq_method req @ quote
         @ '', url, headers=headers'' @ data_arg @ '')'' @ nl @ ''print(response.text)'')"

definition export_as_python :: "(string \<Rightarrow> bool) \<Rightarrow> json_lib \<Rightarrow> exchange \<Rightarrow> string" where
  "export_as_python printed js ex = export_as_python_with_redaction printed js ex True"

definition export_as_python_raw :: "(string \<Rightarrow> bool) \<Rightarrow> json_lib \<Rightarrow> exchange \<Rightarrow> string" where
  "export_as_python_raw printed js ex = export_as_python_with_redaction printed js ex False"

section \<open>The shell tokeniser\<close>

text \<open>It reads scalar values. A quoted token ends at its quote, an unquoted one at a blank or a tab.\<close>

fun single_quoted :: "string list \<Rightarrow> (string \<times> string list) option" where
  "single_quoted [] = None"
| "single_quoted (g # gs) =
     (if g = [CHR 39] then Some ([], gs) else map_option (\<lambda>(t, r). (g @ t, r)) (single_quoted gs))"

definition unescaped :: "string \<Rightarrow> string" where
  "unescaped g = (if g = ''n'' then [CHR 10] else if g = ''t'' then [CHR 9] else g)"

fun double_quoted :: "string list \<Rightarrow> (string \<times> string list) option" where
  "double_quoted [] = None"
| "double_quoted (g # gs) =
     (if g = [CHR 34] then Some ([], gs)
      else if g = [CHR 92] then
        (case gs of [] \<Rightarrow> None
         | e # gs' \<Rightarrow> map_option (\<lambda>(t, r). (unescaped e @ t, r)) (double_quoted gs'))
      else map_option (\<lambda>(t, r). (g @ t, r)) (double_quoted gs))"

lemma single_quoted_rest: "single_quoted gs = Some (t, r) \<Longrightarrow> length r < length gs"
  by (induction gs arbitrary: t) (fastforce split: if_splits)+

lemma double_quoted_rest: "double_quoted gs = Some (t, r) \<Longrightarrow> length r < length gs"
proof (induction gs arbitrary: t rule: double_quoted.induct)
  case (2 g gs)
  then show ?case by (cases gs) (fastforce split: if_splits)+
qed simp

abbreviation blank :: "string \<Rightarrow> bool" where
  "blank g \<equiv> g = '' '' \<or> g = [CHR 9]"

lemma blank_white_space: "blank g \<Longrightarrow> g \<in> white_space"
  using ascii_white_space [of "CHR '' ''"] ascii_white_space [of "CHR 9"] by auto

function tokenise_shell :: "string list \<Rightarrow> string + string list" where
  "tokenise_shell s =
     (case dropWhile (\<lambda>g. g \<in> white_space) s of
        [] \<Rightarrow> Inr []
      | g # gs \<Rightarrow>
          if g = [CHR 39] then
            (case single_quoted gs of
               None \<Rightarrow> Inl ''Unterminated single-quoted string''
             | Some (tok, r) \<Rightarrow> map_sum id ((#) tok) (tokenise_shell r))
          else if g = [CHR 34] then
            (case double_quoted gs of
               None \<Rightarrow> Inl ''Unterminated double-quoted string''
             | Some (tok, r) \<Rightarrow> map_sum id ((#) tok) (tokenise_shell r))
          else map_sum id ((#) (concat (takeWhile (\<lambda>g. \<not> blank g) (g # gs))))
                 (tokenise_shell (dropWhile (\<lambda>g. \<not> blank g) (g # gs))))"
  by pat_completeness auto
termination
proof (relation "measure length", goal_cases)
  case (2 s g gs p tok r)
  then show ?case using single_quoted_rest [of gs tok r] length_dropWhile_le [of "\<lambda>g. g \<in> white_space" s] by simp
next
  case (3 s g gs p tok r)
  then show ?case using double_quoted_rest [of gs tok r] length_dropWhile_le [of "\<lambda>g. g \<in> white_space" s] by simp
next
  case (4 s g gs)
  then have "g \<notin> white_space" using hd_dropWhile [of "\<lambda>g. g \<in> white_space" s] by auto
  then have "\<not> blank g" using blank_white_space by blast
  then show ?case using 4 length_dropWhile_le [of "\<lambda>g. g \<in> white_space" s]
      length_dropWhile_le [of "\<lambda>g. \<not> blank g" gs] by simp
qed simp

declare tokenise_shell.simps [simp del]

section \<open>Import\<close>

record curl_lib =
  cl_url_scheme :: "string \<Rightarrow> string + string"
  cl_method_ok :: "string \<Rightarrow> bool"

record parsed_curl =
  pc_method :: string
  pc_url :: string
  pc_headers :: "string \<rightharpoonup> string"
  pc_body :: string

definition validate_http_url :: "curl_lib \<Rightarrow> string \<Rightarrow> string + unit" where
  "validate_http_url cl url = (case cl_url_scheme cl url of
     Inl e \<Rightarrow> Inl (''Invalid URL: '' @ e)
   | Inr scheme \<Rightarrow> if scheme \<in> {''http'', ''https''} then Inr () else Inl (''Unsupported URL scheme: '' @ scheme))"

definition data_flags :: "string list" where
  "data_flags = [''-d'', ''--data'', ''--data-raw'', ''--data-binary'', ''--data-ascii'']"

definition add_header :: "string \<Rightarrow> parsed_curl \<Rightarrow> parsed_curl" where
  "add_header h out = (case split_once (CHR '':'') h of
     None \<Rightarrow> out
   | Some (k, v) \<Rightarrow> out\<lparr>pc_headers := (pc_headers out)(trim_str k \<mapsto> trim_str v)\<rparr>)"

fun curl_args :: "string list \<Rightarrow> parsed_curl \<Rightarrow> parsed_curl" where
  "curl_args [] out = out"
| "curl_args (t # ts) out =
     (if t = ''-X'' \<or> t = ''--request'' then
        (case ts of [] \<Rightarrow> out | m # us \<Rightarrow> curl_args us (out\<lparr>pc_method := m\<rparr>))
      else if t = ''-H'' \<or> t = ''--header'' then
        (case ts of [] \<Rightarrow> out | h # us \<Rightarrow> curl_args us (add_header h out))
      else if t \<in> set data_flags then
        (case ts of [] \<Rightarrow> out | d # us \<Rightarrow> curl_args us (out\<lparr>pc_body := trim_start_char (CHR ''@'') d\<rparr>))
      else if t = ''-G'' \<or> t = ''--get'' then curl_args ts (out\<lparr>pc_method := ''GET''\<rparr>)
      else if t = ''-I'' \<or> t = ''--head'' then curl_args ts (out\<lparr>pc_method := ''HEAD''\<rparr>)
      else if \<not> starts_with t ''-'' \<and> pc_url out = [] then curl_args ts (out\<lparr>pc_url := t\<rparr>)
      else curl_args ts out)"

definition normalise_curl :: "string \<Rightarrow> string" where
  "normalise_curl input =
     replace_str [CHR 92, CHR 13, CHR 10] '' '' (replace_str [CHR 92, CHR 10] '' '' (trim_str input))"

definition after_last_slash :: "string \<Rightarrow> string" where
  "after_last_slash t = (case rsplit_once (CHR ''/'') t of Some (_, b) \<Rightarrow> b | None \<Rightarrow> t)"

definition parse_curl :: "curl_lib \<Rightarrow> string \<Rightarrow> string + parsed_curl" where
  "parse_curl cl input =
     (case tokenise_shell (utf8_chars (normalise_curl input)) of
        Inl e \<Rightarrow> Inl e
      | Inr [] \<Rightarrow> Inl ''No curl command found''
      | Inr (command # args) \<Rightarrow>
          if after_last_slash command \<noteq> ''curl'' then Inl ''Input must start with curl''
          else let out = curl_args args \<lparr>pc_method = [], pc_url = [], pc_headers = Map.empty, pc_body = []\<rparr>
               in if pc_url out = [] then Inl ''No URL found in curl command''
                  else case validate_http_url cl (pc_url out) of
                    Inl e \<Rightarrow> Inl e
                  | Inr _ \<Rightarrow>
                      let out = (if pc_method out = []
                            then out\<lparr>pc_method := (if pc_body out = [] then ''GET'' else ''POST'')\<rparr> else out)
                      in if cl_method_ok cl (pc_method out) then Inr out
                         else Inl (''Invalid HTTP method: '' @ pc_method out))"

definition curl_host :: "string \<Rightarrow> string" where
  "curl_host url =
     (let rest = (case find_str ''://'' url of Some i \<Rightarrow> drop (i + 3) url | None \<Rightarrow> url)
      in hd (split_char (CHR ''/'') rest))"

definition request_of_curl :: "((string \<rightharpoonup> string) \<Rightarrow> (string \<times> string) list) \<Rightarrow> parsed_curl \<Rightarrow> request_context" where
  "request_of_curl iter p = rq_default\<lparr>rq_method := pc_method p, rq_uri := pc_url p,
     rq_headers := hm_of_hash iter (pc_headers p), rq_body := bytes_of_string (pc_body p),
     rq_host := curl_host (pc_url p)\<rparr>"

section \<open>A command that was exported is understood\<close>

subsection \<open>Replacing\<close>

lemma replace_str_sep:
  assumes "c \<notin> set pat" and "pat \<noteq> []"
  shows "replace_str pat to (x @ c # y) = replace_str pat to x @ c # replace_str pat to y"
  using assms
proof (induction pat to x rule: replace_str.induct)
  case (1 pat to)
  then show ?case by (cases pat) auto
next
  case (2 pat to a cs)
  have "prefix pat ((a # cs) @ c # y) \<longleftrightarrow> prefix pat (a # cs)"
    using "2.prems"(1) unfolding prefix_append by (auto simp: prefix_Cons)
  moreover have "prefix pat (a # cs) \<Longrightarrow>
      drop (length pat) ((a # cs) @ c # y) = drop (length pat) (a # cs) @ c # y"
    using prefix_length_le [of pat "a # cs"] by (simp only: drop_append) simp
  ultimately show ?case using 2 by auto
qed

lemma replace_str_absent: "\<not> sublist pat s \<Longrightarrow> replace_str pat to s = s"
proof (induction pat to s rule: replace_str.induct)
  case (2 pat to c cs)
  then show ?case by (auto simp: sublist_Cons_right)
qed simp

lemma replace_str_Cons: "pat \<noteq> [] \<Longrightarrow> c \<notin> set pat \<Longrightarrow> replace_str pat to (c # s) = c # replace_str pat to s"
  using replace_str_sep [of c pat to "[]" s] by simp

subsection \<open>Tokens\<close>

definition tokens :: "string \<Rightarrow> string + string list" where
  "tokens s = tokenise_shell (utf8_chars s)"

lemma tokens_Nil [simp]: "tokens [] = Inr []"
  by (simp add: tokens_def tokenise_shell.simps)

lemma tokens_blank: "utf8_start s \<Longrightarrow> tokens (CHR '' '' # s) = tokens s"
  unfolding tokens_def
  by (subst (1 2) tokenise_shell.simps) (simp add: utf8_chars_Cons_start ascii_white_space del: utf8_chars.simps(2))

lemma single_quoted_append: "[CHR 39] \<notin> set gs \<Longrightarrow> single_quoted (gs @ [CHR 39] # r) = Some (concat gs, r)"
  by (induction gs) auto

lemma tokens_quoted:
  assumes "CHR 39 \<notin> set b" and "utf8_start b" and "utf8_start s"
  shows "tokens (CHR 39 # b @ CHR 39 # s) = map_sum id ((#) b) (tokens s)"
proof -
  have "utf8_chars (CHR 39 # b @ CHR 39 # s) = [CHR 39] # utf8_chars b @ [CHR 39] # utf8_chars s"
    using assms utf8_chars_append_start [of "CHR 39 # s" b]
    by (cases b) (simp_all add: utf8_chars_Cons_start del: utf8_chars.simps(2))
  moreover have "single_quoted (utf8_chars b @ [CHR 39] # utf8_chars s) = Some (b, utf8_chars s)"
    using single_quoted_append [OF utf8_chars_no_char [OF assms(1)]] by simp
  moreover have "[CHR 39] \<notin> white_space" by (simp add: ascii_white_space)
  ultimately show ?thesis unfolding tokens_def by (subst tokenise_shell.simps) simp
qed

lemma while_until:
  "\<forall>x \<in> set xs. P x \<Longrightarrow> \<not> P y \<Longrightarrow> takeWhile P (xs @ y # ys) = xs \<and> dropWhile P (xs @ y # ys) = y # ys"
  by (induction xs) auto

lemma tokens_word:
  assumes "list_all printable w" "w \<noteq> []" "hd w \<notin> {CHR 39, CHR 34}" and "utf8_start s"
  shows "tokens (w @ CHR '' '' # s) = map_sum id ((#) w) (tokens s)"
proof -
  obtain c cs where w: "w = c # cs" using assms(2) by (cases w) auto
  have "\<forall>c \<in> set w. \<not> is_continuation c" using assms(1) by (auto simp: list_all_iff)
  then have chars: "utf8_chars (w @ CHR '' '' # s) = map (\<lambda>c. [c]) w @ utf8_chars (CHR '' '' # s)"
    using utf8_chars_append_start [of "CHR '' '' # s" w] by (simp add: utf8_chars_no_cont del: utf8_chars.simps(2))
  have "[c] \<notin> white_space" using assms(1) w by (auto simp: ascii_white_space printable_def)
  moreover have "\<forall>g \<in> set (map (\<lambda>c. [c]) w). \<not> blank g" using assms(1) by (auto simp: list_all_iff printable_def)
  then have "takeWhile (\<lambda>g. \<not> blank g) (map (\<lambda>c. [c]) w @ utf8_chars (CHR '' '' # s)) = map (\<lambda>c. [c]) w"
    and "dropWhile (\<lambda>g. \<not> blank g) (map (\<lambda>c. [c]) w @ utf8_chars (CHR '' '' # s)) = utf8_chars (CHR '' '' # s)"
    using while_until [of "map (\<lambda>c. [c]) w" "\<lambda>g. \<not> blank g" "'' ''" "utf8_chars s"]
    by (simp_all add: utf8_chars_Cons_start [OF assms(4)] del: utf8_chars.simps(2))
  moreover have "concat (map (\<lambda>c. [c]) w) = w" by (induction w) auto
  ultimately have "tokenise_shell (utf8_chars (w @ CHR '' '' # s))
      = map_sum id ((#) w) (tokenise_shell (utf8_chars (CHR '' '' # s)))"
    unfolding chars using assms(3) w by (subst tokenise_shell.simps) simp
  then show ?thesis using tokens_blank [OF assms(4)] by (simp add: tokens_def)
qed

text \<open>What a part of the command contributes to the tokens.\<close>

definition piece :: "string \<Rightarrow> string list \<Rightarrow> bool" where
  "piece p ts \<longleftrightarrow> utf8_start p \<and> (\<forall>s. utf8_start s \<longrightarrow> tokens (p @ s) = map_sum id ((@) ts) (tokens s))"

lemma map_sum_Cons: "map_sum id ((#) w) (map_sum id ((@) us) r) = map_sum id ((@) (w # us)) r"
  by (cases r) simp_all

lemma append_singleton [simp]: "(@) [b] = (#) b"
  by (rule ext) simp

lemma piece_word:
  assumes "list_all printable w" "w \<noteq> []" "hd w \<notin> {CHR 39, CHR 34}" and "piece p ts"
  shows "piece (w @ CHR '' '' # p) (w # ts)"
proof -
  have "utf8_start (p @ s)" if "utf8_start s" for s
    using assms(4) that by (cases p) (simp_all add: piece_def)
  then have "tokens ((w @ CHR '' '' # p) @ s) = map_sum id ((@) (w # ts)) (tokens s)" if "utf8_start s" for s
    using tokens_word [OF assms(1-3), of "p @ s"] assms(4) that
    by (simp add: piece_def map_sum_Cons)
  moreover have "utf8_start (w @ CHR '' '' # p)" using assms(1,2) by (cases w) simp_all
  ultimately show ?thesis by (simp add: piece_def)
qed

lemma piece_quoted: "CHR 39 \<notin> set b \<Longrightarrow> utf8_start b \<Longrightarrow> piece (CHR 39 # b @ [CHR 39]) [b]"
  using tokens_quoted [of b] by (simp add: piece_def)

lemma tokens_join:
  "list_all2 piece ps tss \<Longrightarrow> utf8_start (join_str ''    '' ps) \<and> tokens (join_str ''    '' ps) = Inr (concat tss)"
proof (induction ps tss rule: list_all2_induct)
  case (Cons p ps ts tss)
  show ?case
  proof (cases ps)
    case Nil
    then show ?thesis using Cons spec [of _ "[]"] by (simp add: piece_def) (metis append_Nil2 map_sum.simps(2) tokens_Nil utf8_start_Nil)
  next
    case (Cons q qs)
    let ?r = "join_str ''    '' ps"
    have join: "join_str ''    '' (p # ps) = p @ ''    '' @ ?r" using Cons by simp
    have "tokens (p @ ''    '' @ ?r) = map_sum id ((@) ts) (tokens (''    '' @ ?r))"
      using Cons.hyps(1) by (simp add: piece_def)
    moreover have "tokens (''    '' @ ?r) = tokens ?r" using Cons.IH by (simp add: tokens_blank)
    moreover have "utf8_start (p @ ''    '' @ ?r)" using Cons.hyps(1) by (cases p) (simp_all add: piece_def)
    ultimately show ?thesis using Cons.IH unfolding join by simp
  qed
qed simp

subsection \<open>The command\<close>

lemma replace_curl_separator:
  "\<forall>p \<in> set ps. replace_str [CHR 92, CHR 10] '' '' p = p \<Longrightarrow>
   replace_str [CHR 92, CHR 10] '' '' (join_str curl_separator ps) = join_str ''    '' ps"
proof (induction ps rule: induct_list012)
  case (3 x y zs)
  let ?r = "join_str curl_separator (y # zs)"
  have "replace_str [CHR 92, CHR 10] '' '' (x @ CHR '' '' # (CHR 92 # CHR 10 # CHR '' '' # CHR '' '' # ?r))
      = x @ CHR '' '' # replace_str [CHR 92, CHR 10] '' '' (CHR 92 # CHR 10 # CHR '' '' # CHR '' '' # ?r)"
    using 3 by (subst replace_str_sep) simp_all
  with 3 show ?case by (simp add: curl_separator_def)
qed simp_all

lemma replace_join_blanks:
  "\<forall>p \<in> set ps. replace_str pat to p = p \<Longrightarrow> CHR '' '' \<notin> set pat \<Longrightarrow> pat \<noteq> [] \<Longrightarrow>
   replace_str pat to (join_str ''    '' ps) = join_str ''    '' ps"
proof (induction ps rule: induct_list012)
  case (3 x y zs)
  have "replace_str pat to (x @ CHR '' '' # (''   '' @ join_str ''    '' (y # zs)))
      = x @ CHR '' '' # replace_str pat to (''   '' @ join_str ''    '' (y # zs))"
    using 3 by (subst replace_str_sep) simp_all
  with 3 show ?case by (simp add: replace_str_Cons del: replace_str.simps(2))
qed simp_all

lemma join_last: "ps \<noteq> [] \<Longrightarrow> \<forall>p \<in> set ps. \<exists>q. p = q @ [x] \<Longrightarrow> \<exists>q. join_str sep ps = q @ [x]"
proof (induction ps rule: induct_list012)
  case (3 p y zs)
  then obtain q where "join_str sep (y # zs) = q @ [x]" by auto
  then show ?case by simp
qed auto

lemma trim_join:
  assumes "\<forall>p \<in> set (p # ps). \<exists>q. p = q @ [CHR 39]" and "p = ''curl'' @ p'"
  shows "trim_str (join_str sep (p # ps)) = join_str sep (p # ps)"
proof -
  obtain q where q: "join_str sep (p # ps) = q @ [CHR 39]" using join_last [of "p # ps"] assms(1) by blast
  obtain r where r: "join_str sep (p # ps) = ''curl'' @ r" using assms(2) by (cases ps) auto
  obtain q' where q': "q = CHR ''c'' # q'" using q r by (cases q) auto
  then have "utf8_start q'" using q r by (cases q') (auto simp: is_continuation_def)
  then show ?thesis using trim_str_ends [of "CHR ''c''" "CHR 39" q'] q q' by (simp add: printable_def)
qed

text \<open>What survives in single quotes: no single quote, and no backslash before the end of a line.\<close>

definition quotable :: "string \<Rightarrow> bool" where
  "quotable s \<longleftrightarrow> CHR 39 \<notin> set s \<and> \<not> contains_str s [CHR 92, CHR 10] \<and> \<not> contains_str s [CHR 92, CHR 13, CHR 10]
     \<and> utf8_start s"

definition exportable_header :: "string \<times> string \<Rightarrow> bool" where
  "exportable_header kv \<longleftrightarrow> fst kv \<noteq> [] \<and> list_all printable (fst kv) \<and> CHR '':'' \<notin> set (fst kv) \<and> CHR 39 \<notin> set (fst kv)
     \<and> quotable (snd kv) \<and> trim_str (snd kv) = snd kv"

definition exportable :: "curl_lib \<Rightarrow> request_context \<Rightarrow> bool" where
  "exportable cl req \<longleftrightarrow>
     rq_method req \<noteq> [] \<and> list_all printable (rq_method req) \<and> hd (rq_method req) \<notin> {CHR 39, CHR 34}
     \<and> cl_method_ok cl (rq_method req)
     \<and> rq_uri req \<noteq> [] \<and> list_all printable (rq_uri req) \<and> CHR 39 \<notin> set (rq_uri req) \<and> \<not> starts_with (rq_uri req) ''-''
     \<and> validate_http_url cl (rq_uri req) = Inr ()
     \<and> list_all exportable_header (replayed_headers (rq_headers req))
     \<and> quotable (rq_body_text req) \<and> \<not> starts_with (rq_body_text req) ''@''"

lemma quotable_fixed:
  "quotable s \<Longrightarrow> replace_str [CHR 92, CHR 10] t s = s \<and> replace_str [CHR 92, CHR 13, CHR 10] t s = s \<and> escape_quote s = s"
  by (auto simp: quotable_def contains_str_sublist escape_quote_def sublist_def intro!: replace_str_absent)

lemma printable_fixed:
  "list_all printable s \<Longrightarrow> replace_str [CHR 92, CHR 10] t s = s \<and> replace_str [CHR 92, CHR 13, CHR 10] t s = s"
  by (auto simp: sublist_def list_all_iff printable_def intro!: replace_str_absent)

definition header_tokens :: "string \<times> string \<Rightarrow> string list" where
  "header_tokens kv = [''-H'', fst kv @ '': '' @ snd kv]"

lemma header_argument_parts:
  assumes "exportable_header kv"
  shows "header_argument kv = ''-H'' @ CHR '' '' # CHR 39 # (fst kv @ '': '' @ snd kv) @ [CHR 39]"
    and "piece (header_argument kv) [''-H'', fst kv @ '': '' @ snd kv]"
    and "replace_str [CHR 92, CHR 10] t (header_argument kv) = header_argument kv"
    and "replace_str [CHR 92, CHR 13, CHR 10] t (header_argument kv) = header_argument kv"
    and "add_header (fst kv @ '': '' @ snd kv) out = out\<lparr>pc_headers := (pc_headers out)(fst kv \<mapsto> snd kv)\<rparr>"
proof -
  note kv = assms [unfolded exportable_header_def]
  show eq: "header_argument kv = ''-H'' @ CHR '' '' # CHR 39 # (fst kv @ '': '' @ snd kv) @ [CHR 39]"
    using kv quotable_fixed [of "snd kv"] by (simp add: header_argument_def)
  have "piece (CHR 39 # (fst kv @ '': '' @ snd kv) @ [CHR 39]) [fst kv @ '': '' @ snd kv]"
    using kv by (intro piece_quoted) (cases "fst kv"; auto simp: quotable_def)+
  then show "piece (header_argument kv) [''-H'', fst kv @ '': '' @ snd kv]"
    unfolding eq by (intro piece_word) (simp_all add: printable_def)
  show "replace_str [CHR 92, CHR 10] t (header_argument kv) = header_argument kv"
    and "replace_str [CHR 92, CHR 13, CHR 10] t (header_argument kv) = header_argument kv"
    unfolding eq using kv quotable_fixed [of "snd kv" t] printable_fixed [of "fst kv" t]
    by (simp_all add: replace_str_sep)
  have "trim_str (fst kv) = fst kv" using kv by (simp add: trim_str_all_printable)
  moreover have "trim_str (CHR '' '' # snd kv) = snd kv" using kv trim_str_blank [of "snd kv"] by (simp add: quotable_def)
  ultimately show "add_header (fst kv @ '': '' @ snd kv) out = out\<lparr>pc_headers := (pc_headers out)(fst kv \<mapsto> snd kv)\<rparr>"
    using kv split_once_append [of "CHR '':''" "fst kv" "CHR '' '' # snd kv"] by (simp add: add_header_def)
qed

lemma curl_args_headers:
  "list_all exportable_header hs \<Longrightarrow>
   curl_args (concat (map header_tokens hs) @ ts) out =
   curl_args ts (out\<lparr>pc_headers := pc_headers out ++ map_of (rev hs)\<rparr>)"
proof (induction hs arbitrary: out)
  case (Cons kv hs)
  then show ?case using header_argument_parts(5) [of kv out] by (cases kv) (simp add: header_tokens_def)
qed simp

definition data_argument :: "request_context \<Rightarrow> string list" where
  "data_argument req = (if rq_body req = [] then [] else [''--data'' @ CHR '' '' # CHR 39 # rq_body_text req @ [CHR 39]])"

definition data_tokens :: "request_context \<Rightarrow> string list" where
  "data_tokens req = (if rq_body req = [] then [] else [''--data'', rq_body_text req])"

lemma body_text_Nil [simp]: "rq_body req = [] \<Longrightarrow> rq_body_text req = []"
  by (simp add: rq_body_text_def from_utf8_lossy_def string_of_bytes_def)

lemma data_argument_parts:
  assumes "quotable (rq_body_text req)"
  shows "list_all2 piece (data_argument req) (if rq_body req = [] then [] else [data_tokens req])"
    and "\<forall>p \<in> set (data_argument req). replace_str [CHR 92, CHR 10] t p = p
           \<and> replace_str [CHR 92, CHR 13, CHR 10] t p = p \<and> (\<exists>q. p = q @ [CHR 39])"
proof -
  note b = assms [unfolded quotable_def]
  have "piece (CHR 39 # rq_body_text req @ [CHR 39]) [rq_body_text req]" using b by (intro piece_quoted) auto
  then have "piece (''--data'' @ CHR '' '' # CHR 39 # rq_body_text req @ [CHR 39]) [''--data'', rq_body_text req]"
    by (intro piece_word) (simp_all add: printable_def)
  then show "list_all2 piece (data_argument req) (if rq_body req = [] then [] else [data_tokens req])"
    by (simp add: data_argument_def data_tokens_def)
  show "\<forall>p \<in> set (data_argument req). replace_str [CHR 92, CHR 10] t p = p
           \<and> replace_str [CHR 92, CHR 13, CHR 10] t p = p \<and> (\<exists>q. p = q @ [CHR 39])"
    using quotable_fixed [OF assms, of t] by (simp add: data_argument_def replace_str_sep)
qed

definition command_argument :: "request_context \<Rightarrow> string" where
  "command_argument req = ''curl'' @ CHR '' '' # ''-X'' @ CHR '' '' # rq_method req @ CHR '' '' # CHR 39 # rq_uri req @ [CHR 39]"

lemma command_argument_parts:
  assumes "exportable cl req"
  shows "piece (command_argument req) [''curl'', ''-X'', rq_method req, rq_uri req]"
    and "replace_str [CHR 92, CHR 10] t (command_argument req) = command_argument req
       \<and> replace_str [CHR 92, CHR 13, CHR 10] t (command_argument req) = command_argument req"
proof -
  note r = assms [unfolded exportable_def]
  have "piece (CHR 39 # rq_uri req @ [CHR 39]) [rq_uri req]"
    using r by (intro piece_quoted) (cases "rq_uri req"; auto)+
  then show "piece (command_argument req) [''curl'', ''-X'', rq_method req, rq_uri req]"
    unfolding command_argument_def using r by (intro piece_word) (simp_all add: printable_def)
  show "replace_str [CHR 92, CHR 10] t (command_argument req) = command_argument req
       \<and> replace_str [CHR 92, CHR 13, CHR 10] t (command_argument req) = command_argument req"
    using r printable_fixed [of "rq_method req" t] printable_fixed [of "rq_uri req" t]
    by (simp add: command_argument_def replace_str_sep)
qed

lemma export_parts:
  assumes "exportable cl (ex_request ex)"
  shows "export_as_curl_raw js ex = join_str curl_separator (command_argument (ex_request ex)
     # map header_argument (replayed_headers (rq_headers (ex_request ex))) @ data_argument (ex_request ex))"
  using assms quotable_fixed [of "rq_body_text (ex_request ex)"]
  by (simp add: export_as_curl_raw_def export_as_curl_with_redaction_def exported_headers_def exported_body_def
      command_argument_def data_argument_def exportable_def Let_def)

lemma blank_outside: "CHR '' '' \<notin> set [CHR 92, CHR 13, CHR 10]" by simp

lemma export_tokens:
  assumes "exportable cl (ex_request ex)"
  shows "tokenise_shell (utf8_chars (normalise_curl (export_as_curl_raw js ex))) =
     Inr ([''curl'', ''-X'', rq_method (ex_request ex), rq_uri (ex_request ex)]
       @ concat (map header_tokens (replayed_headers (rq_headers (ex_request ex))))
       @ data_tokens (ex_request ex))"
proof -
  let ?req = "ex_request ex"
  let ?hs = "replayed_headers (rq_headers ?req)"
  let ?rest = "map header_argument ?hs @ data_argument ?req"
  let ?ps = "command_argument ?req # ?rest"
  have hs: "list_all exportable_header ?hs" and body: "quotable (rq_body_text ?req)"
    using assms by (simp_all add: exportable_def)
  have fixed: "\<forall>p \<in> set ?ps. replace_str [CHR 92, CHR 10] '' '' p = p
      \<and> replace_str [CHR 92, CHR 13, CHR 10] '' '' p = p"
    using command_argument_parts(2) [OF assms] data_argument_parts(2) [OF body] header_argument_parts(3,4) hs
    by (auto simp: list_all_iff)
  have "header_argument kv = (''-H'' @ CHR '' '' # CHR 39 # fst kv @ '': '' @ escape_quote (snd kv)) @ [CHR 39]" for kv
    by (simp add: header_argument_def)
  moreover have "command_argument ?req = (''curl'' @ CHR '' '' # ''-X'' @ CHR '' '' # rq_method ?req @ CHR '' '' # CHR 39 # rq_uri ?req) @ [CHR 39]"
    by (simp add: command_argument_def)
  ultimately have "\<forall>p \<in> set ?ps. \<exists>q. p = q @ [CHR 39]"
    using data_argument_parts(2) [OF body] by fastforce
  then have trim: "trim_str (join_str curl_separator ?ps) = join_str curl_separator ?ps"
    by (rule trim_join) (simp add: command_argument_def)
  have "list_all2 piece (map header_argument ?hs) (map header_tokens ?hs)"
    using hs header_argument_parts(2) by (auto simp: list_all2_conv_all_nth list_all_length header_tokens_def)
  then have pieces: "list_all2 piece ?ps ([''curl'', ''-X'', rq_method ?req, rq_uri ?req]
      # map header_tokens ?hs @ (if rq_body ?req = [] then [] else [data_tokens ?req]))"
    using command_argument_parts(1) [OF assms] data_argument_parts(1) [OF body]
    by (intro list_all2_Cons [THEN iffD2] conjI list_all2_appendI)
  have "normalise_curl (export_as_curl_raw js ex) = join_str ''    '' ?ps"
    unfolding normalise_curl_def export_parts [OF assms] trim
    using replace_curl_separator [of ?ps] replace_join_blanks [of ?ps "[CHR 92, CHR 13, CHR 10]" "'' ''"] fixed
    by (metis (no_types, lifting) blank_outside(1) list.distinct(1))
  then show ?thesis using tokens_join [OF pieces] by (simp add: tokens_def data_tokens_def)
qed


definition sample_curl_lib :: curl_lib where
  "sample_curl_lib = \<lparr>cl_url_scheme = (\<lambda>_. Inr ''http''), cl_method_ok = (\<lambda>m. m \<noteq> [])\<rparr>"

definition sample_request :: request_context where
  "sample_request = rq_default\<lparr>rq_method := ''POST'', rq_uri := ''http://h/'',
     rq_headers := hm_append (hm_append hm_new ''host'' ''h'') ''accept'' ''x'', rq_body := bytes_of_string ''a=1''\<rparr>"

lemma lossy_ascii: "\<forall>c \<in> set s. char_code c < 128 \<Longrightarrow> from_utf8_lossy (bytes_of_string s) = s"
proof -
  assume s: "\<forall>c \<in> set s. char_code c < 128"
  have "unat (byte_of_char c) = char_code c" for c by (simp add: byte_of_char_def unat_of_nat of_char_mod_256)
  then have "\<forall>b \<in> set (bytes_of_string s). unat b < 128" using s by (simp add: bytes_of_string_def)
  then show ?thesis by (simp add: from_utf8_lossy_def lossy_valid valid_utf8_ascii)
qed

lemma sample_body: "rq_body_text sample_request = ''a=1''"
  using lossy_ascii [of "''a=1''"] by (simp add: sample_request_def rq_body_text_def)

lemma sample_headers: "replayed_headers (rq_headers sample_request) = [(''accept'', ''x'')]"
  by (simp add: sample_request_def replayed_headers_def hm_append_def hm_new_def should_skip_replay_header_def
      replay_skipped_def to_ascii_lowercase_def ascii_lower_def trim_str_all_printable printable_def Let_def)

lemma sample_exportable: "exportable sample_curl_lib sample_request"
  by (simp add: exportable_def exportable_header_def sample_body sample_headers quotable_def contains_str_def
      trim_str_all_printable sample_curl_lib_def validate_http_url_def printable_def is_continuation_def)
     (simp add: sample_request_def printable_def)


text \<open>A single quote inside a value is exported the way a shell reads it, but the tokeniser ends the
  token there: what is imported is cut.\<close>

lemma escaped_quote_cuts:
  assumes "CHR 39 \<notin> set a" "utf8_start a"
  shows "tokens (CHR 39 # escape_quote (a @ CHR 39 # b) @ s) =
     map_sum id ((#) a) (tokens (CHR 92 # CHR 39 # CHR 39 # escape_quote b @ s))"
proof -
  have "replace_str [CHR 39] t (a @ CHR 39 # b) = a @ t @ replace_str [CHR 39] t b" for t
    using assms(1) by (induction a) auto
  then have "escape_quote (a @ CHR 39 # b) = a @ CHR 39 # CHR 92 # CHR 39 # CHR 39 # escape_quote b"
    by (simp add: escape_quote_def)
  then show ?thesis
    using tokens_quoted [OF assms, of "CHR 92 # CHR 39 # CHR 39 # escape_quote b @ s"] by (simp add: is_continuation_def)
qed

text \<open>Every leading at sign of a body is removed, not one.\<close>

lemma at_signs_removed:
  "pc_body (curl_args [''-d'', ''@@x''] out) = ''x''"
  by (simp add: data_flags_def trim_start_char_def)

section \<open>Redacted exports\<close>

definition reveal :: "(string \<Rightarrow> string \<Rightarrow> string) \<Rightarrow> header_map \<Rightarrow> header_map" where
  "reveal f h = \<lparr>entries = map (\<lambda>(k, v). (k, if is_sensitive_key k then f k v else v)) (entries h)\<rparr>"

lemma redact_reveal:
  assumes "hm_wf h"
  shows "redact_headers (reveal f h) = redact_headers h"
proof -
  have "hm_wf (reveal f h)" using assms by (auto simp: hm_wf_def reveal_def list_all_iff)
  then have "entries (redact_headers (reveal f h)) = entries (redact_headers h)"
    using assms by (auto simp: redact_headers_entries reveal_def)
  then show ?thesis by simp
qed

text \<open>The default exports do not depend on the values of sensitive headers: whatever those values are
  replaced with, the curl command, the call of fetch and the Python script stay the same.\<close>

theorem exports_hide_secret_headers:
  assumes "hm_wf (rq_headers (ex_request ex))"
    and "ex' = ex\<lparr>ex_request := (ex_request ex)\<lparr>rq_headers := reveal f (rq_headers (ex_request ex))\<rparr>\<rparr>"
  shows "export_as_curl js ex' = export_as_curl js ex
    \<and> export_as_fetch js_string js ex' = export_as_fetch js_string js ex
    \<and> export_as_python printed js ex' = export_as_python printed js ex"
proof -
  let ?req = "ex_request ex" and ?req' = "ex_request ex'"
  have "exported_headers True ?req' = exported_headers True ?req" "exported_body js True ?req' = exported_body js True ?req"
      "rq_method ?req' = rq_method ?req" "rq_uri ?req' = rq_uri ?req" "rq_body ?req' = rq_body ?req"
    using assms by (simp_all add: exported_headers_def exported_body_def rq_body_text_def redact_reveal)
  then show ?thesis
    unfolding export_as_curl_def export_as_curl_with_redaction_def export_as_fetch_def
      export_as_fetch_with_redaction_def export_as_python_def export_as_python_with_redaction_def Let_def
    by (simp only: simp_thms)
qed

theorem exports_hide_secret_headers_witness:
  "export_as_curl js (new_exchange ''x'' (rq_default\<lparr>rq_headers := \<lparr>entries = [(''authorization'', ''a'')]\<rparr>\<rparr>) Proxy 0) =
   export_as_curl js (new_exchange ''x'' (rq_default\<lparr>rq_headers := \<lparr>entries = [(''authorization'', ''b'')]\<rparr>\<rparr>) Proxy 0)"
proof -
  let ?ex = "new_exchange ''x'' (rq_default\<lparr>rq_headers := \<lparr>entries = [(''authorization'', ''b'')]\<rparr>\<rparr>) Proxy 0"
  have "hm_wf (rq_headers (ex_request ?ex))"
    by (simp add: new_exchange_def hm_wf_def to_ascii_lowercase_def ascii_lower_def)
  from exports_hide_secret_headers [OF this refl, of js "\<lambda>_ _. ''a''"]
  have "export_as_curl js (?ex\<lparr>ex_request := (ex_request ?ex)\<lparr>rq_headers :=
      reveal (\<lambda>_ _. ''a'') (rq_headers (ex_request ?ex))\<rparr>\<rparr>) = export_as_curl js ?ex" by (rule conjunct1)
  moreover have "is_sensitive_key ''authorization''"
    by (simp add: is_sensitive_key_def sensitive_names_def to_ascii_lowercase_def ascii_lower_def
        trim_str_all_printable printable_def)
  ultimately show ?thesis by (simp add: new_exchange_def reveal_def)
qed

text \<open>The URL is exported as it is, secrets in its query included.\<close>

lemma url_exported_in_clear: "sublist (rq_uri (ex_request ex)) (export_as_curl js ex)"
proof -
  have join: "join_str sep (p # ps) = p @ (if ps = [] then [] else sep @ join_str sep ps)" for sep p ps
    by (cases ps) auto
  have middle: "sublist u ((a @ m @ b @ c @ u @ c) @ r)" for u a m b c r :: string
    using sublist_appendI [of u "a @ m @ b @ c" "c @ r"] by simp
  show ?thesis
    unfolding export_as_curl_def export_as_curl_with_redaction_def Let_def append_Cons [of "_ @ _"] append_Nil join
    by (rule middle)
qed

end
