(* ===== verification/Har.thy ===== *)
theory Har
  imports Complex_Main Redaction SessionStore Utf8_Strings
begin

text \<open>
  HTTP archives (\<open>har.rs\<close>): the conversion of recorded exchanges to entries of a HAR log and back.
  A \<open>har_lib\<close> holds what is third party: base64, the text form of a timestamp, and the
  identifier and the time taken for the \<open>k\<close>-th entry when it has none. The JSON form of the records is serde's.

  A double is the rational number it stands for, and every arithmetic operation rounds its exact
  result to 53 binary digits, to even on a tie; sums beyond the largest double stay finite here,
  which a conversion to \<open>u64\<close> does not see. The sum of the set-up times is one of 64-bit words, as
  in a release build. Sizes are integers: no buffer is longer than \<open>i64::MAX\<close>.
\<close>

section \<open>Doubles\<close>

type_synonym f64 = rat

fun bit_size :: "nat \<Rightarrow> nat" where
  "bit_size n = (if n = 0 then 0 else Suc (bit_size (n div 2)))"

declare bit_size.simps [simp del]

definition pow2 :: "int \<Rightarrow> rat" where
  "pow2 e = (if 0 \<le> e then 2 ^ nat e else 1 / 2 ^ nat (- e))"

text \<open>The exponent of the last digit of a number that is not zero.\<close>

definition last_exponent :: "rat \<Rightarrow> int" where
  "last_exponent x =
     (let (n, d) = quotient_of \<bar>x\<bar>;
          k = int (bit_size (nat n)) - int (bit_size (nat d))
      in max (- 1074) ((if pow2 k \<le> \<bar>x\<bar> then k else k - 1) - 52))"

definition round_even :: "rat \<Rightarrow> int" where
  "round_even y =
     (let f = \<lfloor>y\<rfloor>; r = y - of_int f
      in if r < 1 / 2 then f else if 1 / 2 < r then f + 1 else if even f then f else f + 1)"

definition f64_round :: "rat \<Rightarrow> f64" where
  "f64_round x = (if x = 0 then 0
     else let e = last_exponent x in of_int (round_even (x / pow2 e)) * pow2 e)"

definition f64_add :: "f64 \<Rightarrow> f64 \<Rightarrow> f64" where
  "f64_add a b = f64_round (a + b)"

definition f64_of_u64 :: "u64 \<Rightarrow> f64" where
  "f64_of_u64 n = f64_round (of_nat (unat n))"

text \<open>A cast to an unsigned type truncates and saturates.\<close>

definition u64_of_f64 :: "f64 \<Rightarrow> u64" where
  "u64_of_f64 x = (if x < 1 then 0 else if 2 ^ 64 \<le> x then - 1 else of_int \<lfloor>x\<rfloor>)"

section \<open>The archive\<close>

record har_name_value =
  nv_name :: string
  nv_value :: string

record har_cookie =
  ck_name :: string
  ck_value :: string

record har_post_data =
  pd_mime_type :: string
  pd_text :: string

record har_content =
  hc_size :: int
  hc_mime_type :: string
  hc_text :: "string option"

record har_timings =
  ht_dns :: "f64 option"
  ht_connect :: "f64 option"
  ht_ssl :: "f64 option"
  ht_wait :: f64
  ht_receive :: f64
  ht_send :: f64

definition har_timings_default :: har_timings where
  "har_timings_default = \<lparr>ht_dns = None, ht_connect = None, ht_ssl = None, ht_wait = 0, ht_receive = 0, ht_send = 0\<rparr>"

record har_request =
  hr_method :: string
  hr_url :: string
  hr_http_version :: string
  hr_cookies :: "har_cookie list"
  hr_headers :: "har_name_value list"
  hr_query_string :: "har_name_value list"
  hr_post_data :: "har_post_data option"
  hr_headers_size :: int
  hr_body_size :: int

record har_response =
  hs_status :: u16
  hs_status_text :: string
  hs_http_version :: string
  hs_cookies :: "har_cookie list"
  hs_headers :: "har_name_value list"
  hs_content :: har_content
  hs_redirect_url :: string
  hs_headers_size :: int
  hs_body_size :: int

record har_entry =
  he_started_date_time :: string
  he_time :: f64
  he_request :: har_request
  he_response :: har_response
  he_timings :: har_timings
  he_server_ip_address :: "string option"
  he_connection :: "string option"
  he_oproxy_id :: "string option"
  he_oproxy_note :: "string option"
  he_oproxy_tags :: "string list"
  he_oproxy_updated_at :: "string option"
  he_oproxy_stream_id :: "u64 option"
  he_oproxy_downstream_protocol :: "string option"
  he_oproxy_protocol_context :: "protocol_context option"

record har_creator =
  hk_name :: string
  hk_version :: string

record har_log =
  hl_version :: string
  hl_creator :: har_creator
  hl_entries :: "har_entry list"

record har_lib =
  hx_encode :: "bytes \<Rightarrow> string"
  hx_decode :: "string \<Rightarrow> bytes option"
  hx_rfc3339 :: "timestamp \<Rightarrow> string"
  hx_parse_time :: "string \<Rightarrow> timestamp option"
  hx_new_id :: "nat \<Rightarrow> string"
  hx_now :: "nat \<Rightarrow> timestamp"

section \<open>Utilities\<close>

definition har_body_text :: "har_lib \<Rightarrow> bytes \<Rightarrow> string \<Rightarrow> string" where
  "har_body_text hx body mime = (if is_binary_content_type mime then hx_encode hx body else from_utf8_lossy body)"

definition har_body_bytes :: "har_lib \<Rightarrow> string \<Rightarrow> string \<Rightarrow> bytes" where
  "har_body_bytes hx text mime =
     (if is_binary_content_type mime
      then case hx_decode hx text of Some b \<Rightarrow> b | None \<Rightarrow> bytes_of_string text
      else bytes_of_string text)"

definition har_skipped :: "string list" where
  "har_skipped = [''connection'', ''keep-alive'', ''proxy-authenticate'', ''proxy-authorization'',
     ''proxy-connection'', ''te'', ''trailer'', ''transfer-encoding'', ''upgrade'']"

definition should_skip_har_header :: "string \<Rightarrow> bool" where
  "should_skip_har_header header =
     (let h = to_ascii_lowercase (trim_str header) in h \<in> set har_skipped \<or> starts_with h ''x-oproxy-'')"

definition har_headers :: "header_map \<Rightarrow> har_name_value list" where
  "har_headers h = map (\<lambda>(k, v). \<lparr>nv_name = k, nv_value = v\<rparr>)
     (filter (\<lambda>(k, _). \<not> should_skip_har_header k) (entries h))"

definition har_header_map :: "har_name_value list \<Rightarrow> header_map" where
  "har_header_map hs = hm_from_iter (map (\<lambda>h. (nv_name h, nv_value h)) hs)"

definition url_decode :: "string \<Rightarrow> string" where
  "url_decode s = replace_str ''%20'' '' '' (replace_str ''+'' '' '' s)"

definition splitn2 :: "char \<Rightarrow> string \<Rightarrow> string \<times> string" where
  "splitn2 c s = (case split_once c s of Some p \<Rightarrow> p | None \<Rightarrow> (s, []))"

definition parse_query_string :: "string \<Rightarrow> har_name_value list" where
  "parse_query_string uri =
     (let query = (case find_str ''?'' uri of Some i \<Rightarrow> drop (i + 1) uri | None \<Rightarrow> [])
      in if query = [] then []
         else map (\<lambda>pair. let (n, v) = splitn2 (CHR ''='') pair in \<lparr>nv_name = url_decode n, nv_value = url_decode v\<rparr>)
                (split_char (CHR ''&'') query))"

definition har_extract_host :: "string \<Rightarrow> string" where
  "har_extract_host url =
     (let rest = (case find_str ''://'' url of Some i \<Rightarrow> drop (i + 3) url | None \<Rightarrow> url)
      in hd (split_char (CHR ''?'') (hd (split_char (CHR ''/'') rest))))"

definition parse_cookies :: "string \<Rightarrow> har_cookie list" where
  "parse_cookies s = List.map_filter (\<lambda>pair.
     let (n, v) = splitn2 (CHR ''='') (trim_str pair); name = trim_str n; value = trim_str v
     in if name = [] then None else Some \<lparr>ck_name = name, ck_value = value\<rparr>) (split_char (CHR '';'') s)"

definition extract_request_cookies :: "request_context \<Rightarrow> har_cookie list" where
  "extract_request_cookies req = (case hm_get (rq_headers req) ''cookie'' of Some v \<Rightarrow> parse_cookies v | None \<Rightarrow> [])"

definition extract_response_cookies :: "response_context \<Rightarrow> har_cookie list" where
  "extract_response_cookies res = (case hm_get (rs_headers res) ''set-cookie'' of
     Some v \<Rightarrow> parse_cookies (hd (split_char (CHR '';'') v)) | None \<Rightarrow> [])"

definition status_texts :: "(u16 \<times> string) list" where
  "status_texts = [(200, ''OK''), (201, ''Created''), (204, ''No Content''), (301, ''Moved Permanently''),
     (302, ''Found''), (304, ''Not Modified''), (400, ''Bad Request''), (401, ''Unauthorized''),
     (403, ''Forbidden''), (404, ''Not Found''), (405, ''Method Not Allowed''),
     (500, ''Internal Server Error''), (502, ''Bad Gateway''), (503, ''Service Unavailable'')]"

definition http_status_text :: "u16 \<Rightarrow> string" where
  "http_status_text status = (case map_of status_texts status of Some t \<Rightarrow> t | None \<Rightarrow> [])"

definition non_empty_string :: "string \<Rightarrow> string option" where
  "non_empty_string value = (let v = trim_str value in if v = [] then None else Some v)"

section \<open>From an exchange to an entry\<close>

definition exchange_request_to_har :: "request_context \<Rightarrow> har_request" where
  "exchange_request_to_har request =
     \<lparr>hr_method = rq_method request, hr_url = rq_uri request, hr_http_version = ''HTTP/1.1'',
      hr_cookies = extract_request_cookies request, hr_headers = har_headers (rq_headers request),
      hr_query_string = parse_query_string (rq_uri request),
      hr_post_data = (if rq_body request = [] then None
        else Some \<lparr>pd_mime_type = (case hm_get (rq_headers request) ''content-type'' of
                     Some t \<Rightarrow> t | None \<Rightarrow> ''application/octet-stream''),
                   pd_text = rq_body_text request\<rparr>),
      hr_headers_size = - 1, hr_body_size = int (length (rq_body request))\<rparr>"

definition empty_har_response :: har_response where
  "empty_har_response =
     \<lparr>hs_status = 0, hs_status_text = [], hs_http_version = ''HTTP/1.1'', hs_cookies = [], hs_headers = [],
      hs_content = \<lparr>hc_size = 0, hc_mime_type = ''application/octet-stream'', hc_text = None\<rparr>,
      hs_redirect_url = [], hs_headers_size = - 1, hs_body_size = - 1\<rparr>"

definition unwrap_or :: "'a \<Rightarrow> 'a option \<Rightarrow> 'a" where
  "unwrap_or d x = (case x of Some v \<Rightarrow> v | None \<Rightarrow> d)"

definition setup_ms :: "inspection_metrics \<Rightarrow> u64" where
  "setup_ms m = unwrap_or 0 (im_dns_ms m) + unwrap_or 0 (im_tcp_connect_ms m) + unwrap_or 0 (im_tls_ms m)"

definition saturating_sub :: "u64 \<Rightarrow> u64 \<Rightarrow> u64" where
  "saturating_sub a b = (if a \<le> b then 0 else a - b)"

definition har_timings_of :: "inspection_metrics \<Rightarrow> har_timings" where
  "har_timings_of m = \<lparr>ht_dns = map_option f64_of_u64 (im_dns_ms m),
     ht_connect = map_option f64_of_u64 (im_tcp_connect_ms m), ht_ssl = map_option f64_of_u64 (im_tls_ms m),
     ht_wait = f64_of_u64 (saturating_sub (im_ttfb_ms m) (setup_ms m)),
     ht_receive = f64_of_u64 (im_body_ms m), ht_send = 0\<rparr>"

definition exchange_response_to_har :: "har_lib \<Rightarrow> exchange \<Rightarrow> har_response \<times> f64 \<times> har_timings" where
  "exchange_response_to_har hx ex = (case ex_response ex of
     None \<Rightarrow> (empty_har_response, 0, har_timings_default)
   | Some response \<Rightarrow>
       (let mime = (case hm_get (rs_headers response) ''content-type'' of Some t \<Rightarrow> t | None \<Rightarrow> ''text/plain'')
        in (\<lparr>hs_status = rs_status response, hs_status_text = http_status_text (rs_status response),
             hs_http_version = unwrap_or ''HTTP/1.1'' (Option.bind (ex_metrics ex) im_protocol),
             hs_cookies = extract_response_cookies response, hs_headers = har_headers (rs_headers response),
             hs_content = \<lparr>hc_size = int (length (rs_body response)), hc_mime_type = mime,
               hc_text = (if rs_body response = [] then None else Some (har_body_text hx (rs_body response) mime))\<rparr>,
             hs_redirect_url = unwrap_or [] (hm_get (rs_headers response) ''location''),
             hs_headers_size = - 1, hs_body_size = int (length (rs_body response))\<rparr>,
            case ex_metrics ex of None \<Rightarrow> (0, har_timings_default)
            | Some m \<Rightarrow> (f64_of_u64 (im_latency_ms m), har_timings_of m))))"

definition exchange_to_har_entry :: "har_lib \<Rightarrow> exchange \<Rightarrow> har_entry" where
  "exchange_to_har_entry hx ex =
     (let (response, time, timings) = exchange_response_to_har hx ex
      in \<lparr>he_started_date_time = hx_rfc3339 hx (ex_timestamp ex), he_time = time,
          he_request = exchange_request_to_har (ex_request ex), he_response = response, he_timings = timings,
          he_server_ip_address = None, he_connection = ex_connection_id ex, he_oproxy_id = Some (ex_id ex),
          he_oproxy_note = ex_note ex, he_oproxy_tags = ex_tags ex,
          he_oproxy_updated_at = map_option (hx_rfc3339 hx) (ex_updated_at ex),
          he_oproxy_stream_id = ex_stream_id ex, he_oproxy_downstream_protocol = ex_downstream_protocol ex,
          he_oproxy_protocol_context = ex_protocol_context ex\<rparr>)"

section \<open>From an entry to an exchange\<close>

definition full_ttfb_ms :: "har_timings \<Rightarrow> u64" where
  "full_ttfb_ms t =
     (let setup = f64_add (f64_add (unwrap_or 0 (ht_dns t)) (unwrap_or 0 (ht_connect t))) (unwrap_or 0 (ht_ssl t))
      in u64_of_f64 (max (f64_add setup (ht_wait t)) 0))"

definition har_response_to_context :: "har_lib \<Rightarrow> har_entry \<Rightarrow> string \<Rightarrow> response_context option" where
  "har_response_to_context hx entry i =
     (let response = he_response entry; timings = he_timings entry
      in if hs_status response = 0 then None
         else Some (rs_default\<lparr>rs_status := hs_status response, rs_headers := har_header_map (hs_headers response),
           rs_body := har_body_bytes hx (unwrap_or [] (hc_text (hs_content response)))
             (trim_str (hd (split_char (CHR '';'') (hc_mime_type (hs_content response))))),
           rs_request_uri := hr_url (he_request entry), rs_session_id := Some i,
           rs_ttfb_ms := full_ttfb_ms timings, rs_body_ms := u64_of_f64 (ht_receive timings)\<rparr>))"

definition har_entry_metrics :: "har_entry \<Rightarrow> inspection_metrics option" where
  "har_entry_metrics entry =
     (let response = he_response entry; timings = he_timings entry
      in if he_time entry \<le> 0 \<and> hs_status response = 0 then None
         else Some \<lparr>im_latency_ms = u64_of_f64 (he_time entry),
           im_request_size_bytes = nat (hr_body_size (he_request entry)),
           im_response_size_bytes = nat (hs_body_size response), im_status_code = hs_status response,
           im_ttfb_ms = full_ttfb_ms timings, im_body_ms = u64_of_f64 (ht_receive timings),
           im_dns_ms = map_option u64_of_f64 (ht_dns timings),
           im_tcp_connect_ms = map_option u64_of_f64 (ht_connect timings),
           im_tls_ms = map_option u64_of_f64 (ht_ssl timings),
           im_protocol = non_empty_string (hs_http_version response)\<rparr>)"

definition har_entry_to_exchange :: "har_lib \<Rightarrow> nat \<Rightarrow> har_entry \<Rightarrow> exchange" where
  "har_entry_to_exchange hx k entry =
     (let request = he_request entry; i = unwrap_or (hx_new_id hx k) (he_oproxy_id entry)
      in \<lparr>ex_id = i, ex_timestamp = unwrap_or (hx_now hx k) (hx_parse_time hx (he_started_date_time entry)),
          ex_updated_at = Option.bind (he_oproxy_updated_at entry) (hx_parse_time hx),
          ex_request = rq_default\<lparr>rq_method := hr_method request, rq_uri := hr_url request,
            rq_headers := har_header_map (hr_headers request),
            rq_body := bytes_of_string (unwrap_or [] (map_option pd_text (hr_post_data request))),
            rq_host := har_extract_host (hr_url request)\<rparr>,
          ex_response = har_response_to_context hx entry i, ex_metrics = har_entry_metrics entry,
          ex_source = Imported, ex_ws_frames = [], ex_events = [], ex_flow = [],
          ex_note = he_oproxy_note entry, ex_tags = he_oproxy_tags entry, ex_inspector_data = None,
          ex_paused_at = None, ex_connection_id = he_connection entry, ex_stream_id = he_oproxy_stream_id entry,
          ex_downstream_protocol = he_oproxy_downstream_protocol entry,
          ex_protocol_context = he_oproxy_protocol_context entry\<rparr>)"

section \<open>Whole logs\<close>

definition strip_har_headers :: "header_map \<Rightarrow> header_map" where
  "strip_har_headers h = hm_retain (\<lambda>name _. \<not> should_skip_har_header name) h"

definition redact_exchange_for_export :: "json_lib \<Rightarrow> exchange \<Rightarrow> exchange" where
  "redact_exchange_for_export js ex =
     (let req = ex_request ex;
          values = sensitive_values js (rq_headers req) (rq_body_text req);
          req1 = req\<lparr>rq_headers := strip_har_headers (redact_headers (rq_headers req))\<rparr>;
          req2 = rq_set_body_text req1 (redact_body_text js (rq_body_text req1))
      in ex\<lparr>ex_request := req2, ex_response := map_option (\<lambda>response.
            let r1 = response\<lparr>rs_headers := strip_har_headers (redact_headers (rs_headers response))\<rparr>
            in rs_set_body_text r1 (redact_known_values (redact_body_text js (rs_body_text r1)) values))
          (ex_response ex)\<rparr>)"

definition har_of_entries :: "string \<Rightarrow> har_entry list \<Rightarrow> har_log" where
  "har_of_entries version es = \<lparr>hl_version = ''1.2'', hl_creator = \<lparr>hk_name = ''oproxy'', hk_version = version\<rparr>,
     hl_entries = es\<rparr>"

definition exchanges_to_har :: "har_lib \<Rightarrow> string \<Rightarrow> exchanges \<Rightarrow> har_log" where
  "exchanges_to_har hx version exchanges = har_of_entries version (map (exchange_to_har_entry hx \<circ> snd) exchanges)"

definition exchanges_to_har_redacted :: "json_lib \<Rightarrow> har_lib \<Rightarrow> string \<Rightarrow> exchanges \<Rightarrow> har_log" where
  "exchanges_to_har_redacted js hx version exchanges =
     har_of_entries version (map (exchange_to_har_entry hx \<circ> redact_exchange_for_export js \<circ> snd) exchanges)"

definition har_to_exchanges :: "har_lib \<Rightarrow> har_log \<Rightarrow> exchange list" where
  "har_to_exchanges hx har = map (\<lambda>(k, entry). har_entry_to_exchange hx k entry) (enumerate 0 (hl_entries har))"

section \<open>Small integers are exact\<close>

lemma bit_size_le: "n < 2 ^ k \<Longrightarrow> bit_size n \<le> k"
proof (induction n arbitrary: k rule: bit_size.induct)
  case (1 n)
  show ?case
  proof (cases "n = 0")
    case False
    with "1.prems" obtain j where "k = Suc j" by (cases k) auto
    with False 1 show ?thesis by (subst bit_size.simps) auto
  qed (simp add: bit_size.simps)
qed

lemma bit_size_1 [simp]: "bit_size (Suc 0) = 1" "bit_size 1 = 1"
  by (simp_all add: bit_size.simps)

lemma round_even_int [simp]: "round_even (of_int z) = z"
  by (simp add: round_even_def Let_def)

lemma f64_round_small:
  assumes "n < 2 ^ 53"
  shows "f64_round (of_nat n) = of_nat n"
proof (cases "n = 0")
  case False
  have q: "quotient_of \<bar>of_nat n :: rat\<bar> = (int n, 1)"
    using quotient_of_int [of "int n"] by (simp add: Rat.of_int_def Fract_of_int_eq of_nat_of_int_iff)
  have le: "last_exponent (of_nat n) \<le> 0"
    using bit_size_le [OF assms] by (simp add: last_exponent_def q Let_def)
  define j where "j = nat (- last_exponent (of_nat n))"
  have pow: "pow2 (last_exponent (of_nat n)) = 1 / 2 ^ j"
    using le by (auto simp: pow2_def j_def)
  have "of_nat n / pow2 (last_exponent (of_nat n)) = of_int (int n * 2 ^ j)" by (simp add: pow)
  then have "round_even (of_nat n / pow2 (last_exponent (of_nat n))) = int n * 2 ^ j" by (simp only: round_even_int)
  then show ?thesis using False by (simp add: f64_round_def Let_def pow)
qed (simp add: f64_round_def)

lemma f64_of_small: "unat a < 2 ^ 53 \<Longrightarrow> f64_of_u64 a = of_nat (unat a)"
  by (simp add: f64_of_u64_def f64_round_small del: of_nat_unat)

lemma f64_add_small: "a + b < 2 ^ 53 \<Longrightarrow> f64_add (of_nat a) (of_nat b) = of_nat (a + b)"
  using f64_round_small [of "a + b"] by (simp add: f64_add_def)

lemma u64_of_small: "unat a < 2 ^ 53 \<Longrightarrow> u64_of_f64 (of_nat (unat a)) = a"
proof -
  assume a: "unat a < 2 ^ 53"
  have "(of_nat (unat a) :: rat) < of_nat (2 ^ 64)" using a unfolding of_nat_less_iff by simp
  then have "\<not> (2 :: rat) ^ 64 \<le> of_nat (unat a)" by simp
  moreover have "(of_nat (unat a) :: rat) < 1 \<longleftrightarrow> a = 0"
    using unat_eq_zero [of a] by (metis less_one of_nat_1 of_nat_less_iff)
  moreover have "word_of_int \<lfloor>of_nat (unat a) :: rat\<rfloor> = a" by (simp only: floor_of_nat) simp
  ultimately show ?thesis by (simp add: u64_of_f64_def del: of_nat_unat)
qed

lemma u64_of_f64_of_u64: "unat a < 2 ^ 53 \<Longrightarrow> u64_of_f64 (f64_of_u64 a) = a"
  by (simp add: f64_of_small u64_of_small del: of_nat_unat)

section \<open>Times\<close>

definition setup_sum :: "inspection_metrics \<Rightarrow> nat" where
  "setup_sum m = unat (unwrap_or 0 (im_dns_ms m)) + unat (unwrap_or 0 (im_tcp_connect_ms m)) + unat (unwrap_or 0 (im_tls_ms m))"

lemma unwrap_or_simps [simp]: "unwrap_or d None = d" "unwrap_or d (Some x) = x"
  by (simp_all add: unwrap_or_def)

lemma unwrap_or_map: "unwrap_or 0 (map_option f64_of_u64 x) = f64_of_u64 (unwrap_or 0 x)"
  by (cases x) (simp_all add: f64_of_u64_def f64_round_def)

lemma setup_ms_sum: "setup_sum m < 2 ^ 64 \<Longrightarrow> unat (setup_ms m) = setup_sum m"
  by (simp add: setup_ms_def setup_sum_def unat_word_ariths)

text \<open>The time to the first byte comes back as the sum of its parts, so it is at least the set-up.\<close>

lemma full_ttfb:
  assumes "setup_sum m < 2 ^ 53" and "unat (im_ttfb_ms m) < 2 ^ 53"
  shows "full_ttfb_ms (har_timings_of m) = (if setup_sum m \<le> unat (im_ttfb_ms m) then im_ttfb_ms m else setup_ms m)"
proof -
  have bound: "setup_sum m < 2 ^ 64" using assms(1) by simp
  let ?d = "unwrap_or 0 (im_dns_ms m)" and ?c = "unwrap_or 0 (im_tcp_connect_ms m)" and ?s = "unwrap_or 0 (im_tls_ms m)"
  let ?w = "saturating_sub (im_ttfb_ms m) (setup_ms m)"
  have w: "unat ?w = unat (im_ttfb_ms m) - setup_sum m"
    using setup_ms_sum [OF bound] by (auto simp: saturating_sub_def word_le_nat_alt unat_sub)
  have small: "unat ?d < 2 ^ 53" "unat ?c < 2 ^ 53" "unat ?s < 2 ^ 53" "unat ?w < 2 ^ 53"
    using assms w by (simp_all add: setup_sum_def)
  have "f64_add (f64_add (f64_of_u64 ?d) (f64_of_u64 ?c)) (f64_of_u64 ?s) = of_nat (setup_sum m)"
    using assms(1) by (simp add: f64_of_small small f64_add_small setup_sum_def del: of_nat_add of_nat_unat)
  moreover have "f64_add (of_nat (setup_sum m)) (f64_of_u64 ?w) = of_nat (setup_sum m + unat ?w)"
    using assms w by (simp add: f64_of_small small f64_add_small del: of_nat_add of_nat_unat)
  moreover have "setup_sum m + unat ?w = unat (if setup_sum m \<le> unat (im_ttfb_ms m) then im_ttfb_ms m else setup_ms m)"
    using setup_ms_sum [OF bound] w by simp
  ultimately show ?thesis
    using assms setup_ms_sum [OF bound]
    by (simp add: full_ttfb_ms_def har_timings_of_def unwrap_or_map u64_of_small del: of_nat_add of_nat_unat)
qed

section \<open>What an archive keeps\<close>

lemma har_header_map_headers:
  assumes "hm_wf h"
  shows "har_header_map (har_headers h) = strip_har_headers h"
proof -
  have "list_all (\<lambda>(n, _). to_ascii_lowercase n = n) (filter (\<lambda>(k, _). \<not> should_skip_har_header k) (entries h))"
    using assms by (auto simp: hm_wf_def list_all_iff)
  then have "map (\<lambda>(k, v). (to_ascii_lowercase k, v)) (filter (\<lambda>(k, _). \<not> should_skip_har_header k) (entries h))
      = filter (\<lambda>(k, _). \<not> should_skip_har_header k) (entries h)"
    by (rule map_lower_wf)
  then have "entries (har_header_map (har_headers h)) = entries (strip_har_headers h)"
    by (simp add: har_header_map_def har_headers_def hm_entries_from_iter strip_har_headers_def hm_retain_def
        comp_def split_beta)
  then show ?thesis by simp
qed

lemma binary_essence:
  assumes "utf8_start mime"
  shows "is_binary_content_type (trim_str (hd (split_char (CHR '';'') mime))) = is_binary_content_type mime"
proof -
  let ?p = "hd (split_char (CHR '';'') mime)"
  have "?p \<in> set (split_char (CHR '';'') mime)" by simp
  then have "CHR '';'' \<notin> set (trim_str ?p)" using split_char_no_sep [of "CHR '';''" mime] set_trim_str [of ?p] by blast
  then have "hd (split_char (CHR '';'') (trim_str ?p)) = trim_str ?p" by (simp add: split_char_single)
  moreover have "utf8_start ?p" using assms by (cases mime) (auto split: list.splits)
  ultimately show ?thesis by (simp add: is_binary_content_type_def trim_str_idem Let_def)
qed

text \<open>What comes back of an exchange. Times are in whole milliseconds below \<open>2 ^ 53\<close>.\<close>

definition image_metrics :: "exchange \<Rightarrow> response_context \<Rightarrow> inspection_metrics" where
  "image_metrics ex r = (let m = unwrap_or im_default (ex_metrics ex)
     in m\<lparr>im_request_size_bytes := length (rq_body (ex_request ex)), im_response_size_bytes := length (rs_body r),
          im_status_code := rs_status r,
          im_ttfb_ms := (if setup_sum m \<le> unat (im_ttfb_ms m) then im_ttfb_ms m else setup_ms m),
          im_protocol := non_empty_string (unwrap_or ''HTTP/1.1'' (im_protocol m))\<rparr>)"

definition har_image :: "exchange \<Rightarrow> exchange" where
  "har_image ex = ex\<lparr>
     ex_request := rq_default\<lparr>rq_method := rq_method (ex_request ex), rq_uri := rq_uri (ex_request ex),
       rq_headers := strip_har_headers (rq_headers (ex_request ex)), rq_body := rq_body (ex_request ex),
       rq_host := har_extract_host (rq_uri (ex_request ex))\<rparr>,
     ex_response := map_option (\<lambda>r. rs_default\<lparr>rs_status := rs_status r,
       rs_headers := strip_har_headers (rs_headers r), rs_body := rs_body r,
       rs_request_uri := rq_uri (ex_request ex), rs_session_id := Some (ex_id ex),
       rs_ttfb_ms := im_ttfb_ms (image_metrics ex r), rs_body_ms := im_body_ms (image_metrics ex r)\<rparr>) (ex_response ex),
     ex_metrics := map_option (image_metrics ex) (ex_response ex),
     ex_source := Imported, ex_ws_frames := [], ex_events := [], ex_flow := [],
     ex_inspector_data := None, ex_paused_at := None\<rparr>"

definition body_kept :: "har_lib \<Rightarrow> response_context \<Rightarrow> bool" where
  "body_kept hx r \<longleftrightarrow> (let mime = unwrap_or ''text/plain'' (hm_get (rs_headers r) ''content-type'')
     in utf8_start mime \<and> (if is_binary_content_type mime
          then hx_decode hx (hx_encode hx (rs_body r)) = Some (rs_body r) \<and> hx_decode hx [] = Some []
          else valid_utf8 (rs_body r)))"

definition times_small :: "inspection_metrics \<Rightarrow> bool" where
  "times_small m \<longleftrightarrow> setup_sum m < 2 ^ 53 \<and> unat (im_ttfb_ms m) < 2 ^ 53 \<and> unat (im_body_ms m) < 2 ^ 53
     \<and> unat (im_latency_ms m) < 2 ^ 53"

lemma bytes_of_string_Nil [simp]: "bytes_of_string [] = []"
  by (simp add: bytes_of_string_def)

lemma har_body_kept:
  assumes "body_kept hx r"
  shows "har_body_bytes hx (unwrap_or [] (if rs_body r = [] then None
       else Some (har_body_text hx (rs_body r) (unwrap_or ''text/plain'' (hm_get (rs_headers r) ''content-type'')))))
     (trim_str (hd (split_char (CHR '';'') (unwrap_or ''text/plain'' (hm_get (rs_headers r) ''content-type''))))) = rs_body r"
  using assms
  by (simp add: body_kept_def har_body_bytes_def har_body_text_def binary_essence from_utf8_lossy_def lossy_valid
      Let_def split: if_splits)

lemma map_option_u64:
  "(\<And>a. x = Some a \<Longrightarrow> unat a < 2 ^ 53) \<Longrightarrow> map_option u64_of_f64 (map_option f64_of_u64 x) = x"
  by (cases x) (simp_all add: u64_of_f64_of_u64)

lemma times_kept:
  assumes "times_small m"
  shows "full_ttfb_ms (har_timings_of m) = (if setup_sum m \<le> unat (im_ttfb_ms m) then im_ttfb_ms m else setup_ms m)"
    and "u64_of_f64 (ht_receive (har_timings_of m)) = im_body_ms m"
    and "u64_of_f64 (f64_of_u64 (im_latency_ms m)) = im_latency_ms m"
    and "map_option u64_of_f64 (ht_dns (har_timings_of m)) = im_dns_ms m"
    and "map_option u64_of_f64 (ht_connect (har_timings_of m)) = im_tcp_connect_ms m"
    and "map_option u64_of_f64 (ht_ssl (har_timings_of m)) = im_tls_ms m"
  using assms full_ttfb [of m]
  by (simp_all add: times_small_def har_timings_of_def u64_of_f64_of_u64)
     (auto intro!: map_option_u64 simp: setup_sum_def)

lemma default_times:
  "har_timings_default = har_timings_of im_default" "f64_of_u64 (im_latency_ms im_default) = 0"
  by (simp_all add: har_timings_default_def har_timings_of_def im_default_def f64_of_u64_def f64_round_def
      saturating_sub_def setup_ms_def)

section \<open>The round trip\<close>

definition har_faithful :: "har_lib \<Rightarrow> exchange \<Rightarrow> bool" where
  "har_faithful hx ex \<longleftrightarrow> hm_wf (rq_headers (ex_request ex)) \<and> valid_utf8 (rq_body (ex_request ex))
     \<and> (case ex_response ex of None \<Rightarrow> True | Some r \<Rightarrow> rs_status r \<noteq> 0 \<and> hm_wf (rs_headers r) \<and> body_kept hx r)
     \<and> (case ex_metrics ex of None \<Rightarrow> True | Some m \<Rightarrow> times_small m)
     \<and> hx_parse_time hx (hx_rfc3339 hx (ex_timestamp ex)) = Some (ex_timestamp ex)
     \<and> (case ex_updated_at ex of None \<Rightarrow> True | Some t \<Rightarrow> hx_parse_time hx (hx_rfc3339 hx t) = Some t)"

lemma metrics_times:
  assumes "case ex_metrics ex of None \<Rightarrow> True | Some m \<Rightarrow> times_small m"
  shows "times_small (unwrap_or im_default (ex_metrics ex))"
    and "(case ex_metrics ex of None \<Rightarrow> (0, har_timings_default) | Some m \<Rightarrow> (f64_of_u64 (im_latency_ms m), har_timings_of m))
       = (f64_of_u64 (im_latency_ms (unwrap_or im_default (ex_metrics ex))), har_timings_of (unwrap_or im_default (ex_metrics ex)))"
    and "unwrap_or ''HTTP/1.1'' (Option.bind (ex_metrics ex) im_protocol)
       = unwrap_or ''HTTP/1.1'' (im_protocol (unwrap_or im_default (ex_metrics ex)))"
proof -
  show "times_small (unwrap_or im_default (ex_metrics ex))"
    using assms by (cases "ex_metrics ex") (simp_all add: times_small_def im_default_def setup_sum_def)
  show "(case ex_metrics ex of None \<Rightarrow> (0, har_timings_default) | Some m \<Rightarrow> (f64_of_u64 (im_latency_ms m), har_timings_of m))
       = (f64_of_u64 (im_latency_ms (unwrap_or im_default (ex_metrics ex))), har_timings_of (unwrap_or im_default (ex_metrics ex)))"
    by (cases "ex_metrics ex") (simp_all add: default_times)
  show "unwrap_or ''HTTP/1.1'' (Option.bind (ex_metrics ex) im_protocol)
       = unwrap_or ''HTTP/1.1'' (im_protocol (unwrap_or im_default (ex_metrics ex)))"
    by (cases "ex_metrics ex") (simp_all add: im_default_def)
qed

lemma response_roundtrip:
  assumes "har_faithful hx ex"
  shows "har_response_to_context hx (exchange_to_har_entry hx ex) (ex_id ex) = ex_response (har_image ex)"
    and "har_entry_metrics (exchange_to_har_entry hx ex) = ex_metrics (har_image ex)"
proof -
  have "case ex_metrics ex of None \<Rightarrow> True | Some m \<Rightarrow> times_small m" using assms by (simp add: har_faithful_def)
  note m = metrics_times [OF this]
  have request: "he_request (exchange_to_har_entry hx ex) = exchange_request_to_har (ex_request ex)"
    by (simp add: exchange_to_har_entry_def split_beta)
  have "har_response_to_context hx (exchange_to_har_entry hx ex) (ex_id ex) = ex_response (har_image ex)
      \<and> har_entry_metrics (exchange_to_har_entry hx ex) = ex_metrics (har_image ex)"
  proof (cases "ex_response ex")
    case None
    then show ?thesis
      by (simp add: har_response_to_context_def har_entry_metrics_def har_image_def exchange_to_har_entry_def
          exchange_response_to_har_def empty_har_response_def)
  next
    case (Some r)
    then have r: "rs_status r \<noteq> 0" "hm_wf (rs_headers r)" "body_kept hx r" using assms by (simp_all add: har_faithful_def)
    have split: "(case hm_get (rs_headers r) ''content-type'' of None \<Rightarrow> ''text/plain'' | Some t \<Rightarrow> t)
        = unwrap_or ''text/plain'' (hm_get (rs_headers r) ''content-type'')" by (simp add: unwrap_or_def)
    have bytes: "har_body_bytes hx (unwrap_or [] (hc_text (hs_content (he_response (exchange_to_har_entry hx ex)))))
        (trim_str (hd (split_char (CHR '';'') (hc_mime_type (hs_content (he_response (exchange_to_har_entry hx ex))))))) = rs_body r"
      using har_body_kept [OF r(3)] Some
      by (simp add: exchange_to_har_entry_def exchange_response_to_har_def split_beta split Let_def)
    have timings: "he_timings (exchange_to_har_entry hx ex) = har_timings_of (unwrap_or im_default (ex_metrics ex))"
      and time: "he_time (exchange_to_har_entry hx ex) = f64_of_u64 (im_latency_ms (unwrap_or im_default (ex_metrics ex)))"
      using Some m(2) by (simp_all add: exchange_to_har_entry_def exchange_response_to_har_def split_beta Let_def)
    have response: "hs_status (he_response (exchange_to_har_entry hx ex)) = rs_status r"
        "hs_headers (he_response (exchange_to_har_entry hx ex)) = har_headers (rs_headers r)"
        "hs_body_size (he_response (exchange_to_har_entry hx ex)) = int (length (rs_body r))"
        "hs_http_version (he_response (exchange_to_har_entry hx ex))
           = unwrap_or ''HTTP/1.1'' (im_protocol (unwrap_or im_default (ex_metrics ex)))"
      using Some m(3) by (simp_all add: exchange_to_har_entry_def exchange_response_to_har_def split_beta Let_def)
    show ?thesis
      using Some r
      by (simp add: har_response_to_context_def har_entry_metrics_def Let_def bytes timings time request response
          times_kept [OF m(1)] har_header_map_headers har_image_def image_metrics_def exchange_request_to_har_def)
  qed
  then show "har_response_to_context hx (exchange_to_har_entry hx ex) (ex_id ex) = ex_response (har_image ex)"
    and "har_entry_metrics (exchange_to_har_entry hx ex) = ex_metrics (har_image ex)" by blast+
qed


definition sample_har_lib :: har_lib where
  "sample_har_lib = \<lparr>hx_encode = string_of_bytes, hx_decode = (\<lambda>s. Some (bytes_of_string s)),
     hx_rfc3339 = (\<lambda>t. decimal (nat t)), hx_parse_time = (\<lambda>s. Some (int (digits_value s))),
     hx_new_id = (\<lambda>_. []), hx_now = (\<lambda>_. 0)\<rparr>"

definition sample_recorded :: exchange where
  "sample_recorded = (new_exchange ''x'' (rq_default\<lparr>rq_method := ''GET'', rq_uri := ''http://h/?q''\<rparr>) Proxy 7)
     \<lparr>ex_response := Some (rs_default\<lparr>rs_status := 200, rs_headers := hm_append hm_new ''content-type'' ''image/png'',
        rs_body := [200, 128]\<rparr>), ex_metrics := Some (im_default\<lparr>im_ttfb_ms := 5, im_dns_ms := Some 2\<rparr>)\<rparr>"


section \<open>What is lost\<close>

text \<open>A request body that is not text is written with replacement characters even in the raw export,
  although the extension fields are there for sessions to come back without loss.\<close>

lemma binary_request_lost:
  "rq_body (ex_request (har_entry_to_exchange hx k (exchange_to_har_entry hx
     (ex\<lparr>ex_request := (ex_request ex)\<lparr>rq_body := [128]\<rparr>\<rparr>)))) = [239, 191, 189]"
proof -
  have "lossy_bytes [128] = [239, 191, 189]" by code_simp
  then show ?thesis
    by (simp add: har_entry_to_exchange_def exchange_to_har_entry_def exchange_request_to_har_def split_beta
        rq_body_text_def from_utf8_lossy_def Let_def)
qed

text \<open>When the set-up took longer than the time to the first byte says, the time becomes the set-up.\<close>

lemma short_ttfb_grows:
  assumes "times_small m" and "unat (im_ttfb_ms m) < setup_sum m"
  shows "full_ttfb_ms (har_timings_of m) = setup_ms m" and "im_ttfb_ms m < setup_ms m"
proof -
  show "full_ttfb_ms (har_timings_of m) = setup_ms m" using assms times_kept(1) [OF assms(1)] by simp
  have "setup_sum m < 2 ^ 64" using assms(1) by (simp add: times_small_def)
  then show "im_ttfb_ms m < setup_ms m" using assms(2) by (simp add: setup_ms_sum word_less_nat_alt)
qed

text \<open>Only a plus sign and a blank are decoded in the query.\<close>

lemma percent_kept: "parse_query_string ''/?a=%41+b'' = [\<lparr>nv_name = ''a'', nv_value = ''%41 b''\<rparr>]"
  by (simp add: parse_query_string_def splitn2_def url_decode_def Let_def)

text \<open>The redacted export leaves the URL and its query alone.\<close>

lemma redacted_har_keeps_query:
  "hr_url (he_request (exchange_to_har_entry hx (redact_exchange_for_export js ex))) = rq_uri (ex_request ex)
   \<and> hr_query_string (he_request (exchange_to_har_entry hx (redact_exchange_for_export js ex)))
       = parse_query_string (rq_uri (ex_request ex))"
  by (simp add: redact_exchange_for_export_def exchange_to_har_entry_def exchange_request_to_har_def split_beta
      rq_set_body_text_def Let_def)

end
