(* ===== verification/WebSockets.thy ===== *)
theory WebSockets
  imports Grpc Engine Mock
begin

text \<open>
  The WebSocket relay (\<open>transport/websocket.rs\<close>): the target of an upgrade, the contexts that are
  recorded, scripted answers, and the relay of frames with its breakpoints. The library of frames,
  the connection and the parser of URIs are third party (\<open>ws_lib\<close>). The relay waits for whichever
  side speaks first; what it sees is a list of \<open>relay_event\<close>s, each with the news whether passing the
  message on succeeds. A pause is the wait of \<open>Breakpoints\<close>, during which the relay sees no event.
\<close>

section \<open>The upgrade\<close>

record ws_lib =
  wl_host :: "uri \<Rightarrow> string option"
  wl_port :: "uri \<Rightarrow> u16 option"
  wl_accept_key :: "string \<Rightarrow> string"
  wl_generate_key :: string
  wl_request_error :: "string \<Rightarrow> (string \<times> string) list \<Rightarrow> string option"

definition is_secure :: "string \<Rightarrow> bool" where
  "is_secure scheme \<longleftrightarrow> scheme = ''wss'' \<or> scheme = ''https''"

definition resolve_ws_target :: "ws_lib \<Rightarrow> uri \<Rightarrow> string \<Rightarrow> string option \<Rightarrow> string \<times> u16 \<times> string" where
  "resolve_ws_target wl u header_host mitm_destination = (case mitm_destination of
     Some destination \<Rightarrow>
       (let authority = (case find_str ''://'' destination of Some i \<Rightarrow> drop (i + 3) destination | None \<Rightarrow> destination);
            (host, port_str) = (case rsplit_once (CHR '':'') authority of Some p \<Rightarrow> p | None \<Rightarrow> (authority, ''443''))
        in (host, case parse_u16 port_str of Some p \<Rightarrow> p | None \<Rightarrow> 443, ''wss''))
   | None \<Rightarrow>
       (let host = (case wl_host wl u of Some h \<Rightarrow> h | None \<Rightarrow> hd (split_char (CHR '':'') header_host));
            requested = (case uri_scheme u of Some s \<Rightarrow> s | None \<Rightarrow> ''ws'');
            port = (case wl_port wl u of Some p \<Rightarrow> p | None \<Rightarrow> if is_secure requested then 443 else 80)
        in (host, port, if is_secure requested \<or> port = 443 then ''wss'' else ''ws'')))"

type_synonym raw_headers = "(string \<times> string option) list"

definition raw_get :: "raw_headers \<Rightarrow> string \<Rightarrow> string option" where
  "raw_get hs name = Option.bind (map_option snd (find (\<lambda>(n, _). eq_ignore_ascii_case n name) hs)) id"

record websocket_request =
  ws_headers :: raw_headers
  ws_host :: string
  ws_port :: u16
  ws_scheme :: string
  ws_url :: string
  ws_connection_id :: "string option"
  ws_stream_id :: "u64 option"
  ws_downstream_protocol :: "string option"

definition prepare_websocket :: "ws_lib \<Rightarrow> http_request \<Rightarrow> string option \<Rightarrow> websocket_request" where
  "prepare_websocket wl req mitm_destination =
     (let header_host = (case raw_get (hq_headers req) ''host'' of Some h \<Rightarrow> h | None \<Rightarrow> []);
          (host, port, scheme) = resolve_ws_target wl (hq_uri req) header_host mitm_destination;
          path = (case uri_path_and_query (hq_uri req) of Some p \<Rightarrow> p | None \<Rightarrow> ''/'')
      in \<lparr>ws_headers = hq_headers req, ws_host = host, ws_port = port, ws_scheme = scheme,
          ws_url = scheme @ ''://'' @ host @ '':'' @ decimal (unat port) @ path,
          ws_connection_id = map_option fst (hq_conn req), ws_stream_id = map_option snd (hq_conn req),
          ws_downstream_protocol = Some (protocol_label (hq_version req))\<rparr>)"

definition handshake_headers :: "string list" where
  "handshake_headers = [''host'', ''upgrade'', ''connection'', ''sec-websocket-key'', ''sec-websocket-version'',
     ''sec-websocket-accept'', ''sec-websocket-extensions'']"

definition is_websocket_handshake_header :: "string \<Rightarrow> bool" where
  "is_websocket_handshake_header name \<longleftrightarrow> to_ascii_lowercase name \<in> set handshake_headers"

definition visible_headers :: "raw_headers \<Rightarrow> (string \<times> string) list" where
  "visible_headers hs = List.map_filter (\<lambda>(n, v). map_option (Pair n) v) hs"

definition upstream_handshake :: "ws_lib \<Rightarrow> websocket_request \<Rightarrow> (string \<times> string) list" where
  "upstream_handshake wl ws =
     [(''host'', ws_host ws @ '':'' @ decimal (unat (ws_port ws))), (''upgrade'', ''websocket''),
      (''connection'', ''Upgrade''), (''sec-websocket-version'', ''13''),
      (''sec-websocket-key'', wl_generate_key wl)]
     @ filter (\<lambda>(n, _). \<not> is_websocket_handshake_header n) (visible_headers (ws_headers ws))"

definition is_websocket_upgrade :: "raw_headers \<Rightarrow> bool" where
  "is_websocket_upgrade hs = (case raw_get hs ''upgrade'' of
     Some v \<Rightarrow> eq_ignore_ascii_case v ''websocket'' | None \<Rightarrow> False)"

definition non_empty :: "string option \<Rightarrow> string option" where
  "non_empty x = (case x of Some p \<Rightarrow> if p = [] then None else Some p | None \<Rightarrow> None)"

definition first_offered_subprotocol :: "raw_headers \<Rightarrow> string option" where
  "first_offered_subprotocol hs =
     non_empty (map_option (\<lambda>v. trim_str (hd (split_char (CHR '','') v))) (raw_get hs ''sec-websocket-protocol''))"

definition upgrade_headers :: "ws_lib \<Rightarrow> raw_headers \<Rightarrow> string option \<Rightarrow> (string \<times> string) list" where
  "upgrade_headers wl hs subprotocol =
     [(''upgrade'', ''websocket''), (''connection'', ''Upgrade'')]
     @ (case raw_get hs ''sec-websocket-key'' of Some k \<Rightarrow> [(''sec-websocket-accept'', wl_accept_key wl k)] | None \<Rightarrow> [])
     @ (case non_empty subprotocol of Some p \<Rightarrow> [(''sec-websocket-protocol'', p)] | None \<Rightarrow> [])"

text \<open>The builder of the client's response refuses a header it cannot represent; the fallback is 500.\<close>

definition websocket_upgrade_response ::
    "ws_lib \<Rightarrow> (string \<times> string \<Rightarrow> bool) \<Rightarrow> raw_headers \<Rightarrow> string option \<Rightarrow> http_response" where
  "websocket_upgrade_response wl ok hs subprotocol =
     (let headers = upgrade_headers wl hs subprotocol
      in if list_all ok headers then \<lparr>hr_status = 101, hr_headers = headers, hr_body = [], hr_trailers = []\<rparr>
         else \<lparr>hr_status = 500, hr_headers = [], hr_body = [], hr_trailers = []\<rparr>)"

definition ws_protocol_context :: "websocket_request \<Rightarrow> protocol_context" where
  "ws_protocol_context ws =
     pc_with_identity (pc_websocket (ws_scheme ws)) (ws_connection_id ws) (ws_stream_id ws)"

definition ws_request_context :: "websocket_request \<Rightarrow> request_context" where
  "ws_request_context ws = rq_default\<lparr>rq_method := ''WS'', rq_uri := ws_url ws,
     rq_headers := hm_from_iter (visible_headers (ws_headers ws)), rq_host := ws_host ws,
     rq_connection_id := ws_connection_id ws, rq_stream_id := ws_stream_id ws,
     rq_downstream_protocol := ws_downstream_protocol ws,
     rq_protocol_context := Some (ws_protocol_context ws)\<rparr>"

definition ws_response_context :: "ws_lib \<Rightarrow> websocket_request \<Rightarrow> string option \<Rightarrow> response_context" where
  "ws_response_context wl ws subprotocol = rs_default\<lparr>rs_status := 101,
     rs_headers := hm_from_iter (upgrade_headers wl (ws_headers ws) subprotocol),
     rs_request_uri := ws_url ws, rs_tags := [''ws''], rs_request_host := ws_host ws,
     rs_request_method := ''WS'', rs_protocol := Some ''WebSocket'',
     rs_protocol_context := Some (ws_protocol_context ws)\<rparr>"

definition ws_upgrade_metrics :: inspection_metrics where
  "ws_upgrade_metrics = im_default\<lparr>im_status_code := 101, im_protocol := Some ''WebSocket''\<rparr>"

section \<open>Messages\<close>

datatype ws_message =
  Ws_Text string | Ws_Binary bytes | Ws_Ping bytes | Ws_Pong bytes
| Ws_Close "(u16 \<times> string) option" | Ws_Raw bytes

fun is_close :: "ws_message \<Rightarrow> bool" where
  "is_close (Ws_Close _) = True"
| "is_close _ = False"

text \<open>The opcode, the length and what is kept of the payload.\<close>

fun message_record :: "ws_message \<Rightarrow> (byte \<times> nat \<times> string option \<times> string option) option" where
  "message_record (Ws_Text t) = Some (0x1, length t, Some (chars_take 512 t), None)"
| "message_record (Ws_Binary data) =
     (let hex = hex_bytes (take 64 data) in Some (0x2, length data, None, if hex = [] then None else Some hex))"
| "message_record (Ws_Ping _) = Some (0x9, 0, None, None)"
| "message_record (Ws_Pong _) = Some (0xA, 0, None, None)"
| "message_record (Ws_Close _) = Some (0x8, 0, None, None)"
| "message_record (Ws_Raw _) = None"

fun message_body :: "ws_message \<Rightarrow> bytes" where
  "message_body (Ws_Text t) = bytes_of_string t"
| "message_body (Ws_Binary data) = data"
| "message_body _ = []"

fun message_with_body :: "ws_message \<Rightarrow> bytes \<Rightarrow> ws_message" where
  "message_with_body (Ws_Text _) body = Ws_Text (from_utf8_lossy body)"
| "message_with_body (Ws_Binary _) body = Ws_Binary body"
| "message_with_body other body = other"

definition frame_op :: "string \<Rightarrow> timestamp \<Rightarrow> ws_direction \<Rightarrow> ws_message \<Rightarrow> write_op list" where
  "frame_op sid now direction msg = (case message_record msg of
     None \<Rightarrow> []
   | Some (opcode, len, text, hex) \<Rightarrow>
       [WO_AppendWsFrame sid \<lparr>wf_timestamp = now, wf_direction = direction, wf_opcode = opcode,
          wf_payload_len = len, wf_payload_text = text, wf_payload_hex = hex\<rparr>])"

definition record_frame :: "'w session_world \<Rightarrow> string \<Rightarrow> ws_message \<Rightarrow> ws_direction \<Rightarrow> 'w \<Rightarrow> 'w" where
  "record_frame sw sid msg direction w = sw_emit sw (frame_op sid (sw_now sw w) direction msg) w"

section \<open>Scripts\<close>

definition ws_script_of :: "regex_lib \<Rightarrow> request_context \<Rightarrow> mock_rule \<Rightarrow> ws_frame_action list option" where
  "ws_script_of rx ctx rule = (case mo_behavior rule of
     Some (WebSocketScript frames) \<Rightarrow> if mock_matches rx rule ctx then Some frames else None
   | _ \<Rightarrow> None)"

fun first_script ::
    "regex_lib \<Rightarrow> request_context \<Rightarrow> mock_rule list \<Rightarrow> (string \<times> ws_frame_action list) option" where
  "first_script rx ctx [] = None"
| "first_script rx ctx (rule # rules) = (case ws_script_of rx ctx rule of
     Some frames \<Rightarrow> Some (mo_id rule, frames) | None \<Rightarrow> first_script rx ctx rules)"

text \<open>\<open>live\<close> are the rules when the write lock is taken.\<close>

definition select_ws_mock_script ::
    "regex_lib \<Rightarrow> mock_rule list \<Rightarrow> mock_rule list \<Rightarrow> request_context \<Rightarrow>
     (string \<times> ws_frame_action list) option \<times> mock_rule list" where
  "select_ws_mock_script rx rules live ctx = (case first_script rx ctx (filter mo_enabled rules) of
     None \<Rightarrow> (None, live) | Some (i, frames) \<Rightarrow> (Some (i, frames), bump_rule i live))"

definition ws_action_to_message :: "ws_frame_action \<Rightarrow> ws_message" where
  "ws_action_to_message action =
     (let p = wa_payload action
      in if wa_opcode action = 0x1 then Ws_Text p
         else if wa_opcode action = 0x2 then Ws_Binary (bytes_of_string p)
         else if wa_opcode action = 0x8 then Ws_Close (Some (1000, p))
         else if wa_opcode action = 0x9 then Ws_Ping (bytes_of_string p)
         else if wa_opcode action = 0xA then Ws_Pong (bytes_of_string p)
         else Ws_Text p)"

text \<open>Each action comes with how its delay and its sending end: interrupted by the shutdown, sent or
  not. The result is the messages that were given to the client.\<close>

datatype action_end = Delay_Interrupted | Sent | Not_Sent

fun run_ws_mock_script ::
    "'w session_world \<Rightarrow> string \<Rightarrow> (ws_frame_action \<times> action_end) list \<Rightarrow> 'w \<Rightarrow> ws_message list \<times> 'w" where
  "run_ws_mock_script sw sid [] w = ([Ws_Close None], w)"
| "run_ws_mock_script sw sid ((action, e) # rest) w =
     (if 0 < wa_delay_ms action \<and> e = Delay_Interrupted then ([], w)
      else let msg = ws_action_to_message action; w1 = record_frame sw sid msg ServerToClient w
           in if e = Not_Sent \<or> is_close msg then ([msg], w1)
              else let (out, w2) = run_ws_mock_script sw sid rest w1 in (msg # out, w2))"

section \<open>The relay\<close>

record ws_relay_context =
  wr_session_id :: string
  wr_uri :: string
  wr_host :: string
  wr_inspect :: bool

definition direction_name :: "ws_direction \<Rightarrow> string" where
  "direction_name d = (case d of ClientToServer \<Rightarrow> ''client_to_server'' | ServerToClient \<Rightarrow> ''server_to_client'')"

definition frame_headers :: "ws_direction \<Rightarrow> ws_message \<Rightarrow> header_map" where
  "frame_headers direction msg =
     (let h = snd (hm_insert hm_new ''x-oproxy-frame-direction'' (direction_name direction))
      in snd (hm_insert h ''x-oproxy-frame-opcode'' (case message_record msg of
           Some (opcode, _) \<Rightarrow> decimal (unat opcode) | None \<Rightarrow> ''unknown'')))"

definition frame_scheme :: "string \<Rightarrow> string" where
  "frame_scheme u = (if starts_with u ''wss://'' then ''wss'' else ''ws'')"

definition frame_request_context :: "ws_relay_context \<Rightarrow> ws_direction \<Rightarrow> ws_message \<Rightarrow> request_context" where
  "frame_request_context rc direction msg = rq_default\<lparr>rq_method := ''WS'', rq_uri := wr_uri rc,
     rq_headers := frame_headers direction msg, rq_body := message_body msg, rq_host := wr_host rc,
     rq_session_id := Some (wr_session_id rc),
     rq_protocol_context := Some (pc_websocket (frame_scheme (wr_uri rc)))\<rparr>"

definition frame_response_context :: "ws_relay_context \<Rightarrow> ws_direction \<Rightarrow> ws_message \<Rightarrow> response_context" where
  "frame_response_context rc direction msg = rs_default\<lparr>rs_status := 101,
     rs_headers := frame_headers direction msg, rs_body := message_body msg, rs_request_uri := wr_uri rc,
     rs_session_id := Some (wr_session_id rc), rs_request_host := wr_host rc, rs_request_method := ''WS'',
     rs_protocol_context := Some (pc_websocket (frame_scheme (wr_uri rc)))\<rparr>"

definition maybe_pause_frame ::
    "regex_lib \<Rightarrow> 'w bp_world \<Rightarrow> ws_relay_context \<Rightarrow> ws_direction \<Rightarrow> ws_message \<Rightarrow> 'w \<Rightarrow>
     ws_message option \<times> 'w" where
  "maybe_pause_frame rx bw rc direction msg w =
     (if \<not> has_frame_rules (bw_manager bw w) then (Some msg, w)
      else let context = (case direction of
                 ClientToServer \<Rightarrow> BC_Request (frame_request_context rc direction msg)
               | ServerToClient \<Rightarrow> BC_Response (frame_response_context rc direction msg));
               (resolution, w1) = pause_frame rx bw (wr_session_id rc) context w
           in (case resolution of
                 BR_Continue \<Rightarrow> Some msg
               | BR_Drop \<Rightarrow> None
               | BR_Modify ctx \<Rightarrow> Some (message_with_body msg (resolution_body ctx)), w1))"

text \<open>What the relay sees next: the next item of a side, none when the side has ended or failed, with
  the news whether it can be passed on; or the shutdown.\<close>

datatype relay_event = From_Side ws_direction "(ws_message \<times> bool) option" | Relay_Shutdown

text \<open>The messages given to the other sides, in order, and whether the relay has ended.\<close>

fun relay_ws ::
    "regex_lib \<Rightarrow> 'w bp_world \<Rightarrow> 'w session_world \<Rightarrow> ws_relay_context \<Rightarrow> relay_event list \<Rightarrow> 'w \<Rightarrow>
     (ws_direction \<times> ws_message) list \<times> bool \<times> 'w" where
  "relay_ws rx bw sw rc [] w = ([], False, w)"
| "relay_ws rx bw sw rc (e # es) w = (case e of
     Relay_Shutdown \<Rightarrow> ([], True, w)
   | From_Side direction item \<Rightarrow> (case item of
       None \<Rightarrow> ([], True, w)
     | Some (m, sent) \<Rightarrow> (case maybe_pause_frame rx bw rc direction m w of
         (None, w1) \<Rightarrow> relay_ws rx bw sw rc es w1
       | (Some m1, w1) \<Rightarrow>
           let w2 = (if wr_inspect rc then record_frame sw (wr_session_id rc) m1 direction w1 else w1)
           in if \<not> sent \<or> is_close m1 then ([(direction, m1)], True, w2)
              else let (out, ended, w3) = relay_ws rx bw sw rc es w2 in ((direction, m1) # out, ended, w3))))"

section \<open>The whole upgrade\<close>

datatype ws_connect = Ws_Connected "string option" | Ws_Connect_Failed | Ws_Connect_Timeout

datatype ws_outcome =
  Ws_Mocked http_response "ws_frame_action list" | Ws_Refused u16 string | Ws_Relayed http_response ws_relay_context

definition handle_mock_websocket ::
    "ws_lib \<Rightarrow> (string \<times> string \<Rightarrow> bool) \<Rightarrow> 'w session_world \<Rightarrow> websocket_request \<Rightarrow> request_context \<Rightarrow>
     string \<Rightarrow> ws_frame_action list \<Rightarrow> string \<Rightarrow> 'w \<Rightarrow> ws_outcome \<times> 'w" where
  "handle_mock_websocket wl ok sw ws ctx rule_id frames sid w =
     (let sub = first_offered_subprotocol (ws_headers ws)
      in (Ws_Mocked (websocket_upgrade_response wl ok (ws_headers ws) sub) frames,
          sw_emit sw [WO_RecordRequest sid ctx Proxy,
            WO_RecordResponseWithMetrics sid (ws_response_context wl ws sub) ws_upgrade_metrics,
            WO_AppendEvent sid (Ev_MockServed rule_id ''websocket_script'')] w))"

definition handle_websocket ::
    "regex_lib \<Rightarrow> ws_lib \<Rightarrow> (string \<times> string \<Rightarrow> bool) \<Rightarrow> 'w session_world \<Rightarrow> ('w \<Rightarrow> mock_rule list) \<Rightarrow>
     (mock_rule list \<Rightarrow> 'w \<Rightarrow> 'w) \<Rightarrow> bool \<Rightarrow> http_request \<Rightarrow> string \<Rightarrow> string option \<Rightarrow>
     (websocket_request \<Rightarrow> 'w \<Rightarrow> ws_connect \<times> 'w) \<Rightarrow> 'w \<Rightarrow> ws_outcome \<times> 'w" where
  "handle_websocket rx wl ok sw rules set_rules inspect req sid mitm connect w =
     (let ws = prepare_websocket wl req mitm; ctx = ws_request_context ws
      in case select_ws_mock_script rx (rules w) (rules w) ctx of
        (Some (rule_id, frames), live) \<Rightarrow> handle_mock_websocket wl ok sw ws ctx rule_id frames sid (set_rules live w)
      | (None, _) \<Rightarrow>
          if wl_request_error wl (ws_url ws) (upstream_handshake wl ws) \<noteq> None
          then (Ws_Refused 502 ''WebSocket request build failed'', w)
          else (case connect ws w of
              (Ws_Connect_Failed, w1) \<Rightarrow> (Ws_Refused 502 ''WebSocket upstream connect failed'', w1)
            | (Ws_Connect_Timeout, w1) \<Rightarrow> (Ws_Refused 504 ''WebSocket upstream connect timed out'', w1)
            | (Ws_Connected sub, w1) \<Rightarrow>
                (Ws_Relayed (websocket_upgrade_response wl ok (ws_headers ws) sub)
                   \<lparr>wr_session_id = sid, wr_uri = ws_url ws, wr_host = ws_host ws, wr_inspect = inspect\<rparr>,
                 sw_emit sw [WO_RecordRequest sid ctx Proxy,
                   WO_RecordResponseWithMetrics sid (ws_response_context wl ws sub) ws_upgrade_metrics] w1)))"

section \<open>What a relay records and passes on\<close>

fun same_kind :: "ws_message \<Rightarrow> ws_message \<Rightarrow> bool" where
  "same_kind (Ws_Text _) m \<longleftrightarrow> (\<exists>t. m = Ws_Text t)"
| "same_kind (Ws_Binary _) m \<longleftrightarrow> (\<exists>b. m = Ws_Binary b)"
| "same_kind m n \<longleftrightarrow> m = n"

lemma same_kind_refl [simp]: "same_kind m m"
  by (cases m) simp_all

lemma same_kind_edit [simp]: "same_kind m (message_with_body m b)"
  by (cases m) simp_all

text \<open>An edit that leaves the body alone leaves the message alone.\<close>

lemma message_with_own_body:
  "(\<And>t. m = Ws_Text t \<Longrightarrow> valid_utf8 (bytes_of_string t)) \<Longrightarrow> message_with_body m (message_body m) = m"
  by (cases m) (simp_all add: from_utf8_lossy_def lossy_valid)

definition received_messages :: "relay_event list \<Rightarrow> (ws_direction \<times> ws_message) list" where
  "received_messages es = List.map_filter (\<lambda>e. case e of From_Side d (Some (m, _)) \<Rightarrow> Some (d, m) | _ \<Rightarrow> None) es"

text \<open>The frames in a list of writes to a session, without their times, and the frame of a message.\<close>

definition frames_of :: "string \<Rightarrow> write_op list \<Rightarrow> ws_frame list" where
  "frames_of sid ops = List.map_filter (\<lambda>op. case op of
     WO_AppendWsFrame i f \<Rightarrow> if i = sid then Some (f\<lparr>wf_timestamp := 0\<rparr>) else None | _ \<Rightarrow> None) ops"

definition frame_of :: "ws_direction \<times> ws_message \<Rightarrow> ws_frame option" where
  "frame_of dm = map_option (\<lambda>(opcode, len, text, hex). \<lparr>wf_timestamp = 0, wf_direction = fst dm, wf_opcode = opcode,
     wf_payload_len = len, wf_payload_text = text, wf_payload_hex = hex\<rparr>) (message_record (snd dm))"

lemma frames_of_append [simp]: "frames_of sid (a @ b) = frames_of sid a @ frames_of sid b"
  by (simp add: frames_of_def map_filter_def)

lemma frames_of_simps [simp]:
  "frames_of sid [] = []" "frames_of sid (pause_ops i b) = []" "frames_of sid [WO_ClearPaused i] = []"
  by (simp_all add: frames_of_def map_filter_simps pause_ops_def)

lemma frames_of_frame_op [simp]:
  "frames_of sid (frame_op sid t d m) = (case frame_of (d, m) of Some f \<Rightarrow> [f] | None \<Rightarrow> [])"
  by (auto simp: frame_op_def frame_of_def frames_of_def map_filter_simps split: option.splits)

lemma relay_step:
  assumes "maybe_pause_frame rx bw rc d m w = (Some m1, w1)"
    and "relay_ws rx bw sw rc es (if wr_inspect rc then record_frame sw (wr_session_id rc) m1 d w1 else w1) = (out, ended, w3)"
  shows "relay_ws rx bw sw rc (From_Side d (Some (m, sent)) # es) w =
    (if \<not> sent \<or> is_close m1
     then ([(d, m1)], True, if wr_inspect rc then record_frame sw (wr_session_id rc) m1 d w1 else w1)
     else ((d, m1) # out, ended, w3))"
  using assms by (simp add: Let_def)

text \<open>What the relay relies on: writes are logged in order, and nothing else records frames of its
  session while it waits.\<close>

locale ws_world =
  fixes bw :: "'w bp_world" and sw :: "'w session_world" and log :: "'w \<Rightarrow> write_op list" and sid :: string
  assumes bp_emit_log: "log (bw_emit bw ops w) = log w @ ops"
    and emit_log: "log (sw_emit sw ops w) = log w @ ops"
    and set_log: "log (bw_set_manager bw m w) = log w"
    and uuid_log: "log (snd (bw_uuid bw w)) = log w"
    and await_frames: "frames_of sid (log (snd (bw_await bw i w))) = frames_of sid (log w)"
begin

lemma pause_frame_frames: "frames_of sid (log (snd (pause_frame rx bw i c w))) = frames_of sid (log w)"
proof -
  have paused: "snd (frame_pause rx i b c m) = Some ops \<Longrightarrow> frames_of sid ops = []" for b m ops
    by (auto simp: frame_pause_def split_beta split: option.splits)
  have resumed: "frames_of sid (snd (snd (frame_resume i b oc m))) = []" for b oc m
    by (auto simp: frame_resume_def split: wait_outcome.splits)
  obtain b w1 where u: "bw_uuid bw w = (b, w1)" by (cases "bw_uuid bw w")
  then have w1: "log w1 = log w" using uuid_log [of w] by simp
  obtain m ops where fp: "frame_pause rx i b c (bw_manager bw w) = (m, ops)" by fastforce
  show ?thesis
  proof (cases ops)
    case (Some os)
    then have "frames_of sid os = []" using paused [of b "bw_manager bw w" os] fp by simp
    then show ?thesis
      by (simp add: pause_frame_def u fp Some split_beta Let_def bp_emit_log set_log await_frames w1 resumed)
  qed (simp add: pause_frame_def u fp split_beta Let_def)
qed

lemma maybe_pause_frames: "frames_of sid (log (snd (maybe_pause_frame rx bw rc d m w))) = frames_of sid (log w)"
  using pause_frame_frames by (simp add: maybe_pause_frame_def split_beta Let_def)

lemma record_frame_frames:
  "frames_of sid (log (record_frame sw sid m d w)) = frames_of sid (log w) @ (case frame_of (d, m) of Some f \<Rightarrow> [f] | None \<Rightarrow> [])"
  by (simp add: record_frame_def emit_log)

lemma relay_frames:
  assumes "wr_session_id rc = sid"
  shows "relay_ws rx bw sw rc es w = (out, ended, w') \<Longrightarrow>
    frames_of sid (log w') = frames_of sid (log w) @ (if wr_inspect rc then List.map_filter frame_of out else [])"
proof (induction es arbitrary: w out ended w')
  case (Cons e es)
  show ?case
  proof (cases "\<exists>d m sent. e = From_Side d (Some (m, sent))")
    case False
    then have "out = [] \<and> w' = w" using Cons.prems by (auto split: relay_event.splits option.splits)
    then show ?thesis by (simp add: map_filter_simps)
  next
    case True
    then obtain d m sent where e: "e = From_Side d (Some (m, sent))" by blast
    obtain r w1 where p: "maybe_pause_frame rx bw rc d m w = (r, w1)" by fastforce
    then have same: "frames_of sid (log w1) = frames_of sid (log w)" using maybe_pause_frames [of rx rc d m w] by simp
    show ?thesis
    proof (cases r)
      case None
      then show ?thesis using Cons e p same by simp
    next
      case (Some m1)
      define w2 where "w2 = (if wr_inspect rc then record_frame sw (wr_session_id rc) m1 d w1 else w1)"
      have w2: "frames_of sid (log w2) = frames_of sid (log w)
          @ (if wr_inspect rc then case frame_of (d, m1) of Some f \<Rightarrow> [f] | None \<Rightarrow> [] else [])"
        using same assms by (simp add: w2_def record_frame_frames)
      obtain out2 ended2 w3 where rest: "relay_ws rx bw sw rc es w2 = (out2, ended2, w3)"
        by (cases "relay_ws rx bw sw rc es w2") auto
      have "(out, ended, w') = (if \<not> sent \<or> is_close m1 then ([(d, m1)], True, w2) else ((d, m1) # out2, ended2, w3))"
        using Cons.prems relay_step [OF p [unfolded Some] rest [unfolded w2_def]] unfolding e w2_def by simp
      then show ?thesis
        using Cons.IH [OF rest] w2 by (auto simp: map_filter_simps split: if_splits option.splits)
    qed
  qed
qed (simp add: map_filter_simps)

end

text \<open>Without any rule the order and the kind of messages are kept whatever the breakpoints do.\<close>

lemma maybe_pause_kind: "maybe_pause_frame rx bw rc d m w = (Some m', w') \<Longrightarrow> same_kind m m'"
  by (auto simp: maybe_pause_frame_def split_beta Let_def split: if_splits bp_resolution.splits)

definition edited :: "ws_direction \<times> ws_message \<Rightarrow> ws_direction \<times> ws_message \<Rightarrow> bool" where
  "edited a b \<longleftrightarrow> fst a = fst b \<and> same_kind (snd a) (snd b)"

lemma relay_order:
  "relay_ws rx bw sw rc es w = (out, ended, w') \<Longrightarrow>
   \<exists>ms. subseq ms (received_messages es) \<and> list_all2 edited ms out"
proof (induction es arbitrary: w out ended w')
  case (Cons e es)
  have tail: "received_messages (e # es) = received_messages [e] @ received_messages es" by (simp add: received_messages_def map_filter_def)
  show ?case
  proof (cases "\<exists>d m sent. e = From_Side d (Some (m, sent))")
    case False
    then have "out = []" using Cons.prems by (auto split: relay_event.splits option.splits)
    then show ?thesis by (intro exI [of _ "[]"]) simp
  next
    case True
    then obtain d m sent where e: "e = From_Side d (Some (m, sent))" by blast
    then have head: "received_messages (e # es) = (d, m) # received_messages es" by (simp add: received_messages_def map_filter_simps)
    obtain r w1 where p: "maybe_pause_frame rx bw rc d m w = (r, w1)" by fastforce
    show ?thesis
    proof (cases r)
      case None
      then have "relay_ws rx bw sw rc es w1 = (out, ended, w')" using Cons.prems e p by simp
      from Cons.IH [OF this] show ?thesis unfolding head by (blast intro: subseq_Cons')
    next
      case (Some m1)
      then have kind: "edited (d, m) (d, m1)" using maybe_pause_kind p by (auto simp: edited_def)
      define w2 where "w2 = (if wr_inspect rc then record_frame sw (wr_session_id rc) m1 d w1 else w1)"
      obtain out2 ended2 w3 where rest: "relay_ws rx bw sw rc es w2 = (out2, ended2, w3)"
        by (cases "relay_ws rx bw sw rc es w2") auto
      have "out = [(d, m1)] \<or> out = (d, m1) # out2"
        using Cons.prems relay_step [OF p [unfolded Some] rest [unfolded w2_def], of sent] unfolding e
        by (simp split: if_splits)
      moreover obtain ms where "subseq ms (received_messages es)" "list_all2 edited ms out2" using Cons.IH [OF rest] by blast
      ultimately show ?thesis unfolding head using kind
        by (elim disjE) (force intro: exI [of _ "[(d, m)]"], force intro: exI [of _ "(d, m) # ms"])
    qed
  qed
qed (simp add: received_messages_def map_filter_simps)

section \<open>The relay of the program\<close>

text \<open>The session manager with its log, the breakpoint manager, and the answers that will arrive for
  paused frames; one that is not there is a timeout.\<close>

record ws_state =
  wz_recorder :: recorder_state
  wz_manager :: bp_manager
  wz_answers :: "wait_outcome list"

definition ws_sessions :: "ws_state session_world" where
  "ws_sessions =
     \<lparr>sw_emit = (\<lambda>ops s. s\<lparr>wz_recorder := sw_emit recorder_world ops (wz_recorder s)\<rparr>),
      sw_session = (\<lambda>i s. sw_session recorder_world i (wz_recorder s)),
      sw_wait = (\<lambda>s. s\<lparr>wz_recorder := sw_wait recorder_world (wz_recorder s)\<rparr>),
      sw_uuid = (\<lambda>s. (fst (sw_uuid recorder_world (wz_recorder s)),
        s\<lparr>wz_recorder := snd (sw_uuid recorder_world (wz_recorder s))\<rparr>)),
      sw_now = (\<lambda>s. sw_now recorder_world (wz_recorder s)),
      sw_instant = (\<lambda>s. sw_instant recorder_world (wz_recorder s))\<rparr>"

definition ws_breakpoints :: "ws_state bp_world" where
  "ws_breakpoints =
     \<lparr>bw_manager = wz_manager, bw_set_manager = (\<lambda>m s. s\<lparr>wz_manager := m\<rparr>),
      bw_emit = sw_emit ws_sessions, bw_uuid = sw_uuid ws_sessions, bw_clock = (\<lambda>s _. sw_now ws_sessions s),
      bw_await = (\<lambda>i s. case wz_answers s of
          [] \<Rightarrow> (TimedOut, s)
        | Resolved r # as \<Rightarrow> (Resolved r, s\<lparr>wz_answers := as, wz_manager := remove_pending i (wz_manager s)\<rparr>)
        | a # as \<Rightarrow> (a, s\<lparr>wz_answers := as\<rparr>))\<rparr>"

definition ws_log :: "ws_state \<Rightarrow> write_op list" where
  "ws_log s = rc_log (wz_recorder s)"

interpretation ws: ws_world ws_breakpoints ws_sessions ws_log sid for sid
proof unfold_locales
  fix i :: string and w :: ws_state
  show "frames_of sid (ws_log (snd (bw_await ws_breakpoints i w))) = frames_of sid (ws_log w)"
    by (simp add: ws_breakpoints_def ws_log_def split: list.split wait_outcome.split)
qed (simp_all add: ws_breakpoints_def ws_sessions_def ws_log_def recorder_world_def)

definition ws_start :: "bp_rule list \<Rightarrow> wait_outcome list \<Rightarrow> ws_state" where
  "ws_start rules replies = \<lparr>wz_recorder = recorder_start 10 1000, wz_manager = bm_new\<lparr>bm_rules := rules\<rparr>, wz_answers = replies\<rparr>"


definition sample_relay :: ws_relay_context where
  "sample_relay = \<lparr>wr_session_id = ''s'', wr_uri = ''ws://h:80/'', wr_host = ''h'', wr_inspect = True\<rparr>"

text \<open>Relaying ends with the first close, failed send, end of a side, or the shutdown.\<close>

fun relayed :: "relay_event list \<Rightarrow> (ws_direction \<times> ws_message) list" where
  "relayed (From_Side d (Some (m, sent)) # es) = (d, m) # (if \<not> sent \<or> is_close m then [] else relayed es)"
| "relayed _ = []"

lemma relay_transparent:
  assumes "\<And>ops w. bw_manager bw (sw_emit sw ops w) = bw_manager bw w"
  shows "\<not> has_frame_rules (bw_manager bw w) \<Longrightarrow> fst (relay_ws rx bw sw rc es w) = relayed es"
proof (induction es arbitrary: w rule: relayed.induct)
  case (1 d m sent es)
  let ?w = "if wr_inspect rc then record_frame sw (wr_session_id rc) m d w else w"
  have "\<not> has_frame_rules (bw_manager bw ?w)" using 1 assms by (simp add: record_frame_def)
  moreover obtain out ended w3 where rest: "relay_ws rx bw sw rc es ?w = (out, ended, w3)"
    by (cases "relay_ws rx bw sw rc es ?w") auto
  moreover have "maybe_pause_frame rx bw rc d m w = (Some m, w)" using 1 by (simp add: maybe_pause_frame_def)
  ultimately show ?case using 1 relay_step [OF _ rest] by fastforce
qed simp_all

text \<open>With no enabled breakpoint rule on frames the relay is transparent: the messages passed on are
  the received ones, unchanged and in order, up to and including the first close or failed send, and
  the session's log records exactly their frames.\<close>

theorem websocket_relay_transparent:
  assumes "\<not> has_frame_rules (wz_manager w)" and "wr_inspect rc"
    and "relay_ws rx ws_breakpoints ws_sessions rc es w = (out, ended, w')"
  shows "out = relayed es \<and>
    frames_of (wr_session_id rc) (ws_log w') =
      frames_of (wr_session_id rc) (ws_log w) @ List.map_filter frame_of (relayed es)"
proof -
  have "bw_manager ws_breakpoints (sw_emit ws_sessions ops v) = bw_manager ws_breakpoints v" for ops v
    by (simp add: ws_breakpoints_def ws_sessions_def)
  from relay_transparent [OF this, of w rx rc es] have "out = relayed es"
    using assms by (simp add: ws_breakpoints_def)
  then show ?thesis using ws.relay_frames [OF refl assms(3)] assms(2) by simp
qed

theorem websocket_relay_transparent_witness:
  "fst (relay_ws literal_regex ws_breakpoints ws_sessions sample_relay
     [From_Side ClientToServer (Some (Ws_Text ''a'', True)), From_Side ServerToClient (Some (Ws_Close None, True)),
      From_Side ClientToServer (Some (Ws_Text ''b'', True))] (ws_start [] []))
   = [(ClientToServer, Ws_Text ''a''), (ServerToClient, Ws_Close None)]"
proof -
  let ?es = "[From_Side ClientToServer (Some (Ws_Text ''a'', True)), From_Side ServerToClient (Some (Ws_Close None, True)),
      From_Side ClientToServer (Some (Ws_Text ''b'', True))]"
  obtain out ended w' where r: "relay_ws literal_regex ws_breakpoints ws_sessions sample_relay ?es (ws_start [] []) = (out, ended, w')"
    by (cases "relay_ws literal_regex ws_breakpoints ws_sessions sample_relay ?es (ws_start [] [])") auto
  have "\<not> has_frame_rules (wz_manager (ws_start [] []))" by (simp add: ws_start_def has_frame_rules_def bm_new_def)
  from websocket_relay_transparent [OF this _ r] show ?thesis unfolding r by (simp add: sample_relay_def)
qed


text \<open>An upgrade that the upstream refuses is answered without a trace in the session store, unlike a
  request that fails; and no plugin is asked, the access rules included: the outcome depends on the
  rules of the mock server alone.\<close>

lemma refused_upgrade_unrecorded:
  assumes "fst (select_ws_mock_script rx (rules w) (rules w) (ws_request_context (prepare_websocket wl req mitm))) = None"
    and "connect (prepare_websocket wl req mitm) w = (Ws_Connect_Failed, w1)"
    and "wl_request_error wl (ws_url (prepare_websocket wl req mitm)) (upstream_handshake wl (prepare_websocket wl req mitm)) = None"
  shows "handle_websocket rx wl ok sw rules set_rules inspect req sid mitm connect w =
     (Ws_Refused 502 ''WebSocket upstream connect failed'', w1)"
  using assms by (auto simp: handle_websocket_def Let_def split: prod.splits option.splits)

end
