(* ===== verification/Config.thy ===== *)
theory Config
  imports Auth Utf8_Strings
begin

text \<open>
  The configuration (\<open>config/mod.rs\<close>, and \<open>setup.rs\<close> for the address the setup pages show): built-in
  defaults, the YAML file over them, environment variables over both, and the warnings.

  Reading a file, the YAML parser and the decoding of single YAML values are the parameters
  \<open>config_io\<close>; which fields are required and what a missing one becomes is modelled here. A
  \<open>PathBuf\<close> is the string it was made from.
\<close>

section \<open>The data\<close>

record log_config =
  lg_level :: string
  lg_dir :: string
  lg_file :: string

record mitm_config =
  mt_enabled :: bool
  mt_root_ca_path :: string

record config =
  cf_port :: u16
  cf_bind_host :: string
  cf_mitm :: mitm_config
  cf_storage_path :: string
  cf_timeout_secs :: u64
  cf_connect_timeout_secs :: u64
  cf_handshake_timeout_secs :: u64
  cf_shutdown_grace_secs :: u64
  cf_max_body_bytes :: nat
  cf_stream_threshold_bytes :: u64
  cf_pool_max_idle_per_host :: nat
  cf_pool_idle_timeout_secs :: u64
  cf_max_sessions :: nat
  cf_max_retained_body_bytes :: nat
  cf_max_connections :: nat
  cf_https_port :: "u16 option"
  cf_inspect_ws_frames :: bool
  cf_allow_remote_admin :: bool
  cf_admin_token :: "string option"
  cf_allow_private_admin_egress :: bool
  cf_upstream_proxy :: "string option"
  cf_socks5_port :: "u16 option"
  cf_http3_enabled :: bool
  cf_http3_port :: "u16 option"
  cf_otel_enabled :: bool
  cf_otel_endpoint :: "string option"
  cf_map_local_base_path :: "string option"
  cf_update_check :: bool
  cf_advertised_host :: "string option"
  cf_log :: log_config

definition default_mitm_config :: mitm_config where
  "default_mitm_config = \<lparr>mt_enabled = False, mt_root_ca_path = ''./certs''\<rparr>"

definition default_log_config :: log_config where
  "default_log_config = \<lparr>lg_level = ''info'', lg_dir = ''.'', lg_file = ''server.log''\<rparr>"

definition default_config :: config where
  "default_config = \<lparr>cf_port = 8080, cf_bind_host = ''127.0.0.1'', cf_mitm = default_mitm_config,
     cf_storage_path = ''./storage'', cf_timeout_secs = 30, cf_connect_timeout_secs = 10,
     cf_handshake_timeout_secs = 10, cf_shutdown_grace_secs = 10, cf_max_body_bytes = 10 * 1024 * 1024,
     cf_stream_threshold_bytes = 512 * 1024, cf_pool_max_idle_per_host = 10, cf_pool_idle_timeout_secs = 30,
     cf_max_sessions = 10000, cf_max_retained_body_bytes = 64 * 1024 * 1024, cf_max_connections = 1024,
     cf_https_port = None, cf_inspect_ws_frames = True, cf_allow_remote_admin = False, cf_admin_token = None,
     cf_allow_private_admin_egress = False, cf_upstream_proxy = None, cf_socks5_port = None,
     cf_http3_enabled = False, cf_http3_port = None, cf_otel_enabled = False, cf_otel_endpoint = None,
     cf_map_local_base_path = None, cf_update_check = True, cf_advertised_host = None,
     cf_log = default_log_config\<rparr>"

section \<open>The file\<close>

text \<open>A YAML mapping is a list of entries; the decoders say what a value is read as at a type.\<close>

record 'y config_io =
  ci_read :: "string \<Rightarrow> string + string"
  ci_yaml :: "string \<Rightarrow> (string \<rightharpoonup> 'y) option"
  ci_map :: "'y \<Rightarrow> (string \<rightharpoonup> 'y) option"
  ci_null :: "'y \<Rightarrow> bool"
  ci_bool :: "'y \<Rightarrow> bool option"
  ci_u16 :: "'y \<Rightarrow> u16 option"
  ci_u64 :: "'y \<Rightarrow> u64 option"
  ci_usize :: "'y \<Rightarrow> nat option"
  ci_string :: "'y \<Rightarrow> string option"
  ci_exists :: "string \<Rightarrow> bool"
  ci_readonly :: "string \<Rightarrow> bool option"
  ci_feature :: "string \<Rightarrow> bool"

definition required :: "('y \<Rightarrow> 'a option) \<Rightarrow> (string \<rightharpoonup> 'y) \<Rightarrow> string \<Rightarrow> 'a option" where
  "required dec m key = Option.bind (m key) dec"

definition defaulted :: "('y \<Rightarrow> 'a option) \<Rightarrow> 'a \<Rightarrow> (string \<rightharpoonup> 'y) \<Rightarrow> string \<Rightarrow> 'a option" where
  "defaulted dec d m key = (case m key of None \<Rightarrow> Some d | Some y \<Rightarrow> dec y)"

definition optional :: "'y config_io \<Rightarrow> ('y \<Rightarrow> 'a option) \<Rightarrow> 'y \<Rightarrow> 'a option option" where
  "optional io dec y = (if ci_null io y then Some None else map_option Some (dec y))"

definition decode_mitm :: "'y config_io \<Rightarrow> 'y \<Rightarrow> mitm_config option" where
  "decode_mitm io y = Option.bind (ci_map io y) (\<lambda>m.
     Option.bind (required (ci_bool io) m ''enabled'') (\<lambda>enabled.
     Option.bind (required (ci_string io) m ''root_ca_path'') (\<lambda>path.
     Some \<lparr>mt_enabled = enabled, mt_root_ca_path = path\<rparr>)))"

definition decode_log :: "'y config_io \<Rightarrow> 'y \<Rightarrow> log_config option" where
  "decode_log io y = Option.bind (ci_map io y) (\<lambda>m.
     Option.bind (defaulted (ci_string io) ''info'' m ''level'') (\<lambda>level.
     Option.bind (defaulted (ci_string io) ''.'' m ''dir'') (\<lambda>dir.
     Option.bind (defaulted (ci_string io) ''server.log'' m ''file'') (\<lambda>log_file.
     Some \<lparr>lg_level = level, lg_dir = dir, lg_file = log_file\<rparr>))))"

text \<open>One field after the other; \<open>None\<close> is a failed parse.\<close>

definition put :: "'a option \<Rightarrow> ('a \<Rightarrow> config \<Rightarrow> config) \<Rightarrow> config option \<Rightarrow> config option" where
  "put v set_field cfg = Option.bind v (\<lambda>x. map_option (set_field x) cfg)"

definition decode_config :: "'y config_io \<Rightarrow> (string \<rightharpoonup> 'y) \<Rightarrow> config option" where
  "decode_config io m =
     (let str = ci_string io; bl = ci_bool io; w64 = ci_u64 io; sz = ci_usize io;
          opt_port = defaulted (optional io (ci_u16 io)) None m; opt_str = defaulted (optional io str) None m
      in (put (required (ci_u16 io) m ''port'') (\<lambda>x. cf_port_update (\<lambda>_. x))
        \<circ> put (defaulted str ''127.0.0.1'' m ''bind_host'') (\<lambda>x. cf_bind_host_update (\<lambda>_. x))
        \<circ> put (defaulted (decode_mitm io) default_mitm_config m ''mitm'') (\<lambda>x. cf_mitm_update (\<lambda>_. x))
        \<circ> put (defaulted str ''./storage'' m ''storage_path'') (\<lambda>x. cf_storage_path_update (\<lambda>_. x))
        \<circ> put (defaulted w64 30 m ''timeout_secs'') (\<lambda>x. cf_timeout_secs_update (\<lambda>_. x))
        \<circ> put (defaulted w64 10 m ''connect_timeout_secs'') (\<lambda>x. cf_connect_timeout_secs_update (\<lambda>_. x))
        \<circ> put (defaulted w64 10 m ''handshake_timeout_secs'') (\<lambda>x. cf_handshake_timeout_secs_update (\<lambda>_. x))
        \<circ> put (defaulted w64 10 m ''shutdown_grace_secs'') (\<lambda>x. cf_shutdown_grace_secs_update (\<lambda>_. x))
        \<circ> put (defaulted sz (10 * 1024 * 1024) m ''max_body_bytes'') (\<lambda>x. cf_max_body_bytes_update (\<lambda>_. x))
        \<circ> put (defaulted w64 (512 * 1024) m ''stream_threshold_bytes'') (\<lambda>x. cf_stream_threshold_bytes_update (\<lambda>_. x))
        \<circ> put (defaulted sz 10 m ''pool_max_idle_per_host'') (\<lambda>x. cf_pool_max_idle_per_host_update (\<lambda>_. x))
        \<circ> put (defaulted w64 30 m ''pool_idle_timeout_secs'') (\<lambda>x. cf_pool_idle_timeout_secs_update (\<lambda>_. x))
        \<circ> put (defaulted sz 10000 m ''max_sessions'') (\<lambda>x. cf_max_sessions_update (\<lambda>_. x))
        \<circ> put (defaulted sz (64 * 1024 * 1024) m ''max_retained_body_bytes'') (\<lambda>x. cf_max_retained_body_bytes_update (\<lambda>_. x))
        \<circ> put (defaulted sz 1024 m ''max_connections'') (\<lambda>x. cf_max_connections_update (\<lambda>_. x))
        \<circ> put (opt_port ''https_port'') (\<lambda>x. cf_https_port_update (\<lambda>_. x))
        \<circ> put (defaulted bl True m ''inspect_ws_frames'') (\<lambda>x. cf_inspect_ws_frames_update (\<lambda>_. x))
        \<circ> put (defaulted bl False m ''allow_remote_admin'') (\<lambda>x. cf_allow_remote_admin_update (\<lambda>_. x))
        \<circ> put (opt_str ''admin_token'') (\<lambda>x. cf_admin_token_update (\<lambda>_. x))
        \<circ> put (defaulted bl False m ''allow_private_admin_egress'') (\<lambda>x. cf_allow_private_admin_egress_update (\<lambda>_. x))
        \<circ> put (opt_str ''upstream_proxy'') (\<lambda>x. cf_upstream_proxy_update (\<lambda>_. x))
        \<circ> put (opt_port ''socks5_port'') (\<lambda>x. cf_socks5_port_update (\<lambda>_. x))
        \<circ> put (defaulted bl False m ''http3_enabled'') (\<lambda>x. cf_http3_enabled_update (\<lambda>_. x))
        \<circ> put (opt_port ''http3_port'') (\<lambda>x. cf_http3_port_update (\<lambda>_. x))
        \<circ> put (defaulted bl False m ''otel_enabled'') (\<lambda>x. cf_otel_enabled_update (\<lambda>_. x))
        \<circ> put (opt_str ''otel_endpoint'') (\<lambda>x. cf_otel_endpoint_update (\<lambda>_. x))
        \<circ> put (opt_str ''map_local_base_path'') (\<lambda>x. cf_map_local_base_path_update (\<lambda>_. x))
        \<circ> put (defaulted bl True m ''update_check'') (\<lambda>x. cf_update_check_update (\<lambda>_. x))
        \<circ> put (opt_str ''advertised_host'') (\<lambda>x. cf_advertised_host_update (\<lambda>_. x))
        \<circ> put (defaulted (decode_log io) default_log_config m ''log'') (\<lambda>x. cf_log_update (\<lambda>_. x)))
        (Some default_config))"

section \<open>Environment variables\<close>

text \<open>A variable is absent, text, or bytes that are not text.\<close>

datatype env_var = Not_Present | Not_Unicode | Env_Text string

type_synonym environment = "string \<Rightarrow> env_var"

fun env_value :: "environment \<Rightarrow> string \<Rightarrow> string option or_panic" where
  "env_value env name = (case env name of
     Env_Text value \<Rightarrow> Returns (Some value) | Not_Present \<Rightarrow> Returns None | Not_Unicode \<Rightarrow> Panic)"

declare env_value.simps [simp del]

definition parse_env :: "(string \<Rightarrow> 'a option) \<Rightarrow> string \<Rightarrow> 'a or_panic" where
  "parse_env from_str value = (case from_str value of Some x \<Rightarrow> Returns x | None \<Rightarrow> Panic)"

definition parse_env_bool :: "string \<Rightarrow> bool or_panic" where
  "parse_env_bool value =
     (let v = to_ascii_lowercase (trim_str value)
      in if v \<in> {''1'', ''true'', ''yes''} then Returns True
         else if v \<in> {''0'', ''false'', ''no''} then Returns False else Panic)"

definition non_empty_value :: "string \<Rightarrow> string option" where
  "non_empty_value value = (let v = trim_str value in if v \<noteq> [] then Some v else None)"

definition parse_optional_port :: "string \<Rightarrow> u16 option or_panic" where
  "parse_optional_port value0 =
     (let value = trim_str value0
      in if value = [] \<or> value = ''0'' then Returns None
         else bind_panic (parse_env parse_u16 value) (\<lambda>p. Returns (Some p)))"

definition env_u16 :: "string \<Rightarrow> u16 or_panic" where "env_u16 = parse_env parse_u16"
definition env_u64 :: "string \<Rightarrow> u64 or_panic" where "env_u64 = parse_env parse_u64"
definition env_usize :: "string \<Rightarrow> nat or_panic" where "env_usize = parse_env (parse_unsigned 64)"
definition env_port :: "string \<Rightarrow> u16 option or_panic" where
  "env_port value = bind_panic (parse_env parse_u16 value) (\<lambda>p. Returns (Some p))"
definition env_text :: "string \<Rightarrow> string or_panic" where "env_text value = Returns value"
definition env_non_empty :: "string \<Rightarrow> string option or_panic" where "env_non_empty value = Returns (non_empty_value value)"

text \<open>\<open>if let Some(value) = env_value(name) { self.field = parse(value) }\<close>.\<close>

definition override ::
    "environment \<Rightarrow> string \<Rightarrow> (string \<Rightarrow> 'a or_panic) \<Rightarrow> ('a \<Rightarrow> config \<Rightarrow> config) \<Rightarrow> config \<Rightarrow> config or_panic" where
  "override env name parse set_field cfg = bind_panic (env_value env name) (\<lambda>v. case v of
     None \<Rightarrow> Returns cfg
   | Some value \<Rightarrow> bind_panic (parse value) (\<lambda>x. Returns (set_field x cfg)))"

fun in_turn :: "('a \<Rightarrow> 'a or_panic) list \<Rightarrow> 'a \<Rightarrow> 'a or_panic" where
  "in_turn [] x = Returns x"
| "in_turn (f # fs) x = bind_panic (f x) (in_turn fs)"

definition set_log_level :: "string \<Rightarrow> config \<Rightarrow> config" where
  "set_log_level x cfg = cfg\<lparr>cf_log := (cf_log cfg)\<lparr>lg_level := x\<rparr>\<rparr>"

definition set_log_dir :: "string \<Rightarrow> config \<Rightarrow> config" where
  "set_log_dir x cfg = cfg\<lparr>cf_log := (cf_log cfg)\<lparr>lg_dir := x\<rparr>\<rparr>"

definition set_mitm_enabled :: "bool \<Rightarrow> config \<Rightarrow> config" where
  "set_mitm_enabled x cfg = cfg\<lparr>cf_mitm := (cf_mitm cfg)\<lparr>mt_enabled := x\<rparr>\<rparr>"

definition apply_network_env :: "environment \<Rightarrow> config \<Rightarrow> config or_panic" where
  "apply_network_env env = in_turn
     [override env ''OPROXY_PORT'' env_u16 (\<lambda>x. cf_port_update (\<lambda>_. x)),
      override env ''OPROXY_BIND_HOST'' env_text (\<lambda>x. cf_bind_host_update (\<lambda>_. x)),
      override env ''OPROXY_HTTPS_PORT'' env_port (\<lambda>x. cf_https_port_update (\<lambda>_. x)),
      override env ''OPROXY_HTTP3_ENABLED'' parse_env_bool (\<lambda>x. cf_http3_enabled_update (\<lambda>_. x)),
      override env ''OPROXY_HTTP3_PORT'' env_port (\<lambda>x. cf_http3_port_update (\<lambda>_. x)),
      override env ''OPROXY_SOCKS5_PORT'' parse_optional_port (\<lambda>x. cf_socks5_port_update (\<lambda>_. x)),
      override env ''OPROXY_ADVERTISED_HOST'' env_non_empty (\<lambda>x. cf_advertised_host_update (\<lambda>_. x))]"

definition apply_runtime_env :: "environment \<Rightarrow> config \<Rightarrow> config or_panic" where
  "apply_runtime_env env = in_turn
     [override env ''OPROXY_MAX_BODY_BYTES'' env_usize (\<lambda>x. cf_max_body_bytes_update (\<lambda>_. x)),
      override env ''OPROXY_STREAM_THRESHOLD_BYTES'' env_u64 (\<lambda>x. cf_stream_threshold_bytes_update (\<lambda>_. x)),
      override env ''OPROXY_MAX_SESSIONS'' env_usize (\<lambda>x. cf_max_sessions_update (\<lambda>_. x)),
      override env ''OPROXY_MAX_RETAINED_BODY_BYTES'' env_usize (\<lambda>x. cf_max_retained_body_bytes_update (\<lambda>_. x)),
      override env ''OPROXY_MAX_CONNECTIONS'' env_usize (\<lambda>x. cf_max_connections_update (\<lambda>_. x)),
      override env ''OPROXY_CONNECT_TIMEOUT_SECS'' env_u64 (\<lambda>x. cf_connect_timeout_secs_update (\<lambda>_. x)),
      override env ''OPROXY_HANDSHAKE_TIMEOUT_SECS'' env_u64 (\<lambda>x. cf_handshake_timeout_secs_update (\<lambda>_. x)),
      override env ''OPROXY_SHUTDOWN_GRACE_SECS'' env_u64 (\<lambda>x. cf_shutdown_grace_secs_update (\<lambda>_. x)),
      override env ''OPROXY_INSPECT_WS_FRAMES'' parse_env_bool (\<lambda>x. cf_inspect_ws_frames_update (\<lambda>_. x))]"

definition apply_security_env :: "environment \<Rightarrow> config \<Rightarrow> config or_panic" where
  "apply_security_env env = in_turn
     [override env ''OPROXY_MITM_ENABLED'' parse_env_bool set_mitm_enabled,
      override env ''OPROXY_ALLOW_REMOTE_ADMIN'' parse_env_bool (\<lambda>x. cf_allow_remote_admin_update (\<lambda>_. x)),
      override env ''OPROXY_ADMIN_TOKEN'' env_non_empty (\<lambda>x. cf_admin_token_update (\<lambda>_. x)),
      override env ''OPROXY_ALLOW_PRIVATE_ADMIN_EGRESS'' parse_env_bool
        (\<lambda>x. cf_allow_private_admin_egress_update (\<lambda>_. x))]"

definition apply_observability_env :: "environment \<Rightarrow> config \<Rightarrow> config or_panic" where
  "apply_observability_env env = in_turn
     [override env ''OPROXY_LOG_LEVEL'' env_text set_log_level,
      override env ''OPROXY_LOG_DIR'' env_text set_log_dir,
      override env ''OPROXY_OTEL_ENABLED'' parse_env_bool (\<lambda>x. cf_otel_enabled_update (\<lambda>_. x)),
      override env ''OPROXY_OTEL_ENDPOINT'' env_non_empty (\<lambda>x. cf_otel_endpoint_update (\<lambda>_. x)),
      override env ''OPROXY_UPDATE_CHECK'' parse_env_bool (\<lambda>x. cf_update_check_update (\<lambda>_. x))]"

definition apply_path_env :: "environment \<Rightarrow> config \<Rightarrow> config or_panic" where
  "apply_path_env env = in_turn
     [override env ''OPROXY_STORAGE_PATH'' env_text (\<lambda>x. cf_storage_path_update (\<lambda>_. x)),
      override env ''OPROXY_MAP_LOCAL_BASE_PATH'' env_non_empty (\<lambda>x. cf_map_local_base_path_update (\<lambda>_. x))]"

definition apply_env_overrides :: "environment \<Rightarrow> config \<Rightarrow> config or_panic" where
  "apply_env_overrides env = in_turn
     [apply_network_env env, apply_runtime_env env, apply_security_env env, apply_observability_env env,
      apply_path_env env]"

section \<open>Warnings\<close>

definition warn_if :: "bool \<Rightarrow> string \<Rightarrow> string list" where
  "warn_if b m = (if b then [m] else [])"

definition validate_limits :: "config \<Rightarrow> string list" where
  "validate_limits cfg =
     warn_if (cf_port cfg = 0) ''port is 0 - OS will assign an ephemeral port''
     @ warn_if (cf_timeout_secs cfg = 0) ''timeout_secs is 0 - upstream requests will never time out''
     @ warn_if (cf_connect_timeout_secs cfg = 0) ''connect_timeout_secs is 0 - TCP connect attempts time out immediately''
     @ warn_if (cf_handshake_timeout_secs cfg = 0)
         ''handshake_timeout_secs is 0 - protocol handshakes time out immediately''
     @ warn_if (cf_shutdown_grace_secs cfg = 0) ''shutdown_grace_secs is 0 - active connections are not drained''
     @ warn_if (cf_max_body_bytes cfg = 0) ''max_body_bytes is 0 - request/response bodies will not be buffered''
     @ warn_if (cf_stream_threshold_bytes cfg = 0)
         (''stream_threshold_bytes is 0 - every non-empty response will be streamed, so ''
          @ ''response-mutating middleware (rewrite/mock/lua replace_body) will have no ''
          @ ''effect on any response'')
     @ warn_if (cf_max_connections cfg = 0) ''max_connections is 0 - all downstream connections will be rejected''"

definition validate_paths :: "'y config_io \<Rightarrow> config \<Rightarrow> string list" where
  "validate_paths io cfg =
     (if \<not> ci_exists io (cf_storage_path cfg)
      then [''storage_path '' @ [CHR 39] @ cf_storage_path cfg @ [CHR 39] @ '' does not exist - it will be created on startup'']
      else warn_if (case ci_readonly io (cf_storage_path cfg) of Some b \<Rightarrow> b | None \<Rightarrow> True)
        (''storage_path '' @ [CHR 39] @ cf_storage_path cfg @ [CHR 39] @ '' appears to be read-only''))
     @ warn_if (mt_enabled (cf_mitm cfg) \<and> \<not> ci_exists io (mt_root_ca_path (cf_mitm cfg)))
        (''mitm.root_ca_path '' @ [CHR 39] @ mt_root_ca_path (cf_mitm cfg) @ [CHR 39]
         @ '' does not exist - CA will be generated on first start'')
     @ (case cf_map_local_base_path cfg of
          Some path \<Rightarrow> warn_if (\<not> ci_exists io path)
            (''map_local_base_path '' @ [CHR 39] @ path @ [CHR 39]
             @ '' does not exist - map_local rules will fail at runtime'')
        | None \<Rightarrow> [])"

definition validate_optional_features :: "'y config_io \<Rightarrow> config \<Rightarrow> string list" where
  "validate_optional_features io cfg =
     warn_if (cf_http3_enabled cfg \<and> cf_http3_port cfg = None)
       ''http3_enabled is true but http3_port is not set - the HTTP/3 listener will not start''
     @ (case cf_http3_port cfg of
          Some h3 \<Rightarrow> warn_if (h3 = cf_port cfg)
              (''http3_port equals the TCP port - HTTP/3 uses UDP so this is allowed, ''
               @ ''but a distinct port is recommended'')
            @ warn_if (\<not> ci_feature io ''http3'')
              ''http3_port is set but the binary was built without the `http3` feature - HTTP/3 is unavailable''
        | None \<Rightarrow> [])
     @ (if cf_otel_enabled cfg
        then warn_if (cf_otel_endpoint cfg = None)
               ''otel_enabled is true but otel_endpoint is not set - no spans will be exported''
             @ warn_if (\<not> ci_feature io ''otel'')
               (''otel_enabled is true but the binary was built without the `otel` feature - ''
                @ ''OpenTelemetry export is unavailable'')
        else [])"

definition remote_admin_blocked_warning :: string where
  "remote_admin_blocked_warning =
     ''allow_remote_admin is enabled without admin_token - remote admin access is ''
     @ ''blocked (fails closed) until OPROXY_ADMIN_TOKEN is set; the feature has no ''
     @ ''effect yet''"

definition wildcard_warning :: string where
  "wildcard_warning = ''bind_host is wildcard without admin_token - use OPROXY_ADMIN_TOKEN when exposing ''
     @ ''the proxy to untrusted clients''"

definition private_egress_warning :: string where
  "private_egress_warning = ''allow_private_admin_egress is enabled with remote admin - admin forward/webhook ''
     @ ''requests can reach private networks''"

definition validate_admin_security :: "config \<Rightarrow> string list" where
  "validate_admin_security cfg =
     (let admin_token_missing = (case cf_admin_token cfg of Some token \<Rightarrow> trim_str token = [] | None \<Rightarrow> True)
      in warn_if (cf_allow_remote_admin cfg \<and> admin_token_missing) remote_admin_blocked_warning
         @ warn_if (trim_str (cf_bind_host cfg) \<in> {''0.0.0.0'', ''::'', ''[::]''} \<and> admin_token_missing) wildcard_warning
         @ warn_if (cf_allow_remote_admin cfg \<and> cf_allow_private_admin_egress cfg) private_egress_warning)"

definition validate_config :: "'y config_io \<Rightarrow> config \<Rightarrow> string list" where
  "validate_config io cfg = validate_limits cfg @ validate_paths io cfg @ validate_optional_features io cfg
     @ validate_admin_security cfg"

section \<open>Loading\<close>

definition clamped_warning :: string where
  "clamped_warning =
     ''max_connections was 0 (all downstream connections would be rejected) - clamped to 1''"

text \<open>The configuration that the file gives, with the messages, before the environment.\<close>

definition base_config :: "'y config_io \<Rightarrow> string \<Rightarrow> bool \<Rightarrow> (config \<times> string list \<times> string list) or_panic" where
  "base_config io path explicit = (case ci_read io path of
     Inr contents \<Rightarrow> (case Option.bind (ci_yaml io contents) (decode_config io) of
         Some parsed \<Rightarrow> Returns (parsed, [''Loaded config from file: '' @ path], [])
       | None \<Rightarrow> Panic)
   | Inl e \<Rightarrow> if \<not> explicit
       then Returns (default_config, [],
              [''Config file '' @ [CHR 39] @ path @ [CHR 39] @ '' not found - using built-in defaults ('' @ e @ '')''])
       else Panic)"

definition load_from_path ::
    "'y config_io \<Rightarrow> environment \<Rightarrow> string \<Rightarrow> bool \<Rightarrow> (config \<times> string list \<times> string list) or_panic" where
  "load_from_path io env path explicit =
     bind_panic (base_config io path explicit) (\<lambda>(config0, infos, warnings).
     bind_panic (apply_env_overrides env config0) (\<lambda>config1.
       let (config2, clamped) = (if cf_max_connections config1 = 0
                                 then (config1\<lparr>cf_max_connections := 1\<rparr>, [clamped_warning]) else (config1, []))
       in Returns (config2, infos, warnings @ clamped @ validate_config io config2)))"

definition load_with_diagnostics :: "'y config_io \<Rightarrow> environment \<Rightarrow> (config \<times> string list \<times> string list) or_panic" where
  "load_with_diagnostics io env = bind_panic (env_value env ''OPROXY_CONFIG'') (\<lambda>explicit_path.
     load_from_path io env (case explicit_path of Some p \<Rightarrow> p | None \<Rightarrow> ''./configs/default.yaml'') (explicit_path \<noteq> None))"

text \<open>\<open>setup.rs\<close>: the host that the setup pages show; \<open>detected\<close> is the address of the socket trick.\<close>

definition advertised_lan_ip :: "string option \<Rightarrow> string option \<Rightarrow> string option" where
  "advertised_lan_ip detected advertised_host = (case advertised_host of
     Some h \<Rightarrow> if trim_str h \<noteq> [] then Some (trim_str h) else detected
   | None \<Rightarrow> detected)"


section \<open>Precedence\<close>

text \<open>What a variable makes of a value, and whether it can be used at all.\<close>

definition env_ok :: "environment \<Rightarrow> string \<Rightarrow> (string \<Rightarrow> 'a or_panic) \<Rightarrow> bool" where
  "env_ok env name parse = (case env name of
     Not_Present \<Rightarrow> True | Not_Unicode \<Rightarrow> False | Env_Text v \<Rightarrow> parse v \<noteq> Panic)"

definition env_or :: "environment \<Rightarrow> string \<Rightarrow> (string \<Rightarrow> 'a or_panic) \<Rightarrow> 'a \<Rightarrow> 'a" where
  "env_or env name parse old = (case env name of
     Env_Text v \<Rightarrow> (case parse v of Returns x \<Rightarrow> x | Panic \<Rightarrow> old) | _ \<Rightarrow> old)"

definition overridden :: "environment \<Rightarrow> config \<Rightarrow> config" where
  "overridden env c = c\<lparr>
     cf_port := env_or env ''OPROXY_PORT'' env_u16 (cf_port c),
     cf_bind_host := env_or env ''OPROXY_BIND_HOST'' env_text (cf_bind_host c),
     cf_https_port := env_or env ''OPROXY_HTTPS_PORT'' env_port (cf_https_port c),
     cf_http3_enabled := env_or env ''OPROXY_HTTP3_ENABLED'' parse_env_bool (cf_http3_enabled c),
     cf_http3_port := env_or env ''OPROXY_HTTP3_PORT'' env_port (cf_http3_port c),
     cf_socks5_port := env_or env ''OPROXY_SOCKS5_PORT'' parse_optional_port (cf_socks5_port c),
     cf_advertised_host := env_or env ''OPROXY_ADVERTISED_HOST'' env_non_empty (cf_advertised_host c),
     cf_max_body_bytes := env_or env ''OPROXY_MAX_BODY_BYTES'' env_usize (cf_max_body_bytes c),
     cf_stream_threshold_bytes := env_or env ''OPROXY_STREAM_THRESHOLD_BYTES'' env_u64 (cf_stream_threshold_bytes c),
     cf_max_sessions := env_or env ''OPROXY_MAX_SESSIONS'' env_usize (cf_max_sessions c),
     cf_max_retained_body_bytes :=
       env_or env ''OPROXY_MAX_RETAINED_BODY_BYTES'' env_usize (cf_max_retained_body_bytes c),
     cf_max_connections := env_or env ''OPROXY_MAX_CONNECTIONS'' env_usize (cf_max_connections c),
     cf_connect_timeout_secs := env_or env ''OPROXY_CONNECT_TIMEOUT_SECS'' env_u64 (cf_connect_timeout_secs c),
     cf_handshake_timeout_secs := env_or env ''OPROXY_HANDSHAKE_TIMEOUT_SECS'' env_u64 (cf_handshake_timeout_secs c),
     cf_shutdown_grace_secs := env_or env ''OPROXY_SHUTDOWN_GRACE_SECS'' env_u64 (cf_shutdown_grace_secs c),
     cf_inspect_ws_frames := env_or env ''OPROXY_INSPECT_WS_FRAMES'' parse_env_bool (cf_inspect_ws_frames c),
     cf_mitm := (cf_mitm c)\<lparr>mt_enabled := env_or env ''OPROXY_MITM_ENABLED'' parse_env_bool (mt_enabled (cf_mitm c))\<rparr>,
     cf_allow_remote_admin := env_or env ''OPROXY_ALLOW_REMOTE_ADMIN'' parse_env_bool (cf_allow_remote_admin c),
     cf_admin_token := env_or env ''OPROXY_ADMIN_TOKEN'' env_non_empty (cf_admin_token c),
     cf_allow_private_admin_egress :=
       env_or env ''OPROXY_ALLOW_PRIVATE_ADMIN_EGRESS'' parse_env_bool (cf_allow_private_admin_egress c),
     cf_log := (cf_log c)\<lparr>lg_level := env_or env ''OPROXY_LOG_LEVEL'' env_text (lg_level (cf_log c)),
                         lg_dir := env_or env ''OPROXY_LOG_DIR'' env_text (lg_dir (cf_log c))\<rparr>,
     cf_otel_enabled := env_or env ''OPROXY_OTEL_ENABLED'' parse_env_bool (cf_otel_enabled c),
     cf_otel_endpoint := env_or env ''OPROXY_OTEL_ENDPOINT'' env_non_empty (cf_otel_endpoint c),
     cf_update_check := env_or env ''OPROXY_UPDATE_CHECK'' parse_env_bool (cf_update_check c),
     cf_storage_path := env_or env ''OPROXY_STORAGE_PATH'' env_text (cf_storage_path c),
     cf_map_local_base_path := env_or env ''OPROXY_MAP_LOCAL_BASE_PATH'' env_non_empty (cf_map_local_base_path c)\<rparr>"

definition environment_ok :: "environment \<Rightarrow> bool" where
  "environment_ok env \<longleftrightarrow>
     (\<forall>n \<in> {''OPROXY_BIND_HOST'', ''OPROXY_ADVERTISED_HOST'', ''OPROXY_ADMIN_TOKEN'', ''OPROXY_LOG_LEVEL'',
            ''OPROXY_LOG_DIR'', ''OPROXY_OTEL_ENDPOINT'', ''OPROXY_STORAGE_PATH'', ''OPROXY_MAP_LOCAL_BASE_PATH''}.
        env n \<noteq> Not_Unicode)
     \<and> env_ok env ''OPROXY_PORT'' env_u16
     \<and> (\<forall>n \<in> {''OPROXY_HTTPS_PORT'', ''OPROXY_HTTP3_PORT''}. env_ok env n env_port)
     \<and> env_ok env ''OPROXY_SOCKS5_PORT'' parse_optional_port
     \<and> (\<forall>n \<in> {''OPROXY_HTTP3_ENABLED'', ''OPROXY_INSPECT_WS_FRAMES'', ''OPROXY_MITM_ENABLED'',
            ''OPROXY_ALLOW_REMOTE_ADMIN'', ''OPROXY_ALLOW_PRIVATE_ADMIN_EGRESS'', ''OPROXY_OTEL_ENABLED'',
            ''OPROXY_UPDATE_CHECK''}. env_ok env n parse_env_bool)
     \<and> (\<forall>n \<in> {''OPROXY_MAX_BODY_BYTES'', ''OPROXY_MAX_SESSIONS'', ''OPROXY_MAX_RETAINED_BODY_BYTES'',
            ''OPROXY_MAX_CONNECTIONS''}. env_ok env n env_usize)
     \<and> (\<forall>n \<in> {''OPROXY_STREAM_THRESHOLD_BYTES'', ''OPROXY_CONNECT_TIMEOUT_SECS'',
            ''OPROXY_HANDSHAKE_TIMEOUT_SECS'', ''OPROXY_SHUTDOWN_GRACE_SECS''}. env_ok env n env_u64)"

definition returns_if :: "bool \<Rightarrow> 'a \<Rightarrow> 'a or_panic" where
  "returns_if b x = (if b then Returns x else Panic)"

lemma returns_if_bind [simp]:
  "bind_panic (returns_if b x) f = (if b then f x else Panic)"
  "(if c then returns_if b x else Panic) = returns_if (c \<and> b) x"
  "returns_if False x = Panic"
  by (simp_all add: returns_if_def)

text \<open>A step that fails or not whatever the configuration, and else is the update \<open>u\<close>.\<close>

definition acts :: "('a \<Rightarrow> 'a or_panic) \<Rightarrow> bool \<Rightarrow> ('a \<Rightarrow> 'a) \<Rightarrow> bool" where
  "acts f b u \<longleftrightarrow> (\<forall>c. f c = returns_if b (u c))"

lemma acts_Nil: "acts (in_turn []) True id"
  by (simp add: acts_def returns_if_def)

lemma acts_Cons: "acts f b u \<Longrightarrow> acts (in_turn fs) b' u' \<Longrightarrow> acts (in_turn (f # fs)) (b \<and> b') (u' \<circ> u)"
  by (simp add: acts_def)

lemma acts_override:
  assumes same: "\<And>c. upd (\<lambda>a. a) c = c" and set_upd: "\<And>x c. set_field x c = upd (\<lambda>_. x) c"
  shows "acts (override env name parse set_field) (env_ok env name parse) (upd (env_or env name parse))"
proof (cases "env name")
  case Not_Present
  then show ?thesis using same
    by (simp add: acts_def override_def returns_if_def env_ok_def env_or_def [abs_def] env_value.simps)
next
  case Not_Unicode
  then show ?thesis by (simp add: acts_def override_def returns_if_def env_ok_def env_value.simps)
next
  case (Env_Text v)
  then show ?thesis using set_upd
    by (cases "parse v") (simp_all add: acts_def override_def returns_if_def env_ok_def env_or_def [abs_def] env_value.simps)
qed

lemma env_text_ok [simp]: "env_ok env name env_text \<longleftrightarrow> env name \<noteq> Not_Unicode"
  and env_non_empty_ok [simp]: "env_ok env name env_non_empty \<longleftrightarrow> env name \<noteq> Not_Unicode"
  by (simp_all add: env_ok_def env_text_def env_non_empty_def split: env_var.split)

lemma field_actions:
  "acts (override env n p_port (\<lambda>x. cf_port_update (\<lambda>_. x))) (env_ok env n p_port)
     (cf_port_update (env_or env n p_port))"
  "acts (override env n p_bind_host (\<lambda>x. cf_bind_host_update (\<lambda>_. x))) (env_ok env n p_bind_host)
     (cf_bind_host_update (env_or env n p_bind_host))"
  "acts (override env n p_https_port (\<lambda>x. cf_https_port_update (\<lambda>_. x))) (env_ok env n p_https_port)
     (cf_https_port_update (env_or env n p_https_port))"
  "acts (override env n p_http3_enabled (\<lambda>x. cf_http3_enabled_update (\<lambda>_. x))) (env_ok env n p_http3_enabled)
     (cf_http3_enabled_update (env_or env n p_http3_enabled))"
  "acts (override env n p_http3_port (\<lambda>x. cf_http3_port_update (\<lambda>_. x))) (env_ok env n p_http3_port)
     (cf_http3_port_update (env_or env n p_http3_port))"
  "acts (override env n p_socks5_port (\<lambda>x. cf_socks5_port_update (\<lambda>_. x))) (env_ok env n p_socks5_port)
     (cf_socks5_port_update (env_or env n p_socks5_port))"
  "acts (override env n p_advertised_host (\<lambda>x. cf_advertised_host_update (\<lambda>_. x))) (env_ok env n p_advertised_host)
     (cf_advertised_host_update (env_or env n p_advertised_host))"
  "acts (override env n p_max_body_bytes (\<lambda>x. cf_max_body_bytes_update (\<lambda>_. x))) (env_ok env n p_max_body_bytes)
     (cf_max_body_bytes_update (env_or env n p_max_body_bytes))"
  "acts (override env n p_stream_threshold_bytes (\<lambda>x. cf_stream_threshold_bytes_update (\<lambda>_. x))) (env_ok env n p_stream_threshold_bytes)
     (cf_stream_threshold_bytes_update (env_or env n p_stream_threshold_bytes))"
  "acts (override env n p_max_sessions (\<lambda>x. cf_max_sessions_update (\<lambda>_. x))) (env_ok env n p_max_sessions)
     (cf_max_sessions_update (env_or env n p_max_sessions))"
  "acts (override env n p_max_retained_body_bytes (\<lambda>x. cf_max_retained_body_bytes_update (\<lambda>_. x))) (env_ok env n p_max_retained_body_bytes)
     (cf_max_retained_body_bytes_update (env_or env n p_max_retained_body_bytes))"
  "acts (override env n p_max_connections (\<lambda>x. cf_max_connections_update (\<lambda>_. x))) (env_ok env n p_max_connections)
     (cf_max_connections_update (env_or env n p_max_connections))"
  "acts (override env n p_connect_timeout_secs (\<lambda>x. cf_connect_timeout_secs_update (\<lambda>_. x))) (env_ok env n p_connect_timeout_secs)
     (cf_connect_timeout_secs_update (env_or env n p_connect_timeout_secs))"
  "acts (override env n p_handshake_timeout_secs (\<lambda>x. cf_handshake_timeout_secs_update (\<lambda>_. x))) (env_ok env n p_handshake_timeout_secs)
     (cf_handshake_timeout_secs_update (env_or env n p_handshake_timeout_secs))"
  "acts (override env n p_shutdown_grace_secs (\<lambda>x. cf_shutdown_grace_secs_update (\<lambda>_. x))) (env_ok env n p_shutdown_grace_secs)
     (cf_shutdown_grace_secs_update (env_or env n p_shutdown_grace_secs))"
  "acts (override env n p_inspect_ws_frames (\<lambda>x. cf_inspect_ws_frames_update (\<lambda>_. x))) (env_ok env n p_inspect_ws_frames)
     (cf_inspect_ws_frames_update (env_or env n p_inspect_ws_frames))"
  "acts (override env n p_allow_remote_admin (\<lambda>x. cf_allow_remote_admin_update (\<lambda>_. x))) (env_ok env n p_allow_remote_admin)
     (cf_allow_remote_admin_update (env_or env n p_allow_remote_admin))"
  "acts (override env n p_admin_token (\<lambda>x. cf_admin_token_update (\<lambda>_. x))) (env_ok env n p_admin_token)
     (cf_admin_token_update (env_or env n p_admin_token))"
  "acts (override env n p_allow_private_admin_egress (\<lambda>x. cf_allow_private_admin_egress_update (\<lambda>_. x))) (env_ok env n p_allow_private_admin_egress)
     (cf_allow_private_admin_egress_update (env_or env n p_allow_private_admin_egress))"
  "acts (override env n p_otel_enabled (\<lambda>x. cf_otel_enabled_update (\<lambda>_. x))) (env_ok env n p_otel_enabled)
     (cf_otel_enabled_update (env_or env n p_otel_enabled))"
  "acts (override env n p_otel_endpoint (\<lambda>x. cf_otel_endpoint_update (\<lambda>_. x))) (env_ok env n p_otel_endpoint)
     (cf_otel_endpoint_update (env_or env n p_otel_endpoint))"
  "acts (override env n p_update_check (\<lambda>x. cf_update_check_update (\<lambda>_. x))) (env_ok env n p_update_check)
     (cf_update_check_update (env_or env n p_update_check))"
  "acts (override env n p_storage_path (\<lambda>x. cf_storage_path_update (\<lambda>_. x))) (env_ok env n p_storage_path)
     (cf_storage_path_update (env_or env n p_storage_path))"
  "acts (override env n p_map_local_base_path (\<lambda>x. cf_map_local_base_path_update (\<lambda>_. x))) (env_ok env n p_map_local_base_path)
     (cf_map_local_base_path_update (env_or env n p_map_local_base_path))"
  by (rule acts_override; simp)+

lemma nested_actions:
  "acts (override env n p set_mitm_enabled) (env_ok env n p) (cf_mitm_update (mt_enabled_update (env_or env n p)))"
  "acts (override env n q set_log_level) (env_ok env n q) (cf_log_update (lg_level_update (env_or env n q)))"
  "acts (override env n q set_log_dir) (env_ok env n q) (cf_log_update (lg_dir_update (env_or env n q)))"
  by (rule acts_override; simp add: set_mitm_enabled_def set_log_level_def set_log_dir_def cong: config.unfold_congs)+

lemmas action_intros = acts_Cons acts_Nil field_actions nested_actions

lemma acts_eq: "acts f b u \<Longrightarrow> b = b' \<Longrightarrow> u = u' \<Longrightarrow> acts f b' u'"
  by simp

lemma overrides_act: "acts (apply_env_overrides env) (environment_ok env) (overridden env)"
  unfolding apply_env_overrides_def apply_network_env_def apply_runtime_env_def apply_security_env_def
    apply_observability_env_def apply_path_env_def
proof (rule acts_eq, (rule action_intros)+, goal_cases)
  case 1
  show ?case by (auto simp: environment_ok_def)
next
  case 2
  show ?case by (rule ext) (simp add: overridden_def)
qed


text \<open>C32 The order of precedence. Loading panics exactly when the file cannot be used or some variable
  that is set has a value that its parser refuses; otherwise each of the 26 settings with a variable has
  the value of that variable if it is set, else what the file or, without a file, the built-in defaults
  gave, whatever the other variables are; and the limit on connections is at least one.\<close>

theorem configuration_precedence:
  "load_from_path io env path explicit = (case base_config io path explicit of
     Panic \<Rightarrow> Panic
   | Returns (base, infos, warnings) \<Rightarrow>
       (let cfg = overridden env base; final = cfg\<lparr>cf_max_connections := max 1 (cf_max_connections cfg)\<rparr>
        in if environment_ok env
           then Returns (final, infos,
                  warnings @ warn_if (cf_max_connections cfg = 0) clamped_warning @ validate_config io final)
           else Panic))"
proof -
  have same: "cfg\<lparr>cf_max_connections := Suc n\<rparr> = cfg" if "cf_max_connections cfg = Suc n" for cfg :: config and n
    using that by (cases cfg) simp
  have over: "apply_env_overrides env base = returns_if (environment_ok env) (overridden env base)" for base
    using overrides_act by (simp add: acts_def)
  show ?thesis
    by (cases "base_config io path explicit")
       (auto simp: load_from_path_def over returns_if_def warn_if_def Let_def max_def same not_le
          dest!: gr0_implies_Suc split: prod.split)
qed

text \<open>The message of \<open>validate_limits\<close> about no connections is never given for a loaded configuration.\<close>

lemma loaded_max_connections:
  "load_from_path io env path explicit = Returns (cfg, infos, warnings) \<Longrightarrow> 1 \<le> cf_max_connections cfg"
  by (cases "base_config io path explicit"; cases "apply_env_overrides env (fst (case base_config io path explicit of Returns b \<Rightarrow> b))")
     (auto simp: load_from_path_def split: if_splits)

text \<open>A file that only sets the port leaves everything else at the built-in default.\<close>

lemma missing_fields_default:
  "decode_config io [''port'' \<mapsto> y] = map_option (\<lambda>p. default_config\<lparr>cf_port := p\<rparr>) (ci_u16 io y)"
  by (cases "ci_u16 io y") (simp_all add: decode_config_def put_def required_def defaulted_def default_config_def Let_def)

lemma port_required: "m ''port'' = None \<Longrightarrow> decode_config io m = None"
  by (simp add: decode_config_def put_def required_def)

text \<open>Any failure to read the default file, not only its absence, silently gives the defaults, with a
  message that says the file was not found.\<close>

lemma unreadable_default_file:
  "ci_read io path = Inl ''Permission denied (os error 13)'' \<Longrightarrow> \<exists>w. base_config io path False = Returns (default_config, [], w)"
  by (simp add: base_config_def)

text \<open>Ports are read differently: only the SOCKS5 port can be switched off, or given with blanks.\<close>

lemma https_port_not_disabled: "env_port [] = Panic" "env_port ''0'' = Returns (Some 0)"
    "parse_optional_port [] = Returns None" "parse_optional_port ''0'' = Returns None"
  by (simp_all add: env_port_def parse_env_def parse_u16_def parse_unsigned_def parse_optional_port_def
      trim_str_all_printable printable_def digits_value_def is_ascii_digit_def)

section \<open>The warnings on admin access\<close>

definition admin_config_of :: "config \<Rightarrow> admin_config" where
  "admin_config_of cfg = \<lparr>ac_admin_token = cf_admin_token cfg, ac_bind_host = cf_bind_host cfg,
     ac_allow_remote_admin = cf_allow_remote_admin cfg, ac_port = cf_port cfg\<rparr>"

lemma configured_token_missing:
  "configured_admin_token (admin_config_of cfg) = None
    \<longleftrightarrow> (case cf_admin_token cfg of Some token \<Rightarrow> trim_str token = [] | None \<Rightarrow> True)"
  by (simp add: configured_admin_token_def admin_config_of_def split: option.split)

lemma set_warn_if [simp]: "set (warn_if b m) = (if b then {m} else {})"
  by (simp add: warn_if_def)

lemma remote_admin_warning_iff:
  "remote_admin_blocked_warning \<in> set (validate_config io cfg)
    \<longleftrightarrow> cf_allow_remote_admin cfg \<and> configured_admin_token (admin_config_of cfg) = None"
proof -
  have "remote_admin_blocked_warning \<notin> set (validate_limits cfg)"
    by (simp add: validate_limits_def remote_admin_blocked_warning_def)
  moreover have "remote_admin_blocked_warning \<notin> set (validate_paths io cfg)"
    by (simp add: validate_paths_def remote_admin_blocked_warning_def split: option.split)
  moreover have "remote_admin_blocked_warning \<notin> set (validate_optional_features io cfg)"
    by (simp add: validate_optional_features_def remote_admin_blocked_warning_def split: option.split)
  ultimately show ?thesis
    by (simp add: validate_config_def validate_admin_security_def configured_token_missing Let_def)
       (simp add: remote_admin_blocked_warning_def wildcard_warning_def private_egress_warning_def)
qed

end
