(* ===== verification/Startup.thy ===== *)
theory Startup
  imports Config Storage
begin

text \<open>
  Start-up (\<open>runtime/app.rs\<close>, \<open>runtime/listeners.rs\<close>, \<open>runtime/state.rs\<close>, \<open>runtime/error.rs\<close>): the
  addresses that are bound, the summary that is logged, the settings the engine gets, and the accept
  loops.

  \<open>bind_tcp\<close> and \<open>bind_udp\<close> say whether an address can be bound, \<open>acceptor\<close> whether the TLS acceptor
  could be built. \<open>insecure\<close> is the value of \<open>OPROXY_INSECURE_UPSTREAM\<close>, read by the engine.
\<close>

section \<open>Socket addresses\<close>

text \<open>\<open>SocketAddr::from_str\<close>: an IPv4 address and a port, or an IPv6 address in brackets, perhaps with a
  scope, and a port.\<close>

definition read_port :: "string \<Rightarrow> (nat \<times> string) option" where
  "read_port s = Option.bind (read_char (CHR '':'') s) (\<lambda>r. read_number 10 (length r) True 65536 r)"

definition read_scope :: "string \<Rightarrow> string" where
  "read_scope s = (case Option.bind (read_char (CHR ''%'') s) (\<lambda>r. read_number 10 (length r) True (2 ^ 32) r) of
     Some (_, r) \<Rightarrow> r | None \<Rightarrow> s)"

definition read_socket_v4 :: "string \<Rightarrow> ((ip_addr \<times> u16) \<times> string) option" where
  "read_socket_v4 s = Option.bind (read_ipv4 s) (\<lambda>((a, b, c, d), r).
     map_option (\<lambda>(p, r). ((V4 a b c d, of_nat p), r)) (read_port r))"

definition read_socket_v6 :: "string \<Rightarrow> ((ip_addr \<times> u16) \<times> string) option" where
  "read_socket_v6 s = Option.bind (read_char (CHR ''['') s) (\<lambda>r.
     Option.bind (read_ipv6 r) (\<lambda>(g, r).
     Option.bind (read_char (CHR '']'') (read_scope r)) (\<lambda>r.
     map_option (\<lambda>(p, r). ((V6 g, of_nat p), r)) (read_port r))))"

definition parse_socket_addr :: "string \<Rightarrow> (ip_addr \<times> u16) option" where
  "parse_socket_addr s = (case (case read_socket_v4 s of Some x \<Rightarrow> Some x | None \<Rightarrow> read_socket_v6 s) of
     Some (a, []) \<Rightarrow> Some a | _ \<Rightarrow> None)"

section \<open>Binding the listeners\<close>

datatype startup_error =
    Invalid_Addr string
  | Bind_Failed string string
  | Ca_Init string
  | Service_Init string

type_synonym address = "ip_addr \<times> u16"

definition listen_address :: "config \<Rightarrow> u16 \<Rightarrow> string" where
  "listen_address cfg p = cf_bind_host cfg @ '':'' @ decimal (unat p)"

definition bind_http_listener :: "(address \<Rightarrow> string option) \<Rightarrow> config \<Rightarrow> startup_error + address" where
  "bind_http_listener bind_tcp cfg = (case parse_socket_addr (listen_address cfg (cf_port cfg)) of
     None \<Rightarrow> Inl (Invalid_Addr (listen_address cfg (cf_port cfg)))
   | Some a \<Rightarrow> (case bind_tcp a of
       Some e \<Rightarrow> Inl (Bind_Failed (listen_address cfg (cf_port cfg)) e)
     | None \<Rightarrow> Inr a))"

definition bind_https_listener ::
    "(address \<Rightarrow> string option) \<Rightarrow> bool \<Rightarrow> config \<Rightarrow> startup_error + address option" where
  "bind_https_listener bind_tcp acceptor cfg = (case cf_https_port cfg of
     None \<Rightarrow> Inr None
   | Some p \<Rightarrow> if \<not> acceptor then Inr None
       else case parse_socket_addr (listen_address cfg p) of
              None \<Rightarrow> Inl (Invalid_Addr (listen_address cfg p))
            | Some a \<Rightarrow> Inr (if bind_tcp a = None then Some a else None))"

definition bind_socks5_listener :: "(address \<Rightarrow> string option) \<Rightarrow> config \<Rightarrow> startup_error + address option" where
  "bind_socks5_listener bind_tcp cfg = (case cf_socks5_port cfg of
     None \<Rightarrow> Inr None
   | Some p \<Rightarrow> (case parse_socket_addr (listen_address cfg p) of
       None \<Rightarrow> Inl (Invalid_Addr (listen_address cfg p))
     | Some a \<Rightarrow> Inr (if bind_tcp a = None then Some a else None)))"

definition bind_http3_listener :: "(string \<Rightarrow> u16 \<Rightarrow> bool) \<Rightarrow> config \<Rightarrow> u16 option" where
  "bind_http3_listener bind_udp cfg =
     (if \<not> cf_http3_enabled cfg then None
      else case cf_http3_port cfg of
             None \<Rightarrow> None
           | Some p \<Rightarrow> if bind_udp (cf_bind_host cfg) p then Some p else None)"

record bound_listeners =
  bl_http :: address
  bl_https :: "address option"
  bl_socks5 :: "address option"
  bl_http3 :: "u16 option"

text \<open>The first error ends start-up. \<open>bind_tcp\<close> is told what has been bound so far.\<close>

definition bind_listeners ::
    "(address list \<Rightarrow> address \<Rightarrow> string option) \<Rightarrow> (string \<Rightarrow> u16 \<Rightarrow> bool) \<Rightarrow> bool \<Rightarrow> config
      \<Rightarrow> startup_error + bound_listeners" where
  "bind_listeners bind_tcp bind_udp acceptor cfg = (case bind_http_listener (bind_tcp []) cfg of
     Inl e \<Rightarrow> Inl e
   | Inr a \<Rightarrow> (case bind_https_listener (bind_tcp [a]) acceptor cfg of
       Inl e \<Rightarrow> Inl e
     | Inr tls \<Rightarrow> (case bind_socks5_listener (bind_tcp (a # (case tls of Some b \<Rightarrow> [b] | None \<Rightarrow> []))) cfg of
         Inl e \<Rightarrow> Inl e
       | Inr socks \<Rightarrow> Inr \<lparr>bl_http = a, bl_https = tls, bl_socks5 = socks,
           bl_http3 = bind_http3_listener bind_udp cfg\<rparr>)))"

section \<open>The summary\<close>

datatype severity = Sev_Info | Sev_Warn

definition url_host :: "string \<Rightarrow> string" where
  "url_host bind_host = (if bind_host \<in> {''0.0.0.0'', ''::'', ''[::]''} then ''localhost'' else bind_host)"

definition is_loopback_host :: "string \<Rightarrow> bool" where
  "is_loopback_host host0 =
     (let host = trim_end_char (CHR '']'') (trim_start_char (CHR ''['') (trim_str host0))
      in host = ''127.0.0.1'' \<or> host = ''localhost'' \<or> host = ''::1'' \<or> prefix ''127.'' host)"

definition admin_exposed_line :: "config \<Rightarrow> string" where
  "admin_exposed_line cfg =
     ''Admin auth     none - admin UI has no token and is reachable from the network (bind_host=''
     @ cf_bind_host cfg @ '') - set OPROXY_ADMIN_TOKEN''"

definition security_summary_lines :: "bool \<Rightarrow> config \<Rightarrow> string \<Rightarrow> (severity \<times> string) list" where
  "security_summary_lines insecure cfg ui_host =
     (let loopback = is_loopback_host (cf_bind_host cfg);
          admin_token_missing = (case cf_admin_token cfg of Some token \<Rightarrow> trim_str token = [] | None \<Rightarrow> True)
      in [(Sev_Info, ''Bind host      '' @ cf_bind_host cfg
             @ (if loopback then '' - loopback only, not reachable from other machines''
                else '' - reachable from other machines on the network'')),
          (Sev_Info, if mt_enabled (cf_mitm cfg)
             then ''HTTPS MITM     enabled - download and trust the root CA at http://'' @ ui_host @ '':''
                  @ decimal (unat (cf_port cfg)) @ ''/admin/ca''
             else ''HTTPS MITM     disabled - HTTPS is tunnelled without decryption''),
          (if \<not> admin_token_missing
           then (Sev_Info, ''Admin auth     token required - sign in at http://'' @ ui_host @ '':''
                  @ decimal (unat (cf_port cfg)) @ ''/login'')
           else if loopback
           then (Sev_Info, ''Admin auth     none - no OPROXY_ADMIN_TOKEN set (fine for loopback-only use)'')
           else (Sev_Warn, admin_exposed_line cfg)),
          (if insecure
           then (Sev_Warn, ''Upstream TLS   verification DISABLED (OPROXY_INSECURE_UPSTREAM) - do not point ''
                  @ ''this at untrusted origins'')
           else (Sev_Info, ''Upstream TLS   certificate verification enabled''))])"

definition insecure_upstream_enabled :: "env_var \<Rightarrow> bool" where
  "insecure_upstream_enabled v = (case v of
     Env_Text s \<Rightarrow> to_ascii_lowercase (trim_str s) \<in> {''1'', ''true'', ''yes''} | _ \<Rightarrow> False)"

section \<open>Settings of the engine\<close>

record runtime_timeouts =
  rt_connect :: u64
  rt_handshake :: u64
  rt_shutdown_grace :: u64

definition build_timeouts :: "config \<Rightarrow> runtime_timeouts" where
  "build_timeouts cfg = \<lparr>rt_connect = cf_connect_timeout_secs cfg, rt_handshake = cf_handshake_timeout_secs cfg,
     rt_shutdown_grace = cf_shutdown_grace_secs cfg\<rparr>"

record engine_settings =
  es_mitm_enabled :: bool
  es_bind_port :: u16
  es_bind_host :: string
  es_timeout_secs :: u64
  es_max_body_bytes :: nat
  es_stream_threshold_bytes :: u64
  es_pool_max_idle_per_host :: nat
  es_pool_idle_timeout_secs :: u64
  es_upstream_proxy :: "string option"
  es_alt_svc :: "string option"

text \<open>\<open>hot\<close> and \<open>stored_proxy\<close> are what the storage directory holds of earlier runs.\<close>

definition build_proxy_engine :: "nat option \<Rightarrow> string option \<Rightarrow> config \<Rightarrow> engine_settings" where
  "build_proxy_engine hot stored_proxy cfg =
     \<lparr>es_mitm_enabled = mt_enabled (cf_mitm cfg), es_bind_port = cf_port cfg, es_bind_host = cf_bind_host cfg,
      es_timeout_secs = cf_timeout_secs cfg,
      es_max_body_bytes = (case hot of Some n \<Rightarrow> n | None \<Rightarrow> cf_max_body_bytes cfg),
      es_stream_threshold_bytes = cf_stream_threshold_bytes cfg,
      es_pool_max_idle_per_host = cf_pool_max_idle_per_host cfg,
      es_pool_idle_timeout_secs = cf_pool_idle_timeout_secs cfg,
      es_upstream_proxy = (case stored_proxy of Some p \<Rightarrow> Some p | None \<Rightarrow> cf_upstream_proxy cfg),
      es_alt_svc = (if cf_http3_enabled cfg
                    then map_option (\<lambda>p. ''h3='' @ [CHR 34] @ '':'' @ decimal (unat p) @ [CHR 34] @ ''; ma=86400'')
                           (cf_http3_port cfg)
                    else None)\<rparr>"

text \<open>\<open>prepare_storage\<close>: both directories are tried, a failure is a message.\<close>

definition prepare_storage :: "(string \<Rightarrow> string option) \<Rightarrow> string \<Rightarrow> string list" where
  "prepare_storage create_dir storage_path =
     List.map_filter (\<lambda>(path, purpose). map_option (\<lambda>e. ''WARN: could not create directory '' @ [CHR 39] @ path @ [CHR 39]
          @ '': '' @ e @ ''; '' @ purpose @ ''.'') (create_dir path))
       [(storage_path, ''configuration changes will not persist across restarts''),
        (storage_path @ ''/map-local'', ''Map Local file uploads will not work'')]"

section \<open>Accept loops\<close>

text \<open>A client of the accept loop: when it arrives, whether a permit is free then, and how long its TLS
  handshake takes, \<open>None\<close> for a client that never finishes it, and whether it succeeds. Times are
  in milliseconds.\<close>

record client =
  cl_arrives :: nat
  cl_permit :: bool
  cl_handshake :: "nat option"
  cl_good :: bool

datatype fate = Refused nat | Not_Served nat | Served nat

text \<open>\<open>spawn_http_listener\<close> and \<open>spawn_socks5_listener\<close>: the task of the connection is spawned at once.\<close>

fun accept_loop :: "nat \<Rightarrow> client list \<Rightarrow> fate list" where
  "accept_loop now [] = []"
| "accept_loop now (c # cs) =
     (let start = max now (cl_arrives c)
      in (if cl_permit c then Served start else Refused start) # accept_loop start cs)"

text \<open>\<open>spawn_https_listener\<close>: the handshake is awaited in the loop itself.\<close>

fun tls_accept_loop :: "nat \<Rightarrow> nat \<Rightarrow> client list \<Rightarrow> fate list" where
  "tls_accept_loop handshake_timeout now [] = []"
| "tls_accept_loop handshake_timeout now (c # cs) =
     (let start = max now (cl_arrives c)
      in if \<not> cl_permit c then Refused start # tls_accept_loop handshake_timeout start cs
         else case cl_handshake c of
           Some d \<Rightarrow> if d \<le> handshake_timeout
             then (if cl_good c then Served (start + d) else Not_Served (start + d))
                    # tls_accept_loop handshake_timeout (start + d) cs
             else Not_Served (start + handshake_timeout)
                    # tls_accept_loop handshake_timeout (start + handshake_timeout) cs
         | None \<Rightarrow> Not_Served (start + handshake_timeout)
                    # tls_accept_loop handshake_timeout (start + handshake_timeout) cs)"

fun fate_time :: "fate \<Rightarrow> nat" where
  "fate_time (Refused t) = t" | "fate_time (Not_Served t) = t" | "fate_time (Served t) = t"


section \<open>Addresses\<close>

lemma read_port_decimal: "p < 65536 \<Longrightarrow> read_port (CHR '':'' # decimal p) = Some (p, [])"
proof -
  assume p: "p < 65536"
  have ds: "takeWhile (\<lambda>c. to_digit 10 c \<noteq> None) (decimal p) = decimal p"
    using decimal_digits [of p] by (auto simp: to_digit_10 list_all_iff takeWhile_eq_all_conv)
  have v: "foldl (\<lambda>acc c. acc * 10 + the (to_digit 10 c)) 0 (decimal p) = p"
    using foldl_digits [OF decimal_digits] digits_value_decimal [of p] by (simp add: digits_value_def)
  show ?thesis using p by (simp add: read_port_def read_char_def read_number_def ds v Let_def del: not_None_eq)
qed

lemma read_show_v4:
  "\<not> is_ascii_digit x \<Longrightarrow> read_ipv4 (show_v4 a b c d @ x # r) = Some ((a, b, c, d), x # r)"
proof -
  assume x: "\<not> is_ascii_digit x"
  have dot: "\<not> is_ascii_digit CHR ''.''" by (simp add: is_ascii_digit_def)
  have lt: "unat (y :: byte) < 256" for y using unsigned_less [of y] by simp
  show ?thesis
    using x dot read_octet_decimal [OF lt, of _ a] read_octet_dot [OF lt]
    by (simp add: read_ipv4_def show_v4_def read_octet_def [of 0] read_separator_def)
qed

lemma parse_v4_socket: "parse_socket_addr (show_v4 a b c d @ '':'' @ decimal (unat (p :: u16))) = Some (V4 a b c d, p)"
proof -
  have "unat p < 65536" using unsigned_less [of p] by simp
  then show ?thesis
    using read_show_v4 [of "CHR '':''" a b c d] 
    by (simp add: parse_socket_addr_def read_socket_v4_def read_port_decimal is_ascii_digit_def)
qed

lemma listen_v4: "cf_bind_host cfg = show_v4 a b c d \<Longrightarrow> parse_socket_addr (listen_address cfg p) = Some (V4 a b c d, p)"
  using parse_v4_socket [of a b c d p] by (simp add: listen_address_def)



text \<open>Host names and a bare IPv6 address, \<open>::\<close> among them, which the warnings, the summary and the
  check for admin hosts all treat as a wildcard, are not addresses the listener accepts.\<close>

lemma not_an_address: "c \<in> {CHR '':'', CHR ''l''} \<Longrightarrow> parse_socket_addr (c # r) = None"
proof -
  assume c: "c \<in> {CHR '':'', CHR ''l''}"
  then have "to_digit 10 c = None" by (auto simp: to_digit_def)
  then have "read_ipv4 (c # r) = None" by (simp add: read_ipv4_def read_octet_def read_separator_def read_number_def)
  then show ?thesis using c by (auto simp: parse_socket_addr_def read_socket_v4_def read_socket_v6_def read_char_def)
qed

lemma bind_host_rejected:
  assumes "cf_bind_host cfg \<in> {''::'', ''localhost''}"
  shows "bind_listeners bind_tcp bind_udp acceptor cfg = Inl (Invalid_Addr (listen_address cfg (cf_port cfg)))"
proof -
  have "parse_socket_addr (listen_address cfg p) = None" for p
    using assms by (elim insertE) (simp_all add: listen_address_def not_an_address)
  then show ?thesis by (simp add: bind_listeners_def bind_http_listener_def)
qed


section \<open>Admin access without a token\<close>

lemma summary_warning:
  "(Sev_Warn, admin_exposed_line cfg) \<in> set (security_summary_lines insecure cfg ui_host)
    \<longleftrightarrow> \<not> is_loopback_host (cf_bind_host cfg) \<and> configured_admin_token (admin_config_of cfg) = None"
  by (auto simp: security_summary_lines_def configured_token_missing admin_exposed_line_def Let_def)

text \<open>The two warnings about admin access without a token, the one of the configuration and the one of
  the start-up summary, are about a system that is closed: when either is given, every request that is
  taken for the admin interface comes from a loopback peer. The summary says that the admin interface is
  reachable from the network.\<close>

theorem warned_admin_is_closed:
  assumes "remote_admin_blocked_warning \<in> set (validate_config io cfg)
      \<or> (Sev_Warn, admin_exposed_line cfg) \<in> set (security_summary_lines insecure cfg ui_host)"
    and "is_admin_host lan (admin_config_of cfg) req"
  shows "is_loopback_peer (aq_peer req)"
proof -
  have "configured_admin_token (admin_config_of cfg) = None"
    using assms(1) by (auto simp: remote_admin_warning_iff summary_warning)
  then show ?thesis using assms(2) by (rule admin_host_without_token)
qed

definition exposed_config :: config where
  "exposed_config = default_config\<lparr>cf_port := 80, cf_bind_host := ''0.0.0.0'', cf_allow_remote_admin := True\<rparr>"

definition local_request :: admin_request where
  "local_request = \<lparr>aq_method = ''GET'',
     aq_uri = \<lparr>uri_scheme = None, uri_authority = None, uri_path_and_query = Some ''/'', uri_text = ''/''\<rparr>,
     aq_headers = [(''host'', Some ''localhost'')], aq_peer = Some (V4 127 0 0 1)\<rparr>"

theorem warned_admin_is_closed_witness:
  "is_admin_host None (admin_config_of exposed_config) local_request \<and> is_loopback_peer (aq_peer local_request)"
proof -
  have host: "is_admin_host None (admin_config_of exposed_config) local_request"
    by (simp add: is_admin_host_def admin_config_of_def exposed_config_def default_config_def local_request_def
        header_str_def managed_def is_management_host_def host_without_port_def authority_port_def rsplit_once_def strip_prefix_def
        local_hosts_def to_ascii_lowercase_def ascii_lower_def is_loopback_peer_def localhost_trimmed Let_def)
  have "\<And>io :: unit config_io. remote_admin_blocked_warning \<in> set (validate_config io exposed_config)"
    by (simp add: remote_admin_warning_iff configured_token_missing exposed_config_def default_config_def)
  with host show ?thesis using warned_admin_is_closed [OF disjI1 host] by blast
qed

section \<open>Waiting to be accepted\<close>

text \<open>The time of arrival of the last client does not matter for an accept loop that spawns at once; in
  the TLS loop each earlier client can add a whole handshake.\<close>

lemma accept_loop_prompt:
  assumes "n < length cs" "\<forall>c \<in> set cs. cl_arrives c \<le> t" "now \<le> t"
  shows "fate_time (accept_loop now cs ! n) \<le> t"
  using assms
proof (induction cs arbitrary: now n)
  case (Cons c cs)
  then show ?case by (cases n) (simp_all add: Let_def)
qed simp

lemma tls_loop_length [simp]: "length (tls_accept_loop limit now cs) = length cs"
  by (induction limit now cs rule: tls_accept_loop.induct) (simp_all add: Let_def split: option.split)

text \<open>What one turn of the loop takes: no time for a client without a permit, else at most the timeout.\<close>

definition turn :: "nat \<Rightarrow> client \<Rightarrow> nat" where
  "turn limit c = (if cl_permit c then (case cl_handshake c of Some d \<Rightarrow> min d limit | None \<Rightarrow> limit) else 0)"

lemma tls_loop_turn:
  "cl_arrives c \<le> now \<Longrightarrow> \<exists>f. fate_time f = now + turn limit c
     \<and> tls_accept_loop limit now (c # cs) = f # tls_accept_loop limit (now + turn limit c) cs"
  by (cases "cl_handshake c") (auto simp: turn_def max_def min_def)

lemma turn_le: "turn limit c \<le> limit"
  by (simp add: turn_def split: option.split)

lemma tls_loop_bound:
  "n < length cs \<Longrightarrow> \<forall>c \<in> set cs. cl_arrives c \<le> now \<Longrightarrow>
    fate_time (tls_accept_loop limit now cs ! n) \<le> now + Suc n * limit"
proof (induction cs arbitrary: now n)
  case (Cons c cs)
  obtain f where f: "fate_time f = now + turn limit c"
      "tls_accept_loop limit now (c # cs) = f # tls_accept_loop limit (now + turn limit c) cs"
    using tls_loop_turn Cons.prems(2) by fastforce
  show ?case
  proof (cases n)
    case 0
    then show ?thesis using f turn_le by simp
  next
    case (Suc m)
    have "fate_time (tls_accept_loop limit (now + turn limit c) cs ! m) \<le> now + turn limit c + Suc m * limit"
      using Cons Suc by (intro Cons.IH) (auto simp: trans_le_add1)
    then show ?thesis using f(2) Suc turn_le [of limit c] by simp
  qed
qed simp

definition silent_client :: client where
  "silent_client = \<lparr>cl_arrives = 0, cl_permit = True, cl_handshake = None, cl_good = False\<rparr>"

lemma silent_clients_first:
  "tls_accept_loop limit now (replicate k silent_client @ cs)
    = map (\<lambda>i. Not_Served (now + Suc i * limit)) [0..<k] @ tls_accept_loop limit (now + k * limit) cs"
proof (induction k arbitrary: now)
  case (Suc k)
  have "map (\<lambda>i. Not_Served (now + limit + Suc i * limit)) [0..<k] = map (\<lambda>i. Not_Served (now + Suc i * limit)) [1..<Suc k]"
    by (simp add: map_Suc_upt [symmetric] del: upt_Suc)
  with Suc show ?case by (simp add: silent_client_def upt_conv_Cons add.assoc del: upt_Suc)
qed simp

text \<open>How long a client of the TLS listener can wait. The handshakes run one after the other in the
  accept loop: the \<open>n\<close>-th client is answered or dropped at most \<open>n + 1\<close> handshake timeouts after all
  have arrived, and this is reached: behind \<open>k\<close> clients that stay silent, a client that has arrived
  with them gets its connection only after \<open>k\<close> whole timeouts.\<close>

theorem tls_accept_delay:
  "(n < length cs \<longrightarrow> (\<forall>c \<in> set cs. cl_arrives c \<le> now) \<longrightarrow>
      fate_time (tls_accept_loop limit now cs ! n) \<le> now + Suc n * limit)
   \<and> (d \<le> limit \<longrightarrow> tls_accept_loop limit 0 (replicate k silent_client
          @ [\<lparr>cl_arrives = 0, cl_permit = True, cl_handshake = Some d, cl_good = True\<rparr>]) ! k
        = Served (k * limit + d))"
proof (intro conjI impI)
  show "fate_time (tls_accept_loop limit now cs ! n) \<le> now + Suc n * limit"
    if "n < length cs" "\<forall>c \<in> set cs. cl_arrives c \<le> now"
    using that by (rule tls_loop_bound)
next
  assume "d \<le> limit"
  then show "tls_accept_loop limit 0 (replicate k silent_client
          @ [\<lparr>cl_arrives = 0, cl_permit = True, cl_handshake = Some d, cl_good = True\<rparr>]) ! k
        = Served (k * limit + d)"
    by (simp add: silent_clients_first nth_append)
qed

theorem tls_accept_delay_witness:
  "fate_time (tls_accept_loop 10 0 [silent_client, silent_client] ! 1) \<le> 20
   \<and> tls_accept_loop 10 0 (replicate 2 silent_client
        @ [\<lparr>cl_arrives = 0, cl_permit = True, cl_handshake = Some 3, cl_good = True\<rparr>]) ! 2 = Served 23"
  using tls_accept_delay [of 1 "[silent_client, silent_client]" 0 10 3 2]
  by (simp add: silent_client_def)

text \<open>The listener without TLS serves the same client at once.\<close>

lemma accept_loop_serves_at_once:
  "accept_loop 0 (replicate k silent_client @ [silent_client]) ! k = Served 0"
  by (induction k) (simp_all add: silent_client_def)

section \<open>What a run keeps of earlier ones\<close>

text \<open>A limit or an upstream proxy once set through the admin interface wins over the environment and the
  file.\<close>

lemma stored_settings_win:
  "load_from_path io env path explicit = Returns (cfg, infos, warnings)
    \<Longrightarrow> es_max_body_bytes (build_proxy_engine (Some n) (Some p) cfg) = n
      \<and> es_upstream_proxy (build_proxy_engine (Some n) (Some p) cfg) = Some p"
  by (simp add: build_proxy_engine_def)

text \<open>A name such as \<open>127.example.org\<close> counts as a loopback address in the summary.\<close>

lemma loopback_by_prefix: "is_loopback_host ''127.example.org''"
  by (simp add: is_loopback_host_def trim_str_all_printable printable_def trim_end_char_def trim_start_char_def)

end
