(* ===== verification/AdminForward.thy ===== *)
theory AdminForward
  imports Engine Security WebSockets
begin

text \<open>
  Requests sent from the admin interface (\<open>control_plane/forward.rs\<close>): an HTTP or gRPC exchange, with
  or without the rules of the proxy, and a scripted WebSocket conversation.

  The engine is that of \<open>Engine\<close>, with its parsers and its client; \<open>forward_lib\<close> holds the other
  parameters: the resolver of the egress policy, the URI parser of the router, base64, the reason
  phrases, the order of a \<open>HashMap\<close> and the texts of the errors of third-party parsers.
\<close>

record forward_lib =
  fl_lookup :: "string \<Rightarrow> u16 \<Rightarrow> ip_addr list option"
  fl_policy :: admin_egress_policy
  fl_order :: "(string \<rightharpoonup> string) \<Rightarrow> (string \<times> string) list"
  fl_uri :: "string \<Rightarrow> string + uri"
  fl_base64 :: "bytes \<Rightarrow> string"
  fl_from_base64 :: "string \<Rightarrow> bytes option"
  fl_reason :: "u16 \<Rightarrow> string option"
  fl_url_error :: "string \<Rightarrow> string"
  fl_builder_error :: string
  fl_client_request :: "string \<Rightarrow> string + (string \<times> string) list"

datatype forward_kind = Fwd_Http | Fwd_Http2 | Fwd_Http3 | Fwd_Grpc

record forward_req =
  fq_kind :: forward_kind
  fq_method :: string
  fq_url :: string
  fq_headers :: "string \<rightharpoonup> string"
  fq_body :: "string option"
  fq_note :: "string option"
  fq_tags :: "string list option"
  fq_apply_proxy_rules :: bool

record forward_protocol_resp =
  fx_downstream :: string
  fx_upstream :: "string option"
  fx_application :: string
  fx_body_mode :: string

record forward_resp =
  fs_status :: u16
  fs_status_text :: string
  fs_headers :: "string \<rightharpoonup> string"
  fs_body :: string
  fs_is_binary :: bool
  fs_session_id :: string
  fs_protocol :: "forward_protocol_resp option"

datatype forward_failure = Fwd_Bad_Request string | Fwd_Egress_Blocked string | Fwd_Upstream string

section \<open>Protocols\<close>

definition protocol_context_for_kind :: "forward_kind \<Rightarrow> string \<Rightarrow> wire_protocol option \<Rightarrow> protocol_context" where
  "protocol_context_for_kind kind scheme upstream =
     \<lparr>pc_downstream = (case kind of Fwd_Http \<Rightarrow> Http1 | Fwd_Http2 \<Rightarrow> Http2 | Fwd_Http3 \<Rightarrow> Http3 | Fwd_Grpc \<Rightarrow> Http2),
      pc_upstream = upstream,
      pc_application = (case kind of Fwd_Grpc \<Rightarrow> App_Grpc | _ \<Rightarrow> App_Http),
      pc_body_mode = (case kind of Fwd_Grpc \<Rightarrow> Body_StreamMessages | _ \<Rightarrow> Body_Full),
      pc_scheme = scheme, pc_connection_id = None, pc_stream_id = None\<rparr>"

definition protocol_from_label :: "string \<Rightarrow> wire_protocol" where
  "protocol_from_label label = (if label = ''HTTP/2'' then Http2 else if label = ''HTTP/3'' then Http3 else Http1)"

definition protocol_response :: "protocol_context \<Rightarrow> forward_protocol_resp" where
  "protocol_response ctx = \<lparr>fx_downstream = wp_label (pc_downstream ctx),
     fx_upstream = map_option wp_label (pc_upstream ctx),
     fx_application = app_match_value (pc_application ctx), fx_body_mode = body_match_value (pc_body_mode ctx)\<rparr>"

text \<open>The complete frames at the front; a cut one ends the list.\<close>

fun decode_grpc_message_lengths :: "bytes \<Rightarrow> (bool \<times> u32) list" where
  "decode_grpc_message_lengths (z # a # b # c # d # rest) =
     (let len = of_be32 a b c d
      in if unat len > length rest then []
         else (z \<noteq> 0, len) # decode_grpc_message_lengths (drop (unat len) rest))"
| "decode_grpc_message_lengths _ = []"

definition grpc_message_of :: "string \<Rightarrow> bool \<Rightarrow> u32 \<Rightarrow> grpc_message" where
  "grpc_message_of direction compressed len =
     \<lparr>gm_direction = direction, gm_compressed = compressed, gm_length = len, gm_fields = []\<rparr>"

definition grpc_event :: "string \<Rightarrow> string \<Rightarrow> bool \<times> u32 \<Rightarrow> write_op" where
  "grpc_event sid direction m = WO_AppendEvent sid (Ev_GrpcMessage direction (grpc_message_of direction (fst m) (snd m)))"

section \<open>Recording\<close>

definition annotate_session :: "'w session_world \<Rightarrow> string \<Rightarrow> string option \<Rightarrow> string list option \<Rightarrow> 'w \<Rightarrow> 'w" where
  "annotate_session sw i note tags w =
     (if note \<noteq> None \<or> tags \<noteq> None then sw_wait sw (sw_emit sw [WO_Annotate i note tags] w) else w)"

definition host_with_port :: "url \<Rightarrow> string" where
  "host_with_port u = (case (url_host_str u, url_port u) of
     (Some host, Some port) \<Rightarrow> host @ '':'' @ decimal (unat port)
   | (Some host, None) \<Rightarrow> host
   | (None, _) \<Rightarrow> [])"

text \<open>A response turned into the answer: headers as a map, in which the last value of a name stays and
  one that is not text is empty, and a binary body in base64.\<close>

definition forward_headers :: "(string \<times> string option) list \<Rightarrow> (string \<rightharpoonup> string)" where
  "forward_headers hs = foldl (\<lambda>m (k, v). m(k \<mapsto> (case v of Some s \<Rightarrow> s | None \<Rightarrow> []))) Map.empty hs"

definition forward_body :: "forward_lib \<Rightarrow> (string \<rightharpoonup> string) \<Rightarrow> bytes \<Rightarrow> string \<times> bool" where
  "forward_body fl headers body =
     (if is_binary_content_type (case headers ''content-type'' of Some t \<Rightarrow> t | None \<Rightarrow> [])
      then (fl_base64 fl body, True) else (from_utf8_lossy body, False))"

definition status_text :: "forward_lib \<Rightarrow> u16 \<Rightarrow> string" where
  "status_text fl status = (case fl_reason fl status of Some t \<Rightarrow> t | None \<Rightarrow> [])"

definition short_circuit_to_forward_resp ::
    "forward_lib \<Rightarrow> ('w, 'o) engine \<Rightarrow> 'w session_world \<Rightarrow> string \<Rightarrow> string \<Rightarrow> nat \<Rightarrow> http_response \<Rightarrow> 'w \<Rightarrow>
     forward_resp \<times> 'w" where
  "short_circuit_to_forward_resp fl en sw session_id display_uri request_size response w =
     (let headers = forward_headers (map (\<lambda>(k, v). (k, Some v)) (hr_headers response));
          bytes = (if length (hr_body response) \<le> en_max_body_bytes en w then hr_body response else []);
          (body, is_binary) = forward_body fl headers bytes;
          res_ctx = rs_default\<lparr>rs_status := hr_status response, rs_headers := hm_of_hash (fl_order fl) headers,
            rs_body := bytes, rs_request_uri := display_uri, rs_session_id := Some session_id\<rparr>;
          metrics = im_default\<lparr>im_request_size_bytes := request_size, im_response_size_bytes := length bytes,
            im_status_code := hr_status response\<rparr>
      in (\<lparr>fs_status = hr_status response, fs_status_text = status_text fl (hr_status response), fs_headers = headers,
           fs_body = body, fs_is_binary = is_binary, fs_session_id = session_id, fs_protocol = None\<rparr>,
          sw_emit sw [WO_RecordResponseWithMetrics session_id res_ctx metrics] w))"

section \<open>An HTTP exchange\<close>

text \<open>What has been decided when the request is sent.\<close>

record prepared_forward =
  pf_session_id :: string
  pf_scheme :: string
  pf_request :: upstream_request
  pf_builder_ok :: bool
  pf_request_size :: nat

definition forward_bytes :: "forward_req \<Rightarrow> bytes" where
  "forward_bytes req = (let body = bytes_of_string (case fq_body req of Some b \<Rightarrow> b | None \<Rightarrow> [])
     in if fq_kind req = Fwd_Grpc then encode_grpc_frame False body else body)"

definition forward_context :: "forward_lib \<Rightarrow> forward_req \<Rightarrow> url \<Rightarrow> string \<Rightarrow> request_context" where
  "forward_context fl req u session_id =
     (let protocol_context = protocol_context_for_kind (fq_kind req) (url_scheme u) None
      in rq_default\<lparr>rq_method := (if fq_kind req = Fwd_Grpc then ''POST'' else fq_method req),
           rq_uri := fq_url req, rq_host := host_with_port u, rq_headers := hm_of_hash (fl_order fl) (fq_headers req),
           rq_body := forward_bytes req, rq_downstream_protocol := Some (wp_label (pc_downstream protocol_context)),
           rq_protocol_context := Some protocol_context, rq_session_id := Some session_id,
           rq_destination := (if fq_apply_proxy_rules req
                              then Some (url_scheme u @ ''://'' @ host_with_port u) else None)\<rparr>)"

text \<open>The builder of the client: the headers that the rules left, or those of the request, one that is
  not a header making it fail, and the content type of gRPC when the request names none.\<close>

definition build_headers ::
    "forward_lib \<Rightarrow> engine_net \<Rightarrow> forward_req \<Rightarrow> (string \<times> string) list option \<Rightarrow> (string \<times> string) list option" where
  "build_headers fl net req send_headers =
     (let own = fl_order fl (fq_headers req);
          base = (case send_headers of
             Some hs \<Rightarrow> Some hs
           | None \<Rightarrow> those (map (\<lambda>(k, v). case (nt_name net k, nt_value net v) of
                (Some n, Some x) \<Rightarrow> Some (n, x) | _ \<Rightarrow> None) own))
      in if fq_kind req = Fwd_Grpc \<and> \<not> (\<exists>(k, v) \<in> set own. eq_ignore_ascii_case k ''content-type'')
         then map_option (\<lambda>hs. hs @ [(''content-type'', ''application/grpc+proto'')]) base else base)"

definition egress :: "forward_lib \<Rightarrow> url \<Rightarrow> string + unit" where
  "egress fl u = enforce_admin_egress_policy (fl_lookup fl) u (fl_policy fl)"

text \<open>The checks, before anything is recorded.\<close>

definition check_forward :: "forward_lib \<Rightarrow> engine_net \<Rightarrow> forward_req \<Rightarrow> forward_failure + url" where
  "check_forward fl net req =
     (if \<not> nt_method_ok net (fq_method req)
      then Inl (Fwd_Bad_Request (''Invalid HTTP method: '' @ fq_method req))
      else case nt_url_parse net (fq_url req) of
        None \<Rightarrow> Inl (Fwd_Bad_Request (''Invalid URL: '' @ fl_url_error fl (fq_url req)))
      | Some u \<Rightarrow> if url_scheme u \<notin> {''http'', ''https''}
          then Inl (Fwd_Bad_Request (''Unsupported URL scheme: '' @ url_scheme u))
          else case egress fl u of Inl e \<Rightarrow> Inl (Fwd_Egress_Blocked e) | Inr _ \<Rightarrow> Inr u)"

text \<open>The target: with the rules of the proxy what they resolved to, checked again, else the URL itself. A
  response of the engine ends the exchange.\<close>

datatype routed = Routed string "(string \<times> string) list option" | Routed_Response http_response | Routed_Failure forward_failure

definition route_forward ::
    "forward_lib \<Rightarrow> ('w, 'o) engine \<Rightarrow> forward_req \<Rightarrow> request_context \<Rightarrow> routed" where
  "route_forward fl en req ctx =
     (if \<not> fq_apply_proxy_rules req then Routed (fq_url req) None
      else case fl_uri fl (fq_url req) of
        Inl e \<Rightarrow> Routed_Failure (Fwd_Bad_Request (''Invalid URL for routing resolution: '' @ e))
      | Inr u \<Rightarrow> (case fst (prepare_upstream en ctx u (fq_url req)) of
          Inl response \<Rightarrow> Routed_Response response
        | Inr upstream \<Rightarrow> (case nt_url_parse (en_net en) (pu_url upstream) of
            None \<Rightarrow> Routed (pu_url upstream) (Some (pu_headers upstream))
          | Some resolved \<Rightarrow> (case egress fl resolved of
              Inl e \<Rightarrow> Routed_Failure (Fwd_Egress_Blocked e)
            | Inr _ \<Rightarrow> Routed (pu_url upstream) (Some (pu_headers upstream))))))"

definition record_forward ::
    "'w session_world \<Rightarrow> forward_req \<Rightarrow> string \<Rightarrow> request_context \<Rightarrow> 'w \<Rightarrow> 'w" where
  "record_forward sw req session_id ctx w =
     (let w1 = sw_emit sw [WO_RecordRequest session_id ctx AdminForward] w;
          w2 = annotate_session sw session_id (fq_note req) (fq_tags req) w1
      in if fq_kind req = Fwd_Grpc
         then sw_emit sw [grpc_event session_id ''request'' (False, word_of_nat (length (rq_body ctx) - 5))] w2
         else w2)"

definition prepare_forward ::
    "forward_lib \<Rightarrow> ('w, 'o) engine \<Rightarrow> 'w session_world \<Rightarrow> forward_req \<Rightarrow> 'w \<Rightarrow>
     ((forward_failure + forward_resp) + prepared_forward) \<times> 'w" where
  "prepare_forward fl en sw req w = (case check_forward fl (en_net en) req of
     Inl e \<Rightarrow> (Inl (Inl e), w)
   | Inr u \<Rightarrow>
       (let (session_id, w1) = sw_uuid sw w;
            ctx = forward_context fl req u session_id;
            size = length (rq_body ctx);
            answer = (\<lambda>response w. case short_circuit_to_forward_resp fl en sw session_id (fq_url req) size response w of
                        (r, w') \<Rightarrow> (Inl (Inr r), w'));
            w2 = record_forward sw req session_id ctx w1;
            (outcome, ctx', w3) = (if fq_apply_proxy_rules req
               then execute_request_middleware en ctx (fq_url req) (host_with_port u) (rq_method ctx) w2
               else (Go_On, ctx, w2))
        in case outcome of
             Short_Circuit response \<Rightarrow> answer response w3
           | Go_On \<Rightarrow> (case route_forward fl en req ctx' of
               Routed_Response response \<Rightarrow> answer response w3
             | Routed_Failure e \<Rightarrow> (Inl (Inl e), w3)
             | Routed url headers \<Rightarrow>
                 (let hs = build_headers fl (en_net en) req headers; body = forward_bytes req
                  in (Inr \<lparr>pf_session_id = session_id, pf_scheme = url_scheme u,
                        pf_request = \<lparr>uq_url = url, uq_headers = (case hs of Some h \<Rightarrow> h | None \<Rightarrow> []),
                           uq_method = (if fq_kind req = Fwd_Grpc then ''POST'' else fq_method req),
                           uq_body = (if fq_kind req = Fwd_Grpc \<or> body \<noteq> [] then Full_Body body else No_Body)\<rparr>,
                        pf_builder_ok = (hs \<noteq> None \<and> nt_url_parse (en_net en) url \<noteq> None),
                        pf_request_size = size\<rparr>, w3)))))"

text \<open>The response, or the error, is recorded in every case.\<close>

definition forward_answered ::
    "forward_lib \<Rightarrow> ('w, 'o) engine \<Rightarrow> 'w session_world \<Rightarrow> forward_req \<Rightarrow> prepared_forward \<Rightarrow> nat \<Rightarrow>
     upstream_response \<Rightarrow> 'w \<Rightarrow> forward_resp \<times> 'w" where
  "forward_answered fl en sw req p t0 res w =
     (let ttfb = word_of_nat (en_now en w - t0); status = ur_status res;
          label = protocol_label (ur_version res); headers = forward_headers (ur_headers res);
          w1 = en_pause en w;
          bytes = (if ur_body_ok res then concat (ur_chunks res) else []);
          w2 = (if fq_kind req = Fwd_Grpc
                then foldl (\<lambda>w m. sw_emit sw [grpc_event (pf_session_id p) ''response'' m] w) w1
                       (decode_grpc_message_lengths bytes) else w1);
          body_ms = word_of_nat (en_now en w2 - t0) - ttfb;
          (body, is_binary) = forward_body fl headers bytes;
          final_protocol = protocol_context_for_kind (fq_kind req) (pf_scheme p) (Some (protocol_from_label label));
          res_ctx = rs_default\<lparr>rs_status := status, rs_headers := hm_of_hash (fl_order fl) headers,
            rs_body := bytes, rs_request_uri := fq_url req, rs_session_id := Some (pf_session_id p),
            rs_ttfb_ms := ttfb, rs_body_ms := body_ms, rs_protocol := Some label,
            rs_protocol_context := Some final_protocol\<rparr>;
          metrics = im_default\<lparr>im_latency_ms := word_of_nat (en_now en w2 - t0),
            im_request_size_bytes := pf_request_size p, im_response_size_bytes := length bytes,
            im_status_code := status, im_ttfb_ms := ttfb, im_body_ms := body_ms, im_protocol := Some label\<rparr>
      in (\<lparr>fs_status = status, fs_status_text = status_text fl status, fs_headers = headers, fs_body = body,
           fs_is_binary = is_binary, fs_session_id = pf_session_id p,
           fs_protocol = Some (protocol_response final_protocol)\<rparr>,
          sw_emit sw [WO_RecordResponseWithMetrics (pf_session_id p) res_ctx metrics] w2))"

definition forward_failed ::
    "('w, 'o) engine \<Rightarrow> 'w session_world \<Rightarrow> forward_req \<Rightarrow> prepared_forward \<Rightarrow> nat \<Rightarrow> string \<Rightarrow> 'w \<Rightarrow> 'w" where
  "forward_failed en sw req p t0 e w =
     (let res_ctx = rs_default\<lparr>rs_status := 502, rs_body := bytes_of_string e, rs_request_uri := fq_url req,
            rs_session_id := Some (pf_session_id p),
            rs_protocol_context := Some (protocol_context_for_kind (fq_kind req) (pf_scheme p) None)\<rparr>;
          metrics = im_default\<lparr>im_latency_ms := word_of_nat (en_now en w - t0),
            im_request_size_bytes := pf_request_size p, im_response_size_bytes := length e,
            im_status_code := 502, im_ttfb_ms := word_of_nat (en_now en w - t0)\<rparr>
      in sw_emit sw [WO_RecordResponseWithMetrics (pf_session_id p) res_ctx metrics] w)"

text \<open>\<open>None\<close> is a request of the admin client that goes away while the upstream is waited for.\<close>

definition forward_http_exchange ::
    "forward_lib \<Rightarrow> ('w, 'o) engine \<Rightarrow> 'w session_world \<Rightarrow> forward_req \<Rightarrow> 'w \<Rightarrow>
     (forward_failure + forward_resp) option \<times> 'w" where
  "forward_http_exchange fl en sw req w = (case prepare_forward fl en sw req w of
     (Inl result, w1) \<Rightarrow> (Some result, w1)
   | (Inr p, w1) \<Rightarrow>
       (let t0 = en_now en w1
        in case (if pf_builder_ok p then en_send en (pf_request p) w1
                 else (Send_Failed \<lparr>fe_timeout = False, fe_connect = False, fe_text = fl_builder_error fl, fe_sources = []\<rparr>, w1)) of
             (Answered res, w2) \<Rightarrow> (case forward_answered fl en sw req p t0 res w2 of (r, w3) \<Rightarrow> (Some (Inr r), w3))
           | (Send_Failed e, w2) \<Rightarrow> (Some (Inl (Fwd_Upstream (fe_text e))), forward_failed en sw req p t0 (fe_text e) w2)
           | (Client_Gone, w2) \<Rightarrow> (None, w2)))"

text \<open>\<open>forward_request\<close>: the status of the answer of the admin interface.\<close>

fun forward_status :: "forward_failure + forward_resp \<Rightarrow> u16" where
  "forward_status (Inr r) = 200"
| "forward_status (Inl (Fwd_Bad_Request e)) = 400"
| "forward_status (Inl (Fwd_Egress_Blocked e)) = 403"
| "forward_status (Inl (Fwd_Upstream e)) = 502"


section \<open>A WebSocket conversation\<close>

record forward_ws_req =
  wq_url :: string
  wq_headers :: "string \<rightharpoonup> string"
  wq_frames :: "(string \<times> string) list"
  wq_note :: "string option"
  wq_tags :: "string list option"

record forward_ws_frame_resp =
  wp_direction :: string
  wp_opcode :: string
  wp_payload :: "string option"
  wp_payload_len :: nat

record forward_ws_resp =
  wo_status :: u16
  wo_status_text :: string
  wo_session_id :: string
  wo_frames :: "forward_ws_frame_resp list"
  wo_protocol :: "forward_protocol_resp option"

datatype forward_ws_failure = Ws_Bad_Request string | Ws_Egress_Blocked string | Ws_Upstream string string

text \<open>What waiting for the next frame can bring within the reply timeout.\<close>

datatype ws_reply = Reply_Timeout | Reply_End | Reply_Error string | Reply_Message ws_message

record 'w ws_client =
  wc_connect :: "string \<Rightarrow> (string \<times> string) list \<Rightarrow> 'w \<Rightarrow> string option \<times> 'w"
  wc_send :: "ws_message \<Rightarrow> 'w \<Rightarrow> string option \<times> 'w"
  wc_next :: "'w \<Rightarrow> ws_reply \<times> 'w"
  wc_close :: "'w \<Rightarrow> 'w"

definition max_server_frames :: nat where
  "max_server_frames = 10"

definition websocket_message :: "forward_lib \<Rightarrow> string \<times> string \<Rightarrow> ws_message" where
  "websocket_message fl frame = (case frame of (opcode, payload) \<Rightarrow>
     if opcode = ''binary'' then Ws_Binary (case fl_from_base64 fl payload of Some b \<Rightarrow> b | None \<Rightarrow> bytes_of_string payload)
     else if opcode = ''ping'' then Ws_Ping (bytes_of_string payload)
     else if opcode = ''pong'' then Ws_Pong (bytes_of_string payload)
     else if opcode = ''close'' then Ws_Close (Some (1000, payload))
     else Ws_Text payload)"

fun forward_frame :: "ws_message \<Rightarrow> (byte \<times> nat \<times> string option \<times> string option \<times> string) option" where
  "forward_frame (Ws_Text t) = Some (0x1, length t, Some (chars_take 512 t), None, ''text'')"
| "forward_frame (Ws_Binary data) = (let hex = hex_bytes (take 64 data)
     in Some (0x2, length data, None, if hex = [] then None else Some hex, ''binary''))"
| "forward_frame (Ws_Ping data) = Some (0x9, length data, None, None, ''ping'')"
| "forward_frame (Ws_Pong data) = Some (0xA, length data, None, None, ''pong'')"
| "forward_frame (Ws_Close _) = Some (0x8, 0, None, None, ''close'')"
| "forward_frame (Ws_Raw _) = None"

definition frame_resp :: "ws_direction \<times> ws_message \<Rightarrow> forward_ws_frame_resp option" where
  "frame_resp dm = (case dm of (direction, message) \<Rightarrow> (case forward_frame message of
     None \<Rightarrow> None
   | Some (opcode, len, text, hex, label) \<Rightarrow>
       Some \<lparr>wp_direction = (case direction of ClientToServer \<Rightarrow> ''client'' | ServerToClient \<Rightarrow> ''server''),
         wp_opcode = label, wp_payload = (case text of Some t \<Rightarrow> Some t | None \<Rightarrow> hex), wp_payload_len = len\<rparr>))"

definition record_ws_message :: "'w session_world \<Rightarrow> string \<Rightarrow> ws_direction \<Rightarrow> ws_message \<Rightarrow> 'w \<Rightarrow> 'w" where
  "record_ws_message sw sid direction message w = (case forward_frame message of
     None \<Rightarrow> w
   | Some (opcode, len, text, hex, label) \<Rightarrow> sw_emit sw [WO_AppendWsFrame sid
       \<lparr>wf_timestamp = sw_now sw w, wf_direction = direction, wf_opcode = opcode, wf_payload_len = len,
        wf_payload_text = text, wf_payload_hex = hex\<rparr>] w)"

definition ws_url_to_http :: "url \<Rightarrow> string + url" where
  "ws_url_to_http u = (if url_scheme u = ''ws'' then Inr (u\<lparr>url_scheme := ''http''\<rparr>)
     else if url_scheme u = ''wss'' then Inr (u\<lparr>url_scheme := ''https''\<rparr>)
     else Inl (''Unsupported WebSocket URL scheme: '' @ url_scheme u))"

definition is_ws_forward_header :: "string \<Rightarrow> bool" where
  "is_ws_forward_header name \<longleftrightarrow> to_ascii_lowercase name \<notin>
     {''host'', ''connection'', ''upgrade'', ''sec-websocket-key'', ''sec-websocket-version'',
      ''sec-websocket-accept'', ''content-length''}"

definition insert_header :: "(string \<times> string) list \<Rightarrow> string \<times> string \<Rightarrow> (string \<times> string) list" where
  "insert_header hs kv = filter (\<lambda>(k, _). k \<noteq> fst kv) hs @ [kv]"

definition ws_request_headers :: "forward_lib \<Rightarrow> engine_net \<Rightarrow> forward_ws_req \<Rightarrow> (string \<times> string) list \<Rightarrow> (string \<times> string) list" where
  "ws_request_headers fl net req base = foldl (\<lambda>hs (name, value).
     if is_ws_forward_header name
     then (case (nt_name net name, nt_value net value) of (Some n, Some v) \<Rightarrow> insert_header hs (n, v) | _ \<Rightarrow> hs)
     else hs) base (fl_order fl (wq_headers req))"

definition forward_ws_context :: "forward_lib \<Rightarrow> forward_ws_req \<Rightarrow> url \<Rightarrow> string \<Rightarrow> request_context" where
  "forward_ws_context fl req u session_id =
     rq_default\<lparr>rq_method := ''WS'', rq_uri := wq_url req, rq_host := host_with_port u,
       rq_headers := hm_of_hash (fl_order fl) ((wq_headers req)(''upgrade'' \<mapsto> ''websocket'')),
       rq_connection_id := Some session_id, rq_stream_id := Some 1, rq_downstream_protocol := Some ''WebSocket'',
       rq_protocol_context := Some ((pc_with_identity (pc_websocket (url_scheme u)) (Some session_id) (Some 1))
          \<lparr>pc_upstream := Some WebSocket\<rparr>)\<rparr>"

definition record_ws_failure ::
    "('w, 'o) engine \<Rightarrow> 'w session_world \<Rightarrow> string \<Rightarrow> string \<Rightarrow> nat \<Rightarrow> string \<Rightarrow> 'w \<Rightarrow> forward_ws_failure \<times> 'w" where
  "record_ws_failure en sw sid request_uri started e w =
     (Ws_Upstream sid e,
      sw_emit sw [WO_RecordResponseWithMetrics sid
        (rs_default\<lparr>rs_status := 502, rs_body := bytes_of_string e, rs_request_uri := request_uri, rs_session_id := Some sid\<rparr>)
        (im_default\<lparr>im_latency_ms := word_of_nat (en_now en w - started), im_status_code := 502,
           im_response_size_bytes := length e\<rparr>)] w)"

definition record_websocket_success ::
    "('w, 'o) engine \<Rightarrow> 'w session_world \<Rightarrow> forward_lib \<Rightarrow> string \<Rightarrow> string \<Rightarrow> nat \<Rightarrow> protocol_context \<Rightarrow> 'w \<Rightarrow> 'w" where
  "record_websocket_success en sw fl sid url started protocol w =
     sw_emit sw [WO_RecordResponseWithMetrics sid
        (rs_default\<lparr>rs_status := 101, rs_headers := hm_of_hash (fl_order fl) [''upgrade'' \<mapsto> ''websocket''],
           rs_request_uri := url, rs_session_id := Some sid, rs_protocol := Some ''WebSocket'',
           rs_protocol_context := Some protocol\<rparr>)
        (im_default\<lparr>im_latency_ms := word_of_nat (en_now en w - started), im_status_code := 101,
           im_protocol := Some ''WebSocket''\<rparr>)] w"

text \<open>The checks and the recorded request, then the handshake.\<close>

definition prepare_websocket_forward ::
    "forward_lib \<Rightarrow> engine_net \<Rightarrow> 'w session_world \<Rightarrow> forward_ws_req \<Rightarrow> 'w \<Rightarrow>
     (forward_ws_failure + string \<times> (string \<times> string) list \<times> protocol_context) \<times> 'w" where
  "prepare_websocket_forward fl net sw req w = (case nt_url_parse net (wq_url req) of
     None \<Rightarrow> (Inl (Ws_Bad_Request (''Invalid URL: '' @ fl_url_error fl (wq_url req))), w)
   | Some u \<Rightarrow> (if url_scheme u \<notin> {''ws'', ''wss''}
       then (Inl (Ws_Bad_Request (''Unsupported WebSocket URL scheme: '' @ url_scheme u)), w)
       else case ws_url_to_http u of Inl e \<Rightarrow> (Inl (Ws_Bad_Request e), w) | Inr policy_url \<Rightarrow> (case egress fl policy_url of
         Inl e \<Rightarrow> (Inl (Ws_Egress_Blocked e), w)
       | Inr _ \<Rightarrow>
           (let (sid, w1) = sw_uuid sw w; ctx = forward_ws_context fl req u sid;
                w2 = sw_emit sw [WO_RecordRequest sid ctx AdminForward] w1;
                w3 = annotate_session sw sid (wq_note req) (wq_tags req) w2
            in case fl_client_request fl (wq_url req) of
                 Inl e \<Rightarrow> (Inl (Ws_Bad_Request e), w3)
               | Inr base \<Rightarrow> (Inr (sid, ws_request_headers fl net req base,
                   the (rq_protocol_context ctx)), w3)))))"

text \<open>The scripted frames in their order; the messages recorded are returned with the error of a failed
  send.\<close>

fun send_frames ::
    "'w session_world \<Rightarrow> 'w ws_client \<Rightarrow> string \<Rightarrow> ws_message list \<Rightarrow> 'w \<Rightarrow>
     (ws_direction \<times> ws_message) list \<times> string option \<times> 'w" where
  "send_frames sw wc sid [] w = ([], None, w)"
| "send_frames sw wc sid (m # ms) w =
     (let w1 = record_ws_message sw sid ClientToServer m w
      in case wc_send wc m w1 of
           (Some e, w2) \<Rightarrow> ([(ClientToServer, m)], Some e, w2)
         | (None, w2) \<Rightarrow> (let (sent, e, w3) = send_frames sw wc sid ms w2 in ((ClientToServer, m) # sent, e, w3)))"

text \<open>\<open>seen\<close> is the number of server frames so far: the loop ends at the tenth, after a close frame, an
  end or an error, or when no frame comes in time.\<close>

function collect_websocket_replies ::
    "'w session_world \<Rightarrow> 'w ws_client \<Rightarrow> string \<Rightarrow> nat \<Rightarrow> 'w \<Rightarrow>
     (ws_direction \<times> ws_message) list \<times> string option \<times> 'w" where
  "collect_websocket_replies sw wc sid seen w = (case wc_next wc w of
     (Reply_Message m, w1) \<Rightarrow>
       (let w2 = record_ws_message sw sid ServerToClient m w1
        in if is_close m \<or> max_server_frames \<le> Suc seen then ([(ServerToClient, m)], None, w2)
           else let (got, e, w3) = collect_websocket_replies sw wc sid (Suc seen) w2
                in ((ServerToClient, m) # got, e, w3))
   | (Reply_Error e, w1) \<Rightarrow> ([], Some e, w1)
   | (_, w1) \<Rightarrow> ([], None, w1))"
  by pat_completeness auto
termination
  by (relation "measure (\<lambda>(sw, wc, sid, seen, w). max_server_frames - seen)") auto

declare collect_websocket_replies.simps [simp del]

definition forward_websocket_exchange ::
    "forward_lib \<Rightarrow> ('w, 'o) engine \<Rightarrow> 'w session_world \<Rightarrow> 'w ws_client \<Rightarrow> forward_ws_req \<Rightarrow> 'w \<Rightarrow>
     (forward_ws_failure + forward_ws_resp) \<times> 'w" where
  "forward_websocket_exchange fl en sw wc req w = (case prepare_websocket_forward fl (en_net en) sw req w of
     (Inl e, w1) \<Rightarrow> (Inl e, w1)
   | (Inr (sid, headers, protocol), w1) \<Rightarrow>
       (let started = en_now en w1;
            fail = (\<lambda>e w. case record_ws_failure en sw sid (wq_url req) started e w of (f, w') \<Rightarrow> (Inl f, w'))
        in case wc_connect wc (wq_url req) headers w1 of
             (Some e, w2) \<Rightarrow> fail e w2
           | (None, w2) \<Rightarrow> (case send_frames sw wc sid (map (websocket_message fl) (wq_frames req)) w2 of
               (sent, Some e, w3) \<Rightarrow> fail e w3
             | (sent, None, w3) \<Rightarrow> (case collect_websocket_replies sw wc sid 0 w3 of
                 (got, Some e, w4) \<Rightarrow> fail e w4
               | (got, None, w4) \<Rightarrow>
                   (let w5 = record_websocket_success en sw fl sid (wq_url req) started protocol (wc_close wc w4)
                    in (Inr \<lparr>wo_status = 101, wo_status_text = ''Switching Protocols'', wo_session_id = sid,
                          wo_frames = List.map_filter frame_resp (sent @ got),
                          wo_protocol = Some (protocol_response protocol)\<rparr>, w5))))))"


section \<open>What is sent\<close>

text \<open>A request that may be handed to the client: its URL and the one that was asked for are within the
  egress policy, and it has the method and the body that were asked for, whatever the rules did.\<close>

definition sendable :: "forward_lib \<Rightarrow> engine_net \<Rightarrow> forward_req \<Rightarrow> upstream_request \<Rightarrow> bool" where
  "sendable fl net req r \<longleftrightarrow>
     (\<exists>u. nt_url_parse net (fq_url req) = Some u \<and> url_scheme u \<in> {''http'', ''https''} \<and> egress fl u = Inr ())
     \<and> (\<exists>v. nt_url_parse net (uq_url r) = Some v \<and> egress fl v = Inr ())
     \<and> nt_method_ok net (fq_method req)
     \<and> uq_method r = (if fq_kind req = Fwd_Grpc then ''POST'' else fq_method req)
     \<and> uq_body r = (if fq_kind req = Fwd_Grpc \<or> forward_bytes req \<noteq> [] then Full_Body (forward_bytes req) else No_Body)"

lemma check_forward_Inr:
  "check_forward fl net req = Inr u \<longleftrightarrow> nt_method_ok net (fq_method req) \<and> nt_url_parse net (fq_url req) = Some u
     \<and> url_scheme u \<in> {''http'', ''https''} \<and> egress fl u = Inr ()"
  by (auto simp: check_forward_def split: option.splits sum.splits unit.splits)

lemma route_forward_url:
  assumes "route_forward fl en req ctx = Routed url headers"
  shows "url = fq_url req \<or> (\<forall>v. nt_url_parse (en_net en) url = Some v \<longrightarrow> egress fl v = Inr ())"
  using assms by (auto simp: route_forward_def split: if_splits sum.splits option.splits unit.splits)

lemma prepared_sendable:
  assumes "prepare_forward fl en sw req w = (Inr p, w')" "pf_builder_ok p"
  shows "sendable fl (en_net en) req (pf_request p)"
  using assms route_forward_url
  by (fastforce simp: prepare_forward_def sendable_def check_forward_Inr Let_def
      split: sum.splits prod.splits middleware_outcome.splits routed.splits if_splits)

lemma execute_request_middleware_send:
  "execute_request_middleware (en\<lparr>en_send := s\<rparr>) = execute_request_middleware en"
proof (cases en)
  case en: (fields net chain recorder max_body threshold port host lan alt now send pause)
  show ?thesis
    unfolding en execute_request_middleware_def [abs_def] respond_to_intercepted_def [abs_def]
      intercepted_context_def [abs_def] record_response_with_optional_size_def [abs_def]
      append_session_event_def [abs_def] owns_terminal_response_recording_def [abs_def] engine.select_convs engine.update_convs ..
qed

lemma prepare_upstream_send: "prepare_upstream (en\<lparr>en_send := s\<rparr>) = prepare_upstream en"
proof (cases en)
  case en: (fields net chain recorder max_body threshold port host lan alt now send pause)
  show ?thesis
    unfolding en prepare_upstream_def [abs_def] is_self_proxy_def [abs_def] engine.select_convs engine.update_convs ..
qed

lemma prepare_forward_send: "prepare_forward fl (en\<lparr>en_send := s\<rparr>) = prepare_forward fl en"
proof -
  have en: "en_net (en\<lparr>en_send := s\<rparr>) = en_net en" "en_max_body_bytes (en\<lparr>en_send := s\<rparr>) = en_max_body_bytes en"
    by simp_all
  show ?thesis
    unfolding prepare_forward_def [abs_def] route_forward_def [abs_def] short_circuit_to_forward_resp_def [abs_def]
      execute_request_middleware_send prepare_upstream_send en ..
qed



section \<open>What is recorded\<close>

lemma short_circuit_recorded:
  "short_circuit_to_forward_resp fl en sw i u n response w = (r, w') \<Longrightarrow>
     \<exists>res m. w' = sw_emit sw [WO_RecordResponseWithMetrics i res m] w \<and> rs_status res = fs_status r \<and> fs_session_id r = i"
  by (auto simp: short_circuit_to_forward_resp_def Let_def split: prod.splits)

lemma forward_answered_recorded:
  "forward_answered fl en sw req p t0 res w = (r, w') \<Longrightarrow>
     \<exists>res m w1. w' = sw_emit sw [WO_RecordResponseWithMetrics (pf_session_id p) res m] w1
       \<and> rs_status res = fs_status r \<and> fs_session_id r = pf_session_id p"
  unfolding forward_answered_def Let_def by (auto split: prod.splits intro!: exI)

lemma prepare_forward_result:
  "prepare_forward fl en sw req w = (Inl (Inr r), w') \<Longrightarrow>
     \<exists>res m w1. w' = sw_emit sw [WO_RecordResponseWithMetrics (fst (sw_uuid sw w)) res m] w1
       \<and> rs_status res = fs_status r \<and> fs_session_id r = fst (sw_uuid sw w)"
  by (auto simp: prepare_forward_def Let_def dest!: short_circuit_recorded
      split: sum.splits prod.splits middleware_outcome.splits routed.splits)

lemma prepare_forward_session:
  "prepare_forward fl en sw req w = (Inr p, w') \<Longrightarrow> pf_session_id p = fst (sw_uuid sw w)"
  by (auto simp: prepare_forward_def Let_def split: sum.splits prod.splits middleware_outcome.splits routed.splits)

lemma prepare_forward_upstream: "prepare_forward fl en sw req w \<noteq> (Inl (Inl (Fwd_Upstream e)), w')"
  by (auto simp: prepare_forward_def check_forward_def route_forward_def Let_def
      split: sum.splits prod.splits middleware_outcome.splits routed.splits option.splits if_splits unit.splits)

text \<open>C35 An exchange of the admin interface that is answered, by the upstream, by a rule or by the loop
  check, or that fails at the upstream, ends by recording a response for its session: with the status of
  the answer, which carries the id of that session, or 502.\<close>

theorem forward_session_answered:
  assumes "forward_http_exchange fl en sw req w = (Some result, w')"
    and "case result of Inr r \<Rightarrow> True | Inl e \<Rightarrow> \<exists>m. e = Fwd_Upstream m"
  shows "\<exists>res metrics w1. w' = sw_emit sw [WO_RecordResponseWithMetrics (fst (sw_uuid sw w)) res metrics] w1
     \<and> (case result of Inr r \<Rightarrow> rs_status res = fs_status r \<and> fs_session_id r = fst (sw_uuid sw w)
        | Inl e \<Rightarrow> rs_status res = 502)"
proof (cases "prepare_forward fl en sw req w")
  case (Pair prepared w1)
  show ?thesis
  proof (cases prepared)
    case (Inl early)
    then have early: "early = result" "w1 = w'" using assms(1) Pair by (simp_all add: forward_http_exchange_def)
    have "result \<noteq> Inl (Fwd_Upstream m)" for m
      using prepare_forward_upstream [of fl en sw req w m w'] Pair Inl early by auto
    with assms(2) obtain r where "result = Inr r" by (cases result) auto
    with prepare_forward_result [of fl en sw req w r w'] Pair Inl early show ?thesis by auto
  next
    case (Inr p)
    let ?out = "if pf_builder_ok p then en_send en (pf_request p) w1
       else (Send_Failed \<lparr>fe_timeout = False, fe_connect = False, fe_text = fl_builder_error fl, fe_sources = []\<rparr>, w1)"
    have sid: "pf_session_id p = fst (sw_uuid sw w)" by (rule prepare_forward_session [OF Pair [unfolded Inr]])
    obtain a w2 where out: "?out = (a, w2)" by (cases ?out)
    show ?thesis
    proof (cases a)
      case (Answered res)
      obtain r w3 where r: "forward_answered fl en sw req p (en_now en w1) res w2 = (r, w3)"
        by (cases "forward_answered fl en sw req p (en_now en w1) res w2")
      then have "result = Inr r" "w' = w3"
        using assms(1) Pair Inr out Answered by (simp_all add: forward_http_exchange_def Let_def)
      with forward_answered_recorded [OF r] sid show ?thesis by auto
    next
      case (Send_Failed e)
      then have "result = Inl (Fwd_Upstream (fe_text e))" "w' = forward_failed en sw req p (en_now en w1) (fe_text e) w2"
        using assms(1) Pair Inr out by (simp_all add: forward_http_exchange_def Let_def)
      with sid show ?thesis by (auto simp: forward_failed_def Let_def intro!: exI)
    next
      case Client_Gone
      then show ?thesis using assms(1) Pair Inr out by (simp add: forward_http_exchange_def Let_def)
    qed
  qed
qed

text \<open>When the policy refuses what the rules resolved to, the session that has been recorded stays without
  a response.\<close>

lemma blocked_route_unanswered:
  assumes "check_forward fl (en_net en) req = Inr u" "fq_apply_proxy_rules req"
    and "sw_uuid sw w = (i, w1)"
    and "execute_request_middleware en (forward_context fl req u i) (fq_url req) (host_with_port u)
           (rq_method (forward_context fl req u i)) (record_forward sw req i (forward_context fl req u i) w1)
         = (Go_On, ctx, w2)"
    and "route_forward fl en req ctx = Routed_Failure e"
  shows "forward_http_exchange fl en sw req w = (Some (Inl e), w2)"
  using assms by (simp add: forward_http_exchange_def prepare_forward_def Let_def)

section \<open>Frames\<close>

lemma send_frames_all:
  "send_frames sw wc sid ms w = (sent, None, w') \<Longrightarrow> sent = map (Pair ClientToServer) ms"
proof (induction ms arbitrary: w sent)
  case (Cons m ms)
  then show ?case by (auto simp: Let_def split: prod.splits option.splits)
qed simp

lemma collected_frames:
  "collect_websocket_replies sw wc sid seen w = (got, e, w') \<Longrightarrow> seen \<le> max_server_frames \<Longrightarrow>
     length got \<le> max 1 (max_server_frames - seen) \<and> fst ` set got \<subseteq> {ServerToClient}
     \<and> (\<forall>m \<in> set (butlast (map snd got)). \<not> is_close m)"
proof (induction sw wc sid seen w arbitrary: got e w' rule: collect_websocket_replies.induct)
  case (1 sw wc sid seen w)
  obtain reply w1 where step: "wc_next wc w = (reply, w1)" by (cases "wc_next wc w")
  show ?case
  proof (cases reply)
    case (Reply_Message m)
    let ?w2 = "record_ws_message sw sid ServerToClient m w1"
    obtain got' e' w3 where rest: "collect_websocket_replies sw wc sid (Suc seen) ?w2 = (got', e', w3)"
      by (cases "collect_websocket_replies sw wc sid (Suc seen) ?w2") auto
    show ?thesis
    proof (cases "is_close m \<or> max_server_frames \<le> Suc seen")
      case True
      then show ?thesis using "1.prems" step Reply_Message
        by (subst (asm) collect_websocket_replies.simps) (auto simp: Let_def)
    next
      case False
      then have "got = (ServerToClient, m) # got'" using "1.prems" step Reply_Message rest
        by (subst (asm) collect_websocket_replies.simps) (auto simp: Let_def)
      with "1.IH" [OF step [symmetric] Reply_Message refl False rest] False show ?thesis by auto
    qed
  qed (use "1.prems" step in \<open>subst (asm) collect_websocket_replies.simps, simp\<close>)+
qed


text \<open>A WebSocket conversation of the admin interface. When it succeeds the answer holds every scripted
  frame, in its order, and then what the server sent, at most ten frames and none after a close frame;
  and its session has the response 101 recorded last.\<close>

theorem forward_websocket_bounded:
  assumes "forward_websocket_exchange fl en sw wc req w = (Inr r, w')"
  shows "\<exists>got res metrics w1. wo_frames r = List.map_filter frame_resp
        (map (\<lambda>f. (ClientToServer, websocket_message fl f)) (wq_frames req) @ map (Pair ServerToClient) got)
     \<and> length got \<le> 10 \<and> (\<forall>m \<in> set (butlast got). \<not> is_close m)
     \<and> w' = sw_emit sw [WO_RecordResponseWithMetrics (wo_session_id r) res metrics] w1 \<and> rs_status res = 101"
proof -
  obtain sid headers protocol w1 where p: "prepare_websocket_forward fl (en_net en) sw req w = (Inr (sid, headers, protocol), w1)"
    using assms by (auto simp: forward_websocket_exchange_def split: prod.splits sum.splits)
  obtain w2 where c: "wc_connect wc (wq_url req) headers w1 = (None, w2)"
    using assms p by (auto simp: forward_websocket_exchange_def record_ws_failure_def Let_def split: prod.splits option.splits)
  obtain sent w3 where s: "send_frames sw wc sid (map (websocket_message fl) (wq_frames req)) w2 = (sent, None, w3)"
    using assms p c by (auto simp: forward_websocket_exchange_def record_ws_failure_def Let_def split: prod.splits option.splits)
  obtain got w4 where g: "collect_websocket_replies sw wc sid 0 w3 = (got, None, w4)"
    using assms p c s by (auto simp: forward_websocket_exchange_def record_ws_failure_def Let_def split: prod.splits option.splits)
  have sent: "sent = map (\<lambda>f. (ClientToServer, websocket_message fl f)) (wq_frames req)"
    using send_frames_all [OF s] by simp
  have got: "length got \<le> 10" "fst ` set got \<subseteq> {ServerToClient}" "\<forall>m \<in> set (butlast (map snd got)). \<not> is_close m"
    using collected_frames [OF g] by (auto simp: max_server_frames_def)
  have "map (Pair ServerToClient) (map snd got) = got"
    unfolding map_map by (rule map_idI) (use got(2) in auto)
  then show ?thesis using assms p c s g sent got
    by (intro exI [of _ "map snd got"])
       (auto simp: forward_websocket_exchange_def record_websocket_success_def Let_def intro!: exI)
qed


section \<open>A sample run\<close>

definition list_world :: "write_op list session_world" where
  "list_world = \<lparr>sw_emit = (\<lambda>ops w. w @ ops), sw_session = (\<lambda>_ _. None), sw_wait = (\<lambda>w. w),
     sw_uuid = (\<lambda>w. (''s'', w)), sw_now = (\<lambda>_. 0), sw_instant = (\<lambda>_. 0)\<rparr>"

definition sample_net :: engine_net where
  "sample_net = \<lparr>nt_url_parse = (\<lambda>s. if s = ''http://a/'' then Some \<lparr>url_scheme = ''http'', url_host_str = Some ''a'', url_port = None\<rparr>
        else if s = ''ws://a/'' then Some \<lparr>url_scheme = ''ws'', url_host_str = Some ''a'', url_port = None\<rparr> else None),
     nt_name = Some, nt_value = Some, nt_method_ok = (\<lambda>_. True), nt_lower = (\<lambda>s. s), nt_gunzip = (\<lambda>_. None),
     nt_zlib = (\<lambda>_. None), nt_inflate = (\<lambda>_. None), nt_brotli = (\<lambda>_. None), nt_unzstd = (\<lambda>_. None)\<rparr>"

definition sample_client_engine :: "(write_op list, unit) engine" where
  "sample_client_engine = \<lparr>en_net = sample_net, en_chain = (\<lambda>_. []), en_recorder = Some list_world,
     en_max_body_bytes = (\<lambda>_. 1000), en_stream_threshold_bytes = 1000, en_bind_port = 8080, en_bind_host = ''127.0.0.1'',
     en_self_lan_hosts = [], en_alt_svc_header = None, en_now = (\<lambda>_. 0),
     en_send = (\<lambda>r w. (Answered \<lparr>ur_status = 204, ur_version = HTTP_11, ur_headers = [], ur_content_length = None,
        ur_chunks = [], ur_body_ok = True, ur_gone = None\<rparr>, w)), en_pause = (\<lambda>w. w)\<rparr>"

definition sample_forward_lib :: forward_lib where
  "sample_forward_lib = \<lparr>fl_lookup = (\<lambda>_ _. None), fl_policy = from_config False False, fl_order = (\<lambda>_. []),
     fl_uri = (\<lambda>_. Inl ''bad''), fl_base64 = (\<lambda>_. []), fl_from_base64 = (\<lambda>_. None), fl_reason = (\<lambda>_. None),
     fl_url_error = (\<lambda>_. []), fl_builder_error = ''builder error'', fl_client_request = (\<lambda>_. Inr [])\<rparr>"

definition sample_forward :: forward_req where
  "sample_forward = \<lparr>fq_kind = Fwd_Http, fq_method = ''GET'', fq_url = ''http://a/'', fq_headers = Map.empty,
     fq_body = None, fq_note = None, fq_tags = None, fq_apply_proxy_rules = False\<rparr>"

lemmas sample_defs = list_world_def sample_net_def sample_client_engine_def sample_forward_lib_def sample_forward_def

lemma sample_egress: "egress sample_forward_lib u = Inr ()"
  by (simp add: egress_def enforce_admin_egress_policy_def sample_forward_lib_def from_config_def)

lemma sample_prepared:
  "\<exists>w'. prepare_forward sample_forward_lib sample_client_engine list_world sample_forward []
     = (Inr \<lparr>pf_session_id = ''s'', pf_scheme = ''http'',
          pf_request = \<lparr>uq_url = ''http://a/'', uq_headers = [], uq_method = ''GET'', uq_body = No_Body\<rparr>,
          pf_builder_ok = True, pf_request_size = 0\<rparr>, w')"
proof -
  have "check_forward sample_forward_lib (en_net sample_client_engine) sample_forward
      = Inr \<lparr>url_scheme = ''http'', url_host_str = Some ''a'', url_port = None\<rparr>"
    by (simp add: check_forward_Inr sample_egress) (simp add: sample_client_engine_def sample_net_def sample_forward_def)
  then show ?thesis
    by (simp add: prepare_forward_def)
       (simp add: sample_defs forward_context_def record_forward_def annotate_session_def route_forward_def
         build_headers_def forward_bytes_def bytes_of_string_def rq_default_def Let_def)
qed

lemma sample_run:
  "\<exists>r w'. forward_http_exchange sample_forward_lib sample_client_engine list_world sample_forward [] = (Some (Inr r), w')
     \<and> fs_status r = 204"
proof -
  obtain w1 where p: "prepare_forward sample_forward_lib sample_client_engine list_world sample_forward []
     = (Inr \<lparr>pf_session_id = ''s'', pf_scheme = ''http'',
          pf_request = \<lparr>uq_url = ''http://a/'', uq_headers = [], uq_method = ''GET'', uq_body = No_Body\<rparr>,
          pf_builder_ok = True, pf_request_size = 0\<rparr>, w1)" using sample_prepared by blast
  show ?thesis
    by (simp add: forward_http_exchange_def p) (simp add: sample_defs forward_answered_def Let_def split: prod.split)
qed

theorem forward_session_answered_witness:
  "\<exists>res metrics w1. snd (forward_http_exchange sample_forward_lib sample_client_engine list_world sample_forward [])
     = w1 @ [WO_RecordResponseWithMetrics ''s'' res metrics] \<and> rs_status res = 204"
proof -
  obtain r w' where r: "forward_http_exchange sample_forward_lib sample_client_engine list_world sample_forward [] = (Some (Inr r), w')"
    "fs_status r = 204" using sample_run by blast
  show ?thesis using forward_session_answered [OF r(1)] r by (auto simp: list_world_def)
qed


definition sample_ws_client :: "write_op list ws_client" where
  "sample_ws_client = \<lparr>wc_connect = (\<lambda>_ _ w. (None, w)), wc_send = (\<lambda>_ w. (None, w)),
     wc_next = (\<lambda>w. (Reply_Message (Ws_Close None), w)), wc_close = (\<lambda>w. w)\<rparr>"

definition sample_conversation :: forward_ws_req where
  "sample_conversation = \<lparr>wq_url = ''ws://a/'', wq_headers = Map.empty, wq_frames = [(''ping'', ''p'')], wq_note = None, wq_tags = None\<rparr>"

theorem forward_websocket_bounded_witness:
  "\<exists>r w'. forward_websocket_exchange sample_forward_lib sample_client_engine list_world sample_ws_client sample_conversation []
       = (Inr r, w') \<and> (\<exists>got. length got \<le> 10 \<and> wo_frames r = List.map_filter frame_resp
           ((ClientToServer, Ws_Ping [112]) # map (Pair ServerToClient) got))"
proof -
  have close: "collect_websocket_replies list_world sample_ws_client i 0 w
      = ([(ServerToClient, Ws_Close None)], None, record_ws_message list_world i ServerToClient (Ws_Close None) w)" for i w
    by (simp add: collect_websocket_replies.simps [of _ _ _ 0] sample_ws_client_def Let_def)
  have net: "nt_url_parse (en_net sample_client_engine) (wq_url sample_conversation)
      = Some \<lparr>url_scheme = ''ws'', url_host_str = Some ''a'', url_port = None\<rparr>"
    by (simp add: sample_client_engine_def sample_net_def sample_conversation_def)
  have "\<exists>x w'. prepare_websocket_forward sample_forward_lib (en_net sample_client_engine) list_world sample_conversation []
      = (Inr x, w')"
    by (simp add: prepare_websocket_forward_def net ws_url_to_http_def sample_egress Let_def split: prod.split)
       (simp add: sample_forward_lib_def)
  then obtain sid hs protocol w1 where p: "prepare_websocket_forward sample_forward_lib (en_net sample_client_engine)
      list_world sample_conversation [] = (Inr (sid, hs, protocol), w1)" by auto
  have "\<exists>sent w3. send_frames list_world sample_ws_client sid
      (map (websocket_message sample_forward_lib) (wq_frames sample_conversation)) w1 = (sent, None, w3)"
    by (simp add: sample_conversation_def sample_ws_client_def)
  moreover have "wc_connect sample_ws_client u hs w1 = (None, w1)" for u by (simp add: sample_ws_client_def)
  ultimately have "\<exists>r w'. forward_websocket_exchange sample_forward_lib sample_client_engine list_world sample_ws_client
      sample_conversation [] = (Inr r, w')"
    by (auto simp: forward_websocket_exchange_def p close Let_def)
  then obtain r w' where r: "forward_websocket_exchange sample_forward_lib sample_client_engine list_world sample_ws_client
      sample_conversation [] = (Inr r, w')" by blast
  have "websocket_message sample_forward_lib (''ping'', ''p'') = Ws_Ping [112]"
    by (simp add: websocket_message_def bytes_of_string_def byte_of_char_def)
  with forward_websocket_bounded [OF r] r show ?thesis by (auto simp: sample_conversation_def)
qed

section \<open>Framing\<close>

text \<open>The lengths read from a body of whole frames are those of its messages.\<close>

lemma grpc_lengths_of_frames:
  "list_all (\<lambda>(z, p). length p < 2 ^ 32) ms \<Longrightarrow>
   decode_grpc_message_lengths (concat (map (\<lambda>(z, p). encode_grpc_frame z p) ms))
     = map (\<lambda>(z, p). (z, word_of_nat (length p))) ms"
proof (induction ms)
  case (Cons m ms)
  obtain z p where m: "m = (z, p)" by (cases m)
  obtain a b c d where f: "encode_grpc_frame z p = (if z then 1 else 0) # a # b # c # d # p"
    "of_be32 a b c d = word_of_nat (length p)" using encode_grpc_frame_shape by blast
  have "unat (word_of_nat (length p) :: u32) = length p" using Cons.prems m by (simp add: unat_of_nat)
  with Cons m f show ?case by simp
qed simp

end
