(* ===== verification/PayloadRepair.thy ===== *)
theory PayloadRepair
  imports SessionTypes Utf8_Strings
begin

text \<open>
  Repairing the JSON payloads that language models produce
  (\<open>control_plane/assistant_payload_repair.rs\<close>): numbers and booleans given as text, and single values
  where a list is expected.
\<close>

definition is_numeric_field :: "string \<Rightarrow> bool" where
  "is_numeric_field key \<longleftrightarrow> key \<in> {''bandwidth_limit_kbps'', ''call_count'', ''code'', ''delay_ms'', ''latency_ms'',
     ''limit'', ''offset'', ''port'', ''status''}"

definition is_boolean_field :: "string \<Rightarrow> bool" where
  "is_boolean_field key \<longleftrightarrow> key \<in> {''enabled'', ''include_bodies'', ''merge'', ''raw'', ''regex''}"

definition is_array_field :: "string \<Rightarrow> bool" where
  "is_array_field key \<longleftrightarrow> key \<in> {''actions'', ''events'', ''host_focus'', ''hosts'', ''methods'', ''responses'',
     ''status_buckets''}"

text \<open>Text of ASCII digits is the only one taken, so the plus sign of \<open>parse\<close> cannot occur.\<close>

definition numeric_string_as_json_number :: "json \<Rightarrow> json option" where
  "numeric_string_as_json_number v = (case v of
     JString s \<Rightarrow> (let raw = trim_str s
        in if raw = [] \<or> \<not> list_all is_ascii_digit raw then None
           else map_option (\<lambda>n. JNumber (PosInt n)) (parse_u64 raw))
   | _ \<Rightarrow> None)"

definition boolean_string_as_json_bool :: "json \<Rightarrow> json option" where
  "boolean_string_as_json_bool v = (case v of
     JString s \<Rightarrow> (let t = to_ascii_lowercase (trim_str s)
        in if t = ''true'' then Some (JBool True) else if t = ''false'' then Some (JBool False) else None)
   | _ \<Rightarrow> None)"

text \<open>The elements of the list that takes the place of a value.\<close>

definition singleton_as_json_array :: "json \<Rightarrow> json list option" where
  "singleton_as_json_array v = (case v of
     JObject kvs \<Rightarrow> Some [v]
   | JString raw \<Rightarrow> (let items = filter (\<lambda>i. i \<noteq> []) (map trim_str (split_char (CHR '','') raw))
        in if items = [] then None else Some (map JString items))
   | _ \<Rightarrow> None)"

text \<open>The value of a field: a list is made and repaired in its turn, a number or a boolean is put in its
  place, and anything else is repaired inside.\<close>

definition repair_field :: "(json \<Rightarrow> json) \<Rightarrow> string \<Rightarrow> json \<Rightarrow> json" where
  "repair_field repair key v =
     (if is_array_field key \<and> singleton_as_json_array v \<noteq> None
      then (case v of JObject _ \<Rightarrow> JArray [repair v] | _ \<Rightarrow> JArray (the (singleton_as_json_array v)))
      else if is_numeric_field key \<and> numeric_string_as_json_number v \<noteq> None
      then the (numeric_string_as_json_number v)
      else if is_boolean_field key \<and> boolean_string_as_json_bool v \<noteq> None
      then the (boolean_string_as_json_bool v)
      else repair v)"

lemma repair_field_cong [fundef_cong]:
  assumes "k = k'" "v = v'" "f v' = g v'"
  shows "repair_field f k v = repair_field g k' v'"
  unfolding repair_field_def assms ..

fun repair_assistant_payload :: "json \<Rightarrow> json" where
  "repair_assistant_payload (JObject kvs) = JObject (map (\<lambda>(k, v). (k, repair_field repair_assistant_payload k v)) kvs)"
| "repair_assistant_payload (JArray items) = JArray (map repair_assistant_payload items)"
| "repair_assistant_payload v = v"

section \<open>Repairing once is enough\<close>

lemmas not_text = singleton_as_json_array_def numeric_string_as_json_number_def boolean_string_as_json_bool_def

lemma split_texts: "singleton_as_json_array v = Some xs \<Longrightarrow> v = JString s \<Longrightarrow> map repair_assistant_payload xs = xs"
  by (auto simp: singleton_as_json_array_def Let_def split: if_splits)

lemma number_text: "numeric_string_as_json_number v = Some x \<Longrightarrow> \<exists>n. x = JNumber n"
  by (auto simp: numeric_string_as_json_number_def Let_def split: if_splits json.splits)

lemma boolean_text: "boolean_string_as_json_bool v = Some x \<Longrightarrow> \<exists>b. x = JBool b"
  by (auto simp: boolean_string_as_json_bool_def Let_def split: if_splits json.splits)

lemma repair_other:
  "repair_field f k (JArray xs) = f (JArray xs)" "repair_field f k (JNumber n) = f (JNumber n)"
  "repair_field f k (JBool b) = f (JBool b)"
  by (simp_all add: repair_field_def not_text)

lemma repair_field_idem:
  assumes "repair_assistant_payload (repair_assistant_payload v) = repair_assistant_payload v"
  shows "repair_field repair_assistant_payload k (repair_field repair_assistant_payload k v)
    = repair_field repair_assistant_payload k v"
proof (cases v)
  case (JString s)
  let ?f = "repair_field repair_assistant_payload k"
  have f: "?f v =
      (if is_array_field k \<and> singleton_as_json_array v \<noteq> None then JArray (the (singleton_as_json_array v))
       else if is_numeric_field k \<and> numeric_string_as_json_number v \<noteq> None then the (numeric_string_as_json_number v)
       else if is_boolean_field k \<and> boolean_string_as_json_bool v \<noteq> None then the (boolean_string_as_json_bool v)
       else v)"
    unfolding repair_field_def by (simp only: JString json.case repair_assistant_payload.simps)
  show ?thesis
  proof (cases "is_array_field k \<and> singleton_as_json_array v \<noteq> None")
    case True
    then obtain xs where xs: "singleton_as_json_array v = Some xs" by blast
    then have "map repair_assistant_payload xs = xs" using JString by (rule split_texts)
    moreover have "?f v = JArray xs" using xs unfolding f if_P [OF True] by simp
    ultimately show ?thesis by (simp add: repair_other)
  next
    case no_list: False
    show ?thesis
    proof (cases "is_numeric_field k \<and> numeric_string_as_json_number v \<noteq> None")
      case True
      then obtain x where x: "numeric_string_as_json_number v = Some x" by blast
      then obtain n where "x = JNumber n" using number_text by blast
      then have "?f v = JNumber n" using x unfolding f if_not_P [OF no_list] if_P [OF True] by simp
      then show ?thesis by (simp add: repair_other)
    next
      case no_number: False
      show ?thesis
      proof (cases "is_boolean_field k \<and> boolean_string_as_json_bool v \<noteq> None")
        case True
        then obtain x where x: "boolean_string_as_json_bool v = Some x" by blast
        then obtain b where "x = JBool b" using boolean_text by blast
        then have "?f v = JBool b"
          using x unfolding f if_not_P [OF no_list] if_not_P [OF no_number] if_P [OF True] by simp
        then show ?thesis by (simp add: repair_other)
      next
        case False
        have "?f v = v" unfolding f if_not_P [OF no_list] if_not_P [OF no_number] if_not_P [OF False] ..
        then show ?thesis by simp
      qed
    qed
  qed
next
  case (JObject kvs)
  obtain kvs' where r: "repair_assistant_payload v = JObject kvs'" using JObject by simp
  then have "repair_assistant_payload (JObject kvs') = JObject kvs'" using assms by simp
  with JObject r show ?thesis
    by (cases "is_array_field k") (simp_all add: repair_field_def not_text del: repair_assistant_payload.simps(1))
next
  case (JArray items)
  obtain items' where r: "repair_assistant_payload v = JArray items'" using JArray by simp
  then have "repair_assistant_payload (JArray items') = JArray items'" using assms by simp
  with JArray r show ?thesis by (simp add: repair_field_def not_text del: repair_assistant_payload.simps(2))
qed (simp_all add: repair_field_def not_text)

text \<open>Repairing is idempotent: a payload that has been repaired, or that needed no repair, is not changed by
  another repair, at any depth.\<close>

theorem repair_idempotent: "repair_assistant_payload (repair_assistant_payload v) = repair_assistant_payload v"
proof (induction v rule: repair_assistant_payload.induct)
  case (1 kvs)
  then show ?case by (auto intro!: repair_field_idem)
qed simp_all

end
