(* ===== verification/Workspace.thy ===== *)
theory Workspace
  imports SessionList PayloadRepair
begin

text \<open>
  The state of the user interface that the server keeps (\<open>control_plane/workspace.rs\<close>): the patch and
  action handlers with their checks, and the version that tells concurrent edits apart.

  \<open>workspace_lib\<close> holds the clock, the text of other JSON values and the messages of the
  deserialiser. The state is guarded by a write lock, so a handler is one step.
\<close>

section \<open>Data\<close>

datatype workspace_surface =
  Sf_Sessions | Sf_Dashboard | Sf_Connections | Sf_Compose | Sf_Rules | Sf_Breakpoints | Sf_Mock | Sf_Lua
| Sf_Inspector | Sf_Dns | Sf_Capture | Sf_Webhooks | Sf_Ca | Sf_Settings

datatype view_direction = Dir_Asc | Dir_Desc

datatype view_mode = Vm_Sequence | Vm_Structure

record workspace_sort =
  wk_key :: string
  wk_dir :: view_direction

record sessions_view =
  sv_query :: string
  sv_regex :: bool
  sv_methods :: "string list"
  sv_status_buckets :: "string list"
  sv_host_focus :: "string list"
  sv_host_filter :: "string option"
  sv_sort :: workspace_sort
  sv_view_mode :: view_mode
  sv_selected_session_id :: "string option"
  sv_wire_filter :: "string list"
  sv_app_filter :: "string list"

record feature_view =
  ft_tab :: "string option"
  ft_selected_id :: "string option"

record assistant_context =
  wx_last_intent :: "string option"
  wx_last_workspace_action_id :: "string option"
  wx_pending_action_count :: nat

text \<open>A \<open>BTreeMap\<close> is an association list without duplicate keys; only its entries matter here, not
  their order.\<close>

record workspace =
  wr_id :: string
  wr_version :: u64
  wr_active_surface :: workspace_surface
  wr_sessions_view :: sessions_view
  wr_feature_views :: "(string \<times> feature_view) list"
  wr_assistant_context :: assistant_context
  wr_updated_at :: timestamp

datatype 'a patch_field = Unspecified | Clear_Field | Set_Field 'a

record sessions_view_patch =
  sp_query :: "string option"
  sp_regex :: "bool option"
  sp_methods :: "string list option"
  sp_status_buckets :: "string list option"
  sp_host_focus :: "string list option"
  sp_host_filter :: "string patch_field"
  sp_sort :: "workspace_sort option"
  sp_view_mode :: "view_mode option"
  sp_selected_session_id :: "string patch_field"
  sp_wire_filter :: "string list option"
  sp_app_filter :: "string list option"

record feature_view_patch =
  fp_tab :: "string patch_field"
  fp_selected_id :: "string patch_field"

record workspace_patch =
  wpt_active_surface :: "workspace_surface option"
  wpt_sessions_view :: "sessions_view_patch option"
  wpt_feature_views :: "(string \<times> feature_view_patch) list option"

record workspace_lib =
  wl_now :: timestamp
  wl_to_string :: "json \<Rightarrow> string"
  wl_sort_error :: "json \<Rightarrow> string"
  wl_mode_error :: "json \<Rightarrow> string"

section \<open>Checks\<close>

definition allowed_methods :: "string list" where
  "allowed_methods = [''GET'', ''POST'', ''PUT'', ''PATCH'', ''DELETE'', ''CONNECT'', ''OPTIONS'', ''HEAD'']"

definition allowed_status_buckets :: "string list" where
  "allowed_status_buckets = [''1'', ''2'', ''3'', ''4'', ''5'', ''-'']"

definition allowed_sort_keys :: "string list" where
  "allowed_sort_keys = [''idx'', ''method'', ''status'', ''host'', ''path'', ''type'', ''reqSize'', ''total'', ''ts'', ''protocol'']"

definition max_query_len :: nat where "max_query_len = 4096"
definition max_host_focus :: nat where "max_host_focus = 32"
definition max_host_len :: nat where "max_host_len = 255"
definition max_id_len :: nat where "max_id_len = 256"
definition max_feature_view_key_len :: nat where "max_feature_view_key_len = 64"
definition max_feature_view_count :: nat where "max_feature_view_count = 32"

definition quoted :: "string \<Rightarrow> string" where
  "quoted s = [CHR 39] @ s @ [CHR 39]"

text \<open>The loop over a list: the first error ends it, and a value that was seen before is left out.\<close>

fun normalize_each :: "('a \<Rightarrow> string + 'a option) \<Rightarrow> 'a list \<Rightarrow> 'a list \<Rightarrow> string + 'a list" where
  "normalize_each f seen [] = Inr (rev seen)"
| "normalize_each f seen (x # xs) = (case f x of
     Inl e \<Rightarrow> Inl e
   | Inr None \<Rightarrow> normalize_each f seen xs
   | Inr (Some y) \<Rightarrow> normalize_each f (if y \<in> set seen then seen else y # seen) xs)"

definition normalize_method :: "string \<Rightarrow> string + string option" where
  "normalize_method m = (let m = to_ascii_uppercase (trim_str m)
     in if m \<notin> set allowed_methods
        then Inl (''unsupported sessions_view.methods entry '' @ quoted m @ ''; allowed: '' @ join_str '', '' allowed_methods)
        else Inr (Some m))"

definition normalize_methods :: "string list \<Rightarrow> string + string list" where
  "normalize_methods = normalize_each normalize_method []"

definition normalize_status_bucket :: "string \<Rightarrow> string + string option" where
  "normalize_status_bucket b = (let b = trim_str b
     in if b \<notin> set allowed_status_buckets
        then Inl (''unsupported sessions_view.status_buckets entry '' @ quoted b @ ''; allowed: ''
               @ join_str '', '' allowed_status_buckets)
        else Inr (Some b))"

definition normalize_status_buckets :: "string list \<Rightarrow> string + string list" where
  "normalize_status_buckets = normalize_each normalize_status_bucket []"

definition normalize_host :: "string \<Rightarrow> string + string option" where
  "normalize_host host0 =
     (let host = to_ascii_lowercase (trim_end_char (CHR ''.'') (trim_str host0))
      in if host = [] then Inr None
         else if length host > max_host_len then Inl (''host values may be at most '' @ decimal max_host_len @ '' bytes'')
         else if CHR ''/'' \<in> set host \<or> CHR 92 \<in> set host \<or> (\<exists>g \<in> set (utf8_chars host). g \<in> white_space)
         then Inl ''host values must be hostnames, not URLs or whitespace-separated text''
         else Inr (Some host))"

definition normalize_host_list :: "string list \<Rightarrow> string + string list" where
  "normalize_host_list hosts =
     (if length hosts > max_host_focus
      then Inl (''sessions_view.host_focus may include at most '' @ decimal max_host_focus @ '' hosts'')
      else normalize_each normalize_host [] hosts)"

definition normalize_optional_host :: "string option \<Rightarrow> string + string option" where
  "normalize_optional_host h = (case h of Some host \<Rightarrow> normalize_host host | None \<Rightarrow> Inr None)"

definition normalize_optional_id :: "string option \<Rightarrow> string \<Rightarrow> string + string option" where
  "normalize_optional_id i field = (case i of
     None \<Rightarrow> Inr None
   | Some id0 \<Rightarrow> (let v = trim_str id0
       in if v = [] then Inr None
          else if length v > max_id_len then Inl (field @ '' may be at most '' @ decimal max_id_len @ '' bytes'')
          else Inr (Some v)))"

definition feature_key_char :: "char \<Rightarrow> bool" where
  "feature_key_char c \<longleftrightarrow> 97 \<le> char_code c \<and> char_code c \<le> 122 \<or> is_ascii_digit c \<or> c = CHR ''_'' \<or> c = CHR ''-''"

definition validate_feature_view_key :: "string \<Rightarrow> string + unit" where
  "validate_feature_view_key key =
     (if key = [] \<or> length key > max_feature_view_key_len
      then Inl (''feature view keys must be 1-'' @ decimal max_feature_view_key_len @ '' bytes'')
      else if \<not> list_all feature_key_char key
      then Inl (''feature view keys may contain only lowercase letters, digits, '' @ quoted ''_'' @ '' or '' @ quoted ''-'')
      else Inr ())"

definition bind_sum :: "'e + 'a \<Rightarrow> ('a \<Rightarrow> 'e + 'b) \<Rightarrow> 'e + 'b" where
  "bind_sum r f = (case r of Inl e \<Rightarrow> Inl e | Inr x \<Rightarrow> f x)"

definition validate_sort :: "workspace_sort \<Rightarrow> string + unit" where
  "validate_sort s =
     (if wk_key s \<notin> set allowed_sort_keys
      then Inl (''unsupported sessions_view.sort.key '' @ quoted (wk_key s) @ ''; allowed: '' @ join_str '', '' allowed_sort_keys)
      else Inr ())"

definition validate_sessions_view :: "sessions_view \<Rightarrow> string + unit" where
  "validate_sessions_view v =
     (if length (sv_query v) > max_query_len
      then Inl (''sessions_view.query may be at most '' @ decimal max_query_len @ '' bytes'')
      else bind_sum (normalize_methods (sv_methods v)) (\<lambda>_.
           bind_sum (normalize_status_buckets (sv_status_buckets v)) (\<lambda>_.
           bind_sum (normalize_host_list (sv_host_focus v)) (\<lambda>_.
           bind_sum (normalize_optional_host (sv_host_filter v)) (\<lambda>_.
           bind_sum (validate_sort (sv_sort v)) (\<lambda>_.
           bind_sum (normalize_optional_id (sv_selected_session_id v) ''selected_session_id'') (\<lambda>_. Inr ())))))))"

definition validate_feature_view :: "feature_view \<Rightarrow> string + unit" where
  "validate_feature_view v =
     bind_sum (normalize_optional_id (ft_tab v) ''feature_views.tab'') (\<lambda>_.
     bind_sum (normalize_optional_id (ft_selected_id v) ''feature_views.selected_id'') (\<lambda>_. Inr ()))"

fun validate_feature_views :: "(string \<times> feature_view) list \<Rightarrow> string + unit" where
  "validate_feature_views [] = Inr ()"
| "validate_feature_views ((k, v) # kvs) =
     bind_sum (validate_feature_view_key k) (\<lambda>_. bind_sum (validate_feature_view v) (\<lambda>_. validate_feature_views kvs))"

definition too_many_feature_views :: string where
  "too_many_feature_views = ''feature_views may include at most '' @ decimal max_feature_view_count @ '' entries''"

definition validate_workspace :: "workspace \<Rightarrow> string + unit" where
  "validate_workspace w = bind_sum (validate_sessions_view (wr_sessions_view w)) (\<lambda>_.
     if length (wr_feature_views w) > max_feature_view_count then Inl too_many_feature_views
     else validate_feature_views (wr_feature_views w))"

section \<open>Defaults\<close>

definition default_sessions_view :: sessions_view where
  "default_sessions_view = \<lparr>sv_query = [], sv_regex = False, sv_methods = allowed_methods,
     sv_status_buckets = allowed_status_buckets, sv_host_focus = [], sv_host_filter = None,
     sv_sort = \<lparr>wk_key = ''idx'', wk_dir = Dir_Asc\<rparr>, sv_view_mode = Vm_Sequence, sv_selected_session_id = None,
     sv_wire_filter = [], sv_app_filter = []\<rparr>"

definition default_feature_views :: "(string \<times> feature_view) list" where
  "default_feature_views = [(''rules'', \<lparr>ft_tab = Some ''rules'', ft_selected_id = None\<rparr>),
     (''mock'', \<lparr>ft_tab = Some ''rules'', ft_selected_id = None\<rparr>), (''dns'', \<lparr>ft_tab = None, ft_selected_id = None\<rparr>)]"

definition new_workspace :: "timestamp \<Rightarrow> workspace" where
  "new_workspace now = \<lparr>wr_id = ''default'', wr_version = 1, wr_active_surface = Sf_Sessions,
     wr_sessions_view = default_sessions_view, wr_feature_views = default_feature_views,
     wr_assistant_context = \<lparr>wx_last_intent = None, wx_last_workspace_action_id = None, wx_pending_action_count = 0\<rparr>,
     wr_updated_at = now\<rparr>"


section \<open>Patches\<close>

definition set_if :: "'a option \<Rightarrow> ('a \<Rightarrow> 's \<Rightarrow> 's) \<Rightarrow> 's \<Rightarrow> 's" where
  "set_if x put s = (case x of Some v \<Rightarrow> put v s | None \<Rightarrow> s)"

definition set_checked :: "'a option \<Rightarrow> ('a \<Rightarrow> string + 'b) \<Rightarrow> ('b \<Rightarrow> 's \<Rightarrow> 's) \<Rightarrow> 's \<Rightarrow> string + 's" where
  "set_checked x check put s = (case x of None \<Rightarrow> Inr s | Some v \<Rightarrow> bind_sum (check v) (\<lambda>y. Inr (put y s)))"

definition set_field :: "'a patch_field \<Rightarrow> ('a \<Rightarrow> string + 'a option) \<Rightarrow> ('a option \<Rightarrow> 's \<Rightarrow> 's) \<Rightarrow> 's \<Rightarrow> string + 's" where
  "set_field x check put s = (case x of
     Unspecified \<Rightarrow> Inr s
   | Clear_Field \<Rightarrow> Inr (put None s)
   | Set_Field v \<Rightarrow> bind_sum (check v) (\<lambda>y. Inr (put y s)))"

definition sessions_view_apply_patch :: "sessions_view_patch \<Rightarrow> sessions_view \<Rightarrow> string + sessions_view" where
  "sessions_view_apply_patch p v0 =
     (let v1 = set_if (sp_query p) (\<lambda>x v. v\<lparr>sv_query := x\<rparr>) v0;
          v2 = set_if (sp_regex p) (\<lambda>x v. v\<lparr>sv_regex := x\<rparr>) v1
      in bind_sum (set_checked (sp_methods p) normalize_methods (\<lambda>x v. v\<lparr>sv_methods := x\<rparr>) v2) (\<lambda>v3.
         bind_sum (set_checked (sp_status_buckets p) normalize_status_buckets (\<lambda>x v. v\<lparr>sv_status_buckets := x\<rparr>) v3) (\<lambda>v4.
         bind_sum (set_checked (sp_host_focus p) normalize_host_list (\<lambda>x v. v\<lparr>sv_host_focus := x\<rparr>) v4) (\<lambda>v5.
         bind_sum (set_field (sp_host_filter p) normalize_host (\<lambda>x v. v\<lparr>sv_host_filter := x\<rparr>) v5) (\<lambda>v6.
         bind_sum (set_checked (sp_sort p) (\<lambda>s. bind_sum (validate_sort s) (\<lambda>_. Inr s)) (\<lambda>x v. v\<lparr>sv_sort := x\<rparr>) v6) (\<lambda>v7.
         let v8 = set_if (sp_view_mode p) (\<lambda>x v. v\<lparr>sv_view_mode := x\<rparr>) v7
         in bind_sum (set_field (sp_selected_session_id p) (\<lambda>i. normalize_optional_id (Some i) ''selected_session_id'')
                (\<lambda>x v. v\<lparr>sv_selected_session_id := x\<rparr>) v8) (\<lambda>v9.
            let v10 = set_if (sp_wire_filter p) (\<lambda>x v. v\<lparr>sv_wire_filter := x\<rparr>) v9;
                v11 = set_if (sp_app_filter p) (\<lambda>x v. v\<lparr>sv_app_filter := x\<rparr>) v10
            in bind_sum (validate_sessions_view v11) (\<lambda>_. Inr v11))))))))"

definition default_feature_view :: feature_view where
  "default_feature_view = \<lparr>ft_tab = None, ft_selected_id = None\<rparr>"

definition feature_view_apply_patch :: "feature_view_patch \<Rightarrow> feature_view \<Rightarrow> string + feature_view" where
  "feature_view_apply_patch p v0 =
     bind_sum (set_field (fp_tab p) (\<lambda>i. normalize_optional_id (Some i) ''feature_views.tab'') (\<lambda>x v. v\<lparr>ft_tab := x\<rparr>) v0) (\<lambda>v1.
     bind_sum (set_field (fp_selected_id p) (\<lambda>i. normalize_optional_id (Some i) ''feature_views.selected_id'')
        (\<lambda>x v. v\<lparr>ft_selected_id := x\<rparr>) v1) (\<lambda>v2.
     bind_sum (validate_feature_view v2) (\<lambda>_. Inr v2)))"

text \<open>\<open>entry(key).or_default()\<close>, then what the patch does to it.\<close>

definition put_view :: "string \<Rightarrow> feature_view \<Rightarrow> (string \<times> feature_view) list \<Rightarrow> (string \<times> feature_view) list" where
  "put_view k v kvs = (if k \<in> fst ` set kvs then map (\<lambda>(k', v'). (k', if k' = k then v else v')) kvs else kvs @ [(k, v)])"

definition view_of :: "string \<Rightarrow> (string \<times> feature_view) list \<Rightarrow> feature_view" where
  "view_of k kvs = (case map_of kvs k of Some v \<Rightarrow> v | None \<Rightarrow> default_feature_view)"

fun apply_feature_patches ::
    "(string \<times> feature_view_patch) list \<Rightarrow> (string \<times> feature_view) list \<Rightarrow> string + (string \<times> feature_view) list" where
  "apply_feature_patches [] kvs = Inr kvs"
| "apply_feature_patches ((k, p) # ps) kvs =
     bind_sum (validate_feature_view_key k) (\<lambda>_.
     bind_sum (feature_view_apply_patch p (view_of k kvs)) (\<lambda>v. apply_feature_patches ps (put_view k v kvs)))"

definition saturating_next :: "u64 \<Rightarrow> u64" where
  "saturating_next v = (if v = -1 then v else v + 1)"

definition workspace_apply_patch :: "workspace_lib \<Rightarrow> workspace_patch \<Rightarrow> workspace \<Rightarrow> string + workspace" where
  "workspace_apply_patch wl p w0 =
     (let w1 = set_if (wpt_active_surface p) (\<lambda>x w. w\<lparr>wr_active_surface := x\<rparr>) w0
      in bind_sum (set_checked (wpt_sessions_view p) (\<lambda>sp. sessions_view_apply_patch sp (wr_sessions_view w1))
            (\<lambda>x w. w\<lparr>wr_sessions_view := x\<rparr>) w1) (\<lambda>w2.
         bind_sum (set_checked (wpt_feature_views p) (\<lambda>fps. if length fps > max_feature_view_count then Inl too_many_feature_views
               else apply_feature_patches fps (wr_feature_views w2)) (\<lambda>x w. w\<lparr>wr_feature_views := x\<rparr>) w2) (\<lambda>w3.
         bind_sum (validate_workspace w3) (\<lambda>_.
           Inr (w3\<lparr>wr_version := saturating_next (wr_version w3), wr_updated_at := wl_now wl\<rparr>)))))"

text \<open>\<open>patch_workspace\<close>: the status and the message, or success.\<close>

datatype workspace_answer = Ws_Error u16 string | Ws_Ok workspace

definition patch_workspace ::
    "workspace_lib \<Rightarrow> u64 option \<Rightarrow> workspace_patch \<Rightarrow> workspace \<Rightarrow> workspace_answer \<times> workspace" where
  "patch_workspace wl base_version p w =
     (if base_version \<noteq> None \<and> base_version \<noteq> Some (wr_version w)
      then (Ws_Error 409 (''workspace version conflict: current version is '' @ decimal (unat (wr_version w))
              @ '', request base_version was '' @ decimal (unat (the base_version))), w)
      else case workspace_apply_patch wl p w of
        Inl e \<Rightarrow> (Ws_Error 400 e, w)
      | Inr nxt \<Rightarrow> (Ws_Ok nxt, nxt))"

section \<open>Actions\<close>

definition payload_get :: "json \<Rightarrow> string \<Rightarrow> json option" where
  "payload_get v k = (case v of JObject kvs \<Rightarrow> map_of kvs k | _ \<Rightarrow> None)"

definition json_text :: "json \<Rightarrow> string option" where
  "json_text v = (case v of JString s \<Rightarrow> Some s | _ \<Rightarrow> None)"

definition json_flag :: "json \<Rightarrow> bool option" where
  "json_flag v = (case v of JBool b \<Rightarrow> Some b | _ \<Rightarrow> None)"

text \<open>A unit variant by its name, as text or as the only key of an object whose value is null.\<close>

definition unit_variant :: "(string \<times> 'a) list \<Rightarrow> json \<Rightarrow> 'a option" where
  "unit_variant names v = (case v of
     JString s \<Rightarrow> map_of names s | JObject [(k, JNull)] \<Rightarrow> map_of names k | _ \<Rightarrow> None)"

definition surface_names :: "(string \<times> workspace_surface) list" where
  "surface_names = [(''sessions'', Sf_Sessions), (''dashboard'', Sf_Dashboard), (''connections'', Sf_Connections),
     (''compose'', Sf_Compose), (''rules'', Sf_Rules), (''breakpoints'', Sf_Breakpoints), (''mock'', Sf_Mock),
     (''lua'', Sf_Lua), (''inspector'', Sf_Inspector), (''dns'', Sf_Dns), (''capture'', Sf_Capture),
     (''webhooks'', Sf_Webhooks), (''ca'', Sf_Ca), (''settings'', Sf_Settings)]"

fun workspace_surface_label :: "workspace_surface \<Rightarrow> string" where
  "workspace_surface_label Sf_Sessions = ''Sessions''"
| "workspace_surface_label Sf_Dashboard = ''Dashboard''"
| "workspace_surface_label Sf_Connections = ''Connections''"
| "workspace_surface_label Sf_Compose = ''Compose''"
| "workspace_surface_label Sf_Rules = ''Rules''"
| "workspace_surface_label Sf_Breakpoints = ''Breakpoints''"
| "workspace_surface_label Sf_Mock = ''Mock Server''"
| "workspace_surface_label Sf_Lua = ''Lua Scripts''"
| "workspace_surface_label Sf_Inspector = ''Inspectors''"
| "workspace_surface_label Sf_Dns = ''DNS Override''"
| "workspace_surface_label Sf_Capture = ''Capture Filter''"
| "workspace_surface_label Sf_Webhooks = ''Webhooks''"
| "workspace_surface_label Sf_Ca = ''Root CA''"
| "workspace_surface_label Sf_Settings = ''Settings''"

definition mode_names :: "(string \<times> view_mode) list" where
  "mode_names = [(''sequence'', Vm_Sequence), (''structure'', Vm_Structure)]"

definition direction_names :: "(string \<times> view_direction) list" where
  "direction_names = [(''asc'', Dir_Asc), (''desc'', Dir_Desc)]"

definition decode_sort :: "json \<Rightarrow> workspace_sort option" where
  "decode_sort v =
     (let make = (\<lambda>k d. Option.bind (Option.bind k json_text) (\<lambda>key.
                    map_option (\<lambda>dir. \<lparr>wk_key = key, wk_dir = dir\<rparr>) (Option.bind d (unit_variant direction_names))))
      in case v of
        JObject kvs \<Rightarrow> make (map_of kvs ''key'') (map_of kvs ''dir'')
      | JArray [k, d] \<Rightarrow> make (Some k) (Some d)
      | _ \<Rightarrow> None)"

definition parse_string_array :: "json \<Rightarrow> string list option" where
  "parse_string_array v = (case v of JArray items \<Rightarrow> Some (List.map_filter json_text items) | _ \<Rightarrow> None)"

definition parse_patch_string_field :: "workspace_lib \<Rightarrow> json option \<Rightarrow> string patch_field" where
  "parse_patch_string_field wl v = (case v of
     None \<Rightarrow> Unspecified
   | Some JNull \<Rightarrow> Clear_Field
   | Some (JString s) \<Rightarrow> Set_Field s
   | Some other \<Rightarrow> Set_Field (wl_to_string wl other))"

text \<open>A value that is there and not null has to decode.\<close>

definition decode_present :: "(json \<Rightarrow> 'a option) \<Rightarrow> (json \<Rightarrow> string) \<Rightarrow> json option \<Rightarrow> string + 'a option" where
  "decode_present dec err v = (case v of
     None \<Rightarrow> Inr None | Some JNull \<Rightarrow> Inr None
   | Some j \<Rightarrow> (case dec j of Some x \<Rightarrow> Inr (Some x) | None \<Rightarrow> Inl (err j)))"

definition action_open_surface :: "workspace \<Rightarrow> json \<Rightarrow> string + string \<times> workspace" where
  "action_open_surface w payload = (case payload_get payload ''surface'' of
     None \<Rightarrow> Inl ''navigation.open_surface requires payload.surface''
   | Some v \<Rightarrow> (case unit_variant surface_names v of
       None \<Rightarrow> Inl ''invalid workspace surface''
     | Some s \<Rightarrow> Inr (''Opened '' @ workspace_surface_label s, w\<lparr>wr_active_surface := s\<rparr>)))"

definition action_apply_sessions_filter :: "workspace_lib \<Rightarrow> workspace \<Rightarrow> json \<Rightarrow> string + string \<times> workspace" where
  "action_apply_sessions_filter wl w payload =
     bind_sum (decode_present decode_sort (\<lambda>j. ''invalid sessions.apply_filter sort: '' @ wl_sort_error wl j)
        (payload_get payload ''sort'')) (\<lambda>sort.
     bind_sum (decode_present (unit_variant mode_names) (\<lambda>j. ''invalid sessions.apply_filter view_mode: '' @ wl_mode_error wl j)
        (payload_get payload ''view_mode'')) (\<lambda>mode.
     let list = (\<lambda>k. Option.bind (payload_get payload k) parse_string_array);
         p = \<lparr>sp_query = Option.bind (payload_get payload ''query'') json_text,
              sp_regex = Option.bind (payload_get payload ''regex'') json_flag,
              sp_methods = list ''methods'', sp_status_buckets = list ''status_buckets'', sp_host_focus = list ''host_focus'',
              sp_host_filter = parse_patch_string_field wl (payload_get payload ''host_filter''), sp_sort = sort,
              sp_view_mode = mode,
              sp_selected_session_id = parse_patch_string_field wl (payload_get payload ''selected_session_id''),
              sp_wire_filter = list ''wire_filter'', sp_app_filter = list ''app_filter''\<rparr>
     in bind_sum (sessions_view_apply_patch p (wr_sessions_view w)) (\<lambda>v.
          Inr (''Applied Sessions filter'', w\<lparr>wr_active_surface := Sf_Sessions, wr_sessions_view := v\<rparr>))))"

definition action_clear_sessions_filter :: "workspace \<Rightarrow> json \<Rightarrow> string + string \<times> workspace" where
  "action_clear_sessions_filter w payload = Inr (''Cleared Sessions filters'',
     w\<lparr>wr_active_surface := Sf_Sessions,
       wr_sessions_view := default_sessions_view\<lparr>sv_selected_session_id := sv_selected_session_id (wr_sessions_view w)\<rparr>\<rparr>)"

definition action_select_session :: "workspace \<Rightarrow> json \<Rightarrow> string + string \<times> workspace" where
  "action_select_session w payload = (case Option.bind (payload_get payload ''id'') json_text of
     None \<Rightarrow> Inl ''sessions.select requires payload.id''
   | Some i \<Rightarrow> bind_sum (normalize_optional_id (Some i) ''selected_session_id'') (\<lambda>x.
       Inr (''Selected session'', w\<lparr>wr_active_surface := Sf_Sessions,
         wr_sessions_view := (wr_sessions_view w)\<lparr>sv_selected_session_id := x\<rparr>\<rparr>)))"

definition action_set_sessions_view_mode :: "workspace \<Rightarrow> json \<Rightarrow> string + string \<times> workspace" where
  "action_set_sessions_view_mode w payload =
     (case (case payload_get payload ''view_mode'' of Some m \<Rightarrow> Some m | None \<Rightarrow> payload_get payload ''mode'') of
        None \<Rightarrow> Inl ''sessions.set_view_mode requires payload.view_mode''
      | Some v \<Rightarrow> (case unit_variant mode_names v of
          None \<Rightarrow> Inl ''invalid sessions view_mode; expected sequence or structure''
        | Some m \<Rightarrow> Inr (''Switched Sessions to '' @ (case m of Vm_Sequence \<Rightarrow> ''sequence'' | Vm_Structure \<Rightarrow> ''structure'') @ '' view'',
            w\<lparr>wr_active_surface := Sf_Sessions, wr_sessions_view := (wr_sessions_view w)\<lparr>sv_view_mode := m\<rparr>\<rparr>)))"

definition action_open_rules_tab :: "workspace \<Rightarrow> json \<Rightarrow> string + string \<times> workspace" where
  "action_open_rules_tab w payload = (case Option.bind (payload_get payload ''tab'') json_text of
     None \<Rightarrow> Inl ''rules.open_tab requires payload.tab''
   | Some t \<Rightarrow> bind_sum (normalize_optional_id (Some t) ''feature_views.rules.tab'') (\<lambda>x. case x of
       None \<Rightarrow> Inl ''rules.open_tab requires a non-empty tab''
     | Some tab \<Rightarrow> Inr (''Opened Rules '' @ tab @ '' tab'', w\<lparr>wr_active_surface := Sf_Rules,
         wr_feature_views := put_view ''rules'' ((view_of ''rules'' (wr_feature_views w))\<lparr>ft_tab := Some tab\<rparr>) (wr_feature_views w)\<rparr>)))"

text \<open>The actions of \<open>assistant_capabilities.yaml\<close> with the resources they refresh.\<close>

definition workspace_actions :: "(string \<times> string list) list" where
  "workspace_actions = [(''navigation.open_surface'', []), (''sessions.apply_filter'', [''sessions'']),
     (''sessions.clear_filter'', [''sessions'']), (''sessions.select'', [''sessions'']),
     (''sessions.set_view_mode'', []), (''rules.open_tab'', [])]"

definition apply_workspace_action_to_state :: "workspace_lib \<Rightarrow> workspace \<Rightarrow> string \<Rightarrow> json \<Rightarrow> string + string \<times> workspace" where
  "apply_workspace_action_to_state wl w name payload =
     (if name = ''navigation.open_surface'' then action_open_surface w payload
      else if name = ''sessions.apply_filter'' then action_apply_sessions_filter wl w payload
      else if name = ''sessions.clear_filter'' then action_clear_sessions_filter w payload
      else if name = ''sessions.select'' then action_select_session w payload
      else if name = ''sessions.set_view_mode'' then action_set_sessions_view_mode w payload
      else if name = ''rules.open_tab'' then action_open_rules_tab w payload
      else Inl (''workspace action '' @ quoted name @ '' is declared but has no executor''))"

definition workspace_action_id :: "workspace_lib \<Rightarrow> string" where
  "workspace_action_id wl = ''wa_'' @ decimal (nat (wl_now wl))"

record workspace_action_result =
  wz_action_id :: string
  wz_action_type :: string
  wz_message :: string
  wz_refreshed_resources :: "string list"

definition apply_workspace_action ::
    "workspace_lib \<Rightarrow> string \<Rightarrow> json \<Rightarrow> workspace \<Rightarrow> (string + workspace_action_result) \<times> workspace" where
  "apply_workspace_action wl action_type payload0 w =
     (let payload = repair_assistant_payload payload0
      in case map_of workspace_actions action_type of
        None \<Rightarrow> (Inl (''workspace action '' @ quoted action_type @ '' is not allowlisted''), w)
      | Some refreshed \<Rightarrow> (case apply_workspace_action_to_state wl w action_type payload of
          Inl e \<Rightarrow> (Inl e, w)
        | Inr (message, w1) \<Rightarrow>
            (let w2 = w1\<lparr>wr_assistant_context := (wr_assistant_context w1)\<lparr>wx_last_intent := Some action_type,
                     wx_last_workspace_action_id := Some (workspace_action_id wl)\<rparr>,
                   wr_version := saturating_next (wr_version w1), wr_updated_at := wl_now wl\<rparr>
             in case validate_workspace w2 of
                  Inl e \<Rightarrow> (Inl e, w)
                | Inr _ \<Rightarrow> (Inr \<lparr>wz_action_id = workspace_action_id wl, wz_action_type = action_type,
                    wz_message = message, wz_refreshed_resources = refreshed\<rparr>, w2))))"


section \<open>Normal forms\<close>

lemma bind_sum_Inr [simp]: "bind_sum r f = Inr y \<longleftrightarrow> (\<exists>x. r = Inr x \<and> f x = Inr y)"
  by (auto simp: bind_sum_def split: sum.splits)

lemma bindE: "bind_sum r f = Inr y \<Longrightarrow> (\<And>x. r = Inr x \<Longrightarrow> f x = Inr y \<Longrightarrow> thesis) \<Longrightarrow> thesis"
  by (auto simp: bind_sum_def split: sum.splits)

lemma bind_sum_eval [simp]: "bind_sum (Inr x) f = f x" "bind_sum (Inl e) f = Inl e"
  by (simp_all add: bind_sum_def)

definition normal :: "('a \<Rightarrow> string + 'a option) \<Rightarrow> 'a \<Rightarrow> bool" where
  "normal f y \<longleftrightarrow> f y = Inr (Some y)"

lemma normalize_each_normal:
  assumes "normalize_each f seen xs = Inr ys" "\<forall>x y. f x = Inr (Some y) \<longrightarrow> normal f y"
    and "distinct seen" "\<forall>y \<in> set seen. normal f y"
  shows "distinct ys \<and> (\<forall>y \<in> set ys. normal f y) \<and> length ys \<le> length seen + length xs"
  using assms
proof (induction f seen xs arbitrary: ys rule: normalize_each.induct)
  case (2 f seen x xs)
  show ?case
  proof (cases "f x")
    case (Inr r)
    show ?thesis
    proof (cases r)
      case None
      then have "normalize_each f seen xs = Inr ys" using "2.prems"(1) Inr by simp
      from "2.IH"(1) [OF Inr None this "2.prems"(2-4)] show ?thesis by auto
    next
      case (Some y)
      let ?seen = "if y \<in> set seen then seen else y # seen"
      have "normalize_each f ?seen xs = Inr ys" using "2.prems"(1) Inr Some by simp
      moreover have "distinct ?seen" "\<forall>y \<in> set ?seen. normal f y" "length ?seen \<le> Suc (length seen)"
        using "2.prems" Inr Some by auto
      ultimately show ?thesis using "2.IH"(2) [OF Inr Some _ "2.prems"(2)] by fastforce
    qed
  qed (use "2.prems" in simp)
qed auto

lemma normalize_each_fixed:
  "distinct (seen @ ys) \<Longrightarrow> \<forall>y \<in> set ys. normal f y \<Longrightarrow> normalize_each f seen ys = Inr (rev seen @ ys)"
  by (induction ys arbitrary: seen) (auto simp: normal_def)

lemma method_normal: "m \<in> set allowed_methods \<Longrightarrow> normal normalize_method m"
  by (auto simp: allowed_methods_def normal_def normalize_method_def trim_str_all_printable printable_def
      to_ascii_uppercase_def ascii_upper_def)

lemma methods_normal: "normalize_method x = Inr (Some y) \<Longrightarrow> normal normalize_method y"
  by (rule method_normal) (auto simp: normalize_method_def Let_def split: if_splits)

lemma bucket_normal: "b \<in> set allowed_status_buckets \<Longrightarrow> normal normalize_status_bucket b"
  by (auto simp: allowed_status_buckets_def normal_def normalize_status_bucket_def trim_str_all_printable printable_def)

lemma buckets_normal: "normalize_status_bucket x = Inr (Some y) \<Longrightarrow> normal normalize_status_bucket y"
  by (rule bucket_normal) (auto simp: normalize_status_bucket_def Let_def split: if_splits)

lemma trim_no_space: "\<forall>g \<in> set (utf8_chars s). g \<notin> white_space \<Longrightarrow> trim_str s = s"
proof -
  assume no: "\<forall>g \<in> set (utf8_chars s). g \<notin> white_space"
  then have "dropWhile (\<lambda>g. g \<in> white_space) (utf8_chars s) = utf8_chars s"
    and "dropWhile (\<lambda>g. g \<in> white_space) (rev (utf8_chars s)) = rev (utf8_chars s)"
    by (auto simp: dropWhile_eq_self_iff hd_rev)
  then show ?thesis by (simp add: trim_str_def)
qed

lemma trim_end_lower:
  "trim_end_char (CHR ''.'') (to_ascii_lowercase (trim_end_char (CHR ''.'') s)) = to_ascii_lowercase (trim_end_char (CHR ''.'') s)"
proof -
  let ?t = "dropWhile (\<lambda>c. c = CHR ''.'') (rev s)"
  have dot: "ascii_lower c = CHR ''.'' \<longleftrightarrow> c = CHR ''.''" for c
  proof (cases "65 \<le> char_code c \<and> char_code c \<le> 90")
    case True
    then have low: "char_code (ascii_lower c) = char_code c + 32" by (simp add: ascii_lower_def Let_def)
    have "char_code d = 46" if "d = CHR ''.''" for d using that by simp
    from this [of c] this [of "ascii_lower c"] show ?thesis using True low by linarith
  next
    case False
    then have "ascii_lower c = c" by (simp only: ascii_lower_def Let_def if_False)
    then show ?thesis by simp
  qed
  have "dropWhile (\<lambda>c. c = CHR ''.'') (map ascii_lower ?t) = map ascii_lower ?t"
  proof (cases "?t = []")
    case True
    then show ?thesis by (simp only: list.map dropWhile.simps)
  next
    case False
    then have "hd ?t \<noteq> CHR ''.''" by (rule hd_dropWhile)
    then have "ascii_lower (hd ?t) \<noteq> CHR ''.''" unfolding dot .
    then show ?thesis unfolding dropWhile_eq_self_iff hd_map [OF False] by (rule disjI2)
  qed
  then show ?thesis by (simp add: trim_end_char_def to_ascii_lowercase_def rev_map)
qed

lemma hosts_normal: "normalize_host x = Inr (Some y) \<Longrightarrow> normal normalize_host y"
proof -
  assume x: "normalize_host x = Inr (Some y)"
  let ?d = "trim_end_char (CHR ''.'') (trim_str x)"
  have y: "y = to_ascii_lowercase ?d" "y \<noteq> []" "length y \<le> max_host_len" "CHR ''/'' \<notin> set y" "CHR 92 \<notin> set y"
      "\<forall>g \<in> set (utf8_chars y). g \<notin> white_space"
    using x by (auto simp: normalize_host_def Let_def split: if_splits)
  have "trim_str y = y" by (rule trim_no_space [OF y(6)])
  moreover have "trim_end_char (CHR ''.'') y = y" unfolding y(1) by (rule trim_end_lower)
  moreover have "to_ascii_lowercase y = y" unfolding y(1) by simp
  ultimately show ?thesis using y(2-6) by (simp add: normal_def normalize_host_def)
qed

section \<open>The invariant\<close>

definition id_ok :: "string option \<Rightarrow> bool" where
  "id_ok i \<longleftrightarrow> (case i of Some s \<Rightarrow> s \<noteq> [] \<and> length s \<le> max_id_len | None \<Rightarrow> True)"

definition view_lists_ok :: "sessions_view \<Rightarrow> bool" where
  "view_lists_ok v \<longleftrightarrow> distinct (sv_methods v) \<and> set (sv_methods v) \<subseteq> set allowed_methods
     \<and> distinct (sv_status_buckets v) \<and> set (sv_status_buckets v) \<subseteq> set allowed_status_buckets
     \<and> distinct (sv_host_focus v) \<and> length (sv_host_focus v) \<le> max_host_focus
     \<and> (\<forall>h \<in> set (sv_host_focus v). normal normalize_host h)
     \<and> (case sv_host_filter v of Some h \<Rightarrow> normal normalize_host h | None \<Rightarrow> True)
     \<and> wk_key (sv_sort v) \<in> set allowed_sort_keys \<and> id_ok (sv_selected_session_id v)"

definition sessions_view_ok :: "sessions_view \<Rightarrow> bool" where
  "sessions_view_ok v \<longleftrightarrow> length (sv_query v) \<le> max_query_len \<and> view_lists_ok v"

definition feature_view_ok :: "string \<times> feature_view \<Rightarrow> bool" where
  "feature_view_ok kv \<longleftrightarrow> validate_feature_view_key (fst kv) = Inr () \<and> id_ok (ft_tab (snd kv)) \<and> id_ok (ft_selected_id (snd kv))"

definition workspace_ok :: "workspace \<Rightarrow> bool" where
  "workspace_ok w \<longleftrightarrow> sessions_view_ok (wr_sessions_view w) \<and> distinct (map fst (wr_feature_views w))
     \<and> length (wr_feature_views w) \<le> max_feature_view_count \<and> list_all feature_view_ok (wr_feature_views w)"

lemma normal_iff:
  "normal normalize_method m \<longleftrightarrow> m \<in> set allowed_methods"
  "normal normalize_status_bucket b \<longleftrightarrow> b \<in> set allowed_status_buckets"
proof -
  show "normal normalize_method m \<longleftrightarrow> m \<in> set allowed_methods"
    using method_normal [of m] by (auto simp: normal_def normalize_method_def Let_def split: if_splits)
  show "normal normalize_status_bucket b \<longleftrightarrow> b \<in> set allowed_status_buckets"
    using bucket_normal [of b] by (auto simp: normal_def normalize_status_bucket_def Let_def split: if_splits)
qed

lemma checked_methods: "normalize_methods xs = Inr ys \<Longrightarrow> distinct ys \<and> set ys \<subseteq> set allowed_methods"
  unfolding normalize_methods_def
  by (drule normalize_each_normal) (auto dest: methods_normal simp: normal_iff)

lemma checked_buckets: "normalize_status_buckets xs = Inr ys \<Longrightarrow> distinct ys \<and> set ys \<subseteq> set allowed_status_buckets"
  unfolding normalize_status_buckets_def
  by (drule normalize_each_normal) (auto dest: buckets_normal simp: normal_iff)

lemma checked_hosts:
  assumes "normalize_host_list xs = Inr ys"
  shows "distinct ys \<and> (\<forall>h \<in> set ys. normal normalize_host h) \<and> length ys \<le> max_host_focus"
proof -
  have n: "normalize_each normalize_host [] xs = Inr ys" "length xs \<le> max_host_focus"
    using assms by (auto simp: normalize_host_list_def split: if_splits)
  then have "distinct ys \<and> (\<forall>h \<in> set ys. normal normalize_host h) \<and> length ys \<le> length xs"
    using normalize_each_normal [OF n(1)] hosts_normal by simp
  with n(2) show ?thesis by linarith
qed

lemma checked_host: "normalize_host x = Inr r \<Longrightarrow> case r of Some h \<Rightarrow> normal normalize_host h | None \<Rightarrow> True"
  by (cases r) (auto intro: hosts_normal)

lemma checked_id: "normalize_optional_id i field = Inr r \<Longrightarrow> id_ok r"
  by (auto simp: normalize_optional_id_def id_ok_def Let_def split: option.splits if_splits)

lemma checked_sort: "validate_sort s = Inr () \<longleftrightarrow> wk_key s \<in> set allowed_sort_keys"
  by (simp add: validate_sort_def)

lemma set_if_keeps: "P s \<Longrightarrow> (\<And>v s. P s \<Longrightarrow> P (put v s)) \<Longrightarrow> P (set_if x put s)"
  by (simp add: set_if_def split: option.splits)

lemma set_checked_keeps:
  "set_checked x check put s = Inr s' \<Longrightarrow> P s \<Longrightarrow> (\<And>v y. check v = Inr y \<Longrightarrow> P (put y s)) \<Longrightarrow> P s'"
  by (auto simp: set_checked_def split: option.splits)

lemma set_field_keeps:
  "set_field x check put s = Inr s' \<Longrightarrow> P s \<Longrightarrow> P (put None s) \<Longrightarrow> (\<And>v y. check v = Inr y \<Longrightarrow> P (put y s)) \<Longrightarrow> P s'"
  by (auto simp: set_field_def split: patch_field.splits)

lemma sessions_patch_ok:
  assumes "sessions_view_apply_patch p v = Inr v'" "view_lists_ok v"
  shows "sessions_view_ok v'"
proof -
  let ?v2 = "set_if (sp_regex p) (\<lambda>x v. v\<lparr>sv_regex := x\<rparr>) (set_if (sp_query p) (\<lambda>x v. v\<lparr>sv_query := x\<rparr>) v)"
  let ?last = "\<lambda>v9. set_if (sp_app_filter p) (\<lambda>x v. v\<lparr>sv_app_filter := x\<rparr>)
     (set_if (sp_wire_filter p) (\<lambda>x v. v\<lparr>sv_wire_filter := x\<rparr>) v9)"
  from assms(1) show ?thesis
    unfolding sessions_view_apply_patch_def Let_def
  proof (elim bindE)
    fix v3 v4 v5 v6 v7 v9 u
    assume v3: "set_checked (sp_methods p) normalize_methods (\<lambda>x v. v\<lparr>sv_methods := x\<rparr>) ?v2 = Inr v3"
    and v4: "set_checked (sp_status_buckets p) normalize_status_buckets (\<lambda>x v. v\<lparr>sv_status_buckets := x\<rparr>) v3 = Inr v4"
    and v5: "set_checked (sp_host_focus p) normalize_host_list (\<lambda>x v. v\<lparr>sv_host_focus := x\<rparr>) v4 = Inr v5"
    and v6: "set_field (sp_host_filter p) normalize_host (\<lambda>x v. v\<lparr>sv_host_filter := x\<rparr>) v5 = Inr v6"
    and v7: "set_checked (sp_sort p) (\<lambda>s. bind_sum (validate_sort s) (\<lambda>_. Inr s)) (\<lambda>x v. v\<lparr>sv_sort := x\<rparr>) v6 = Inr v7"
    and v9: "set_field (sp_selected_session_id p) (\<lambda>i. normalize_optional_id (Some i) ''selected_session_id'')
        (\<lambda>x v. v\<lparr>sv_selected_session_id := x\<rparr>) (set_if (sp_view_mode p) (\<lambda>x v. v\<lparr>sv_view_mode := x\<rparr>) v7) = Inr v9"
      and v11: "validate_sessions_view (?last v9) = Inr u" "Inr (?last v9) = Inr v'"
    from v11 have v': "validate_sessions_view v' = Inr ()" "v' = ?last v9" by auto
    have ok: "view_lists_ok ?v2"
      using assms(2) by (intro set_if_keeps [where P = view_lists_ok]) (simp_all add: view_lists_ok_def)
    have ok: "view_lists_ok v3" by (rule set_checked_keeps [where P = view_lists_ok, OF v3 ok])
        (use ok in \<open>auto simp: view_lists_ok_def dest: checked_methods\<close>)
    have ok: "view_lists_ok v4" by (rule set_checked_keeps [where P = view_lists_ok, OF v4 ok])
        (use ok in \<open>auto simp: view_lists_ok_def dest: checked_buckets\<close>)
    have ok: "view_lists_ok v5" by (rule set_checked_keeps [where P = view_lists_ok, OF v5 ok])
        (use ok in \<open>auto simp: view_lists_ok_def dest: checked_hosts\<close>)
    have ok: "view_lists_ok v6" by (rule set_field_keeps [where P = view_lists_ok, OF v6 ok])
        (use ok in \<open>auto simp: view_lists_ok_def dest: checked_host\<close>)
    have ok: "view_lists_ok v7" by (rule set_checked_keeps [where P = view_lists_ok, OF v7 ok])
        (use ok in \<open>auto simp: view_lists_ok_def checked_sort\<close>)
    have ok: "view_lists_ok (set_if (sp_view_mode p) (\<lambda>x v. v\<lparr>sv_view_mode := x\<rparr>) v7)"
      using ok by (intro set_if_keeps [where P = view_lists_ok]) (simp_all add: view_lists_ok_def)
    have ok: "view_lists_ok v9" by (rule set_field_keeps [where P = view_lists_ok, OF v9 ok])
        (use ok in \<open>auto simp: view_lists_ok_def id_ok_def [of None] dest: checked_id\<close>)
    have "view_lists_ok v'"
      using ok unfolding v'(2) by (intro set_if_keeps [where P = view_lists_ok]) (simp_all add: view_lists_ok_def)
    with v'(1) show ?thesis by (simp add: sessions_view_ok_def validate_sessions_view_def split: if_splits)
  qed
qed

lemma feature_patch_ok:
  assumes "feature_view_apply_patch p v = Inr v'" "id_ok (ft_tab v)" "id_ok (ft_selected_id v)"
  shows "id_ok (ft_tab v') \<and> id_ok (ft_selected_id v')"
proof -
  let ?P = "\<lambda>v. id_ok (ft_tab v) \<and> id_ok (ft_selected_id v)"
  obtain v1 v2 where
      v1: "set_field (fp_tab p) (\<lambda>i. normalize_optional_id (Some i) ''feature_views.tab'') (\<lambda>x v. v\<lparr>ft_tab := x\<rparr>) v = Inr v1"
    and v2: "set_field (fp_selected_id p) (\<lambda>i. normalize_optional_id (Some i) ''feature_views.selected_id'')
        (\<lambda>x v. v\<lparr>ft_selected_id := x\<rparr>) v1 = Inr v2" and v': "v' = v2"
    using assms(1) unfolding feature_view_apply_patch_def bind_sum_Inr sum.inject by blast
  have "?P v1" by (rule set_field_keeps [where P = ?P, OF v1]) (auto simp: assms(2,3) id_ok_def [of None] dest: checked_id)
  then show ?thesis unfolding v' by (intro set_field_keeps [where P = ?P, OF v2]) (auto simp: id_ok_def [of None] dest: checked_id)
qed

lemma put_view_keys: "map fst (put_view k v kvs) = (if k \<in> fst ` set kvs then map fst kvs else map fst kvs @ [k])"
  by (simp add: put_view_def comp_def case_prod_unfold)

lemma put_view_ok:
  assumes "distinct (map fst kvs)" "list_all feature_view_ok kvs" "feature_view_ok (k, v)"
  shows "distinct (map fst (put_view k v kvs)) \<and> list_all feature_view_ok (put_view k v kvs)"
proof
  show "distinct (map fst (put_view k v kvs))" using assms(1) unfolding put_view_keys by auto
  show "list_all feature_view_ok (put_view k v kvs)"
    using assms(2,3) by (auto simp: put_view_def list_all_iff feature_view_ok_def)
qed

lemma view_of_ok: "list_all feature_view_ok kvs \<Longrightarrow> id_ok (ft_tab (view_of k kvs)) \<and> id_ok (ft_selected_id (view_of k kvs))"
  by (auto simp: view_of_def default_feature_view_def id_ok_def [of None] feature_view_ok_def list_all_iff
      split: option.splits dest!: map_of_SomeD)

lemma feature_patches_ok:
  "apply_feature_patches ps kvs = Inr kvs' \<Longrightarrow> distinct (map fst kvs) \<Longrightarrow> list_all feature_view_ok kvs
   \<Longrightarrow> distinct (map fst kvs') \<and> list_all feature_view_ok kvs'"
proof (induction ps kvs rule: apply_feature_patches.induct)
  case (2 k p ps kvs)
  then obtain u v where u: "validate_feature_view_key k = Inr u" and v: "feature_view_apply_patch p (view_of k kvs) = Inr v"
    and r: "apply_feature_patches ps (put_view k v kvs) = Inr kvs'" by auto
  have "feature_view_ok (k, v)"
    using u feature_patch_ok [OF v] view_of_ok [OF "2.prems"(3)] by (simp add: feature_view_ok_def)
  from put_view_ok [OF "2.prems"(2,3) this] show ?case using "2.IH" [OF r] by blast
qed simp

lemma validated_count: "validate_workspace w = Inr u \<Longrightarrow> length (wr_feature_views w) \<le> max_feature_view_count"
  by (auto simp: validate_workspace_def split: if_splits)

lemma workspace_patch_steps:
  assumes "workspace_apply_patch wl p w = Inr w'"
  shows "wr_version w' = saturating_next (wr_version w) \<and> (workspace_ok w \<longrightarrow> workspace_ok w')"
proof -
  let ?w1 = "set_if (wpt_active_surface p) (\<lambda>x w. w\<lparr>wr_active_surface := x\<rparr>) w"
  let ?ok = "\<lambda>w. sessions_view_ok (wr_sessions_view w) \<and> distinct (map fst (wr_feature_views w))
     \<and> list_all feature_view_ok (wr_feature_views w)"
  from assms show ?thesis
    unfolding workspace_apply_patch_def Let_def
  proof (elim bindE)
    fix w2 w3 u
    assume w2: "set_checked (wpt_sessions_view p) (\<lambda>sp. sessions_view_apply_patch sp (wr_sessions_view ?w1))
        (\<lambda>x w. w\<lparr>wr_sessions_view := x\<rparr>) ?w1 = Inr w2"
      and w3: "set_checked (wpt_feature_views p) (\<lambda>fps. if length fps > max_feature_view_count then Inl too_many_feature_views
          else apply_feature_patches fps (wr_feature_views w2)) (\<lambda>x w. w\<lparr>wr_feature_views := x\<rparr>) w2 = Inr w3"
      and valid: "validate_workspace w3 = Inr u"
      and w': "Inr (w3\<lparr>wr_version := saturating_next (wr_version w3), wr_updated_at := wl_now wl\<rparr>) = Inr w'"
    have "wr_version ?w1 = wr_version w" by (simp add: set_if_def split: option.splits)
    then have "wr_version w2 = wr_version w" by (intro set_checked_keeps [where P = "\<lambda>v. wr_version v = wr_version w", OF w2]) simp_all
    then have version: "wr_version w3 = wr_version w"
      by (intro set_checked_keeps [where P = "\<lambda>v. wr_version v = wr_version w", OF w3]) simp_all
    have "workspace_ok w'" if "workspace_ok w"
    proof -
      have ok: "?ok ?w1" using that by (simp add: workspace_ok_def set_if_def split: option.splits)
      then have views: "view_lists_ok (wr_sessions_view ?w1)" by (simp add: sessions_view_ok_def)
      have ok: "?ok w2" by (rule set_checked_keeps [where P = ?ok, OF w2 ok]) (use ok in \<open>auto dest: sessions_patch_ok [OF _ views]\<close>)
      have "?ok w3" by (rule set_checked_keeps [where P = ?ok, OF w3 ok])
          (use ok in \<open>auto split: if_splits dest: feature_patches_ok\<close>)
      then show ?thesis using w' validated_count [OF valid] by (auto simp: workspace_ok_def)
    qed
    then show ?thesis using version w' by auto
  qed
qed

text \<open>What an action keeps: the version, and the invariant.\<close>

definition action_keeps :: "workspace \<Rightarrow> string + string \<times> workspace \<Rightarrow> bool" where
  "action_keeps w r \<longleftrightarrow> (case r of
     Inl e \<Rightarrow> True
   | Inr (m, w') \<Rightarrow> wr_version w' = wr_version w \<and> wr_feature_views w' = wr_feature_views w
       \<and> (sessions_view_ok (wr_sessions_view w) \<longrightarrow> sessions_view_ok (wr_sessions_view w')))"

lemma default_view_ok: "sessions_view_ok default_sessions_view"
  by (simp add: sessions_view_ok_def view_lists_ok_def default_sessions_view_def allowed_methods_def
      allowed_status_buckets_def allowed_sort_keys_def id_ok_def max_query_len_def)

lemma select_ok:
  "sessions_view_ok v \<Longrightarrow> id_ok i \<Longrightarrow> sessions_view_ok (v\<lparr>sv_selected_session_id := i\<rparr>)"
  "sessions_view_ok v \<Longrightarrow> sessions_view_ok (v\<lparr>sv_view_mode := m\<rparr>)"
  by (simp_all add: sessions_view_ok_def view_lists_ok_def)

lemma actions_keep:
  "action_keeps w (action_open_surface w pl)"
  "action_keeps w (action_apply_sessions_filter wl w pl)"
  "action_keeps w (action_clear_sessions_filter w pl)"
  "action_keeps w (action_select_session w pl)"
  "action_keeps w (action_set_sessions_view_mode w pl)"
proof -
  show "action_keeps w (action_open_surface w pl)" "action_keeps w (action_set_sessions_view_mode w pl)"
    by (simp_all add: action_keeps_def action_open_surface_def action_set_sessions_view_mode_def select_ok split: option.splits)
  show "action_keeps w (action_select_session w pl)"
    by (auto simp: action_keeps_def action_select_session_def bind_sum_def split: option.splits sum.splits
        intro!: select_ok dest: checked_id)
  have "id_ok (sv_selected_session_id v)" if "sessions_view_ok v" for v
    using that by (simp add: sessions_view_ok_def view_lists_ok_def)
  then show "action_keeps w (action_clear_sessions_filter w pl)"
    by (simp add: action_keeps_def action_clear_sessions_filter_def select_ok(1) [OF default_view_ok])
  have "sessions_view_ok v'" if "sessions_view_apply_patch p v = Inr v'" "sessions_view_ok v" for p v v'
    using sessions_patch_ok [OF that(1)] that(2) by (simp add: sessions_view_ok_def)
  then show "action_keeps w (action_apply_sessions_filter wl w pl)"
    unfolding action_apply_sessions_filter_def Let_def action_keeps_def
    by (auto simp: bind_sum_def split: sum.splits)
qed

lemma open_rules_tab_keeps:
  assumes "action_open_rules_tab w pl = Inr (m, w')" "workspace_ok w"
  shows "sessions_view_ok (wr_sessions_view w') \<and> distinct (map fst (wr_feature_views w'))
     \<and> list_all feature_view_ok (wr_feature_views w')"
proof -
  obtain t tab where t: "normalize_optional_id (Some t) ''feature_views.rules.tab'' = Inr (Some tab)"
    and w': "w' = w\<lparr>wr_active_surface := Sf_Rules,
         wr_feature_views := put_view ''rules'' ((view_of ''rules'' (wr_feature_views w))\<lparr>ft_tab := Some tab\<rparr>) (wr_feature_views w)\<rparr>"
    using assms(1) by (auto simp: action_open_rules_tab_def bind_sum_def split: option.splits sum.splits)
  have ok: "distinct (map fst (wr_feature_views w))" "list_all feature_view_ok (wr_feature_views w)"
    using assms(2) by (simp_all add: workspace_ok_def)
  have "validate_feature_view_key ''rules'' = Inr ()"
    by (simp add: validate_feature_view_key_def max_feature_view_key_len_def feature_key_char_def)
  then have "feature_view_ok (''rules'', (view_of ''rules'' (wr_feature_views w))\<lparr>ft_tab := Some tab\<rparr>)"
    using checked_id [OF t] view_of_ok [OF ok(2)] by (simp add: feature_view_ok_def)
  from put_view_ok [OF ok this] show ?thesis using assms(2) by (simp add: w' workspace_ok_def)
qed

lemma open_rules_tab_version: "action_open_rules_tab w pl = Inr (m, w') \<Longrightarrow> wr_version w' = wr_version w"
  by (auto simp: action_open_rules_tab_def bind_sum_def split: option.splits sum.splits)

lemma action_steps:
  assumes "apply_workspace_action_to_state wl w name pl = Inr (m, w')"
  shows "wr_version w' = wr_version w \<and> (workspace_ok w \<longrightarrow> sessions_view_ok (wr_sessions_view w')
     \<and> distinct (map fst (wr_feature_views w')) \<and> list_all feature_view_ok (wr_feature_views w'))"
proof (cases "name = ''rules.open_tab''")
  case True
  then have "action_open_rules_tab w pl = Inr (m, w')" using assms by (simp add: apply_workspace_action_to_state_def)
  then show ?thesis using open_rules_tab_keeps open_rules_tab_version by blast
next
  case False
  then have "action_keeps w (apply_workspace_action_to_state wl w name pl)"
    by (simp add: apply_workspace_action_to_state_def actions_keep action_keeps_def [of w "Inl _"])
  then show ?thesis unfolding assms by (simp add: action_keeps_def workspace_ok_def)
qed

section \<open>Every reachable state is valid, and no edit is lost\<close>

text \<open>One handler under the write lock.\<close>

inductive workspace_step :: "workspace \<Rightarrow> workspace \<Rightarrow> bool" where
  patch: "workspace_step w (snd (patch_workspace wl base_version p w))"
| action: "workspace_step w (snd (apply_workspace_action wl action_type payload w))"

inductive_cases workspace_stepE: "workspace_step w w'"

lemma action_result:
  "apply_workspace_action wl ty pl w = (r, w') \<Longrightarrow>
     w' = w \<or> wr_version w' = saturating_next (wr_version w) \<and> (workspace_ok w \<longrightarrow> workspace_ok w')"
proof -
  assume r: "apply_workspace_action wl ty pl w = (r, w')"
  show ?thesis
  proof (cases "w' = w")
    case False
    then obtain m w1 u refreshed where
        w1: "apply_workspace_action_to_state wl w ty (repair_assistant_payload pl) = Inr (m, w1)"
      and w': "w' = w1\<lparr>wr_assistant_context := (wr_assistant_context w1)\<lparr>wx_last_intent := Some ty,
                     wx_last_workspace_action_id := Some (workspace_action_id wl)\<rparr>,
                   wr_version := saturating_next (wr_version w1), wr_updated_at := wl_now wl\<rparr>"
      and valid: "validate_workspace w' = Inr u"
      using r unfolding apply_workspace_action_def Let_def
      by (auto split: option.splits sum.splits prod.splits)
    show ?thesis using action_steps [OF w1] validated_count [OF valid] by (simp add: w' workspace_ok_def)
  qed simp
qed

lemma step_result:
  "workspace_step w w' \<Longrightarrow>
     w' = w \<or> wr_version w' = saturating_next (wr_version w) \<and> (workspace_ok w \<longrightarrow> workspace_ok w')"
proof (erule workspace_stepE)
  fix wl b p
  assume "w' = snd (patch_workspace wl b p w)"
  then show ?thesis
    by (cases "workspace_apply_patch wl p w")
      (auto simp: patch_workspace_def dest: workspace_patch_steps split: if_splits)
next
  fix wl ty pl
  assume "w' = snd (apply_workspace_action wl ty pl w)"
  then show ?thesis using action_result [of wl ty pl w] by (metis prod.collapse)
qed

text \<open>The default state passes its own checks, whatever the two unchecked filter lists hold.\<close>

lemma default_view_valid: "validate_sessions_view (default_sessions_view\<lparr>sv_wire_filter := xs, sv_app_filter := ys\<rparr>) = Inr ()"
proof -
  have "distinct allowed_methods" "distinct allowed_status_buckets"
    by (simp_all add: allowed_methods_def allowed_status_buckets_def)
  then have lists: "normalize_methods allowed_methods = Inr allowed_methods"
      "normalize_status_buckets allowed_status_buckets = Inr allowed_status_buckets"
    by (simp_all add: normalize_methods_def normalize_status_buckets_def normal_iff normalize_each_fixed [of "[]", simplified])
  have "''idx'' \<in> set allowed_sort_keys" by (simp add: allowed_sort_keys_def)
  with lists show ?thesis
    by (simp add: validate_sessions_view_def default_sessions_view_def normalize_host_list_def
        normalize_optional_host_def validate_sort_def normalize_optional_id_def)
qed

lemma default_feature_views_valid: "validate_feature_views default_feature_views = Inr ()"
  by (simp add: default_feature_views_def validate_feature_view_key_def max_feature_view_key_len_def
      feature_key_char_def validate_feature_view_def normalize_optional_id_def trim_str_all_printable printable_def
      max_id_len_def Let_def)

lemma new_workspace_ok: "workspace_ok (new_workspace now)"
  by (simp add: workspace_ok_def new_workspace_def default_view_ok default_feature_views_def feature_view_ok_def
      validate_feature_view_key_def feature_key_char_def id_ok_def max_id_len_def max_feature_view_key_len_def
      max_feature_view_count_def)

lemma steps_keep_ok: "workspace_step\<^sup>*\<^sup>* w w' \<Longrightarrow> workspace_ok w \<Longrightarrow> workspace_ok w'"
  by (induction rule: rtranclp_induct) (use step_result in blast)+

text \<open>A version that has not reached the last value is never taken again by another state.\<close>

lemma version_grows:
  "workspace_step\<^sup>*\<^sup>* w w' \<Longrightarrow> wr_version w \<noteq> -1 \<Longrightarrow> w' = w \<or> wr_version w < wr_version w'"
proof (induction rule: rtranclp_induct)
  case (step v v')
  have next_: "x < saturating_next x \<or> x = -1" for x :: u64
  proof (cases "x = -1")
    case False
    then have nz: "1 + x \<noteq> 0" using max_word_wrap [of x] by (metis add.commute)
    have "unat x < unat (1 + x)" unfolding unatSuc [OF nz] by (rule lessI)
    then have "x < 1 + x" unfolding word_less_nat_alt .
    then show ?thesis unfolding saturating_next_def by (simp only: False if_False add.commute simp_thms)
  qed (rule disjI2)
  show ?case
  proof (cases "v' = v")
    case True
    then show ?thesis using step.IH [OF step.prems] by simp
  next
    case False
    then have up: "wr_version v' = saturating_next (wr_version v)" using step_result [OF step.hyps(2)] by blast
    have le: "x \<le> saturating_next x" for x :: u64
    proof (cases "x = -1")
      case True
      have "saturating_next x = x" unfolding saturating_next_def by (rule if_P) (rule True)
      then show ?thesis by (simp only: order_refl)
    next
      case False
      then show ?thesis using next_ [of x] by (simp only: False simp_thms order_less_imp_le)
    qed
    have "wr_version w < saturating_next (wr_version w)" using next_ step.prems by blast
    then show ?thesis using step.IH [OF step.prems] up using le [of "wr_version v"] by (metis order_less_le_trans)
  qed
qed simp

section \<open>Properties\<close>


definition sample_wl :: workspace_lib where
  "sample_wl = \<lparr>wl_now = 7, wl_to_string = (\<lambda>_. []), wl_sort_error = (\<lambda>_. []), wl_mode_error = (\<lambda>_. [])\<rparr>"

definition mock_patch :: workspace_patch where
  "mock_patch = \<lparr>wpt_active_surface = Some Sf_Mock, wpt_sessions_view = None, wpt_feature_views = None\<rparr>"


text \<open>C38: No edit is lost. A client that reads a state and sends a patch with the version it read has the
  patch applied to exactly that state; if any handler has stored a different state in between, the answer is
  409 and nothing changes. The last version of the 64-bit counter, where it stops counting, is the exception.\<close>

theorem no_lost_update:
  assumes "workspace_step\<^sup>*\<^sup>* seen w" and "wr_version seen \<noteq> -1"
  shows "patch_workspace wl (Some (wr_version seen)) p w =
    (if w = seen then patch_workspace wl None p seen
     else (Ws_Error 409 (''workspace version conflict: current version is '' @ decimal (unat (wr_version w))
              @ '', request base_version was '' @ decimal (unat (wr_version seen))), w))"
proof (cases "w = seen")
  case True
  then show ?thesis by (simp add: patch_workspace_def)
next
  case False
  then have "wr_version w \<noteq> wr_version seen" using version_grows [OF assms] by auto
  with False show ?thesis by (simp add: patch_workspace_def)
qed

theorem no_lost_update_witness:
  "fst (patch_workspace sample_wl (Some 1) mock_patch (snd (patch_workspace sample_wl (Some 1) mock_patch (new_workspace 0))))
     = Ws_Error 409 (''workspace version conflict: current version is '' @ decimal 2 @ '', request base_version was '' @ decimal 1)"
proof -
  let ?w = "snd (patch_workspace sample_wl (Some 1) mock_patch (new_workspace 0))"
  have same: "default_sessions_view\<lparr>sv_wire_filter := [], sv_app_filter := []\<rparr> = default_sessions_view"
    by (simp add: default_sessions_view_def)
  have "validate_workspace ((new_workspace 0)\<lparr>wr_active_surface := Sf_Mock\<rparr>) = Inr ()"
    using default_view_valid [of "[]" "[]"] default_feature_views_valid same
    by (simp add: validate_workspace_def new_workspace_def default_feature_views_def max_feature_view_count_def)
  then have "workspace_apply_patch sample_wl mock_patch (new_workspace 0)
      = Inr ((new_workspace 0)\<lparr>wr_active_surface := Sf_Mock, wr_version := 2, wr_updated_at := 7\<rparr>)"
    by (simp add: workspace_apply_patch_def mock_patch_def set_if_def set_checked_def saturating_next_def sample_wl_def
        new_workspace_def)
  then have w: "?w = (new_workspace 0)\<lparr>wr_active_surface := Sf_Mock, wr_version := 2, wr_updated_at := 7\<rparr>"
    by (simp add: patch_workspace_def new_workspace_def)
  have "workspace_step\<^sup>*\<^sup>* (new_workspace 0) ?w" by (rule r_into_rtranclp, rule workspace_step.patch)
  from no_lost_update [OF this, of sample_wl mock_patch] show ?thesis
    unfolding w by (simp add: new_workspace_def)
qed

section \<open>What is not checked\<close>

text \<open>The two filter lists are taken over as they are, whatever their length or content.\<close>

lemma wire_filter_unchecked:
  "\<exists>v. sessions_view_apply_patch \<lparr>sp_query = None, sp_regex = None, sp_methods = None, sp_status_buckets = None,
     sp_host_focus = None, sp_host_filter = Unspecified, sp_sort = None, sp_view_mode = None,
     sp_selected_session_id = Unspecified, sp_wire_filter = Some xs, sp_app_filter = Some ys\<rparr> default_sessions_view = Inr v
   \<and> sv_wire_filter v = xs \<and> sv_app_filter v = ys"
  using default_view_valid [where xs = xs and ys = ys] by (simp add: sessions_view_apply_patch_def set_if_def set_checked_def set_field_def Let_def)

end
