(* ===== verification/AssistantActions.thy ===== *)
theory AssistantActions
  imports AdminTables Webhooks AdminForward Workspace AssistantRedaction
begin

text \<open>
  What the assistant may change (\<open>control_plane/assistant_action_contracts.rs\<close>,
  \<open>control_plane/assistant_actions.rs\<close>): the list of endpoints an action may name, the proposal of an
  action, and its execution on the tables of the admin interface.

  The tables are kept twice, live and as the storage has them; \<open>io\<close> is the outcome of the one save an
  action makes. \<open>action_lib\<close> holds the decoders and encoders of serde, the digest, the URL parser, and the
  operations on sessions (\<open>al_forward\<close> and \<open>al_forward_ws\<close> stand for the functions of \<open>AdminForward\<close> with
  their own parameters). An object of JSON is a \<open>BTreeMap\<close>, whose order does not matter here.
\<close>

section \<open>Endpoints\<close>

datatype action_risk = Risk_Mutate | Risk_Network | Risk_Destructive

datatype endpoint_shape = Id_Backed_Collection | Singleton | Dns_Overrides

record endpoint_contract =
  ec_base_path :: string
  ec_kind :: string
  ec_risk :: action_risk
  ec_refreshed_resource :: string
  ec_shape :: endpoint_shape

record route_contract =
  rt_base_path :: string
  rt_endpoint :: string
  rt_method :: string
  rt_kind :: string
  rt_risk :: action_risk
  rt_refreshed_resources :: "string list"
  rt_shape :: endpoint_shape
  rt_item_id :: "string option"

definition id_collection :: "string \<Rightarrow> string \<Rightarrow> string \<Rightarrow> endpoint_contract" where
  "id_collection base kind refreshed = \<lparr>ec_base_path = base, ec_kind = kind, ec_risk = Risk_Mutate,
     ec_refreshed_resource = refreshed, ec_shape = Id_Backed_Collection\<rparr>"

definition singleton_endpoint :: "string \<Rightarrow> string \<Rightarrow> string \<Rightarrow> endpoint_contract" where
  "singleton_endpoint base kind refreshed = \<lparr>ec_base_path = base, ec_kind = kind, ec_risk = Risk_Mutate,
     ec_refreshed_resource = refreshed, ec_shape = Singleton\<rparr>"

definition action_endpoint_contracts :: "endpoint_contract list" where
  "action_endpoint_contracts =
     [id_collection ''/admin/rule-sets'' ''rule-sets'' ''rule_sets'',
      id_collection ''/admin/map-remote-rules'' ''map-remote-rules'' ''map_remote'',
      id_collection ''/admin/map-local-rules'' ''map-local-rules'' ''map_local'',
      id_collection ''/admin/access-rules'' ''access-rules'' ''access'',
      id_collection ''/admin/breakpoints'' ''breakpoints'' ''breakpoints'',
      id_collection ''/admin/mock/rules'' ''mock'' ''mock'',
      id_collection ''/admin/scripts'' ''scripts'' ''scripts'',
      \<lparr>ec_base_path = ''/admin/webhooks'', ec_kind = ''webhooks'', ec_risk = Risk_Network,
       ec_refreshed_resource = ''webhooks'', ec_shape = Id_Backed_Collection\<rparr>,
      singleton_endpoint ''/admin/throttling'' ''throttling'' ''throttling'',
      singleton_endpoint ''/admin/capture-filter'' ''capture-filter'' ''capture_filter'',
      singleton_endpoint ''/admin/upstream-proxy'' ''upstream-proxy'' ''upstream_proxy'',
      \<lparr>ec_base_path = ''/admin/dns'', ec_kind = ''dns'', ec_risk = Risk_Mutate,
       ec_refreshed_resource = ''dns'', ec_shape = Dns_Overrides\<rparr>,
      \<lparr>ec_base_path = ''/admin/forward/websocket'', ec_kind = ''forward-websocket'', ec_risk = Risk_Network,
       ec_refreshed_resource = ''sessions'', ec_shape = Singleton\<rparr>,
      \<lparr>ec_base_path = ''/admin/forward'', ec_kind = ''forward'', ec_risk = Risk_Network,
       ec_refreshed_resource = ''sessions'', ec_shape = Singleton\<rparr>,
      \<lparr>ec_base_path = ''/admin/playback'', ec_kind = ''playback'', ec_risk = Risk_Network,
       ec_refreshed_resource = ''sessions'', ec_shape = Singleton\<rparr>,
      \<lparr>ec_base_path = ''/admin/sessions'', ec_kind = ''sessions'', ec_risk = Risk_Destructive,
       ec_refreshed_resource = ''sessions'', ec_shape = Singleton\<rparr>]"

definition validate_route_syntax :: "string \<Rightarrow> string \<Rightarrow> string + unit" where
  "validate_route_syntax method endpoint =
     (if method \<notin> {''POST'', ''PUT'', ''DELETE''} then Inl ''assistant actions only support POST, PUT, and DELETE''
      else if \<not> starts_with endpoint ''/admin/'' \<or> contains_str endpoint ''..'' \<or> CHR ''?'' \<in> set endpoint
           \<or> CHR ''#'' \<in> set endpoint
      then Inl ''assistant action endpoint must be a clean admin path''
      else Inr ())"

text \<open>No match, the endpoint itself, or one of its items.\<close>

definition match_endpoint :: "endpoint_contract \<Rightarrow> string \<Rightarrow> string option option" where
  "match_endpoint c endpoint =
     (if endpoint = ec_base_path c then Some None
      else case Option.bind (strip_prefix endpoint (ec_base_path c)) (\<lambda>r. strip_prefix r ''/'') of
        None \<Rightarrow> None
      | Some i \<Rightarrow> if i = [] \<or> CHR ''/'' \<in> set i then None else Some (Some i))"

definition validate_method_for_shape :: "string \<Rightarrow> endpoint_contract \<Rightarrow> string option \<Rightarrow> string + unit" where
  "validate_method_for_shape method c item =
     (if (case (ec_shape c, item) of
            (Id_Backed_Collection, None) \<Rightarrow> method = ''POST''
          | (Id_Backed_Collection, Some _) \<Rightarrow> method \<in> {''PUT'', ''DELETE''}
          | (Dns_Overrides, None) \<Rightarrow> method = ''POST''
          | (Dns_Overrides, Some _) \<Rightarrow> method = ''DELETE''
          | (Singleton, None) \<Rightarrow> if ec_base_path c = ''/admin/sessions'' then method = ''DELETE'' else method = ''POST''
          | (Singleton, Some _) \<Rightarrow> False)
      then Inr ()
      else Inl (''assistant action endpoint '' @ Workspace.quoted (ec_base_path c) @ '' does not support '' @ method
             @ (if item \<noteq> None then '' with an item id'' else [])))"

fun first_contract :: "endpoint_contract list \<Rightarrow> string \<Rightarrow> (endpoint_contract \<times> string option) option" where
  "first_contract [] endpoint = None"
| "first_contract (c # cs) endpoint = (case match_endpoint c endpoint of
     Some item \<Rightarrow> Some (c, item) | None \<Rightarrow> first_contract cs endpoint)"

definition action_route_contract :: "string \<Rightarrow> string \<Rightarrow> string + route_contract" where
  "action_route_contract method0 endpoint =
     (let method = to_ascii_uppercase method0
      in bind_sum (validate_route_syntax method endpoint) (\<lambda>_.
         case first_contract action_endpoint_contracts endpoint of
           None \<Rightarrow> Inl (''assistant action endpoint '' @ Workspace.quoted endpoint @ '' is not allowlisted'')
         | Some (c, item) \<Rightarrow> bind_sum (validate_method_for_shape method c item) (\<lambda>_.
             Inr \<lparr>rt_base_path = ec_base_path c, rt_endpoint = endpoint, rt_method = method, rt_kind = ec_kind c,
                  rt_risk = (if method = ''DELETE'' then Risk_Destructive else ec_risk c),
                  rt_refreshed_resources = [ec_refreshed_resource c], rt_shape = ec_shape c, rt_item_id = item\<rparr>)))"

definition id_backed_collection_bases :: "string list" where
  "id_backed_collection_bases =
     map ec_base_path (filter (\<lambda>c. ec_shape c = Id_Backed_Collection) action_endpoint_contracts)"

definition refreshed_resources_for_action :: "string \<Rightarrow> string \<Rightarrow> string list" where
  "refreshed_resources_for_action method endpoint = (case action_route_contract method endpoint of
     Inr r \<Rightarrow> rt_refreshed_resources r | Inl _ \<Rightarrow> [])"

section \<open>Actions\<close>

record action_precondition =
  ap_resource :: string
  ap_expected_hash :: string
  ap_message :: string

record assistant_action =
  aa_action_id :: string
  aa_confirmation_token :: string
  aa_kind :: string
  aa_summary :: string
  aa_risk :: action_risk
  aa_endpoint :: string
  aa_method :: string
  aa_payload :: json
  aa_requires_confirmation :: bool
  aa_preconditions :: "action_precondition list"

definition path_id :: "string \<Rightarrow> string \<Rightarrow> string option" where
  "path_id endpoint base = (case Option.bind (strip_prefix endpoint base) (\<lambda>r. strip_prefix r ''/'') of
     Some i \<Rightarrow> if i = [] then None else Some i | None \<Rightarrow> None)"

definition validate_action_route :: "string \<Rightarrow> string \<Rightarrow> json \<Rightarrow> string + route_contract" where
  "validate_action_route method endpoint payload = bind_sum (action_route_contract method endpoint) (\<lambda>r.
     if rt_method r \<noteq> ''DELETE'' \<and> payload = JNull then Inl ''assistant action payload is required'' else Inr r)"

definition action_refresh_resources :: "assistant_action \<Rightarrow> string list \<Rightarrow> string list" where
  "action_refresh_resources a fallback =
     (let resources = refreshed_resources_for_action (aa_method a) (aa_endpoint a)
      in if resources = [] then fallback else resources)"

subsection \<open>Defaults of a payload\<close>

type_synonym json_object = "(string \<times> json) list"

definition has_key :: "json_object \<Rightarrow> string \<Rightarrow> bool" where
  "has_key m k \<longleftrightarrow> k \<in> fst ` set m"

definition ensure_object_field :: "string \<Rightarrow> json \<Rightarrow> json_object \<Rightarrow> json_object" where
  "ensure_object_field k v m = (if has_key m k then m else m @ [(k, v)])"

definition ensure_rule_name :: "string \<Rightarrow> json_object \<Rightarrow> json_object" where
  "ensure_rule_name summary m =
     (if has_key m ''name'' \<or> has_key m ''bp_type'' then m
      else m @ [(''name'', JString (if trim_str summary = [] then ''Assistant generated rule'' else trim_str summary))])"

definition ensure_location :: "json_object \<Rightarrow> json_object" where
  "ensure_location m =
     (if \<not> has_key m ''location'' \<and> \<not> has_key m ''url'' \<and> \<not> has_key m ''code'' then m @ [(''location'', JObject [])] else m)"

definition rule_defaults :: "string \<Rightarrow> string \<Rightarrow> json_object \<Rightarrow> json_object" where
  "rule_defaults summary i m = ensure_location (ensure_rule_name summary
     (ensure_object_field ''enabled'' (JBool True) (ensure_object_field ''id'' (JString i) m)))"

fun collection_defaults :: "string list \<Rightarrow> string \<Rightarrow> string \<Rightarrow> string \<Rightarrow> json_object \<Rightarrow> json_object" where
  "collection_defaults [] method endpoint summary m = m"
| "collection_defaults (base # bases) method endpoint summary m =
     (if endpoint = base \<and> method = ''POST'' then rule_defaults summary [] m
      else case path_id endpoint base of
        Some i \<Rightarrow> if method = ''PUT'' then rule_defaults summary i m
                  else collection_defaults bases method endpoint summary m
      | None \<Rightarrow> collection_defaults bases method endpoint summary m)"

definition normalize_action_payload :: "string \<Rightarrow> string \<Rightarrow> json \<Rightarrow> string \<Rightarrow> string + json" where
  "normalize_action_payload method endpoint payload summary =
     (if method = ''DELETE'' \<or> payload = JNull then Inr payload
      else case repair_assistant_payload payload of
        JObject m \<Rightarrow> Inr (JObject (collection_defaults id_backed_collection_bases method endpoint summary m))
      | _ \<Rightarrow> Inl ''assistant action payload must be a JSON object'')"

subsection \<open>The library\<close>

record assistant_forward_req =
  af_method :: string
  af_url :: string
  af_headers :: "string \<rightharpoonup> string"
  af_body :: "string option"
  af_grpc :: bool
  af_apply_proxy_rules :: bool

record 'w action_lib =
  al_rule_set :: "json \<Rightarrow> string + rewrite_rule_set"
  al_map_remote :: "json \<Rightarrow> string + map_remote_rule"
  al_map_local :: "json \<Rightarrow> string + map_local_rule"
  al_access :: "json \<Rightarrow> string + access_rule"
  al_breakpoint :: "json \<Rightarrow> string + bp_rule"
  al_mock :: "json \<Rightarrow> string + mock_rule"
  al_script :: "json \<Rightarrow> string + lua_script"
  al_webhook :: "json \<Rightarrow> string + webhook_config"
  al_throttling :: "json \<Rightarrow> string + throttling_config"
  al_capture :: "json \<Rightarrow> string + capture_filter_config"
  al_dns :: "json \<Rightarrow> string + dns_overrides"
  al_forward_req :: "json \<Rightarrow> string + assistant_forward_req"
  al_forward_ws_req :: "json \<Rightarrow> string + forward_ws_req"
  al_show_rule_set :: "rewrite_rule_set \<Rightarrow> json"
  al_show_map_remote :: "map_remote_rule \<Rightarrow> json"
  al_show_map_local :: "map_local_rule \<Rightarrow> json"
  al_show_access :: "access_rule \<Rightarrow> json"
  al_show_breakpoint :: "bp_rule \<Rightarrow> json"
  al_show_mock :: "mock_rule \<Rightarrow> json"
  al_show_script :: "lua_script \<Rightarrow> json"
  al_show_webhook :: "webhook_config \<Rightarrow> json"
  al_show_throttling :: "throttling_config \<Rightarrow> json"
  al_show_capture :: "capture_filter_config \<Rightarrow> json"
  al_show_dns :: "dns_overrides \<Rightarrow> json"
  al_show_forward :: "forward_resp \<Rightarrow> json"
  al_show_forward_ws :: "forward_ws_resp \<Rightarrow> json"
  al_digest :: "json \<Rightarrow> string"
  al_url_parse :: "string \<Rightarrow> string + url"
  al_lookup :: "string \<Rightarrow> u16 \<Rightarrow> ip_addr list option"
  al_egress_policy :: admin_egress_policy
  al_proxy_ok :: "string \<Rightarrow> bool"
  al_configured_proxy :: "string option"
  al_forward :: "forward_req \<Rightarrow> 'w \<Rightarrow> (forward_failure + forward_resp) \<times> 'w"
  al_forward_ws :: "forward_ws_req \<Rightarrow> 'w \<Rightarrow> (forward_ws_failure + forward_ws_resp) \<times> 'w"
  al_clear_sessions :: "'w \<Rightarrow> 'w"
  al_start_playback :: "'w \<Rightarrow> 'w"

definition from_payload :: "(json \<Rightarrow> string + 'a) \<Rightarrow> json \<Rightarrow> string + 'a" where
  "from_payload dec payload = (case dec payload of
     Inl e \<Rightarrow> Inl (''invalid assistant action payload: '' @ e) | Inr x \<Rightarrow> Inr x)"

definition require_payload :: "(json \<Rightarrow> string + 'a) \<Rightarrow> json \<Rightarrow> string + unit" where
  "require_payload dec payload = bind_sum (from_payload dec payload) (\<lambda>_. Inr ())"

definition validate_action_payload_shape :: "'w action_lib \<Rightarrow> string \<Rightarrow> string \<Rightarrow> json \<Rightarrow> string + unit" where
  "validate_action_payload_shape al method endpoint payload =
     (let item = (\<lambda>base. method = ''PUT'' \<and> path_id endpoint base \<noteq> None)
      in if method = ''DELETE'' then Inr ()
      else if method = ''POST'' \<and> endpoint = ''/admin/rule-sets'' then require_payload (al_rule_set al) payload
      else if method = ''POST'' \<and> endpoint = ''/admin/map-remote-rules'' then require_payload (al_map_remote al) payload
      else if method = ''POST'' \<and> endpoint = ''/admin/map-local-rules'' then require_payload (al_map_local al) payload
      else if method = ''POST'' \<and> endpoint = ''/admin/access-rules'' then require_payload (al_access al) payload
      else if method = ''POST'' \<and> endpoint = ''/admin/breakpoints'' then require_payload (al_breakpoint al) payload
      else if method = ''POST'' \<and> endpoint = ''/admin/mock/rules'' then require_payload (al_mock al) payload
      else if method = ''POST'' \<and> endpoint = ''/admin/scripts'' then require_payload (al_script al) payload
      else if method = ''POST'' \<and> endpoint = ''/admin/webhooks'' then require_payload (al_webhook al) payload
      else if method = ''POST'' \<and> endpoint = ''/admin/throttling'' then require_payload (al_throttling al) payload
      else if method = ''POST'' \<and> endpoint = ''/admin/capture-filter'' then require_payload (al_capture al) payload
      else if method = ''POST'' \<and> endpoint = ''/admin/dns'' then require_payload (al_dns al) payload
      else if method = ''POST'' \<and> endpoint = ''/admin/forward'' then require_payload (al_forward_req al) payload
      else if method = ''POST'' \<and> endpoint = ''/admin/forward/websocket'' then require_payload (al_forward_ws_req al) payload
      else if method = ''POST'' \<and> endpoint = ''/admin/upstream-proxy''
      then (case payload_get payload ''upstream_proxy'' of
              Some (JString _) \<Rightarrow> Inr () | Some JNull \<Rightarrow> Inr ()
            | _ \<Rightarrow> Inl ''invalid assistant action payload: upstream_proxy must be a string or null'')
      else if item ''/admin/rule-sets'' then require_payload (al_rule_set al) payload
      else if item ''/admin/map-remote-rules'' then require_payload (al_map_remote al) payload
      else if item ''/admin/map-local-rules'' then require_payload (al_map_local al) payload
      else if item ''/admin/access-rules'' then require_payload (al_access al) payload
      else if item ''/admin/breakpoints'' then require_payload (al_breakpoint al) payload
      else if item ''/admin/mock/rules'' then require_payload (al_mock al) payload
      else if item ''/admin/scripts'' then require_payload (al_script al) payload
      else if item ''/admin/webhooks'' then require_payload (al_webhook al) payload
      else Inr ())"

section \<open>Proposals\<close>

definition text_arg :: "json \<Rightarrow> string \<Rightarrow> string" where
  "text_arg args k = (case Option.bind (payload_get args k) json_text of Some s \<Rightarrow> s | None \<Rightarrow> [])"

definition new_action :: "route_contract \<Rightarrow> string \<Rightarrow> string \<Rightarrow> string \<Rightarrow> json \<Rightarrow> assistant_action" where
  "new_action route summary endpoint method payload =
     \<lparr>aa_action_id = [], aa_confirmation_token = [], aa_kind = rt_kind route, aa_summary = summary,
      aa_risk = rt_risk route, aa_endpoint = endpoint, aa_method = method, aa_payload = payload,
      aa_requires_confirmation = True, aa_preconditions = []\<rparr>"

definition propose_action :: "'w action_lib \<Rightarrow> json \<Rightarrow> string + assistant_action" where
  "propose_action al args =
     (let method = to_ascii_uppercase (text_arg args ''method'');
          endpoint = text_arg args ''endpoint'';
          payload = (case payload_get args ''payload'' of Some v \<Rightarrow> v | None \<Rightarrow> JNull);
          given = text_arg args ''summary'';
          summary = (if trim_str given = [] then ''Apply assistant-proposed oproxy change'' else given)
      in bind_sum (validate_action_route method endpoint payload) (\<lambda>route.
         bind_sum (normalize_action_payload method endpoint payload summary) (\<lambda>payload.
         bind_sum (validate_action_payload_shape al method endpoint payload) (\<lambda>_.
           Inr (new_action route summary endpoint method payload)))))"

subsection \<open>Mapping a host\<close>

definition trim_chars :: "('a \<Rightarrow> bool) \<Rightarrow> 'a list \<Rightarrow> 'a list" where
  "trim_chars P s = rev (dropWhile P (rev (dropWhile P s)))"

definition host_wrapping :: "char \<Rightarrow> bool" where
  "host_wrapping c \<longleftrightarrow> c \<in> {CHR 34, CHR 39, CHR ''`'', CHR ''<'', CHR ''>'', CHR ''('', CHR '')'', CHR ''['', CHR '']'',
     CHR '','', CHR '';'', CHR ''.'', CHR ''?''}"

definition clean_host_token :: "string \<Rightarrow> string" where
  "clean_host_token input = trim_chars host_wrapping (trim_str input)"

definition is_web_url :: "string \<Rightarrow> bool" where
  "is_web_url s \<longleftrightarrow> starts_with s ''http://'' \<or> starts_with s ''https://''"

definition host_and_port :: "url \<Rightarrow> string \<Rightarrow> string" where
  "host_and_port u host = host @ (case url_port u of Some p \<Rightarrow> CHR '':'' # decimal (unat p) | None \<Rightarrow> [])"

definition normalize_destination_origin :: "(string \<Rightarrow> string + url) \<Rightarrow> string \<Rightarrow> string + string" where
  "normalize_destination_origin parse input =
     (let cleaned = clean_host_token input
      in if cleaned = [] then Inl ''destination is required''
         else case parse (if is_web_url cleaned then cleaned else ''https://'' @ cleaned) of
           Inl e \<Rightarrow> Inl (''invalid destination URL: '' @ e)
         | Inr u \<Rightarrow>
             if url_scheme u \<notin> {''http'', ''https''} then Inl ''destination must use http or https''
             else (case url_host_str u of
               None \<Rightarrow> Inl ''destination URL must include a host''
             | Some host \<Rightarrow> Inr (url_scheme u @ ''://'' @ host_and_port u host)))"

definition split_host_port_once :: "string \<Rightarrow> string \<times> u16 option" where
  "split_host_port_once source = (case rsplit_once (CHR '':'') source of
     Some (host, port) \<Rightarrow> if CHR '':'' \<in> set host then (source, None)
       else (case parse_u16 port of Some p \<Rightarrow> (host, Some p) | None \<Rightarrow> (source, None))
   | None \<Rightarrow> (source, None))"

text \<open>A host with a path is read as a URL: the recursion goes one level deep, since what it is called with
  starts with \<open>http://\<close> and keeps doing so when it is cleaned.\<close>

lemma trim_chars_keeps:
  assumes "s = p @ x" "p \<noteq> []" "\<not> P (hd p)" "\<not> P (last p)"
  shows "prefix p (trim_chars P s)"
proof -
  obtain c cs where p: "p = c # cs" using assms(2) by (cases p) auto
  then have start: "dropWhile P s = s" using assms by simp
  have "dropWhile P (rev x @ rev p) = dropWhile P (rev x) @ rev p"
  proof (cases "\<forall>y \<in> set (rev x). P y")
    case True
    then have "dropWhile P (rev x @ rev p) = dropWhile P (rev p)" by (simp add: dropWhile_append)
    moreover have "rev p = last p # tl (rev p)"
      using assms(2) by (cases "rev p") (auto simp: rev_swap)
    ultimately show ?thesis using True assms(4) by (metis dropWhile.simps(2) dropWhile_eq_Nil_conv append_Nil)
  next
    case False
    then show ?thesis by (auto simp: dropWhile_append)
  qed
  then have "trim_chars P s = p @ rev (dropWhile P (rev x))" by (simp add: trim_chars_def start) (simp add: assms(1))
  then show ?thesis by simp
qed

definition source_host_of_url :: "(string \<Rightarrow> string + url) \<Rightarrow> string \<Rightarrow> string + string" where
  "source_host_of_url parse cleaned = (case parse cleaned of
     Inl e \<Rightarrow> Inl (''invalid source URL: '' @ e)
   | Inr u \<Rightarrow> (case url_host_str u of
       None \<Rightarrow> Inl ''source URL must include a host''
     | Some host \<Rightarrow> Inr (host_and_port u host)))"

lemma white_space_hd: "g \<in> white_space \<Longrightarrow> hd g \<notin> {CHR ''h'', CHR ''/''}"
proof -
  have "\<forall>g \<in> white_space. hd g \<noteq> CHR ''h'' \<and> hd g \<noteq> CHR ''/''" by code_simp
  then show "g \<in> white_space \<Longrightarrow> hd g \<notin> {CHR ''h'', CHR ''/''}" by blast
qed

lemma trim_str_keeps_http: "prefix ''http://'' (trim_str (''http://'' @ x))"
proof -
  let ?c = "takeWhile is_continuation x"
  let ?p = "map (\<lambda>c. [c]) ''http:/'' @ [CHR ''/'' # ?c]"
  have "utf8_chars (''http://'' @ x) = ?p @ utf8_chars (dropWhile is_continuation x)"
    by (simp add: is_continuation_def)
  then have "prefix ?p (trim_chars (\<lambda>g. g \<in> white_space) (utf8_chars (''http://'' @ x)))"
    by (rule trim_chars_keeps) (auto dest: white_space_hd)
  then obtain r where "trim_chars (\<lambda>g. g \<in> white_space) (utf8_chars (''http://'' @ x)) = ?p @ r" by (auto simp: prefix_def)
  then have "trim_str (''http://'' @ x) = ''http://'' @ ?c @ concat r" by (simp add: trim_str_def trim_chars_def)
  then show ?thesis by simp
qed

lemma clean_keeps_http: "is_web_url (clean_host_token (''http://'' @ x))"
proof -
  obtain r where "trim_str (''http://'' @ x) = ''http://'' @ r" using trim_str_keeps_http [of x] by (auto simp: prefix_def)
  then have "prefix ''http://'' (clean_host_token (''http://'' @ x))"
    unfolding clean_host_token_def by (rule trim_chars_keeps) (simp_all add: host_wrapping_def)
  then show ?thesis by (simp add: is_web_url_def)
qed

function normalize_source_host :: "(string \<Rightarrow> string + url) \<Rightarrow> string \<Rightarrow> string + string" where
  "normalize_source_host parse input =
     (if clean_host_token input = [] then Inl ''source host is required''
      else if is_web_url (clean_host_token input) then source_host_of_url parse (clean_host_token input)
      else if CHR ''/'' \<in> set (clean_host_token input)
      then normalize_source_host parse (''http://'' @ clean_host_token input)
      else Inr (clean_host_token input))"
  by pat_completeness auto

termination
  by (relation "measure (\<lambda>(_, input). if is_web_url (clean_host_token input) then 0 else 1)")
    (simp_all add: clean_keeps_http [simplified])

declare normalize_source_host.simps [simp del]

definition build_map_remote_action :: "'w action_lib \<Rightarrow> string \<Rightarrow> string \<Rightarrow> string option \<Rightarrow> string + assistant_action" where
  "build_map_remote_action al source_host destination0 name =
     bind_sum (normalize_source_host (al_url_parse al) source_host) (\<lambda>source.
     bind_sum (normalize_destination_origin (al_url_parse al) destination0) (\<lambda>destination.
     let (host, port) = split_host_port_once source;
         location = JObject ([(''host'', JString host), (''mode'', JString ''glob'')]
           @ (case port of Some p \<Rightarrow> [(''port'', JNumber (PosInt (ucast p)))] | None \<Rightarrow> []));
         payload = JObject [(''id'', JString []),
           (''name'', JString (case name of Some n \<Rightarrow> n | None \<Rightarrow> ''Map '' @ source @ '' to '' @ destination)),
           (''enabled'', JBool True), (''location'', location), (''destination'', JString destination)]
     in bind_sum (validate_action_route ''POST'' ''/admin/map-remote-rules'' payload) (\<lambda>route.
          Inr (new_action route (''Map all traffic from '' @ source @ '' to '' @ destination)
            ''/admin/map-remote-rules'' ''POST'' payload))))"

definition propose_map_remote_action :: "'w action_lib \<Rightarrow> json \<Rightarrow> string + assistant_action" where
  "propose_map_remote_action al args =
     (case Option.bind (payload_get args ''source_host'') json_text of
        None \<Rightarrow> Inl ''propose_map_remote requires source_host''
      | Some source \<Rightarrow> (case Option.bind (payload_get args ''destination'') json_text of
          None \<Rightarrow> Inl ''propose_map_remote requires destination''
        | Some destination \<Rightarrow> build_map_remote_action al source destination
            (case Option.bind (payload_get args ''name'') json_text of
               Some n \<Rightarrow> if trim_str n = [] then None else Some n | None \<Rightarrow> None)))"

section \<open>Preconditions\<close>

fun canonicalize_value :: "json \<Rightarrow> json" where
  "canonicalize_value (JObject kvs) = JObject (sort_key fst (map (\<lambda>(k, v). (k, canonicalize_value v)) kvs))"
| "canonicalize_value (JArray items) = JArray (map canonicalize_value items)"
| "canonicalize_value v = v"

definition stable_value_hash :: "'w action_lib \<Rightarrow> json \<Rightarrow> string" where
  "stable_value_hash al v = al_digest al (canonicalize_value v)"

definition action_state_precondition :: "'w action_lib \<Rightarrow> string \<Rightarrow> json \<Rightarrow> string \<Rightarrow> action_precondition" where
  "action_state_precondition al resource v message =
     \<lparr>ap_resource = resource, ap_expected_hash = stable_value_hash al v, ap_message = message\<rparr>"

section \<open>The state\<close>

record admin_tables =
  tb_throttling :: throttling_config
  tb_capture :: capture_filter_config
  tb_dns :: dns_overrides
  tb_rule_sets :: "rewrite_rule_set list"
  tb_map_remote :: "map_remote_rule list"
  tb_map_local :: "map_local_rule list"
  tb_access :: "access_rule list"
  tb_breakpoints :: "bp_rule list"
  tb_mock :: "mock_rule list"
  tb_scripts :: "lua_script list"
  tb_webhooks :: "webhook_config list"
  tb_upstream :: "string option"

record 'w admin_state =
  ad_live :: admin_tables
  ad_disk :: admin_tables
  ad_world :: 'w

type_synonym executed = "(string + json \<times> string list) or_panic"

definition optional_text :: "string option \<Rightarrow> json" where
  "optional_text s = (case s of Some t \<Rightarrow> JString t | None \<Rightarrow> JNull)"

definition upstream_state :: "'w action_lib \<Rightarrow> 'w admin_state \<Rightarrow> json" where
  "upstream_state al st = JObject [(''upstream_proxy'',
     optional_text (effective_upstream_proxy (tb_upstream (ad_disk st)) (al_configured_proxy al)))]"

fun validate_action_preconditions :: "'w action_lib \<Rightarrow> 'w admin_state \<Rightarrow> action_precondition list \<Rightarrow> string + unit" where
  "validate_action_preconditions al st [] = Inr ()"
| "validate_action_preconditions al st (p # ps) =
     bind_sum (if ap_resource p = ''capture_filter'' then Inr (al_show_capture al (tb_capture (ad_live st)))
        else if ap_resource p = ''dns'' then Inr (al_show_dns al (tb_dns (ad_live st)))
        else if ap_resource p = ''throttling'' then Inr (al_show_throttling al (tb_throttling (ad_live st)))
        else if ap_resource p = ''upstream_proxy'' then Inr (upstream_state al st)
        else Inl (''assistant action precondition references unsupported resource '' @ Workspace.quoted (ap_resource p)))
     (\<lambda>current.
        if stable_value_hash al current \<noteq> ap_expected_hash p
        then Inl (''assistant action precondition failed: '' @ ap_message p)
        else validate_action_preconditions al st ps)"

section \<open>Execution\<close>

definition ok_json :: json where
  "ok_json = JObject [(''ok'', JBool True)]"

text \<open>The change in memory, the save, and then the reply: a failed save leaves the change in memory.\<close>

definition stored_table ::
    "(admin_tables \<Rightarrow> admin_tables) \<Rightarrow> string option \<Rightarrow> json or_panic \<Rightarrow> string list \<Rightarrow> 'w admin_state \<Rightarrow> executed \<times> 'w admin_state" where
  "stored_table put io reply resources st =
     (let st1 = st\<lparr>ad_live := put (ad_live st), ad_disk := (if io = None then put (ad_disk st) else ad_disk st)\<rparr>
      in case io of
           Some e \<Rightarrow> (Returns (Inl e), st1)
         | None \<Rightarrow> (bind_panic reply (\<lambda>r. Returns (Inr (r, resources))), st1))"

definition refused :: "string \<Rightarrow> 'w admin_state \<Rightarrow> executed \<times> 'w admin_state" where
  "refused e st = (Returns (Inl e), st)"

text \<open>The tables whose rules get their identifier from the server.\<close>

definition mutate_collection ::
    "(json \<Rightarrow> string + 'r) \<Rightarrow> ('r \<Rightarrow> json) \<Rightarrow> ('r \<Rightarrow> string) \<Rightarrow> (string \<Rightarrow> 'r \<Rightarrow> 'r) \<Rightarrow> string \<Rightarrow> assistant_action \<Rightarrow>
     string \<Rightarrow> string \<Rightarrow> 'r list \<Rightarrow> string + (json \<times> string list) \<times> 'r list" where
  "mutate_collection dec render rid set_id new_id a base resource items =
     (let resources = action_refresh_resources a [resource]
      in if aa_endpoint a = base \<and> aa_method a = ''POST''
         then bind_sum (from_payload dec (aa_payload a)) (\<lambda>item.
                Inr ((render (set_id new_id item), resources), items @ [set_id new_id item]))
         else case path_id (aa_endpoint a) base of
           None \<Rightarrow> Inl (resource @ '' item endpoint is invalid'')
         | Some i \<Rightarrow>
             if aa_method a = ''PUT''
             then bind_sum (from_payload dec (aa_payload a)) (\<lambda>replacement.
                    case update_first (\<lambda>r. rid r = i) (\<lambda>_. set_id i replacement) items of
                      None \<Rightarrow> Inl (resource @ '' item not found'')
                    | Some items' \<Rightarrow> Inr ((ok_json, resources), items'))
             else if aa_method a = ''DELETE''
             then (let items' = filter (\<lambda>r. rid r \<noteq> i) items
                   in if length items' = length items then Inl (resource @ '' item not found'')
                      else Inr ((ok_json, resources), items'))
             else Inl (''unsupported '' @ resource @ '' method''))"

definition store_collection ::
    "('r list \<Rightarrow> admin_tables \<Rightarrow> admin_tables) \<Rightarrow> string option \<Rightarrow> string + (json \<times> string list) \<times> 'r list \<Rightarrow>
     'w admin_state \<Rightarrow> executed \<times> 'w admin_state" where
  "store_collection put io result st = (case result of
     Inl e \<Rightarrow> refused e st
   | Inr ((reply, resources), items) \<Rightarrow> stored_table (put items) io (Returns reply) resources st)"

definition execute_dns_item :: "string option \<Rightarrow> assistant_action \<Rightarrow> 'w admin_state \<Rightarrow> executed \<times> 'w admin_state" where
  "execute_dns_item io a st = (case strip_prefix (aa_endpoint a) ''/admin/dns/'' of
     None \<Rightarrow> refused ''DNS collection replacement is handled as a direct action'' st
   | Some i \<Rightarrow>
       if aa_method a \<noteq> ''DELETE'' then refused ''DNS item endpoint supports DELETE only'' st
       else if tb_dns (ad_live st) i = None then refused ''DNS override not found'' st
       else stored_table (\<lambda>t. t\<lparr>tb_dns := (tb_dns (ad_live st))(i := None)\<rparr>) io (Returns ok_json)
              (action_refresh_resources a [''dns'']) st)"

definition execute_breakpoint_action ::
    "'w action_lib \<Rightarrow> string option \<Rightarrow> string \<Rightarrow> assistant_action \<Rightarrow> 'w admin_state \<Rightarrow> executed \<times> 'w admin_state" where
  "execute_breakpoint_action al io new_id a st =
     (let rules = tb_breakpoints (ad_live st);
          resources = action_refresh_resources a [''breakpoints''];
          store = (\<lambda>rules' reply. stored_table (\<lambda>t. t\<lparr>tb_breakpoints := rules'\<rparr>) io (Returns reply) resources st)
      in if aa_endpoint a = ''/admin/breakpoints'' \<and> aa_method a = ''POST''
         then (case from_payload (al_breakpoint al) (aa_payload a) of
                 Inl e \<Rightarrow> refused e st
               | Inr rule \<Rightarrow> store (rules @ [rule\<lparr>br_id := new_id\<rparr>]) (al_show_breakpoint al (rule\<lparr>br_id := new_id\<rparr>)))
         else case path_id (aa_endpoint a) ''/admin/breakpoints'' of
           None \<Rightarrow> refused ''unsupported breakpoint action'' st
         | Some i \<Rightarrow>
             if aa_method a = ''PUT''
             then (case from_payload (al_breakpoint al) (aa_payload a) of
                     Inl e \<Rightarrow> refused e st
                   | Inr rule \<Rightarrow> (case replace_rule rules i (rule\<lparr>br_id := i\<rparr>) of
                       None \<Rightarrow> refused ''breakpoint not found'' st
                     | Some rules' \<Rightarrow> store rules' ok_json))
             else if aa_method a = ''DELETE'' then store (filter (\<lambda>r. br_id r \<noteq> i) rules) ok_json
             else refused ''unsupported breakpoint method'' st)"

text \<open>Mock rules, scripts and webhooks keep the identifier a payload brings along.\<close>

definition kept_or_new :: "string \<Rightarrow> string \<Rightarrow> string" where
  "kept_or_new given new_id = (if given = [] then new_id else given)"

definition execute_mock_action ::
    "'w action_lib \<Rightarrow> string option \<Rightarrow> string \<Rightarrow> assistant_action \<Rightarrow> 'w admin_state \<Rightarrow> executed \<times> 'w admin_state" where
  "execute_mock_action al io new_id a st =
     (let rules = tb_mock (ad_live st);
          resources = action_refresh_resources a [''mock''];
          store = (\<lambda>rules' reply. stored_table (\<lambda>t. t\<lparr>tb_mock := rules'\<rparr>) io (Returns reply) resources st)
      in if aa_endpoint a = ''/admin/mock/rules'' \<and> aa_method a = ''POST''
         then (case from_payload (al_mock al) (aa_payload a) of
                 Inl e \<Rightarrow> refused e st
               | Inr rule \<Rightarrow> (let saved = rule\<lparr>mo_id := kept_or_new (mo_id rule) new_id\<rparr>
                   in store (rules @ [saved]) (al_show_mock al saved)))
         else case path_id (aa_endpoint a) ''/admin/mock/rules'' of
           None \<Rightarrow> refused ''unsupported mock action'' st
         | Some i \<Rightarrow>
             if aa_method a = ''PUT''
             then (case from_payload (al_mock al) (aa_payload a) of
                     Inl e \<Rightarrow> refused e st
                   | Inr updated \<Rightarrow> (case update_first (\<lambda>r. mo_id r = i)
                         (\<lambda>slot. updated\<lparr>mo_id := i, mo_call_count := mo_call_count slot\<rparr>) rules of
                       None \<Rightarrow> refused ''mock rule not found'' st
                     | Some rules' \<Rightarrow> store rules' ok_json))
             else if aa_method a = ''DELETE''
             then (let rules' = filter (\<lambda>r. mo_id r \<noteq> i) rules
                   in if length rules' = length rules then refused ''mock rule not found'' st else store rules' ok_json)
             else refused ''unsupported mock rule method'' st)"

definition execute_script_action ::
    "'w action_lib \<Rightarrow> string option \<Rightarrow> string \<Rightarrow> assistant_action \<Rightarrow> 'w admin_state \<Rightarrow> executed \<times> 'w admin_state" where
  "execute_script_action al io new_id a st =
     (let scripts = tb_scripts (ad_live st);
          resources = action_refresh_resources a [''scripts''];
          store = (\<lambda>scripts' reply. stored_table (\<lambda>t. t\<lparr>tb_scripts := scripts'\<rparr>) io reply resources st)
      in if aa_endpoint a = ''/admin/scripts'' \<and> aa_method a = ''POST''
         then (case from_payload (al_script al) (aa_payload a) of
                 Inl e \<Rightarrow> refused e st
               | Inr script \<Rightarrow> (let saved = script\<lparr>ls_id := kept_or_new (ls_id script) new_id\<rparr>
                   in store (scripts @ [saved]) (redact_value (al_show_script al saved))))
         else case path_id (aa_endpoint a) ''/admin/scripts'' of
           None \<Rightarrow> refused ''unsupported script action'' st
         | Some i \<Rightarrow>
             if aa_method a = ''PUT''
             then (case from_payload (al_script al) (aa_payload a) of
                     Inl e \<Rightarrow> refused e st
                   | Inr updated \<Rightarrow> (case update_first (\<lambda>s. ls_id s = i) (\<lambda>_. updated\<lparr>ls_id := i\<rparr>) scripts of
                       None \<Rightarrow> refused ''script not found'' st
                     | Some scripts' \<Rightarrow> store scripts' (Returns ok_json)))
             else if aa_method a = ''DELETE''
             then (let scripts' = filter (\<lambda>s. ls_id s \<noteq> i) scripts
                   in if length scripts' = length scripts then refused ''script not found'' st else store scripts' (Returns ok_json))
             else refused ''unsupported script method'' st)"

text \<open>The checks of the webhook endpoints, with their messages.\<close>

definition validate_webhook :: "'w action_lib \<Rightarrow> webhook_config \<Rightarrow> string + webhook_config" where
  "validate_webhook al hook0 =
     (let hook = hook0\<lparr>wh_events := sanitize_webhook_events (wh_events hook0)\<rparr>
      in if wh_events hook = [] then Inl ''webhook must include request_captured or response_captured''
         else case al_url_parse al (wh_url hook) of
           Inl e \<Rightarrow> Inl (''invalid webhook URL: '' @ e)
         | Inr u \<Rightarrow>
             if url_scheme u \<notin> {''http'', ''https''} then Inl (''unsupported webhook URL scheme: '' @ url_scheme u)
             else bind_sum (enforce_admin_egress_policy (al_lookup al) u (al_egress_policy al)) (\<lambda>_. Inr hook))"

definition execute_webhook_action ::
    "'w action_lib \<Rightarrow> string option \<Rightarrow> string \<Rightarrow> assistant_action \<Rightarrow> 'w admin_state \<Rightarrow> executed \<times> 'w admin_state" where
  "execute_webhook_action al io new_id a st =
     (let hooks = tb_webhooks (ad_live st);
          resources = action_refresh_resources a [''webhooks''];
          store = (\<lambda>hooks' reply. stored_table (\<lambda>t. t\<lparr>tb_webhooks := hooks'\<rparr>) io reply resources st);
          decoded = bind_sum (from_payload (al_webhook al) (aa_payload a)) (validate_webhook al)
      in if aa_endpoint a = ''/admin/webhooks'' \<and> aa_method a = ''POST''
         then (case decoded of
                 Inl e \<Rightarrow> refused e st
               | Inr hook \<Rightarrow> (let saved = hook\<lparr>wh_id := kept_or_new (wh_id hook) new_id\<rparr>
                   in store (hooks @ [saved]) (redact_value (al_show_webhook al saved))))
         else case path_id (aa_endpoint a) ''/admin/webhooks'' of
           None \<Rightarrow> refused ''assistant action endpoint is not executable'' st
         | Some i \<Rightarrow>
             if aa_method a = ''PUT''
             then (case decoded of
                     Inl e \<Rightarrow> refused e st
                   | Inr updated \<Rightarrow> (case update_first (\<lambda>h. wh_id h = i) (\<lambda>_. updated\<lparr>wh_id := i\<rparr>) hooks of
                       None \<Rightarrow> refused ''webhook not found'' st
                     | Some hooks' \<Rightarrow> store hooks' (Returns ok_json)))
             else if aa_method a = ''DELETE''
             then (let hooks' = filter (\<lambda>h. wh_id h \<noteq> i) hooks
                   in if length hooks' = length hooks then refused ''webhook not found'' st else store hooks' (Returns ok_json))
             else refused ''unsupported webhook method'' st)"

definition execute_collection_action ::
    "'w action_lib \<Rightarrow> string option \<Rightarrow> string \<Rightarrow> assistant_action \<Rightarrow> 'w admin_state \<Rightarrow> executed \<times> 'w admin_state" where
  "execute_collection_action al io new_id a st =
     (case action_route_contract (aa_method a) (aa_endpoint a) of
        Inl e \<Rightarrow> refused e st
      | Inr route \<Rightarrow>
          if rt_kind route = ''dns'' then execute_dns_item io a st
          else if rt_kind route = ''rule-sets''
          then store_collection (\<lambda>v t. t\<lparr>tb_rule_sets := v\<rparr>) io (mutate_collection (al_rule_set al) (al_show_rule_set al)
                 rw_id (\<lambda>i r. r\<lparr>rw_id := i\<rparr>) new_id a ''/admin/rule-sets'' ''rule_sets'' (tb_rule_sets (ad_live st))) st
          else if rt_kind route = ''map-remote-rules''
          then store_collection (\<lambda>v t. t\<lparr>tb_map_remote := v\<rparr>) io (mutate_collection (al_map_remote al) (al_show_map_remote al)
                 mr_id (\<lambda>i r. r\<lparr>mr_id := i\<rparr>) new_id a ''/admin/map-remote-rules'' ''map_remote'' (tb_map_remote (ad_live st))) st
          else if rt_kind route = ''map-local-rules''
          then store_collection (\<lambda>v t. t\<lparr>tb_map_local := v\<rparr>) io (mutate_collection (al_map_local al) (al_show_map_local al)
                 ml_id (\<lambda>i r. r\<lparr>ml_id := i\<rparr>) new_id a ''/admin/map-local-rules'' ''map_local'' (tb_map_local (ad_live st))) st
          else if rt_kind route = ''access-rules''
          then store_collection (\<lambda>v t. t\<lparr>tb_access := v\<rparr>) io (mutate_collection (al_access al) (al_show_access al)
                 ar_id (\<lambda>i r. r\<lparr>ar_id := i\<rparr>) new_id a ''/admin/access-rules'' ''access'' (tb_access (ad_live st))) st
          else if rt_kind route = ''breakpoints'' then execute_breakpoint_action al io new_id a st
          else if rt_kind route = ''mock'' then execute_mock_action al io new_id a st
          else if rt_kind route = ''scripts'' then execute_script_action al io new_id a st
          else if rt_kind route = ''webhooks'' then execute_webhook_action al io new_id a st
          else refused ''assistant action endpoint is not executable'' st)"

definition execute_forward_action ::
    "'w action_lib \<Rightarrow> assistant_action \<Rightarrow> 'w admin_state \<Rightarrow> executed \<times> 'w admin_state" where
  "execute_forward_action al a st = (case from_payload (al_forward_req al) (aa_payload a) of
     Inl e \<Rightarrow> refused e st
   | Inr req \<Rightarrow>
       (case al_forward al \<lparr>fq_kind = (if af_grpc req then Fwd_Grpc else Fwd_Http), fq_method = af_method req,
            fq_url = af_url req, fq_headers = af_headers req, fq_body = af_body req, fq_note = None, fq_tags = None,
            fq_apply_proxy_rules = af_apply_proxy_rules req\<rparr> (ad_world st) of
          (result, w) \<Rightarrow>
            ((case result of
                Inl failure \<Rightarrow> bind_panic (redact_string (case failure of
                    Fwd_Bad_Request e \<Rightarrow> e | Fwd_Egress_Blocked e \<Rightarrow> e | Fwd_Upstream e \<Rightarrow> e)) (\<lambda>e. Returns (Inl e))
              | Inr resp \<Rightarrow> bind_panic (redact_value (al_show_forward al resp)) (\<lambda>r.
                  Returns (Inr (r, action_refresh_resources a [''sessions''])))),
             st\<lparr>ad_world := w\<rparr>)))"

definition execute_forward_websocket_action ::
    "'w action_lib \<Rightarrow> assistant_action \<Rightarrow> 'w admin_state \<Rightarrow> executed \<times> 'w admin_state" where
  "execute_forward_websocket_action al a st = (case from_payload (al_forward_ws_req al) (aa_payload a) of
     Inl e \<Rightarrow> refused e st
   | Inr req \<Rightarrow>
       (case al_forward_ws al req (ad_world st) of
          (result, w) \<Rightarrow>
            ((case result of
                Inr resp \<Rightarrow> bind_panic (redact_value (al_show_forward_ws al resp)) (\<lambda>r.
                  Returns (Inr (r, action_refresh_resources a [''sessions''])))
              | Inl (Ws_Bad_Request e) \<Rightarrow> Returns (Inl e)
              | Inl (Ws_Egress_Blocked e) \<Rightarrow> Returns (Inl e)
              | Inl (Ws_Upstream sid e) \<Rightarrow> bind_panic (redact_string e) (\<lambda>e.
                  Returns (Inl (e @ '' (recorded as session '' @ sid @ '')'')))),
             st\<lparr>ad_world := w\<rparr>)))"

definition execute_upstream_proxy :: "'w action_lib \<Rightarrow> string option \<Rightarrow> assistant_action \<Rightarrow> 'w admin_state \<Rightarrow> executed \<times> 'w admin_state" where
  "execute_upstream_proxy al io a st =
     (let url = (case Option.bind (payload_get (aa_payload a) ''upstream_proxy'') json_text of
            Some s \<Rightarrow> if trim_str s = [] then None else Some (trim_str s) | None \<Rightarrow> None)
      in if (case url of Some u \<Rightarrow> \<not> al_proxy_ok al u | None \<Rightarrow> False) then refused ''invalid proxy URL'' st
         else case io of
           Some e \<Rightarrow> refused e st
         | None \<Rightarrow> (Returns (Inr (JObject [(''ok'', JBool True), (''upstream_proxy'', optional_text url)],
               action_refresh_resources a [''upstream_proxy''])),
             st\<lparr>ad_live := (ad_live st)\<lparr>tb_upstream := url\<rparr>, ad_disk := (ad_disk st)\<lparr>tb_upstream := url\<rparr>\<rparr>))"

definition replace_value ::
    "(json \<Rightarrow> string + 'a) \<Rightarrow> ('a \<Rightarrow> admin_tables \<Rightarrow> admin_tables) \<Rightarrow> string option \<Rightarrow> string \<Rightarrow> assistant_action \<Rightarrow>
     'w admin_state \<Rightarrow> executed \<times> 'w admin_state" where
  "replace_value dec put io resource a st = (case from_payload dec (aa_payload a) of
     Inl e \<Rightarrow> refused e st
   | Inr v \<Rightarrow> stored_table (put v) io (Returns ok_json) (action_refresh_resources a [resource]) st)"

definition on_sessions :: "('w \<Rightarrow> 'w) \<Rightarrow> assistant_action \<Rightarrow> 'w admin_state \<Rightarrow> executed \<times> 'w admin_state" where
  "on_sessions f a st =
     (Returns (Inr (ok_json, action_refresh_resources a [''sessions''])), st\<lparr>ad_world := f (ad_world st)\<rparr>)"

definition dispatch_action ::
    "'w action_lib \<Rightarrow> string option \<Rightarrow> string \<Rightarrow> assistant_action \<Rightarrow> 'w admin_state \<Rightarrow> executed \<times> 'w admin_state" where
  "dispatch_action al io new_id a st =
     (let direct = (\<lambda>method endpoint. aa_method a = method \<and> aa_endpoint a = endpoint)
      in if direct ''POST'' ''/admin/throttling''
         then replace_value (al_throttling al) (\<lambda>v t. t\<lparr>tb_throttling := v\<rparr>) io ''throttling'' a st
         else if direct ''POST'' ''/admin/capture-filter''
         then replace_value (al_capture al) (\<lambda>v t. t\<lparr>tb_capture := v\<rparr>) io ''capture_filter'' a st
         else if direct ''POST'' ''/admin/dns'' then replace_value (al_dns al) (\<lambda>v t. t\<lparr>tb_dns := v\<rparr>) io ''dns'' a st
         else if direct ''POST'' ''/admin/upstream-proxy'' then execute_upstream_proxy al io a st
         else if direct ''DELETE'' ''/admin/sessions'' then on_sessions (al_clear_sessions al) a st
         else if direct ''POST'' ''/admin/playback'' then on_sessions (al_start_playback al) a st
         else if direct ''POST'' ''/admin/forward'' then execute_forward_action al a st
         else if direct ''POST'' ''/admin/forward/websocket'' then execute_forward_websocket_action al a st
         else execute_collection_action al io new_id a st)"

definition execute_action_payload ::
    "'w action_lib \<Rightarrow> string option \<Rightarrow> string \<Rightarrow> assistant_action \<Rightarrow> 'w admin_state \<Rightarrow> executed \<times> 'w admin_state" where
  "execute_action_payload al io new_id a st =
     (case bind_sum (validate_action_route (aa_method a) (aa_endpoint a) (aa_payload a)) (\<lambda>_.
           bind_sum (validate_action_preconditions al st (aa_preconditions a)) (\<lambda>_.
           bind_sum (normalize_action_payload (aa_method a) (aa_endpoint a) (aa_payload a) (aa_summary a)) (\<lambda>payload.
           bind_sum (validate_action_payload_shape al (aa_method a) (aa_endpoint a) payload) (\<lambda>_. Inr payload)))) of
        Inl e \<Rightarrow> refused e st
      | Inr payload \<Rightarrow> dispatch_action al io new_id (a\<lparr>aa_payload := payload\<rparr>) st)"

section \<open>An action changes only what its endpoint stands for\<close>

definition agree_outside :: "string list \<Rightarrow> admin_tables \<Rightarrow> admin_tables \<Rightarrow> bool" where
  "agree_outside rs t t' \<longleftrightarrow>
     (''throttling'' \<in> set rs \<or> tb_throttling t' = tb_throttling t)
   \<and> (''capture_filter'' \<in> set rs \<or> tb_capture t' = tb_capture t)
   \<and> (''dns'' \<in> set rs \<or> tb_dns t' = tb_dns t)
   \<and> (''rule_sets'' \<in> set rs \<or> tb_rule_sets t' = tb_rule_sets t)
   \<and> (''map_remote'' \<in> set rs \<or> tb_map_remote t' = tb_map_remote t)
   \<and> (''map_local'' \<in> set rs \<or> tb_map_local t' = tb_map_local t)
   \<and> (''access'' \<in> set rs \<or> tb_access t' = tb_access t)
   \<and> (''breakpoints'' \<in> set rs \<or> tb_breakpoints t' = tb_breakpoints t)
   \<and> (''mock'' \<in> set rs \<or> tb_mock t' = tb_mock t)
   \<and> (''scripts'' \<in> set rs \<or> tb_scripts t' = tb_scripts t)
   \<and> (''webhooks'' \<in> set rs \<or> tb_webhooks t' = tb_webhooks t)
   \<and> (''upstream_proxy'' \<in> set rs \<or> tb_upstream t' = tb_upstream t)"

definition confined :: "string list \<Rightarrow> 'w admin_state \<Rightarrow> 'w admin_state \<Rightarrow> bool" where
  "confined rs st st' \<longleftrightarrow> agree_outside rs (ad_live st) (ad_live st') \<and> agree_outside rs (ad_disk st) (ad_disk st')
     \<and> (''sessions'' \<in> set rs \<or> ad_world st' = ad_world st)"

named_theorems confined_intro

lemma agree_refl [simp]: "agree_outside rs t t"
  by (simp add: agree_outside_def)

lemma confined_refl [simp]: "confined rs st st"
  by (simp add: confined_def)

lemma confined_refused [simp]: "confined rs st (snd (refused e st))"
  by (simp add: refused_def)

lemma confined_stored [confined_intro]:
  "(\<And>t. agree_outside rs t (put t)) \<Longrightarrow> confined rs st (snd (stored_table put io reply res st))"
  by (simp add: confined_def stored_table_def Let_def split: option.split)

lemma confined_collection [confined_intro]:
  "(\<And>v t. agree_outside rs t (put v t)) \<Longrightarrow> confined rs st (snd (store_collection put io result st))"
  by (auto simp: store_collection_def intro!: confined_stored split: sum.split)

lemma confined_replace [confined_intro]:
  "(\<And>v t. agree_outside rs t (put v t)) \<Longrightarrow> confined rs st (snd (replace_value dec put io resource a st))"
  by (auto simp: replace_value_def intro!: confined_stored split: sum.split)

lemma confined_dns_item: "confined [''dns''] st (snd (execute_dns_item io a st))"
  by (auto simp: execute_dns_item_def agree_outside_def intro!: confined_stored split: option.split)

lemma confined_breakpoint: "confined [''breakpoints''] st (snd (execute_breakpoint_action al io i a st))"
  by (auto simp: execute_breakpoint_action_def agree_outside_def Let_def intro!: confined_stored split: option.split sum.split)

lemma confined_mock: "confined [''mock''] st (snd (execute_mock_action al io i a st))"
  by (auto simp: execute_mock_action_def agree_outside_def Let_def intro!: confined_stored split: option.split sum.split)

lemma confined_script: "confined [''scripts''] st (snd (execute_script_action al io i a st))"
  by (auto simp: execute_script_action_def agree_outside_def Let_def intro!: confined_stored split: option.split sum.split)

lemma confined_webhook: "confined [''webhooks''] st (snd (execute_webhook_action al io i a st))"
  by (auto simp: execute_webhook_action_def agree_outside_def Let_def intro!: confined_stored split: option.split sum.split)

lemma confined_upstream: "confined [''upstream_proxy''] st (snd (execute_upstream_proxy al io a st))"
  by (simp add: execute_upstream_proxy_def refused_def confined_def agree_outside_def Let_def split: option.split)

lemma confined_sessions:
  "confined [''sessions''] st (snd (execute_forward_action al a st))"
  "confined [''sessions''] st (snd (execute_forward_websocket_action al a st))"
  "confined [''sessions''] st (snd (on_sessions f a st))"
  by (simp_all add: execute_forward_action_def execute_forward_websocket_action_def on_sessions_def confined_def refused_def
      split: sum.split prod.split)

text \<open>The kind of a route names the resource it refreshes.\<close>

lemma first_contract_member: "first_contract cs endpoint = Some (c, item) \<Longrightarrow> c \<in> set cs"
  by (induction cs endpoint rule: first_contract.induct) (auto split: option.splits)

lemma route_resource:
  assumes "action_route_contract m e = Inr r"
  shows "(rt_kind r, rt_refreshed_resources r) \<in> set (map (\<lambda>c. (ec_kind c, [ec_refreshed_resource c])) action_endpoint_contracts)"
  using assms by (auto simp: action_route_contract_def Let_def split: option.splits
      dest!: first_contract_member intro!: image_eqI [OF refl])

lemma refreshed_of_route: "action_route_contract m e = Inr r \<Longrightarrow> refreshed_resources_for_action m e = rt_refreshed_resources r"
  by (simp add: refreshed_resources_for_action_def)

lemma kind_resource:
  "action_route_contract m e = Inr r \<Longrightarrow> rt_kind r = kind \<Longrightarrow>
   refreshed_resources_for_action m e
     = the (map_of (map (\<lambda>c. (ec_kind c, [ec_refreshed_resource c])) action_endpoint_contracts) kind)"
  using route_resource [of m e r] refreshed_of_route [of m e r]
  by (auto simp: action_endpoint_contracts_def id_collection_def singleton_endpoint_def)

lemma confined_collections:
  "confined (refreshed_resources_for_action (aa_method a) (aa_endpoint a)) st (snd (execute_collection_action al io i a st))"
proof (cases "action_route_contract (aa_method a) (aa_endpoint a)")
  case (Inr r)
  note kinds = kind_resource [OF Inr refl]
  show ?thesis
    unfolding execute_collection_action_def Inr sum.case kinds
    by (auto simp: action_endpoint_contracts_def id_collection_def singleton_endpoint_def agree_outside_def
        intro!: confined_collection confined_dns_item confined_breakpoint confined_mock confined_script confined_webhook)
qed (simp add: execute_collection_action_def)

lemma refreshed_direct:
  "refreshed_resources_for_action ''POST'' ''/admin/throttling'' = [''throttling'']"
  "refreshed_resources_for_action ''POST'' ''/admin/capture-filter'' = [''capture_filter'']"
  "refreshed_resources_for_action ''POST'' ''/admin/dns'' = [''dns'']"
  "refreshed_resources_for_action ''POST'' ''/admin/upstream-proxy'' = [''upstream_proxy'']"
  "refreshed_resources_for_action ''DELETE'' ''/admin/sessions'' = [''sessions'']"
  "refreshed_resources_for_action ''POST'' ''/admin/playback'' = [''sessions'']"
  "refreshed_resources_for_action ''POST'' ''/admin/forward'' = [''sessions'']"
  "refreshed_resources_for_action ''POST'' ''/admin/forward/websocket'' = [''sessions'']"
  by code_simp+

lemma confined_dispatch:
  "confined (refreshed_resources_for_action (aa_method a) (aa_endpoint a)) st (snd (dispatch_action al io i a st))"
  unfolding dispatch_action_def Let_def
  by (auto simp: refreshed_direct agree_outside_def confined_collections
      intro!: confined_replace confined_upstream confined_sessions)


text \<open>An endpoint that is not listed names no resource.\<close>

lemma unlisted_endpoint_changes_nothing:
  "action_route_contract (aa_method a) (aa_endpoint a) = Inl e \<Longrightarrow>
   execute_action_payload al io new_id a st = (Returns (Inl e), st)"
  by (simp add: execute_action_payload_def validate_action_route_def refused_def)

text \<open>Mock rules, scripts and webhooks keep an identifier the payload brings, also one that is taken.\<close>

lemma assistant_mock_id_kept:
  assumes "al_mock al (aa_payload a) = Inr rule" "mo_id rule \<noteq> []" "aa_endpoint a = ''/admin/mock/rules''" "aa_method a = ''POST''"
  shows "tb_mock (ad_live (snd (execute_mock_action al io new_id a st))) = tb_mock (ad_live st) @ [rule]"
  using assms by (simp add: execute_mock_action_def from_payload_def kept_or_new_def stored_table_def Let_def split: option.split)

text \<open>Deleting a breakpoint that does not exist succeeds.\<close>

lemma missing_breakpoint_deleted:
  assumes "path_id (aa_endpoint a) ''/admin/breakpoints'' = Some i" "aa_method a = ''DELETE''"
  shows "fst (execute_breakpoint_action al None new_id a st)
    = Returns (Inr (ok_json, action_refresh_resources a [''breakpoints'']))"
  using assms by (simp add: execute_breakpoint_action_def stored_table_def Let_def path_id_def)

section \<open>What is executed is what was confirmed\<close>

lemma has_key_append [simp]: "has_key (m @ n) k \<longleftrightarrow> has_key m k \<or> has_key n k"
  by (auto simp: has_key_def)

lemma has_key_single [simp]: "has_key [(k', v)] k \<longleftrightarrow> k' = k"
  by (auto simp: has_key_def)

definition repaired :: "json_object \<Rightarrow> bool" where
  "repaired m \<longleftrightarrow> repair_assistant_payload (JObject m) = JObject m"

lemma repaired_append [simp]: "repaired (m @ n) \<longleftrightarrow> repaired m \<and> repaired n"
  by (simp add: repaired_def map_eq_conv append_eq_append_conv)

lemma plain_keys:
  "\<not> is_array_field ''id''" "\<not> is_numeric_field ''id''" "\<not> is_boolean_field ''id''"
  "\<not> is_array_field ''name''" "\<not> is_numeric_field ''name''" "\<not> is_boolean_field ''name''"
  "\<not> is_array_field ''enabled''" "\<not> is_numeric_field ''enabled''"
  "\<not> is_array_field ''location''" "\<not> is_numeric_field ''location''" "\<not> is_boolean_field ''location''"
  by (simp_all add: is_array_field_def is_numeric_field_def is_boolean_field_def)

lemma repaired_default [simp]:
  "repaired [(''id'', JString i)]" "repaired [(''enabled'', JBool b)]" "repaired [(''name'', JString s)]"
  "repaired [(''location'', JObject [])]"
  by (simp_all only: repaired_def repair_assistant_payload.simps list.map prod.case repair_field_def plain_keys
      boolean_string_as_json_bool_def json.case simp_thms if_False)

lemma repaired_defaults: "repaired m \<Longrightarrow> repaired (rule_defaults s i m)"
  by (simp add: rule_defaults_def ensure_location_def ensure_rule_name_def ensure_object_field_def)

lemma ensured:
  "has_key (ensure_object_field k v m) k"
  "has_key m k' \<Longrightarrow> has_key (ensure_object_field k v m) k'"
  "has_key (ensure_rule_name s m) ''name'' \<or> has_key (ensure_rule_name s m) ''bp_type''"
  "has_key m k' \<Longrightarrow> has_key (ensure_rule_name s m) k'"
  "has_key (ensure_location m) ''location'' \<or> has_key (ensure_location m) ''url'' \<or> has_key (ensure_location m) ''code''"
  "has_key m k' \<Longrightarrow> has_key (ensure_location m) k'"
  by (simp_all add: ensure_object_field_def ensure_rule_name_def ensure_location_def)

lemma ensured_idle:
  "has_key m k \<Longrightarrow> ensure_object_field k v m = m"
  "has_key m ''name'' \<or> has_key m ''bp_type'' \<Longrightarrow> ensure_rule_name s m = m"
  "has_key m ''location'' \<or> has_key m ''url'' \<or> has_key m ''code'' \<Longrightarrow> ensure_location m = m"
  by (auto simp only: ensure_object_field_def ensure_rule_name_def ensure_location_def simp_thms if_True if_False)

lemma rule_defaults_idem: "rule_defaults s i (rule_defaults s i m) = rule_defaults s i m"
proof -
  define m1 where "m1 = ensure_object_field ''enabled'' (JBool True) (ensure_object_field ''id'' (JString i) m)"
  define m2 where "m2 = ensure_rule_name s m1"
  define r where "r = ensure_location m2"
  have "has_key r ''id''" "has_key r ''enabled''" unfolding r_def m2_def m1_def by (intro ensured)+
  moreover have "has_key r ''name'' \<or> has_key r ''bp_type''"
    unfolding r_def m2_def using ensured(3) [of s m1] ensured(6) by blast
  moreover have "has_key r ''location'' \<or> has_key r ''url'' \<or> has_key r ''code''"
    unfolding r_def by (rule ensured(5))
  ultimately have "rule_defaults s i r = r" unfolding rule_defaults_def by (simp only: ensured_idle)
  moreover have "rule_defaults s i m = r" unfolding rule_defaults_def r_def m2_def m1_def ..
  ultimately show ?thesis by simp
qed

lemma collection_defaults_cases:
  "(\<forall>m. collection_defaults bases method endpoint s m = m)
   \<or> (\<exists>i. \<forall>m. collection_defaults bases method endpoint s m = rule_defaults s i m)"
  by (induction bases) (auto split: option.split)

lemma normalize_idem:
  assumes "normalize_action_payload method endpoint payload s = Inr q"
  shows "normalize_action_payload method endpoint q s = Inr q"
proof (cases "method = ''DELETE'' \<or> payload = JNull")
  case True
  then show ?thesis using assms by (auto simp: normalize_action_payload_def)
next
  case False
  let ?d = "collection_defaults id_backed_collection_bases method endpoint s"
  obtain m where m: "repair_assistant_payload payload = JObject m" and q: "q = JObject (?d m)"
    using assms False by (auto simp: normalize_action_payload_def split: json.splits)
  have "repaired m" using repair_idempotent [of payload] by (simp only: repaired_def m)
  then have "repaired (?d m) \<and> ?d (?d m) = ?d m"
    using collection_defaults_cases [of id_backed_collection_bases "method" endpoint s]
    by (auto simp: repaired_defaults rule_defaults_idem)
  then show ?thesis using False by (simp add: normalize_action_payload_def q repaired_def)
qed

text \<open>C36: The payload a user confirms is the payload that is applied. The repair of what the model wrote and the
  defaults are idempotent, so the normalisation of the execution changes nothing more, and the payload still
  has the shape the proposal was checked for: for an action without preconditions that fail, execution is the
  dispatch of exactly the proposed action.\<close>

theorem confirmed_payload_applied:
  assumes "propose_action al args = Inr a"
  shows "execute_action_payload al io new_id a st = dispatch_action al io new_id a st"
proof -
  obtain e p s r q where r: "validate_action_route (aa_method a) e p = Inr r" and q: "normalize_action_payload (aa_method a) e p s = Inr q"
    and v: "validate_action_payload_shape al (aa_method a) e q = Inr ()"
    and a: "aa_endpoint a = e" "aa_payload a = q" "aa_summary a = s" "aa_preconditions a = []"
    using assms by (auto simp: propose_action_def new_action_def Let_def elim!: bindE)
  have "q = JNull \<Longrightarrow> aa_method a = ''DELETE'' \<or> p = JNull" using q by (auto simp: normalize_action_payload_def split: if_splits json.splits)
  then have "validate_action_route (aa_method a) e q = Inr r"
    using r q by (auto simp: validate_action_route_def normalize_action_payload_def split: if_splits)
  then have "execute_action_payload al io new_id a st = dispatch_action al io new_id (a\<lparr>aa_payload := q\<rparr>) st"
    using normalize_idem [OF q] v by (simp add: execute_action_payload_def a)
  moreover have "a\<lparr>aa_payload := q\<rparr> = a" using a(2) by (cases a) simp
  ultimately show ?thesis by (simp only:)
qed

definition sample_arguments :: json where
  "sample_arguments = JObject [(''method'', JString ''post''), (''endpoint'', JString ''/admin/upstream-proxy''),
     (''summary'', JString ''Proxy''), (''payload'', JObject [(''upstream_proxy'', JString ''http://p'')])]"

definition sample_action :: assistant_action where
  "sample_action = \<lparr>aa_action_id = [], aa_confirmation_token = [], aa_kind = ''upstream-proxy'', aa_summary = ''Proxy'',
     aa_risk = Risk_Mutate, aa_endpoint = ''/admin/upstream-proxy'', aa_method = ''POST'',
     aa_payload = JObject [(''upstream_proxy'', JString ''http://p'')], aa_requires_confirmation = True, aa_preconditions = []\<rparr>"

lemma sample_proposed: "propose_action al sample_arguments = Inr sample_action"
proof -
  have route: "action_route_contract ''POST'' ''/admin/upstream-proxy'' = Inr \<lparr>rt_base_path = ''/admin/upstream-proxy'',
      rt_endpoint = ''/admin/upstream-proxy'', rt_method = ''POST'', rt_kind = ''upstream-proxy'', rt_risk = Risk_Mutate,
      rt_refreshed_resources = [''upstream_proxy''], rt_shape = Singleton, rt_item_id = None\<rparr>"
    by code_simp
  have payload: "normalize_action_payload ''POST'' ''/admin/upstream-proxy'' (aa_payload sample_action) ''Proxy''
      = Inr (aa_payload sample_action)"
    by code_simp
  have given: "text_arg sample_arguments ''endpoint'' = ''/admin/upstream-proxy''"
      "text_arg sample_arguments ''method'' = ''post''" "text_arg sample_arguments ''summary'' = ''Proxy''"
      "payload_get sample_arguments ''payload'' = Some (aa_payload sample_action)"
    by (simp_all add: text_arg_def sample_arguments_def payload_get_def json_text_def sample_action_def)
  have upper: "to_ascii_uppercase ''post'' = ''POST''" by code_simp
  have trimmed: "trim_str ''Proxy'' = ''Proxy''" by (rule trim_str_all_printable) (simp add: printable_def)
  have not_null: "aa_payload sample_action \<noteq> JNull" by (simp add: sample_action_def)
  have shape: "validate_action_payload_shape al ''POST'' ''/admin/upstream-proxy'' (aa_payload sample_action) = Inr ()"
    by (simp add: validate_action_payload_shape_def sample_action_def payload_get_def)
  show ?thesis
    unfolding propose_action_def Let_def given upper trimmed option.case
    by (simp add: validate_action_route_def route payload shape not_null) (simp add: new_action_def sample_action_def)
qed

theorem confirmed_payload_applied_witness:
  "\<forall>al st. execute_action_payload al None [] sample_action st = dispatch_action al None [] sample_action st"
  using confirmed_payload_applied [OF sample_proposed] by blast

end
