(* ===== verification/AssistantTools.thy ===== *)
theory AssistantTools
  imports AssistantActions SessionViews
begin

text \<open>
  The tools the model may call (\<open>control_plane/assistant_contracts.rs\<close>, \<open>control_plane/assistant_tools.rs\<close>,
  \<open>control_plane/assistant_registry.rs\<close>): the declared contracts, the read tools with what they redact, and
  the tools that build an action to be confirmed.

  \<open>tool_lib\<close> holds the encoders of serde and the decoders of the parts of a rule; \<open>tl_config\<close> and
  \<open>tl_diagnostics\<close> stand for the configuration summary and the diagnostics of the breakpoints, which are read
  and sent as they are. The catalog of features is data of a YAML file, an argument here.
\<close>

section \<open>Contracts\<close>

datatype tool_execution = Exec_Read | Exec_Workspace | Exec_Proposal

datatype tool_risk = TR_Read | TR_Ui_Safe | TR_Ui_Sensitive | TR_Mutate | TR_Network | TR_Destructive

record tool_contract =
  tc_name :: string
  tc_category :: string
  tc_execution_kind :: tool_execution
  tc_requires_confirmation :: bool
  tc_risk :: tool_risk
  tc_refreshed_resources :: "string list"

definition read_contract :: "string \<Rightarrow> tool_contract" where
  "read_contract name = \<lparr>tc_name = name, tc_category = ''read'', tc_execution_kind = Exec_Read,
     tc_requires_confirmation = False, tc_risk = TR_Read, tc_refreshed_resources = []\<rparr>"

definition proposal_contract :: "string \<Rightarrow> string list \<Rightarrow> tool_contract" where
  "proposal_contract name refreshed = \<lparr>tc_name = name, tc_category = ''mutate'', tc_execution_kind = Exec_Proposal,
     tc_requires_confirmation = True, tc_risk = TR_Mutate, tc_refreshed_resources = refreshed\<rparr>"

definition static_tool_contracts :: "tool_contract list" where
  "static_tool_contracts =
     map read_contract [''get_feature_catalog'', ''list_sessions'', ''get_session'', ''get_config'', ''get_rules'',
       ''get_protocol_metrics'', ''get_connections'', ''get_breakpoint_diagnostics'', ''get_throttling'', ''get_dns'',
       ''get_capture_filter'', ''get_webhooks'', ''get_upstream_proxy'']
     @ [proposal_contract ''propose_map_remote'' [''rules''],
        proposal_contract ''propose_dns_override'' [''dns''],
        proposal_contract ''propose_throttling'' [''throttling''],
        proposal_contract ''propose_rewrite_rule'' [''rule_sets''],
        proposal_contract ''propose_mock_rule'' [''mock''],
        proposal_contract ''propose_access_rule'' [''access''],
        proposal_contract ''propose_capture_filter'' [''capture_filter''],
        proposal_contract ''propose_upstream_proxy'' [''upstream_proxy''],
        proposal_contract ''propose_action'' [''workspace'', ''rules'', ''sessions'', ''config'']]"

text \<open>The names under which the model sees the actions of the user interface, with their risk: of these only
  the selection of a session is sensitive.\<close>

definition workspace_tool_names :: "(string \<times> string) list" where
  "workspace_tool_names = [(''workspace_navigation_open_surface'', ''navigation.open_surface''),
     (''workspace_sessions_apply_filter'', ''sessions.apply_filter''),
     (''workspace_sessions_clear_filter'', ''sessions.clear_filter''),
     (''workspace_sessions_select'', ''sessions.select''),
     (''workspace_sessions_set_view_mode'', ''sessions.set_view_mode''),
     (''workspace_rules_open_tab'', ''rules.open_tab'')]"

definition workspace_action_name_for_tool :: "string \<Rightarrow> string option" where
  "workspace_action_name_for_tool name = map_of workspace_tool_names name"

text \<open>\<open>wrisk\<close> and \<open>wcat\<close> are the risk and the category the YAML file gives an action.\<close>

definition workspace_tool_contracts :: "(string \<Rightarrow> tool_risk) \<Rightarrow> (string \<Rightarrow> string) \<Rightarrow> tool_contract list" where
  "workspace_tool_contracts wrisk wcat = map (\<lambda>(tool, action). \<lparr>tc_name = tool, tc_category = wcat action,
     tc_execution_kind = Exec_Workspace, tc_requires_confirmation = False, tc_risk = wrisk action,
     tc_refreshed_resources = (case map_of workspace_actions action of Some rs \<Rightarrow> rs | None \<Rightarrow> [])\<rparr>) workspace_tool_names"

definition all_tool_contracts :: "(string \<Rightarrow> tool_risk) \<Rightarrow> (string \<Rightarrow> string) \<Rightarrow> tool_contract list" where
  "all_tool_contracts wrisk wcat = static_tool_contracts @ workspace_tool_contracts wrisk wcat"

definition contract_for_tool :: "(string \<Rightarrow> tool_risk) \<Rightarrow> (string \<Rightarrow> string) \<Rightarrow> string \<Rightarrow> tool_contract option" where
  "contract_for_tool wrisk wcat name = find (\<lambda>c. tc_name c = name) (all_tool_contracts wrisk wcat)"

definition execution_kind_label :: "tool_execution \<Rightarrow> string" where
  "execution_kind_label k = (case k of Exec_Read \<Rightarrow> ''read'' | Exec_Workspace \<Rightarrow> ''workspace'' | Exec_Proposal \<Rightarrow> ''proposal'')"

definition risk_label :: "tool_risk \<Rightarrow> string" where
  "risk_label r = (case r of TR_Read \<Rightarrow> ''read'' | TR_Ui_Safe \<Rightarrow> ''ui_safe'' | TR_Ui_Sensitive \<Rightarrow> ''ui_sensitive''
     | TR_Mutate \<Rightarrow> ''mutate'' | TR_Network \<Rightarrow> ''network'' | TR_Destructive \<Rightarrow> ''destructive'')"

section \<open>The feature catalog\<close>

record feature_doc =
  fd_id :: string
  fd_title :: string
  fd_category :: string
  fd_purpose :: string
  fd_ui_steps :: "string list"
  fd_use_when :: "string list"
  fd_action_endpoints :: "string list"
  fd_examples :: "string list"

definition feature_matches_query :: "feature_doc \<Rightarrow> string \<Rightarrow> bool" where
  "feature_matches_query f query = contains_str (to_ascii_lowercase (join_str '' ''
     [fd_id f, fd_title f, fd_category f, fd_purpose f, join_str '' '' (fd_use_when f),
      join_str '' '' (fd_action_endpoints f), join_str '' '' (fd_examples f)])) query"

definition selected_features :: "feature_doc list \<Rightarrow> json \<Rightarrow> feature_doc list" where
  "selected_features catalog args =
     (let by_id = (case Option.bind (payload_get args ''feature_id'') json_text of
            Some i \<Rightarrow> filter (\<lambda>f. fd_id f = i) catalog | None \<Rightarrow> catalog)
      in case Option.bind (payload_get args ''query'') json_text of
           Some q \<Rightarrow> (let query = to_ascii_lowercase (trim_str q)
             in if query = [] then by_id else filter (\<lambda>f. feature_matches_query f query) by_id)
         | None \<Rightarrow> by_id)"

definition compact_feature_catalog :: "feature_doc list \<Rightarrow> string" where
  "compact_feature_catalog catalog = join_str '' | '' (map (\<lambda>f. fd_id f @ '': '' @ fd_purpose f @ '' UI: ''
     @ (if fd_ui_steps f = [] then ''see matching UI surface'' else join_str '' > '' (fd_ui_steps f)) @ '' Actions: ''
     @ (if fd_action_endpoints f = [] then ''read-only'' else join_str '', '' (fd_action_endpoints f))) catalog)"

section \<open>Read tools\<close>

record 'w tool_lib =
  tl_store :: "'w \<Rightarrow> session_store"
  tl_lc :: "string \<Rightarrow> string"
  tl_rx :: regex_lib
  tl_now :: timestamp
  tl_rfc3339 :: "timestamp \<Rightarrow> string"
  tl_time :: "timestamp \<Rightarrow> json"
  tl_source :: "session_source \<Rightarrow> json"
  tl_metrics :: "inspection_metrics option \<Rightarrow> json"
  tl_headers :: "header_map \<Rightarrow> json"
  tl_inspector :: "inspector_data option \<Rightarrow> json"
  tl_protocol_context :: "protocol_context option \<Rightarrow> json"
  tl_connections :: "connection_summary list \<Rightarrow> json"
  tl_protocol_metrics :: "protocol_metrics \<Rightarrow> json"
  tl_config :: "'w \<Rightarrow> json"
  tl_diagnostics :: "'w \<Rightarrow> json"
  tl_catalog :: "feature_doc list"
  tl_features :: "feature_doc list \<Rightarrow> json"
  tl_location :: "json \<Rightarrow> string + location"
  tl_show_location :: "location \<Rightarrow> json"
  tl_mock_response :: "json \<Rightarrow> string + mock_http_response"
  tl_show_mock_response :: "mock_http_response \<Rightarrow> json"
  tl_string_map :: "json \<Rightarrow> string + (string \<rightharpoonup> string)"
  tl_show_ip :: "ip_addr \<Rightarrow> string"

type_synonym read_result = "(string + json) or_panic"

definition json_u64 :: "json \<Rightarrow> u64 option" where
  "json_u64 v = (case v of JNumber (PosInt n) \<Rightarrow> Some n | _ \<Rightarrow> None)"

definition number :: "nat \<Rightarrow> json" where
  "number n = JNumber (PosInt (of_nat n))"

definition opt_json :: "('a \<Rightarrow> json) \<Rightarrow> 'a option \<Rightarrow> json" where
  "opt_json f x = (case x of Some y \<Rightarrow> f y | None \<Rightarrow> JNull)"

definition texts :: "string list \<Rightarrow> json" where
  "texts xs = JArray (map JString xs)"

text \<open>An object some of whose values are redacted, which may panic.\<close>

definition panic_object :: "(string \<times> json or_panic) list \<Rightarrow> json or_panic" where
  "panic_object kvs = bind_panic (collect_panic (map (\<lambda>(k, v). bind_panic v (\<lambda>x. Returns (k, x))) kvs)) (\<lambda>m. Returns (JObject m))"

definition panic_text :: "string or_panic \<Rightarrow> json or_panic" where
  "panic_text s = bind_panic s (\<lambda>t. Returns (JString t))"

definition session_row :: "'w tool_lib \<Rightarrow> exchange \<Rightarrow> json or_panic" where
  "session_row tx x = panic_object
     [(''id'', Returns (JString (ex_id x))), (''timestamp'', Returns (tl_time tx (ex_timestamp x))),
      (''updated_at'', Returns (opt_json (tl_time tx) (ex_updated_at x))),
      (''method'', Returns (JString (rq_method (ex_request x)))),
      (''uri'', panic_text (redact_uri (rq_uri (ex_request x)))),
      (''host'', Returns (JString (rq_host (ex_request x)))),
      (''status'', Returns (opt_json (\<lambda>r. number (unat (rs_status r))) (ex_response x))),
      (''source'', Returns (tl_source tx (ex_source x))), (''tags'', Returns (texts (ex_tags x))),
      (''note'', Returns (optional_text (ex_note x))), (''metrics'', Returns (tl_metrics tx (ex_metrics x))),
      (''downstream_protocol'', Returns (optional_text (ex_downstream_protocol x))),
      (''connection_id'', Returns (optional_text (ex_connection_id x))),
      (''stream_id'', Returns (opt_json (\<lambda>n. JNumber (PosInt n)) (ex_stream_id x)))]"

definition plain_filter :: "string \<Rightarrow> session_list_filter" where
  "plain_filter q = \<lparr>sf_query = q, sf_regex = False, sf_methods = None, sf_status_buckets = None, sf_host_focus = [],
     sf_host_filter = None, sf_sort = \<lparr>so_key = ''ts'', so_dir = Desc\<rparr>\<rparr>"

definition read_list_sessions :: "'w tool_lib \<Rightarrow> 'w \<Rightarrow> json \<Rightarrow> read_result" where
  "read_list_sessions tx w args =
     (let limit = (case Option.bind (payload_get args ''limit'') json_u64 of Some v \<Rightarrow> min (unat v) 50 | None \<Rightarrow> 20);
          response = list_sessions (tl_lc tx) (tl_rx tx) (get_all_sessions (tl_store tx w))
            \<lparr>so_since = None, so_limit = Some limit, so_offset = None, so_include_bodies = False,
             so_filter = plain_filter (text_arg args ''q'')\<rparr>
      in bind_panic (collect_panic (map (session_row tx) (lr_sessions response))) (\<lambda>rows. Returns (Inr (JObject
           [(''sessions'', JArray rows), (''total'', number (lr_total response)),
            (''limit'', opt_json number (lr_limit response)), (''offset'', opt_json number (lr_offset response))]))))"

definition message_preview :: "string \<Rightarrow> json or_panic" where
  "message_preview body = panic_text (redact_string (chars_take 500 body))"

definition session_detail :: "'w tool_lib \<Rightarrow> exchange \<Rightarrow> json or_panic" where
  "session_detail tx x =
     (let rq = ex_request x
      in panic_object
     [(''id'', Returns (JString (ex_id x))), (''timestamp'', Returns (tl_time tx (ex_timestamp x))),
      (''updated_at'', Returns (opt_json (tl_time tx) (ex_updated_at x))),
      (''request'', panic_object
        [(''method'', Returns (JString (rq_method rq))), (''uri'', panic_text (redact_uri (rq_uri rq))),
         (''host'', Returns (JString (rq_host rq))), (''headers'', redact_value (tl_headers tx (rq_headers rq))),
         (''body_bytes'', Returns (number (length (rq_body rq)))), (''body_preview'', message_preview (rq_body_text rq))]),
      (''response'', (case ex_response x of
          None \<Rightarrow> Returns JNull
        | Some rs \<Rightarrow> panic_object
            [(''status'', Returns (number (unat (rs_status rs)))), (''headers'', redact_value (tl_headers tx (rs_headers rs))),
             (''body_bytes'', Returns (number (length (rs_body rs)))), (''body_preview'', message_preview (rs_body_text rs))])),
      (''metrics'', Returns (tl_metrics tx (ex_metrics x))), (''source'', Returns (tl_source tx (ex_source x))),
      (''tags'', Returns (texts (ex_tags x))), (''note'', Returns (optional_text (ex_note x))),
      (''inspector_data'', redact_value (tl_inspector tx (ex_inspector_data x))),
      (''downstream_protocol'', Returns (optional_text (ex_downstream_protocol x))),
      (''connection_id'', Returns (optional_text (ex_connection_id x))),
      (''stream_id'', Returns (opt_json (\<lambda>n. JNumber (PosInt n)) (ex_stream_id x))),
      (''protocol_context'', Returns (tl_protocol_context tx (ex_protocol_context x))),
      (''ws_frame_count'', Returns (number (length (ex_ws_frames x)))),
      (''event_count'', Returns (number (length (ex_events x)))),
      (''paused_at'', Returns (opt_json (tl_time tx) (ex_paused_at x)))])"

definition read_get_session :: "'w tool_lib \<Rightarrow> 'w \<Rightarrow> json \<Rightarrow> read_result" where
  "read_get_session tx w args = (case Option.bind (payload_get args ''id'') json_text of
     None \<Rightarrow> Returns (Inl ''get_session requires id'')
   | Some i \<Rightarrow> (case get_session (tl_store tx w) i of
       None \<Rightarrow> Returns (Inl ''session not found'')
     | Some x \<Rightarrow> bind_panic (session_detail tx x) (\<lambda>v. Returns (Inr v))))"

definition read_connections :: "'w tool_lib \<Rightarrow> 'w \<Rightarrow> json \<Rightarrow> read_result" where
  "read_connections tx w args =
     (let limit = (case Option.bind (payload_get args ''limit'') json_u64 of Some v \<Rightarrow> max 1 (min (unat v) 20) | None \<Rightarrow> 10);
          connections = aggregate_connections (tl_rfc3339 tx) (tl_now tx) (get_all_sessions (tl_store tx w))
      in bind_panic (redact_value (tl_connections tx (take limit connections))) (\<lambda>v. Returns (Inr (JObject
           [(''connections'', v), (''total'', number (length connections)), (''limit'', number limit)]))))"

definition read_rules :: "'w action_lib \<Rightarrow> admin_tables \<Rightarrow> json \<Rightarrow> read_result" where
  "read_rules al t args =
     (let resource = (case Option.bind (payload_get args ''resource'') json_text of Some r \<Rightarrow> r | None \<Rightarrow> ''all'');
          plain = [(''rule_sets'', JArray (map (al_show_rule_set al) (tb_rule_sets t))),
                   (''map_remote'', JArray (map (al_show_map_remote al) (tb_map_remote t))),
                   (''map_local'', JArray (map (al_show_map_local al) (tb_map_local t))),
                   (''access'', JArray (map (al_show_access al) (tb_access t))),
                   (''breakpoints'', JArray (map (al_show_breakpoint al) (tb_breakpoints t))),
                   (''mock'', JArray (map (al_show_mock al) (tb_mock t)))];
          scripts = redact_value (JArray (map (al_show_script al) (tb_scripts t)))
      in if resource = ''scripts'' then bind_panic scripts (\<lambda>v. Returns (Inr v))
         else if resource = ''all''
         then bind_panic scripts (\<lambda>v. Returns (Inr (JObject (plain @ [(''scripts'', v)]))))
         else case map_of plain resource of
           Some v \<Rightarrow> Returns (Inr v) | None \<Rightarrow> Returns (Inl ''unknown rules resource''))"

section \<open>Arguments\<close>

definition optional_u64_arg :: "json \<Rightarrow> string \<Rightarrow> string + u64 option" where
  "optional_u64_arg args key = (case payload_get args key of
     None \<Rightarrow> Inr None
   | Some JNull \<Rightarrow> Inr None
   | Some v \<Rightarrow> (case json_u64 v of Some n \<Rightarrow> Inr (Some n) | None \<Rightarrow> Inl (key @ '' must be a non-negative integer'')))"

definition non_empty_string_arg :: "json \<Rightarrow> string \<Rightarrow> string option" where
  "non_empty_string_arg args key = (case Option.bind (payload_get args key) json_text of
     Some s \<Rightarrow> if trim_str s = [] then None else Some (trim_str s) | None \<Rightarrow> None)"

definition parse_string_array_arg :: "json \<Rightarrow> string list option" where
  "parse_string_array_arg v = (case v of
     JArray items \<Rightarrow> Some (filter (\<lambda>s. s \<noteq> []) (map trim_str (List.map_filter json_text items))) | _ \<Rightarrow> None)"

definition lower_arg :: "json \<Rightarrow> string \<Rightarrow> string \<Rightarrow> string" where
  "lower_arg args key d = to_ascii_lowercase (case Option.bind (payload_get args key) json_text of Some s \<Rightarrow> s | None \<Rightarrow> d)"

definition enabled_arg :: "json \<Rightarrow> bool" where
  "enabled_arg args = (case Option.bind (payload_get args ''enabled'') json_flag of Some b \<Rightarrow> b | None \<Rightarrow> True)"

definition location_summary :: "location \<Rightarrow> string" where
  "location_summary l =
     (let parts = (if loc_methods l = [] then [] else [join_str '','' (loc_methods l)])
            @ (case loc_host l of Some h \<Rightarrow> [h] | None \<Rightarrow> []) @ (case loc_path l of Some p \<Rightarrow> [p] | None \<Rightarrow> [])
      in if parts = [] then ''matching traffic'' else join_str '' '' parts)"

definition title_case :: "string \<Rightarrow> string" where
  "title_case s = (case s of [] \<Rightarrow> [] | c # cs \<Rightarrow> ascii_upper c # cs)"

definition location_from_args :: "'w tool_lib \<Rightarrow> json \<Rightarrow> string + location" where
  "location_from_args tx args =
     bind_sum (case payload_get args ''location'' of
        Some (JObject m) \<Rightarrow> (case tl_location tx (JObject m) of Inl e \<Rightarrow> Inl (''invalid location: '' @ e) | Inr l \<Rightarrow> Inr l)
      | _ \<Rightarrow> Inr loc_default) (\<lambda>l0.
     let given = (\<lambda>key put l. case non_empty_string_arg args key of Some s \<Rightarrow> put s l | None \<Rightarrow> l);
         l1 = given ''host'' (\<lambda>s l. l\<lparr>loc_host := Some s\<rparr>) l0;
         l2 = given ''path'' (\<lambda>s l. l\<lparr>loc_path := Some s\<rparr>) l1;
         l3 = given ''protocol'' (\<lambda>s l. l\<lparr>loc_protocol := Some (to_ascii_lowercase s)\<rparr>) l2;
         l4 = given ''wire_protocol'' (\<lambda>s l. l\<lparr>loc_wire_protocol := Some (to_ascii_lowercase s)\<rparr>) l3;
         l5 = given ''application_protocol'' (\<lambda>s l. l\<lparr>loc_application_protocol := Some (to_ascii_lowercase s)\<rparr>) l4;
         l6 = given ''body_mode'' (\<lambda>s l. l\<lparr>loc_body_mode := Some (to_ascii_lowercase s)\<rparr>) l5;
         l7 = given ''query'' (\<lambda>s l. l\<lparr>loc_query := Some s\<rparr>) l6
     in bind_sum (optional_u64_arg args ''port'') (\<lambda>port.
        bind_sum (case port of
            None \<Rightarrow> Inr l7
          | Some p \<Rightarrow> if unat p \<le> 65535 then Inr (l7\<lparr>loc_port := Some (ucast p)\<rparr>) else Inl ''port must be between 0 and 65535'') (\<lambda>l8.
        let l9 = (case Option.bind (payload_get args ''methods'') parse_string_array_arg of
              Some ms \<Rightarrow> l8\<lparr>loc_methods := map to_ascii_uppercase ms\<rparr> | None \<Rightarrow> l8)
        in case Option.bind (payload_get args ''mode'') json_text of
             None \<Rightarrow> Inr l9
           | Some m \<Rightarrow>
               if to_ascii_lowercase m = ''glob'' then Inr (l9\<lparr>loc_mode := Glob\<rparr>)
               else if to_ascii_lowercase m = ''regex'' then Inr (l9\<lparr>loc_mode := Regex\<rparr>)
               else Inl ''location mode must be glob or regex'')))"

fun decode_all :: "(json \<Rightarrow> string + 'a) \<Rightarrow> string \<Rightarrow> json list \<Rightarrow> string + 'a list" where
  "decode_all dec what [] = Inr []"
| "decode_all dec what (v # vs) = (case dec v of
     Inl e \<Rightarrow> Inl (what @ e) | Inr x \<Rightarrow> bind_sum (decode_all dec what vs) (\<lambda>xs. Inr (x # xs)))"

definition mock_responses_from_args :: "'w tool_lib \<Rightarrow> json \<Rightarrow> string + mock_http_response list" where
  "mock_responses_from_args tx args = (case payload_get args ''responses'' of
     Some (JArray responses) \<Rightarrow>
       if responses = [] then Inl ''propose_mock_rule responses must not be empty''
       else decode_all (tl_mock_response tx) ''invalid mock response: '' responses
   | _ \<Rightarrow>
       (let status = (case Option.bind (payload_get args ''status'') json_u64 of Some n \<Rightarrow> unat n | None \<Rightarrow> 200)
        in if \<not> (100 \<le> status \<and> status \<le> 599) then Inl ''mock status must be between 100 and 599''
           else bind_sum (case payload_get args ''headers'' of
                   None \<Rightarrow> Inr Map.empty
                 | Some v \<Rightarrow> (case tl_string_map tx v of Inl e \<Rightarrow> Inl (''invalid mock headers: '' @ e) | Inr m \<Rightarrow> Inr m)) (\<lambda>headers.
             let content_type = (case non_empty_string_arg args ''content_type'' of Some c \<Rightarrow> c | None \<Rightarrow> ''application/json'');
                 headers = (if headers ''content-type'' = None then headers(''content-type'' \<mapsto> content_type) else headers)
             in bind_sum (optional_u64_arg args ''delay_ms'') (\<lambda>delay.
                  Inr [\<lparr>mk_status = of_nat status, mk_headers = headers, mk_body = text_arg args ''body'',
                        mk_delay_ms = (case delay of Some d \<Rightarrow> d | None \<Rightarrow> 0)\<rparr>]))))"

section \<open>Proposals\<close>

definition proposal :: "'w action_lib \<Rightarrow> string \<Rightarrow> string \<Rightarrow> string \<Rightarrow> json \<Rightarrow> string + assistant_action" where
  "proposal al method endpoint summary payload = propose_action al (JObject
     [(''method'', JString method), (''endpoint'', JString endpoint), (''summary'', JString summary), (''payload'', payload)])"

definition with_precondition :: "action_precondition \<Rightarrow> string + assistant_action \<Rightarrow> string + assistant_action" where
  "with_precondition p r = bind_sum r (\<lambda>a. Inr (a\<lparr>aa_preconditions := aa_preconditions a @ [p]\<rparr>))"

definition dns_wrapping :: "char \<Rightarrow> bool" where
  "dns_wrapping c \<longleftrightarrow> c \<in> {CHR 34, CHR 39, CHR ''`'', CHR ''<'', CHR ''>'', CHR '','', CHR '';'', CHR ''.''}"

definition normalize_dns_host :: "string \<Rightarrow> string + string" where
  "normalize_dns_host raw =
     (let host = to_ascii_lowercase (trim_chars dns_wrapping (trim_str raw))
      in if host = [] then Inl ''DNS override host is required''
         else if length host > 255 \<or> CHR ''/'' \<in> set host \<or> CHR ''?'' \<in> set host \<or> CHR ''#'' \<in> set host
              \<or> (\<exists>g \<in> set (utf8_chars host). g \<in> white_space)
         then Inl ''DNS override host must be a clean hostname''
         else Inr host)"

definition normalize_dns_ip :: "'w tool_lib \<Rightarrow> string \<Rightarrow> string + string" where
  "normalize_dns_ip tx raw = (case parse_ip (trim_str raw) of
     Some addr \<Rightarrow> Inr (tl_show_ip tx addr) | None \<Rightarrow> Inl ''DNS override ip must be a valid IPv4 or IPv6 address'')"

definition dns_changed :: string where
  "dns_changed = ''DNS overrides changed since this action was prepared; refresh the assistant action before applying.''"

definition propose_dns_override_action ::
    "'w action_lib \<Rightarrow> 'w tool_lib \<Rightarrow> dns_overrides \<Rightarrow> json \<Rightarrow> string + assistant_action" where
  "propose_dns_override_action al tx current args =
     (let current_state = al_show_dns al current;
          operation = to_ascii_lowercase (trim_str (case Option.bind (payload_get args ''operation'') json_text of
            Some s \<Rightarrow> s | None \<Rightarrow> ''set''));
          guard = with_precondition (action_state_precondition al ''dns'' current_state dns_changed)
      in bind_sum (case Option.bind (payload_get args ''host'') json_text of
             None \<Rightarrow> Inl ''propose_dns_override requires host'' | Some h \<Rightarrow> normalize_dns_host h) (\<lambda>host.
         if operation = ''set'' \<or> operation = ''update''
         then bind_sum (case Option.bind (payload_get args ''ip'') json_text of
                  None \<Rightarrow> Inl ''propose_dns_override operation=set requires ip'' | Some i \<Rightarrow> normalize_dns_ip tx i) (\<lambda>ip.
              bind_sum (case al_dns al current_state of Inl e \<Rightarrow> Inl (''invalid current DNS state: '' @ e) | Inr m \<Rightarrow> Inr m) (\<lambda>current.
              guard (proposal al ''POST'' ''/admin/dns'' (''Resolve '' @ host @ '' to '' @ ip)
                (al_show_dns al (current(host \<mapsto> \<lparr>de_ip = ip, de_enabled = True\<rparr>))))))
         else if operation \<in> {''delete'', ''remove'', ''clear''}
         then guard (proposal al ''DELETE'' (''/admin/dns/'' @ host) (''Delete DNS override for '' @ host) JNull)
         else Inl ''propose_dns_override operation must be set or delete''))"

definition or_keep :: "'a option \<Rightarrow> 'a \<Rightarrow> 'a" where
  "or_keep x d = (case x of Some v \<Rightarrow> v | None \<Rightarrow> d)"

definition propose_throttling_action ::
    "'w action_lib \<Rightarrow> throttling_config \<Rightarrow> json \<Rightarrow> string + assistant_action" where
  "propose_throttling_action al current0 args0 =
     (let current_state = al_show_throttling al current0
      in bind_sum (case al_throttling al current_state of
             Inl e \<Rightarrow> Inl (''invalid current throttling state: '' @ e) | Inr c \<Rightarrow> Inr c) (\<lambda>current.
         let args = repair_assistant_payload args0;
             enabled = Option.bind (payload_get args ''enabled'') json_flag
         in bind_sum (optional_u64_arg args ''latency_ms'') (\<lambda>latency.
            bind_sum (optional_u64_arg args ''bandwidth_limit_kbps'') (\<lambda>bandwidth.
            if enabled = None \<and> latency = None \<and> bandwidth = None
            then Inl ''propose_throttling requires enabled, latency_ms, or bandwidth_limit_kbps''
            else
              let nxt = \<lparr>tc_latency_ms = or_keep latency (tc_latency_ms current),
                    tc_bandwidth_limit_kbps = or_keep bandwidth (tc_bandwidth_limit_kbps current),
                    tc_enabled = (case enabled of Some b \<Rightarrow> b
                      | None \<Rightarrow> if latency \<noteq> None \<or> bandwidth \<noteq> None then True else tc_enabled current)\<rparr>;
                  summary = (if \<not> tc_enabled nxt then ''Disable throttling''
                    else ''Set throttling to '' @ decimal (unat (tc_latency_ms nxt)) @ '' ms latency and ''
                      @ decimal (unat (tc_bandwidth_limit_kbps nxt)) @ '' kbps bandwidth'')
              in with_precondition (action_state_precondition al ''throttling'' current_state
                    ''Throttling config changed since this action was prepared; refresh the assistant action before applying.'')
                  (proposal al ''POST'' ''/admin/throttling'' summary (al_show_throttling al nxt))))))"

text \<open>The rule proposals: the name, the switch and the location are common to them.\<close>

definition rule_payload :: "'w tool_lib \<Rightarrow> string \<Rightarrow> json \<Rightarrow> location \<Rightarrow> (string \<times> json) list \<Rightarrow> json" where
  "rule_payload tx name args location rest = JObject ([(''id'', JString []), (''name'', JString name),
     (''enabled'', JBool (enabled_arg args)), (''location'', tl_show_location tx location)] @ rest)"

definition rule_name :: "json \<Rightarrow> string \<Rightarrow> location \<Rightarrow> string" where
  "rule_name args verb location = or_keep (non_empty_string_arg args ''name'') (verb @ '' '' @ location_summary location)"

definition propose_rewrite_rule_action :: "'w action_lib \<Rightarrow> 'w tool_lib \<Rightarrow> json \<Rightarrow> string + assistant_action" where
  "propose_rewrite_rule_action al tx args0 =
     (let args = repair_assistant_payload args0
      in case payload_get args ''actions'' of
           Some (JArray (x # xs)) \<Rightarrow>
             bind_sum (location_from_args tx args) (\<lambda>location.
             let applies_to = lower_arg args ''applies_to'' ''both'';
                 name = rule_name args ''Rewrite'' location
             in if applies_to \<notin> {''request'', ''response'', ''both''}
                then Inl ''propose_rewrite_rule applies_to must be request, response, or both''
                else proposal al ''POST'' ''/admin/rule-sets'' name (rule_payload tx name args location
                       [(''applies_to'', JString applies_to), (''actions'', JArray (x # xs))]))
         | _ \<Rightarrow> Inl ''propose_rewrite_rule requires at least one action'')"

definition propose_mock_rule_action :: "'w action_lib \<Rightarrow> 'w tool_lib \<Rightarrow> json \<Rightarrow> string + assistant_action" where
  "propose_mock_rule_action al tx args0 =
     (let args = repair_assistant_payload args0
      in bind_sum (location_from_args tx args) (\<lambda>location.
         bind_sum (mock_responses_from_args tx args) (\<lambda>responses.
         let name = rule_name args ''Mock'' location
         in proposal al ''POST'' ''/admin/mock/rules'' name (rule_payload tx name args location
              [(''responses'', JArray (map (tl_show_mock_response tx) responses)), (''call_count'', number 0)]))))"

definition propose_access_rule_action :: "'w action_lib \<Rightarrow> 'w tool_lib \<Rightarrow> json \<Rightarrow> string + assistant_action" where
  "propose_access_rule_action al tx args0 =
     (let args = repair_assistant_payload args0;
          action = lower_arg args ''action'' ''block''
      in if action \<notin> {''block'', ''allow''} then Inl ''propose_access_rule action must be block or allow''
         else bind_sum (location_from_args tx args) (\<lambda>location.
           let name = rule_name args (title_case action) location
           in proposal al ''POST'' ''/admin/access-rules'' name (rule_payload tx name args location [(''action'', JString action)])))"

definition propose_capture_filter_action :: "'w action_lib \<Rightarrow> capture_filter_config \<Rightarrow> json \<Rightarrow> string + assistant_action" where
  "propose_capture_filter_action al current args0 =
     (let args = repair_assistant_payload args0;
          current_state = al_show_capture al current;
          mode = lower_arg args ''mode'' ''disabled'';
          hosts = (case Option.bind (payload_get args ''hosts'') parse_string_array_arg of Some hs \<Rightarrow> hs | None \<Rightarrow> [])
      in if mode \<notin> {''disabled'', ''allowlist'', ''denylist''}
         then Inl ''propose_capture_filter mode must be disabled, allowlist, or denylist''
         else with_precondition (action_state_precondition al ''capture_filter'' current_state
               ''Capture filter changed since this action was prepared; refresh the assistant action before applying.'')
             (proposal al ''POST'' ''/admin/capture-filter''
               (if mode = ''allowlist'' then ''Set capture filter to allowlist''
                else if mode = ''denylist'' then ''Set capture filter to denylist'' else ''Disable capture filter'')
               (JObject [(''mode'', JString mode), (''hosts'', texts (if mode = ''disabled'' then [] else hosts))])))"

definition propose_upstream_proxy_action :: "'w action_lib \<Rightarrow> json \<Rightarrow> json \<Rightarrow> string + assistant_action" where
  "propose_upstream_proxy_action al current_state args =
     bind_sum (case (case payload_get args ''upstream_proxy'' of Some v \<Rightarrow> Some v | None \<Rightarrow> payload_get args ''proxy'') of
        Some JNull \<Rightarrow> Inr None
      | Some (JString raw) \<Rightarrow> Inr (if trim_str raw = [] then None else Some (trim_str raw))
      | _ \<Rightarrow> Inl ''propose_upstream_proxy requires upstream_proxy or proxy'') (\<lambda>proxy.
          with_precondition (action_state_precondition al ''upstream_proxy'' current_state
              ''Upstream proxy changed since this action was prepared; refresh the assistant action before applying.'')
            (proposal al ''POST'' ''/admin/upstream-proxy''
              (case proxy of Some p \<Rightarrow> ''Set upstream proxy to '' @ p | None \<Rightarrow> ''Clear upstream proxy'')
              (JObject [(''upstream_proxy'', optional_text proxy)])))"

definition read_feature_catalog :: "'w tool_lib \<Rightarrow> json \<Rightarrow> json" where
  "read_feature_catalog tx args = JObject
     [(''features'', tl_features tx (selected_features (tl_catalog tx) args)),
      (''rules'', JObject
        [(''read_only'', JString ''Read tools may run automatically.''),
         (''confirmed_changes'', JString (''Every mutation, replay, deletion, import/export, and outbound network request ''
            @ ''must be proposed as a confirmation card.'')),
         (''payload_source_of_truth'', JString (''Confirmed action payloads should match the UI/admin API shapes and are ''
            @ ''normalized/validated server-side before execution.''))])]"

section \<open>A call of a tool\<close>

datatype tool_outcome = Tool_Read json | Tool_Workspace workspace_action_result | Tool_Proposed assistant_action

type_synonym tool_result = "(string + tool_outcome) or_panic"

definition as_read :: "read_result \<Rightarrow> tool_result" where
  "as_read r = bind_panic r (\<lambda>v. Returns (case v of Inl e \<Rightarrow> Inl e | Inr j \<Rightarrow> Inr (Tool_Read j)))"

definition as_proposal :: "string + assistant_action \<Rightarrow> tool_result" where
  "as_proposal r = Returns (case r of Inl e \<Rightarrow> Inl e | Inr a \<Rightarrow> Inr (Tool_Proposed a))"

definition static_tool ::
    "'w action_lib \<Rightarrow> 'w tool_lib \<Rightarrow> 'w admin_state \<Rightarrow> string \<Rightarrow> json \<Rightarrow> tool_result option" where
  "static_tool al tx st name args =
     (let t = ad_live st; w = ad_world st; value = (\<lambda>v. Some (as_read (Returns (Inr v))))
      in if name = ''list_sessions'' then Some (as_read (read_list_sessions tx w args))
         else if name = ''get_session'' then Some (as_read (read_get_session tx w args))
         else if name = ''get_config'' then value (tl_config tx w)
         else if name = ''get_feature_catalog'' then value (read_feature_catalog tx args)
         else if name = ''get_rules'' then Some (as_read (read_rules al t args))
         else if name = ''get_protocol_metrics''
         then value (tl_protocol_metrics tx (aggregate_protocol_metrics (get_all_sessions (tl_store tx w))))
         else if name = ''get_connections'' then Some (as_read (read_connections tx w args))
         else if name = ''get_breakpoint_diagnostics'' then value (JObject [(''diagnostics'', tl_diagnostics tx w)])
         else if name = ''get_throttling'' then value (al_show_throttling al (tb_throttling t))
         else if name = ''get_dns'' then value (al_show_dns al (tb_dns t))
         else if name = ''get_capture_filter'' then value (al_show_capture al (tb_capture t))
         else if name = ''get_webhooks''
         then Some (as_read (bind_panic (redact_value (JArray (map (al_show_webhook al) (tb_webhooks t)))) (\<lambda>v. Returns (Inr v))))
         else if name = ''get_upstream_proxy'' then value (upstream_state al st)
         else if name = ''propose_map_remote'' then Some (as_proposal (propose_map_remote_action al args))
         else if name = ''propose_dns_override'' then Some (as_proposal (propose_dns_override_action al tx (tb_dns t) args))
         else if name = ''propose_throttling'' then Some (as_proposal (propose_throttling_action al (tb_throttling t) args))
         else if name = ''propose_rewrite_rule'' then Some (as_proposal (propose_rewrite_rule_action al tx args))
         else if name = ''propose_mock_rule'' then Some (as_proposal (propose_mock_rule_action al tx args))
         else if name = ''propose_access_rule'' then Some (as_proposal (propose_access_rule_action al tx args))
         else if name = ''propose_capture_filter'' then Some (as_proposal (propose_capture_filter_action al (tb_capture t) args))
         else if name = ''propose_upstream_proxy''
         then Some (as_proposal (propose_upstream_proxy_action al (upstream_state al st) args))
         else if name = ''propose_action'' then Some (as_proposal (propose_action al args))
         else None)"

definition execute_assistant_tool ::
    "'w action_lib \<Rightarrow> 'w tool_lib \<Rightarrow> workspace_lib \<Rightarrow> (string \<Rightarrow> tool_risk) \<Rightarrow> (string \<Rightarrow> string) \<Rightarrow> 'w admin_state \<Rightarrow>
     string \<Rightarrow> json \<Rightarrow> workspace \<Rightarrow> tool_result \<times> workspace" where
  "execute_assistant_tool al tx wl wrisk wcat st name args wsp = (case contract_for_tool wrisk wcat name of
     None \<Rightarrow> (Returns (Inl (''assistant tool '' @ Workspace.quoted name @ '' is not declared or allowlisted'')), wsp)
   | Some c \<Rightarrow> (case workspace_action_name_for_tool name of
       Some action_type \<Rightarrow> (case apply_workspace_action wl action_type args wsp of
           (Inl e, wsp') \<Rightarrow> (Returns (Inl e), wsp')
         | (Inr r, wsp') \<Rightarrow> (Returns (Inr (Tool_Workspace r)), wsp'))
     | None \<Rightarrow> (case static_tool al tx st name args of
         Some r \<Rightarrow> (r, wsp)
       | None \<Rightarrow> (Returns (Inl (''assistant tool '' @ Workspace.quoted name @ '' is declared as ''
             @ execution_kind_label (tc_execution_kind c) @ '' ('' @ risk_label (tc_risk c) @ '') but has no executor'')), wsp))))"

definition tool_summary :: "json \<Rightarrow> string" where
  "tool_summary v = (case v of
     JObject m \<Rightarrow> decimal (length m) @ '' fields returned''
   | JArray items \<Rightarrow> decimal (length items) @ '' items returned''
   | _ \<Rightarrow> ''tool result returned'')"

section \<open>A proposal is a listed action that waits for confirmation\<close>

definition well_proposed :: "assistant_action \<Rightarrow> bool" where
  "well_proposed a \<longleftrightarrow> (case action_route_contract (aa_method a) (aa_endpoint a) of
     Inl e \<Rightarrow> False
   | Inr r \<Rightarrow> aa_kind a = rt_kind r \<and> aa_risk a = rt_risk r \<and> aa_requires_confirmation a
       \<and> (aa_method a = ''DELETE'' \<longrightarrow> aa_risk a = Risk_Destructive)
       \<and> aa_method a \<in> {''POST'', ''PUT'', ''DELETE''} \<and> (aa_method a \<noteq> ''DELETE'' \<longrightarrow> aa_payload a \<noteq> JNull))"

lemma route_method:
  "action_route_contract m e = Inr r \<Longrightarrow> rt_method r = to_ascii_uppercase m \<and> to_ascii_uppercase m \<in> {''POST'', ''PUT'', ''DELETE''}
     \<and> (to_ascii_uppercase m = ''DELETE'' \<longrightarrow> rt_risk r = Risk_Destructive)"
  by (auto simp: action_route_contract_def validate_route_syntax_def Let_def split: if_splits option.splits)

lemma ascii_upper_idem [simp]: "ascii_upper (ascii_upper c) = ascii_upper c"
proof (cases "97 \<le> char_code c \<and> char_code c \<le> 122")
  case True
  then have "char_code c - 32 < 256" by linarith
  with True have "char_code (ascii_upper c) = char_code c - 32" by (simp add: ascii_upper_def)
  with True have "\<not> 97 \<le> char_code (ascii_upper c)" by linarith
  then show ?thesis unfolding ascii_upper_def [of "ascii_upper c"] by (simp only: simp_thms if_False)
next
  case False
  then have "ascii_upper c = c" unfolding ascii_upper_def by (simp only: if_False)
  then show ?thesis by simp
qed

lemma to_ascii_uppercase_idem [simp]: "to_ascii_uppercase (to_ascii_uppercase m) = to_ascii_uppercase m"
  by (simp add: to_ascii_uppercase_def)

lemma normalized_not_null:
  "normalize_action_payload m e p s = Inr q \<Longrightarrow> m \<noteq> ''DELETE'' \<Longrightarrow> p \<noteq> JNull \<Longrightarrow> q \<noteq> JNull"
  by (auto simp: normalize_action_payload_def split: json.splits)

lemma well_proposedI:
  assumes "validate_action_route m e p = Inr r" "to_ascii_uppercase m = m" "m \<noteq> ''DELETE'' \<longrightarrow> q \<noteq> JNull"
  shows "well_proposed (new_action r s e m q)"
proof -
  have r: "action_route_contract m e = Inr r"
    using assms(1) by (auto simp: validate_action_route_def split: if_splits)
  from route_method [OF r] show ?thesis unfolding well_proposed_def new_action_def assms(2) using assms(3) by (auto simp: r assms(2))
qed

lemma propose_action_well: "propose_action al args = Inr a \<Longrightarrow> well_proposed a"
proof -
  assume a: "propose_action al args = Inr a"
  define m where "m = to_ascii_uppercase (text_arg args ''method'')"
  from a obtain e p s r q where r: "validate_action_route m e p = Inr r" and q: "normalize_action_payload m e p s = Inr q"
    and a: "a = new_action r s e m q"
    unfolding propose_action_def Let_def m_def [symmetric] by (auto elim!: bindE)
  have ok: "action_route_contract m e = Inr r" and pay: "rt_method r \<noteq> ''DELETE'' \<longrightarrow> p \<noteq> JNull"
    using r by (auto simp: validate_action_route_def split: if_splits)
  from route_method [OF ok] have up: "to_ascii_uppercase m \<in> {''POST'', ''PUT'', ''DELETE''}" "rt_method r = to_ascii_uppercase m"
    by auto
  have "to_ascii_uppercase m = m" by (simp add: m_def)
  with up pay q show ?thesis unfolding a by (intro well_proposedI [OF r]) (auto dest: normalized_not_null)
qed

lemma with_precondition_well: "(\<And>a. r = Inr a \<Longrightarrow> well_proposed a) \<Longrightarrow> with_precondition p r = Inr a \<Longrightarrow> well_proposed a"
  by (auto simp: with_precondition_def well_proposed_def split: sum.splits)

lemma proposal_well: "proposal al m e s p = Inr a \<Longrightarrow> well_proposed a"
  unfolding proposal_def by (rule propose_action_well)

lemma guarded_proposal_well: "with_precondition p (proposal al m e s v) = Inr a \<Longrightarrow> well_proposed a"
  by (rule with_precondition_well) (rule proposal_well)

lemma map_remote_well: "propose_map_remote_action al args = Inr a \<Longrightarrow> well_proposed a"
proof -
  have post: "to_ascii_uppercase ''POST'' = ''POST''" by (simp add: to_ascii_uppercase_def ascii_upper_def)
  have "build_map_remote_action al s d n = Inr a \<Longrightarrow> well_proposed a" for s d n
    unfolding build_map_remote_action_def Let_def case_prod_unfold
    by (elim bindE) (drule sum.inject(2) [THEN iffD1], erule subst, rule well_proposedI, assumption, rule post, simp)
  then show "propose_map_remote_action al args = Inr a \<Longrightarrow> well_proposed a"
    unfolding propose_map_remote_action_def by (simp split: option.splits)
qed

lemma proposals_well:
  "propose_dns_override_action al tx m args = Inr a \<Longrightarrow> well_proposed a"
  "propose_throttling_action al c args = Inr a \<Longrightarrow> well_proposed a"
  "propose_rewrite_rule_action al tx args = Inr a \<Longrightarrow> well_proposed a"
  "propose_mock_rule_action al tx args = Inr a \<Longrightarrow> well_proposed a"
  "propose_access_rule_action al tx args = Inr a \<Longrightarrow> well_proposed a"
  "propose_capture_filter_action al f args = Inr a \<Longrightarrow> well_proposed a"
  "propose_upstream_proxy_action al v args = Inr a \<Longrightarrow> well_proposed a"
  by (auto simp: propose_dns_override_action_def propose_throttling_action_def propose_rewrite_rule_action_def
      propose_mock_rule_action_def propose_access_rule_action_def propose_capture_filter_action_def
      propose_upstream_proxy_action_def Let_def split: if_splits option.splits json.splits list.splits
      elim!: bindE dest: proposal_well guarded_proposal_well)

text \<open>Only the proposing tools return an action.\<close>

lemma as_read_not_proposed: "as_read r \<noteq> Returns (Inr (Tool_Proposed a))"
  by (cases r) (auto simp: as_read_def split: sum.splits)

lemma as_proposal_proposed: "as_proposal r = Returns (Inr (Tool_Proposed a)) \<longleftrightarrow> r = Inr a"
  by (auto simp: as_proposal_def split: sum.splits)

lemma static_tool_well: "static_tool al tx st name args = Some (Returns (Inr (Tool_Proposed a))) \<Longrightarrow> well_proposed a"
  by (auto simp: static_tool_def as_read_not_proposed as_proposal_proposed Let_def split: if_splits
      intro: map_remote_well proposals_well propose_action_well)

text \<open>Whatever the model calls a tool with, an action that comes out of it names an endpoint and a method of
  the list, carries the kind and the risk of that route, is marked destructive when it deletes, has a payload
  unless it deletes, and waits for a confirmation; the state of the user interface is not changed by it.\<close>

theorem proposed_action_listed:
  assumes "execute_assistant_tool al tx wl wrisk wcat st name args wsp = (Returns (Inr (Tool_Proposed a)), wsp')"
  shows "well_proposed a \<and> wsp' = wsp"
  using assms by (auto simp: execute_assistant_tool_def split: option.splits prod.splits sum.splits intro: static_tool_well)

section \<open>What the model sees of a session\<close>

lemma panic_object_field:
  assumes "panic_object kvs = Returns (JObject m)" "(k, v) \<in> set kvs"
  shows "\<exists>x. v = Returns x \<and> (k, x) \<in> set m"
proof -
  have m: "map (\<lambda>(k, v). bind_panic v (\<lambda>x. Returns (k, x))) kvs = map Returns m"
    using assms(1) unfolding panic_object_def
    by (cases "collect_panic (map (\<lambda>(k, v). bind_panic v (\<lambda>x. Returns (k, x))) kvs)") (simp_all add: collect_panic_Returns)
  have "bind_panic v (\<lambda>x. Returns (k, x)) \<in> set (map Returns m)"
    unfolding m [symmetric] using assms(2) by (auto intro: rev_image_eqI)
  then show ?thesis by (cases v) auto
qed

lemma panic_object_object: "panic_object kvs = Returns v \<Longrightarrow> \<exists>m. v = JObject m"
  unfolding panic_object_def by (cases "collect_panic (map (\<lambda>(k, v). bind_panic v (\<lambda>x. Returns (k, x))) kvs)") auto

text \<open>The headers and the inspector data of the session the model asks for come with no value under a name that
  marks a secret.\<close>

theorem session_detail_hides_secrets:
  assumes "read_get_session tx w args = Returns (Inr (JObject m))"
  shows "(\<exists>rq h. (''request'', JObject rq) \<in> set m \<and> (''headers'', h) \<in> set rq \<and> secrets_hidden h)
    \<and> (\<exists>d. (''inspector_data'', d) \<in> set m \<and> secrets_hidden d)"
proof -
  obtain x where x: "session_detail tx x = Returns (JObject m)"
    using assms by (auto simp: read_get_session_def bind_panic_Returns split: option.splits)
  note field = panic_object_field [OF x [unfolded session_detail_def Let_def]]
  obtain rq where rq: "(''request'', rq) \<in> set m" "panic_object
        [(''method'', Returns (JString (rq_method (ex_request x)))), (''uri'', panic_text (redact_uri (rq_uri (ex_request x)))),
         (''host'', Returns (JString (rq_host (ex_request x)))),
         (''headers'', redact_value (tl_headers tx (rq_headers (ex_request x)))),
         (''body_bytes'', Returns (number (length (rq_body (ex_request x))))),
         (''body_preview'', message_preview (rq_body_text (ex_request x)))] = Returns rq"
    using field [of "''request''"] by fastforce
  then obtain rm where rm: "rq = JObject rm" using panic_object_object by blast
  obtain h where h: "(''headers'', h) \<in> set rm" "redact_value (tl_headers tx (rq_headers (ex_request x))) = Returns h"
    using panic_object_field [OF rq(2) [unfolded rm], of "''headers''"] by fastforce
  obtain d where d: "(''inspector_data'', d) \<in> set m" "redact_value (tl_inspector tx (ex_inspector_data x)) = Returns d"
    using field [of "''inspector_data''"] by fastforce
  show ?thesis using rq(1) rm h d redact_value_hides by blast
qed

end
