(* ===== verification/Assistant.thy ===== *)
theory Assistant
  imports AssistantTools Auth
begin

text \<open>
  The assistant (\<open>control_plane/assistant.rs\<close>, \<open>control_plane/assistant_provider.rs\<close>): the table of actions
  that wait for a confirmation, the two handlers that confirm or cancel one, and the conversation with the
  provider.

  The table is a \<open>HashMap\<close> behind a write lock: an association list with distinct keys, whose order stands for
  the iteration order of the map, which the language leaves open. Time is in milliseconds. \<open>chat_lib\<close> holds the
  provider, the drawing of identifiers and the texts that are sent along.
\<close>

section \<open>Pending actions\<close>

definition assistant_action_ttl :: nat where "assistant_action_ttl = 10 * 60 * 1000"
definition max_tool_loops :: nat where "max_tool_loops = 4"
definition max_pending_actions :: nat where "max_pending_actions = 50"

record pending_action =
  pa_action :: assistant_action
  pa_confirmation_token :: string
  pa_expires_at :: nat

type_synonym pending_actions = "(string \<times> pending_action) list"

record 'w assistant_app =
  app_admin :: "'w admin_state"
  app_workspace :: workspace
  app_pending :: pending_actions

definition prune_expired_actions :: "nat \<Rightarrow> pending_actions \<Rightarrow> pending_actions" where
  "prune_expired_actions now pending = filter (\<lambda>(_, p). pa_expires_at p > now) pending"

definition drop_key :: "string \<Rightarrow> (string \<times> 'a) list \<Rightarrow> (string \<times> 'a) list" where
  "drop_key k m = filter (\<lambda>(k', _). k' \<noteq> k) m"

definition constant_time_eq :: "string \<Rightarrow> string \<Rightarrow> bool" where
  "constant_time_eq left right \<longleftrightarrow> length left = length right
     \<and> foldl (\<lambda>diff (a, b). or diff (xor (byte_of_char a) (byte_of_char b))) 0 (zip left right) = 0"

text \<open>\<open>keys().next()\<close> is the first key of the list. What comes back is the action as the client gets it: its
  identifiers are filled in and its payload is redacted.\<close>

definition register_pending_action ::
    "string \<Rightarrow> string \<Rightarrow> nat \<Rightarrow> assistant_action \<Rightarrow> pending_actions \<Rightarrow> assistant_action or_panic \<times> pending_actions" where
  "register_pending_action action_id token now action0 pending0 =
     (let action = action0\<lparr>aa_action_id := action_id, aa_confirmation_token := token\<rparr>;
          entry = \<lparr>pa_action = action, pa_confirmation_token = token, pa_expires_at = now + assistant_action_ttl\<rparr>;
          pruned = prune_expired_actions now pending0;
          kept = (if length pruned \<ge> max_pending_actions then
                    (case pruned of [] \<Rightarrow> pruned | (oldest, _) # _ \<Rightarrow> drop_key oldest pruned) else pruned)
      in (bind_panic (redact_value (aa_payload action)) (\<lambda>p. Returns (action\<lparr>aa_payload := p\<rparr>)),
          drop_key action_id kept @ [(action_id, entry)]))"

datatype assistant_reply =
  Ar_Not_Found string | Ar_Forbidden string | Ar_Conflict string | Ar_Unprocessable string
| Ar_Executed json "string list" | Ar_Cancelled

definition take_pending ::
    "nat \<Rightarrow> string \<Rightarrow> string \<Rightarrow> pending_actions \<Rightarrow> (assistant_reply + pending_action) \<times> pending_actions" where
  "take_pending now action_id token pending0 =
     (let pending = prune_expired_actions now pending0
      in case map_of pending action_id of
           None \<Rightarrow> (Inl (Ar_Not_Found ''assistant action not found or expired''), pending)
         | Some p \<Rightarrow>
             if \<not> constant_time_eq (pa_confirmation_token p) token
             then (Inl (Ar_Forbidden ''assistant action confirmation failed''), pending)
             else (Inr p, drop_key action_id pending))"

definition executed_reply :: "string + json \<times> string list \<Rightarrow> assistant_reply" where
  "executed_reply r = (case r of
     Inr (result, refreshed) \<Rightarrow> Ar_Executed result refreshed
   | Inl e \<Rightarrow> if starts_with e ''assistant action precondition failed'' then Ar_Conflict e else Ar_Unprocessable e)"

definition execute_assistant_action ::
    "'w action_lib \<Rightarrow> string option \<Rightarrow> string \<Rightarrow> nat \<Rightarrow> string \<Rightarrow> string \<Rightarrow> 'w assistant_app \<Rightarrow>
     assistant_reply or_panic \<times> 'w assistant_app" where
  "execute_assistant_action al io new_id now action_id token app =
     (case take_pending now action_id token (app_pending app) of
        (Inl reply, pending) \<Rightarrow> (Returns reply, app\<lparr>app_pending := pending\<rparr>)
      | (Inr p, pending) \<Rightarrow> (case execute_action_payload al io new_id (pa_action p) (app_admin app) of
          (r, st) \<Rightarrow> (bind_panic r (\<lambda>r. Returns (executed_reply r)), app\<lparr>app_pending := pending, app_admin := st\<rparr>)))"

definition cancel_assistant_action ::
    "nat \<Rightarrow> string \<Rightarrow> string \<Rightarrow> 'w assistant_app \<Rightarrow> assistant_reply \<times> 'w assistant_app" where
  "cancel_assistant_action now action_id token app =
     (case take_pending now action_id token (app_pending app) of
        (Inl reply, pending) \<Rightarrow> (reply, app\<lparr>app_pending := pending\<rparr>)
      | (Inr p, pending) \<Rightarrow> (Ar_Cancelled, app\<lparr>app_pending := pending\<rparr>))"

section \<open>The conversation\<close>

record tool_event =
  te_name :: string
  te_category :: string
  te_status :: string
  te_summary :: "string option"

record provider_message =
  pm_raw :: json
  pm_content :: string
  pm_tool_calls :: "json list"

record chat_response =
  cr_message :: string
  cr_tool_events :: "tool_event list"
  cr_proposed_actions :: "assistant_action list"

text \<open>\<open>cl_complete messages with_tools\<close> is one exchange with the provider; \<open>cl_now\<close> and \<open>cl_uuid\<close> read the
  clock and draw an identifier; \<open>cl_parse\<close> and \<open>cl_print\<close> are the JSON parser and printer, \<open>cl_workspace_result\<close>
  the encoder of the result of a workspace action.\<close>

record 'w chat_lib =
  cl_complete :: "json list \<Rightarrow> bool \<Rightarrow> 'w \<Rightarrow> (string + provider_message) \<times> 'w"
  cl_now :: "'w \<Rightarrow> nat"
  cl_uuid :: "'w \<Rightarrow> string \<times> 'w"
  cl_parse :: "string \<Rightarrow> string + json"
  cl_print :: "json \<Rightarrow> string"
  cl_workspace_result :: "workspace_action_result \<Rightarrow> json"
  cl_tool_risk :: "string \<Rightarrow> tool_risk"
  cl_tool_category :: "string \<Rightarrow> string"

definition json_pointer2 :: "json \<Rightarrow> string \<Rightarrow> string \<Rightarrow> json option" where
  "json_pointer2 v a b = Option.bind (payload_get v a) (\<lambda>w. payload_get w b)"

definition parse_tool_arguments :: "'w chat_lib \<Rightarrow> json \<Rightarrow> string + json" where
  "parse_tool_arguments cl call = (case json_pointer2 call ''function'' ''arguments'' of
     None \<Rightarrow> Inr (JObject [])
   | Some args \<Rightarrow> (case args of
       JNull \<Rightarrow> Inr (JObject [])
     | JObject m \<Rightarrow> Inr args
     | JArray xs \<Rightarrow> Inr args
     | JString raw \<Rightarrow>
         (if trim_str raw = [] then Inr (JObject [])
          else case cl_parse cl (trim_str raw) of
            Inl e \<Rightarrow> Inl (''assistant tool arguments were invalid JSON: '' @ e) | Inr v \<Rightarrow> Inr v)
     | other \<Rightarrow> Inl (''assistant tool arguments must be a JSON object or string, got '' @ cl_print cl other)))"

definition risk_category :: "assistant_action \<Rightarrow> string" where
  "risk_category a = (case aa_risk a of Risk_Mutate \<Rightarrow> ''mutate'' | Risk_Network \<Rightarrow> ''network'' | Risk_Destructive \<Rightarrow> ''destructive'')"

record processed_call =
  pr_event :: tool_event
  pr_message :: json
  pr_proposed :: "assistant_action option"

definition processed ::
    "'w chat_lib \<Rightarrow> json \<Rightarrow> tool_event \<Rightarrow> json \<Rightarrow> assistant_action option \<Rightarrow> processed_call" where
  "processed cl call event content proposed =
     (let call_id = (case Option.bind (payload_get call ''id'') json_text of Some i \<Rightarrow> i | None \<Rightarrow> ''tool_call'')
      in \<lparr>pr_event = event,
          pr_message = JObject [(''role'', JString ''tool''), (''tool_call_id'', JString call_id),
            (''content'', JString (cl_print cl content))],
          pr_proposed = proposed\<rparr>)"

definition with_world :: "'w assistant_app \<Rightarrow> 'w \<Rightarrow> 'w assistant_app" where
  "with_world app w = app\<lparr>app_admin := (app_admin app)\<lparr>ad_world := w\<rparr>\<rparr>"

definition app_world :: "'w assistant_app \<Rightarrow> 'w" where
  "app_world app = ad_world (app_admin app)"

text \<open>The call of the tool itself; the registration of what it proposes follows.\<close>

definition tool_called ::
    "'w action_lib \<Rightarrow> 'w tool_lib \<Rightarrow> workspace_lib \<Rightarrow> 'w chat_lib \<Rightarrow> json \<Rightarrow> string \<Rightarrow> 'w assistant_app \<Rightarrow> tool_result \<times> workspace" where
  "tool_called al tx wl cl call name app = (case parse_tool_arguments cl call of
     Inl e \<Rightarrow> (Returns (Inl e), app_workspace app)
   | Inr args \<Rightarrow> execute_assistant_tool al tx wl (cl_tool_risk cl) (cl_tool_category cl) (app_admin app) name args
       (app_workspace app))"

definition process_tool_call ::
    "'w action_lib \<Rightarrow> 'w tool_lib \<Rightarrow> workspace_lib \<Rightarrow> 'w chat_lib \<Rightarrow> json \<Rightarrow> 'w assistant_app \<Rightarrow>
     processed_call or_panic \<times> 'w assistant_app" where
  "process_tool_call al tx wl cl call app =
     (let name = (case Option.bind (json_pointer2 call ''function'' ''name'') json_text of Some n \<Rightarrow> n | None \<Rightarrow> []);
          event = (\<lambda>category status summary. \<lparr>te_name = name, te_category = category, te_status = status, te_summary = Some summary\<rparr>);
          (outcome, wsp) = tool_called al tx wl cl call name app;
          app1 = app\<lparr>app_workspace := wsp\<rparr>
      in case outcome of
           Panic \<Rightarrow> (Panic, app1)
         | Returns (Inl e) \<Rightarrow>
             (Returns (processed cl call (event ''unknown'' ''error'' e) (JObject [(''error'', JString e)]) None), app1)
         | Returns (Inr (Tool_Read result)) \<Rightarrow>
             (Returns (processed cl call (event ''read'' ''ok'' (tool_summary result)) result None), app1)
         | Returns (Inr (Tool_Workspace result)) \<Rightarrow>
             (Returns (processed cl call (event ''ui'' ''ok'' (wz_message result)) (cl_workspace_result cl result) None), app1)
         | Returns (Inr (Tool_Proposed action)) \<Rightarrow>
             (case cl_uuid cl (app_world app1) of (action_id, w1) \<Rightarrow>
              case cl_uuid cl w1 of (token, w2) \<Rightarrow>
              case register_pending_action action_id token (cl_now cl w2) action (app_pending app1) of
                (registered, pending) \<Rightarrow>
                  (bind_panic registered (\<lambda>a. Returns (processed cl call
                     (event (risk_category a) ''needs_confirmation'' (aa_summary a))
                     (JObject [(''status'', JString ''needs_confirmation''), (''action_id'', JString (aa_action_id a)),
                       (''summary'', JString (aa_summary a))]) (Some a))),
                   (with_world app1 w2)\<lparr>app_pending := pending\<rparr>)))"

fun process_tool_calls ::
    "'w action_lib \<Rightarrow> 'w tool_lib \<Rightarrow> workspace_lib \<Rightarrow> 'w chat_lib \<Rightarrow> json list \<Rightarrow> 'w assistant_app \<Rightarrow>
     processed_call list or_panic \<times> 'w assistant_app" where
  "process_tool_calls al tx wl cl [] app = (Returns [], app)"
| "process_tool_calls al tx wl cl (c # cs) app = (case process_tool_call al tx wl cl c app of
     (Panic, app1) \<Rightarrow> (Panic, app1)
   | (Returns p, app1) \<Rightarrow> (case process_tool_calls al tx wl cl cs app1 of
       (rest, app2) \<Rightarrow> (bind_panic rest (\<lambda>ps. Returns (p # ps)), app2)))"

definition prepared_message :: string where
  "prepared_message = ''I prepared the action below. Review it and click Apply when you want me to run it.''"

definition no_answer_message :: string where
  "no_answer_message = ''I gathered the available context but could not compose a final answer within the tool budget. ''
     @ ''Try narrowing the request.''"

text \<open>The turns of the loop, and the completion without tools when they are used up.\<close>

fun chat_loop ::
    "'w action_lib \<Rightarrow> 'w tool_lib \<Rightarrow> workspace_lib \<Rightarrow> 'w chat_lib \<Rightarrow> nat \<Rightarrow> json list \<Rightarrow> tool_event list \<Rightarrow>
     'w assistant_app \<Rightarrow> (string + chat_response) or_panic \<times> 'w assistant_app" where
  "chat_loop al tx wl cl 0 messages events app =
     (case cl_complete cl messages False (app_world app) of
        (result, w) \<Rightarrow>
          (Returns (Inr \<lparr>cr_message = (case result of
               Inr m \<Rightarrow> if trim_str (pm_content m) = [] then no_answer_message else pm_content m
             | Inl e \<Rightarrow> no_answer_message), cr_tool_events = events, cr_proposed_actions = []\<rparr>), with_world app w))"
| "chat_loop al tx wl cl (Suc n) messages events app =
     (case cl_complete cl messages True (app_world app) of
        (Inl e, w) \<Rightarrow> (Returns (Inl e), with_world app w)
      | (Inr m, w) \<Rightarrow>
          (if pm_tool_calls m = []
           then (Returns (Inr \<lparr>cr_message = pm_content m, cr_tool_events = events, cr_proposed_actions = []\<rparr>), with_world app w)
           else case process_tool_calls al tx wl cl (pm_tool_calls m) (with_world app w) of
             (Panic, app1) \<Rightarrow> (Panic, app1)
           | (Returns ps, app1) \<Rightarrow>
               (let events = events @ map pr_event ps;
                    messages = messages @ [pm_raw m] @ map pr_message ps;
                    proposed = List.map_filter pr_proposed ps
                in if proposed \<noteq> []
                   then (Returns (Inr \<lparr>cr_message = (if trim_str (pm_content m) = [] then prepared_message else pm_content m),
                           cr_tool_events = events, cr_proposed_actions = proposed\<rparr>), app1)
                   else chat_loop al tx wl cl n messages events app1)))"

section \<open>The provider\<close>

definition provider_base_url :: "(string \<Rightarrow> string + url) \<Rightarrow> string \<Rightarrow> string + url" where
  "provider_base_url parse base_url =
     (case parse (if trim_str base_url = [] then ''https://api.openai.com/v1'' else trim_str base_url) of
        Inl e \<Rightarrow> Inl (''invalid provider base_url: '' @ e) | Inr u \<Rightarrow> Inr u)"

definition looks_like_local_no_auth_provider :: "url \<Rightarrow> bool" where
  "looks_like_local_no_auth_provider u \<longleftrightarrow> (case url_host_str u of Some h \<Rightarrow> h | None \<Rightarrow> [])
     \<in> {''localhost'', ''127.0.0.1'', ''::1'', ''host.docker.internal''}"

definition validate_provider :: "(string \<Rightarrow> string + url) \<Rightarrow> string \<Rightarrow> string \<Rightarrow> string \<Rightarrow> string + unit" where
  "validate_provider parse base_url model api_key =
     (if trim_str model = [] then Inl ''model is required''
      else bind_sum (provider_base_url parse base_url) (\<lambda>u.
        if url_scheme u \<notin> {''http'', ''https''} then Inl ''provider base_url must use http or https''
        else if trim_str api_key = [] \<and> \<not> looks_like_local_no_auth_provider u
        then Inl (''API key is required for non-local providers; local providers such as Ollama may leave it blank'')
        else Inr ()))"

text \<open>The path of the endpoint from the path of the base URL.\<close>

definition completions_path :: "string \<Rightarrow> string" where
  "completions_path base_path =
     (let path = trim_end_char (CHR ''/'') base_path
      in if suffix ''/chat/completions'' path then base_path
         else let path = (if path = [] \<or> path = ''/'' then ''/v1'' else path);
                  path = (if suffix ''/v1'' path \<or> suffix ''/v1/'' path then path else path @ ''/v1'')
              in trim_end_char (CHR ''/'') path @ ''/chat/completions'')"

text \<open>A chat: \<open>messages\<close> are the system prompt and the recent history.\<close>

definition run_assistant_chat ::
    "'w action_lib \<Rightarrow> 'w tool_lib \<Rightarrow> workspace_lib \<Rightarrow> 'w chat_lib \<Rightarrow> string \<Rightarrow> string \<Rightarrow> string \<Rightarrow> json list \<Rightarrow>
     'w assistant_app \<Rightarrow> (string + chat_response) or_panic \<times> 'w assistant_app" where
  "run_assistant_chat al tx wl cl base_url model api_key messages app =
     (case validate_provider (al_url_parse al) base_url model api_key of
        Inl e \<Rightarrow> (Returns (Inl e), app)
      | Inr _ \<Rightarrow> chat_loop al tx wl cl max_tool_loops messages [] app)"

section \<open>Who may run an action\<close>

lemma byte_of_char_same: "byte_of_char a = byte_of_char b \<longleftrightarrow> a = b"
  by (metis char_of_byte_of_char)

lemma constant_time_eq_iff [simp]: "constant_time_eq left right \<longleftrightarrow> left = right"
proof -
  have "foldl (\<lambda>diff (a, b). or diff (xor (byte_of_char a) (byte_of_char b))) 0 ps = (0 :: byte)
      \<longleftrightarrow> (\<forall>(a, b) \<in> set ps. a = b)" for ps
    using or_xor_fold [of 0 "map (\<lambda>(a, b). (byte_of_char a, byte_of_char b)) ps"]
    by (simp add: foldl_map case_prod_unfold byte_of_char_same)
  moreover have "(\<forall>(a, b) \<in> set (zip left right). a = b) \<longleftrightarrow> left = right" if "length left = length right"
    using that by (auto simp: set_zip list_eq_iff_nth_eq)
  ultimately show ?thesis unfolding constant_time_eq_def by auto
qed

text \<open>What happens to actions, the latest first. A proposal carries the action as it was built, without its
  identifiers.\<close>

datatype assistant_event =
  Proposed string string assistant_action nat
| Executed string string assistant_action nat
| Cancelled string string nat

definition named :: "string \<Rightarrow> string \<Rightarrow> assistant_action \<Rightarrow> assistant_action" where
  "named action_id token a = a\<lparr>aa_action_id := action_id, aa_confirmation_token := token\<rparr>"

fun closed_id :: "assistant_event \<Rightarrow> string option" where
  "closed_id (Executed k _ _ _) = Some k"
| "closed_id (Cancelled k _ _) = Some k"
| "closed_id (Proposed _ _ _ _) = None"

fun proposed_id :: "assistant_event \<Rightarrow> string option" where
  "proposed_id (Proposed k _ _ _) = Some k"
| "proposed_id e = None"

definition waiting :: "string \<Rightarrow> string \<Rightarrow> nat \<Rightarrow> assistant_event list \<Rightarrow> bool" where
  "waiting k token now tr \<longleftrightarrow> Some k \<notin> closed_id ` set tr
     \<and> (\<exists>a t. Proposed k token a t \<in> set tr \<and> now < t + assistant_action_ttl)"

fun confirmed :: "assistant_event list \<Rightarrow> bool" where
  "confirmed [] = True"
| "confirmed (Proposed k token a t # tr) \<longleftrightarrow> confirmed tr \<and> Some k \<notin> proposed_id ` set tr"
| "confirmed (Executed k token a t # tr) \<longleftrightarrow> confirmed tr \<and> waiting k token t tr
     \<and> (\<exists>a0 t0. Proposed k token a0 t0 \<in> set tr \<and> a = named k token a0)"
| "confirmed (Cancelled k token t # tr) \<longleftrightarrow> confirmed tr \<and> waiting k token t tr"

text \<open>The steps of the running program as far as they concern the table: time passes, a proposal is registered
  under an identifier that was never drawn before, the two handlers run with any request, and everything else
  leaves the table alone.\<close>

definition logged :: "(assistant_reply + pending_action) \<Rightarrow> (pending_action \<Rightarrow> assistant_event) \<Rightarrow> assistant_event list" where
  "logged r e = (case r of Inr p \<Rightarrow> [e p] | Inl _ \<Rightarrow> [])"

inductive assistant_reach :: "'w action_lib \<Rightarrow> 'w assistant_app \<Rightarrow> nat \<Rightarrow> assistant_event list \<Rightarrow> bool" for al where
  start: "app_pending app = [] \<Longrightarrow> assistant_reach al app now []"
| tick: "assistant_reach al app now tr \<Longrightarrow> now \<le> later \<Longrightarrow> assistant_reach al app later tr"
| propose: "assistant_reach al app now tr \<Longrightarrow> Some k \<notin> proposed_id ` set tr
    \<Longrightarrow> assistant_reach al (app\<lparr>app_pending := snd (register_pending_action k token now a (app_pending app))\<rparr>) now
          (Proposed k token a now # tr)"
| execute: "assistant_reach al app now tr
    \<Longrightarrow> assistant_reach al (snd (execute_assistant_action al io new_id now k token app)) now
          (logged (fst (take_pending now k token (app_pending app))) (\<lambda>p. Executed k token (pa_action p) now) @ tr)"
| cancel: "assistant_reach al app now tr
    \<Longrightarrow> assistant_reach al (snd (cancel_assistant_action now k token app)) now
          (logged (fst (take_pending now k token (app_pending app))) (\<lambda>p. Cancelled k token now) @ tr)"
| other: "assistant_reach al app now tr \<Longrightarrow> app_pending app' = app_pending app \<Longrightarrow> assistant_reach al app' now tr"

definition entry_ok :: "assistant_event list \<Rightarrow> string \<times> pending_action \<Rightarrow> bool" where
  "entry_ok tr kp \<longleftrightarrow> Some (fst kp) \<notin> closed_id ` set tr
     \<and> (\<exists>a t. Proposed (fst kp) (pa_confirmation_token (snd kp)) a t \<in> set tr
          \<and> pa_action (snd kp) = named (fst kp) (pa_confirmation_token (snd kp)) a
          \<and> pa_expires_at (snd kp) = t + assistant_action_ttl)"

definition pending_ok :: "assistant_event list \<Rightarrow> pending_actions \<Rightarrow> bool" where
  "pending_ok tr m \<longleftrightarrow> distinct (map fst m) \<and> length m \<le> max_pending_actions \<and> list_all (entry_ok tr) m"

lemma distinct_filter_keys: "distinct (map fst m) \<Longrightarrow> distinct (map fst (filter P m))"
  by (induction m) auto

lemma pending_ok_filter: "pending_ok tr m \<Longrightarrow> pending_ok tr (filter P m)"
  using le_trans [OF length_filter_le [of P m]] by (auto simp: pending_ok_def list_all_iff distinct_filter_keys)

lemma pending_ok_entry: "pending_ok tr m \<Longrightarrow> kp \<in> set m \<Longrightarrow> entry_ok tr kp"
  by (simp add: pending_ok_def list_all_iff)

lemma pending_ok_drop: "pending_ok tr m \<Longrightarrow> pending_ok tr (drop_key k m)"
  unfolding drop_key_def by (rule pending_ok_filter)

lemma pending_ok_prune: "pending_ok tr m \<Longrightarrow> pending_ok tr (prune_expired_actions now m)"
  unfolding prune_expired_actions_def by (rule pending_ok_filter)

lemma closed_proposed: "confirmed tr \<Longrightarrow> Some k \<in> closed_id ` set tr \<Longrightarrow> Some k \<in> proposed_id ` set tr"
proof (induction tr rule: confirmed.induct)
  case (3 k' token a t tr)
  then show ?case by (auto simp: waiting_def intro: rev_image_eqI)
next
  case (4 k' token t tr)
  then show ?case by (auto simp: waiting_def intro: rev_image_eqI)
qed auto

lemma take_pending_cases:
  obtains (refused) r where "take_pending now k token m = (Inl r, prune_expired_actions now m)"
  | (taken) p where "take_pending now k token m = (Inr p, drop_key k (prune_expired_actions now m))"
      "(k, p) \<in> set m" "now < pa_expires_at p" "token = pa_confirmation_token p"
proof (cases "map_of (prune_expired_actions now m) k")
  case None
  then show ?thesis by (intro refused) (simp add: take_pending_def)
next
  case (Some p)
  from map_of_SomeD [OF Some] have "(k, p) \<in> set m" "now < pa_expires_at p" by (auto simp: prune_expired_actions_def)
  with Some show ?thesis by (cases "token = pa_confirmation_token p") (auto simp: take_pending_def intro: refused taken)
qed

lemma entry_ok_keeps:
  "entry_ok tr kp \<Longrightarrow> closed_id e \<noteq> Some (fst kp) \<Longrightarrow> entry_ok (e # tr) kp"
  by (auto simp: entry_ok_def)

lemma pending_ok_keeps:
  "pending_ok tr m \<Longrightarrow> \<forall>kp \<in> set m. closed_id e \<noteq> Some (fst kp) \<Longrightarrow> pending_ok (e # tr) m"
  by (auto simp: pending_ok_def list_all_iff entry_ok_keeps)

lemma entry_ok_fresh: "entry_ok tr kp \<Longrightarrow> Some k \<notin> proposed_id ` set tr \<Longrightarrow> fst kp \<noteq> k"
  by (force simp: entry_ok_def)

lemma taken_confirmed:
  assumes "pending_ok tr m" "confirmed tr" "(k, p) \<in> set m" "now < pa_expires_at p"
  shows "confirmed (Executed k (pa_confirmation_token p) (pa_action p) now # tr)"
    "confirmed (Cancelled k (pa_confirmation_token p) now # tr)"
proof -
  have "entry_ok tr (k, p)" using assms(1,3) by (auto simp: pending_ok_def list_all_iff)
  then obtain a t where "Some k \<notin> closed_id ` set tr" "Proposed k (pa_confirmation_token p) a t \<in> set tr"
    "pa_action p = named k (pa_confirmation_token p) a" "pa_expires_at p = t + assistant_action_ttl"
    by (auto simp: entry_ok_def)
  with assms(2,4) show "confirmed (Executed k (pa_confirmation_token p) (pa_action p) now # tr)"
    "confirmed (Cancelled k (pa_confirmation_token p) now # tr)"
    by (auto simp: waiting_def)
qed

lemma pending_ok_closed:
  "pending_ok tr m \<Longrightarrow> closed_id e = Some k \<Longrightarrow> pending_ok (e # tr) (drop_key k (prune_expired_actions now m))"
  by (rule pending_ok_keeps) (auto simp: drop_key_def intro!: pending_ok_filter pending_ok_prune)

lemma pending_ok_logged:
  assumes ok: "pending_ok tr m" "confirmed tr"
    and "\<And>p. closed_id (e p) = Some k"
    and "\<And>p. (k, p) \<in> set m \<Longrightarrow> now < pa_expires_at p \<Longrightarrow> token = pa_confirmation_token p \<Longrightarrow> confirmed (e p # tr)"
  shows "confirmed (logged (fst (take_pending now k token m)) e @ tr)
    \<and> pending_ok (logged (fst (take_pending now k token m)) e @ tr) (snd (take_pending now k token m))"
proof (cases rule: take_pending_cases [of now k token m])
  case (refused r)
  then show ?thesis using ok by (simp add: logged_def pending_ok_prune)
next
  case (taken p)
  then show ?thesis using assms by (simp add: logged_def pending_ok_closed)
qed

lemma pending_after_execute:
  "app_pending (snd (execute_assistant_action al io new_id now k token app)) = snd (take_pending now k token (app_pending app))"
  by (auto simp: execute_assistant_action_def split: prod.splits sum.splits)

lemma pending_after_cancel:
  "app_pending (snd (cancel_assistant_action now k token app)) = snd (take_pending now k token (app_pending app))"
  by (auto simp: cancel_assistant_action_def split: prod.splits sum.splits)

lemma pending_ok_register:
  assumes ok: "pending_ok tr m" and fresh: "Some k \<notin> proposed_id ` set tr" "confirmed tr"
  shows "pending_ok (Proposed k token a now # tr) (snd (register_pending_action k token now a m))"
proof -
  define pruned where "pruned = prune_expired_actions now m"
  define kept where "kept = (if length pruned \<ge> max_pending_actions then
      (case pruned of [] \<Rightarrow> pruned | (oldest, _) # _ \<Rightarrow> drop_key oldest pruned) else pruned)"
  define e where "e = \<lparr>pa_action = named k token a, pa_confirmation_token = token, pa_expires_at = now + assistant_action_ttl\<rparr>"
  have pruned: "pending_ok tr pruned" unfolding pruned_def using ok by (rule pending_ok_prune)
  have kept_ok: "pending_ok tr kept"
    using pruned by (auto simp: kept_def intro: pending_ok_drop split: list.split)
  have less: "length kept < max_pending_actions"
  proof (cases pruned)
    case (Cons x xs)
    with pruned show ?thesis
      using length_filter_le [of "\<lambda>(k', _). k' \<noteq> fst x" xs]
      by (auto simp: kept_def drop_key_def pending_ok_def case_prod_unfold max_pending_actions_def simp del: length_filter_le)
  qed (simp add: kept_def max_pending_actions_def)
  have "\<forall>kp \<in> set kept. fst kp \<noteq> k"
    using entry_ok_fresh [OF pending_ok_entry [OF kept_ok] fresh(1)] by blast
  then have "k \<notin> fst ` set kept" and same: "drop_key k kept = kept"
    by (auto simp: drop_key_def filter_id_conv)
  moreover have "Some k \<notin> closed_id ` set tr" using closed_proposed [OF fresh(2)] fresh(1) by blast
  then have "entry_ok (Proposed k token a now # tr) (k, e)" by (auto simp: entry_ok_def e_def)
  ultimately have "pending_ok (Proposed k token a now # tr) (kept @ [(k, e)])"
    using kept_ok less by (auto simp: pending_ok_def list_all_iff entry_ok_keeps)
  moreover have "snd (register_pending_action k token now a m) = drop_key k kept @ [(k, e)]"
    unfolding register_pending_action_def Let_def kept_def pruned_def e_def named_def by simp
  ultimately show ?thesis by (simp only: same)
qed

lemma assistant_reach_ok: "assistant_reach al app now tr \<Longrightarrow> confirmed tr \<and> pending_ok tr (app_pending app)"
proof (induction rule: assistant_reach.induct)
  case (execute app now tr k token io new_id)
  then show ?case unfolding pending_after_execute
    by (intro pending_ok_logged) (auto simp del: confirmed.simps simp: taken_confirmed)
next
  case (cancel app now tr k token)
  then show ?case unfolding pending_after_cancel
    by (intro pending_ok_logged) (auto simp del: confirmed.simps simp: taken_confirmed)
next
  case (propose app now tr k token a)
  then show ?case by (simp add: pending_ok_register)
qed (auto simp: pending_ok_def)



section \<open>What a conversation can do\<close>

definition chat_safe :: "'w assistant_app \<Rightarrow> 'w assistant_app \<Rightarrow> bool" where
  "chat_safe app app' \<longleftrightarrow> ad_live (app_admin app') = ad_live (app_admin app) \<and> ad_disk (app_admin app') = ad_disk (app_admin app)
     \<and> workspace_step\<^sup>*\<^sup>* (app_workspace app) (app_workspace app')
     \<and> set (app_pending app') \<subseteq> set (app_pending app) \<union> {(k, p). well_proposed (pa_action p)}"

lemma chat_safe_refl [simp]: "chat_safe app app"
  by (simp add: chat_safe_def)

lemma chat_safe_trans [trans]: "chat_safe a b \<Longrightarrow> chat_safe b c \<Longrightarrow> chat_safe a c"
  unfolding chat_safe_def by (auto intro: rtranclp_trans)

lemma chat_safe_world [simp]: "chat_safe app (with_world app w)"
  by (simp add: chat_safe_def with_world_def)

lemma chat_safe_workspace: "workspace_step\<^sup>*\<^sup>* (app_workspace app) wsp \<Longrightarrow> chat_safe app (app\<lparr>app_workspace := wsp\<rparr>)"
  by (simp add: chat_safe_def)

lemma well_proposed_named: "well_proposed a \<Longrightarrow> well_proposed (a\<lparr>aa_action_id := k, aa_confirmation_token := token\<rparr>)"
  by (auto simp: well_proposed_def split: sum.splits)

lemma register_keeps_well:
  "well_proposed a \<Longrightarrow> set (snd (register_pending_action k token now a m)) \<subseteq> set m \<union> {(k, p). well_proposed (pa_action p)}"
proof -
  assume a: "well_proposed a"
  define pruned where "pruned = prune_expired_actions now m"
  define kept where "kept = (if length pruned \<ge> max_pending_actions then
      (case pruned of [] \<Rightarrow> pruned | (oldest, _) # _ \<Rightarrow> drop_key oldest pruned) else pruned)"
  have drop: "set (drop_key k' m') \<subseteq> set m'" for k' and m' :: pending_actions by (auto simp: drop_key_def)
  have "set kept \<subseteq> set pruned" unfolding kept_def drop_key_def by (auto split: list.split)
  also have "set pruned \<subseteq> set m" by (auto simp: pruned_def prune_expired_actions_def)
  finally have "set (drop_key k kept) \<subseteq> set m" using drop by blast
  moreover have "snd (register_pending_action k token now a m) = drop_key k kept
      @ [(k, \<lparr>pa_action = a\<lparr>aa_action_id := k, aa_confirmation_token := token\<rparr>, pa_confirmation_token = token,
           pa_expires_at = now + assistant_action_ttl\<rparr>)]"
    unfolding register_pending_action_def Let_def kept_def pruned_def by simp
  ultimately show ?thesis using a by (auto simp: well_proposed_named)
qed

lemma tool_keeps_workspace:
  "execute_assistant_tool al tx wl wrisk wcat st name args wsp = (r, wsp') \<Longrightarrow> workspace_step\<^sup>*\<^sup>* wsp wsp'"
proof -
  have step: "apply_workspace_action wl ty args wsp = (x, wsp') \<Longrightarrow> workspace_step wsp wsp'" for ty x
    using workspace_step.action [of wsp wl ty args] by simp
  assume "execute_assistant_tool al tx wl wrisk wcat st name args wsp = (r, wsp')"
  then show ?thesis
    unfolding execute_assistant_tool_def by (auto split: option.splits prod.splits sum.splits dest!: step)
qed

lemma tool_called_safe:
  assumes "tool_called al tx wl cl call name app = (r, wsp)"
  shows "workspace_step\<^sup>*\<^sup>* (app_workspace app) wsp" "r = Returns (Inr (Tool_Proposed a)) \<Longrightarrow> well_proposed a"
  using assms by (auto simp: tool_called_def split: sum.splits intro: tool_keeps_workspace)
    (auto simp: tool_called_def execute_assistant_tool_def split: sum.splits option.splits prod.splits intro: static_tool_well)

text \<open>What one call does: the tool, and for a proposal two identifiers and the table.\<close>

lemma process_tool_call_cases:
  assumes "process_tool_call al tx wl cl call app = (r, app')"
  obtains (plain) wsp where "workspace_step\<^sup>*\<^sup>* (app_workspace app) wsp" "app' = app\<lparr>app_workspace := wsp\<rparr>"
  | (proposed) wsp a k w1 token w2 m where "workspace_step\<^sup>*\<^sup>* (app_workspace app) wsp" "well_proposed a"
      "cl_uuid cl (app_world app) = (k, w1)" "cl_uuid cl w1 = (token, w2)"
      "app' = (with_world (app\<lparr>app_workspace := wsp\<rparr>) w2)\<lparr>app_pending :=
         snd (register_pending_action k token (cl_now cl w2) a (app_pending app))\<rparr>"
proof -
  define name where "name = (case Option.bind (json_pointer2 call ''function'' ''name'') json_text of Some n \<Rightarrow> n | None \<Rightarrow> [])"
  obtain outcome wsp where called: "tool_called al tx wl cl call name app = (outcome, wsp)" by fastforce
  note safe = tool_called_safe [OF called]
  note step = assms [unfolded process_tool_call_def Let_def, folded name_def, unfolded called prod.case]
  show thesis
  proof (cases "\<exists>a. outcome = Returns (Inr (Tool_Proposed a))")
    case False
    with step safe(1) show thesis
      by (intro plain) (auto split: or_panic.splits sum.splits tool_outcome.splits)
  next
    case True
    then obtain a where a: "outcome = Returns (Inr (Tool_Proposed a))" by blast
    obtain k w1 where k: "cl_uuid cl (app_world app) = (k, w1)" by fastforce
    obtain token w2 where token: "cl_uuid cl w1 = (token, w2)" by fastforce
    have world: "app_world (app\<lparr>app_workspace := wsp\<rparr>) = app_world app" by (simp add: app_world_def)
    show thesis
      using step by (intro proposed [OF safe(1) safe(2) [OF a] k token])
        (simp add: a world k token split: prod.splits)
  qed
qed

lemma process_tool_call_safe: "process_tool_call al tx wl cl call app = (r, app') \<Longrightarrow> chat_safe app app'"
proof (elim process_tool_call_cases)
  fix wsp a k w1 token w2
  assume "workspace_step\<^sup>*\<^sup>* (app_workspace app) wsp" "well_proposed a"
  moreover assume "app' = (with_world (app\<lparr>app_workspace := wsp\<rparr>) w2)\<lparr>app_pending :=
         snd (register_pending_action k token (cl_now cl w2) a (app_pending app))\<rparr>"
  ultimately show ?thesis using register_keeps_well [of a k token "cl_now cl w2" "app_pending app"]
    by (simp add: chat_safe_def with_world_def)
qed (simp add: chat_safe_workspace)

lemma process_tool_calls_safe: "chat_safe app (snd (process_tool_calls al tx wl cl calls app))"
proof (induction calls arbitrary: app)
  case (Cons c cs)
  obtain r app1 where c: "process_tool_call al tx wl cl c app = (r, app1)" by fastforce
  have "chat_safe app app1" using c by (rule process_tool_call_safe)
  with Cons.IH [of app1] show ?case
    by (cases r) (auto simp: c split: prod.splits intro: chat_safe_trans)
qed simp

lemma chat_loop_safe: "chat_safe app (snd (chat_loop al tx wl cl n messages events app))"
proof (induction n arbitrary: messages events app)
  case 0
  then show ?case by (simp split: prod.split)
next
  case (Suc n)
  obtain result w where c: "cl_complete cl messages True (app_world app) = (result, w)" by fastforce
  have world: "chat_safe app (with_world app w)" by simp
  show ?case
  proof (cases result)
    case (Inr m)
    obtain ps app1 where p: "process_tool_calls al tx wl cl (pm_tool_calls m) (with_world app w) = (ps, app1)" by fastforce
    have "chat_safe app app1"
      using chat_safe_trans [OF world process_tool_calls_safe [of "with_world app w" al tx wl cl "pm_tool_calls m"]] p by simp
    with Suc.IH show ?thesis
      by (cases ps) (auto simp: c Inr p Let_def intro: chat_safe_trans)
  qed (simp add: c)
qed

text \<open>C11: Whatever the provider answers, a conversation changes nothing of the rules and settings, neither in the
  running program nor on disk; the state of the user interface only takes steps its own handlers could take; and
  what it adds to the table of waiting actions are listed actions, with the kind and the risk of their route, that
  wait for a confirmation.\<close>

theorem chat_proposes_only:
  "let app' = snd (run_assistant_chat al tx wl cl base_url model api_key messages app)
   in ad_live (app_admin app') = ad_live (app_admin app) \<and> ad_disk (app_admin app') = ad_disk (app_admin app)
     \<and> workspace_step\<^sup>*\<^sup>* (app_workspace app) (app_workspace app')
     \<and> set (app_pending app') \<subseteq> set (app_pending app) \<union> {(k, p). well_proposed (pa_action p)}"
proof -
  have "chat_safe app (snd (run_assistant_chat al tx wl cl base_url model api_key messages app))"
    by (simp add: run_assistant_chat_def chat_loop_safe split: sum.split)
  then show ?thesis by (simp only: Let_def chat_safe_def)
qed

section \<open>A conversation ends\<close>

lemma process_tool_call_count:
  fixes count :: "'w \<Rightarrow> nat"
  assumes "process_tool_call al tx wl cl call app = (r, app')" "\<And>w. count (snd (cl_uuid cl w)) \<le> count w"
  shows "count (app_world app') \<le> count (app_world app)"
  using assms(1)
proof (elim process_tool_call_cases)
  fix wsp a k w1 token w2
  assume "cl_uuid cl (app_world app) = (k, w1)" "cl_uuid cl w1 = (token, w2)"
  with assms(2) [of "app_world app"] assms(2) [of w1] have "count w2 \<le> count (app_world app)" by simp
  moreover assume "app' = (with_world (app\<lparr>app_workspace := wsp\<rparr>) w2)\<lparr>app_pending :=
         snd (register_pending_action k token (cl_now cl w2) a (app_pending app))\<rparr>"
  ultimately show ?thesis by (simp add: with_world_def app_world_def)
qed (simp add: app_world_def)

lemma process_tool_calls_count:
  fixes count :: "'w \<Rightarrow> nat"
  assumes "\<And>w. count (snd (cl_uuid cl w)) \<le> count w"
  shows "count (app_world (snd (process_tool_calls al tx wl cl calls app))) \<le> count (app_world app)"
proof (induction calls arbitrary: app)
  case (Cons c cs)
  obtain r app1 where c: "process_tool_call al tx wl cl c app = (r, app1)" by fastforce
  have "count (app_world app1) \<le> count (app_world app)" using c assms by (rule process_tool_call_count)
  with Cons.IH [of app1] show ?case
    by (cases r) (auto simp: c split: prod.splits intro: le_trans)
qed simp

lemma app_world_with [simp]: "app_world (with_world app w) = w"
  by (simp add: app_world_def with_world_def)

lemma chat_loop_count:
  fixes count :: "'w \<Rightarrow> nat"
  assumes complete: "\<And>ms b w. count (snd (cl_complete cl ms b w)) \<le> count w + 1"
    and uuid: "\<And>w. count (snd (cl_uuid cl w)) \<le> count w"
  shows "count (app_world (snd (chat_loop al tx wl cl n messages events app))) \<le> count (app_world app) + n + 1"
proof (induction n arbitrary: messages events app)
  case 0
  show ?case using complete [of messages False "app_world app"] by (auto split: prod.split)
next
  case (Suc n)
  obtain result w where c: "cl_complete cl messages True (app_world app) = (result, w)" by fastforce
  have w: "count w \<le> count (app_world app) + 1" using complete [of messages True "app_world app"] by (simp add: c)
  show ?case
  proof (cases result)
    case (Inr m)
    obtain ps app1 where p: "process_tool_calls al tx wl cl (pm_tool_calls m) (with_world app w) = (ps, app1)" by fastforce
    have "count (app_world app1) \<le> count w"
      using process_tool_calls_count [where count = count and cl = cl, OF uuid, of al tx wl "pm_tool_calls m" "with_world app w"] by (simp add: p)
    with w have app1: "count (app_world app1) \<le> count (app_world app) + 1" by simp
    have "count (app_world (snd (chat_loop al tx wl cl n ms es app1))) \<le> count (app_world app) + Suc n + 1" for ms es
      using Suc.IH [of ms es app1] app1 by simp
    with w app1 show ?thesis by (cases ps) (auto simp: c Inr p Let_def)
  qed (use w in \<open>simp add: c\<close>)
qed

text \<open>C37: A conversation with the provider ends after at most five exchanges, even when every answer asks for
  more tools: \<open>count\<close> is any count of exchanges that grows by at most one with each and not with the drawing of an
  identifier.\<close>

theorem chat_ends:
  fixes count :: "'w \<Rightarrow> nat"
  assumes "\<And>ms b w. count (snd (cl_complete cl ms b w)) \<le> count w + 1" "\<And>w. count (snd (cl_uuid cl w)) \<le> count w"
  shows "count (app_world (snd (run_assistant_chat al tx wl cl base_url model api_key messages app))) \<le> count (app_world app) + 5"
  using chat_loop_count [where n = max_tool_loops, OF assms, of al tx wl messages "[]" app]
  by (simp add: run_assistant_chat_def max_tool_loops_def split: sum.split)

theorem chat_ends_witness:
  "\<forall>al tx wl cl base_url model api_key messages app.
     app_world (snd (run_assistant_chat al tx wl
       (cl\<lparr>cl_complete := \<lambda>ms b w. (Inr \<lparr>pm_raw = JNull, pm_content = [], pm_tool_calls = [JNull]\<rparr>, w + 1),
           cl_uuid := \<lambda>w. ([], w)\<rparr>) base_url model api_key messages app)) \<le> app_world app + (5 :: nat)"
  by (intro allI chat_ends [where count = "\<lambda>w. w"]) simp_all

end
