(* ===== verification/AssistantCompat.thy ===== *)
theory AssistantCompat
  imports Assistant Har
begin

text \<open>
  The check of how well a model works with the assistant (\<open>control_plane/assistant_compat.rs\<close>): the gates a model
  has to pass, the replay of the evaluation suite and its score, and the report.

  The suite and the tool specifications are data of YAML files, arguments here, as are the provider, the clock and
  the printers of JSON. A score is computed in doubles, which are modelled in \<open>Har\<close>. Counters of fields stay
  far below the range of \<open>u32\<close> and are natural numbers; latencies are milliseconds.
\<close>

section \<open>Data\<close>

record compat_check =
  kc_id :: string
  kc_label :: string
  kc_required :: bool
  kc_ok :: bool
  kc_detail :: string
  kc_latency_ms :: "nat option"

record eval_case =
  ec_id :: string
  ec_prompt :: string
  ec_expected_tool :: string
  ec_args :: json
  ec_expected_endpoint :: string
  ec_expected_payload :: json

record eval_result =
  er_id :: string
  er_prompt :: string
  er_expected_tool :: string
  er_called_tool :: "string option"
  er_ok :: bool
  er_score_percent :: nat
  er_fields_matched :: nat
  er_fields_total :: nat
  er_detail :: string
  er_latency_ms :: "nat option"

record compat_report =
  rp_compatible :: bool
  rp_compatibility_percent :: "nat option"
  rp_evals_passed :: nat
  rp_evals_total :: nat
  rp_avg_eval_latency_ms :: "nat option"
  rp_model :: string
  rp_base_url :: string
  rp_summary :: string
  rp_checks :: "compat_check list"
  rp_evals :: "eval_result list"

text \<open>\<open>kl_complete messages tools\<close> asks the provider; without tools for \<open>None\<close>.\<close>

record 'w compat_lib =
  kl_complete :: "json list \<Rightarrow> json list option \<Rightarrow> 'w \<Rightarrow> (string + provider_message) \<times> 'w"
  kl_now :: "'w \<Rightarrow> nat"
  kl_chat :: "'w chat_lib"
  kl_show_number :: "json_number \<Rightarrow> string"
  kl_url_parse :: "string \<Rightarrow> string + url"
  kl_specs :: "json list"
  kl_cases :: "eval_case list"

definition new_check :: "string \<Rightarrow> string \<Rightarrow> bool \<Rightarrow> compat_check" where
  "new_check i label required = \<lparr>kc_id = i, kc_label = label, kc_required = required, kc_ok = False, kc_detail = [],
     kc_latency_ms = None\<rparr>"

definition pass_check :: "string \<Rightarrow> nat \<Rightarrow> compat_check \<Rightarrow> compat_check" where
  "pass_check detail ms c = c\<lparr>kc_ok := True, kc_detail := detail, kc_latency_ms := Some ms\<rparr>"

definition fail_check :: "string \<Rightarrow> nat option \<Rightarrow> compat_check \<Rightarrow> compat_check" where
  "fail_check detail ms c = c\<lparr>kc_ok := False, kc_detail := detail, kc_latency_ms := ms\<rparr>"

definition pass_config :: "compat_check \<Rightarrow> compat_check" where
  "pass_config c = c\<lparr>kc_ok := True, kc_detail := ''Base URL, model, and credentials accepted.''\<rparr>"

section \<open>What the model is asked\<close>

definition probe_tool_name :: string where "probe_tool_name = ''oproxy_probe_echo''"

definition probe_tool_spec :: json where
  "probe_tool_spec = JObject [(''type'', JString ''function''), (''function'', JObject
     [(''name'', JString probe_tool_name),
      (''description'', JString ''Compatibility probe. Echo the provided message back verbatim.''),
      (''parameters'', JObject
        [(''type'', JString ''object''), (''required'', JArray [JString ''message'']),
         (''properties'', JObject [(''message'', JObject
            [(''type'', JString ''string''), (''description'', JString ''Text to echo back.'')])])])])]"

definition message_of :: "string \<Rightarrow> string \<Rightarrow> json" where
  "message_of role content = JObject [(''role'', JString role), (''content'', JString content)]"

definition plain_messages :: "json list" where
  "plain_messages = [message_of ''system'' ''You are a connectivity probe. Answer in one short sentence.'',
     message_of ''user'' ''Reply with a brief confirmation that you are reachable.'']"

definition tool_request_messages :: "json list" where
  "tool_request_messages =
     [message_of ''system'' ''You are a tool-use probe. When a tool is available, call it instead of answering in prose.'',
      message_of ''user'' (''Call the '' @ probe_tool_name @ '' function with message set to the word ping.'')]"

definition context_priority_system_prompt :: string where
  "context_priority_system_prompt =
     ''You are an oproxy assistant compatibility probe. Follow this context policy exactly: ''
     @ ''primary context is the user-intentionally attached request. Secondary context is UI/workspace ''
     @ ''state, visible sessions, and browser hints. If primary context is sufficient, answer only from ''
     @ ''primary even when secondary conflicts. If primary context is absent or insufficient, use ''
     @ ''secondary context as fallback. Answer with only the requested host and path.''"

definition context_primary_priority_messages :: "json list" where
  "context_primary_priority_messages = [message_of ''system'' context_priority_system_prompt, message_of ''user''
     (''Primary context: attached request host primary.example.com path /primary. ''
     @ ''Secondary UI state: selected request host secondary.example.com path /secondary. ''
     @ ''The user asks: explain this request. Which host and path should be treated as this request?'')]"

definition context_secondary_fallback_messages :: "json list" where
  "context_secondary_fallback_messages = [message_of ''system'' context_priority_system_prompt, message_of ''user''
     (''Primary context: attached request id req-1, but no host, path, method, or flow details are available. ''
     @ ''Secondary UI state: visible selected request host fallback.example.com path /secondary. ''
     @ ''The user asks: explain this request. Primary is insufficient. Which host and path can be used as fallback?'')]"

definition eval_messages :: "string \<Rightarrow> json list" where
  "eval_messages prompt = [message_of ''system''
     (''You are the oproxy assistant. Select the single most appropriate tool for the user's request and call it. ''
     @ ''Prefer specialized tools over the generic propose_action: propose_map_remote for host-to-host mapping, propose_dns_override for DNS, ''
     @ ''propose_throttling for throttling, propose_rewrite_rule for header/query/path/body/status rewrites, propose_mock_rule for mock responses, ''
     @ ''propose_access_rule for block/allow, propose_capture_filter for capture filtering, and propose_upstream_proxy for upstream proxy changes. ''
     @ ''Call exactly one tool; do not answer in prose.''), message_of ''user'' prompt]"

definition primary_priority_response_ok :: "string \<Rightarrow> bool" where
  "primary_priority_response_ok content \<longleftrightarrow> (let s = to_ascii_lowercase content in
     contains_str s ''primary.example.com'' \<and> contains_str s ''/primary'' \<and> \<not> contains_str s ''secondary.example.com'')"

definition secondary_fallback_response_ok :: "string \<Rightarrow> bool" where
  "secondary_fallback_response_ok content \<longleftrightarrow> (let s = to_ascii_lowercase content in
     contains_str s ''fallback.example.com'' \<and> contains_str s ''/secondary'')"

text \<open>The words of a text, from its characters and the word that is being read.\<close>

fun split_words :: "string list \<Rightarrow> string \<Rightarrow> string list" where
  "split_words [] word = (if word = [] then [] else [word])"
| "split_words (g # gs) word =
     (if g \<in> white_space then (if word = [] then split_words gs [] else word # split_words gs [])
      else split_words gs (word @ g))"

definition compact_probe_response :: "string \<Rightarrow> string" where
  "compact_probe_response content =
     (let compact = join_str '' '' (split_words (utf8_chars content) [])
      in if chars_count compact > 160 then chars_take 160 compact @ ''...'' else compact)"

section \<open>The score\<close>

definition call_name :: "json \<Rightarrow> string option" where
  "call_name call = Option.bind (json_pointer2 call ''function'' ''name'') json_text"

definition first_named_tool_call :: "json list \<Rightarrow> string \<Rightarrow> json option" where
  "first_named_tool_call calls name = find (\<lambda>call. call_name call = Some name) calls"

definition leaf_text :: "'w compat_lib \<Rightarrow> json \<Rightarrow> string" where
  "leaf_text kl v = (case v of
     JString s \<Rightarrow> to_ascii_lowercase (trim_str s)
   | JBool b \<Rightarrow> if b then ''true'' else ''false''
   | JNumber n \<Rightarrow> kl_show_number kl n
   | JNull \<Rightarrow> ''null''
   | other \<Rightarrow> cl_print (kl_chat kl) other)"

definition truthy :: "string \<Rightarrow> bool" where "truthy s \<longleftrightarrow> s \<in> {''true'', ''yes'', ''on'', ''1''}"
definition falsy :: "string \<Rightarrow> bool" where "falsy s \<longleftrightarrow> s \<in> {''false'', ''no'', ''off'', ''0''}"

definition leaf_equal :: "'w compat_lib \<Rightarrow> json \<Rightarrow> json \<Rightarrow> bool" where
  "leaf_equal kl expected actual \<longleftrightarrow>
     (let e = leaf_text kl expected; a = leaf_text kl actual
      in e = a \<or> truthy e \<and> truthy a \<or> falsy e \<and> falsy a)"

definition value_or_null :: "json option \<Rightarrow> json" where
  "value_or_null v = (case v of Some x \<Rightarrow> x | None \<Rightarrow> JNull)"

definition array_get :: "json \<Rightarrow> nat \<Rightarrow> json option" where
  "array_get v i = (case v of JArray xs \<Rightarrow> if i < length xs then Some (xs ! i) else None | _ \<Rightarrow> None)"

fun field_score :: "'w compat_lib \<Rightarrow> json \<Rightarrow> json \<Rightarrow> nat \<times> nat"
  and object_score :: "'w compat_lib \<Rightarrow> (string \<times> json) list \<Rightarrow> json \<Rightarrow> nat \<times> nat"
  and array_score :: "'w compat_lib \<Rightarrow> json list \<Rightarrow> nat \<Rightarrow> json \<Rightarrow> nat \<times> nat" where
  "field_score kl (JObject kvs) actual = object_score kl kvs actual"
| "field_score kl (JArray xs) actual = array_score kl xs 0 actual"
| "field_score kl expected actual = (if leaf_equal kl expected actual then (1, 1) else (0, 1))"
| "object_score kl [] actual = (0, 0)"
| "object_score kl ((k, v) # kvs) actual =
     (let (m, t) = field_score kl v (value_or_null (payload_get actual k)); (m', t') = object_score kl kvs actual
      in (m + m', t + t'))"
| "array_score kl [] i actual = (0, 0)"
| "array_score kl (x # xs) i actual =
     (let (m, t) = field_score kl x (value_or_null (array_get actual i)); (m', t') = array_score kl xs (Suc i) actual
      in (m + m', t + t'))"

definition parsed_or_null :: "'w compat_lib \<Rightarrow> json option \<Rightarrow> json" where
  "parsed_or_null kl call = (case call of
     None \<Rightarrow> JNull
   | Some c \<Rightarrow> (case parse_tool_arguments (kl_chat kl) c of Inr v \<Rightarrow> v | Inl _ \<Rightarrow> JNull))"

text \<open>Rounding half away from zero, and a saturating cast to \<open>u8\<close>, of a double that is not negative.\<close>

definition round_u8 :: "f64 \<Rightarrow> nat" where
  "round_u8 x = min 255 (nat \<lfloor>x + 1 / 2\<rfloor>)"

definition tool_selection_weight :: f64 where "tool_selection_weight = 1 / 2"

definition score_of :: "bool \<Rightarrow> nat \<Rightarrow> nat \<Rightarrow> nat" where
  "score_of tool_ok matched leaves =
     (let ratio = (if leaves > 0 then f64_round (f64_round (of_nat matched) / f64_round (of_nat leaves)) else 1);
          score = (if tool_ok
            then f64_round (tool_selection_weight + f64_round (f64_round (1 - tool_selection_weight) * ratio)) else 0)
      in round_u8 (f64_round (score * 100)))"

text \<open>Whether the tool is right, the fields to compare, and what to say about it.\<close>

definition judge_call :: "'w compat_lib \<Rightarrow> eval_case \<Rightarrow> json list \<Rightarrow> bool \<times> json \<times> json \<times> string" where
  "judge_call kl c calls = (case Option.bind (case calls of [] \<Rightarrow> None | x # _ \<Rightarrow> Some x) call_name of
     None \<Rightarrow> (False, JNull, JNull, ''Model returned no tool call.'')
   | Some name \<Rightarrow>
       if name = ec_expected_tool c
       then (True, ec_args c, parsed_or_null kl (case calls of [] \<Rightarrow> None | x # _ \<Rightarrow> Some x),
             ''Called expected tool `'' @ name @ ''`.'')
       else if name = ''propose_action'' \<and> ec_expected_endpoint c \<noteq> []
       then (let args = parsed_or_null kl (first_named_tool_call calls ''propose_action'');
                 endpoint = text_arg args ''endpoint''
             in if endpoint = ec_expected_endpoint c
                then (True, ec_expected_payload c, value_or_null (payload_get args ''payload''),
                      ''Called propose_action targeting '' @ endpoint @ '' (equivalent).'')
                else (False, JNull, JNull, ''Called propose_action targeting `'' @ endpoint @ ''`, expected `''
                      @ ec_expected_endpoint c @ ''` (or tool `'' @ ec_expected_tool c @ ''`).''))
       else (False, JNull, JNull, ''Called `'' @ name @ ''`, expected `'' @ ec_expected_tool c @ ''`.''))"

definition score_eval_case :: "'w compat_lib \<Rightarrow> eval_case \<Rightarrow> json list \<Rightarrow> nat \<Rightarrow> eval_result" where
  "score_eval_case kl c calls ms =
     (let (tool_ok, expected, actual, detail) = judge_call kl c calls;
          (matched, leaves) = (if tool_ok then field_score kl expected actual else (0, 0));
          percent = score_of tool_ok matched leaves
      in \<lparr>er_id = ec_id c, er_prompt = ec_prompt c, er_expected_tool = ec_expected_tool c,
          er_called_tool = Option.bind (case calls of [] \<Rightarrow> None | x # _ \<Rightarrow> Some x) call_name,
          er_ok = (percent = 100), er_score_percent = percent, er_fields_matched = matched, er_fields_total = leaves,
          er_detail = (if \<not> tool_ok then detail
            else if leaves = 0 then detail @ '' No payload fields to check.''
            else detail @ '' Payload fields '' @ decimal matched @ ''/'' @ decimal leaves @ '' correct.''),
          er_latency_ms = Some ms\<rparr>)"

definition failed_case :: "eval_case \<Rightarrow> string \<Rightarrow> nat \<Rightarrow> eval_result" where
  "failed_case c e ms = \<lparr>er_id = ec_id c, er_prompt = ec_prompt c, er_expected_tool = ec_expected_tool c,
     er_called_tool = None, er_ok = False, er_score_percent = 0, er_fields_matched = 0, er_fields_total = 0,
     er_detail = ''Provider request failed: '' @ e, er_latency_ms = Some ms\<rparr>"

fun run_eval_suite :: "'w compat_lib \<Rightarrow> eval_case list \<Rightarrow> 'w \<Rightarrow> eval_result list \<times> 'w" where
  "run_eval_suite kl [] w = ([], w)"
| "run_eval_suite kl (c # cs) w =
     (let (answer, w1) = kl_complete kl (eval_messages (ec_prompt c)) (Some (kl_specs kl)) w;
          ms = kl_now kl w1 - kl_now kl w;
          result = (case answer of Inr m \<Rightarrow> score_eval_case kl c (pm_tool_calls m) ms | Inl e \<Rightarrow> failed_case c e ms);
          (results, w2) = run_eval_suite kl cs w1
      in (result # results, w2))"

section \<open>The report\<close>

definition finish ::
    "string \<Rightarrow> string \<Rightarrow> compat_check list \<Rightarrow> eval_result list \<Rightarrow> bool \<Rightarrow> compat_report" where
  "finish model base_url checks evals ran_evals =
     (let compatible = list_all kc_ok (filter kc_required checks);
          evals_total = length evals;
          evals_passed = length (filter er_ok evals);
          latencies = List.map_filter er_latency_ms evals;
          avg = (if latencies = [] then None else Some (sum_list latencies div length latencies));
          percent = (if ran_evals \<and> evals_total > 0
            then Some (round_u8 (f64_round (f64_round (of_nat (sum_list (map er_score_percent evals)))
                   / f64_round (of_nat evals_total))))
            else if ran_evals then Some 100 else None);
          summary = (if \<not> compatible
            then ''Not compatible. Failing required checks: ''
              @ join_str '', '' (map kc_label (filter (\<lambda>c. kc_required c \<and> \<not> kc_ok c) checks)) @ ''.''
            else case percent of
              Some p \<Rightarrow> decimal p
                @ ''% compatible '' @ utf8_of_codes [226, 128, 148]
                @ '' weighted across tool selection and payload-field correctness; '' @ decimal evals_passed
                @ '' of '' @ decimal evals_total @ '' eval cases fully correct.''
                @ (case avg of Some ms \<Rightarrow> '' Avg latency '' @ decimal ms @ '' ms/prompt.'' | None \<Rightarrow> [])
            | None \<Rightarrow> ''Required capability checks passed.'')
      in \<lparr>rp_compatible = compatible, rp_compatibility_percent = percent, rp_evals_passed = evals_passed,
          rp_evals_total = evals_total, rp_avg_eval_latency_ms = avg, rp_model = model, rp_base_url = base_url,
          rp_summary = summary, rp_checks = checks, rp_evals = evals\<rparr>)"

text \<open>A gate: the check, the question, which answers pass, and what to say.\<close>

record gate =
  gt_check :: compat_check
  gt_messages :: "json list"
  gt_tools :: "json list option"
  gt_accepts :: "provider_message \<Rightarrow> bool"
  gt_passed :: "provider_message \<Rightarrow> string"
  gt_refused :: "provider_message \<Rightarrow> string"
  gt_failed :: "string \<Rightarrow> string"

definition run_gate :: "'w compat_lib \<Rightarrow> gate \<Rightarrow> 'w \<Rightarrow> compat_check \<times> 'w" where
  "run_gate kl g w =
     (let (answer, w1) = kl_complete kl (gt_messages g) (gt_tools g) w;
          ms = kl_now kl w1 - kl_now kl w
      in (case answer of
            Inr m \<Rightarrow> if gt_accepts g m then pass_check (gt_passed g m) ms (gt_check g)
                     else fail_check (gt_refused g m) (Some ms) (gt_check g)
          | Inl e \<Rightarrow> fail_check (gt_failed g e) (Some ms) (gt_check g), w1))"

definition gates :: "gate list" where
  "gates =
     [\<lparr>gt_check = new_check ''text_completion'' ''Plain text completion'' True,
       gt_messages = plain_messages, gt_tools = None,
       gt_accepts = (\<lambda>m. trim_str (pm_content m) \<noteq> []),
       gt_passed = (\<lambda>m. ''Model returned text ('' @ decimal (length (trim_str (pm_content m))) @ '' chars).''),
       gt_refused = (\<lambda>m. ''Model accepted the request but returned empty content.''), gt_failed = (\<lambda>e. e)\<rparr>,
      \<lparr>gt_check = new_check ''context_primary_priority'' ''Primary context priority'' True,
       gt_messages = context_primary_priority_messages, gt_tools = None,
       gt_accepts = (\<lambda>m. primary_priority_response_ok (pm_content m)),
       gt_passed = (\<lambda>m. ''Model answered from primary context despite conflicting secondary UI state.''),
       gt_refused = (\<lambda>m. ''Model did not clearly prioritize primary context. Response: ''
          @ compact_probe_response (pm_content m)), gt_failed = (\<lambda>e. e)\<rparr>,
      \<lparr>gt_check = new_check ''context_secondary_fallback'' ''Secondary context fallback'' True,
       gt_messages = context_secondary_fallback_messages, gt_tools = None,
       gt_accepts = (\<lambda>m. secondary_fallback_response_ok (pm_content m)),
       gt_passed = (\<lambda>m. ''Model used secondary context when primary context was insufficient.''),
       gt_refused = (\<lambda>m. ''Model did not clearly use secondary context as fallback. Response: ''
          @ compact_probe_response (pm_content m)), gt_failed = (\<lambda>e. e)\<rparr>,
      \<lparr>gt_check = new_check ''tool_calling'' ''Tool calling'' True,
       gt_messages = tool_request_messages, gt_tools = Some [probe_tool_spec],
       gt_accepts = (\<lambda>m. first_named_tool_call (pm_tool_calls m) probe_tool_name \<noteq> None),
       gt_passed = (\<lambda>m. ''Model emitted a tool call.''),
       gt_refused = (\<lambda>m. ''Model did not emit a tool call when explicitly instructed; it cannot drive read/action tools.''),
       gt_failed = (\<lambda>e. ''Tool-calling request failed (model may not support `tools`): '' @ e)\<rparr>]"

text \<open>The gates in order, up to the first that is not passed; the suite when all are.\<close>

fun run_gates ::
    "'w compat_lib \<Rightarrow> string \<Rightarrow> string \<Rightarrow> gate list \<Rightarrow> compat_check list \<Rightarrow> 'w \<Rightarrow> compat_report \<times> 'w" where
  "run_gates kl model base_url [] checks w =
     (let (evals, w1) = run_eval_suite kl (kl_cases kl) w in (finish model base_url checks evals True, w1))"
| "run_gates kl model base_url (g # gs) checks w =
     (let (c, w1) = run_gate kl g w
      in if kc_ok c then run_gates kl model base_url gs (checks @ [c]) w1
         else (finish model base_url (checks @ [c]) [] False, w1))"

definition run_compatibility_probes ::
    "'w compat_lib \<Rightarrow> string \<Rightarrow> string \<Rightarrow> string \<Rightarrow> 'w \<Rightarrow> compat_report \<times> 'w" where
  "run_compatibility_probes kl base_url model api_key w =
     (let config = new_check ''provider_config'' ''Provider configuration'' True
      in case validate_provider (kl_url_parse kl) base_url model api_key of
           Inl e \<Rightarrow> (finish model base_url [fail_check e None config] [] False, w)
         | Inr _ \<Rightarrow> run_gates kl model base_url gates [pass_config config] w)"

section \<open>Rounding errors\<close>

lemma bit_size_bounds: "0 < n \<Longrightarrow> 2 ^ (bit_size n - 1) \<le> n \<and> n < 2 ^ bit_size n \<and> 0 < bit_size n"
proof (induction n rule: bit_size.induct)
  case (1 n)
  show ?case
  proof (cases "n div 2 = 0")
    case True
    with "1.prems" have "n = 1" by simp
    then show ?thesis by simp
  next
    case False
    have size: "bit_size n = Suc (bit_size (n div 2))" using "1.prems" by (subst bit_size.simps) simp
    from False 1 have ih: "2 ^ (bit_size (n div 2) - 1) \<le> n div 2" "n div 2 < 2 ^ bit_size (n div 2)" "0 < bit_size (n div 2)"
      by auto
    then have "2 ^ bit_size (n div 2) = 2 * (2 :: nat) ^ (bit_size (n div 2) - 1)" by (cases "bit_size (n div 2)") auto
    moreover have "c \<le> n div 2 \<Longrightarrow> n div 2 < 2 * c \<Longrightarrow> 2 * c \<le> n \<and> n < 4 * c" for c by presburger
    from this [OF ih(1)] have "2 * 2 ^ (bit_size (n div 2) - 1) \<le> n \<and> n < 4 * 2 ^ (bit_size (n div 2) - 1)"
      using ih(2) calculation by simp
    ultimately show ?thesis using ih(3) size by simp
  qed
qed

lemma pow2_powi: "pow2 e = 2 powi e"
  by (simp add: pow2_def power_int_def field_simps)

lemma pow2_mono: "a \<le> b \<Longrightarrow> pow2 a \<le> pow2 b"
  by (simp add: pow2_powi power_int_increasing)

lemma pow2_add: "pow2 (a + b) = pow2 a * pow2 b"
  by (simp add: pow2_powi power_int_add)

lemma pow2_pos [simp]: "0 < pow2 e"
  by (simp add: pow2_powi)

text \<open>The last digit of a number up to 128 is at most the 45th binary place.\<close>

lemma last_exponent_small:
  assumes "x \<noteq> 0" "\<bar>x\<bar> \<le> 128"
  shows "pow2 (last_exponent x) \<le> 1 / 2 ^ 45"
proof -
  obtain n d where q: "quotient_of \<bar>x\<bar> = (n, d)" by fastforce
  have d: "0 < d" using quotient_of_denom_pos [OF q] .
  have x: "\<bar>x\<bar> = of_int n / of_int d" using quotient_of_div [OF q] .
  then have "of_int n = \<bar>x\<bar> * of_int d" using d by simp
  also have "0 < \<bar>x\<bar> * of_int d" using assms(1) d by (intro mult_pos_pos) auto
  finally have n: "0 < n" by simp
  define k where "k = int (bit_size (nat n)) - int (bit_size (nat d))"
  define k' where "k' = (if pow2 k \<le> \<bar>x\<bar> then k else k - 1)"
  have bn: "2 ^ (bit_size (nat n) - 1) \<le> nat n" "0 < bit_size (nat n)" using bit_size_bounds [of "nat n"] n by auto
  have bd: "nat d < 2 ^ bit_size (nat d)" using bit_size_bounds [of "nat d"] d by auto
  have "pow2 (k - 1) = 2 ^ (bit_size (nat n) - 1) / 2 ^ bit_size (nat d)"
  proof -
    have "k - 1 = int (bit_size (nat n) - 1) + - int (bit_size (nat d))" using bn(2) by (simp add: k_def)
    then show ?thesis by (simp only: pow2_add) (simp add: pow2_def)
  qed
  also have "\<dots> \<le> of_int n / of_int d"
  proof (rule frac_le)
    have "(of_nat (2 ^ (bit_size (nat n) - 1)) :: rat) \<le> of_nat (nat n)" using bn(1) by (simp only: of_nat_le_iff)
    then show "(2 :: rat) ^ (bit_size (nat n) - 1) \<le> of_int n" using n by simp
    have "(of_nat (nat d) :: rat) \<le> of_nat (2 ^ bit_size (nat d))" using bd by (simp only: of_nat_le_iff)
    then show "(of_int d :: rat) \<le> 2 ^ bit_size (nat d)" using d by simp
  qed (use n d in auto)
  finally have "pow2 k' \<le> \<bar>x\<bar>" by (auto simp: k'_def x [symmetric])
  with assms(2) have "pow2 k' \<le> 2 ^ 7" by simp
  then have "pow2 (k' + - 52) \<le> 1 / 2 ^ 45" by (simp only: pow2_add) (simp add: pow2_def)
  moreover have "pow2 (- 1074) \<le> 1 / 2 ^ 45" by (simp add: pow2_def)
  moreover have "last_exponent x = max (- 1074) (k' + - 52)"
    by (simp add: last_exponent_def q k_def [symmetric] k'_def)
  ultimately show ?thesis by (simp add: max_def)
qed

lemma round_even_error: "\<bar>of_int (round_even y) - y\<bar> \<le> 1 / 2"
  unfolding round_even_def Let_def by (auto simp: abs_if) linarith+

lemma f64_round_error:
  assumes "\<bar>x\<bar> \<le> 128"
  shows "\<bar>f64_round x - x\<bar> \<le> 1 / 2 ^ 46"
proof (cases "x = 0")
  case False
  define p where "p = pow2 (last_exponent x)"
  have p: "0 < p" "p \<le> 1 / 2 ^ 45" using last_exponent_small [OF False assms] by (simp_all add: p_def)
  have "f64_round x - x = (of_int (round_even (x / p)) - x / p) * p"
    using False p(1) by (simp add: f64_round_def Let_def p_def [symmetric] field_simps)
  then have "\<bar>f64_round x - x\<bar> = \<bar>of_int (round_even (x / p)) - x / p\<bar> * p" using p(1) by (simp add: abs_mult)
  also have "\<dots> \<le> 1 / 2 * (1 / 2 ^ 45)" using round_even_error [of "x / p"] p by (intro mult_mono) auto
  finally show ?thesis by simp
qed (simp add: f64_round_def)

lemma f64_round_bounds:
  assumes "- 128 \<le> x" "x \<le> 128"
  shows "x - 1 / 2 ^ 46 \<le> f64_round x" "f64_round x \<le> x + 1 / 2 ^ 46"
proof -
  have e: "\<bar>f64_round x - x\<bar> \<le> 1 / 2 ^ 46" using assms by (intro f64_round_error) (simp add: abs_le_iff)
  show "x - 1 / 2 ^ 46 \<le> f64_round x" "f64_round x \<le> x + 1 / 2 ^ 46"
    using abs_le_D1 [OF e] abs_le_D2 [OF e] by linarith+
qed

lemma f64_round_half [simp]: "f64_round (1 / 2) = 1 / 2"
  by code_simp

lemma f64_round_nat [simp]: "n < 2 ^ 53 \<Longrightarrow> f64_round (of_nat n) = of_nat n"
  by (rule f64_round_small)

section \<open>What a score of a hundred means\<close>

lemma field_score_le:
  "fst (field_score kl e a) \<le> snd (field_score kl e a)"
  "fst (object_score kl kvs a) \<le> snd (object_score kl kvs a)"
  "fst (array_score kl xs i a) \<le> snd (array_score kl xs i a)"
  by (induction kl e a and kl kvs a and kl xs i a rule: field_score_object_score_array_score.induct)
    (simp_all add: split_beta Let_def, (metis add_le_mono prod.collapse)+)

lemma score_full: "score_of True m m = 100" if "m < 2 ^ 53"
proof -
  have one: "f64_round 1 = 1" "f64_round 100 = 100"
    using f64_round_small [of 1] f64_round_small [of 100] by simp_all
  have "(if m > 0 then f64_round (f64_round (of_nat m) / f64_round (of_nat m)) else 1) = 1"
    using that by (simp add: one)
  moreover have "\<lfloor>201 / 2 :: rat\<rfloor> = 100" by (simp add: floor_eq_iff)
  ultimately show ?thesis by (simp add: score_of_def Let_def tool_selection_weight_def one round_u8_def)
qed

lemma score_wrong: "score_of False m n = 0"
proof -
  have "f64_round 0 = 0" by (simp add: f64_round_def)
  moreover have "\<lfloor>1 / 2 :: rat\<rfloor> = 0" by (simp add: floor_eq_iff)
  ultimately show ?thesis unfolding score_of_def Let_def round_u8_def by (simp only: if_False mult_zero_left add_0_left nat_0 min_0R)
qed

lemma score_partial:
  assumes "m < n" "n \<le> 99"
  shows "score_of True m n < 100"
proof -
  define x where "x = (of_nat m / of_nat n :: rat)"
  define q where "q = f64_round x"
  define h where "h = f64_round (1 / 2 * q)"
  define s where "s = f64_round (1 / 2 + h)"
  define p where "p = f64_round (s * 100)"
  have n: "(0 :: rat) < of_nat n" using assms by simp
  have x: "x \<le> 98 / 99"
  proof -
    have "m * 99 \<le> 98 * n" using assms by simp
    then have "(of_nat m :: rat) * 99 \<le> 98 * of_nat n" by (metis of_nat_le_iff of_nat_mult of_nat_numeral)
    then show ?thesis using n by (simp add: x_def field_simps)
  qed
  have "0 \<le> x" by (simp add: x_def)
  with x have q: "q \<le> 98 / 99 + 1 / 2 ^ 46" "- 1 / 2 ^ 46 \<le> q"
    using f64_round_bounds [of x] unfolding q_def by simp_all
  have h: "h \<le> 49 / 99 + 1 / 2 ^ 45" "- 1 / 2 ^ 45 \<le> h"
    using f64_round_bounds [of "1 / 2 * q"] q unfolding h_def by simp_all
  have s: "s \<le> 1 / 2 + 49 / 99 + 1 / 2 ^ 44" "0 \<le> s"
    using f64_round_bounds [of "1 / 2 + h"] h unfolding s_def by simp_all
  have p: "p + 1 / 2 < 100"
    using f64_round_bounds [of "s * 100"] s unfolding p_def by simp
  have "\<lfloor>p + 1 / 2\<rfloor> < 100" using p by (simp add: floor_less_iff)
  moreover have "score_of True m n = round_u8 p"
    using assms f64_round_nat [of m] f64_round_nat [of n]
    by (simp add: score_of_def Let_def tool_selection_weight_def p_def s_def h_def q_def x_def)
  moreover from calculation(1) have "nat \<lfloor>p + 1 / 2\<rfloor> < 100" by arith
  ultimately show ?thesis by (simp add: round_u8_def min_less_iff_disj)
qed

text \<open>A case counts as fully correct exactly when the model chose the right tool and every expected field has the
  expected value, as long as a case has fewer than a hundred fields.\<close>

theorem eval_ok_iff_all_fields:
  assumes "judge_call kl c calls = (tool_ok, expected, actual, detail)" "snd (field_score kl expected actual) \<le> 99"
  shows "er_ok (score_eval_case kl c calls ms)
    \<longleftrightarrow> tool_ok \<and> fst (field_score kl expected actual) = snd (field_score kl expected actual)"
proof (cases tool_ok)
  case True
  obtain m n where mn: "field_score kl expected actual = (m, n)" by fastforce
  have "m \<le> n" "n \<le> 99" using field_score_le(1) [of kl expected actual] assms(2) by (simp_all add: mn)
  moreover have "score_of True m n = 100 \<longleftrightarrow> m = n"
    using score_full [of m] score_partial [of m n] calculation by (cases "m = n") auto
  ultimately show ?thesis using assms(1) True by (simp add: score_eval_case_def mn)
next
  case False
  then show ?thesis using assms(1) by (simp add: score_eval_case_def score_wrong)
qed

text \<open>The comparison of leaves is an equivalence, so it does not matter which side is the expected one.\<close>

definition leaf_class :: "string \<Rightarrow> string + bool" where
  "leaf_class s = (if truthy s then Inr True else if falsy s then Inr False else Inl s)"

lemma truthy_not_falsy: "truthy s \<Longrightarrow> \<not> falsy s"
  by (auto simp: truthy_def falsy_def)

lemma leaf_class_eq: "e = a \<or> truthy e \<and> truthy a \<or> falsy e \<and> falsy a \<longleftrightarrow> leaf_class e = leaf_class a"
  using truthy_not_falsy [of e] truthy_not_falsy [of a] unfolding leaf_class_def by (simp split: if_split) metis

lemma leaf_equal_class: "leaf_equal kl e a \<longleftrightarrow> leaf_class (leaf_text kl e) = leaf_class (leaf_text kl a)"
  unfolding leaf_equal_def Let_def by (rule leaf_class_eq)

lemma leaf_equal_equivalence: "equivp (leaf_equal kl)"
  by (rule equivpI) (auto simp: leaf_equal_class reflp_def symp_def transp_def)

section \<open>The report is consistent\<close>

definition report_ok :: "compat_report \<Rightarrow> bool" where
  "report_ok r \<longleftrightarrow> (rp_compatible r \<longleftrightarrow> rp_compatibility_percent r \<noteq> None)
     \<and> (rp_compatible r \<longrightarrow> list_all kc_ok (rp_checks r))
     \<and> (\<not> rp_compatible r \<longrightarrow> rp_evals r = [] \<and> list_all kc_ok (butlast (rp_checks r)) \<and> \<not> kc_ok (last (rp_checks r)))"

lemma finish_evals:
  "list_all kc_ok checks \<Longrightarrow> report_ok (finish model base_url checks evals True)"
  by (auto simp: report_ok_def finish_def Let_def list_all_iff)

lemma finish_failed:
  "list_all kc_ok checks \<Longrightarrow> kc_required c \<Longrightarrow> \<not> kc_ok c \<Longrightarrow> report_ok (finish model base_url (checks @ [c]) [] False)"
  by (auto simp: report_ok_def finish_def Let_def list_all_iff)

lemma run_gate_required: "kc_required (fst (run_gate kl g w)) = kc_required (gt_check g)"
  by (simp add: run_gate_def pass_check_def fail_check_def Let_def split: prod.split sum.split)

lemma gates_required: "list_all (\<lambda>g. kc_required (gt_check g)) gates"
  by (simp add: gates_def new_check_def)

lemma run_gates_ok:
  "list_all (\<lambda>g. kc_required (gt_check g)) gs \<Longrightarrow> list_all kc_ok checks \<Longrightarrow>
   report_ok (fst (run_gates kl model base_url gs checks w))"
proof (induction gs arbitrary: checks w)
  case Nil
  then show ?case by (simp add: finish_evals split: prod.split)
next
  case (Cons g gs)
  obtain c w1 where c: "run_gate kl g w = (c, w1)" by fastforce
  have "kc_required c" using run_gate_required [of kl g w] Cons.prems(1) by (simp add: c)
  with Cons show ?case by (simp add: c finish_failed)
qed

text \<open>The report of a model is consistent: it is called compatible exactly when a score is given, then every gate was
  passed; otherwise the gates before the last one shown were passed, that one was not, and no case was run.\<close>

theorem compatibility_report_consistent:
  "let r = fst (run_compatibility_probes kl base_url model api_key w)
   in (rp_compatible r \<longleftrightarrow> rp_compatibility_percent r \<noteq> None) \<and> (rp_compatible r \<longrightarrow> list_all kc_ok (rp_checks r))
     \<and> (\<not> rp_compatible r \<longrightarrow> rp_evals r = [] \<and> list_all kc_ok (butlast (rp_checks r)) \<and> \<not> kc_ok (last (rp_checks r)))"
proof -
  have "report_ok (fst (run_compatibility_probes kl base_url model api_key w))"
    by (auto simp: run_compatibility_probes_def Let_def new_check_def fail_check_def pass_config_def split: sum.split
        intro!: run_gates_ok [OF gates_required] finish_failed [of "[]", simplified])
  then show ?thesis unfolding Let_def report_ok_def .
qed

end
