(* ===== verification/SessionApi.thy ===== *)
theory SessionApi
  imports SessionDiff SessionViews Export Har AdminTables Breakpoints
begin

text \<open>
  The calls of the session manager that wait (\<open>flush\<close>, \<open>annotate\<close>, \<open>save_to_file\<close>, \<open>load_from_file\<close> of
  \<open>session/mod.rs\<close>), the admin handlers over them (\<open>api/mod.rs\<close>, \<open>control_plane/sessions.rs\<close>) and the
  handlers of the breakpoints (\<open>control_plane/breakpoints.rs\<close>).

  A call that waits leaves the other tasks running. What they do in the meantime is a list of events: another
  task sends an operation, or the writer takes one off the queue. \<open>None\<close> means that the call is still waiting at
  the end of the list.
\<close>

section \<open>Calls that wait for the writer\<close>

datatype manager_event = Sends write_op | Writes clock

definition manager_step :: "session_manager \<Rightarrow> manager_event \<Rightarrow> session_manager" where
  "manager_step m e = (case e of
     Sends op \<Rightarrow> enqueue m op
   | Writes clock \<Rightarrow> (case writer_iteration clock m of Some m' \<Rightarrow> m' | None \<Rightarrow> m))"

definition manager_run :: "manager_event list \<Rightarrow> session_manager \<Rightarrow> session_manager" where
  "manager_run es m = foldl manager_step m es"

text \<open>The reply of the operation that has \<open>k\<close> others before it in the queue.\<close>

fun await_reply :: "manager_event list \<Rightarrow> nat \<Rightarrow> session_manager \<Rightarrow> (write_reply \<times> session_manager) option" where
  "await_reply [] k m = None"
| "await_reply (Sends op # es) k m = await_reply es k (enqueue m op)"
| "await_reply (Writes clock # es) k m = (case sm_queue m of
     [] \<Rightarrow> await_reply es k m
   | op # ops \<Rightarrow>
       if k = 0 then Some (snd (snd (process_write_op clock op (sm_store m))), manager_step m (Writes clock))
       else await_reply es (k - 1) (manager_step m (Writes clock)))"

text \<open>\<open>send(op).await\<close> waits for room in the queue, \<open>rx.await\<close> for the writer. \<open>sc_before\<close> is what happens until the
  operation gets its place, \<open>sc_waiting\<close> what happens until the reply is there, \<open>sc_after\<close> what happens between the
  reply and the next statement.\<close>

record schedule =
  sc_before :: "manager_event list"
  sc_waiting :: "manager_event list"
  sc_after :: "manager_event list"

definition send_and_wait :: "schedule \<Rightarrow> write_op \<Rightarrow> session_manager \<Rightarrow> (write_reply \<times> session_manager) option" where
  "send_and_wait sc op m =
     (let m1 = manager_run (sc_before sc) m
      in if length (sm_queue m1) < WRITE_QUEUE_CAPACITY
         then map_option (\<lambda>(r, m2). (r, manager_run (sc_after sc) m2))
                (await_reply (sc_waiting sc) (length (sm_queue m1)) (enqueue m1 op))
         else None)"

definition flush :: "schedule \<Rightarrow> session_manager \<Rightarrow> session_manager option" where
  "flush sc m = map_option snd (send_and_wait sc WO_Flush m)"

definition annotate ::
    "schedule \<Rightarrow> string \<Rightarrow> string option \<Rightarrow> string list option \<Rightarrow> session_manager \<Rightarrow> (bool \<times> session_manager) option" where
  "annotate sc i note tags m = map_option (\<lambda>(r, m'). (r = Found True, m')) (send_and_wait sc (WO_Annotate i note tags) m)"

subsection \<open>Session files\<close>

text \<open>Writing a file succeeds, fails before the file is opened, or fails after it was truncated and some bytes
  were written.\<close>

datatype write_outcome = Written | Not_Opened string | Broken_Off string nat

type_synonym disk = "path \<rightharpoonup> string"

definition write_file :: "write_outcome \<Rightarrow> path \<Rightarrow> string \<Rightarrow> disk \<Rightarrow> (string + unit) \<times> disk" where
  "write_file written p contents fs = (case written of
     Written \<Rightarrow> (Inr (), fs(p \<mapsto> contents))
   | Not_Opened e \<Rightarrow> (Inl e, fs)
   | Broken_Off e n \<Rightarrow> (Inl e, fs(p \<mapsto> take n contents)))"

record session_codec =
  cc_print :: "exchanges \<Rightarrow> string + string"
  cc_parse :: "string \<Rightarrow> string + exchanges"

definition save_to_file ::
    "session_codec \<Rightarrow> schedule \<Rightarrow> write_outcome \<Rightarrow> path \<Rightarrow> session_manager \<times> disk \<Rightarrow>
     ((string + unit) \<times> session_manager \<times> disk) option" where
  "save_to_file cc sc written p w = (case flush sc (fst w) of
     None \<Rightarrow> None
   | Some m \<Rightarrow> Some (case cc_print cc (st_exchanges (sm_store m)) of
       Inl e \<Rightarrow> (Inl e, m, snd w)
     | Inr json \<Rightarrow> (case write_file written p json (snd w) of (r, fs) \<Rightarrow> (r, m, fs))))"

definition load_from_file ::
    "session_codec \<Rightarrow> schedule \<Rightarrow> string \<Rightarrow> path \<Rightarrow> session_manager \<times> disk \<Rightarrow> ((string + unit) \<times> session_manager) option" where
  "load_from_file cc sc missing p w = (case snd w p of
     None \<Rightarrow> Some (Inl missing, fst w)
   | Some data \<Rightarrow> (case cc_parse cc data of
       Inl e \<Rightarrow> Some (Inl e, fst w)
     | Inr m \<Rightarrow> map_option (\<lambda>(_, m'). (Inr (), m')) (send_and_wait sc (WO_LoadData m) (fst w))))"

section \<open>The handlers of the sessions\<close>

datatype session_reply =
  Sr_Exchange exchange | Sr_Frames "ws_frame list" | Sr_Not_Found string | Sr_Export string string
| Sr_Timing inspection_metrics "phase list" | Sr_No_Timing | Sr_Diff session_diff | Sr_Curl parsed_curl
| Sr_Unprocessable string | Sr_Ok | Sr_Bad_Request string | Sr_Internal string | Sr_Imported nat
| Sr_Har har_log

definition show_session :: "session_store \<Rightarrow> string \<Rightarrow> session_reply" where
  "show_session s i = (case get_session s i of Some x \<Rightarrow> Sr_Exchange x | None \<Rightarrow> Sr_Not_Found [])"

definition get_ws_frames :: "session_store \<Rightarrow> string \<Rightarrow> session_reply" where
  "get_ws_frames s i = (case get_session s i of Some x \<Rightarrow> Sr_Frames (ex_ws_frames x) | None \<Rightarrow> Sr_Not_Found [])"

text \<open>\<open>js_string\<close>, \<open>printed\<close> and \<open>js\<close> are the parameters of the exports.\<close>

definition export_session ::
    "(string \<Rightarrow> string) \<Rightarrow> (string \<Rightarrow> bool) \<Rightarrow> json_lib \<Rightarrow> session_store \<Rightarrow> string \<Rightarrow> string option \<Rightarrow> bool option \<Rightarrow>
     session_reply" where
  "export_session js_string printed js s i format0 raw0 = (case get_session s i of
     None \<Rightarrow> Sr_Not_Found ''session not found''
   | Some x \<Rightarrow>
       (let format = (case format0 of Some f \<Rightarrow> f | None \<Rightarrow> ''curl''); raw = (raw0 = Some True)
        in if format = ''fetch''
           then Sr_Export ''application/javascript'' (if raw then export_as_fetch_raw js_string js x else export_as_fetch js_string js x)
           else if format = ''python''
           then Sr_Export ''text/x-python'' (if raw then export_as_python_raw printed js x else export_as_python printed js x)
           else Sr_Export ''text/plain'' (if raw then export_as_curl_raw js x else export_as_curl js x)))"

definition get_session_timing :: "session_store \<Rightarrow> string \<Rightarrow> session_reply" where
  "get_session_timing s i = (case get_session s i of
     None \<Rightarrow> Sr_Not_Found ''session not found''
   | Some x \<Rightarrow> (case ex_metrics x of None \<Rightarrow> Sr_No_Timing | Some m \<Rightarrow> Sr_Timing m (timing_phases m)))"

definition diff_sessions :: "text_diff \<Rightarrow> session_store \<Rightarrow> string \<Rightarrow> string \<Rightarrow> session_reply" where
  "diff_sessions td s i j = (case get_session s i of
     None \<Rightarrow> Sr_Not_Found (''session '' @ i @ '' not found'')
   | Some a \<Rightarrow> (case get_session s j of
       None \<Rightarrow> Sr_Not_Found (''session '' @ j @ '' not found'')
     | Some b \<Rightarrow> Sr_Diff (diff_exchanges td a b)))"

definition import_curl :: "curl_lib \<Rightarrow> string \<Rightarrow> session_reply" where
  "import_curl cl curl = (case parse_curl cl curl of Inr p \<Rightarrow> Sr_Curl p | Inl e \<Rightarrow> Sr_Unprocessable e)"

definition patch_annotation ::
    "schedule \<Rightarrow> string \<Rightarrow> string option \<Rightarrow> string list option \<Rightarrow> session_manager \<Rightarrow> (session_reply \<times> session_manager) option" where
  "patch_annotation sc i note tags m =
     map_option (\<lambda>(found, m'). (if found then Sr_Ok else Sr_Not_Found ''session not found'', m')) (annotate sc i note tags m)"

definition clear_sessions :: "schedule \<Rightarrow> session_manager \<Rightarrow> (session_reply \<times> session_manager) option" where
  "clear_sessions sc m = map_option (\<lambda>m'. (Sr_Ok, m')) (flush sc (enqueue m WO_ClearSessions))"

text \<open>\<open>between\<close> is what the other tasks do between the two operations that are sent.\<close>

definition import_sessions ::
    "manager_event list \<Rightarrow> bool \<Rightarrow> exchange list \<Rightarrow> session_manager \<Rightarrow> session_reply \<times> session_manager" where
  "import_sessions between merge xs m =
     (let m1 = (if merge then m else manager_run between (enqueue m WO_ClearSessions))
      in (Sr_Imported (length xs), enqueue m1 (WO_ImportSessions xs)))"

definition import_har ::
    "har_lib \<Rightarrow> manager_event list \<Rightarrow> bool \<Rightarrow> har_log \<Rightarrow> session_manager \<Rightarrow> session_reply \<times> session_manager" where
  "import_har hx between merge har m = import_sessions between merge (har_to_exchanges hx har) m"

definition wanted_ids :: "string option \<Rightarrow> string set option" where
  "wanted_ids ids = map_option (\<lambda>value. set (filter (\<lambda>i. i \<noteq> []) (map trim_str (split_char (CHR '','') value)))) ids"

definition export_har ::
    "json_lib \<Rightarrow> har_lib \<Rightarrow> string \<Rightarrow> session_store \<Rightarrow> string option \<Rightarrow> bool option \<Rightarrow> session_reply" where
  "export_har js hx version s ids raw =
     (let chosen = filter (\<lambda>x. case wanted_ids ids of Some wanted \<Rightarrow> ex_id x \<in> wanted | None \<Rightarrow> True) (get_all_sessions s);
          exchanges = foldl (\<lambda>m x. im_insert m (ex_id x) x) [] chosen
      in Sr_Har (if raw = Some True then exchanges_to_har hx version exchanges
                 else exchanges_to_har_redacted js hx version exchanges))"

definition save_sessions ::
    "files \<Rightarrow> (path \<Rightarrow> string option) \<Rightarrow> path \<Rightarrow> session_codec \<Rightarrow> schedule \<Rightarrow> write_outcome \<Rightarrow> path \<Rightarrow> session_manager \<times> disk \<Rightarrow>
     (session_reply \<times> session_manager \<times> disk) option" where
  "save_sessions fl mkdir storage_path cc sc written requested w =
     (case fst (resolve_storage_file_for_write fl mkdir storage_path requested) of
        Inl e \<Rightarrow> Some (Sr_Bad_Request e, w)
      | Inr p \<Rightarrow> map_option (\<lambda>(r, w'). (case r of Inr _ \<Rightarrow> Sr_Ok | Inl e \<Rightarrow> Sr_Internal e, w')) (save_to_file cc sc written p w))"

definition load_sessions ::
    "files \<Rightarrow> (path \<Rightarrow> string option) \<Rightarrow> path \<Rightarrow> session_codec \<Rightarrow> schedule \<Rightarrow> string \<Rightarrow> path \<Rightarrow> session_manager \<times> disk \<Rightarrow>
     (session_reply \<times> session_manager) option" where
  "load_sessions fl mkdir storage_path cc sc missing requested w =
     (case resolve_storage_file_for_read fl mkdir storage_path requested of
        Inl e \<Rightarrow> Some (Sr_Bad_Request e, fst w)
      | Inr p \<Rightarrow> map_option (\<lambda>(r, m). (case r of Inr _ \<Rightarrow> Sr_Ok | Inl e \<Rightarrow> Sr_Internal e, m)) (load_from_file cc sc missing p w))"

section \<open>The handlers of the breakpoints\<close>

datatype bp_reply =
  Br_Unprocessable string | Br_Created bp_rule | Br_Ok | Br_Not_Found string | Br_Storage_Error string

type_synonym bp_admin = "bp_manager \<times> bp_rule list"

text \<open>\<open>bad_regex\<close> is the error of compiling a pattern, if any; the second component of the state is the file of the
  rules, \<open>io\<close> the error of writing it.\<close>

definition validate_location :: "(string \<Rightarrow> string option) \<Rightarrow> bp_rule \<Rightarrow> string option" where
  "validate_location bad_regex rule = (case (loc_mode (br_location rule), loc_path (br_location rule)) of
     (Regex, Some path) \<Rightarrow> map_option (\<lambda>e. ''invalid path regex: '' @ e) (bad_regex path)
   | _ \<Rightarrow> None)"

definition save_breakpoints :: "string option \<Rightarrow> bp_reply \<Rightarrow> bp_manager \<Rightarrow> bp_rule list \<Rightarrow> bp_reply \<times> bp_admin" where
  "save_breakpoints io r m file = (case io of
     Some e \<Rightarrow> (Br_Storage_Error e, m, file) | None \<Rightarrow> (r, m, bm_rules m))"

definition add_bp_rule ::
    "(string \<Rightarrow> string option) \<Rightarrow> string option \<Rightarrow> string \<Rightarrow> bp_rule \<Rightarrow> bp_admin \<Rightarrow> bp_reply \<times> bp_admin" where
  "add_bp_rule bad_regex io new_id rule0 w = (case validate_location bad_regex rule0 of
     Some e \<Rightarrow> (Br_Unprocessable e, w)
   | None \<Rightarrow> (let rule = rule0\<lparr>br_id := new_id\<rparr>
              in save_breakpoints io (Br_Created rule) (bm_add_rule (fst w) rule) (snd w)))"

definition delete_bp_rule :: "string option \<Rightarrow> string \<Rightarrow> bp_admin \<Rightarrow> bp_reply \<times> bp_admin" where
  "delete_bp_rule io i w = save_breakpoints io Br_Ok (bm_delete_rule (fst w) i) (snd w)"

definition update_bp_rule ::
    "(string \<Rightarrow> string option) \<Rightarrow> string option \<Rightarrow> string \<Rightarrow> bp_rule \<Rightarrow> bp_admin \<Rightarrow> bp_reply \<times> bp_admin" where
  "update_bp_rule bad_regex io i rule w = (case validate_location bad_regex rule of
     Some e \<Rightarrow> (Br_Unprocessable e, w)
   | None \<Rightarrow> (case bm_update_rule (fst w) i rule of
       (False, _) \<Rightarrow> (Br_Not_Found [], w)
     | (True, m) \<Rightarrow> save_breakpoints io Br_Ok m (snd w)))"

definition resolve_bp ::
    "string \<Rightarrow> string \<Rightarrow> bp_context option \<Rightarrow> bp_manager \<Rightarrow> bp_reply \<times> (pending_breakpoint \<times> bp_resolution) option \<times> bp_manager" where
  "resolve_bp i act context m = (case bm_resolve m i (resolution_of_request act context) of
     (Inl e, m') \<Rightarrow> (Br_Not_Found e, None, m') | (Inr woken, m') \<Rightarrow> (Br_Ok, Some woken, m'))"

section \<open>What a waiting call has seen\<close>

text \<open>The manager goes from \<open>m\<close> to \<open>m'\<close> while the writer applies \<open>log1\<close> and the queue accepts \<open>took\<close>.\<close>

definition goes_to :: "session_manager \<Rightarrow> (clock \<times> write_op) list \<Rightarrow> write_op list \<Rightarrow> session_manager \<Rightarrow> bool" where
  "goes_to m log1 took m' \<longleftrightarrow> map snd log1 @ sm_queue m' = sm_queue m @ took \<and> sm_store m' = apply_ops (sm_store m) log1"

lemma apply_ops_append [simp]: "apply_ops s (xs @ ys) = apply_ops (apply_ops s xs) ys"
  by (simp add: apply_ops_def)

lemma apply_ops_simps [simp]:
  "apply_ops s [] = s" "apply_ops s ((c, op) # ops) = apply_ops (fst (process_write_op c op s)) ops"
  by (simp_all add: apply_ops_def)

lemma goes_refl: "goes_to m [] [] m"
  by (simp add: goes_to_def)

lemma goes_trans: "goes_to m l1 a1 m1 \<Longrightarrow> goes_to m1 l2 a2 m2 \<Longrightarrow> goes_to m (l1 @ l2) (a1 @ a2) m2"
  unfolding goes_to_def by (metis append.assoc apply_ops_append map_append)

lemma enqueue_goes: "\<exists>took. goes_to m [] took (enqueue m op) \<and> sm_queue (enqueue m op) = sm_queue m @ took"
  by (auto simp: goes_to_def enqueue_def)

lemma writes_goes: "sm_queue m = op # ops \<Longrightarrow> goes_to m [(clock, op)] [] (manager_step m (Writes clock))
    \<and> sm_queue (manager_step m (Writes clock)) = ops"
  by (auto simp: goes_to_def manager_step_def writer_iteration_def split: prod.splits)

lemma step_goes: "\<exists>log1 took. goes_to m log1 took (manager_step m e)"
proof (cases e)
  case (Sends op)
  then show ?thesis using enqueue_goes [of m op] by (auto simp: manager_step_def)
next
  case (Writes clock)
  then show ?thesis
  proof (cases "sm_queue m")
    case Nil
    with Writes have "manager_step m e = m" by (simp add: manager_step_def writer_iteration_def)
    then show ?thesis using goes_refl [of m] by metis
  next
    case (Cons op ops)
    then show ?thesis using writes_goes [OF Cons, of clock] unfolding Writes by blast
  qed
qed

lemma run_goes: "\<exists>log1 took. goes_to m log1 took (manager_run es m)"
proof (induction es arbitrary: m)
  case Nil
  then show ?case using goes_refl by (auto simp: manager_run_def)
next
  case (Cons e es)
  obtain l1 a1 where "goes_to m l1 a1 (manager_step m e)" using step_goes by blast
  moreover obtain l2 a2 where "goes_to (manager_step m e) l2 a2 (manager_run es (manager_step m e))" using Cons by blast
  ultimately show ?case by (auto simp: manager_run_def dest: goes_trans)
qed

lemma await_goes:
  "await_reply es k m = Some (r, m') \<Longrightarrow> k < length (sm_queue m) \<Longrightarrow>
   \<exists>log1 clock took. length log1 = k \<and> goes_to m (log1 @ [(clock, sm_queue m ! k)]) took m'
     \<and> r = snd (snd (process_write_op clock (sm_queue m ! k) (apply_ops (sm_store m) log1)))"
proof (induction es k m rule: await_reply.induct)
  case (2 op es k m)
  obtain a where a: "goes_to m [] a (enqueue m op)" "sm_queue (enqueue m op) = sm_queue m @ a" using enqueue_goes by blast
  with 2 obtain log1 clock took where "length log1 = k" "goes_to (enqueue m op) (log1 @ [(clock, sm_queue m ! k)]) took m'"
    "r = snd (snd (process_write_op clock (sm_queue m ! k) (apply_ops (sm_store (enqueue m op)) log1)))"
    by (auto simp: nth_append)
  moreover from this have "goes_to m (log1 @ [(clock, sm_queue m ! k)]) (a @ took) m'" using goes_trans [OF a(1)] by fastforce
  moreover have "sm_store (enqueue m op) = sm_store m" using a(1) by (simp add: goes_to_def)
  ultimately show ?case by (intro exI [of _ log1] exI [of _ clock] exI [of _ "a @ took"]) simp
next
  case (3 clock es k m)
  then obtain op ops where q: "sm_queue m = op # ops" by (cases "sm_queue m") auto
  note w = writes_goes [OF q, of clock]
  show ?case
  proof (cases k)
    case 0
    with 3 q w show ?thesis by (intro exI [of _ "[]"] exI [of _ clock] exI [of _ "[]"]) simp
  next
    case (Suc j)
    with 3 q w obtain log1 c took where "length log1 = j"
      "goes_to (manager_step m (Writes clock)) (log1 @ [(c, sm_queue m ! k)]) took m'"
      "r = snd (snd (process_write_op c (sm_queue m ! k) (apply_ops (sm_store (manager_step m (Writes clock))) log1)))"
      by auto
    with w Suc show ?thesis
      by (intro exI [of _ "(clock, op) # log1"] exI [of _ c] exI [of _ took])
        (auto dest: goes_trans [OF conjunct1 [OF w]] simp: goes_to_def)
  qed
qed simp

lemma send_and_wait_goes:
  assumes "send_and_wait sc op m = Some (r, m')"
  obtains log1 clock rest accepted took where "map snd log1 = sm_queue m @ accepted"
    "goes_to m (log1 @ (clock, op) # rest) took m'" "r = snd (snd (process_write_op clock op (apply_ops (sm_store m) log1)))"
    "sc_after sc = [] \<longrightarrow> rest = []"
proof -
  define m1 where "m1 = manager_run (sc_before sc) m"
  obtain l0 a0 where before: "goes_to m l0 a0 m1" using run_goes m1_def by blast
  from assms obtain m2 where room: "length (sm_queue m1) < WRITE_QUEUE_CAPACITY"
    and await: "await_reply (sc_waiting sc) (length (sm_queue m1)) (enqueue m1 op) = Some (r, m2)"
    and m': "m' = manager_run (sc_after sc) m2"
    by (auto simp: send_and_wait_def Let_def m1_def split: if_splits)
  have q: "sm_queue (enqueue m1 op) = sm_queue m1 @ [op]" and s: "sm_store (enqueue m1 op) = sm_store m1"
    using room by (simp_all add: enqueue_def)
  have entered: "goes_to m1 [] [op] (enqueue m1 op)" by (simp add: goes_to_def q s)
  obtain log1 clock took where log1: "length log1 = length (sm_queue m1)" "goes_to (enqueue m1 op) (log1 @ [(clock, op)]) took m2"
      "r = snd (snd (process_write_op clock op (apply_ops (sm_store m1) log1)))"
    using await_goes [OF await] by (auto simp: q s)
  have "map snd log1 = sm_queue m1" using log1(1,2) by (simp add: goes_to_def q)
  moreover obtain rest later where after: "goes_to m2 rest later m'" "sc_after sc = [] \<longrightarrow> rest = []"
    using run_goes [of m2 "sc_after sc"] goes_refl [of m2] by (cases "sc_after sc = []") (auto simp: m' manager_run_def)
  ultimately show thesis
  proof (intro that [of "l0 @ log1" a0 clock rest "a0 @ [op] @ took @ later"])
    show "goes_to m ((l0 @ log1) @ (clock, op) # rest) (a0 @ [op] @ took @ later) m'"
      using goes_trans [OF before goes_trans [OF entered goes_trans [OF log1(2) after(1)]]] by simp
  qed (use before log1(3) after(2) in \<open>simp_all add: goes_to_def\<close>)
qed

lemma saved_file:
  assumes "save_to_file cc sc written p (m, fs) = Some (Inr (), m', fs')"
  shows "\<exists>ops later json. map snd ops = sm_queue m @ later \<and> sm_store m' = apply_ops (sm_store m) ops
    \<and> cc_print cc (st_exchanges (sm_store m')) = Inr json \<and> fs' = fs(p \<mapsto> json)"
proof -
  from assms obtain r where flushed: "send_and_wait sc WO_Flush m = Some (r, m')"
    and stored: "\<exists>json. cc_print cc (st_exchanges (sm_store m')) = Inr json \<and> fs' = fs(p \<mapsto> json)"
    by (auto simp: save_to_file_def flush_def write_file_def split: option.splits sum.splits prod.splits write_outcome.splits)
  obtain log1 clock rest accepted took where "map snd log1 = sm_queue m @ accepted"
    "goes_to m (log1 @ (clock, WO_Flush) # rest) took m'"
    using flushed by (rule send_and_wait_goes)
  then show ?thesis using stored
    by (intro exI [of _ "log1 @ (clock, WO_Flush) # rest"] exI [of _ "accepted @ WO_Flush # map snd rest"])
      (auto simp: goes_to_def)
qed

text \<open>A session file that was saved holds everything that was sent before: it is the printed form of the
  sessions after every operation that stood in the queue when saving was asked for, in their order, whatever the
  other tasks sent and however the writer was scheduled in the meantime.\<close>

theorem saved_file_complete:
  assumes "save_to_file cc sc written p (m, fs) = Some (Inr (), m', fs')"
  shows "\<exists>ops later json. map snd ops = sm_queue m @ later \<and> sm_store m' = apply_ops (sm_store m) ops
    \<and> cc_print cc (st_exchanges (sm_store m')) = Inr json \<and> fs' = fs(p \<mapsto> json)"
  using assms by (rule saved_file)

theorem saved_file_complete_witness:
  "\<exists>ops later json. map snd ops = [WO_ClearSessions] @ later
     \<and> sm_store (with_body_budget 2 10) = apply_ops (sm_store (with_body_budget 2 10)) ops
     \<and> (Inr ''{}'' :: string + string) = Inr json \<and> [''s.json'' \<mapsto> ''{}''] = Map.empty(''s.json'' \<mapsto> json)"
proof -
  let ?m = "enqueue (with_body_budget 2 10) WO_ClearSessions"
  let ?cc = "\<lparr>cc_print = \<lambda>_. Inr ''{}'', cc_parse = \<lambda>_. Inr []\<rparr>"
  let ?sc = "\<lparr>sc_before = [], sc_waiting = [Writes (\<lambda>_. 0), Writes (\<lambda>_. 0)], sc_after = []\<rparr>"
  let ?m' = "(with_body_budget 2 10)\<lparr>sm_changes := [(None, SessionsCleared)]\<rparr>"
  have "save_to_file ?cc ?sc Written ''s.json'' (?m, Map.empty) = Some (Inr (), ?m', [''s.json'' \<mapsto> ''{}''])"
    by (simp add: save_to_file_def flush_def send_and_wait_def manager_run_def manager_step_def writer_iteration_def
        with_body_budget_def enqueue_def process_write_op_def ss_clear_def write_file_def WRITE_QUEUE_CAPACITY_def)
  from saved_file_complete [OF this] show ?thesis by (simp add: with_body_budget_def enqueue_def WRITE_QUEUE_CAPACITY_def)
qed

lemma replace_within:
  "retained m \<le> st_max_retained_body_bytes s \<Longrightarrow> st_exchanges (ss_replace s m) = m"
  by (simp add: ss_replace_def enforce_body_budget_def)

text \<open>Saving and loading is the identity on the sessions: when the decoder reads back what the printer wrote,
  the sessions of the manager that saved appear, in their order and with their bodies, in the manager that has
  loaded the file, whatever stood there before, provided that their bodies fit into its budget.\<close>

theorem save_load_roundtrip:
  assumes codec: "\<And>xs json. cc_print cc xs = Inr json \<Longrightarrow> cc_parse cc json = Inr xs"
    and save: "save_to_file cc sc written p (m, fs) = Some (Inr (), m', fs')"
    and load: "load_from_file cc sc2 missing p (m2, fs') = Some (Inr (), m3)" "sc_after sc2 = []"
    and fits: "retained (st_exchanges (sm_store m')) \<le> st_max_retained_body_bytes (sm_store m2)"
  shows "get_all_sessions (sm_store m3) = get_all_sessions (sm_store m')"
proof -
  obtain json where json: "cc_print cc (st_exchanges (sm_store m')) = Inr json" "fs' p = Some json"
    using saved_file [OF save] by auto
  with load(1) codec obtain r where "send_and_wait sc2 (WO_LoadData (st_exchanges (sm_store m'))) m2 = Some (r, m3)"
    by (auto simp: load_from_file_def)
  then obtain log1 clock rest accepted took where
    "goes_to m2 (log1 @ (clock, WO_LoadData (st_exchanges (sm_store m'))) # rest) took m3" "sc_after sc2 = [] \<longrightarrow> rest = []"
    by (rule send_and_wait_goes)
  then have "sm_store m3 = ss_replace (apply_ops (sm_store m2) log1) (st_exchanges (sm_store m'))"
    using load(2) by (simp add: goes_to_def process_write_op_def)
  then show ?thesis using fits by (simp add: get_all_sessions_def replace_within)
qed

theorem save_load_roundtrip_witness:
  "get_all_sessions (sm_store (with_body_budget 3 7)) = get_all_sessions (sm_store (with_body_budget 2 10))"
proof -
  let ?cc = "\<lparr>cc_print = \<lambda>xs. if xs = [] then Inr ''{}'' else Inl [], cc_parse = \<lambda>_. Inr []\<rparr>"
  let ?sc = "\<lparr>sc_before = [], sc_waiting = [Writes (\<lambda>_. 0)], sc_after = []\<rparr>"
  let ?loaded = "(with_body_budget 3 7)\<lparr>sm_changes := [(None, SessionsImported)]\<rparr>"
  have save: "save_to_file ?cc ?sc Written ''s.json'' (with_body_budget 2 10, Map.empty)
      = Some (Inr (), with_body_budget 2 10, [''s.json'' \<mapsto> ''{}''])"
    by (simp add: save_to_file_def flush_def send_and_wait_def manager_run_def manager_step_def writer_iteration_def
        with_body_budget_def enqueue_def process_write_op_def write_file_def WRITE_QUEUE_CAPACITY_def)
  have load: "load_from_file ?cc ?sc [] ''s.json'' (with_body_budget 3 7, [''s.json'' \<mapsto> ''{}'']) = Some (Inr (), ?loaded)"
    by (simp add: load_from_file_def send_and_wait_def manager_run_def manager_step_def writer_iteration_def
        with_body_budget_def enqueue_def process_write_op_def ss_replace_def enforce_body_budget_def weight_def
        WRITE_QUEUE_CAPACITY_def)
  have "get_all_sessions (sm_store ?loaded) = get_all_sessions (sm_store (with_body_budget 2 10))"
    by (rule save_load_roundtrip [OF _ save load]) (auto simp: with_body_budget_def weight_def split: if_splits)
  then show ?thesis by simp
qed

section \<open>What can get lost\<close>

text \<open>A failed save leaves a broken file where a complete one may have been.\<close>

lemma failed_save_truncates:
  assumes "flush sc m = Some m'" "cc_print cc (st_exchanges (sm_store m')) = Inr json"
  shows "save_to_file cc sc (Broken_Off e n) p (m, fs) = Some (Inl e, m', fs(p \<mapsto> take n json))"
  using assms by (simp add: save_to_file_def write_file_def)

text \<open>With a full queue the request to clear the sessions is dropped and still answered as done.\<close>

lemma clear_dropped:
  assumes "length (sm_queue m) = WRITE_QUEUE_CAPACITY"
  shows "clear_sessions sc m
    = map_option (Pair Sr_Ok) (flush sc (m\<lparr>sm_dropped_writes := sm_dropped_writes m + 1\<rparr>))"
  using assms by (simp add: clear_sessions_def enqueue_def)

text \<open>With one free place a replacing import clears the store and imports nothing, and reports the full count.\<close>

lemma replacing_import_lost:
  assumes "Suc (length (sm_queue m)) = WRITE_QUEUE_CAPACITY"
  shows "import_sessions [] False xs m = (Sr_Imported (length xs),
    m\<lparr>sm_queue := sm_queue m @ [WO_ClearSessions], sm_dropped_writes := sm_dropped_writes m + 1\<rparr>)"
  using assms by (simp add: import_sessions_def manager_run_def enqueue_def)

section \<open>The waterfall adds up\<close>

definition total_duration :: "phase list \<Rightarrow> nat" where
  "total_duration ps = (\<Sum>p\<leftarrow>ps. unat (ph_duration p))"

definition millis :: "u64 option \<Rightarrow> nat" where
  "millis d = (case d of Some n \<Rightarrow> unat n | None \<Rightarrow> 0)"

lemma opt_phase_adds:
  assumes "total_duration ps = unat c" "unat c + millis d < 2 ^ 64" "opt_phase name d (c, ps) = (c', ps')"
  shows "total_duration ps' = unat c' \<and> unat c' = unat c + millis d"
  using assms by (cases d) (auto simp: opt_phase_def millis_def total_duration_def unat_add_lem [where 'a = 64, simplified])

lemma saturating_sub_nat: "unat (SessionViews.saturating_sub a b) = unat a - unat b"
  by (simp add: SessionViews.saturating_sub_def unat_sub word_le_nat_alt)

lemma millis_positive: "millis (if n > 0 then Some n else None) = unat n"
  by (simp add: millis_def word_gt_0)

text \<open>The waterfall of a request adds up. When the times of resolving, connecting and the handshake, of the
  first byte and of the body are not near the range of their type, the phases follow one another without a gap
  from zero, and their lengths sum up to the time of the first byte, or of the connection if that took longer,
  and the time of the body.\<close>

theorem waterfall_adds_up:
  assumes "millis (im_dns_ms m) + millis (im_tcp_connect_ms m) + millis (im_tls_ms m) < 2 ^ 63"
    and "unat (im_ttfb_ms m) < 2 ^ 63" "unat (im_body_ms m) < 2 ^ 63"
  shows "contiguous 0 (timing_phases m)
    \<and> total_duration (timing_phases m)
       = max (unat (im_ttfb_ms m)) (millis (im_dns_ms m) + millis (im_tcp_connect_ms m) + millis (im_tls_ms m))
         + unat (im_body_ms m)"
proof -
  obtain c1 p1 where 1: "opt_phase ''dns'' (im_dns_ms m) (0, []) = (c1, p1)" by fastforce
  obtain c2 p2 where 2: "opt_phase ''tcp'' (im_tcp_connect_ms m) (c1, p1) = (c2, p2)" by fastforce
  obtain c3 p3 where 3: "opt_phase ''tls'' (im_tls_ms m) (c2, p2) = (c3, p3)" by fastforce
  define wait where "wait = SessionViews.saturating_sub (im_ttfb_ms m) c3"
  define w where "w = (if wait > 0 then Some wait else None)"
  define b where "b = (if im_body_ms m > 0 then Some (im_body_ms m) else None)"
  obtain c4 p4 where 4: "opt_phase ''wait'' w (c3, p3) = (c4, p4)" by fastforce
  obtain c5 p5 where 5: "opt_phase ''body'' b (c4, p4) = (c5, p5)" by fastforce
  have s1: "total_duration p1 = unat c1 \<and> unat c1 = millis (im_dns_ms m)"
    using opt_phase_adds [OF _ _ 1] assms(1) by (simp add: total_duration_def)
  then have s2: "total_duration p2 = unat c2 \<and> unat c2 = unat c1 + millis (im_tcp_connect_ms m)"
    using opt_phase_adds [OF _ _ 2] assms(1) by simp
  then have s3: "total_duration p3 = unat c3 \<and> unat c3 = unat c2 + millis (im_tls_ms m)"
    using opt_phase_adds [OF _ _ 3] s1 assms(1) by simp
  have w: "millis w = unat (im_ttfb_ms m) - unat c3" and b: "millis b = unat (im_body_ms m)"
    unfolding w_def b_def millis_positive by (simp_all add: wait_def saturating_sub_nat)
  have s4: "total_duration p4 = unat c4 \<and> unat c4 = unat c3 + millis w"
    using opt_phase_adds [OF _ _ 4] s1 s2 s3 assms(1,2) by (simp add: w)
  have s5: "total_duration p5 = unat c5 \<and> unat c5 = unat c4 + unat (im_body_ms m)"
    using opt_phase_adds [OF _ _ 5] s1 s2 s3 s4 assms by (simp add: w b)
  have "timing_phases m = p5"
    by (simp only: timing_phases_def Let_def 1 2 3 4 [unfolded w_def wait_def] 5 [unfolded b_def] prod.sel)
  then show ?thesis using timing_phases_contiguous [of m] s1 s2 s3 s4 s5 by (simp add: w)
qed

theorem waterfall_adds_up_witness:
  "total_duration (timing_phases (im_default\<lparr>im_dns_ms := Some 3, im_tls_ms := Some 4, im_ttfb_ms := 9, im_body_ms := 2\<rparr>)) = 11"
  using waterfall_adds_up [of "im_default\<lparr>im_dns_ms := Some 3, im_tls_ms := Some 4, im_ttfb_ms := 9, im_body_ms := 2\<rparr>"]
  by (simp add: im_default_def millis_def)

section \<open>The file of the breakpoints\<close>

definition rules_valid :: "(string \<Rightarrow> string option) \<Rightarrow> bp_rule list \<Rightarrow> bool" where
  "rules_valid bad_regex rules \<longleftrightarrow> list_all (\<lambda>r. validate_location bad_regex r = None) rules"

lemma validate_id [simp]: "validate_location bad_regex (r\<lparr>br_id := i\<rparr>) = validate_location bad_regex r"
  by (simp add: validate_location_def)

lemma replace_rule_valid:
  "replace_rule rules i r = Some rules' \<Longrightarrow> rules_valid bad_regex rules \<Longrightarrow> validate_location bad_regex r = None \<Longrightarrow>
   rules_valid bad_regex rules'"
proof (induction rules arbitrary: rules')
  case (Cons x xs)
  then show ?case by (cases "br_id x = i") (auto simp: rules_valid_def)
qed simp

text \<open>The handlers keep every pattern in the table well formed, and what was saved is what is in force.\<close>

theorem breakpoint_rules_valid:
  assumes "rules_valid bad_regex (bm_rules m)"
    and "(r, m', file1) = add_bp_rule bad_regex io new_id rule (m, file0)
       \<or> (r, m', file1) = update_bp_rule bad_regex io i rule (m, file0) \<or> (r, m', file1) = delete_bp_rule io i (m, file0)"
  shows "rules_valid bad_regex (bm_rules m') \<and> (r = Br_Ok \<or> r = Br_Created rule' \<longrightarrow> file1 = bm_rules m')"
  using assms
  by (auto simp: add_bp_rule_def update_bp_rule_def delete_bp_rule_def save_breakpoints_def bm_add_rule_def
      bm_update_rule_def bm_delete_rule_def Let_def rules_valid_def list_all_iff
      dest: replace_rule_valid [unfolded rules_valid_def list_all_iff] split: option.splits prod.splits if_splits)

end
