(* ===== verification/Metrics.thy ===== *)
theory Metrics
  imports SessionStore
begin

text \<open>
  The timing of the admin endpoints and the counters of the metrics page (\<open>control_plane/metrics.rs\<close>). The
  samples are a deque behind a mutex: a list, oldest first. Sums of \<open>u64\<close> wrap, as they do in a release build;
  \<open>rfc3339\<close> prints a time.
\<close>

section \<open>Endpoint timings\<close>

definition endpoint_timing_limit :: nat where "endpoint_timing_limit = 64"

record timing_sample =
  ts_endpoint :: string
  ts_duration_ms :: u64
  ts_session_count :: nat
  ts_timestamp :: timestamp

text \<open>\<open>elapsed\<close> is the duration in milliseconds, which may exceed a \<open>u64\<close>.\<close>

definition record_timing :: "string \<Rightarrow> nat \<Rightarrow> nat \<Rightarrow> timestamp \<Rightarrow> timing_sample list \<Rightarrow> timing_sample list" where
  "record_timing endpoint elapsed session_count now samples =
     (let kept = (if length samples \<ge> endpoint_timing_limit then drop 1 samples else samples)
      in kept @ [\<lparr>ts_endpoint = endpoint, ts_duration_ms = (if elapsed < 2 ^ 64 then of_nat elapsed else -1),
                  ts_session_count = session_count, ts_timestamp = now\<rparr>])"

record timing_summary =
  tm_samples :: nat
  tm_last_ms :: u64
  tm_avg_ms :: u64
  tm_max_ms :: u64
  tm_last_session_count :: nat

definition summarise :: "timing_sample list \<Rightarrow> timing_summary" where
  "summarise xs =
     (let amount = sum_list (map ts_duration_ms xs)
      in \<lparr>tm_samples = length xs,
          tm_last_ms = (if xs = [] then 0 else ts_duration_ms (last xs)),
          tm_avg_ms = (if xs = [] then 0 else amount div of_nat (length xs)),
          tm_max_ms = foldl max 0 (map ts_duration_ms xs),
          tm_last_session_count = (if xs = [] then 0 else ts_session_count (last xs))\<rparr>)"

text \<open>The summaries are a sorted map in the answer; which endpoints it has and what it says of each is what counts.\<close>

definition timing_summaries :: "timing_sample list \<Rightarrow> string \<rightharpoonup> timing_summary" where
  "timing_summaries samples endpoint =
     (if endpoint \<in> ts_endpoint ` set samples
      then Some (summarise (filter (\<lambda>x. ts_endpoint x = endpoint) samples)) else None)"

definition recent_timings :: "timing_sample list \<Rightarrow> timing_sample list" where
  "recent_timings samples = take 12 (rev samples)"

section \<open>Counters over the sessions\<close>

record metrics_payload =
  mp_captured :: nat
  mp_active :: nat
  mp_completed :: nat
  mp_proxied :: nat
  mp_admin_forward :: nat
  mp_playback :: nat
  mp_imported :: nat
  mp_inspected :: nat
  mp_errors :: nat
  mp_latency_samples :: "u64 list"
  mp_total_request_bytes :: u64
  mp_total_response_bytes :: u64
  mp_avg_latency_ms :: u64
  mp_avg_request_size_bytes :: u64
  mp_avg_response_size_bytes :: u64

definition count_if :: "('a \<Rightarrow> bool) \<Rightarrow> 'a list \<Rightarrow> nat" where
  "count_if P xs = length (filter P xs)"

definition average :: "u64 \<Rightarrow> nat \<Rightarrow> u64" where
  "average amount n = (if n > 0 then amount div of_nat n else 0)"

definition build_metrics_payload :: "exchange list \<Rightarrow> metrics_payload" where
  "build_metrics_payload sessions =
     (let raw = List.map_filter ex_metrics sessions;
          captured = length sessions;
          active = count_if (\<lambda>s. ex_response s = None) sessions;
          from_source = (\<lambda>src. count_if (\<lambda>s. ex_source s = src) sessions);
          inspected = length raw;
          request_bytes = sum_list (map (\<lambda>m. of_nat (im_request_size_bytes m)) raw);
          response_bytes = sum_list (map (\<lambda>m. of_nat (im_response_size_bytes m)) raw)
      in \<lparr>mp_captured = captured, mp_active = active, mp_completed = captured - active,
          mp_proxied = from_source Proxy, mp_admin_forward = from_source AdminForward,
          mp_playback = from_source Playback, mp_imported = from_source Imported, mp_inspected = inspected,
          mp_errors = count_if (\<lambda>m. im_status_code m \<ge> 400) raw, mp_latency_samples = map im_latency_ms raw,
          mp_total_request_bytes = request_bytes, mp_total_response_bytes = response_bytes,
          mp_avg_latency_ms = average (sum_list (map im_latency_ms raw)) inspected,
          mp_avg_request_size_bytes = average request_bytes inspected,
          mp_avg_response_size_bytes = average response_bytes inspected\<rparr>)"

section \<open>The deque is the last samples, and the counters add up\<close>

definition sample_of :: "string \<times> nat \<times> nat \<times> timestamp \<Rightarrow> timing_sample" where
  "sample_of x = (case x of (endpoint, elapsed, n, now) \<Rightarrow>
     \<lparr>ts_endpoint = endpoint, ts_duration_ms = (if elapsed < 2 ^ 64 then of_nat elapsed else -1),
      ts_session_count = n, ts_timestamp = now\<rparr>)"

lemma record_timing_last:
  "record_timing e d n t (drop (length xs - 64) xs) = drop (length (xs @ [sample_of (e, d, n, t)]) - 64) (xs @ [sample_of (e, d, n, t)])"
proof -
  have "64 \<le> length xs - (length xs - 64) \<Longrightarrow> Suc (length xs - 64) = length xs - 63" by arith
  then show ?thesis by (auto simp: record_timing_def sample_of_def endpoint_timing_limit_def Let_def)
qed

text \<open>However many requests were timed, the deque holds the latest sixty-four of them in their order.\<close>

theorem timings_are_the_latest:
  "foldl (\<lambda>samples (e, d, n, t). record_timing e d n t samples) [] xs = drop (length xs - 64) (map sample_of xs)"
proof (induction xs rule: rev_induct)
  case (snoc x xs)
  obtain e d n t where x: "x = (e, d, n, t)" by (cases x)
  show ?case using snoc record_timing_last [of e d n t "map sample_of xs"] by (simp add: x)
qed simp

lemma count_complement: "count_if P xs + count_if (\<lambda>x. \<not> P x) xs = length xs"
  unfolding count_if_def by (rule sum_length_filter_compl)

lemma sources_add_up:
  "count_if (\<lambda>s. f s = Proxy) xs + count_if (\<lambda>s. f s = AdminForward) xs + count_if (\<lambda>s. f s = Playback) xs
     + count_if (\<lambda>s. f s = Imported) xs = length xs"
proof (induction xs)
  case (Cons x xs)
  then show ?case by (cases "f x") (simp_all add: count_if_def)
qed (simp add: count_if_def)

text \<open>Every captured session is active or completed, and is counted under exactly one source; at most the
  inspected ones are errors.\<close>

theorem counters_add_up:
  "mp_active (build_metrics_payload xs) + mp_completed (build_metrics_payload xs) = length xs
   \<and> mp_proxied (build_metrics_payload xs) + mp_admin_forward (build_metrics_payload xs)
      + mp_playback (build_metrics_payload xs) + mp_imported (build_metrics_payload xs) = length xs
   \<and> mp_errors (build_metrics_payload xs) \<le> mp_inspected (build_metrics_payload xs)"
  using count_complement [of "\<lambda>s. ex_response s = None" xs] sources_add_up [of ex_source xs]
  by (simp add: build_metrics_payload_def Let_def) (simp add: count_if_def)

end
