(* ===== verification/Spec2Isabelle.thy ===== *)
theory Spec2Isabelle
  imports RoutingPlugins Rules Mock Breakpoints Grpc SessionStore EngineWire Context Matcher Engine MapLocal
    AssistantRedaction SessionDiff SessionViews Security Redaction Socks5 Connect Lifecycle Runtime
    Auth Storage AdminTables Webhooks UpdateCheck Playback Export Har WebSockets Config Startup AdminForward
    AssistantCompat SessionApi Metrics
begin

text \<open>
  A model of \<open>oproxy\<close>, an intercepting HTTP proxy written in Rust (sources under \<open>src/src\<close>).

  \<^bold>\<open>The program.\<close> A listener accepts a client, reads a request and gives it to the engine
  (\<open>core/engine/mod.rs\<close>). The engine guards the exchange with a terminal record, refuses loops, reads
  the body within its limits, runs the request through a chain of plugins (\<open>middleware/chain.rs\<close> and
  \<open>middleware/plugins\<close>), forwards it, runs the response through the same chain backwards and relays
  it. Plugins may answer on behalf of the upstream, rewrite, delay, pause or record. Everything that
  is recorded goes as write operations through a queue to one writer task, which keeps the session
  store within its limits (\<open>session/mod.rs\<close>). The admin interface lists, searches, aggregates,
  compares and redacts the recorded sessions.

  \<^bold>\<open>Theories and sources.\<close> In the order of import:

  \<^item> \<open>Prelude\<close>: widths of integers, byte strings as Rust has them, searching and splitting strings,
    the \<open>or_panic\<close> result for code that can panic, and lemmas on lists and maps. \<open>Utf8\<close>: decoding with
    replacement, characters, truncation at a byte offset.
  \<^item> \<open>Headers\<close> (\<open>middleware/mod.rs\<close>, \<open>HeaderMap\<close>): the ordered multi-map with case-insensitive names.
  \<^item> \<open>Forward\<close> (\<open>core/forward.rs\<close>): protocol contexts, capability plans and the execution class.
  \<^item> \<open>SessionTypes\<close>, \<open>IndexMap\<close>, \<open>SessionStore\<close> (\<open>session/mod.rs\<close>): exchanges, the store in insertion
    order, write operations, eviction, the body budget, the writer task and its queue.
  \<^item> \<open>EngineWire\<close> (\<open>core/engine/wire.rs\<close>), \<open>Context\<close> (\<open>middleware/mod.rs\<close>): header sanitising, the
    contexts given to plugins and their serialised forms.
  \<^item> \<open>Matcher\<close> (\<open>middleware/matcher.rs\<close>): locations, globs, match targets.
  \<^item> \<open>Chain\<close> (\<open>middleware/chain.rs\<close>): a plugin is a record of functions over a shared state of any type
    \<open>'w\<close>; the chain runs them in order, and backwards for responses.
  \<^item> \<open>RoutingPlugins\<close>, \<open>Rules\<close>, \<open>Mock\<close>, \<open>MapLocal\<close>, \<open>Breakpoints\<close>, \<open>Grpc\<close>, \<open>Inspectors\<close>, \<open>Lua\<close>: the plugins
    of \<open>middleware/plugins\<close>. \<open>Recorder\<close>: what plugins and engine see of the session store.
  \<^item> \<open>Engine\<close> (\<open>core/engine/mod.rs\<close>, \<open>core/decompression.rs\<close>): the path of an exchange.
  \<^item> \<open>SessionList\<close>, \<open>SessionViews\<close>, \<open>SessionDiff\<close> (\<open>session/search.rs\<close>, \<open>api/mod.rs\<close>,
    \<open>control_plane/sessions.rs\<close>, \<open>diff.rs\<close>): what the admin interface computes from sessions.
  \<^item> \<open>Redaction\<close>, \<open>AssistantRedaction\<close>, \<open>Ip\<close>, \<open>Security\<close> (\<open>redaction.rs\<close>,
    \<open>control_plane/assistant_redaction.rs\<close>, \<open>security.rs\<close>): hiding secrets, and the egress policy.
  \<^item> \<open>Socks5\<close>, \<open>Connect\<close>, \<open>Lifecycle\<close> (\<open>transport\<close>): the SOCKS5 handshake and tunnel, CONNECT tunnels,
    and connection limits with the drain at shutdown.
  \<^item> \<open>Runtime\<close> (\<open>runtime/state.rs\<close>): the chain the program really runs, with every plugin model in its
    place and one shared state.
  \<^item> \<open>Auth\<close> (\<open>control_plane/auth.rs\<close>, \<open>login.rs\<close>): who may use the admin interface. \<open>Storage\<close>
    (\<open>storage.rs\<close>): saving files atomically, as steps of the file system. \<open>AdminTables\<close> (\<open>policy.rs\<close>,
    \<open>extensions.rs\<close>, \<open>settings.rs\<close>, \<open>storage_paths.rs\<close>): the handlers that edit rules, scripts,
    fixtures and settings. \<open>Webhooks\<close> (\<open>webhooks.rs\<close>): their table and their delivery.
    \<open>UpdateCheck\<close> (\<open>control_plane/update.rs\<close>): comparing releases. \<open>Playback\<close>
    (\<open>core/playback.rs\<close>): sending recorded requests again.
  \<^item> \<open>Export\<close> (\<open>export.rs\<close>): sessions as curl, fetch and Python, and the import of curl commands.
    \<open>Har\<close> (\<open>har.rs\<close>): HTTP archives, with doubles as rationals that are rounded. \<open>Utf8_Strings\<close>: the
    lemmas on strings they share. \<open>WebSockets\<close> (\<open>transport/websocket.rs\<close>): the upgrade and the relay of
    frames in both directions, with breakpoints, recording and mock scripts.
  \<^item> \<open>Config\<close> (\<open>config/mod.rs\<close>, \<open>setup.rs\<close>): the configuration file, the environment and validation.
    \<open>Startup\<close> (\<open>runtime/app.rs\<close>, \<open>listeners.rs\<close>, \<open>state.rs\<close>, \<open>error.rs\<close>): binding the listeners, the
    accept loops and the summary that is logged.
  \<^item> \<open>AdminForward\<close> (\<open>control_plane/forward.rs\<close>): requests and WebSocket conversations that the admin
    interface sends. \<open>PayloadRepair\<close> and \<open>Workspace\<close> (\<open>control_plane/assistant_payload_repair.rs\<close>,
    \<open>workspace.rs\<close>): the state of the user interface, its patches and actions.
  \<^item> \<open>AssistantActions\<close> (\<open>control_plane/assistant_action_contracts.rs\<close>, \<open>assistant_actions.rs\<close>): the
    endpoints an assistant may change, and their execution on the tables in memory and on disk.
    \<open>AssistantTools\<close> (\<open>assistant_contracts.rs\<close>, \<open>assistant_registry.rs\<close>, \<open>assistant_tools.rs\<close>): what
    the model may call. \<open>Assistant\<close> (\<open>assistant.rs\<close>, \<open>assistant_provider.rs\<close>): the actions that wait for a
    confirmation and the conversation with the provider. \<open>AssistantCompat\<close> (\<open>assistant_compat.rs\<close>): the
    check of a model against the gates and the evaluation suite.
  \<^item> \<open>SessionApi\<close> (\<open>session/mod.rs\<close>, \<open>api/mod.rs\<close>, \<open>control_plane/sessions.rs\<close>, \<open>breakpoints.rs\<close>): the calls
    that wait for the writer, session files and the handlers over sessions and breakpoints. \<open>Metrics\<close>
    (\<open>control_plane/metrics.rs\<close>): timings of endpoints and the counters of the metrics page.

  \<^bold>\<open>How state and effects appear.\<close> A Rust \<open>String\<close> is a list of bytes, \<open>Bytes\<close> a list of 8-bit words,
  \<open>u16\<close>, \<open>u32\<close>, \<open>u64\<close> words of that width and \<open>usize\<close> a natural number, or a 64-bit word where its
  overflow can happen (\<open>Grpc\<close>, \<open>Lua\<close>). Shared state is a value \<open>'w\<close> passed through every call; what a
  component needs of it is a record of functions (\<open>session_world\<close> and its like). Errors and early
  returns are sums and options, panics are the \<open>Panic\<close> case of \<open>or_panic\<close>. Waiting for another task is
  a parameter that says how the wait ends.

  \<^bold>\<open>What the lemmas show.\<close> \<open>Engine\<close>: every exchange that was opened gets a terminal record, loops are
  refused, bodies stay within their limits, a streamed body reaches the client unchanged while its
  recorded copy is capped. \<open>SessionStore\<close>: the number of sessions and the retained bytes stay bounded,
  the accounting is exact, operations are applied in the order they were sent. \<open>Breakpoints\<close>: a
  breakpoint is resolved at most once, by rule induction over the system of handlers. \<open>Matcher\<close>: the
  glob loop agrees with a reference wherever the value has no star. \<open>Grpc\<close>: decoding inverts encoding
  and the relay of frames is transparent. \<open>Redaction\<close>: secrets are hidden and nothing else changes.
  \<open>SessionViews\<close>: the endpoint sweep computes the greatest number of streams in flight. \<open>Socks5\<close>: every
  well-formed handshake is understood whatever the segments it arrives in. \<open>Runtime\<close>: the composed
  chain keeps what its plugins keep, always plans a buffered exchange and asks access control first.
  \<open>Auth\<close>: no admin route is served without the token, and a login redirects within the site.
  \<open>Storage\<close>: whatever the interleaving of saves and crashes, a file holds the contents of the last save
  that finished. \<open>AdminTables\<close>: every table refines one keyed store, given as a locale and interpreted
  for six tables, and files stay inside the storage directory. \<open>Playback\<close>: what is replayed has
  passed the egress policy. \<open>Export\<close> and \<open>Har\<close>: what is exported can be imported again, and what is
  lost in the cases where it cannot. \<open>WebSockets\<close>: frames are relayed and recorded in their order, and
  unchanged where no breakpoint edits them. \<open>Config\<close>: which source wins for every setting, and when
  loading fails. \<open>Startup\<close>: only the main listener can end start-up, and how long a TLS client can wait.
  \<open>AdminForward\<close>: nothing is sent against the egress policy, and every exchange is recorded to its end.
  \<open>Workspace\<close>: every reachable state passes its own checks, and no edit is lost. \<open>AssistantActions\<close>: an
  action changes only the table its endpoint names. \<open>Assistant\<close>: a conversation changes nothing but
  the view, it ends, and what it proposed is carried out at most once, in time and with its token.
  \<open>AssistantCompat\<close>: a case counts as correct exactly when all its fields are. \<open>SessionApi\<close>: a saved file
  holds everything that was sent before, loading gives it back, and a waterfall adds up. \<open>Metrics\<close>: the
  timings kept are the latest ones.

  \<^bold>\<open>Parameters.\<close> The regular expression engine, base64, JSON, URL parsing, UUIDs, clocks, the order of
  a \<open>HashMap\<close>, Unicode lower casing, the text diff, the decoders of compressed bodies, the Lua
  interpreter, the file system, the resolver and the network. Where a result relies on one of them the
  theorem says on what.

  \<^bold>\<open>Bounds and fuel.\<close> No definition uses fuel: loops recurse on their input, or on a measure that the
  \<open>termination\<close> proof names.

  \<^bold>\<open>Not modelled.\<close> The TLS, HTTP/1, HTTP/2 and HTTP/3 listeners (glue over hyper, rustls and quinn),
  certificate generation, logging and telemetry, the table of routes and static assets,
  the prompt and the context texts of the assistant.
\<close>

end
